(* ===== verification/Prelude.thy ===== *)
theory Prelude
  imports Main "HOL-Library.Word"
begin

text \<open>
  Shared vocabulary of the development.

  Both services keep their state in a relational database and run their operations as
  sequences of statements, some of them inside a transaction.  The first part of this theory is
  the effect type the operations are written in: a function from a world to a result and the next
  world.  The world holds the tables as the running operation sees them, the committed tables
  while a transaction is open, the schedule of statement failures (a statement can fail for
  reasons the code does not control: a lost connection, a timeout), and the calls made to other
  systems, which no rollback undoes.  The second part is a small library of table operations
  (SELECT, UPDATE, DELETE and INSERT with ON CONFLICT DO UPDATE on lists of rows).
\<close>

section \<open>Automation and basic types\<close>

named_theorems effect_simps "evaluation of effects"
named_theorems keeps_rules "rules that build invariant preservation along the syntax of an effect"
named_theorems table_simps "lookups after table operations"

type_synonym u64 = "64 word"
type_synonym u32 = "32 word"

text \<open>Instants are nanoseconds since the zero instant of Go's \<open>time.Time\<close>; durations are
  nanoseconds as in Go's \<open>time.Duration\<close>.\<close>

type_synonym instant = int
type_synonym duration = int

definition second :: duration where
  "second = 1000000000"

definition minute :: duration where
  "minute = 60 * second"

definition hour :: duration where
  "hour = 60 * minute"

lemmas duration_defs = second_def minute_def hour_def

text \<open>A Go \<open>uint64\<close> the database can store in a \<open>BIGINT\<close> column; the driver refuses others.\<close>

definition bigint_ok :: "u64 \<Rightarrow> bool" where
  "bigint_ok v \<longleftrightarrow> unat v < 2 ^ 63"

section \<open>Effects\<close>

datatype db_error =
    Connection_Fault
  | Unique_Violation string
  | Check_Violation string
  | Foreign_Key_Violation string
  | Serialization_Failure

record ('d, 'l) world =
  db :: 'd
  base :: "'d option"
  faults :: "bool list"
  calls :: "'l list"

type_synonym ('d, 'l, 'e, 'a) eff = "('d, 'l) world \<Rightarrow> ('e + 'a) \<times> ('d, 'l) world"

definition return :: "'a \<Rightarrow> ('d, 'l, 'e, 'a) eff" where
  "return x = (\<lambda>w. (Inr x, w))"

definition raise :: "'e \<Rightarrow> ('d, 'l, 'e, 'a) eff" where
  "raise e = (\<lambda>w. (Inl e, w))"

definition andThen ::
    "('d, 'l, 'e, 'a) eff \<Rightarrow> ('a \<Rightarrow> ('d, 'l, 'e, 'b) eff) \<Rightarrow> ('d, 'l, 'e, 'b) eff" where
  "andThen m f = (\<lambda>w. case m w of (Inl e, w') \<Rightarrow> (Inl e, w') | (Inr x, w') \<Rightarrow> f x w')"

text \<open>\<open>attempt m\<close> runs \<open>m\<close> and hands its result, error or not, to the caller (Go's
  \<open>x, err := m()\<close> when the error does not end the function).\<close>

definition attempt :: "('d, 'l, 'e, 'a) eff \<Rightarrow> ('d, 'l, 'e, 'e + 'a) eff" where
  "attempt m = (\<lambda>w. case m w of (r, w') \<Rightarrow> (Inr r, w'))"

definition lift_result :: "'e + 'a \<Rightarrow> ('d, 'l, 'e, 'a) eff" where
  "lift_result r = (\<lambda>w. (r, w))"

definition require :: "bool \<Rightarrow> 'e \<Rightarrow> ('d, 'l, 'e, unit) eff" where
  "require c e = (if c then return () else raise e)"

text \<open>\<open>map_error g m\<close> replaces the error of \<open>m\<close> (Go's \<open>return mapError(err)\<close>).\<close>

definition map_error :: "('e \<Rightarrow> 'e) \<Rightarrow> ('d, 'l, 'e, 'a) eff \<Rightarrow> ('d, 'l, 'e, 'a) eff" where
  "map_error g m = (\<lambda>w. case m w of (Inl e, w') \<Rightarrow> (Inl (g e), w') | (Inr x, w') \<Rightarrow> (Inr x, w'))"

text \<open>A call to another system: its outcome is the argument, the call is recorded.\<close>

definition external :: "'l \<Rightarrow> 'e + 'a \<Rightarrow> ('d, 'l, 'e, 'a) eff" where
  "external c r = (\<lambda>w. (r, w\<lparr>calls := calls w @ [c]\<rparr>))"

fun next_fault :: "bool list \<Rightarrow> bool \<times> bool list" where
  "next_fault [] = (False, [])"
| "next_fault (f # fs) = (f, fs)"

text \<open>A statement on the tables the operation sees: it consumes one entry of the failure
  schedule, and changes the tables only when it succeeds.\<close>

definition statement ::
    "(db_error \<Rightarrow> 'e) \<Rightarrow> ('d \<Rightarrow> db_error + ('a \<times> 'd)) \<Rightarrow> ('d, 'l, 'e, 'a) eff" where
  "statement mk q = (\<lambda>w.
     (case next_fault (faults w) of (bad, fs) \<Rightarrow>
        if bad then (Inl (mk Connection_Fault), w\<lparr>faults := fs\<rparr>)
        else case q (db w) of
               Inl e \<Rightarrow> (Inl (mk e), w\<lparr>faults := fs\<rparr>)
             | Inr (x, d) \<Rightarrow> (Inr x, w\<lparr>faults := fs, db := d\<rparr>)))"

text \<open>A statement on its own connection: when a transaction is open it acts on the committed
  tables (so the rollback of that transaction keeps it), and the open transaction sees it.\<close>

definition immediately ::
    "(db_error \<Rightarrow> 'e) \<Rightarrow> ('d \<Rightarrow> db_error + ('a \<times> 'd)) \<Rightarrow> ('d, 'l, 'e, 'a) eff" where
  "immediately mk q = (\<lambda>w.
     (case base w of
        None \<Rightarrow> statement mk q w
      | Some b \<Rightarrow>
          (case next_fault (faults w) of (bad, fs) \<Rightarrow>
             if bad then (Inl (mk Connection_Fault), w\<lparr>faults := fs\<rparr>)
             else case q b of
                    Inl e \<Rightarrow> (Inl (mk e), w\<lparr>faults := fs\<rparr>)
                  | Inr (x, b') \<Rightarrow>
                      (Inr x, w\<lparr>faults := fs, base := Some b',
                               db := (case q (db w) of Inl _ \<Rightarrow> db w | Inr (_, d) \<Rightarrow> d)\<rparr>))))"

text \<open>A transaction: joined when one is open, otherwise started here, committed when the body
  succeeds (the commit itself is a statement that can fail) and rolled back to the committed
  tables otherwise.\<close>

definition committed :: "('d, 'l) world \<Rightarrow> 'd" where
  "committed w = (case base w of None \<Rightarrow> db w | Some b \<Rightarrow> b)"

definition transaction ::
    "(db_error \<Rightarrow> 'e) \<Rightarrow> ('d, 'l, 'e, 'a) eff \<Rightarrow> ('d, 'l, 'e, 'a) eff" where
  "transaction mk m = (\<lambda>w.
     (case base w of
        Some _ \<Rightarrow> m w
      | None \<Rightarrow>
          (case m (w\<lparr>base := Some (db w)\<rparr>) of
             (Inl e, w') \<Rightarrow> (Inl e, w'\<lparr>db := committed w', base := None\<rparr>)
           | (Inr x, w') \<Rightarrow>
               (case next_fault (faults w') of (bad, fs) \<Rightarrow>
                  if bad
                  then (Inl (mk Connection_Fault),
                        w'\<lparr>db := committed w', base := None, faults := fs\<rparr>)
                  else (Inr x, w'\<lparr>base := None, faults := fs\<rparr>)))))"

text \<open>A transaction whose body assigns to variables of the enclosing function: the body yields their
  value \<open>c\<close> and its own error, and the value outlives a rollback.\<close>

definition transaction_capturing ::
    "(db_error \<Rightarrow> 'e) \<Rightarrow> ('d, 'l, 'e, 'c \<times> 'e option) eff \<Rightarrow> ('d, 'l, 'e, 'c option \<times> 'e option) eff" where
  "transaction_capturing mk m = (\<lambda>w.
     (case base w of
        Some _ \<Rightarrow> (case m w of
            (Inl e, w') \<Rightarrow> (Inr (None, Some e), w')
          | (Inr (c, e), w') \<Rightarrow> (Inr (Some c, e), w'))
      | None \<Rightarrow>
          (case m (w\<lparr>base := Some (db w)\<rparr>) of
             (Inl e, w') \<Rightarrow> (Inr (None, Some e), w'\<lparr>db := committed w', base := None\<rparr>)
           | (Inr (c, Some e), w') \<Rightarrow> (Inr (Some c, Some e), w'\<lparr>db := committed w', base := None\<rparr>)
           | (Inr (c, None), w') \<Rightarrow>
               (case next_fault (faults w') of (bad, fs) \<Rightarrow>
                  if bad
                  then (Inr (Some c, Some (mk Connection_Fault)),
                        w'\<lparr>db := committed w', base := None, faults := fs\<rparr>)
                  else (Inr (Some c, None), w'\<lparr>base := None, faults := fs\<rparr>)))))"

text \<open>A transaction opened on a handle that may already be in one: then it is a savepoint.\<close>

definition nested_transaction ::
    "(db_error \<Rightarrow> 'e) \<Rightarrow> ('d, 'l, 'e, 'a) eff \<Rightarrow> ('d, 'l, 'e, 'a) eff" where
  "nested_transaction mk m = (\<lambda>w.
     (case base w of
        None \<Rightarrow> transaction mk m w
      | Some _ \<Rightarrow> (case m w of (Inl e, w') \<Rightarrow> (Inl e, w'\<lparr>db := db w\<rparr>) | (Inr x, w') \<Rightarrow> (Inr x, w'))))"

definition query :: "(db_error \<Rightarrow> 'e) \<Rightarrow> ('d \<Rightarrow> 'a) \<Rightarrow> ('d, 'l, 'e, 'a) eff" where
  "query mk f = statement mk (\<lambda>d. Inr (f d, d))"

definition execute_sql :: "(db_error \<Rightarrow> 'e) \<Rightarrow> ('d \<Rightarrow> 'd) \<Rightarrow> ('d, 'l, 'e, unit) eff" where
  "execute_sql mk f = statement mk (\<lambda>d. Inr ((), f d))"

text \<open>A query for one row: \<open>missing\<close> when there is none.\<close>

definition select_one :: "(db_error \<Rightarrow> 'e) \<Rightarrow> 'e \<Rightarrow> ('d \<Rightarrow> 'r option) \<Rightarrow> ('d, 'l, 'e, 'r) eff" where
  "select_one mk missing f =
     andThen (query mk f) (\<lambda>found. case found of None \<Rightarrow> raise missing | Some r \<Rightarrow> return r)"

text \<open>The loops of the source over a slice: run the body on each element, stop at an error.\<close>

fun for_each :: "'a list \<Rightarrow> ('a \<Rightarrow> ('d, 'l, 'e, 'b) eff) \<Rightarrow> ('d, 'l, 'e, 'b list) eff" where
  "for_each [] f = return []"
| "for_each (x # xs) f = andThen (f x) (\<lambda>y. andThen (for_each xs f) (\<lambda>ys. return (y # ys)))"

lemma return_apply [effect_simps]: "return x w = (Inr x, w)"
  by (simp add: return_def)

lemma raise_apply [effect_simps]: "raise e w = (Inl e, w)"
  by (simp add: raise_def)

lemma require_apply [effect_simps]: "require c e w = (if c then (Inr (), w) else (Inl e, w))"
  by (simp add: require_def effect_simps)

lemma andThen_apply [effect_simps]:
  "andThen m f w = (case m w of (Inl e, w') \<Rightarrow> (Inl e, w') | (Inr x, w') \<Rightarrow> f x w')"
  by (simp add: andThen_def)

lemma attempt_apply [effect_simps]: "attempt m w = (Inr (fst (m w)), snd (m w))"
  by (simp add: attempt_def split: prod.splits)

lemma lift_result_apply [effect_simps]: "lift_result r w = (r, w)"
  by (simp add: lift_result_def)

lemma external_apply [effect_simps]: "external c r w = (r, w\<lparr>calls := calls w @ [c]\<rparr>)"
  by (simp add: external_def)

lemma map_error_apply [effect_simps]:
  "map_error g m w = (case fst (m w) of Inl e \<Rightarrow> Inl (g e) | Inr x \<Rightarrow> Inr x, snd (m w))"
  by (simp add: map_error_def split: prod.splits sum.splits)

lemma andThen_return [simp]: "andThen (return x) f = f x"
  by (rule ext) (simp add: effect_simps)

lemma andThen_raise [simp]: "andThen (raise e) f = raise e"
  by (rule ext) (simp add: effect_simps)

lemma andThen_assoc: "andThen (andThen m f) g = andThen m (\<lambda>x. andThen (f x) g)"
  by (rule ext) (simp add: effect_simps split: prod.splits sum.splits)

text \<open>A world in which no statement fails: the schedule is empty.  Operations then evaluate to
  their effect on the tables.\<close>

lemma statement_no_fault [effect_simps]:
  "faults w = [] \<Longrightarrow> statement mk q w =
     (case q (db w) of Inl e \<Rightarrow> (Inl (mk e), w) | Inr (x, d) \<Rightarrow> (Inr x, w\<lparr>db := d\<rparr>))"
  by (cases w) (simp add: statement_def split: sum.splits prod.splits)

lemma immediately_no_fault [effect_simps]:
  "faults w = [] \<Longrightarrow> immediately mk q w =
     (case base w of
        None \<Rightarrow> (case q (db w) of Inl e \<Rightarrow> (Inl (mk e), w) | Inr (x, d) \<Rightarrow> (Inr x, w\<lparr>db := d\<rparr>))
      | Some b \<Rightarrow> (case q b of Inl e \<Rightarrow> (Inl (mk e), w)
          | Inr (x, b') \<Rightarrow> (Inr x, w\<lparr>base := Some b',
               db := (case q (db w) of Inl _ \<Rightarrow> db w | Inr (_, d) \<Rightarrow> d)\<rparr>)))"
  by (cases w) (simp add: immediately_def effect_simps split: sum.splits prod.splits option.splits)

lemma query_no_fault [effect_simps]: "faults w = [] \<Longrightarrow> query mk f w = (Inr (f (db w)), w)"
  by (cases w) (simp add: query_def effect_simps)

lemma execute_sql_no_fault [effect_simps]:
  "faults w = [] \<Longrightarrow> execute_sql mk f w = (Inr (), w\<lparr>db := f (db w)\<rparr>)"
  by (simp add: execute_sql_def effect_simps)

subsection \<open>Invariants of effects\<close>

text \<open>\<open>keeps I m\<close>: when \<open>I\<close> holds of the tables an operation sees and of the committed
  tables, it holds of both after \<open>m\<close>, whatever statements fail.\<close>

definition holds :: "('d \<Rightarrow> bool) \<Rightarrow> ('d, 'l) world \<Rightarrow> bool" where
  "holds I w \<longleftrightarrow> I (db w) \<and> (\<forall>b. base w = Some b \<longrightarrow> I b)"

definition keeps :: "('d \<Rightarrow> bool) \<Rightarrow> ('d, 'l, 'e, 'a) eff \<Rightarrow> bool" where
  "keeps I m \<longleftrightarrow> (\<forall>w. holds I w \<longrightarrow> holds I (snd (m w)))"

lemma keepsI: "(\<And>w. holds I w \<Longrightarrow> holds I (snd (m w))) \<Longrightarrow> keeps I m"
  by (simp add: keeps_def)

lemma keepsD: "keeps I m \<Longrightarrow> holds I w \<Longrightarrow> holds I (snd (m w))"
  by (simp add: keeps_def)

lemma keeps_return [keeps_rules, simp]: "keeps I (return x)"
  by (simp add: keeps_def effect_simps)

lemma keeps_raise [keeps_rules, simp]: "keeps I (raise e)"
  by (simp add: keeps_def effect_simps)

lemma keeps_require [keeps_rules, simp]: "keeps I (require c e)"
  by (simp add: require_def)

lemma keeps_lift_result [keeps_rules, simp]: "keeps I (lift_result r)"
  by (simp add: keeps_def effect_simps)

lemma keeps_external [keeps_rules, simp]: "keeps I (external c r)"
  by (simp add: keeps_def effect_simps holds_def)

lemma keeps_andThen [keeps_rules]:
  "keeps I m \<Longrightarrow> (\<And>x. keeps I (f x)) \<Longrightarrow> keeps I (andThen m f)"
  by (fastforce simp: keeps_def effect_simps split: prod.splits sum.splits)

lemma keeps_attempt [keeps_rules]: "keeps I m \<Longrightarrow> keeps I (attempt m)"
  by (simp add: keeps_def effect_simps)

lemma keeps_map_error [keeps_rules]: "keeps I m \<Longrightarrow> keeps I (map_error g m)"
  by (simp add: keeps_def effect_simps)

lemma keeps_if [keeps_rules]:
  "(c \<Longrightarrow> keeps I m) \<Longrightarrow> (\<not> c \<Longrightarrow> keeps I m') \<Longrightarrow> keeps I (if c then m else m')"
  by simp

lemma keeps_case_option [keeps_rules]:
  "(x = None \<Longrightarrow> keeps I m) \<Longrightarrow> (\<And>y. x = Some y \<Longrightarrow> keeps I (f y)) \<Longrightarrow>
   keeps I (case x of None \<Rightarrow> m | Some y \<Rightarrow> f y)"
  by (cases x) simp_all

lemma keeps_case_sum [keeps_rules]:
  "(\<And>e. x = Inl e \<Longrightarrow> keeps I (f e)) \<Longrightarrow> (\<And>y. x = Inr y \<Longrightarrow> keeps I (g y)) \<Longrightarrow>
   keeps I (case x of Inl e \<Rightarrow> f e | Inr y \<Rightarrow> g y)"
  by (cases x) simp_all

lemma keeps_case_prod [keeps_rules]:
  "(\<And>a b. x = (a, b) \<Longrightarrow> keeps I (f a b)) \<Longrightarrow> keeps I (case x of (a, b) \<Rightarrow> f a b)"
  by (cases x) simp

lemma keeps_statement:
  assumes "\<And>d x d'. I d \<Longrightarrow> q d = Inr (x, d') \<Longrightarrow> I d'"
  shows "keeps I (statement mk q)"
  using assms by (auto simp: keeps_def statement_def holds_def split: prod.splits sum.splits)

lemma keeps_query [keeps_rules, simp]: "keeps I (query mk f)"
  unfolding query_def by (rule keeps_statement) simp

lemma keeps_execute_sql: "(\<And>d. I d \<Longrightarrow> I (f d)) \<Longrightarrow> keeps I (execute_sql mk f)"
  unfolding execute_sql_def by (rule keeps_statement) auto

lemma keeps_immediately:
  assumes q: "\<And>d x d'. I d \<Longrightarrow> q d = Inr (x, d') \<Longrightarrow> I d'"
  shows "keeps I (immediately mk q)"
proof (rule keepsI)
  fix w :: "('a, 'e) world"
  assume w: "holds I w"
  show "holds I (snd (immediately mk q w))"
  proof (cases "base w")
    case None
    have "holds I (snd (statement mk q w))"
      by (rule keepsD [OF keeps_statement w]) (rule q)
    with None show ?thesis
      by (simp add: immediately_def)
  next
    case (Some b)
    with w show ?thesis
      by (auto simp: immediately_def holds_def split: prod.splits sum.splits dest: q)
  qed
qed

lemma keeps_transaction [keeps_rules]: "keeps I m \<Longrightarrow> keeps I (transaction mk m)"
proof (rule keepsI)
  fix w :: "('a, 'b) world"
  assume m: "keeps I m" and w: "holds I w"
  show "holds I (snd (transaction mk m w))"
  proof (cases "base w")
    case None
    with w have "holds I (w\<lparr>base := Some (db w)\<rparr>)"
      by (simp add: holds_def)
    with m have "holds I (snd (m (w\<lparr>base := Some (db w)\<rparr>)))"
      by (rule keepsD)
    with None show ?thesis
      by (auto simp: transaction_def holds_def committed_def split: prod.splits sum.splits option.splits)
  next
    case (Some b)
    with m w show ?thesis
      by (simp add: transaction_def keeps_def)
  qed
qed

lemma keeps_nested_transaction [keeps_rules]:
  "keeps I m \<Longrightarrow> keeps I (nested_transaction mk m)"
proof (rule keepsI)
  fix w :: "('a, 'b) world"
  assume m: "keeps I m" and w: "holds I w"
  from m w have "holds I (snd (m w))" by (rule keepsD)
  moreover from m w have "holds I (snd (transaction mk m w))"
    by (meson keepsD keeps_transaction)
  ultimately show "holds I (snd (nested_transaction mk m w))"
    using w by (auto simp: nested_transaction_def holds_def split: prod.splits sum.splits option.splits)
qed

lemma keeps_transaction_capturing [keeps_rules]:
  "keeps I m \<Longrightarrow> keeps I (transaction_capturing mk m)"
proof (rule keepsI)
  fix w :: "('a, 'b) world"
  assume m: "keeps I m" and w: "holds I w"
  show "holds I (snd (transaction_capturing mk m w))"
  proof (cases "base w")
    case None
    with w have "holds I (w\<lparr>base := Some (db w)\<rparr>)" by (simp add: holds_def)
    with m have "holds I (snd (m (w\<lparr>base := Some (db w)\<rparr>)))" by (rule keepsD)
    with None show ?thesis
      by (auto simp: transaction_capturing_def holds_def committed_def
          split: prod.splits sum.splits option.splits)
  next
    case (Some b)
    from m w have "holds I (snd (m w))" by (rule keepsD)
    with Some show ?thesis
      by (auto simp: transaction_capturing_def split: prod.splits sum.splits)
  qed
qed

lemma keeps_for_each [keeps_rules]: "(\<And>x. keeps I (f x)) \<Longrightarrow> keeps I (for_each xs f)"
  by (induction xs) (auto intro!: keeps_rules)

text \<open>A transaction that fails leaves the committed tables as its immediate statements left
  them; without immediate statements, as they were.\<close>

definition pins_committed :: "('d, 'l, 'e, 'a) eff \<Rightarrow> bool" where
  "pins_committed m \<longleftrightarrow> (\<forall>w b. base w = Some b \<longrightarrow> base (snd (m w)) = Some b)"

lemma transaction_atomic:
  assumes "pins_committed m" and "base w = None" and "fst (transaction mk m w) = Inl e"
  shows "db (snd (transaction mk m w)) = db w"
proof -
  from assms(1) have "base (snd (m (w\<lparr>base := Some (db w)\<rparr>))) = Some (db w)"
    by (simp add: pins_committed_def)
  with assms(2,3) show ?thesis
    by (auto simp: transaction_def committed_def split: prod.splits sum.splits if_splits option.splits)
qed

subsection \<open>Successful runs\<close>

text \<open>What a successful run of each construct says, as elimination rules: a run of an operation is
  taken apart with \<open>elim!: success_elims\<close>.\<close>

lemma andThen_InrE:
  assumes "andThen m f w = (Inr y, w')"
  obtains x w1 where "m w = (Inr x, w1)" "f x w1 = (Inr y, w')"
  using assms by (auto simp: effect_simps split: prod.splits sum.splits)

lemma return_InrE:
  assumes "return x w = (Inr y, w')"
  obtains "y = x" "w' = w"
  using assms by (simp add: effect_simps)

lemma raise_InrE: "raise e w = (Inr y, w') \<Longrightarrow> P"
  by (simp add: effect_simps)

lemma require_InrE:
  assumes "require c e w = (Inr y, w')"
  obtains "c" "w' = w"
  using assms by (auto simp: effect_simps split: if_splits)

lemma lift_result_InrE:
  assumes "lift_result r w = (Inr y, w')"
  obtains "r = Inr y" "w' = w"
  using assms by (simp add: effect_simps)

lemma external_InrE:
  assumes "external c r w = (Inr y, w')"
  obtains "r = Inr y" "w' = w\<lparr>calls := calls w @ [c]\<rparr>"
  using assms by (simp add: effect_simps)

lemma statement_InrE:
  assumes "statement mk q w = (Inr x, w')"
  obtains d fs where "q (db w) = Inr (x, d)" "w' = w\<lparr>faults := fs, db := d\<rparr>"
  using assms by (auto simp: statement_def split: prod.splits sum.splits if_splits)

lemma query_InrE:
  assumes "query mk f w = (Inr x, w')"
  obtains fs where "x = f (db w)" "w' = w\<lparr>faults := fs\<rparr>"
  using assms unfolding query_def by (auto elim!: statement_InrE)

lemma execute_sql_InrE:
  assumes "execute_sql mk f w = (Inr x, w')"
  obtains fs where "w' = w\<lparr>faults := fs, db := f (db w)\<rparr>"
  using assms unfolding execute_sql_def by (auto elim!: statement_InrE)

lemma attempt_InrE:
  assumes "attempt m w = (Inr r, w')"
  obtains "m w = (r, w')"
  using assms by (cases "m w") (simp add: effect_simps)

lemma query_world:
  assumes "query mk f w = (r, w')"
  obtains fs where "w' = w\<lparr>faults := fs\<rparr>"
  using assms by (auto simp: query_def statement_def split: prod.splits if_splits)

lemma map_error_InrE:
  assumes "map_error g m w = (Inr x, w')"
  obtains "m w = (Inr x, w')"
  using assms by (cases "m w"; cases "fst (m w)") (auto simp: effect_simps)

lemma transaction_InrE:
  assumes "transaction mk m w = (Inr x, w')" and "base w = None"
  obtains w1 fs where "m (w\<lparr>base := Some (db w)\<rparr>) = (Inr x, w1)" "w' = w1\<lparr>base := None, faults := fs\<rparr>"
  using assms by (auto simp: transaction_def split: prod.splits sum.splits if_splits)

lemma transaction_joined: "base w = Some b \<Longrightarrow> transaction mk m w = m w"
  by (simp add: transaction_def)

lemmas success_elims =
  andThen_InrE return_InrE raise_InrE require_InrE lift_result_InrE statement_InrE query_InrE
  execute_sql_InrE map_error_InrE attempt_InrE external_InrE

lemma transaction_base: "base w = None \<Longrightarrow> base (snd (transaction mk m w)) = None"
  by (auto simp: transaction_def split: prod.splits sum.splits)

text \<open>Transactions that only issue plain statements.\<close>

lemma pins_return [keeps_rules, simp]: "pins_committed (return x)"
  by (simp add: pins_committed_def effect_simps)

lemma pins_raise [keeps_rules, simp]: "pins_committed (raise e)"
  by (simp add: pins_committed_def effect_simps)

lemma pins_statement [keeps_rules, simp]: "pins_committed (statement mk q)"
  by (auto simp: pins_committed_def statement_def split: prod.splits sum.splits)

lemma pins_query [keeps_rules, simp]: "pins_committed (query mk f)"
  by (simp add: query_def)

lemma pins_execute_sql [keeps_rules, simp]: "pins_committed (execute_sql mk f)"
  by (simp add: execute_sql_def)

lemma pins_andThen [keeps_rules]:
  "pins_committed m \<Longrightarrow> (\<And>x. pins_committed (f x)) \<Longrightarrow> pins_committed (andThen m f)"
  by (fastforce simp: pins_committed_def effect_simps split: prod.splits sum.splits)

lemma pins_map_error [keeps_rules]: "pins_committed m \<Longrightarrow> pins_committed (map_error g m)"
  by (simp add: pins_committed_def effect_simps)

lemma pins_require [keeps_rules, simp]: "pins_committed (require c e)"
  by (simp add: require_def)

lemma pins_case_prod [keeps_rules]:
  "(\<And>a b. x = (a, b) \<Longrightarrow> pins_committed (f a b)) \<Longrightarrow> pins_committed (case x of (a, b) \<Rightarrow> f a b)"
  by (cases x) simp

lemma pins_for_each [keeps_rules]: "(\<And>x. pins_committed (f x)) \<Longrightarrow> pins_committed (for_each xs f)"
  by (induction xs) (auto intro!: pins_andThen)

lemma pins_if [keeps_rules]:
  "(c \<Longrightarrow> pins_committed m) \<Longrightarrow> (\<not> c \<Longrightarrow> pins_committed m') \<Longrightarrow> pins_committed (if c then m else m')"
  by simp

lemma pins_case_option [keeps_rules]:
  "(x = None \<Longrightarrow> pins_committed m) \<Longrightarrow> (\<And>y. x = Some y \<Longrightarrow> pins_committed (f y)) \<Longrightarrow>
   pins_committed (case x of None \<Rightarrow> m | Some y \<Rightarrow> f y)"
  by (cases x) simp_all

subsection \<open>Frames\<close>

text \<open>\<open>frames f m\<close>: \<open>m\<close> does not write the part \<open>f\<close> of the tables.\<close>

definition frames :: "('d \<Rightarrow> 'x) \<Rightarrow> ('d, 'l, 'e, 'a) eff \<Rightarrow> bool" where
  "frames f m \<longleftrightarrow> (\<forall>w. f (db (snd (m w))) = f (db w) \<and>
                      map_option f (base (snd (m w))) = map_option f (base w))"

lemma framesI:
  "(\<And>w. f (db (snd (m w))) = f (db w)) \<Longrightarrow>
   (\<And>w. map_option f (base (snd (m w))) = map_option f (base w)) \<Longrightarrow> frames f m"
  by (simp add: frames_def)

lemma framesD: "frames f m \<Longrightarrow> f (db (snd (m w))) = f (db w)"
  by (simp add: frames_def)

lemma framesD_base: "frames f m \<Longrightarrow> map_option f (base (snd (m w))) = map_option f (base w)"
  by (simp add: frames_def)

lemma frames_keeps:
  fixes m :: "('d, 'l, 'e, 'a) eff"
  assumes "frames f m"
  shows "keeps (\<lambda>d. I (f d)) m"
proof (rule keepsI)
  fix w :: "('d, 'l) world"
  assume w: "holds (\<lambda>d. I (f d)) w"
  have "f (db (snd (m w))) = f (db w)"
    using assms by (rule framesD)
  moreover have "map_option f (base (snd (m w))) = map_option f (base w)"
    using assms by (rule framesD_base)
  ultimately show "holds (\<lambda>d. I (f d)) (snd (m w))"
    using w by (cases "base w"; cases "base (snd (m w))") (simp_all add: holds_def)
qed

lemma frames_return [keeps_rules, simp]: "frames f (return x)"
  by (simp add: frames_def effect_simps)

lemma frames_raise [keeps_rules, simp]: "frames f (raise e)"
  by (simp add: frames_def effect_simps)

lemma frames_require [keeps_rules, simp]: "frames f (require c e)"
  by (simp add: frames_def effect_simps)

lemma frames_lift_result [keeps_rules, simp]: "frames f (lift_result r)"
  by (simp add: frames_def effect_simps)

lemma frames_external [keeps_rules, simp]: "frames f (external c r)"
  by (simp add: frames_def effect_simps)

lemma frames_andThen [keeps_rules]:
  assumes "frames f m" and "\<And>x. frames f (g x)"
  shows "frames f (andThen m g)"
proof (rule framesI)
  fix w
  show "f (db (snd (andThen m g w))) = f (db w)"
    using framesD [OF assms(1), of w] framesD [OF assms(2)]
    by (cases "m w"; cases "fst (m w)") (simp_all add: effect_simps)
  show "map_option f (base (snd (andThen m g w))) = map_option f (base w)"
    using framesD_base [OF assms(1), of w] framesD_base [OF assms(2)]
    by (cases "m w"; cases "fst (m w)") (simp_all add: effect_simps)
qed

lemma frames_attempt [keeps_rules]: "frames f m \<Longrightarrow> frames f (attempt m)"
  by (simp add: frames_def effect_simps)

lemma frames_map_error [keeps_rules]: "frames f m \<Longrightarrow> frames f (map_error g m)"
  by (simp add: frames_def effect_simps)

lemma frames_if [keeps_rules]:
  "(c \<Longrightarrow> frames f m) \<Longrightarrow> (\<not> c \<Longrightarrow> frames f m') \<Longrightarrow> frames f (if c then m else m')"
  by simp

lemma frames_case_option [keeps_rules]:
  "(x = None \<Longrightarrow> frames f m) \<Longrightarrow> (\<And>y. x = Some y \<Longrightarrow> frames f (g y)) \<Longrightarrow>
   frames f (case x of None \<Rightarrow> m | Some y \<Rightarrow> g y)"
  by (cases x) simp_all

lemma frames_case_sum [keeps_rules]:
  "(\<And>e. x = Inl e \<Longrightarrow> frames f (g e)) \<Longrightarrow> (\<And>y. x = Inr y \<Longrightarrow> frames f (h y)) \<Longrightarrow>
   frames f (case x of Inl e \<Rightarrow> g e | Inr y \<Rightarrow> h y)"
  by (cases x) simp_all

lemma frames_case_prod [keeps_rules]:
  "(\<And>a b. x = (a, b) \<Longrightarrow> frames f (g a b)) \<Longrightarrow> frames f (case x of (a, b) \<Rightarrow> g a b)"
  by (cases x) simp

lemma frames_case_list [keeps_rules]:
  "(x = [] \<Longrightarrow> frames f m) \<Longrightarrow> (\<And>y ys. x = y # ys \<Longrightarrow> frames f (g y ys)) \<Longrightarrow>
   frames f (case x of [] \<Rightarrow> m | y # ys \<Rightarrow> g y ys)"
  by (cases x) simp_all

lemma frames_statement:
  assumes "\<And>d x d'. q d = Inr (x, d') \<Longrightarrow> f d' = f d"
  shows "frames f (statement mk q)"
  using assms by (auto simp: frames_def statement_def split: prod.splits sum.splits)

lemma frames_query [keeps_rules, simp]: "frames f (query mk g)"
  unfolding query_def by (rule frames_statement) simp

lemma frames_execute_sql: "(\<And>d. f (g d) = f d) \<Longrightarrow> frames f (execute_sql mk g)"
  unfolding execute_sql_def by (rule frames_statement) auto

lemma frames_immediately:
  assumes q: "\<And>d x d'. q d = Inr (x, d') \<Longrightarrow> f d' = f d"
  shows "frames f (immediately mk q)"
proof -
  have st: "frames f (statement mk q)"
    using q by (rule frames_statement)
  show ?thesis
  proof (rule framesI)
    fix w
    show "f (db (snd (immediately mk q w))) = f (db w)"
      using framesD [OF st, of w]
      by (auto simp: immediately_def split: prod.splits sum.splits option.splits dest: q)
    show "map_option f (base (snd (immediately mk q w))) = map_option f (base w)"
      using framesD_base [OF st, of w]
      by (cases "base w") (auto simp: immediately_def split: prod.splits sum.splits dest: q)
  qed
qed

lemma frames_transaction [keeps_rules]:
  assumes m: "frames f m"
  shows "frames f (transaction mk m)"
proof (rule framesI)
  fix w
  show "f (db (snd (transaction mk m w))) = f (db w)"
    using framesD [OF m, of w] framesD [OF m, of "w\<lparr>base := Some (db w)\<rparr>"]
      framesD_base [OF m, of "w\<lparr>base := Some (db w)\<rparr>"]
    by (auto simp: transaction_def committed_def split: prod.splits sum.splits option.splits)
  show "map_option f (base (snd (transaction mk m w))) = map_option f (base w)"
    using framesD_base [OF m, of w]
    by (auto simp: transaction_def split: prod.splits sum.splits option.splits)
qed

lemma frames_transaction_capturing [keeps_rules]:
  assumes m: "frames f m"
  shows "frames f (transaction_capturing mk m)"
proof (rule framesI)
  fix w
  show "f (db (snd (transaction_capturing mk m w))) = f (db w)"
    using framesD [OF m, of w] framesD [OF m, of "w\<lparr>base := Some (db w)\<rparr>"]
      framesD_base [OF m, of "w\<lparr>base := Some (db w)\<rparr>"]
    by (auto simp: transaction_capturing_def committed_def split: prod.splits sum.splits option.splits)
  show "map_option f (base (snd (transaction_capturing mk m w))) = map_option f (base w)"
    using framesD_base [OF m, of w]
    by (auto simp: transaction_capturing_def split: prod.splits sum.splits option.splits)
qed

lemma frames_nested_transaction [keeps_rules]:
  assumes m: "frames f m"
  shows "frames f (nested_transaction mk m)"
proof (rule framesI)
  fix w
  note t = frames_transaction [OF m, of mk]
  show "f (db (snd (nested_transaction mk m w))) = f (db w)"
    using framesD [OF m, of w] framesD [OF t, of w]
    by (auto simp: nested_transaction_def split: prod.splits sum.splits option.splits)
  show "map_option f (base (snd (nested_transaction mk m w))) = map_option f (base w)"
    using framesD_base [OF m, of w] framesD_base [OF t, of w]
    by (auto simp: nested_transaction_def split: prod.splits sum.splits option.splits)
qed

lemma frames_for_each [keeps_rules]: "(\<And>x. frames f (g x)) \<Longrightarrow> frames f (for_each xs g)"
  by (induction xs) (auto intro!: keeps_rules)

subsection \<open>Step relations\<close>

text \<open>What an effect may do to the world, as a relation between the world before and after it.  A
  relation that is reflexive and transitive is kept along the syntax of an effect.\<close>

definition obeys ::
    "(('d, 'l) world \<Rightarrow> ('d, 'l) world \<Rightarrow> bool) \<Rightarrow> ('d, 'l, 'e, 'a) eff \<Rightarrow> bool" where
  "obeys R m \<longleftrightarrow> (\<forall>w. R w (snd (m w)))"

lemma obeysD: "obeys R m \<Longrightarrow> m w = (r, w') \<Longrightarrow> R w w'"
  unfolding obeys_def by (metis snd_conv)

lemma obeysI: "(\<And>w r w'. m w = (r, w') \<Longrightarrow> R w w') \<Longrightarrow> obeys R m"
  unfolding obeys_def by (metis prod.collapse)

locale step_relation =
  fixes R :: "('d, 'l) world \<Rightarrow> ('d, 'l) world \<Rightarrow> bool"
  assumes R_refl [simp]: "R w w"
    and R_trans: "R w1 w2 \<Longrightarrow> R w2 w3 \<Longrightarrow> R w1 w3"
begin

lemma return: "obeys R (return x)"
  by (simp add: obeys_def effect_simps)

lemma raise: "obeys R (raise e)"
  by (simp add: obeys_def effect_simps)

lemma require: "obeys R (require c e)"
  by (simp add: obeys_def effect_simps)

lemma lift_result: "obeys R (lift_result r)"
  by (simp add: obeys_def effect_simps)

lemma andThen: "obeys R m \<Longrightarrow> (\<And>x. obeys R (f x)) \<Longrightarrow> obeys R (andThen m f)"
  by (fastforce simp: obeys_def effect_simps split: prod.splits sum.splits intro: R_trans)

lemma attempt: "obeys R m \<Longrightarrow> obeys R (attempt m)"
  by (simp add: obeys_def effect_simps)

lemma map_error: "obeys R m \<Longrightarrow> obeys R (map_error g m)"
  by (simp add: obeys_def effect_simps)

lemma if_rule: "(c \<Longrightarrow> obeys R m) \<Longrightarrow> (\<not> c \<Longrightarrow> obeys R m') \<Longrightarrow> obeys R (if c then m else m')"
  by simp

lemma case_option:
  "(x = None \<Longrightarrow> obeys R m) \<Longrightarrow> (\<And>y. x = Some y \<Longrightarrow> obeys R (f y)) \<Longrightarrow>
   obeys R (case x of None \<Rightarrow> m | Some y \<Rightarrow> f y)"
  by (cases x) simp_all

lemma case_sum:
  "(\<And>e. x = Inl e \<Longrightarrow> obeys R (f e)) \<Longrightarrow> (\<And>y. x = Inr y \<Longrightarrow> obeys R (g y)) \<Longrightarrow>
   obeys R (case x of Inl e \<Rightarrow> f e | Inr y \<Rightarrow> g y)"
  by (cases x) simp_all

lemma case_prod: "(\<And>a b. x = (a, b) \<Longrightarrow> obeys R (f a b)) \<Longrightarrow> obeys R (case x of (a, b) \<Rightarrow> f a b)"
  by (cases x) simp

lemma for_each: "(\<And>x. obeys R (f x)) \<Longrightarrow> obeys R (for_each xs f)"
  by (induction xs) (auto intro!: return andThen)

lemmas rules = return raise require lift_result andThen attempt map_error if_rule case_option case_sum
  case_prod for_each

end

subsection \<open>Runs of a protocol\<close>

text \<open>\<open>runs R m\<close>: started outside a transaction, \<open>m\<close> ends outside a transaction and takes the
  committed tables along \<open>R\<close>, whatever statements fail.  Inside a transaction only the tables of a
  successful body are compared with those it started from, so \<open>R\<close> may be broken in between.\<close>

definition runs :: "('d \<Rightarrow> 'd \<Rightarrow> bool) \<Rightarrow> ('d, 'l, 'e, 'a) eff \<Rightarrow> bool" where
  "runs R m \<longleftrightarrow> (\<forall>w. base w = None \<longrightarrow> base (snd (m w)) = None \<and> R (db w) (db (snd (m w))))"

lemma runsD:
  assumes "runs R m" and "m w = (r, w')" and "base w = None"
  shows "base w' = None" and "R (db w) (db w')"
  using assms unfolding runs_def by (metis snd_conv)+

lemma runs_mono: "runs R m \<Longrightarrow> (\<And>d d'. R d d' \<Longrightarrow> S d d') \<Longrightarrow> runs S m"
  unfolding runs_def by blast

lemma runs_conj: "runs R m \<Longrightarrow> runs S m \<Longrightarrow> runs (\<lambda>d d'. R d d' \<and> S d d') m"
  unfolding runs_def by blast

lemma pins_lift_result [keeps_rules, simp]: "pins_committed (lift_result r)"
  by (simp add: pins_committed_def effect_simps)

lemma pins_external [keeps_rules, simp]: "pins_committed (external c r)"
  by (simp add: pins_committed_def effect_simps)

lemma pins_attempt [keeps_rules]: "pins_committed m \<Longrightarrow> pins_committed (attempt m)"
  by (simp add: pins_committed_def effect_simps)

lemma pins_case_sum [keeps_rules]:
  "(\<And>e. x = Inl e \<Longrightarrow> pins_committed (f e)) \<Longrightarrow> (\<And>y. x = Inr y \<Longrightarrow> pins_committed (g y)) \<Longrightarrow>
   pins_committed (case x of Inl e \<Rightarrow> f e | Inr y \<Rightarrow> g y)"
  by (cases x) simp_all

lemma pins_nested_transaction [keeps_rules]:
  "pins_committed m \<Longrightarrow> pins_committed (nested_transaction mk m)"
  by (fastforce simp: pins_committed_def nested_transaction_def split: prod.splits sum.splits)

lemma pinsD: "pins_committed m \<Longrightarrow> m w = (r, w') \<Longrightarrow> base w = Some b \<Longrightarrow> base w' = Some b"
  unfolding pins_committed_def by (metis snd_conv)

lemma select_one_no_fault [effect_simps]:
  "faults w = [] \<Longrightarrow>
   select_one mk missing f w = (case f (db w) of None \<Rightarrow> (Inl missing, w) | Some r \<Rightarrow> (Inr r, w))"
  by (auto simp: select_one_def effect_simps split: option.splits)

lemma select_one_InrE:
  assumes "select_one mk missing f w = (Inr r, w')"
  obtains fs where "f (db w) = Some r" "w' = w\<lparr>faults := fs\<rparr>"
  using assms unfolding select_one_def by (auto elim!: success_elims split: option.splits)

lemma select_one_rules [keeps_rules, simp]:
  "frames g (select_one mk missing f)" "pins_committed (select_one mk missing f)"
  "keeps I (select_one mk missing f)"
  unfolding select_one_def by (intro keeps_rules)+

lemma frames_still: "frames f m \<Longrightarrow> runs (\<lambda>d d'. f d' = f d) m"
  unfolding frames_def runs_def by (metis option.map_disc_iff)

locale protocol =
  fixes R :: "'d \<Rightarrow> 'd \<Rightarrow> bool"
  assumes R_refl: "R d d"
    and R_trans: "R d1 d2 \<Longrightarrow> R d2 d3 \<Longrightarrow> R d1 d3"
begin

lemma return: "runs R (return x)"
  by (simp add: runs_def effect_simps R_refl)

lemma raise: "runs R (raise e)"
  by (simp add: runs_def effect_simps R_refl)

lemma require: "runs R (require c e)"
  by (simp add: runs_def effect_simps R_refl)

lemma lift_result: "runs R (lift_result r)"
  by (simp add: runs_def effect_simps R_refl)

lemma external: "runs R (external c r)"
  by (simp add: runs_def effect_simps R_refl)

lemma andThen:
  fixes m :: "('d, 'l, 'e, 'a) eff"
  assumes m: "runs R m" and f: "\<And>x. runs R (f x)"
  shows "runs R (andThen m f)"
  unfolding runs_def
proof (intro allI impI)
  fix w :: "('d, 'l) world"
  assume w: "base w = None"
  obtain r w1 where run: "m w = (r, w1)" by (metis surj_pair)
  note w1 = runsD [OF m run w]
  show "base (snd (andThen m f w)) = None \<and> R (db w) (db (snd (andThen m f w)))"
  proof (cases r)
    case (Inl e)
    with run w1 show ?thesis by (simp add: effect_simps)
  next
    case (Inr x)
    obtain r2 w2 where run2: "f x w1 = (r2, w2)" by (metis surj_pair)
    note w2 = runsD [OF f run2 w1(1)]
    with run run2 Inr R_trans [OF w1(2) w2(2)] show ?thesis by (simp add: effect_simps)
  qed
qed

lemma attempt: "runs R m \<Longrightarrow> runs R (attempt m)"
  by (simp add: runs_def effect_simps R_refl)

lemma map_error: "runs R m \<Longrightarrow> runs R (map_error g m)"
  by (simp add: runs_def effect_simps R_refl)

lemma if_rule: "(c \<Longrightarrow> runs R m) \<Longrightarrow> (\<not> c \<Longrightarrow> runs R m') \<Longrightarrow> runs R (if c then m else m')"
  by simp

lemma case_option:
  "(x = None \<Longrightarrow> runs R m) \<Longrightarrow> (\<And>y. x = Some y \<Longrightarrow> runs R (f y)) \<Longrightarrow>
   runs R (case x of None \<Rightarrow> m | Some y \<Rightarrow> f y)"
  by (cases x) simp_all

lemma case_sum:
  "(\<And>e. x = Inl e \<Longrightarrow> runs R (f e)) \<Longrightarrow> (\<And>y. x = Inr y \<Longrightarrow> runs R (g y)) \<Longrightarrow>
   runs R (case x of Inl e \<Rightarrow> f e | Inr y \<Rightarrow> g y)"
  by (cases x) simp_all

lemma case_prod: "(\<And>a b. x = (a, b) \<Longrightarrow> runs R (f a b)) \<Longrightarrow> runs R (case x of (a, b) \<Rightarrow> f a b)"
  by (cases x) simp

lemma for_each: "(\<And>x. runs R (f x)) \<Longrightarrow> runs R (for_each xs f)"
  by (induction xs) (auto intro!: return andThen)

lemma query: "runs R (query mk f)"
  by (auto simp: runs_def query_def statement_def R_refl split: prod.splits)

lemma statement:
  assumes "\<And>d x d'. q d = Inr (x, d') \<Longrightarrow> R d d'"
  shows "runs R (statement mk q)"
  using assms by (auto simp: runs_def statement_def R_refl split: prod.splits sum.splits)

lemma execute_sql: "(\<And>d. R d (f d)) \<Longrightarrow> runs R (execute_sql mk f)"
  unfolding execute_sql_def by (rule statement) auto

lemma transaction:
  fixes m :: "('d, 'l, 'e, 'a) eff"
  assumes pins: "pins_committed m"
    and body: "\<And>w x w'. m w = (Inr x, w') \<Longrightarrow> base w = Some (db w) \<Longrightarrow> R (db w) (db w')"
  shows "runs R (transaction mk m)"
  unfolding runs_def
proof (intro allI impI conjI)
  fix w :: "('d, 'l) world"
  assume w: "base w = None"
  let ?w0 = "w\<lparr>base := Some (db w)\<rparr>"
  show "base (snd (transaction mk m w)) = None"
    using w by (rule transaction_base)
  have "base (snd (m ?w0)) = Some (db w)"
    using pins by (simp add: pins_committed_def)
  moreover have "R (db w) (db w')" if "m ?w0 = (Inr x, w')" for x w'
    using body [OF that] by simp
  ultimately show "R (db w) (db (snd (transaction mk m w)))"
    using w by (auto simp: transaction_def committed_def R_refl split: prod.splits sum.splits)
qed

lemma select_one: "runs R (select_one mk missing f)"
  unfolding select_one_def by (intro andThen query case_option raise return)

lemmas rules = return raise require lift_result external andThen attempt map_error if_rule case_option
  case_sum case_prod for_each query select_one

end

text \<open>The instance every invariant of the tables gives.\<close>

abbreviation safe :: "('d \<Rightarrow> bool) \<Rightarrow> ('d, 'l, 'e, 'a) eff \<Rightarrow> bool" where
  "safe I \<equiv> runs (\<lambda>d d'. I d \<longrightarrow> I d')"

interpretation safe: protocol "\<lambda>d d'. I d \<longrightarrow> I d'" for I :: "'d \<Rightarrow> bool"
  by unfold_locales auto

text \<open>The instance of a part of the tables that is not written.\<close>

interpretation still: protocol "\<lambda>d d'. f d' = f d" for f :: "'d \<Rightarrow> 'x"
  by unfold_locales auto

end
