(* ===== verification/Contracts.thy ===== *)
theory Contracts
  imports Prelude "HOL-Library.Char_ord"
begin

text \<open>
  The code both services share, under \<open>contracts/runtime/go\<close>: operation ids and request
  fingerprints (\<open>operationid\<close>), the action catalogue (\<open>platformaction\<close>), correlation headers
  (\<open>correlation\<close>) and the readiness gate (\<open>servicehealth\<close>).  Go strings are byte sequences, here
  character lists; SHA-256 and the random source are arguments of the definitions that use them.
\<close>

section \<open>Encodings\<close>

text \<open>\<open>binary.BigEndian.PutUint64\<close>.\<close>

definition be64 :: "u64 \<Rightarrow> string" where
  "be64 v = map (\<lambda>i. char_of (unat (drop_bit (8 * (7 - i)) v))) [0..<8]"

definition hex_digit :: "nat \<Rightarrow> char" where
  "hex_digit n = ''0123456789abcdef'' ! n"

text \<open>\<open>hex.EncodeToString\<close>.\<close>

definition hex_encode :: "string \<Rightarrow> string" where
  "hex_encode bytes = concat (map (\<lambda>c. [hex_digit (of_char c div 16), hex_digit (of_char c mod 16)]) bytes)"

definition base64url_alphabet :: string where
  "base64url_alphabet = ''ABCDEFGHIJKLMNOPQRSTUVWXYZabcdefghijklmnopqrstuvwxyz0123456789-_''"

definition base64url_digit :: "nat \<Rightarrow> char" where
  "base64url_digit n = base64url_alphabet ! n"

text \<open>\<open>base64.RawURLEncoding.EncodeToString\<close>: three bytes give four digits, and a shorter tail is
  not padded.\<close>

fun base64url_encode :: "string \<Rightarrow> string" where
  "base64url_encode (a # b # c # rest) =
     (let n = of_char a * 65536 + of_char b * 256 + of_char c :: nat
      in base64url_digit (n div 262144) # base64url_digit (n div 4096 mod 64)
         # base64url_digit (n div 64 mod 64) # base64url_digit (n mod 64) # base64url_encode rest)"
| "base64url_encode [a, b] =
     (let n = of_char a * 65536 + of_char b * 256 :: nat
      in [base64url_digit (n div 262144), base64url_digit (n div 4096 mod 64),
          base64url_digit (n div 64 mod 64)])"
| "base64url_encode [a] =
     (let n = of_char a * 65536 :: nat
      in [base64url_digit (n div 262144), base64url_digit (n div 4096 mod 64)])"
| "base64url_encode [] = []"

lemma length_be64 [simp]: "length (be64 v) = 8"
  by (simp add: be64_def)

lemma be64_inj: "be64 u = be64 v \<longleftrightarrow> u = v"
proof
  assume eq: "be64 u = be64 v"
  show "u = v"
  proof (rule bit_word_eqI)
    fix n :: nat
    assume n: "n < LENGTH(64)"
    let ?i = "7 - n div 8"
    have i: "?i < 8" "8 * (7 - ?i) = 8 * (n div 8)" using n by (auto simp: less_mult_imp_div_less)
    from eq have "be64 u ! ?i = be64 v ! ?i" by simp
    then have "char_of (unat (drop_bit (8 * (n div 8)) u))
        = (char_of (unat (drop_bit (8 * (n div 8)) v)) :: char)"
      using i by (simp add: be64_def del: upt_Suc)
    then have "take_bit 8 (unat (drop_bit (8 * (n div 8)) u)) = take_bit 8 (unat (drop_bit (8 * (n div 8)) v))"
      by (simp add: take_bit_eq_mod)
    then have "take_bit 8 (drop_bit (8 * (n div 8)) u) = take_bit 8 (drop_bit (8 * (n div 8)) v)"
      by (simp only: word_unat_eq_iff unsigned_take_bit_eq)
    then have "bit (take_bit 8 (drop_bit (8 * (n div 8)) u)) (n mod 8)
        = bit (take_bit 8 (drop_bit (8 * (n div 8)) v)) (n mod 8)"
      by simp
    then show "bit u n = bit v n"
      by (simp add: bit_take_bit_iff bit_drop_bit_eq)
  qed
qed simp

section \<open>Operation ids and fingerprints\<close>

text \<open>What \<open>writeString\<close> feeds to the digest: the length, then the bytes.\<close>

definition writeString :: "string \<Rightarrow> string" where
  "writeString value = be64 (of_nat (length value)) @ value"

definition fingerprint_input :: "string \<Rightarrow> string \<Rightarrow> u64 \<Rightarrow> u64 \<Rightarrow> string" where
  "fingerprint_input kind bindingRef preGeneration targetGeneration =
     writeString kind @ writeString bindingRef @ be64 preGeneration @ be64 targetGeneration"

definition Fingerprint :: "(string \<Rightarrow> string) \<Rightarrow> string \<Rightarrow> string \<Rightarrow> u64 \<Rightarrow> u64 \<Rightarrow> string" where
  "Fingerprint sha256 kind bindingRef preGeneration targetGeneration =
     hex_encode (sha256 (fingerprint_input kind bindingRef preGeneration targetGeneration))"

definition fence_fingerprint_input :: "string \<Rightarrow> string \<Rightarrow> string \<Rightarrow> u64 list \<Rightarrow> string" where
  "fence_fingerprint_input kind bindingRef consumer values =
     writeString kind @ writeString bindingRef @ writeString consumer @ concat (map be64 values)"

definition AuthorizationFenceFingerprint ::
    "(string \<Rightarrow> string) \<Rightarrow> string \<Rightarrow> string \<Rightarrow> string \<Rightarrow> u64 \<Rightarrow> u64 \<Rightarrow> u64 \<Rightarrow> u64 \<Rightarrow> u64 \<Rightarrow> string" where
  "AuthorizationFenceFingerprint sha256 kind bindingRef consumer generation minimumGrantVersion
     minimumOwnerEpoch minimumConsumerEpoch minimumEntryEpoch =
     hex_encode (sha256 (fence_fingerprint_input kind bindingRef consumer
       [generation, minimumGrantVersion, minimumOwnerEpoch, minimumConsumerEpoch, minimumEntryEpoch]))"

definition PrimaryProfileFingerprint ::
    "(string \<Rightarrow> string) \<Rightarrow> string \<Rightarrow> string \<Rightarrow> string \<Rightarrow> u64 \<Rightarrow> u64 \<Rightarrow> string" where
  "PrimaryProfileFingerprint sha256 kind bindingRef profileRef generation expectedRevision =
     hex_encode (sha256 (fence_fingerprint_input kind bindingRef profileRef [generation, expectedRevision]))"

text \<open>The 18 random bytes are an argument; reading them can fail.\<close>

definition NewID :: "string option \<Rightarrow> string option" where
  "NewID random = map_option (\<lambda>value. ''op_'' @ base64url_encode value) random"

definition DeterministicID :: "(string \<Rightarrow> string) \<Rightarrow> string \<Rightarrow> string" where
  "DeterministicID sha256 fingerprint =
     (let digest = sha256 (''paigram-platform-operation:'' @ fingerprint)
      in ''op_'' @ base64url_encode (take 18 digest))"

text \<open>The encodings fed to the digest determine their inputs.\<close>

lemma writeString_append_inj:
  assumes "length a < 2 ^ 64" "length b < 2 ^ 64" "writeString a @ x = writeString b @ y"
  shows "a = b \<and> x = y"
proof -
  from assms(3) have "be64 (of_nat (length a)) = be64 (of_nat (length b))" and rest: "a @ x = b @ y"
    by (simp_all add: writeString_def append_eq_append_conv)
  then have "(of_nat (length a) :: u64) = of_nat (length b)" by (simp add: be64_inj)
  then have "length a = length b"
    using assms(1,2) by (simp add: word_of_nat_eq_iff take_bit_nat_eq_self)
  with rest show ?thesis by simp
qed

lemma fingerprint_input_inj:
  assumes "length k < 2 ^ 64" "length k' < 2 ^ 64" "length b < 2 ^ 64" "length b' < 2 ^ 64"
    and "fingerprint_input k b p t = fingerprint_input k' b' p' t'"
  shows "k = k' \<and> b = b' \<and> p = p' \<and> t = t'"
proof -
  from writeString_append_inj [OF assms(1,2)] assms(5)
  have k: "k = k'" and "writeString b @ be64 p @ be64 t = writeString b' @ be64 p' @ be64 t'"
    by (auto simp: fingerprint_input_def)
  from writeString_append_inj [OF assms(3,4) this(2)]
  have "b = b'" "be64 p @ be64 t = be64 p' @ be64 t'" by auto
  with k show ?thesis by (simp add: append_eq_append_conv be64_inj)
qed

lemma hex_digit_inj: "m < 16 \<Longrightarrow> n < 16 \<Longrightarrow> hex_digit m = hex_digit n \<Longrightarrow> m = n"
proof -
  assume "m < 16" "n < 16" "hex_digit m = hex_digit n"
  moreover have "distinct ''0123456789abcdef''" "length ''0123456789abcdef'' = 16" by simp_all
  ultimately show ?thesis unfolding hex_digit_def by (metis nth_eq_iff_index_eq)
qed

lemma hex_encode_inj: "hex_encode a = hex_encode b \<longleftrightarrow> a = b"
proof
  show "hex_encode a = hex_encode b \<Longrightarrow> a = b"
  proof (induction a arbitrary: b)
    case Nil
    then show ?case by (cases b) (simp_all add: hex_encode_def)
  next
    case (Cons x a)
    then obtain y b' where b: "b = y # b'" by (cases b) (simp_all add: hex_encode_def)
    with Cons.prems have "hex_digit (of_char x div 16) = hex_digit (of_char y div 16)"
      "hex_digit (of_char x mod 16) = hex_digit (of_char y mod 16)" and rest: "hex_encode a = hex_encode b'"
      by (simp_all add: hex_encode_def)
    then have "(of_char x :: nat) div 16 = of_char y div 16" "(of_char x :: nat) mod 16 = of_char y mod 16"
      by (auto intro!: hex_digit_inj simp: less_mult_imp_div_less)
    then have "(of_char x :: nat) = of_char y" by (metis div_mod_decomp)
    with Cons.IH [OF rest] b show ?case by simp
  qed
qed simp

text \<open>A fingerprint binds its inputs: unless SHA-256 collides on the two encodings, requests with
  the same fingerprint name the same kind, binding and generations.  The length prefixes keep the
  boundary between kind and binding from shifting.\<close>

theorem Fingerprint_binds_input:
  assumes "Fingerprint sha256 k b p t = Fingerprint sha256 k' b' p' t'"
    and "inj_on sha256 {fingerprint_input k b p t, fingerprint_input k' b' p' t'}"
    and "length k < 2 ^ 64" "length k' < 2 ^ 64" "length b < 2 ^ 64" "length b' < 2 ^ 64"
  shows "k = k' \<and> b = b' \<and> p = p' \<and> t = t'"
proof -
  from assms(1,2) have "fingerprint_input k b p t = fingerprint_input k' b' p' t'"
    by (auto simp: Fingerprint_def hex_encode_inj dest: inj_onD)
  from fingerprint_input_inj [OF assms(3-6) this] show ?thesis .
qed

lemma Fingerprint_binds_input_witness:
  "Fingerprint (\<lambda>x. x) ''a'' ''bc'' 0 1 = Fingerprint (\<lambda>x. x) ''a'' ''bc'' 0 1 \<and> ''a'' = ''a'' \<and>
   ''bc'' = ''bc'' \<and> (0 :: u64) = 0 \<and> (1 :: u64) = 1"
  using Fingerprint_binds_input [of "\<lambda>x. x" "''a''" "''bc''" 0 1 "''a''" "''bc''" 0 1] by simp

section \<open>The action catalogue\<close>

definition MihomoAuthKeyIssue :: string where "MihomoAuthKeyIssue = ''mihomo.authkey.issue''"
definition MihomoAuthorizationFenceApply :: string where
  "MihomoAuthorizationFenceApply = ''mihomo.authorization.fence.apply''"
definition MihomoBindingRead :: string where "MihomoBindingRead = ''mihomo.binding.read''"
definition MihomoCredentialBind :: string where "MihomoCredentialBind = ''mihomo.credential.bind''"
definition MihomoCredentialDelete :: string where "MihomoCredentialDelete = ''mihomo.credential.delete''"
definition MihomoCredentialRefresh :: string where "MihomoCredentialRefresh = ''mihomo.credential.refresh''"
definition MihomoCredentialUpdate :: string where "MihomoCredentialUpdate = ''mihomo.credential.update''"
definition MihomoCredentialValidate :: string where "MihomoCredentialValidate = ''mihomo.credential.validate''"
definition MihomoDeviceRead :: string where "MihomoDeviceRead = ''mihomo.device.read''"
definition MihomoOperationRead :: string where "MihomoOperationRead = ''mihomo.operation.read''"
definition MihomoOperationResolve :: string where "MihomoOperationResolve = ''mihomo.operation.resolve''"
definition MihomoProfileRead :: string where "MihomoProfileRead = ''mihomo.profile.read''"
definition MihomoProfileWrite :: string where "MihomoProfileWrite = ''mihomo.profile.write''"
definition MihomoStatusRead :: string where "MihomoStatusRead = ''mihomo.status.read''"

lemmas action_defs =
  MihomoAuthKeyIssue_def MihomoAuthorizationFenceApply_def MihomoBindingRead_def MihomoCredentialBind_def
  MihomoCredentialDelete_def MihomoCredentialRefresh_def MihomoCredentialUpdate_def
  MihomoCredentialValidate_def MihomoDeviceRead_def MihomoOperationRead_def MihomoOperationResolve_def
  MihomoProfileRead_def MihomoProfileWrite_def MihomoStatusRead_def

definition mihomoDelegationActions :: "string list" where
  "mihomoDelegationActions = [MihomoAuthKeyIssue, MihomoCredentialValidate, MihomoDeviceRead,
     MihomoProfileRead, MihomoStatusRead]"

definition mihomoControlActions :: "string list" where
  "mihomoControlActions = [MihomoAuthorizationFenceApply, MihomoBindingRead, MihomoCredentialBind,
     MihomoCredentialDelete, MihomoCredentialRefresh, MihomoCredentialUpdate, MihomoOperationRead,
     MihomoOperationResolve, MihomoProfileWrite]"

definition IsMihomoDelegationAction :: "string \<Rightarrow> bool" where
  "IsMihomoDelegationAction action \<longleftrightarrow> action \<in> set mihomoDelegationActions"

definition IsMihomoControlAction :: "string \<Rightarrow> bool" where
  "IsMihomoControlAction action \<longleftrightarrow> action \<in> set mihomoControlActions"

lemma action_kinds_disjoint: "IsMihomoDelegationAction a \<Longrightarrow> \<not> IsMihomoControlAction a"
  by (auto simp: IsMihomoDelegationAction_def IsMihomoControlAction_def mihomoDelegationActions_def
      mihomoControlActions_def action_defs)

section \<open>Correlation fields\<close>

text \<open>Header values are ASCII; \<open>strings.TrimSpace\<close> removes the ASCII white space.\<close>

definition is_space :: "char \<Rightarrow> bool" where
  "is_space c \<longleftrightarrow> c \<in> set [CHR '' '', CHR 0x09, CHR 0x0A, CHR 0x0B, CHR 0x0C, CHR 0x0D]"

definition trim_space :: "string \<Rightarrow> string" where
  "trim_space s = rev (dropWhile is_space (rev (dropWhile is_space s)))"

definition is_alnum :: "char \<Rightarrow> bool" where
  "is_alnum c \<longleftrightarrow> (CHR ''a'' \<le> c \<and> c \<le> CHR ''z'') \<or> (CHR ''A'' \<le> c \<and> c \<le> CHR ''Z'') \<or>
     (CHR ''0'' \<le> c \<and> c \<le> CHR ''9'')"

definition is_hex :: "char \<Rightarrow> bool" where
  "is_hex c \<longleftrightarrow> (CHR ''0'' \<le> c \<and> c \<le> CHR ''9'') \<or> (CHR ''a'' \<le> c \<and> c \<le> CHR ''f'')"

text \<open>\<open>identifierPattern\<close>.\<close>

definition matches_identifier :: "string \<Rightarrow> bool" where
  "matches_identifier s \<longleftrightarrow> s \<noteq> [] \<and> length s \<le> 128 \<and> is_alnum (hd s) \<and>
     list_all (\<lambda>c. is_alnum c \<or> c \<in> set ''._:/-'') (tl s)"

text \<open>The submatches of \<open>traceParentPattern\<close>: trace id, span id and flags.\<close>

definition trace_fields :: "string \<Rightarrow> (string \<times> string \<times> string) option" where
  "trace_fields s =
     (if length s = 55 \<and> take 3 s = ''00-'' \<and> s ! 35 = CHR ''-'' \<and> s ! 52 = CHR ''-'' \<and>
         list_all is_hex (take 32 (drop 3 s)) \<and> list_all is_hex (take 16 (drop 36 s)) \<and>
         list_all is_hex (drop 53 s)
      then Some (take 32 (drop 3 s), take 16 (drop 36 s), drop 53 s) else None)"

definition isAllZero :: "string \<Rightarrow> bool" where
  "isAllZero value \<longleftrightarrow> list_all (\<lambda>c. c = CHR ''0'') value"

record correlation_fields =
  cf_request_id :: string
  cf_trace_parent :: string
  cf_trace_id :: string
  cf_operation_id :: string

definition no_fields :: correlation_fields where
  "no_fields = \<lparr>cf_request_id = '''', cf_trace_parent = '''', cf_trace_id = '''', cf_operation_id = ''''\<rparr>"

fun onlyValue :: "string list \<Rightarrow> string" where
  "onlyValue [] = ''''"
| "onlyValue [v] = v"
| "onlyValue _ = [CHR 0x00]"

definition IncomingFields :: "string list \<Rightarrow> string list \<Rightarrow> string list \<Rightarrow> correlation_fields" where
  "IncomingFields requestIDs traceParents operationIDs = no_fields\<lparr>
     cf_request_id := onlyValue requestIDs, cf_trace_parent := onlyValue traceParents,
     cf_operation_id := onlyValue operationIDs\<rparr>"

definition validIdentifier :: "string \<Rightarrow> string" where
  "validIdentifier value = (let v = trim_space value in if \<not> matches_identifier v then '''' else v)"

definition chooseIdentifier :: "string \<Rightarrow> string \<Rightarrow> string" where
  "chooseIdentifier incoming existing =
     (if trim_space incoming = '''' then validIdentifier existing else validIdentifier incoming)"

definition validTraceParent :: "string \<Rightarrow> string" where
  "validTraceParent value = (let v = trim_space value in
     case trace_fields v of
       None \<Rightarrow> ''''
     | Some (trace, span, flags) \<Rightarrow> if isAllZero trace \<or> isAllZero span then '''' else v)"

definition chooseTraceParent :: "string \<Rightarrow> string \<Rightarrow> string" where
  "chooseTraceParent incoming existing =
     (if trim_space incoming = '''' then validTraceParent existing else validTraceParent incoming)"

definition traceID :: "string \<Rightarrow> string" where
  "traceID traceParent = (case trace_fields traceParent of None \<Rightarrow> '''' | Some (t, _, _) \<Rightarrow> t)"

text \<open>\<open>randomHex\<close> draws until the bytes are not all zero; the drawn bytes are the argument.\<close>

definition allZeroBytes :: "string \<Rightarrow> bool" where
  "allZeroBytes value \<longleftrightarrow> list_all (\<lambda>c. c = CHR 0x00) value"

fun randomHex :: "string list \<Rightarrow> string option" where
  "randomHex [] = None"
| "randomHex (buffer # draws) =
     (if \<not> allZeroBytes buffer then Some (hex_encode buffer) else randomHex draws)"

definition newTraceParent :: "string \<Rightarrow> string \<Rightarrow> string" where
  "newTraceParent trace span = ''00-'' @ trace @ ''-'' @ span @ ''-01''"

text \<open>\<open>Ensure\<close>: \<open>request\<close>, \<open>trace\<close> and \<open>span\<close> are the results of \<open>randomHex\<close>.\<close>

definition Ensure ::
    "string \<Rightarrow> string \<Rightarrow> string \<Rightarrow> correlation_fields \<Rightarrow> correlation_fields \<Rightarrow> correlation_fields" where
  "Ensure request trace span existing incoming =
     (let chosenRequest = chooseIdentifier (cf_request_id incoming) (cf_request_id existing);
          requestID = (if chosenRequest = '''' then request else chosenRequest);
          chosenTrace = chooseTraceParent (cf_trace_parent incoming) (cf_trace_parent existing);
          traceParent = (if chosenTrace = '''' then newTraceParent trace span else chosenTrace);
          operationID = chooseIdentifier (cf_operation_id incoming) (cf_operation_id existing)
      in \<lparr>cf_request_id = requestID, cf_trace_parent = traceParent, cf_trace_id = traceID traceParent,
          cf_operation_id = operationID\<rparr>)"

definition WithOperationID ::
    "string \<Rightarrow> string \<Rightarrow> string \<Rightarrow> correlation_fields \<Rightarrow> string \<Rightarrow> correlation_fields" where
  "WithOperationID request trace span existing operationID =
     (Ensure request trace span existing no_fields)\<lparr>cf_operation_id := validIdentifier operationID\<rparr>"

text \<open>Fields that may be logged and forwarded.\<close>

definition well_formed_fields :: "correlation_fields \<Rightarrow> bool" where
  "well_formed_fields f \<longleftrightarrow>
     matches_identifier (cf_request_id f) \<and>
     (\<exists>t s g. trace_fields (cf_trace_parent f) = Some (t, s, g) \<and> \<not> isAllZero t \<and> \<not> isAllZero s \<and>
              cf_trace_id f = t) \<and>
     (cf_operation_id f = '''' \<or> matches_identifier (cf_operation_id f))"

lemma validIdentifier_cases: "validIdentifier v = '''' \<or> matches_identifier (validIdentifier v)"
  by (simp add: validIdentifier_def Let_def)

lemma chooseIdentifier_cases: "chooseIdentifier i e = '''' \<or> matches_identifier (chooseIdentifier i e)"
  using validIdentifier_cases by (simp add: chooseIdentifier_def)

lemma validTraceParent_cases:
  "validTraceParent v = '''' \<or>
   (\<exists>t s g. trace_fields (validTraceParent v) = Some (t, s, g) \<and> \<not> isAllZero t \<and> \<not> isAllZero s)"
  by (auto simp: validTraceParent_def Let_def split: option.splits)

lemma chooseTraceParent_cases:
  "chooseTraceParent i e = '''' \<or>
   (\<exists>t s g. trace_fields (chooseTraceParent i e) = Some (t, s, g) \<and> \<not> isAllZero t \<and> \<not> isAllZero s)"
  unfolding chooseTraceParent_def using validTraceParent_cases by auto

lemma hex_digit_is_hex: "n < 16 \<Longrightarrow> is_hex (hex_digit n)"
proof -
  have "\<forall>n\<in>set [0..<16]. is_hex (hex_digit n)"
    by (simp add: upt_rec is_hex_def hex_digit_def less_eq_char_def)
  then show "n < 16 \<Longrightarrow> is_hex (hex_digit n)" by simp
qed

lemma hex_encode_hex: "list_all is_hex (hex_encode bytes)"
  by (induction bytes) (auto simp: hex_encode_def hex_digit_is_hex less_mult_imp_div_less)

lemma length_hex_encode [simp]: "length (hex_encode bytes) = 2 * length bytes"
  by (induction bytes) (auto simp: hex_encode_def)

lemma hex_encode_zero: "isAllZero (hex_encode bytes) \<longleftrightarrow> allZeroBytes bytes"
proof (induction bytes)
  case (Cons c bytes)
  have digit: "hex_digit n = CHR ''0'' \<longleftrightarrow> n = 0" if "n < 16" for n
    using hex_digit_inj [OF that, of 0] by (auto simp: hex_digit_def)
  have zero: "(of_char c :: nat) = 0 \<longleftrightarrow> c = CHR 0x00"
  proof
    assume "(of_char c :: nat) = 0"
    then have "char_of (of_char c :: nat) = char_of (0 :: nat)" by (rule arg_cong)
    moreover have "char_of (of_char c :: nat) = c" by (rule char_of_char)
    ultimately show "c = CHR 0x00" by (simp add: char_of_def del: char_of_char)
  qed simp
  have "(of_char c :: nat) div 16 = 0 \<and> (of_char c :: nat) mod 16 = 0 \<longleftrightarrow> (of_char c :: nat) = 0"
    by presburger
  then have "(of_char c :: nat) div 16 = 0 \<and> (of_char c :: nat) mod 16 = 0 \<longleftrightarrow> c = CHR 0x00"
    using zero by simp
  then show ?case
    using Cons.IH by (auto simp: hex_encode_def isAllZero_def allZeroBytes_def digit less_mult_imp_div_less)
qed (simp add: hex_encode_def isAllZero_def allZeroBytes_def)

lemma randomHex_Some:
  "randomHex draws = Some h \<Longrightarrow> \<exists>b\<in>set draws. h = hex_encode b \<and> \<not> isAllZero h"
  by (induction draws) (auto simp: hex_encode_zero split: if_splits)

lemma is_hex_alnum: "is_hex c \<Longrightarrow> is_alnum c"
  by (auto simp: is_hex_def is_alnum_def less_eq_char_def)

lemma hex_is_identifier:
  assumes "list_all is_hex s" "s \<noteq> []" "length s \<le> 128"
  shows "matches_identifier s"
  using assms by (cases s) (auto simp: matches_identifier_def is_hex_alnum list_all_iff)

lemma trace_fields_new:
  assumes "length t = 32" "length s = 16" "list_all is_hex t" "list_all is_hex s"
  shows "trace_fields (newTraceParent t s) = Some (t, s, ''01'')"
  using assms by (simp add: trace_fields_def newTraceParent_def nth_append is_hex_def less_eq_char_def)

text \<open>C40: Whatever headers come in, \<open>Ensure\<close> yields fields that are safe to log and forward: a
  request id of the allowed shape, a trace parent with non-zero trace and span ids together with
  its trace id, and an operation id that is empty or of the allowed shape.\<close>

theorem Ensure_well_formed:
  assumes "randomHex rs = Some request" "\<forall>r\<in>set rs. length r = 16"
    and "randomHex ts = Some trace" "\<forall>t\<in>set ts. length t = 16"
    and "randomHex ss = Some span" "\<forall>s\<in>set ss. length s = 8"
  shows "well_formed_fields (Ensure request trace span existing incoming)"
    (is "well_formed_fields ?f")
proof -
  from randomHex_Some [OF assms(1)] assms(2) have req: "matches_identifier request"
    by (auto intro!: hex_is_identifier hex_encode_hex) (metis length_0_conv length_hex_encode mult_is_0 zero_neq_numeral)
  have new: "trace_fields (newTraceParent trace span) = Some (trace, span, ''01'')"
    using randomHex_Some [OF assms(3)] randomHex_Some [OF assms(5)] assms(4,6)
    by (auto intro!: trace_fields_new hex_encode_hex)
  have zero: "\<not> isAllZero trace" "\<not> isAllZero span"
    using randomHex_Some [OF assms(3)] randomHex_Some [OF assms(5)] by auto
  let ?p = "chooseTraceParent (cf_trace_parent incoming) (cf_trace_parent existing)"
  have tp: "cf_trace_parent ?f = (if ?p = '''' then newTraceParent trace span else ?p)"
    "cf_trace_id ?f = traceID (cf_trace_parent ?f)"
    by (simp_all add: Ensure_def Let_def)
  have "\<exists>t s g. trace_fields (cf_trace_parent ?f) = Some (t, s, g) \<and> \<not> isAllZero t \<and> \<not> isAllZero s"
    using chooseTraceParent_cases [of "cf_trace_parent incoming" "cf_trace_parent existing"] new zero
    by (cases "?p = ''''") (simp_all add: tp)
  then obtain t s g where "trace_fields (cf_trace_parent ?f) = Some (t, s, g)" "\<not> isAllZero t" "\<not> isAllZero s"
    by blast
  moreover from this have "cf_trace_id ?f = t" by (simp add: tp(2) traceID_def)
  moreover have "matches_identifier (cf_request_id ?f)"
    using chooseIdentifier_cases [of "cf_request_id incoming" "cf_request_id existing"] req
    by (auto simp: Ensure_def Let_def)
  moreover have "cf_operation_id ?f = '''' \<or> matches_identifier (cf_operation_id ?f)"
    using chooseIdentifier_cases [of "cf_operation_id incoming" "cf_operation_id existing"]
    by (auto simp: Ensure_def Let_def)
  ultimately show ?thesis
    unfolding well_formed_fields_def by blast
qed

definition sixteen :: string where
  "sixteen = replicate 16 CHR 0x7F"

lemma Ensure_well_formed_witness:
  "well_formed_fields (Ensure (hex_encode sixteen) (hex_encode sixteen) (hex_encode (take 8 sixteen))
     no_fields (IncomingFields [''req 1''] [] [''a'', ''b'']))"
  by (rule Ensure_well_formed [of "[sixteen]" _ "[sixteen]" _ "[take 8 sixteen]"])
     (simp_all add: sixteen_def allZeroBytes_def list_all_iff)

section \<open>The readiness gate\<close>

text \<open>\<open>servicehealth\<close>: a check is its error, if any.  A dependency without a check fails.\<close>

definition dependencyName :: "string \<Rightarrow> string" where
  "dependencyName name = (if name = '''' then ''dependency'' else name)"

definition Readiness_Check :: "(string \<times> string option option) list \<Rightarrow> string list" where
  "Readiness_Check dependencies = concat (map (\<lambda>(name, check). case check of
       None \<Rightarrow> [dependencyName name @ '': readiness check is required'']
     | Some None \<Rightarrow> []
     | Some (Some err) \<Rightarrow> [dependencyName name @ '': '' @ err]) dependencies)"

datatype health_error = ErrShuttingDown | Checker_Required | Check_Failed "string list"

text \<open>The gate's flag before and after the inner check, which runs in between.\<close>

definition Coordinator_Check ::
    "bool \<Rightarrow> string list option \<Rightarrow> bool \<Rightarrow> health_error option" where
  "Coordinator_Check before readiness after =
     (if before then Some ErrShuttingDown
      else case readiness of
        None \<Rightarrow> Some Checker_Required
      | Some failures \<Rightarrow>
          if after then Some ErrShuttingDown
          else if failures = [] then None else Some (Check_Failed failures))"

text \<open>The monitor publishes what it last saw: the published readiness, and the signal of shutdown,
  in the order the publisher receives them.\<close>

datatype published = SetReady bool | Publisher_Shutdown

record health_monitor =
  stopped :: bool
  published_log :: "published list"

definition Refresh :: "string list \<Rightarrow> health_monitor \<Rightarrow> health_error option \<times> health_monitor" where
  "Refresh failures m =
     (if stopped m then (Some ErrShuttingDown, m)
      else (if failures = [] then None else Some (Check_Failed failures),
            m\<lparr>published_log := published_log m @ [SetReady (failures = [])]\<rparr>))"

text \<open>\<open>stopOnce\<close>: only the first call has an effect.\<close>

definition Monitor_Shutdown :: "health_monitor \<Rightarrow> health_monitor" where
  "Monitor_Shutdown m =
     (if stopped m then m
      else m\<lparr>stopped := True, published_log := published_log m @ [Publisher_Shutdown]\<rparr>)"

inductive monitor_step :: "health_monitor \<Rightarrow> health_monitor \<Rightarrow> bool" where
  "monitor_step m (snd (Refresh failures m))"
| "monitor_step m (Monitor_Shutdown m)"

inductive_cases monitor_stepE: "monitor_step m m'"

lemma stopped_is_final: "monitor_step\<^sup>*\<^sup>* m m' \<Longrightarrow> stopped m \<Longrightarrow> m' = m"
  by (induction rule: rtranclp_induct)
     (auto elim!: monitor_stepE simp: Refresh_def Monitor_Shutdown_def)

text \<open>Shutdown is irreversible: after it, no interleaving of refreshes and further shutdowns
  publishes anything more, so the service is never reported ready again.\<close>

theorem shutdown_is_last_signal:
  assumes "monitor_step\<^sup>*\<^sup>* (Monitor_Shutdown m) m'" and "\<not> stopped m"
  shows "stopped m' \<and> published_log m' = published_log m @ [Publisher_Shutdown]"
proof -
  have "stopped (Monitor_Shutdown m)" by (simp add: Monitor_Shutdown_def)
  with stopped_is_final [OF assms(1)] assms(2) show ?thesis
    by (simp add: Monitor_Shutdown_def)
qed

lemma shutdown_is_last_signal_witness:
  "published_log (snd (Refresh [] (Monitor_Shutdown \<lparr>stopped = False, published_log = [SetReady True]\<rparr>))) =
   [SetReady True, Publisher_Shutdown]"
  using shutdown_is_last_signal [of "\<lparr>stopped = False, published_log = [SetReady True]\<rparr>"
      "snd (Refresh [] (Monitor_Shutdown \<lparr>stopped = False, published_log = [SetReady True]\<rparr>))"]
    monitor_step.intros(1) by auto

end
