(* ===== verification/Tables.thy ===== *)
theory Tables
  imports Prelude
begin

text \<open>
  Tables as lists of rows in insertion order, and the statements the two services issue on them:
  \<open>UPDATE ... WHERE\<close>, \<open>DELETE ... WHERE\<close>, \<open>SELECT ... LIMIT 1\<close> and
  \<open>INSERT ... ON CONFLICT (key) DO UPDATE\<close>.  The locale \<^term>\<open>upsert_table\<close> is the contract of
  an upsert on a unique key, which six tables of the Mihomo service share; the locale
  \<open>joining_table\<close> adds that the update is a join, as for the two tables of authorization minima.
\<close>

definition update_where :: "('r \<Rightarrow> bool) \<Rightarrow> ('r \<Rightarrow> 'r) \<Rightarrow> 'r list \<Rightarrow> 'r list" where
  "update_where p f rows = map (\<lambda>r. if p r then f r else r) rows"

definition delete_where :: "('r \<Rightarrow> bool) \<Rightarrow> 'r list \<Rightarrow> 'r list" where
  "delete_where p rows = filter (\<lambda>r. \<not> p r) rows"

definition count_where :: "('r \<Rightarrow> bool) \<Rightarrow> 'r list \<Rightarrow> nat" where
  "count_where p rows = length (filter p rows)"

text \<open>The update part of an upsert; the row the INSERT proposed is \<open>new\<close>.\<close>

definition upsert :: "('r \<Rightarrow> 'k) \<Rightarrow> ('r \<Rightarrow> 'r \<Rightarrow> 'r) \<Rightarrow> 'r \<Rightarrow> 'r list \<Rightarrow> 'r list" where
  "upsert key merge new rows =
     (if list_ex (\<lambda>r. key r = key new) rows
      then update_where (\<lambda>r. key r = key new) (\<lambda>r. merge r new) rows
      else rows @ [new])"

text \<open>A unique constraint on a column tuple, and a partial one (\<open>WHERE p\<close>).\<close>

definition unique_on :: "('r \<Rightarrow> 'k) \<Rightarrow> 'r list \<Rightarrow> bool" where
  "unique_on key rows = distinct (map key rows)"

definition unique_where :: "('r \<Rightarrow> bool) \<Rightarrow> ('r \<Rightarrow> 'k) \<Rightarrow> 'r list \<Rightarrow> bool" where
  "unique_where p key rows = distinct (map key (filter p rows))"

subsection \<open>Lookups after updates\<close>

lemma update_where_Nil [table_simps, simp]: "update_where p f [] = []"
  by (simp add: update_where_def)

lemma update_where_Cons [table_simps, simp]:
  "update_where p f (r # rows) = (if p r then f r else r) # update_where p f rows"
  by (simp add: update_where_def)

lemma delete_where_Nil [table_simps, simp]: "delete_where p [] = []"
  by (simp add: delete_where_def)

lemma delete_where_Cons [table_simps, simp]:
  "delete_where p (r # rows) = (if p r then delete_where p rows else r # delete_where p rows)"
  by (simp add: delete_where_def)

lemma length_update_where [simp]: "length (update_where p f rows) = length rows"
  by (simp add: update_where_def)

lemma set_delete_where [table_simps, simp]: "set (delete_where p rows) = {r \<in> set rows. \<not> p r}"
  by (auto simp: delete_where_def)

lemma set_update_where [table_simps]:
  "set (update_where p f rows) = (\<lambda>r. if p r then f r else r) ` set rows"
  by (simp add: update_where_def)

lemma in_update_whereE:
  assumes "r \<in> set (update_where p f rows)"
  obtains r0 where "r0 \<in> set rows" "r = (if p r0 then f r0 else r0)"
  using assms by (auto simp: set_update_where)

lemma update_where_none [table_simps]:
  "(\<And>r. r \<in> set rows \<Longrightarrow> \<not> p r) \<Longrightarrow> update_where p f rows = rows"
  by (induction rows) auto

lemma update_where_False [simp]: "update_where (\<lambda>_. False) f rows = rows"
  by (simp add: update_where_none)

lemma map_update_where:
  "(\<And>r. p r \<Longrightarrow> k (f r) = k r) \<Longrightarrow> map k (update_where p f rows) = map k rows"
  by (induction rows) auto

lemma unique_on_update_where [table_simps]:
  "(\<And>r. p r \<Longrightarrow> k (f r) = k r) \<Longrightarrow> unique_on k (update_where p f rows) = unique_on k rows"
  by (simp add: unique_on_def map_update_where)

lemma unique_on_Cons:
  "unique_on k (r # rows) \<longleftrightarrow> (\<forall>r'\<in>set rows. k r' \<noteq> k r) \<and> unique_on k rows"
  by (auto simp: unique_on_def image_iff)

lemma unique_on_delete_where [simp, intro]:
  "unique_on k rows \<Longrightarrow> unique_on k (delete_where p rows)"
  by (induction rows) (auto simp: unique_on_def)

lemma unique_on_snoc [table_simps]:
  "unique_on k (rows @ [r]) \<longleftrightarrow> unique_on k rows \<and> \<not> list_ex (\<lambda>r'. k r' = k r) rows"
  by (auto simp: unique_on_def list_ex_iff image_iff)

lemma unique_onD:
  "unique_on k rows \<Longrightarrow> r \<in> set rows \<Longrightarrow> r' \<in> set rows \<Longrightarrow> k r = k r' \<Longrightarrow> r = r'"
  unfolding unique_on_def by (meson distinct_map inj_onD)

lemma unique_where_delete_where [simp, intro]:
  "unique_where q k rows \<Longrightarrow> unique_where q k (delete_where p rows)"
  by (induction rows) (auto simp: unique_where_def)

lemma unique_where_none: "(\<And>r. r \<in> set rows \<Longrightarrow> \<not> q r) \<Longrightarrow> unique_where q k rows"
  by (simp add: unique_where_def filter_False)

lemma find_delete_where [table_simps]:
  "(\<And>r. q r \<Longrightarrow> \<not> p r) \<Longrightarrow> find q (delete_where p rows) = find q rows"
  by (induction rows) auto

lemma find_delete_where_same [table_simps]: "find p (delete_where p rows) = None"
  by (induction rows) auto

lemma find_update_where [table_simps]:
  "(\<And>r. p r \<Longrightarrow> q (f r) = q r) \<Longrightarrow>
   find q (update_where p f rows) = map_option (\<lambda>r. if p r then f r else r) (find q rows)"
  by (induction rows) auto

lemma find_snoc [table_simps]:
  "find q (rows @ [r]) = (case find q rows of None \<Rightarrow> (if q r then Some r else None) | Some x \<Rightarrow> Some x)"
  by (induction rows) auto

lemma find_SomeD: "find q rows = Some r \<Longrightarrow> r \<in> set rows \<and> q r"
  by (induction rows) (auto split: if_splits)

lemma find_unique:
  assumes "unique_on k rows" and "r \<in> set rows" and "\<And>r'. q r' \<longleftrightarrow> k r' = k r"
  shows "find q rows = Some r"
  using assms by (induction rows) (auto simp: unique_on_Cons)

lemma find_None_list_ex: "find q rows = None \<longleftrightarrow> \<not> list_ex q rows"
  by (induction rows) auto

lemma list_ex_find: "list_ex q rows \<longleftrightarrow> find q rows \<noteq> None"
  by (simp add: find_None_list_ex)

lemma count_where_0: "count_where p rows = 0 \<longleftrightarrow> \<not> list_ex p rows"
  by (auto simp: count_where_def list_ex_iff filter_empty_conv)

lemma count_where_unique:
  assumes "unique_on k rows" and "\<And>r. p r \<Longrightarrow> k r = x"
  shows "count_where p rows \<le> 1"
  using assms(1)
proof (induction rows)
  case (Cons r rows)
  then have "p r \<Longrightarrow> filter p rows = []"
    using assms(2) by (fastforce simp: unique_on_Cons filter_empty_conv)
  with Cons show ?case by (auto simp: count_where_def unique_on_Cons)
qed (simp add: count_where_def)

lemma count_where_1_find:
  assumes "unique_on k rows" and "\<And>r. p r \<Longrightarrow> k r = x"
  shows "count_where p rows = 1 \<longleftrightarrow> list_ex p rows"
  using count_where_unique [of k rows p x, OF assms] count_where_0 [of p rows]
  by linarith

subsection \<open>The upsert contract\<close>

locale upsert_table =
  fixes key :: "'r \<Rightarrow> 'k"
    and merge :: "'r \<Rightarrow> 'r \<Rightarrow> 'r"
  assumes merge_key: "key old = key new \<Longrightarrow> key (merge old new) = key new"
begin

lemma upsert_unique: "unique_on key rows \<Longrightarrow> unique_on key (upsert key merge new rows)"
proof -
  have "unique_on key (update_where (\<lambda>r. key r = key new) (\<lambda>r. merge r new) rows) = unique_on key rows"
    by (rule unique_on_update_where) (simp add: merge_key)
  moreover assume "unique_on key rows"
  ultimately show ?thesis
    by (simp add: upsert_def unique_on_snoc)
qed

lemma find_merged:
  "find (\<lambda>r. key r = k) (update_where (\<lambda>r. key r = key new) (\<lambda>r. merge r new) rows) =
   map_option (\<lambda>r. if key r = key new then merge r new else r) (find (\<lambda>r. key r = k) rows)"
  by (rule find_update_where) (simp add: merge_key)

lemma upsert_lookup_same:
  "find (\<lambda>r. key r = key new) (upsert key merge new rows) =
   Some (case find (\<lambda>r. key r = key new) rows of None \<Rightarrow> new | Some old \<Rightarrow> merge old new)"
  by (cases "find (\<lambda>r. key r = key new) rows")
     (auto simp: upsert_def find_merged find_snoc list_ex_find dest: find_SomeD)

lemma upsert_lookup_other:
  assumes "k \<noteq> key new"
  shows "find (\<lambda>r. key r = k) (upsert key merge new rows) = find (\<lambda>r. key r = k) rows"
  using assms
  by (cases "find (\<lambda>r. key r = k) rows")
     (auto simp: upsert_def find_merged find_snoc dest: find_SomeD)

lemma upsert_lookup:
  "find (\<lambda>r. key r = k) (upsert key merge new rows) =
   (if k = key new
    then Some (case find (\<lambda>r. key r = k) rows of None \<Rightarrow> new | Some old \<Rightarrow> merge old new)
    else find (\<lambda>r. key r = k) rows)"
  using upsert_lookup_same upsert_lookup_other by auto

lemma upsert_present: "list_ex (\<lambda>r. key r = key new) (upsert key merge new rows)"
  by (simp add: list_ex_find upsert_lookup_same)

lemma upsert_members:
  "r \<in> set (upsert key merge new rows) \<Longrightarrow>
   r \<in> set rows \<or> r = new \<or> (\<exists>old \<in> set rows. key old = key new \<and> r = merge old new)"
  by (auto simp: upsert_def table_simps split: if_splits)

lemma upsert_keeps_others:
  "r \<in> set rows \<Longrightarrow> key r \<noteq> key new \<Longrightarrow> r \<in> set (upsert key merge new rows)"
  by (force simp: upsert_def table_simps)

end

text \<open>A table whose rows only grow: the update keeps the larger of the stored and the proposed
  value.  The value of a row is read by \<open>val\<close>.\<close>

locale joining_table = upsert_table key merge
  for key :: "'r \<Rightarrow> 'k" and merge :: "'r \<Rightarrow> 'r \<Rightarrow> 'r" +
  fixes val :: "'r \<Rightarrow> 'v::semilattice_sup"
  assumes merge_val: "val (merge old new) = sup (val old) (val new)"
begin

text \<open>What the table demands of key \<open>k\<close>: nothing below it, and \<open>None\<close> when no row is there.\<close>

lemma upsert_val:
  "map_option val (find (\<lambda>r. key r = k) (upsert key merge new rows)) =
   (if k = key new
    then Some (case map_option val (find (\<lambda>r. key r = k) rows) of
                 None \<Rightarrow> val new | Some v \<Rightarrow> sup v (val new))
    else map_option val (find (\<lambda>r. key r = k) rows))"
  by (auto simp: upsert_lookup merge_val split: option.splits)

lemma upsert_val_grows:
  assumes "map_option val (find (\<lambda>r. key r = k) rows) = Some v"
  shows "\<exists>v'. map_option val (find (\<lambda>r. key r = k) (upsert key merge new rows)) = Some v' \<and> v \<le> v'"
  using assms unfolding upsert_val by auto

lemma upsert_val_reaches:
  "\<exists>v'. map_option val (find (\<lambda>r. key r = key new) (upsert key merge new rows)) = Some v' \<and> val new \<le> v'"
  unfolding upsert_val by (auto split: option.splits)

lemma upsert_val_commute:
  "map_option val (find (\<lambda>r. key r = k) (upsert key merge a (upsert key merge b rows))) =
   map_option val (find (\<lambda>r. key r = k) (upsert key merge b (upsert key merge a rows)))"
  unfolding upsert_val by (auto simp: sup.commute sup.left_commute split: option.splits)

lemma upsert_val_idem:
  "map_option val (find (\<lambda>r. key r = k) (upsert key merge a (upsert key merge a rows))) =
   map_option val (find (\<lambda>r. key r = k) (upsert key merge a rows))"
  unfolding upsert_val by (auto split: option.splits)

lemma fold_upsert_val_grows:
  assumes "map_option val (find (\<lambda>r. key r = k) rows) = Some v"
  shows "\<exists>v'. map_option val (find (\<lambda>r. key r = k) (fold (upsert key merge) news rows)) = Some v' \<and> v \<le> v'"
  using assms
proof (induction news arbitrary: rows v)
  case (Cons new news)
  from upsert_val_grows [OF Cons.prems, of new] obtain v'
    where v': "map_option val (find (\<lambda>r. key r = k) (upsert key merge new rows)) = Some v'" "v \<le> v'"
    by blast
  from Cons.IH [OF v'(1)] v'(2) show ?case
    by (auto intro: order_trans)
next
  case Nil
  then show ?case by auto
qed

end

subsection \<open>Partial unique indexes\<close>

lemma unique_on_distinct: "unique_on k rows \<Longrightarrow> distinct rows"
  by (simp add: unique_on_def distinct_map)

lemma unique_where_iff:
  "distinct rows \<Longrightarrow> unique_where q k rows \<longleftrightarrow>
     (\<forall>r\<in>set rows. \<forall>r'\<in>set rows. q r \<longrightarrow> q r' \<longrightarrow> k r = k r' \<longrightarrow> r = r')"
  by (auto simp: unique_where_def distinct_map inj_on_def)

lemma filter_at_most_one:
  assumes "distinct rows"
  shows "length (filter p rows) \<le> 1 \<longleftrightarrow> (\<forall>r\<in>set rows. \<forall>r'\<in>set rows. p r \<longrightarrow> p r' \<longrightarrow> r = r')"
proof -
  have "length (filter p rows) = card (set (filter p rows))"
    using assms by (metis distinct_card distinct_filter)
  then show ?thesis
    by (auto simp: card_le_Suc0_iff_eq)
qed

end
