(* ===== verification/Mihomo_Model.thy ===== *)
theory Mihomo_Model
  imports Tables
begin

text \<open>
  The data of the Platform Mihomo service (\<open>services/platform-mihomo\<close>): the domain types of
  \<open>internal/biz\<close>, the rows of \<open>internal/data/model\<close> with the constraints of
  \<open>initialize/migrate/sql/000001_init_schema.up.sql\<close>, and the errors its layers return.
  Row ids and the bookkeeping columns \<open>created_at\<close> and \<open>updated_at\<close> are not modelled, except
  the id of a profile, which the code reads.
\<close>

section \<open>Errors\<close>

datatype grpc_code =
    Code_OK | Code_Unknown | Canceled | InvalidArgument | DeadlineExceeded | NotFound | AlreadyExists
  | PermissionDenied | ResourceExhausted | FailedPrecondition | Aborted | Internal
  | Unavailable | Unauthenticated

datatype error_kind =
    ErrorInvalidCredential | ErrorExpiredCredential | ErrorChallengeRequired
  | ErrorRateLimited | ErrorUnavailable | ErrorInvalidResponse

datatype merror =
    Db db_error
  | RecordNotFound
  | ErrOperationConflict
  | ErrOperationState
  | ErrOperationRequired
  | ErrCredentialAlreadyBound
  | ErrCredentialGenerationConflict
  | ErrArtifactCredentialStale
  | ErrArtifactRevocationPending
  | ErrArtifactStorageNotConfigured
  | ErrCredentialNotFound
  | ErrCredentialRequiresAttention
  | ErrProfileNotFound
  | ErrPlatformAccountMismatch
  | ErrActionScopeDenied
  | ErrBindingScopeDenied
  | ErrProfileScopeDenied
  | ErrDefaultProfileAlreadyExists
  | ErrGrantVersionRevoked
  | ErrInvalidKeyring
  | ErrInvalidArtifactCiphertext
  | UpstreamError error_kind
  | StatusError grpc_code
  | OtherError string
  | Joined merror merror

text \<open>\<open>errors.Is\<close> and \<open>errors.As\<close> look through \<open>errors.Join\<close>.\<close>

fun is_error :: "merror \<Rightarrow> merror \<Rightarrow> bool" where
  "is_error (Joined a b) t = (is_error a t \<or> is_error b t)"
| "is_error e t = (e = t)"

fun upstream_kind :: "merror \<Rightarrow> error_kind option" where
  "upstream_kind (Joined a b) =
     (case upstream_kind a of Some k \<Rightarrow> Some k | None \<Rightarrow> upstream_kind b)"
| "upstream_kind (UpstreamError k) = Some k"
| "upstream_kind e = None"

definition IsErrorKind :: "merror \<Rightarrow> error_kind \<Rightarrow> bool" where
  "IsErrorKind e k = (upstream_kind e = Some k)"

text \<open>\<open>status.Code\<close> of a non-nil error: the code of the first gRPC status inside it.\<close>

fun status_in :: "merror \<Rightarrow> grpc_code option" where
  "status_in (Joined a b) = (case status_in a of Some c \<Rightarrow> Some c | None \<Rightarrow> status_in b)"
| "status_in (StatusError c) = Some c"
| "status_in e = None"

definition status_code :: "merror \<Rightarrow> grpc_code" where
  "status_code e = (case status_in e of Some c \<Rightarrow> c | None \<Rightarrow> Code_Unknown)"

section \<open>Domain types and rows\<close>

record operation_ref =
  op_operation_id :: string
  op_kind :: string
  op_binding_ref :: string
  op_pre_generation :: u64
  op_target_generation :: u64
  op_request_fingerprint :: string

record operation_result =
  res_operation :: operation_ref
  res_state :: string
  res_reason_code :: string
  res_account_key :: string
  res_status :: string
  res_snapshot_json :: string
  res_execution_token :: string
  res_lease_expires_at :: instant

record platform_operation =
  row_operation_id :: string
  row_kind :: string
  row_binding_ref :: string
  row_pre_generation :: u64
  row_target_generation :: u64
  row_request_fingerprint :: string
  row_execution_token :: string
  row_lease_expires_at :: instant
  row_state :: string
  row_reason_code :: string
  row_account_key :: string
  row_credential_status :: string
  row_snapshot_json :: string

record credential =
  cred_binding_ref :: string
  cred_account_key :: string
  cred_generation :: u64
  cred_platform :: string
  cred_account_id :: string
  cred_region :: string
  cred_blob :: string
  cred_version :: string
  cred_status :: string
  cred_last_validated_at :: "instant option"
  cred_last_refreshed_at :: "instant option"
  cred_expires_at :: "instant option"
  cred_snapshot_complete :: bool
  cred_profile_revision :: u64
  cred_observed_revision :: u64

record device =
  dev_binding_ref :: string
  dev_account_key :: string
  dev_device_ref :: string
  dev_device_id :: string
  dev_device_fp :: string
  dev_device_name :: "string option"
  dev_is_valid :: bool
  dev_last_seen_at :: "instant option"

record profile_identity =
  pid_player_id :: string
  pid_region :: string

record profile =
  prof_id :: nat
  prof_binding_ref :: string
  prof_account_key :: string
  prof_profile_ref :: string
  prof_game_biz :: string
  prof_region :: string
  prof_player_id :: string
  prof_nickname :: string
  prof_level :: int
  prof_is_default :: bool
  prof_discovered_at :: instant

record artifact =
  art_binding_ref :: string
  art_account_key :: string
  art_type :: string
  art_value :: string
  art_scope_key :: string
  art_expires_at :: instant

record runtime_artifact = artifact +
  art_revocation_pending :: bool

record revocation_intent =
  int_intent_id :: string
  int_binding_ref :: string
  int_account_key :: string
  int_type :: string
  int_value :: string
  int_scope_key :: string
  int_expires_at :: instant
  int_state :: string
  int_ready_after :: instant
  int_lease_token :: "string option"
  int_lease_expires_at :: "instant option"

text \<open>The domain type of a revocation intent; its lease token is empty where the row has NULL.\<close>

record artifact_revocation_intent =
  bi_intent_id :: string
  bi_binding_ref :: string
  bi_account_key :: string
  bi_type :: string
  bi_value :: string
  bi_scope_key :: string
  bi_expires_at :: instant
  bi_state :: string
  bi_ready_after :: instant
  bi_lease_token :: string
  bi_lease_expires_at :: "instant option"

record authorization_fence =
  fence_binding_ref :: string
  fence_consumer_principal :: string
  fence_minimum_grant_version :: u64
  fence_minimum_owner_epoch :: u64
  fence_minimum_consumer_epoch :: u64
  fence_minimum_entry_epoch :: u64

record grant_invalidation =
  inv_binding_ref :: string
  inv_consumer :: string
  inv_minimum_grant_version :: u64
  inv_invalidated_at :: instant

record service_ticket_claims =
  tc_ticket_type :: string
  tc_actor_type :: string
  tc_actor_id :: string
  tc_owner_user_ref :: string
  tc_entry_identity_ref :: string
  tc_binding_ref :: string
  tc_platform :: string
  tc_account_key :: string
  tc_consumer :: string
  tc_grant_version :: u64
  tc_owner_epoch :: u64
  tc_consumer_epoch :: u64
  tc_entry_epoch :: u64
  tc_credential_generation :: u64
  tc_operation_id :: string
  tc_profile_ref :: string
  tc_scopes :: "string list"
  tc_audience :: string
  tc_bot_id :: string
  tc_platform_service_key :: string

record discovered_profile =
  disc_game_biz :: string
  disc_region :: string
  disc_player_id :: string
  disc_nickname :: string
  disc_level :: int

record mihomo_db =
  operations :: "platform_operation list"
  credentials :: "credential list"
  devices :: "device list"
  profiles :: "profile list"
  next_profile_id :: nat
  artifacts :: "runtime_artifact list"
  intents :: "revocation_intent list"
  invalidations :: "grant_invalidation list"
  fences :: "authorization_fence list"

definition empty_mihomo_db :: mihomo_db where
  "empty_mihomo_db = \<lparr>operations = [], credentials = [], devices = [], profiles = [],
     next_profile_id = 1, artifacts = [], intents = [], invalidations = [], fences = []\<rparr>"

text \<open>Calls to the upstream platform that leave a trace there.\<close>

datatype upstream_call =
    Revoked_AuthKey string
  | Issued_AuthKey string
  | Cache_Del "string list"
  | Cache_Set string

type_synonym mworld = "(mihomo_db, upstream_call) world"
type_synonym 'a meff = "(mihomo_db, upstream_call, merror, 'a) eff"

abbreviation sql :: "(mihomo_db \<Rightarrow> db_error + ('a \<times> mihomo_db)) \<Rightarrow> 'a meff" where
  "sql \<equiv> statement Db"

abbreviation sql_query :: "(mihomo_db \<Rightarrow> 'a) \<Rightarrow> 'a meff" where
  "sql_query \<equiv> query Db"

abbreviation sql_exec :: "(mihomo_db \<Rightarrow> mihomo_db) \<Rightarrow> unit meff" where
  "sql_exec \<equiv> execute_sql Db"

abbreviation sql_immediately :: "(mihomo_db \<Rightarrow> db_error + ('a \<times> mihomo_db)) \<Rightarrow> 'a meff" where
  "sql_immediately \<equiv> immediately Db"

abbreviation within_transaction :: "'a meff \<Rightarrow> 'a meff" where
  "within_transaction \<equiv> transaction Db"

text \<open>A statement on the context's connection, or on one of its own (the repositories' \<open>r.db\<close>,
  which is outside any open transaction).\<close>

definition on_db :: "bool \<Rightarrow> (mihomo_db \<Rightarrow> db_error + ('a \<times> mihomo_db)) \<Rightarrow> 'a meff" where
  "on_db direct q = (if direct then sql_immediately q else sql q)"

text \<open>\<open>txFromContext(ctx) != nil\<close>.\<close>

definition in_transaction :: "bool meff" where
  "in_transaction = (\<lambda>w. (Inr (base w \<noteq> None), w))"

lemma in_transaction_apply [effect_simps]: "in_transaction w = (Inr (base w \<noteq> None), w)"
  by (simp add: in_transaction_def)

lemma in_transaction_InrE:
  assumes "in_transaction w = (Inr b, w')"
  obtains "b = (base w \<noteq> None)" "w' = w"
proof -
  from assms have "(Inr (base w \<noteq> None) :: merror + bool, w) = (Inr b, w')"
    by (simp only: in_transaction_def)
  then show thesis by (elim Pair_inject Inr_inject [elim_format]) (rule that, auto)
qed

lemma in_transaction_rules [keeps_rules, simp]:
  "keeps I in_transaction" "frames f in_transaction" "pins_committed in_transaction"
  by (simp_all add: keeps_def frames_def pins_committed_def in_transaction_def)

definition initial_world :: "mihomo_db \<Rightarrow> mworld" where
  "initial_world d = \<lparr>db = d, base = None, faults = [], calls = []\<rparr>"

lemma initial_world_simps [simp]:
  "db (initial_world d) = d" "base (initial_world d) = None"
  "faults (initial_world d) = []" "calls (initial_world d) = []"
  by (simp_all add: initial_world_def)

end
