(* ===== verification/Account_Model.thy ===== *)
theory Account_Model
  imports Contracts Mihomo_Model
begin

text \<open>
  The data of Account Center (\<open>services/account-center\<close>): the rows of \<open>internal/model\<close> the platform
  services read and write, with the constraints of \<open>initialize/migrate/sql/000001_init_schema.up.sql\<close>,
  the errors of \<open>service/platformbinding/errors.go\<close> and the audit records of
  \<open>service/audit\<close>.  An id of a \<open>BIGSERIAL\<close> column is a natural number drawn from a counter.
  The metadata document of an audit record, the lengths of \<open>VARCHAR\<close> columns and \<open>updated_at\<close>,
  where no query reads it, are left out.
\<close>

section \<open>Enums\<close>

datatype binding_status =
    PendingBind | BindingActive | CredentialInvalid | RefreshRequired | Disabled
  | Deleting | DeleteFailed | BindingDeleted

datatype grant_status = GrantActive | GrantRevoked

datatype intent_state =
    PendingDelivery | Uncertain | ProjectionPending | InputRequired | InvariantViolation
  | Succeeded | Failed | Superseded

datatype delivery_mode = SyncSecret | Outbox

datatype outbox_status = OutboxPending | OutboxCompleted | OutboxDeadLetter

datatype unlink_state = UnlinkPending | UnlinkComplete

definition ReservesBinding :: "intent_state \<Rightarrow> bool" where
  "ReservesBinding state = (case state of
       PendingDelivery \<Rightarrow> True
     | Uncertain \<Rightarrow> True
     | ProjectionPending \<Rightarrow> True
     | InputRequired \<Rightarrow> True
     | InvariantViolation \<Rightarrow> True
     | _ \<Rightarrow> False)"

datatype challenge_status =
    ChallengePending | ChallengeApproved | ChallengeCancelled | ChallengeExpired | ChallengeConflict

section \<open>Errors\<close>

text \<open>The errors of the packages around a bot: \<open>service/credentials\<close>, \<open>service/botlink\<close>,
  \<open>service/entryidentity\<close> and \<open>service/botaccess\<close>.  Where two packages use one name, the
  package is part of it here.\<close>

datatype credential_error =
    ErrCredentialNotFound | ErrCredentialDisabled | ErrInvalidClientSecret | ErrInvalidAudience
  | ErrInsufficientScope | ErrEmptyClientID | ErrCredentialConflict | ErrInvalidEntryIssuer
  | ErrBotIssuerConflict | ErrInvalidStatus

datatype link_error =
    ErrAlreadyLinked | ErrTelegramAlreadyLinkedToOther | Botlink_ErrBotIdentityNotFound
  | ErrEntryIssuerMismatch | Botlink_ErrUnlinkPending

datatype entry_error =
    ErrInvalidInput | ErrPrincipalMismatch | ErrNamespaceUnavailable | ErrChallengeNotFound
  | ErrChallengeExpired | ErrChallengeConsumed | ErrIdentityConflict | ErrChallengeCapacity
  | ErrUnlinkPending

datatype access_error =
    ErrBotIdentityNotFound | ErrPlatformAccountMissing | ErrConsumerGrantNotFound
  | ErrConsumerGrantRevoked | Botaccess_ErrConsumerNotSupported | ErrScopeNotGranted
  | Botaccess_ErrInvalidTicketConfig | ErrSigningKeyUnavailable | ErrInactiveBinding
  | ErrPlatformServiceNotEnabled

datatype acerror =
    AcDb db_error
  | GormRecordNotFound
  | StatusErr grpc_code string
  | ContextCanceled
  | ContextDeadlineExceeded
  | PlainError string
  | WrappedErr acerror string
  | JoinedErr acerror acerror
  | ErrBindingAlreadyOwned
  | ErrBindingRuntimeSummaryNotReady
  | ErrBindingNotFound
  | ErrCredentialGatewayUnavailable
  | CredentialOperationPending string nat intent_state
  | ErrCredentialOperationNotFound
  | ErrCredentialOperationNotRecoverable
  | ErrCredentialValidationFailed
  | ErrConsumerNotSupported
  | ErrGrantActionNotAllowed
  | GrantPropagationPending nat string u64 acerror
  | ErrGrantPropagationPending
  | ErrBindingGenerationConflict
  | ErrMultiplePrimaryProfiles
  | ErrPlatformServiceUnavailable
  | ErrPlatformSummaryProxyUnavailable
  | ErrPrimaryProfileNotOwned
  | ErrInvalidBindingMutation
  | ErrInvalidTicketConfig
  | ErrConsumerGrantInvalidationRejected
  | ErrControlTransportNotConfigured
  | ErrGenericCredentialSummaryRequired
  | ErrGenericCredentialOperationFailed
  | ErrGenericCredentialOperationMismatch
  | CredentialErr credential_error
  | LinkErr link_error
  | EntryErr entry_error
  | AccessErr access_error

text \<open>The errors in the tree of an error, in the order \<open>errors.Is\<close> and \<open>errors.As\<close> visit them:
  \<open>fmt.Errorf("%w: ...")\<close> keeps its first operand, \<open>errors.Join\<close> both.\<close>

fun error_tree :: "acerror \<Rightarrow> acerror list" where
  "error_tree (WrappedErr e text) = WrappedErr e text # error_tree e"
| "error_tree (JoinedErr a b) = JoinedErr a b # error_tree a @ error_tree b"
| "error_tree (GrantPropagationPending b c v cause) =
     GrantPropagationPending b c v cause # ErrGrantPropagationPending # error_tree cause"
| "error_tree e = [e]"

definition errors_is :: "acerror \<Rightarrow> acerror \<Rightarrow> bool" where
  "errors_is e t \<longleftrightarrow> t \<in> set (error_tree e)"

fun pending_operation :: "acerror \<Rightarrow> (string \<times> nat \<times> intent_state) option" where
  "pending_operation (CredentialOperationPending i b st) = Some (i, b, st)"
| "pending_operation e = None"

text \<open>\<open>errors.As\<close> into \<open>CredentialOperationPendingError\<close>, which also tells \<open>errors.Is\<close> for
  \<open>ErrCredentialOperationPending\<close>.\<close>

definition operation_pending_in :: "acerror \<Rightarrow> (string \<times> nat \<times> intent_state) option" where
  "operation_pending_in e = (case List.map_filter pending_operation (error_tree e) of
     [] \<Rightarrow> None | p # _ \<Rightarrow> Some p)"

fun status_of_error :: "acerror \<Rightarrow> grpc_code option" where
  "status_of_error (StatusErr c m) = Some c"
| "status_of_error e = None"

text \<open>\<open>grpcstatus.FromError\<close>: the first status in the tree.\<close>

definition status_from_error :: "acerror \<Rightarrow> grpc_code option" where
  "status_from_error e = (case List.map_filter status_of_error (error_tree e) of
     [] \<Rightarrow> None | c # _ \<Rightarrow> Some c)"

definition grpc_status_code :: "acerror \<Rightarrow> grpc_code" where
  "grpc_status_code e = (case status_from_error e of Some c \<Rightarrow> c | None \<Rightarrow> Code_Unknown)"



text \<open>What \<open>IsExecutionPlaneUnavailableError\<close> asks of the text of an error: \<open>error_text\<close> is the
  part of \<open>err.Error()\<close> that other systems determine; the fixed texts contain neither pattern.\<close>

fun error_text :: "acerror \<Rightarrow> string" where
  "error_text (StatusErr c m) = m"
| "error_text (PlainError m) = m"
| "error_text (WrappedErr e text) = text"
| "error_text (JoinedErr a b) = error_text a @ CHR 0x0A # error_text b"
| "error_text e = ''''"

fun contains :: "string \<Rightarrow> string \<Rightarrow> bool" where
  "contains pat [] = (pat = [])"
| "contains pat (c # cs) = (take (length pat) (c # cs) = pat \<or> contains pat cs)"

definition to_lower :: "string \<Rightarrow> string" where
  "to_lower = map (\<lambda>c. if CHR ''A'' \<le> c \<and> c \<le> CHR ''Z'' then char_of (of_char c + 32 :: nat) else c)"

fun postgres_error :: "acerror \<Rightarrow> db_error option" where
  "postgres_error (AcDb Connection_Fault) = None"
| "postgres_error (AcDb e) = Some e"
| "postgres_error e = None"

definition IsUniqueViolation :: "acerror \<Rightarrow> bool" where
  "IsUniqueViolation err = (case List.map_filter postgres_error (error_tree err) of
     [] \<Rightarrow> contains ''unique constraint failed'' (to_lower (error_text err))
   | e # _ \<Rightarrow> (case e of Unique_Violation c \<Rightarrow> True | _ \<Rightarrow> False))"

definition IsExecutionPlaneUnavailableError :: "acerror \<Rightarrow> bool" where
  "IsExecutionPlaneUnavailableError err \<longleftrightarrow>
     errors_is err ErrCredentialGatewayUnavailable \<or> errors_is err ErrPlatformServiceUnavailable \<or>
     errors_is err ErrPlatformSummaryProxyUnavailable \<or> errors_is err ContextDeadlineExceeded \<or>
     status_from_error err \<in> {Some Unavailable, Some DeadlineExceeded} \<or>
     (let msg = to_lower (error_text err) in contains ''connection refused'' msg \<or> contains ''dial'' msg)"

definition IsCredentialValidationError :: "acerror \<Rightarrow> bool" where
  "IsCredentialValidationError err \<longleftrightarrow> errors_is err ErrCredentialValidationFailed \<or>
     status_from_error err \<in> Some ` {InvalidArgument, FailedPrecondition, PermissionDenied, Unauthenticated}"

section \<open>Rows\<close>

record platform_service =
  svc_id :: nat
  svc_platform_key :: string
  svc_service_key :: string
  svc_service_audience :: string
  svc_control_endpoint :: string
  svc_runtime_endpoint :: string
  svc_runtime_server_name :: string
  svc_supported_actions :: "string list option"
  svc_enabled :: bool

text \<open>A JSON column that holds a list of strings is that list, or \<open>None\<close> for any other document.\<close>

record user_row =
  usr_id :: nat
  usr_user_ref :: string
  usr_owner_epoch :: u64
  usr_deleted_at :: "instant option"

record account_binding =
  pb_id :: nat
  pb_binding_ref :: string
  pb_generation :: u64
  pb_owner_user_id :: nat
  pb_platform :: string
  pb_external_account_key :: "string option"
  pb_platform_service_key :: string
  pb_display_name :: string
  pb_status :: binding_status
  pb_status_reason_code :: string
  pb_status_reason_message :: string
  pb_primary_profile_id :: "nat option"
  pb_last_validated_at :: "instant option"
  pb_last_synced_at :: "instant option"
  pb_profile_revision :: u64
  pb_observed_revision :: u64
  pb_created_at :: instant
  pb_deleted_at :: "instant option"

record account_profile =
  ap_id :: nat
  ap_binding_id :: nat
  ap_platform_profile_key :: string
  ap_profile_ref :: string
  ap_game_biz :: string
  ap_region :: string
  ap_player_uid :: string
  ap_nickname :: string
  ap_level :: "int option"
  ap_is_primary :: bool
  ap_source_updated_at :: "instant option"

record consumer_grant =
  cg_id :: nat
  cg_binding_id :: nat
  cg_consumer :: string
  cg_status :: grant_status
  cg_ticket_version :: u64
  cg_pending_entry_epoch :: u64
  cg_granted_by :: "nat option"
  cg_granted_at :: instant
  cg_revoked_at :: "instant option"
  cg_last_invalidated_at :: "instant option"
  cg_updated_at :: instant

record grant_action =
  ga_grant_id :: nat
  ga_action :: string

record operation_intent =
  oi_operation_id :: string
  oi_binding_id :: nat
  oi_binding_ref :: string
  oi_owner_user_id :: nat
  oi_platform :: string
  oi_kind :: string
  oi_pre_generation :: u64
  oi_target_generation :: u64
  oi_request_fingerprint :: string
  oi_profile_ref :: string
  oi_profile_revision :: u64
  oi_delivery_mode :: delivery_mode
  oi_state :: intent_state
  oi_reason_code :: string
  oi_actor_type :: string
  oi_actor_id :: string
  oi_input_expires_at :: "instant option"
  oi_resolved_at :: "instant option"
  oi_created_at :: instant

record operation_outbox =
  ob_id :: nat
  ob_operation_id :: string
  ob_status :: outbox_status
  ob_available_at :: instant
  ob_attempt_count :: nat
  ob_last_reason_code :: string

record unlink_operation =
  uo_operation_id :: string
  uo_user_id :: nat
  uo_bot_id :: string
  uo_entry_identity_ref :: string
  uo_minimum_entry_epoch :: u64
  uo_state :: unlink_state
  uo_completed_at :: "instant option"

record unlink_target =
  ut_operation_id :: string
  ut_grant_id :: nat
  ut_confirmed_at :: "instant option"

record bot_identity =
  bid_id :: nat
  bid_entry_identity_ref :: string
  bid_entry_epoch :: u64
  bid_user_id :: nat
  bid_bot_id :: string
  bid_issuer :: string
  bid_external_user_id :: string
  bid_external_username :: "string option"
  bid_linked_at :: instant
  bid_deleted_at :: "instant option"

record service_credential =
  sc_client_id :: string
  sc_consumer_epoch :: u64
  sc_bot_id :: string
  sc_display_name :: string
  sc_secret_hash :: string
  sc_audiences :: "string list option"
  sc_scopes :: "string list option"
  sc_status :: string
  sc_owner_user_id :: nat
  sc_description :: string
  sc_last_used_at :: "instant option"
  sc_deleted_at :: "instant option"

text \<open>A logical bot.\<close>

record logical_bot =
  lb_id :: string
  lb_entry_issuer :: string
  lb_display_name :: string
  lb_description :: string
  lb_type :: string
  lb_status :: string
  lb_owner_user_id :: nat
  lb_deleted_at :: "instant option"

record link_challenge =
  lc_challenge_hash :: string
  lc_consumer :: string
  lc_bot_id :: string
  lc_issuer :: string
  lc_external_subject :: string
  lc_external_username :: "string option"
  lc_status :: challenge_status
  lc_expires_at :: instant
  lc_approved_user_id :: "nat option"
  lc_consumed_at :: "instant option"

text \<open>A row of \<open>audit_logs\<close>, the log of the users' own actions.\<close>

record audit_log =
  al_user_id :: nat
  al_action :: string
  al_bot_id :: string
  al_issuer :: string
  al_external_user_id :: string

record audit_event =
  ae_category :: string
  ae_actor_type :: string
  ae_actor_user_id :: "nat option"
  ae_action :: string
  ae_target_type :: string
  ae_target_id :: string
  ae_binding_id :: "nat option"
  ae_result :: string
  ae_reason_code :: string

record account_db =
  ac_services :: "platform_service list"
  ac_users :: "user_row list"
  ac_bindings :: "account_binding list"
  ac_next_binding_id :: nat
  ac_profiles :: "account_profile list"
  ac_next_profile_id :: nat
  ac_grants :: "consumer_grant list"
  ac_next_grant_id :: nat
  ac_grant_actions :: "grant_action list"
  ac_intents :: "operation_intent list"
  ac_outbox :: "operation_outbox list"
  ac_next_outbox_id :: nat
  ac_unlinks :: "unlink_operation list"
  ac_unlink_targets :: "unlink_target list"
  ac_identities :: "bot_identity list"
  ac_credentials :: "service_credential list"
  ac_audit :: "audit_event list"
  ac_bots :: "logical_bot list"
  ac_next_identity_id :: nat
  ac_challenges :: "link_challenge list"
  ac_audit_log :: "audit_log list"

definition empty_account_db :: account_db where
  "empty_account_db = \<lparr>ac_services = [], ac_users = [], ac_bindings = [], ac_next_binding_id = 1,
     ac_profiles = [], ac_next_profile_id = 1, ac_grants = [], ac_next_grant_id = 1,
     ac_grant_actions = [], ac_intents = [], ac_outbox = [], ac_next_outbox_id = 1, ac_unlinks = [],
     ac_unlink_targets = [], ac_identities = [], ac_credentials = [], ac_audit = [],
     ac_bots = [], ac_next_identity_id = 1, ac_challenges = [], ac_audit_log = []\<rparr>"

lemma empty_account_db_simps [simp]:
  "ac_services empty_account_db = []" "ac_users empty_account_db = []" "ac_bindings empty_account_db = []"
  "ac_profiles empty_account_db = []" "ac_grants empty_account_db = []" "ac_intents empty_account_db = []"
  "ac_outbox empty_account_db = []" "ac_audit empty_account_db = []"
  by (simp_all add: empty_account_db_def)

section \<open>Statements\<close>

type_synonym 'l aworld = "(account_db, 'l) world"
type_synonym ('l, 'a) aeff = "(account_db, 'l, acerror, 'a) eff"

abbreviation asql :: "(account_db \<Rightarrow> db_error + ('a \<times> account_db)) \<Rightarrow> ('l, 'a) aeff" where
  "asql \<equiv> statement AcDb"

abbreviation aquery :: "(account_db \<Rightarrow> 'a) \<Rightarrow> ('l, 'a) aeff" where
  "aquery \<equiv> query AcDb"

abbreviation aexec :: "(account_db \<Rightarrow> account_db) \<Rightarrow> ('l, unit) aeff" where
  "aexec \<equiv> execute_sql AcDb"

abbreviation db_transaction :: "('l, 'a) aeff \<Rightarrow> ('l, 'a) aeff" where
  "db_transaction \<equiv> transaction AcDb"

text \<open>\<open>First\<close> and \<open>Take\<close>: one row or \<open>gorm.ErrRecordNotFound\<close>, which callers often replace.\<close>

abbreviation take_row :: "acerror \<Rightarrow> (account_db \<Rightarrow> 'r option) \<Rightarrow> ('l, 'r) aeff" where
  "take_row \<equiv> select_one AcDb"

text \<open>\<open>_ = f(...)\<close>.\<close>

definition ignoring :: "('l, 'a) aeff \<Rightarrow> ('l, unit) aeff" where
  "ignoring m = andThen (attempt m) (\<lambda>_. return ())"

text \<open>\<open>if x, err := m; err != nil\<close>: the failure branch, then the rest.\<close>

definition or_else :: "('l, 'a) aeff \<Rightarrow> (acerror \<Rightarrow> ('l, 'b) aeff) \<Rightarrow> ('a \<Rightarrow> ('l, 'b) aeff) \<Rightarrow> ('l, 'b) aeff" where
  "or_else m failed k = andThen (attempt m) (\<lambda>r. case r of Inl e \<Rightarrow> failed e | Inr x \<Rightarrow> k x)"

lemma keeps_or_else:
  fixes m :: "('l, 'a) aeff"
  assumes "keeps I m" "\<And>e. keeps I (failed e)" "\<And>x w w'. m w = (Inr x, w') \<Longrightarrow> keeps I (k x)"
  shows "keeps I (or_else m failed k)"
proof (unfold keeps_def, intro allI impI)
  fix w :: "'l aworld"
  assume w: "holds I w"
  obtain r w1 where run: "m w = (r, w1)" by (metis surj_pair)
  have w1: "holds I w1" using keepsD [OF assms(1) w] run by simp
  show "holds I (snd (or_else m failed k w))"
  proof (cases r)
    case (Inl e)
    with run keepsD [OF assms(2) w1] show ?thesis by (simp add: or_else_def effect_simps)
  next
    case (Inr x)
    with run keepsD [OF assms(3) w1] show ?thesis by (simp add: or_else_def effect_simps)
  qed
qed

lemma keeps_or_else_any:
  "keeps I m \<Longrightarrow> (\<And>e. keeps I (failed e)) \<Longrightarrow> (\<And>x. keeps I (k x)) \<Longrightarrow> keeps I (or_else m failed k)"
  by (rule keeps_or_else)

lemma keeps_ignoring: "keeps I m \<Longrightarrow> keeps I (ignoring m)"
  unfolding ignoring_def by (intro keeps_rules)

definition find_binding :: "nat \<Rightarrow> account_db \<Rightarrow> account_binding option" where
  "find_binding i d = find (\<lambda>b. pb_id b = i) (ac_bindings d)"

text \<open>Queries on a model with a \<open>DeletedAt\<close> column see only rows where it is NULL.\<close>

definition live_binding :: "nat \<Rightarrow> account_db \<Rightarrow> account_binding option" where
  "live_binding i d = find (\<lambda>b. pb_id b = i \<and> pb_deleted_at b = None) (ac_bindings d)"

definition find_intent :: "string \<Rightarrow> account_db \<Rightarrow> operation_intent option" where
  "find_intent i d = find (\<lambda>r. oi_operation_id r = i) (ac_intents d)"

definition find_outbox :: "string \<Rightarrow> account_db \<Rightarrow> operation_outbox option" where
  "find_outbox i d = find (\<lambda>r. ob_operation_id r = i) (ac_outbox d)"

definition live_user :: "nat \<Rightarrow> account_db \<Rightarrow> user_row option" where
  "live_user i d = find (\<lambda>u. usr_id u = i \<and> usr_deleted_at u = None) (ac_users d)"



section \<open>Audit records\<close>

text \<open>The audit record of \<open>RecordTx\<close>, with the foreign keys of its table.\<close>

definition buildAuditEventRow :: "audit_event \<Rightarrow> audit_event" where
  "buildAuditEventRow input = input\<lparr>
     ae_category := trim_space (ae_category input), ae_actor_type := trim_space (ae_actor_type input),
     ae_actor_user_id := (if ae_actor_user_id input = Some 0 then None else ae_actor_user_id input),
     ae_action := trim_space (ae_action input), ae_target_type := trim_space (ae_target_type input),
     ae_target_id := trim_space (ae_target_id input),
     ae_binding_id := (if ae_binding_id input = Some 0 then None else ae_binding_id input),
     ae_result := (if trim_space (ae_result input) = '''' then ''success'' else trim_space (ae_result input)),
     ae_reason_code := trim_space (ae_reason_code input)\<rparr>"

definition audit_row_ok :: "audit_event \<Rightarrow> account_db \<Rightarrow> bool" where
  "audit_row_ok row d \<longleftrightarrow>
     (case ae_actor_user_id row of None \<Rightarrow> True | Some u \<Rightarrow> list_ex (\<lambda>r. usr_id r = u) (ac_users d)) \<and>
     (case ae_binding_id row of None \<Rightarrow> True | Some b \<Rightarrow> list_ex (\<lambda>r. pb_id r = b) (ac_bindings d))"

definition RecordTx :: "audit_event \<Rightarrow> ('l, unit) aeff" where
  "RecordTx input = asql (\<lambda>d.
     let row = buildAuditEventRow input in
     if \<not> audit_row_ok row d then Inl (Foreign_Key_Violation ''audit_events'')
     else Inr ((), d\<lparr>ac_audit := ac_audit d @ [row]\<rparr>))"

lemma RecordTx_InrE:
  assumes "RecordTx input w = (Inr u, w')"
  obtains fs where "w' = w\<lparr>faults := fs, db := (db w)\<lparr>ac_audit := ac_audit (db w) @ [buildAuditEventRow input]\<rparr>\<rparr>"
  using assms unfolding RecordTx_def by (auto elim!: statement_InrE simp: Let_def split: if_splits)

lemma RecordTx_no_fault [effect_simps]:
  "faults w = [] \<Longrightarrow> RecordTx input w =
     (if audit_row_ok (buildAuditEventRow input) (db w)
      then (Inr (), w\<lparr>db := (db w)\<lparr>ac_audit := ac_audit (db w) @ [buildAuditEventRow input]\<rparr>\<rparr>)
      else (Inl (AcDb (Foreign_Key_Violation ''audit_events'')), w))"
  by (simp add: RecordTx_def effect_simps Let_def)

lemma RecordTx_pins [keeps_rules, simp]: "pins_committed (RecordTx input)"
  by (simp add: RecordTx_def)

lemma RecordTx_frames: "(\<And>d x. f (d\<lparr>ac_audit := x\<rparr>) = f d) \<Longrightarrow> frames f (RecordTx input)"
  unfolding RecordTx_def by (rule frames_statement) (auto simp: Let_def split: if_splits)

text \<open>\<open>strconv.FormatUint\<close> in base ten.\<close>

fun decimal :: "nat \<Rightarrow> string" where
  "decimal n = (if n < 10 then [char_of (48 + n)] else decimal (n div 10) @ [char_of (48 + n mod 10)])"

declare decimal.simps [simp del]

lemmas account_success = success_elims select_one_InrE RecordTx_InrE

section \<open>Constraints\<close>

text \<open>The unique indexes, checks and foreign keys of the tables, in the order of the schema.  A unique
  index on a generated marker column (NULL for most rows) is a partial one.\<close>

definition binding_row_ok :: "account_binding \<Rightarrow> bool" where
  "binding_row_ok b \<longleftrightarrow> pb_binding_ref b \<noteq> '''' \<and> bigint_ok (pb_generation b) \<and>
     bigint_ok (pb_profile_revision b) \<and> pb_observed_revision b \<le> pb_profile_revision b"

definition intent_kinds :: "string list" where
  "intent_kinds = [''OPERATION_KIND_BIND_CREDENTIAL'', ''OPERATION_KIND_REPLACE_CREDENTIAL'',
     ''OPERATION_KIND_REFRESH_CREDENTIAL'', ''OPERATION_KIND_DELETE_CREDENTIAL'',
     ''OPERATION_KIND_SET_PRIMARY_PROFILE'']"

definition intent_row_valid :: "operation_intent \<Rightarrow> bool" where
  "intent_row_valid r \<longleftrightarrow> bigint_ok (oi_pre_generation r) \<and> bigint_ok (oi_target_generation r) \<and>
     bigint_ok (oi_profile_revision r) \<and> oi_kind r \<in> set intent_kinds \<and>
     (if oi_kind r = ''OPERATION_KIND_SET_PRIMARY_PROFILE''
      then oi_target_generation r = oi_pre_generation r \<and> oi_profile_ref r \<noteq> '''' \<and> oi_profile_revision r > 0
      else unat (oi_target_generation r) = unat (oi_pre_generation r) + 1 \<and> oi_profile_ref r = ''''
        \<and> oi_profile_revision r = 0)"

definition reserving :: "operation_intent \<Rightarrow> bool" where
  "reserving r = ReservesBinding (oi_state r)"

definition reserving_bind :: "operation_intent \<Rightarrow> bool" where
  "reserving_bind r \<longleftrightarrow> reserving r \<and> oi_kind r = ''OPERATION_KIND_BIND_CREDENTIAL''"

definition has_binding :: "account_db \<Rightarrow> nat \<Rightarrow> bool" where
  "has_binding d i = list_ex (\<lambda>b. pb_id b = i) (ac_bindings d)"

definition has_user :: "account_db \<Rightarrow> nat \<Rightarrow> bool" where
  "has_user d i = list_ex (\<lambda>u. usr_id u = i) (ac_users d)"

definition primary_assigned :: "account_db \<Rightarrow> account_binding \<Rightarrow> bool" where
  "primary_assigned d b = (case pb_primary_profile_id b of None \<Rightarrow> True
     | Some p \<Rightarrow> list_ex (\<lambda>r. ap_id r = p \<and> ap_binding_id r = pb_id b) (ac_profiles d))"

definition account_constraints :: "(db_error \<times> (account_db \<Rightarrow> bool)) list" where
  "account_constraints = [
     (Unique_Violation ''platform_account_bindings_pkey'', \<lambda>d. unique_on pb_id (ac_bindings d)),
     (Check_Violation ''platform_account_bindings'', \<lambda>d. list_all binding_row_ok (ac_bindings d)),
     (Unique_Violation ''uk_platform_account_bindings_ref'', \<lambda>d. unique_on pb_binding_ref (ac_bindings d)),
     (Unique_Violation ''uk_platform_account_bindings_active_external_account'', \<lambda>d.
        unique_where (\<lambda>b. pb_deleted_at b = None \<and> pb_external_account_key b \<noteq> None)
          (\<lambda>b. (pb_platform b, pb_external_account_key b)) (ac_bindings d)),
     (Foreign_Key_Violation ''fk_platform_account_bindings_owner'', \<lambda>d.
        list_all (\<lambda>b. has_user d (pb_owner_user_id b)) (ac_bindings d)),
     (Unique_Violation ''platform_operation_intents_pkey'', \<lambda>d. unique_on oi_operation_id (ac_intents d)),
     (Check_Violation ''platform_operation_intents'', \<lambda>d. list_all intent_row_valid (ac_intents d)),
     (Unique_Violation ''uk_platform_operation_intents_active_binding'', \<lambda>d.
        unique_where reserving oi_binding_id (ac_intents d)),
     (Unique_Violation ''uk_platform_operation_intents_active_owner_platform_bind'', \<lambda>d.
        unique_where reserving_bind (\<lambda>r. (oi_owner_user_id r, oi_platform r)) (ac_intents d)),
     (Foreign_Key_Violation ''fk_platform_operation_intents_binding_identity'', \<lambda>d.
        list_all (\<lambda>r. list_ex (\<lambda>b. pb_id b = oi_binding_id r \<and> pb_owner_user_id b = oi_owner_user_id r
          \<and> pb_platform b = oi_platform r) (ac_bindings d)) (ac_intents d)),
     (Unique_Violation ''uk_platform_operation_outbox_operation'', \<lambda>d. unique_on ob_operation_id (ac_outbox d)),
     (Foreign_Key_Violation ''fk_platform_operation_outbox_intent'', \<lambda>d.
        list_all (\<lambda>o1. list_ex (\<lambda>r. oi_operation_id r = ob_operation_id o1) (ac_intents d)) (ac_outbox d)),
     (Unique_Violation ''platform_account_profiles_pkey'', \<lambda>d. unique_on ap_id (ac_profiles d)),
     (Check_Violation ''chk_platform_account_profiles_ref_nonempty'', \<lambda>d.
        list_all (\<lambda>p. ap_profile_ref p \<noteq> '''') (ac_profiles d)),
     (Unique_Violation ''uk_platform_account_profiles_binding_key'', \<lambda>d.
        unique_on (\<lambda>p. (ap_binding_id p, ap_platform_profile_key p)) (ac_profiles d)),
     (Unique_Violation ''uk_platform_account_profiles_ref'', \<lambda>d. unique_on ap_profile_ref (ac_profiles d)),
     (Unique_Violation ''uk_platform_account_profiles_primary_per_binding'', \<lambda>d.
        unique_where ap_is_primary ap_binding_id (ac_profiles d)),
     (Foreign_Key_Violation ''fk_platform_account_profiles_binding'', \<lambda>d.
        list_all (\<lambda>p. has_binding d (ap_binding_id p)) (ac_profiles d)),
     (Foreign_Key_Violation ''fk_platform_account_bindings_primary_profile'', \<lambda>d.
        list_all (primary_assigned d) (ac_bindings d)),
     (Unique_Violation ''consumer_grants_pkey'', \<lambda>d. unique_on cg_id (ac_grants d)),
     (Check_Violation ''consumer_grants'', \<lambda>d.
        list_all (\<lambda>g. bigint_ok (cg_ticket_version g) \<and> bigint_ok (cg_pending_entry_epoch g)) (ac_grants d)),
     (Unique_Violation ''uk_consumer_grants_binding_consumer'', \<lambda>d.
        unique_on (\<lambda>g. (cg_binding_id g, cg_consumer g)) (ac_grants d)),
     (Foreign_Key_Violation ''fk_consumer_grants_binding'', \<lambda>d.
        list_all (\<lambda>g. has_binding d (cg_binding_id g)) (ac_grants d)),
     (Foreign_Key_Violation ''fk_consumer_grants_granted_by'', \<lambda>d.
        list_all (\<lambda>g. case cg_granted_by g of None \<Rightarrow> True | Some u \<Rightarrow> has_user d u) (ac_grants d)),
     (Unique_Violation ''consumer_grant_actions_pkey'', \<lambda>d. distinct (ac_grant_actions d)),
     (Foreign_Key_Violation ''fk_consumer_grant_actions_grant'', \<lambda>d.
        list_all (\<lambda>a. list_ex (\<lambda>g. cg_id g = ga_grant_id a) (ac_grants d)) (ac_grant_actions d))]"

definition account_violation :: "account_db \<Rightarrow> db_error option" where
  "account_violation d = map_option fst (find (\<lambda>c. \<not> snd c d) account_constraints)"

definition account_ok :: "account_db \<Rightarrow> bool" where
  "account_ok d \<longleftrightarrow> account_violation d = None"

text \<open>A statement that writes: refused when the tables it would leave violate a constraint.\<close>

definition account_write :: "(account_db \<Rightarrow> 'a \<times> account_db) \<Rightarrow> ('l, 'a) aeff" where
  "account_write f = asql (\<lambda>d. case account_violation (snd (f d)) of Some e \<Rightarrow> Inl e | None \<Rightarrow> Inr (f d))"

definition account_change :: "(account_db \<Rightarrow> account_db) \<Rightarrow> ('l, unit) aeff" where
  "account_change f = account_write (\<lambda>d. ((), f d))"

lemma account_write_InrE:
  assumes "account_write f w = (Inr x, w')"
  obtains fs d where "f (db w) = (x, d)" "account_ok d" "w' = w\<lparr>faults := fs, db := d\<rparr>"
  using assms unfolding account_write_def
  by (elim statement_InrE) (auto split: option.splits simp: account_ok_def)

lemma account_change_InrE:
  assumes "account_change f w = (Inr x, w')"
  obtains fs where "account_ok (f (db w))" "w' = w\<lparr>faults := fs, db := f (db w)\<rparr>"
  using assms unfolding account_change_def by (auto elim!: account_write_InrE)

lemma account_write_no_fault [effect_simps]:
  "faults w = [] \<Longrightarrow> account_write f w = (case account_violation (snd (f (db w))) of
     Some e \<Rightarrow> (Inl (AcDb e), w) | None \<Rightarrow> (Inr (fst (f (db w))), w\<lparr>db := snd (f (db w))\<rparr>))"
  by (simp add: account_write_def effect_simps split: option.splits prod.splits)

lemma account_change_no_fault [effect_simps]:
  "faults w = [] \<Longrightarrow> account_change f w = (case account_violation (f (db w)) of
     Some e \<Rightarrow> (Inl (AcDb e), w) | None \<Rightarrow> (Inr (), w\<lparr>db := f (db w)\<rparr>))"
  by (simp add: account_change_def account_write_no_fault split: option.splits)

lemma account_write_rules [keeps_rules, simp]:
  "pins_committed (account_write f)" "keeps account_ok (account_write f)"
  "pins_committed (account_change g)" "keeps account_ok (account_change g)"
  unfolding account_change_def account_write_def
  by (auto intro!: keeps_statement simp: account_ok_def split: option.splits)

lemma account_write_frames: "(\<And>d. g (snd (f d)) = g d) \<Longrightarrow> frames g (account_write f)"
  unfolding account_write_def by (rule frames_statement) (auto split: option.splits, metis snd_conv)

lemma account_change_frames: "(\<And>d. g (f d) = g d) \<Longrightarrow> frames g (account_change f)"
  unfolding account_change_def by (rule account_write_frames) simp

lemma account_ok_all: "account_ok d \<longleftrightarrow> list_all (\<lambda>c. snd c d) account_constraints"
  unfolding account_ok_def account_violation_def option.map_disc_iff find_None_iff list_all_iff by blast

lemmas account_ok_unfold = account_ok_all account_constraints_def list.pred_inject snd_conv

lemma audit_refs: "has_binding (d\<lparr>ac_audit := x\<rparr>) = has_binding d" "has_user (d\<lparr>ac_audit := x\<rparr>) = has_user d"
  "primary_assigned (d\<lparr>ac_audit := x\<rparr>) = primary_assigned d"
  by (simp_all add: has_binding_def [abs_def] has_user_def [abs_def] primary_assigned_def [abs_def] fun_eq_iff
      split: option.splits)

lemma account_ok_audit [simp]: "account_ok (d\<lparr>ac_audit := x\<rparr>) = account_ok d"
  by (simp add: account_ok_unfold audit_refs cong: option.case_cong)

lemma RecordTx_keeps_ok [keeps_rules, simp]: "keeps account_ok (RecordTx input)"
  unfolding RecordTx_def by (rule keeps_statement) (auto simp: Let_def split: if_splits)

lemma account_okD:
  assumes "account_ok d"
  shows "unique_on pb_id (ac_bindings d)" "unique_on oi_operation_id (ac_intents d)"
    "unique_where reserving oi_binding_id (ac_intents d)" "unique_on ob_operation_id (ac_outbox d)"
    "unique_on ap_id (ac_profiles d)" "unique_where ap_is_primary ap_binding_id (ac_profiles d)"
    "unique_on (\<lambda>p. (ap_binding_id p, ap_platform_profile_key p)) (ac_profiles d)"
    "unique_on ap_profile_ref (ac_profiles d)" "list_all (primary_assigned d) (ac_bindings d)"
    "unique_on cg_id (ac_grants d)" "unique_on (\<lambda>g. (cg_binding_id g, cg_consumer g)) (ac_grants d)"
    "list_all binding_row_ok (ac_bindings d)" "list_all intent_row_valid (ac_intents d)"
    "list_all (\<lambda>g. bigint_ok (cg_ticket_version g) \<and> bigint_ok (cg_pending_entry_epoch g)) (ac_grants d)"
  using assms by (simp_all only: account_ok_unfold)

end
