(* ===== verification/Account_Bindings.thy ===== *)
theory Account_Bindings
  imports Account_Model
begin

text \<open>
  The bindings of Account Center and the profiles projected under them:
  \<open>service/platformbinding/binding_service.go\<close>, \<open>profile_projection_service.go\<close> and
  \<open>pagination.go\<close>.  A binding is created, updated from the summaries its platform reports, and
  deleted softly; the profiles are replaced by the snapshot of a summary.  The clock and the
  references drawn by the \<open>BeforeCreate\<close> hooks are arguments.  A time a summary gives as text is
  the instant it denotes, \<open>None\<close> where the text is missing or does not parse.
\<close>

section \<open>Inputs\<close>

record CreateBindingInput =
  cb_owner_user_id :: nat
  cb_platform :: string
  cb_external_account_key :: "string option"
  cb_platform_service_key :: string
  cb_display_name :: string

record UpdateBindingInput =
  ub_display_name :: "string option"
  ub_platform_service_key :: "string option"

text \<open>A profile of a summary, and the summary, as \<open>decodeRuntimeSummary\<close> leaves them: an absent
  key of the map is the empty string, 0 or \<open>None\<close>.\<close>

record raw_profile =
  rp_profile_ref :: string
  rp_id :: u64
  rp_player_id :: string
  rp_game_biz :: string
  rp_region :: string
  rp_nickname :: string
  rp_level :: "int option"
  rp_is_default :: bool
  rp_source_updated_at :: "instant option"

record RuntimeSummary =
  rs_platform_account_id :: string
  rs_generation :: u64
  rs_status :: string
  rs_last_validated_at :: "instant option"
  rs_last_refreshed_at :: "instant option"
  rs_profiles :: "raw_profile list"
  rs_profile_snapshot_complete :: bool
  rs_profile_revision :: u64
  rs_profile_observed_revision :: u64

record ProfileProjectionInput =
  pp_platform_profile_key :: string
  pp_profile_ref :: string
  pp_game_biz :: string
  pp_region :: string
  pp_player_uid :: string
  pp_nickname :: string
  pp_level :: "int option"
  pp_is_primary :: bool
  pp_source_updated_at :: "instant option"

record SyncProfilesInput =
  sp_binding_id :: nat
  sp_profiles :: "ProfileProjectionInput list"
  sp_synced_at :: instant
  sp_revision :: u64
  sp_observed_revision :: u64

section \<open>Pages\<close>

record ListParams =
  lp_page :: int
  lp_page_size :: int

definition normalizeListParams :: "ListParams \<Rightarrow> ListParams" where
  "normalizeListParams params =
     (let params1 = (if lp_page params < 1 then params\<lparr>lp_page := 1\<rparr> else params)
      in if lp_page_size params1 < 1 \<or> lp_page_size params1 > 100
         then params1\<lparr>lp_page_size := 20\<rparr> else params1)"

definition pageOffset :: "ListParams \<Rightarrow> int" where
  "pageOffset params = (lp_page params - 1) * lp_page_size params"

definition page :: "ListParams \<Rightarrow> 'r list \<Rightarrow> 'r list" where
  "page params rows = take (nat (lp_page_size params)) (drop (nat (pageOffset params)) rows)"

section \<open>Statements on bindings\<close>

definition insert_binding :: "account_binding \<Rightarrow> ('l, account_binding) aeff" where
  "insert_binding row = account_write (\<lambda>d.
     let r = row\<lparr>pb_id := ac_next_binding_id d\<rparr>
     in (r, d\<lparr>ac_bindings := ac_bindings d @ [r], ac_next_binding_id := Suc (ac_next_binding_id d)\<rparr>))"

text \<open>The \<open>BeforeCreate\<close> hook of the binding: a drawn reference where it has none.\<close>

definition new_binding :: "CreateBindingInput \<Rightarrow> string \<Rightarrow> instant \<Rightarrow> account_binding" where
  "new_binding input drawn_ref now = \<lparr>pb_id = 0, pb_binding_ref = drawn_ref, pb_generation = 0,
     pb_owner_user_id = cb_owner_user_id input, pb_platform = cb_platform input,
     pb_external_account_key = cb_external_account_key input,
     pb_platform_service_key = cb_platform_service_key input, pb_display_name = cb_display_name input,
     pb_status = PendingBind, pb_status_reason_code = '''', pb_status_reason_message = '''',
     pb_primary_profile_id = None, pb_last_validated_at = None, pb_last_synced_at = None,
     pb_profile_revision = 0, pb_observed_revision = 0, pb_created_at = now, pb_deleted_at = None\<rparr>"

definition is_live :: "nat \<Rightarrow> account_binding \<Rightarrow> bool" where
  "is_live i b \<longleftrightarrow> pb_id b = i \<and> pb_deleted_at b = None"

text \<open>\<open>UPDATE platform_account_bindings SET ... WHERE id = ? AND deleted_at IS NULL\<close>.\<close>

definition update_live :: "nat \<Rightarrow> (account_binding \<Rightarrow> account_binding) \<Rightarrow> account_db \<Rightarrow> account_db" where
  "update_live i f d = d\<lparr>ac_bindings := update_where (is_live i) f (ac_bindings d)\<rparr>"

text \<open>\<open>Save\<close> writes every column of the row with that id.\<close>

definition save_row :: "account_binding \<Rightarrow> account_db \<Rightarrow> account_db" where
  "save_row b d = d\<lparr>ac_bindings := update_where (\<lambda>r. pb_id r = pb_id b) (\<lambda>_. b) (ac_bindings d)\<rparr>"

definition GetBindingByID :: "nat \<Rightarrow> ('l, account_binding) aeff" where
  "GetBindingByID bindingID = take_row ErrBindingNotFound (live_binding bindingID)"

definition GetBindingByIDUnscoped :: "nat \<Rightarrow> ('l, account_binding) aeff" where
  "GetBindingByIDUnscoped bindingID = take_row ErrBindingNotFound (find_binding bindingID)"

definition GetBindingForOwner :: "nat \<Rightarrow> nat \<Rightarrow> ('l, account_binding) aeff" where
  "GetBindingForOwner ownerUserID bindingID = take_row ErrBindingNotFound
     (\<lambda>d. find (\<lambda>b. is_live bindingID b \<and> pb_owner_user_id b = ownerUserID) (ac_bindings d))"

text \<open>The live binding of an account of a platform.\<close>

definition account_owner :: "string \<Rightarrow> string \<Rightarrow> account_db \<Rightarrow> account_binding option" where
  "account_owner platform account d =
     find (\<lambda>b. pb_deleted_at b = None \<and> pb_platform b = platform \<and> pb_external_account_key b = Some account)
       (ac_bindings d)"

section \<open>Creating and reading bindings\<close>

definition handleCreateBindingError :: "acerror \<Rightarrow> CreateBindingInput \<Rightarrow> ('l, account_binding) aeff" where
  "handleCreateBindingError err input =
     (if \<not> IsUniqueViolation err then raise err
      else case cb_external_account_key input of
        None \<Rightarrow> raise err
      | Some account \<Rightarrow>
          andThen (map_error (\<lambda>_. ErrBindingAlreadyOwned)
            (take_row ErrBindingAlreadyOwned (account_owner (cb_platform input) account)))
          (\<lambda>existing. if pb_owner_user_id existing \<noteq> cb_owner_user_id input
                      then raise ErrBindingAlreadyOwned else return existing))"

definition store_new_binding :: "CreateBindingInput \<Rightarrow> string \<Rightarrow> instant \<Rightarrow> ('l, account_binding) aeff" where
  "store_new_binding input drawn_ref now =
     andThen (attempt (insert_binding (new_binding input drawn_ref now)))
       (\<lambda>r. case r of Inr b \<Rightarrow> return b | Inl e \<Rightarrow> handleCreateBindingError e input)"

definition CreateBinding :: "CreateBindingInput \<Rightarrow> string \<Rightarrow> instant \<Rightarrow> ('l, account_binding) aeff" where
  "CreateBinding input drawn_ref now =
     (case cb_external_account_key input of
        None \<Rightarrow> store_new_binding input drawn_ref now
      | Some account \<Rightarrow>
          andThen (aquery (account_owner (cb_platform input) account)) (\<lambda>found. case found of
            None \<Rightarrow> store_new_binding input drawn_ref now
          | Some existing \<Rightarrow>
              if pb_owner_user_id existing \<noteq> cb_owner_user_id input
              then raise ErrBindingAlreadyOwned else return existing))"

definition updateBinding_with :: "account_binding \<Rightarrow> UpdateBindingInput \<Rightarrow> ('l, account_binding) aeff" where
  "updateBinding_with binding input =
     (if ub_display_name input = None \<and> ub_platform_service_key input = None then return binding
      else andThen (account_change (update_live (pb_id binding) (\<lambda>b. b\<lparr>
               pb_display_name := (case ub_display_name input of None \<Rightarrow> pb_display_name b | Some n \<Rightarrow> n),
               pb_platform_service_key :=
                 (case ub_platform_service_key input of None \<Rightarrow> pb_platform_service_key b | Some k \<Rightarrow> k)\<rparr>)))
             (\<lambda>_. take_row GormRecordNotFound (live_binding (pb_id binding))))"

definition UpdateBinding :: "nat \<Rightarrow> UpdateBindingInput \<Rightarrow> ('l, account_binding) aeff" where
  "UpdateBinding bindingID input =
     andThen (GetBindingByID bindingID) (\<lambda>binding. updateBinding_with binding input)"

definition UpdateBindingForOwner :: "nat \<Rightarrow> nat \<Rightarrow> UpdateBindingInput \<Rightarrow> ('l, account_binding) aeff" where
  "UpdateBindingForOwner ownerUserID bindingID input =
     (if ub_platform_service_key input \<noteq> None then raise ErrInvalidBindingMutation
      else andThen (GetBindingForOwner ownerUserID bindingID) (\<lambda>binding. updateBinding_with binding input))"

definition list_bindings_where ::
    "(account_binding \<Rightarrow> bool) \<Rightarrow> ListParams \<Rightarrow> ('l, account_binding list \<times> nat) aeff" where
  "list_bindings_where p params =
     (let normal = normalizeListParams params; visible = \<lambda>b. p b \<and> pb_deleted_at b = None in
      andThen (aquery (\<lambda>d. count_where visible (ac_bindings d))) (\<lambda>total.
      andThen (aquery (\<lambda>d. page normal (sort_key pb_id (filter visible (ac_bindings d))))) (\<lambda>rows.
      return (rows, total))))"

definition ListBindings :: "ListParams \<Rightarrow> ('l, account_binding list \<times> nat) aeff" where
  "ListBindings params = list_bindings_where (\<lambda>_. True) params"

definition ListBindingsByOwner :: "nat \<Rightarrow> ListParams \<Rightarrow> ('l, account_binding list \<times> nat) aeff" where
  "ListBindingsByOwner ownerUserID params = list_bindings_where (\<lambda>b. pb_owner_user_id b = ownerUserID) params"

section \<open>Status\<close>

text \<open>Both write the whole row they read, outside a transaction.\<close>

definition UpdateBindingFailure ::
    "nat \<Rightarrow> binding_status \<Rightarrow> string \<Rightarrow> string \<Rightarrow> ('l, account_binding) aeff" where
  "UpdateBindingFailure bindingID status reasonCode reasonMessage =
     andThen (GetBindingByID bindingID) (\<lambda>binding.
     let changed = binding\<lparr>pb_status := status, pb_status_reason_code := reasonCode,
                           pb_status_reason_message := reasonMessage\<rparr>
     in andThen (account_change (save_row changed)) (\<lambda>_. return changed))"

definition UpdateBindingStatus :: "nat \<Rightarrow> binding_status \<Rightarrow> ('l, account_binding) aeff" where
  "UpdateBindingStatus bindingID status =
     andThen (GetBindingByID bindingID) (\<lambda>binding.
     let changed = binding\<lparr>pb_status := status, pb_status_reason_code := '''',
                           pb_status_reason_message := ''''\<rparr>
     in andThen (account_change (save_row changed)) (\<lambda>_. return changed))"

definition RefreshBinding :: "nat \<Rightarrow> ('l, account_binding) aeff" where
  "RefreshBinding bindingID = UpdateBindingStatus bindingID RefreshRequired"

definition RefreshBindingForOwner :: "nat \<Rightarrow> nat \<Rightarrow> ('l, account_binding) aeff" where
  "RefreshBindingForOwner ownerUserID bindingID =
     andThen (GetBindingForOwner ownerUserID bindingID)
       (\<lambda>binding. UpdateBindingStatus (pb_id binding) RefreshRequired)"

definition AdvanceBindingGeneration :: "nat \<Rightarrow> u64 \<Rightarrow> ('l, unit) aeff" where
  "AdvanceBindingGeneration bindingID expectedGeneration =
     (let p = \<lambda>b. is_live bindingID b \<and> pb_generation b = expectedGeneration in
      andThen (account_write (\<lambda>d. (count_where p (ac_bindings d),
        d\<lparr>ac_bindings := update_where p (\<lambda>b. b\<lparr>pb_generation := expectedGeneration + 1\<rparr>) (ac_bindings d)\<rparr>)))
      (\<lambda>affected. if affected \<noteq> 1 then raise ErrBindingGenerationConflict else return ()))"

section \<open>Persisting a summary\<close>

definition bindingStatusFromRuntimeSummary :: "string \<Rightarrow> binding_status \<Rightarrow> binding_status" where
  "bindingStatusFromRuntimeSummary status fallback =
     (if status = ''active'' then BindingActive
      else if status \<in> {''expired'', ''invalid'', ''challenge_required''} then CredentialInvalid
      else fallback)"

definition statusReasonCodeFromRuntimeSummary :: "string \<Rightarrow> string" where
  "statusReasonCodeFromRuntimeSummary status =
     (if status \<in> {''expired'', ''invalid'', ''challenge_required''} then status else '''')"

definition summarised :: "RuntimeSummary \<Rightarrow> account_binding \<Rightarrow> account_binding \<Rightarrow> account_binding" where
  "summarised summary binding row =
     (let row1 = row\<lparr>pb_status := bindingStatusFromRuntimeSummary (rs_status summary) (pb_status binding),
            pb_status_reason_code := statusReasonCodeFromRuntimeSummary (rs_status summary),
            pb_status_reason_message := '''',
            pb_last_validated_at := rs_last_validated_at summary,
            pb_last_synced_at := rs_last_refreshed_at summary\<rparr>;
          row2 = (if rs_platform_account_id summary \<noteq> ''''
                  then row1\<lparr>pb_external_account_key := Some (rs_platform_account_id summary)\<rparr> else row1);
          row3 = (if rs_generation summary > 0 then row2\<lparr>pb_generation := rs_generation summary\<rparr> else row2)
      in if rs_profile_observed_revision summary \<ge> pb_observed_revision binding
            \<and> rs_profile_revision summary \<ge> pb_profile_revision binding
         then row3\<lparr>pb_profile_revision := rs_profile_revision summary,
                   pb_observed_revision := rs_profile_observed_revision summary\<rparr>
         else row3)"

definition apply_runtime_summary :: "account_binding \<Rightarrow> RuntimeSummary \<Rightarrow> ('l, unit) aeff" where
  "apply_runtime_summary binding summary =
     (if rs_generation summary > 0 \<and> rs_generation summary < pb_generation binding then return ()
      else account_change (update_live (pb_id binding) (summarised summary binding)))"

definition handlePersistRuntimeSummaryError ::
    "acerror \<Rightarrow> account_binding option \<Rightarrow> RuntimeSummary \<Rightarrow> ('l, account_binding) aeff" where
  "handlePersistRuntimeSummaryError err loaded summary =
     (if \<not> IsUniqueViolation err then raise err
      else case loaded of
        None \<Rightarrow> raise ErrBindingAlreadyOwned
      | Some binding \<Rightarrow>
          if rs_platform_account_id summary = '''' then raise ErrBindingAlreadyOwned
          else andThen (map_error (\<lambda>_. ErrBindingAlreadyOwned)
                 (take_row ErrBindingAlreadyOwned (account_owner (pb_platform binding) (rs_platform_account_id summary))))
               (\<lambda>existing.
                 if pb_id existing \<noteq> pb_id binding \<and> pb_owner_user_id existing \<noteq> pb_owner_user_id binding
                 then raise ErrBindingAlreadyOwned else return existing))"

definition persist_summary_body ::
    "nat \<Rightarrow> RuntimeSummary \<Rightarrow> ('l, account_binding \<times> acerror option) aeff" where
  "persist_summary_body bindingID summary =
     andThen (take_row ErrBindingNotFound (live_binding bindingID)) (\<lambda>binding.
     andThen (attempt (apply_runtime_summary binding summary)) (\<lambda>r.
     return (binding, case r of Inl e \<Rightarrow> Some e | Inr _ \<Rightarrow> None)))"

definition PersistRuntimeSummary :: "nat \<Rightarrow> RuntimeSummary \<Rightarrow> ('l, account_binding) aeff" where
  "PersistRuntimeSummary bindingID summary =
     andThen (transaction_capturing AcDb (persist_summary_body bindingID summary)) (\<lambda>(loaded, failed).
     case failed of
       Some e \<Rightarrow> handlePersistRuntimeSummaryError e loaded summary
     | None \<Rightarrow> GetBindingByID (case loaded of Some b \<Rightarrow> pb_id b | None \<Rightarrow> 0))"

section \<open>Deleting a binding\<close>

definition clear_primary :: "nat \<Rightarrow> account_db \<Rightarrow> account_db" where
  "clear_primary i = update_live i (\<lambda>b. b\<lparr>pb_primary_profile_id := None\<rparr>)"

definition drop_profiles :: "nat \<Rightarrow> account_db \<Rightarrow> account_db" where
  "drop_profiles i d = d\<lparr>ac_profiles := delete_where (\<lambda>p. ap_binding_id p = i) (ac_profiles d)\<rparr>"

text \<open>Deleting grants deletes their actions and unlink targets (\<open>ON DELETE CASCADE\<close>).\<close>

definition drop_grants :: "(consumer_grant \<Rightarrow> bool) \<Rightarrow> account_db \<Rightarrow> account_db" where
  "drop_grants p d =
     (let gone = \<lambda>i. list_ex (\<lambda>g. p g \<and> cg_id g = i) (ac_grants d) in
      d\<lparr>ac_grants := delete_where p (ac_grants d),
        ac_grant_actions := delete_where (\<lambda>a. gone (ga_grant_id a)) (ac_grant_actions d),
        ac_unlink_targets := delete_where (\<lambda>t. gone (ut_grant_id t)) (ac_unlink_targets d)\<rparr>)"

definition delete_binding_body :: "nat \<Rightarrow> instant \<Rightarrow> ('l, unit) aeff" where
  "delete_binding_body bindingID now =
     andThen (take_row ErrBindingNotFound (live_binding bindingID)) (\<lambda>binding.
     andThen (account_change (save_row (binding\<lparr>pb_status := BindingDeleted\<rparr>))) (\<lambda>_.
     andThen (account_change (clear_primary bindingID)) (\<lambda>_.
     andThen (account_change (drop_profiles bindingID)) (\<lambda>_.
     andThen (account_change (drop_grants (\<lambda>g. cg_binding_id g = bindingID))) (\<lambda>_.
     account_change (update_live bindingID (\<lambda>b. b\<lparr>pb_deleted_at := Some now\<rparr>)))))))"

definition DeleteBinding :: "nat \<Rightarrow> instant \<Rightarrow> ('l, account_binding) aeff" where
  "DeleteBinding bindingID now =
     andThen (db_transaction (delete_binding_body bindingID now))
       (\<lambda>_. take_row GormRecordNotFound (find_binding bindingID))"

definition DeleteBindingForOwner :: "nat \<Rightarrow> nat \<Rightarrow> instant \<Rightarrow> ('l, account_binding) aeff" where
  "DeleteBindingForOwner ownerUserID bindingID now =
     andThen (GetBindingForOwner ownerUserID bindingID) (\<lambda>_. DeleteBinding bindingID now)"

section \<open>Profiles\<close>

definition demote_profiles :: "nat \<Rightarrow> account_db \<Rightarrow> account_db" where
  "demote_profiles i d = d\<lparr>ac_profiles :=
     update_where (\<lambda>p. ap_binding_id p = i) (\<lambda>p. p\<lparr>ap_is_primary := False\<rparr>) (ac_profiles d)\<rparr>"

definition set_primary_id :: "nat \<Rightarrow> nat option \<Rightarrow> account_db \<Rightarrow> account_db" where
  "set_primary_id i primary = update_live i (\<lambda>b. b\<lparr>pb_primary_profile_id := primary\<rparr>)"

definition find_profile_by_key :: "nat \<Rightarrow> string \<Rightarrow> account_db \<Rightarrow> account_profile option" where
  "find_profile_by_key i key d =
     find (\<lambda>p. ap_binding_id p = i \<and> ap_platform_profile_key p = key) (ac_profiles d)"

definition find_profile :: "nat \<Rightarrow> nat \<Rightarrow> account_db \<Rightarrow> account_profile option" where
  "find_profile i profileID d = find (\<lambda>p. ap_binding_id p = i \<and> ap_id p = profileID) (ac_profiles d)"

fun validatePrimaryProfiles_from :: "nat \<Rightarrow> ProfileProjectionInput list \<Rightarrow> acerror option" where
  "validatePrimaryProfiles_from primaryCount [] = None"
| "validatePrimaryProfiles_from primaryCount (p # ps) =
     (let n = (if pp_is_primary p then Suc primaryCount else primaryCount)
      in if n > 1 then Some ErrMultiplePrimaryProfiles else validatePrimaryProfiles_from n ps)"

definition validatePrimaryProfiles :: "ProfileProjectionInput list \<Rightarrow> acerror option" where
  "validatePrimaryProfiles items = validatePrimaryProfiles_from 0 items"

text \<open>The columns an item writes, on the row found or on a fresh one.\<close>

definition fill_profile :: "instant \<Rightarrow> ProfileProjectionInput \<Rightarrow> account_profile \<Rightarrow> account_profile" where
  "fill_profile syncedAt item p = p\<lparr>
     ap_profile_ref := (if pp_profile_ref item \<noteq> '''' then pp_profile_ref item else ap_profile_ref p),
     ap_game_biz := pp_game_biz item, ap_region := pp_region item, ap_player_uid := pp_player_uid item,
     ap_nickname := pp_nickname item, ap_level := pp_level item, ap_is_primary := pp_is_primary item,
     ap_source_updated_at := (case pp_source_updated_at item of None \<Rightarrow> Some syncedAt | Some t \<Rightarrow> Some t)\<rparr>"

definition fresh_profile :: "nat \<Rightarrow> ProfileProjectionInput \<Rightarrow> account_profile" where
  "fresh_profile i item = \<lparr>ap_id = 0, ap_binding_id = i, ap_platform_profile_key = pp_platform_profile_key item,
     ap_profile_ref = pp_profile_ref item, ap_game_biz = '''', ap_region = '''', ap_player_uid = '''',
     ap_nickname = '''', ap_level = None, ap_is_primary = False, ap_source_updated_at = None\<rparr>"

definition insert_profile :: "string \<Rightarrow> account_profile \<Rightarrow> ('l, account_profile) aeff" where
  "insert_profile drawn_ref row = account_write (\<lambda>d.
     let r = row\<lparr>ap_id := ac_next_profile_id d,
                 ap_profile_ref := (if ap_profile_ref row = '''' then drawn_ref else ap_profile_ref row)\<rparr>
     in (r, d\<lparr>ac_profiles := ac_profiles d @ [r], ac_next_profile_id := Suc (ac_next_profile_id d)\<rparr>))"

definition save_profile :: "account_profile \<Rightarrow> account_db \<Rightarrow> account_db" where
  "save_profile p d = d\<lparr>ac_profiles := update_where (\<lambda>r. ap_id r = ap_id p) (\<lambda>_. p) (ac_profiles d)\<rparr>"

definition sync_profile ::
    "nat \<Rightarrow> instant \<Rightarrow> ProfileProjectionInput \<Rightarrow> string \<Rightarrow> ('l, account_profile) aeff" where
  "sync_profile i syncedAt item drawn_ref =
     andThen (aquery (find_profile_by_key i (pp_platform_profile_key item))) (\<lambda>found. case found of
       None \<Rightarrow> insert_profile drawn_ref (fill_profile syncedAt item (fresh_profile i item))
     | Some p \<Rightarrow> andThen (account_change (save_profile (fill_profile syncedAt item p)))
                   (\<lambda>_. return (fill_profile syncedAt item p)))"

definition last_primary :: "account_profile list \<Rightarrow> nat option" where
  "last_primary rows = (case filter ap_is_primary rows of [] \<Rightarrow> None | ps \<Rightarrow> Some (ap_id (last ps)))"

definition drop_other_profiles :: "nat \<Rightarrow> string list \<Rightarrow> account_db \<Rightarrow> account_db" where
  "drop_other_profiles i keys d = d\<lparr>ac_profiles :=
     delete_where (\<lambda>p. ap_binding_id p = i \<and> (keys = [] \<or> ap_platform_profile_key p \<notin> set keys)) (ac_profiles d)\<rparr>"

definition sync_profiles_body ::
    "SyncProfilesInput \<Rightarrow> instant \<Rightarrow> (nat \<Rightarrow> string) \<Rightarrow> ('l, account_profile list) aeff" where
  "sync_profiles_body input syncedAt drawn =
     (let i = sp_binding_id input in
      andThen (take_row ErrBindingNotFound (live_binding i)) (\<lambda>binding.
      if sp_observed_revision input < pb_observed_revision binding
         \<or> sp_revision input < pb_profile_revision binding then return []
      else
        andThen (account_change (demote_profiles i)) (\<lambda>_.
        andThen (for_each (enumerate 0 (sp_profiles input)) (\<lambda>(n, item). sync_profile i syncedAt item (drawn n)))
          (\<lambda>profiles.
        andThen (account_change (set_primary_id i (last_primary profiles))) (\<lambda>_.
        andThen (account_change (drop_other_profiles i (map pp_platform_profile_key (sp_profiles input)))) (\<lambda>_.
        return profiles))))))"

definition SyncProfiles ::
    "SyncProfilesInput \<Rightarrow> instant \<Rightarrow> (nat \<Rightarrow> string) \<Rightarrow> ('l, account_profile list) aeff" where
  "SyncProfiles input now drawn =
     (let syncedAt = (if sp_synced_at input = 0 then now else sp_synced_at input) in
      case validatePrimaryProfiles (sp_profiles input) of
        Some e \<Rightarrow> raise e
      | None \<Rightarrow> db_transaction (sync_profiles_body input syncedAt drawn))"

definition ListProfilesOfBinding :: "nat \<Rightarrow> ListParams \<Rightarrow> ('l, account_profile list \<times> nat) aeff" where
  "ListProfilesOfBinding bindingID params =
     (let normal = normalizeListParams params; mine = \<lambda>p. ap_binding_id p = bindingID in
      andThen (take_row ErrBindingNotFound (live_binding bindingID)) (\<lambda>_.
      andThen (aquery (\<lambda>d. count_where mine (ac_profiles d))) (\<lambda>total.
      andThen (aquery (\<lambda>d. page normal (sort_key (\<lambda>p. (if ap_is_primary p then 0 else 1 :: nat))
          (sort_key ap_id (filter mine (ac_profiles d)))))) (\<lambda>rows.
      return (rows, total)))))"

definition ListProfilesForOwner ::
    "nat \<Rightarrow> nat \<Rightarrow> ListParams \<Rightarrow> ('l, account_profile list \<times> nat) aeff" where
  "ListProfilesForOwner ownerUserID bindingID params =
     andThen (GetBindingForOwner ownerUserID bindingID) (\<lambda>_. ListProfilesOfBinding bindingID params)"

definition DeleteProfiles :: "nat \<Rightarrow> ('l, unit) aeff" where
  "DeleteProfiles bindingID = db_transaction
     (andThen (take_row ErrBindingNotFound (live_binding bindingID)) (\<lambda>_.
      andThen (account_change (clear_primary bindingID)) (\<lambda>_.
      account_change (drop_profiles bindingID))))"

definition GetProfile :: "nat \<Rightarrow> nat \<Rightarrow> ('l, account_profile) aeff" where
  "GetProfile bindingID profileID = take_row ErrPrimaryProfileNotOwned (find_profile bindingID profileID)"

definition choose_primary :: "nat \<Rightarrow> nat option \<Rightarrow> ('l, nat option) aeff" where
  "choose_primary bindingID profileID =
     (if profileID = None \<or> profileID = Some 0 then return None
      else andThen (GetProfile bindingID (the profileID)) (\<lambda>profile.
           andThen (account_change (\<lambda>d. d\<lparr>ac_profiles := update_where (\<lambda>p. ap_id p = ap_id profile)
             (\<lambda>p. p\<lparr>ap_is_primary := True\<rparr>) (ac_profiles d)\<rparr>)) (\<lambda>_.
           return (Some (ap_id profile)))))"

definition SetPrimaryProfile_projection ::
    "nat \<Rightarrow> nat \<Rightarrow> nat option \<Rightarrow> ('l, account_binding) aeff" where
  "SetPrimaryProfile_projection ownerUserID bindingID profileID = db_transaction
     (andThen (GetBindingForOwner ownerUserID bindingID) (\<lambda>binding.
      andThen (account_change (demote_profiles bindingID)) (\<lambda>_.
      andThen (choose_primary bindingID profileID) (\<lambda>primary.
      andThen (account_change (set_primary_id bindingID primary)) (\<lambda>_.
      return (binding\<lparr>pb_primary_profile_id := primary\<rparr>))))))"

section \<open>Lemmas on profiles\<close>

text \<open>A row that shows an item: its key, and every column the item writes.\<close>

definition projects :: "instant \<Rightarrow> ProfileProjectionInput \<Rightarrow> account_profile \<Rightarrow> bool" where
  "projects syncedAt item p \<longleftrightarrow>
     ap_platform_profile_key p = pp_platform_profile_key item \<and> fill_profile syncedAt item p = p"

definition profiles_of :: "nat \<Rightarrow> account_db \<Rightarrow> account_profile set" where
  "profiles_of i d = {p \<in> set (ac_profiles d). ap_binding_id p = i}"

lemma fill_profile_simps [simp]:
  "ap_id (fill_profile t item p) = ap_id p" "ap_binding_id (fill_profile t item p) = ap_binding_id p"
  "ap_platform_profile_key (fill_profile t item p) = ap_platform_profile_key p"
  "ap_is_primary (fill_profile t item p) = pp_is_primary item"
  "fill_profile t item (fill_profile t item p) = fill_profile t item p"
  by (simp_all add: fill_profile_def split: option.splits)

lemma fill_profile_redrawn:
  "fill_profile t item (fill_profile t item p\<lparr>ap_id := n,
     ap_profile_ref := (if ap_profile_ref (fill_profile t item p) = '''' then ref else ap_profile_ref (fill_profile t item p))\<rparr>) =
   fill_profile t item p\<lparr>ap_id := n,
     ap_profile_ref := (if ap_profile_ref (fill_profile t item p) = '''' then ref else ap_profile_ref (fill_profile t item p))\<rparr>"
  by (simp add: fill_profile_def split: option.splits)

lemma fresh_profile_simps [simp]:
  "ap_id (fresh_profile i item) = 0" "ap_binding_id (fresh_profile i item) = i"
  "ap_platform_profile_key (fresh_profile i item) = pp_platform_profile_key item"
  by (simp_all add: fresh_profile_def)

lemma projects_primary: "projects t item p \<Longrightarrow> ap_is_primary p = pp_is_primary item"
  unfolding projects_def by (metis fill_profile_simps(4))

lemma save_profile_members:
  assumes "unique_on ap_id rows" and "p \<in> set rows" and "ap_id q = ap_id p"
  shows "set (update_where (\<lambda>r. ap_id r = ap_id q) (\<lambda>_. q) rows) = insert q (set rows - {p})"
  using assms by (auto simp: set_update_where dest: unique_onD)

lemma insert_profile_InrE:
  assumes "insert_profile ref row w = (Inr p, w')"
  obtains fs where
    "p = row\<lparr>ap_id := ac_next_profile_id (db w), ap_profile_ref := (if ap_profile_ref row = '''' then ref else ap_profile_ref row)\<rparr>"
    "account_ok (db w')"
    "w' = w\<lparr>faults := fs, db := (db w)\<lparr>ac_profiles := ac_profiles (db w) @ [p],
       ac_next_profile_id := Suc (ac_next_profile_id (db w))\<rparr>\<rparr>"
  using assms unfolding insert_profile_def by (auto elim!: account_write_InrE simp: Let_def)

lemma sync_inserted:
  assumes "sync_profile i t item ref w = (Inr p, w')"
    and "find_profile_by_key i (pp_platform_profile_key item) (db w) = None"
  obtains fs where "insert_profile ref (fill_profile t item (fresh_profile i item)) (w\<lparr>faults := fs\<rparr>) = (Inr p, w')"
  using assms unfolding sync_profile_def by (auto elim!: andThen_InrE query_InrE)

lemma sync_saved:
  assumes "sync_profile i t item ref w = (Inr p, w')"
    and "find_profile_by_key i (pp_platform_profile_key item) (db w) = Some p0"
  obtains fs where "p = fill_profile t item p0"
    "w' = w\<lparr>faults := fs, db := save_profile p (db w)\<rparr>" "account_ok (db w')"
  using assms unfolding sync_profile_def
  by (auto elim!: andThen_InrE query_InrE return_InrE account_change_InrE)

lemma sync_profile_success:
  assumes run: "sync_profile i t item ref w = (Inr p, w')" and ok: "account_ok (db w)"
  shows "account_ok (db w')" "projects t item p" "ap_binding_id p = i"
    "set (ac_profiles (db w')) =
       insert p {q \<in> set (ac_profiles (db w)). \<not> (ap_binding_id q = i \<and> ap_platform_profile_key q = pp_platform_profile_key item)}"
    "ac_bindings (db w') = ac_bindings (db w)" "base w' = base w"
proof -
  let ?key = "pp_platform_profile_key item"
  have "account_ok (db w') \<and> projects t item p \<and> ap_binding_id p = i \<and>
    set (ac_profiles (db w')) =
      insert p {q \<in> set (ac_profiles (db w)). \<not> (ap_binding_id q = i \<and> ap_platform_profile_key q = ?key)} \<and>
    ac_bindings (db w') = ac_bindings (db w) \<and> base w' = base w"
  proof (cases "find_profile_by_key i ?key (db w)")
    case None
    with run obtain fs where ins: "insert_profile ref (fill_profile t item (fresh_profile i item)) (w\<lparr>faults := fs\<rparr>) = (Inr p, w')"
      by (rule sync_inserted)
    from None have "{q \<in> set (ac_profiles (db w)). \<not> (ap_binding_id q = i \<and> ap_platform_profile_key q = ?key)} =
        set (ac_profiles (db w))"
      by (auto simp: find_profile_by_key_def find_None_iff)
    moreover from ins have "projects t item p \<and> ap_binding_id p = i"
      by (rule insert_profile_InrE) (simp add: projects_def fill_profile_redrawn)
    moreover from ins have "account_ok (db w') \<and> ac_bindings (db w') = ac_bindings (db w) \<and> base w' = base w \<and>
        set (ac_profiles (db w')) = insert p (set (ac_profiles (db w)))"
      by (rule insert_profile_InrE) simp
    ultimately show ?thesis by simp
  next
    case (Some p0)
    with run obtain fs where p: "p = fill_profile t item p0"
      and w': "w' = w\<lparr>faults := fs, db := save_profile p (db w)\<rparr>" and ok': "account_ok (db w')"
      by (rule sync_saved)
    from find_SomeD [OF Some [unfolded find_profile_by_key_def]]
    have p0: "p0 \<in> set (ac_profiles (db w))" "ap_binding_id p0 = i" "ap_platform_profile_key p0 = ?key"
      by simp_all
    have same: "q = p0" if "q \<in> set (ac_profiles (db w))" "ap_binding_id q = i" "ap_platform_profile_key q = ?key" for q
      by (rule unique_onD [OF account_okD(7) [OF ok] that(1) p0(1)]) (simp add: that p0)
    have "{q \<in> set (ac_profiles (db w)). \<not> (ap_binding_id q = i \<and> ap_platform_profile_key q = ?key)}
        = set (ac_profiles (db w)) - {p0}" using p0(2,3) same by blast
    moreover have "set (ac_profiles (db w')) = insert p (set (ac_profiles (db w)) - {p0})"
      using save_profile_members [OF account_okD(5) [OF ok] p0(1), of p] by (simp add: w' save_profile_def p)
    ultimately show ?thesis
      using ok' by (simp add: w' save_profile_def projects_def p p0)
  qed
  then show "account_ok (db w')" "projects t item p" "ap_binding_id p = i"
    "set (ac_profiles (db w')) =
       insert p {q \<in> set (ac_profiles (db w)). \<not> (ap_binding_id q = i \<and> ap_platform_profile_key q = ?key)}"
    "ac_bindings (db w') = ac_bindings (db w)" "base w' = base w"
    by simp_all
qed

lemma sync_loop_success:
  assumes "for_each (enumerate n items) (\<lambda>(n, item). sync_profile i t item (drawn n)) w = (Inr rows, w')"
    and "account_ok (db w)" and "distinct (map pp_platform_profile_key items)"
  shows "account_ok (db w') \<and> list_all2 (projects t) items rows \<and> (\<forall>p\<in>set rows. ap_binding_id p = i) \<and>
    set (ac_profiles (db w')) = set rows \<union> {q \<in> set (ac_profiles (db w)).
      \<not> (ap_binding_id q = i \<and> ap_platform_profile_key q \<in> pp_platform_profile_key ` set items)} \<and>
    ac_bindings (db w') = ac_bindings (db w) \<and> base w' = base w"
  using assms
proof (induction items arbitrary: n w rows)
  case Nil
  then show ?case by (auto elim!: account_success)
next
  case (Cons item items)
  from Cons.prems(1) obtain p w1 rest where
    head: "sync_profile i t item (drawn n) w = (Inr p, w1)" and
    tail: "for_each (enumerate (Suc n) items) (\<lambda>(n, item). sync_profile i t item (drawn n)) w1 = (Inr rest, w')" and
    rows: "rows = p # rest"
    by (auto elim!: account_success)
  note h = sync_profile_success [OF head Cons.prems(2)]
  from Cons.prems(3) have fresh: "\<And>x. x \<in> set items \<Longrightarrow> pp_platform_profile_key x = pp_platform_profile_key item \<Longrightarrow> False"
    by (force simp: image_iff)
  have key: "ap_platform_profile_key p = pp_platform_profile_key item"
    using h(2) by (simp add: projects_def)
  from Cons.prems(3) have "distinct (map pp_platform_profile_key items)" by simp
  note t = Cons.IH [OF tail h(1) this]
  have "set (ac_profiles (db w')) = set (p # rest) \<union> {q \<in> set (ac_profiles (db w)).
      \<not> (ap_binding_id q = i \<and> ap_platform_profile_key q \<in> pp_platform_profile_key ` set (item # items))}"
    using t h(4) h(3) key by (auto dest: fresh)
  with t h rows show ?case by simp
qed

lemma validatePrimaryProfiles_from_None:
  "validatePrimaryProfiles_from n items = None \<Longrightarrow> n \<le> 1 \<Longrightarrow> n + length (filter pp_is_primary items) \<le> 1"
  by (induction n items rule: validatePrimaryProfiles_from.induct) (auto simp: Let_def split: if_splits)

lemma projects_primaries:
  "list_all2 (projects t) items rows \<Longrightarrow> length (filter ap_is_primary rows) = length (filter pp_is_primary items)"
  by (induction rule: list_all2_induct) (auto simp: projects_primary)

lemma projects_keys:
  "list_all2 (projects t) items rows \<Longrightarrow> map ap_platform_profile_key rows = map pp_platform_profile_key items"
  by (induction rule: list_all2_induct) (auto simp: projects_def)

lemma last_primary_iff:
  assumes "length (filter ap_is_primary rows) \<le> 1" and "inj_on ap_id (set rows)" and "p \<in> set rows"
  shows "last_primary rows = Some (ap_id p) \<longleftrightarrow> ap_is_primary p"
proof (cases "filter ap_is_primary rows")
  case Nil
  with assms(3) show ?thesis by (auto simp: last_primary_def filter_empty_conv)
next
  case (Cons q qs)
  with assms(1) have q: "filter ap_is_primary rows = [q]" by (cases qs) auto
  then have "q \<in> set rows" "ap_is_primary q" "p = q" if "ap_is_primary p"
    using assms(3) that by (auto simp: filter_eq_Cons_iff filter_empty_conv eq_commute [of "[]"])
  moreover from q have "q \<in> set rows \<and> ap_is_primary q"
    by (metis Cons_eq_filter_iff in_set_conv_decomp)
  ultimately show ?thesis
    using q assms(2,3) by (auto simp: last_primary_def dest: inj_onD)
qed

lemma live_binding_is_live: "live_binding i d = find (is_live i) (ac_bindings d)"
  by (simp add: live_binding_def is_live_def [abs_def])

lemma live_binding_update_live:
  assumes "\<And>b. pb_id (f b) = pb_id b \<and> pb_deleted_at (f b) = pb_deleted_at b"
  shows "live_binding j (update_live i f d) = (if j = i then map_option f (live_binding j d) else live_binding j d)"
proof -
  have q: "is_live j (f r) = is_live j r" for r
    by (simp add: is_live_def assms)
  have "live_binding j (update_live i f d) = map_option (\<lambda>r. if is_live i r then f r else r) (live_binding j d)"
    by (simp add: live_binding_is_live update_live_def find_update_where q)
  also have "\<dots> = (if j = i then map_option f (live_binding j d) else live_binding j d)"
  proof (cases "live_binding j d")
    case (Some b)
    then have "is_live j b" by (simp add: live_binding_is_live find_SomeD)
    with Some show ?thesis by (auto simp: is_live_def)
  qed auto
  finally show ?thesis .
qed

lemma live_binding_tables:
  "live_binding i (d\<lparr>ac_profiles := x\<rparr>) = live_binding i d"
  "ac_bindings d = ac_bindings d' \<Longrightarrow> live_binding i d = live_binding i d'"
  by (simp_all add: live_binding_def)

lemma sync_profiles_body_success:
  assumes run: "sync_profiles_body input t drawn w = (Inr rows, w')" and ok: "account_ok (db w)"
    and live: "live_binding (sp_binding_id input) (db w) = Some b"
    and fresh: "pb_observed_revision b \<le> sp_observed_revision input" "pb_profile_revision b \<le> sp_revision input"
    and keys: "distinct (map pp_platform_profile_key (sp_profiles input))"
  shows "list_all2 (projects t) (sp_profiles input) rows \<and> account_ok (db w') \<and>
    profiles_of (sp_binding_id input) (db w') = set rows \<and>
    (\<forall>j. j \<noteq> sp_binding_id input \<longrightarrow> profiles_of j (db w') = profiles_of j (db w)) \<and>
    live_binding (sp_binding_id input) (db w') = Some (b\<lparr>pb_primary_profile_id := last_primary rows\<rparr>)"
proof -
  let ?i = "sp_binding_id input" and ?keys = "map pp_platform_profile_key (sp_profiles input)"
  from run live fresh obtain w1 w2 fs rows0 where
    w1: "account_change (demote_profiles ?i) (w\<lparr>faults := fs\<rparr>) = (Inr (), w1)" and
    loop: "for_each (enumerate 0 (sp_profiles input)) (\<lambda>(n, item). sync_profile ?i t item (drawn n)) w1 = (Inr rows0, w2)" and
    rest: "andThen (account_change (set_primary_id ?i (last_primary rows0))) (\<lambda>_.
        andThen (account_change (drop_other_profiles ?i ?keys)) (\<lambda>_. return rows0)) w2 = (Inr rows, w')"
    unfolding sync_profiles_body_def Let_def not_less [symmetric]
    by (auto elim!: select_one_InrE elim!: andThen_InrE [of "take_row _ _"] elim!: andThen_InrE [of "account_change (demote_profiles _)"]
        andThen_InrE [of "for_each _ _"])
  have rows0: "rows0 = rows"
    using rest by (auto elim!: account_success account_change_InrE)
  note loop = loop [unfolded rows0] and rest = rest [unfolded rows0]
  from w1 have d1: "account_ok (db w1)" "db w1 = demote_profiles ?i (db w)"
    by (auto elim!: account_change_InrE)
  note l = sync_loop_success [OF loop d1(1) keys]
  from rest have d': "account_ok (db w')" "db w' = drop_other_profiles ?i ?keys (set_primary_id ?i (last_primary rows) (db w2))"
    by (auto elim!: account_success account_change_InrE)
  have keyed: "ap_platform_profile_key p \<in> set ?keys" if "p \<in> set rows" for p
    using projects_keys [of t "sp_profiles input" rows] l that by (metis image_set imageI)
  have all: "set (ac_profiles (db w')) = set rows \<union> {q \<in> set (ac_profiles (demote_profiles ?i (db w))). ap_binding_id q \<noteq> ?i}"
    using l keyed unfolding d' d1(2) [symmetric]
    by (auto simp: drop_other_profiles_def set_primary_id_def update_live_def)
  have "live_binding ?i (db w') = Some (b\<lparr>pb_primary_profile_id := last_primary rows\<rparr>)"
  proof -
    from l have "live_binding ?i (db w2) = live_binding ?i (db w1)"
      by (intro live_binding_tables(2)) simp
    with live show ?thesis
      by (simp add: d' d1(2) drop_other_profiles_def set_primary_id_def demote_profiles_def
          live_binding_tables(1) live_binding_update_live)
  qed
  with l d' all show ?thesis
    by (auto simp: profiles_of_def demote_profiles_def set_update_where)
qed

text \<open>Every tables operation keeps the constraints, whatever statements fail.\<close>

lemma binding_statements_pins [keeps_rules, simp]:
  "pins_committed (insert_binding row)" "pins_committed (insert_profile ref profile)"
  "pins_committed (sync_profile i t item ref)" "pins_committed (GetBindingByID i)"
  "pins_committed (GetBindingByIDUnscoped i)" "pins_committed (GetBindingForOwner u i)"
  "pins_committed (GetProfile i p)" "pins_committed (choose_primary i q)"
  unfolding insert_binding_def insert_profile_def sync_profile_def GetBindingByID_def GetBindingByIDUnscoped_def
    GetBindingForOwner_def GetProfile_def choose_primary_def
  by (auto intro!: keeps_rules)

lemma binding_bodies_pins [keeps_rules, simp]:
  "pins_committed (sync_profiles_body input t drawn)" "pins_committed (delete_binding_body i now)"
  unfolding sync_profiles_body_def delete_binding_body_def Let_def
  by (auto intro!: keeps_rules)

text \<open>C21: A profile sync that is not older than the stored revision makes the projection equal the
  snapshot, whatever the tables held before: every item of the snapshot has exactly its row, with the
  columns of the item, the rows of the binding are these and no others, the rows of other bindings
  are untouched, and the binding points to a profile exactly when that profile is the primary one.
  The snapshot must name each profile once.\<close>

theorem SyncProfiles_projects:
  assumes run: "SyncProfiles input now drawn w = (Inr rows, w')" and outside: "base w = None"
    and ok: "account_ok (db w)"
    and live: "live_binding (sp_binding_id input) (db w) = Some b"
    and fresh: "pb_observed_revision b \<le> sp_observed_revision input" "pb_profile_revision b \<le> sp_revision input"
    and keys: "distinct (map pp_platform_profile_key (sp_profiles input))"
  shows "list_all2 (projects (if sp_synced_at input = 0 then now else sp_synced_at input)) (sp_profiles input) rows \<and>
    profiles_of (sp_binding_id input) (db w') = set rows \<and>
    (\<forall>j. j \<noteq> sp_binding_id input \<longrightarrow> profiles_of j (db w') = profiles_of j (db w)) \<and>
    (\<exists>b'. live_binding (sp_binding_id input) (db w') = Some b' \<and>
      (\<forall>p\<in>profiles_of (sp_binding_id input) (db w'). pb_primary_profile_id b' = Some (ap_id p) \<longleftrightarrow> ap_is_primary p))"
proof -
  let ?t = "if sp_synced_at input = 0 then now else sp_synced_at input"
  from run have valid: "validatePrimaryProfiles (sp_profiles input) = None"
    by (auto simp: SyncProfiles_def raise_apply split: option.splits)
  with run have "db_transaction (sync_profiles_body input ?t drawn) w = (Inr rows, w')"
    by (simp add: SyncProfiles_def Let_def)
  with outside obtain w1 fs where
    body: "sync_profiles_body input ?t drawn (w\<lparr>base := Some (db w)\<rparr>) = (Inr rows, w1)" and w': "db w' = db w1"
    by (auto elim!: transaction_InrE)
  from ok live have "account_ok (db (w\<lparr>base := Some (db w)\<rparr>))"
    "live_binding (sp_binding_id input) (db (w\<lparr>base := Some (db w)\<rparr>)) = Some b" by simp_all
  note s = sync_profiles_body_success [OF body this fresh keys]
  have "length (filter ap_is_primary rows) \<le> 1"
    using validatePrimaryProfiles_from_None [of 0 "sp_profiles input"] valid projects_primaries [of ?t _ rows] s
    by (auto simp: validatePrimaryProfiles_def)
  moreover from s have "unique_on ap_id (ac_profiles (db w1))" and "set rows \<subseteq> set (ac_profiles (db w1))"
    by (auto dest: account_okD simp: profiles_of_def)
  then have "inj_on ap_id (set rows)"
    by (auto simp: unique_on_def distinct_map intro: inj_on_subset)
  ultimately show ?thesis
    using s last_primary_iff [of rows] by (simp add: w')
qed

text \<open>What a successful deletion does to the tables.\<close>

definition deleted_binding :: "nat \<Rightarrow> instant \<Rightarrow> account_binding \<Rightarrow> account_db \<Rightarrow> account_db" where
  "deleted_binding i now b d = update_live i (\<lambda>b. b\<lparr>pb_deleted_at := Some now\<rparr>)
     (drop_grants (\<lambda>g. cg_binding_id g = i) (drop_profiles i (clear_primary i (save_row (b\<lparr>pb_status := BindingDeleted\<rparr>) d))))"

lemma delete_binding_body_success:
  assumes "delete_binding_body i now w = (Inr (), w')"
  obtains b where "live_binding i (db w) = Some b" "db w' = deleted_binding i now b (db w)" "account_ok (db w')"
  using assms unfolding delete_binding_body_def deleted_binding_def
  by (auto elim!: andThen_InrE select_one_InrE account_change_InrE)

lemma live_find:
  assumes "account_ok d" and "live_binding i d = Some b"
  shows "find_binding i d = Some b" "pb_id b = i" "pb_deleted_at b = None"
proof -
  from assms(2) have b: "b \<in> set (ac_bindings d)" "pb_id b = i" "pb_deleted_at b = None"
    by (auto simp: live_binding_def dest: find_SomeD)
  then show "find_binding i d = Some b" "pb_id b = i" "pb_deleted_at b = None"
    using find_unique [OF account_okD(1) [OF assms(1)] b(1)] by (simp_all add: find_binding_def)
qed

lemma deleted_binding_tables:
  "ac_profiles (deleted_binding i now b d) = delete_where (\<lambda>p. ap_binding_id p = i) (ac_profiles d)"
  "ac_grants (deleted_binding i now b d) = delete_where (\<lambda>g. cg_binding_id g = i) (ac_grants d)"
  by (simp_all add: deleted_binding_def update_live_def drop_grants_def Let_def drop_profiles_def clear_primary_def
      save_row_def)

lemma find_binding_update:
  assumes "\<And>r. q r \<Longrightarrow> pb_id (f r) = pb_id r"
  shows "find_binding j (d\<lparr>ac_bindings := update_where q f (ac_bindings d)\<rparr>) =
    map_option (\<lambda>r. if q r then f r else r) (find_binding j d)"
  using assms by (simp add: find_binding_def find_update_where)

lemma find_binding_tables:
  "find_binding j (drop_profiles i d) = find_binding j d" "find_binding j (drop_grants p d) = find_binding j d"
  by (simp_all add: drop_profiles_def drop_grants_def find_binding_def Let_def)

lemma find_binding_live:
  "(\<And>r. pb_id (f r) = pb_id r) \<Longrightarrow>
   find_binding j (update_live i f d) = map_option (\<lambda>r. if is_live i r then f r else r) (find_binding j d)"
  unfolding update_live_def by (rule find_binding_update)

lemma find_binding_save:
  "find_binding j (save_row b d) = map_option (\<lambda>r. if pb_id r = pb_id b then b else r) (find_binding j d)"
  unfolding save_row_def by (rule find_binding_update) simp

lemma find_binding_id: "find_binding i d = Some b \<Longrightarrow> pb_id b = i"
  unfolding find_binding_def by (drule find_SomeD) simp

lemma deleted_binding_find:
  assumes "find_binding i d = Some b" and "pb_deleted_at b = None"
  shows "find_binding j (deleted_binding i now b d) = (if j = i
    then Some (b\<lparr>pb_status := BindingDeleted, pb_primary_profile_id := None, pb_deleted_at := Some now\<rparr>)
    else find_binding j d)"
proof (cases "find_binding j d")
  case None
  with assms show ?thesis
    by (auto simp: deleted_binding_def clear_primary_def find_binding_live find_binding_tables find_binding_save)
next
  case (Some r)
  with assms find_binding_id [OF Some] find_binding_id [OF assms(1)] show ?thesis
    by (auto simp: deleted_binding_def clear_primary_def find_binding_live find_binding_tables find_binding_save is_live_def)
qed

lemma live_marked_deleted: "live_binding i (update_live i (\<lambda>b. b\<lparr>pb_deleted_at := Some now\<rparr>) d) = None"
proof -
  have "\<not> is_live i r" if "r \<in> set (update_where (is_live i) (\<lambda>b. b\<lparr>pb_deleted_at := Some now\<rparr>) rows)" for r rows
    using that by (rule in_update_whereE) (auto simp: is_live_def split: if_splits)
  then show ?thesis
    by (auto simp: live_binding_is_live update_live_def find_None_iff)
qed

lemma live_deleted_binding: "live_binding i (deleted_binding i now b d) = None"
  unfolding deleted_binding_def by (rule live_marked_deleted)

text \<open>Deleting a binding leaves nothing usable behind: the row is kept but marked deleted and
  without a primary profile, no profile and no consumer grant of it is left,
  and every other binding, profile and grant is as before.\<close>

theorem DeleteBinding_clears:
  assumes run: "DeleteBinding i now w = (Inr b', w')" and outside: "base w = None" and ok: "account_ok (db w)"
  shows "find_binding i (db w') = Some b' \<and> pb_status b' = BindingDeleted \<and> pb_deleted_at b' = Some now \<and>
    pb_primary_profile_id b' = None \<and> live_binding i (db w') = None \<and>
    ac_profiles (db w') = delete_where (\<lambda>p. ap_binding_id p = i) (ac_profiles (db w)) \<and>
    ac_grants (db w') = delete_where (\<lambda>g. cg_binding_id g = i) (ac_grants (db w)) \<and>
    (\<forall>j. j \<noteq> i \<longrightarrow> find_binding j (db w') = find_binding j (db w))"
proof -
  let ?w = "w\<lparr>base := Some (db w)\<rparr>"
  from run obtain w1 where del: "db_transaction (delete_binding_body i now) w = (Inr (), w1)"
    and reread: "take_row GormRecordNotFound (find_binding i) w1 = (Inr b', w')"
    unfolding DeleteBinding_def by (auto elim!: andThen_InrE)
  from reread have found: "find_binding i (db w') = Some b'" and same: "db w' = db w1"
    by (auto elim!: select_one_InrE)
  from del outside obtain w2 where body: "delete_binding_body i now ?w = (Inr (), w2)" and w1: "db w1 = db w2"
    by (auto elim!: transaction_InrE)
  from delete_binding_body_success [OF body] obtain b where b: "live_binding i (db w) = Some b"
    and d: "db w' = deleted_binding i now b (db w)"
    unfolding same w1 by auto
  from live_find [OF ok b] have fb: "find_binding i (db w) = Some b" "pb_id b = i" "pb_deleted_at b = None" .
  from found fb show ?thesis
    unfolding d by (auto simp: deleted_binding_tables deleted_binding_find live_deleted_binding)
qed

section \<open>Examples\<close>

definition acct_user :: user_row where
  "acct_user = \<lparr>usr_id = 7, usr_user_ref = ''usr_7'', usr_owner_epoch = 1, usr_deleted_at = None\<rparr>"

definition acct_binding :: account_binding where
  "acct_binding = (new_binding \<lparr>cb_owner_user_id = 7, cb_platform = ''mihomo'',
     cb_external_account_key = Some ''acct'', cb_platform_service_key = ''svc'', cb_display_name = ''Main''\<rparr> ''bind_1'' 0)
     \<lparr>pb_id := 1, pb_status := BindingActive, pb_generation := 3, pb_profile_revision := 2, pb_observed_revision := 2\<rparr>"

definition acct_profile :: account_profile where
  "acct_profile = \<lparr>ap_id = 4, ap_binding_id = 1, ap_platform_profile_key = ''p1'', ap_profile_ref = ''p1'',
     ap_game_biz = ''hk4e'', ap_region = ''cn'', ap_player_uid = ''100'', ap_nickname = ''Old'', ap_level = Some 1,
     ap_is_primary = False, ap_source_updated_at = None\<rparr>"

definition acct_db :: account_db where
  "acct_db = empty_account_db\<lparr>ac_users := [acct_user], ac_bindings := [acct_binding], ac_next_binding_id := 2,
     ac_profiles := [acct_profile], ac_next_profile_id := 5\<rparr>"

definition acct_item :: "string \<Rightarrow> bool \<Rightarrow> ProfileProjectionInput" where
  "acct_item key primary = \<lparr>pp_platform_profile_key = key, pp_profile_ref = key, pp_game_biz = ''hk4e'', pp_region = ''cn'',
     pp_player_uid = ''100'', pp_nickname = ''New'', pp_level = Some 60, pp_is_primary = primary, pp_source_updated_at = None\<rparr>"

definition acct_sync :: SyncProfilesInput where
  "acct_sync = \<lparr>sp_binding_id = 1, sp_profiles = [acct_item ''p1'' False, acct_item ''p2'' True], sp_synced_at = 9,
     sp_revision = 3, sp_observed_revision = 3\<rparr>"

definition account_world :: "account_db \<Rightarrow> 'l aworld" where
  "account_world d = \<lparr>db = d, base = None, faults = [], calls = []\<rparr>"

lemma account_world_simps [simp]:
  "db (account_world d) = d" "base (account_world d) = None" "faults (account_world d) = []" "calls (account_world d) = []"
  by (simp_all add: account_world_def)

lemmas account_samples = acct_user_def acct_binding_def new_binding_def acct_profile_def acct_db_def
  acct_item_def acct_sync_def empty_account_db_def

lemmas account_checks = account_violation_def account_constraints_def unique_on_def unique_where_def has_user_def
  has_binding_def primary_assigned_def binding_row_ok_def bigint_ok_def

lemma acct_db_ok: "account_ok acct_db"
  by (simp add: account_ok_def account_checks account_samples)

lemma acct_sync_runs: "\<exists>rows w'. SyncProfiles acct_sync 9 (\<lambda>_. ''prof_x'') (account_world acct_db :: unit aworld) = (Inr rows, w')"
  by (simp add: SyncProfiles_def sync_profiles_body_def sync_profile_def insert_profile_def account_samples account_world_def
      effect_simps transaction_def account_checks validatePrimaryProfiles_def Let_def live_binding_def find_profile_by_key_def
      fill_profile_def fresh_profile_def demote_profiles_def save_profile_def set_primary_id_def update_live_def
      drop_other_profiles_def last_primary_def is_live_def)

theorem SyncProfiles_projects_witness:
  "\<exists>rows w'. SyncProfiles acct_sync 9 (\<lambda>_. ''prof_x'') (account_world acct_db :: unit aworld) = (Inr rows, w') \<and>
     profiles_of 1 (db w') = set rows \<and> length rows = 2"
proof -
  from acct_sync_runs obtain rows w' where
    run: "SyncProfiles acct_sync 9 (\<lambda>_. ''prof_x'') (account_world acct_db :: unit aworld) = (Inr rows, w')" by blast
  have "live_binding (sp_binding_id acct_sync) (db (account_world acct_db :: unit aworld)) = Some acct_binding"
    by (simp add: live_binding_def account_samples)
  from SyncProfiles_projects [OF run _ _ this] have
    "list_all2 (projects (if sp_synced_at acct_sync = 0 then 9 else sp_synced_at acct_sync)) (sp_profiles acct_sync) rows \<and>
     profiles_of (sp_binding_id acct_sync) (db w') = set rows"
    using acct_db_ok by (simp add: account_samples)
  then have s: "length rows = length (sp_profiles acct_sync)" "profiles_of (sp_binding_id acct_sync) (db w') = set rows"
    by (auto dest: list_all2_lengthD)
  then show ?thesis
    using run by (auto simp: account_samples)
qed

lemma acct_delete_runs: "\<exists>b' w'. DeleteBinding 1 9 (account_world acct_db :: unit aworld) = (Inr b', w')"
  by (simp add: DeleteBinding_def delete_binding_body_def account_samples account_world_def effect_simps transaction_def
      account_checks live_binding_def find_binding_def save_row_def clear_primary_def drop_profiles_def drop_grants_def
      update_live_def is_live_def Let_def)

theorem DeleteBinding_clears_witness:
  "\<exists>b' w'. DeleteBinding 1 9 (account_world acct_db :: unit aworld) = (Inr b', w') \<and>
     pb_status b' = BindingDeleted \<and> ac_profiles (db w') = []"
proof -
  from acct_delete_runs obtain b' w' where
    run: "DeleteBinding 1 9 (account_world acct_db :: unit aworld) = (Inr b', w')" by blast
  from DeleteBinding_clears [OF run] acct_db_ok show ?thesis
    using run by (simp add: account_samples)
qed

end
