(* ===== verification/Settling.thy ===== *)
theory Settling
  imports Main
begin

text \<open>
  The contract of a store of rows that close once.  Rows are looked up by a key; a closed row
  never changes and a row never disappears.  Some steps \<^emph>\<open>fire\<close> a key: they find its row open
  and leave it closed.  Then, however the steps of many workers interleave, no key fires twice.
  The operation ledger of the Mihomo service and the intent store of Account Center are such stores.
\<close>

inductive fires ::
    "('s \<Rightarrow> 's \<Rightarrow> bool) \<Rightarrow> ('k \<Rightarrow> 's \<Rightarrow> 's \<Rightarrow> bool) \<Rightarrow> 's \<Rightarrow> 'k list \<Rightarrow> 's \<Rightarrow> bool"
  for step :: "'s \<Rightarrow> 's \<Rightarrow> bool" and fire :: "'k \<Rightarrow> 's \<Rightarrow> 's \<Rightarrow> bool" where
  fires_start: "fires step fire s [] s"
| fires_quiet: "fires step fire s ks t \<Longrightarrow> step t u \<Longrightarrow> fires step fire s ks u"
| fires_fire: "fires step fire s ks t \<Longrightarrow> fire k t u \<Longrightarrow> fires step fire s (ks @ [k]) u"

lemma fires_trans:
  "fires step fire t ks' u \<Longrightarrow> fires step fire s ks t \<Longrightarrow> fires step fire s (ks @ ks') u"
  by (induction rule: fires.induct) (auto simp flip: append_assoc intro: fires.intros)

locale settling =
  fixes look :: "'k \<Rightarrow> 's \<Rightarrow> 'r option"
    and closed :: "'r \<Rightarrow> bool"
    and inv :: "'s \<Rightarrow> bool"
    and step :: "'s \<Rightarrow> 's \<Rightarrow> bool"
  assumes step_inv: "step s t \<Longrightarrow> inv s \<Longrightarrow> inv t"
    and step_closed: "step s t \<Longrightarrow> inv s \<Longrightarrow> look k s = Some r \<Longrightarrow> closed r \<Longrightarrow> look k t = Some r"
    and step_present: "step s t \<Longrightarrow> inv s \<Longrightarrow> look k s \<noteq> None \<Longrightarrow> look k t \<noteq> None"
begin

lemma run_inv: "step\<^sup>*\<^sup>* s t \<Longrightarrow> inv s \<Longrightarrow> inv t"
  by (induction rule: rtranclp_induct) (auto intro: step_inv)

lemma run_closed:
  assumes "step\<^sup>*\<^sup>* s t" and "inv s" and "look k s = Some r" and "closed r"
  shows "look k t = Some r"
  using assms(1)
proof (induction rule: rtranclp_induct)
  case base
  show ?case by (rule assms(3))
next
  case (step y z)
  from step.hyps(1) assms(2) have "inv y" by (rule run_inv)
  from step_closed [OF step.hyps(2) this step.IH assms(4)] show ?case .
qed

lemma run_present:
  "step\<^sup>*\<^sup>* s t \<Longrightarrow> inv s \<Longrightarrow> look k s \<noteq> None \<Longrightarrow> look k t \<noteq> None"
  by (induction rule: rtranclp_induct) (auto dest: run_inv step_present)

end

locale closing = settling look closed inv step
  for look :: "'k \<Rightarrow> 's \<Rightarrow> 'r option"
    and closed :: "'r \<Rightarrow> bool"
    and inv :: "'s \<Rightarrow> bool"
    and step :: "'s \<Rightarrow> 's \<Rightarrow> bool" +
  fixes fire :: "'k \<Rightarrow> 's \<Rightarrow> 's \<Rightarrow> bool"
  assumes fire_step: "fire k s t \<Longrightarrow> step s t"
    and fire_open: "fire k s t \<Longrightarrow> inv s \<Longrightarrow> \<exists>r. look k s = Some r \<and> \<not> closed r"
    and fire_closed: "fire k s t \<Longrightarrow> inv s \<Longrightarrow> \<exists>r. look k t = Some r \<and> closed r"
begin

lemma fires_run: "fires step fire s ks t \<Longrightarrow> step\<^sup>*\<^sup>* s t"
  by (induction rule: fires.induct) (auto intro: fire_step rtranclp.rtrancl_into_rtrancl)

lemma fired_closed:
  assumes "fires step fire s ks t" and "inv s"
  shows "distinct ks \<and> (\<forall>k\<in>set ks. \<exists>r. look k t = Some r \<and> closed r)"
  using assms
proof (induction rule: fires.induct)
  case (fires_start s)
  show ?case by simp
next
  case (fires_quiet s ks t u)
  then have "inv t" using fires_run run_inv by blast
  with fires_quiet show ?case by (metis step_closed)
next
  case (fires_fire s ks t k u)
  then have t: "inv t" using fires_run run_inv by blast
  from fires_fire.IH [OF fires_fire.prems] fire_open [OF fires_fire.hyps(2) t]
  have "distinct (ks @ [k])" by auto
  moreover have "\<exists>r. look k' u = Some r \<and> closed r" if "k' \<in> set ks" for k'
    using that fires_fire.IH [OF fires_fire.prems] step_closed [OF fire_step [OF fires_fire.hyps(2)] t]
    by blast
  ultimately show ?case
    using fire_closed [OF fires_fire.hyps(2) t] by auto
qed

lemma fires_distinct: "fires step fire s ks t \<Longrightarrow> inv s \<Longrightarrow> distinct ks"
  using fired_closed by blast

end

end
