(* ===== verification/Account_Intents.thy ===== *)
theory Account_Intents
  imports Account_Bindings Settling "HOL-Library.List_Lexorder"
begin

text \<open>
  The durable intents of credential operations and their outbox:
  \<open>service/platformbinding/operation_intent_service.go\<close>, \<open>operation_recovery_service.go\<close>, and the
  operation references of \<open>credential_operation_coordination.go\<close> and
  \<open>credential_operation_gateway.go\<close>.  An intent reserves its binding until it is closed; its
  outbox row is the wake-up that brings the reconciler back to it.  Every clock reading of an
  operation is the argument \<open>now\<close>; SHA-256 is an argument.
\<close>

section \<open>Operation references\<close>

record CredentialOperationReference =
  or_operation_id :: string
  or_kind :: string
  or_binding_ref :: string
  or_pre_generation :: u64
  or_target_generation :: u64
  or_request_fingerprint :: string

definition newCredentialOperationReferenceForKind ::
    "(string \<Rightarrow> string) \<Rightarrow> account_binding \<Rightarrow> string \<Rightarrow> string \<Rightarrow> CredentialOperationReference" where
  "newCredentialOperationReferenceForKind sha256 binding operationID kind =
     (let preGeneration = pb_generation binding; targetGeneration = preGeneration + 1 in
      \<lparr>or_operation_id = operationID, or_kind = kind, or_binding_ref = pb_binding_ref binding,
       or_pre_generation = preGeneration, or_target_generation = targetGeneration,
       or_request_fingerprint = Fingerprint sha256 kind (pb_binding_ref binding) preGeneration targetGeneration\<rparr>)"

definition newCredentialOperationReference ::
    "(string \<Rightarrow> string) \<Rightarrow> account_binding \<Rightarrow> string \<Rightarrow> bool \<Rightarrow> CredentialOperationReference" where
  "newCredentialOperationReference sha256 binding operationID replace =
     newCredentialOperationReferenceForKind sha256 binding operationID
       (if replace then ''OPERATION_KIND_REPLACE_CREDENTIAL'' else ''OPERATION_KIND_BIND_CREDENTIAL'')"

record CredentialOperationIntentInput =
  ii_operation_id :: string
  ii_binding_id :: nat
  ii_binding_ref :: string
  ii_kind :: string
  ii_pre_generation :: u64
  ii_target_generation :: u64
  ii_request_fingerprint :: string
  ii_profile_ref :: string
  ii_profile_revision :: u64
  ii_actor_type :: string
  ii_actor_id :: string

definition credentialOperationInitialDeliveryLease :: duration where
  "credentialOperationInitialDeliveryLease = 15 * second"

definition credentialOperationDispatchLease :: duration where
  "credentialOperationDispatchLease = 2 * minute"

definition credentialOperationInputTTL :: duration where
  "credentialOperationInputTTL = 24 * hour"

definition credentialOperationDeadLetterAttempts :: nat where
  "credentialOperationDeadLetterAttempts = 100"

definition credentialOperationRetryDelay :: duration where
  "credentialOperationRetryDelay = 30 * second"

definition validIntentGeneration :: "CredentialOperationIntentInput \<Rightarrow> bool" where
  "validIntentGeneration input \<longleftrightarrow>
     (if ii_kind input = ''OPERATION_KIND_SET_PRIMARY_PROFILE''
      then ii_target_generation input = ii_pre_generation input
      else ii_target_generation input = ii_pre_generation input + 1)"

definition validIntentProfile :: "CredentialOperationIntentInput \<Rightarrow> bool" where
  "validIntentProfile input \<longleftrightarrow>
     (if ii_kind input = ''OPERATION_KIND_SET_PRIMARY_PROFILE''
      then ii_profile_ref input \<noteq> '''' \<and> ii_profile_revision input > 0
      else ii_profile_ref input = '''' \<and> ii_profile_revision input = 0)"

definition deliveryModeForOperation :: "string \<Rightarrow> delivery_mode" where
  "deliveryModeForOperation kind =
     (if kind = ''OPERATION_KIND_BIND_CREDENTIAL'' \<or> kind = ''OPERATION_KIND_REPLACE_CREDENTIAL''
      then SyncSecret else Outbox)"

definition reservingOperationIntentStates :: "intent_state list" where
  "reservingOperationIntentStates =
     [PendingDelivery, Uncertain, ProjectionPending, InputRequired, InvariantViolation]"

section \<open>Audit of admissions\<close>

text \<open>\<open>strconv.ParseUint(text, 10, 64)\<close>.\<close>

definition parse_uint :: "string \<Rightarrow> nat option" where
  "parse_uint text =
     (if text = '''' \<or> \<not> list_all (\<lambda>c. CHR ''0'' \<le> c \<and> c \<le> CHR ''9'') text then None
      else let n = foldl (\<lambda>n c. 10 * n + (of_char c - 48)) 0 text in if n < 2 ^ 64 then Some n else None)"

definition actorUserIDFromAuditContext :: "string \<Rightarrow> string \<Rightarrow> nat option \<Rightarrow> nat option" where
  "actorUserIDFromAuditContext actorType actorID ownerUserID =
     (if actorType = ''user'' then ownerUserID
      else if actorType = ''admin'' \<and> take 6 actorID = ''admin:''
      then (case parse_uint (drop 6 actorID) of Some v \<Rightarrow> if v \<noteq> 0 then Some v else None | None \<Rightarrow> None)
      else None)"

definition writeOperationAdmissionAudit :: "operation_intent \<Rightarrow> ('l, unit) aeff" where
  "writeOperationAdmissionAudit intent = RecordTx
     \<lparr>ae_category = ''platform_binding'', ae_actor_type = oi_actor_type intent,
      ae_actor_user_id = actorUserIDFromAuditContext (oi_actor_type intent) (oi_actor_id intent) (Some (oi_owner_user_id intent)),
      ae_action = ''platform_operation_admitted'', ae_target_type = ''binding'',
      ae_target_id = decimal (oi_binding_id intent), ae_binding_id = Some (oi_binding_id intent),
      ae_result = ''pending'', ae_reason_code = ''operation_admitted''\<rparr>"

section \<open>Statements\<close>

definition set_intents :: "(operation_intent \<Rightarrow> bool) \<Rightarrow> (operation_intent \<Rightarrow> operation_intent) \<Rightarrow>
    account_db \<Rightarrow> account_db" where
  "set_intents p f d = d\<lparr>ac_intents := update_where p f (ac_intents d)\<rparr>"

definition set_outbox :: "(operation_outbox \<Rightarrow> bool) \<Rightarrow> (operation_outbox \<Rightarrow> operation_outbox) \<Rightarrow>
    account_db \<Rightarrow> account_db" where
  "set_outbox p f d = d\<lparr>ac_outbox := update_where p f (ac_outbox d)\<rparr>"

definition of_operation :: "string \<Rightarrow> operation_outbox \<Rightarrow> bool" where
  "of_operation i o1 \<longleftrightarrow> ob_operation_id o1 = i"

definition complete_outbox :: "string \<Rightarrow> string \<Rightarrow> ('l, unit) aeff" where
  "complete_outbox operationID reason = account_change (set_outbox (of_operation operationID)
     (\<lambda>o1. o1\<lparr>ob_status := OutboxCompleted, ob_last_reason_code := reason\<rparr>))"

definition insert_intent :: "operation_intent \<Rightarrow> ('l, unit) aeff" where
  "insert_intent row = account_change (\<lambda>d. d\<lparr>ac_intents := ac_intents d @ [row]\<rparr>)"

definition insert_outbox :: "string \<Rightarrow> instant \<Rightarrow> ('l, unit) aeff" where
  "insert_outbox operationID availableAt = account_change (\<lambda>d. d\<lparr>
     ac_outbox := ac_outbox d @ [\<lparr>ob_id = ac_next_outbox_id d, ob_operation_id = operationID,
       ob_status = OutboxPending, ob_available_at = availableAt, ob_attempt_count = 0, ob_last_reason_code = ''''\<rparr>],
     ac_next_outbox_id := Suc (ac_next_outbox_id d)\<rparr>)"

text \<open>The intent, its wake-up and its audit record, the end of every admission.\<close>

definition store_intent :: "operation_intent \<Rightarrow> instant \<Rightarrow> ('l, operation_intent) aeff" where
  "store_intent intent availableAt =
     andThen (insert_intent intent) (\<lambda>_.
     andThen (insert_outbox (oi_operation_id intent) availableAt) (\<lambda>_.
     andThen (writeOperationAdmissionAudit intent) (\<lambda>_. return intent)))"

section \<open>Admission\<close>

definition new_intent ::
    "CredentialOperationIntentInput \<Rightarrow> nat \<Rightarrow> string \<Rightarrow> delivery_mode \<Rightarrow> instant \<Rightarrow> operation_intent" where
  "new_intent input owner platform mode now =
     \<lparr>oi_operation_id = ii_operation_id input, oi_binding_id = ii_binding_id input, oi_binding_ref = ii_binding_ref input,
      oi_owner_user_id = owner, oi_platform = platform, oi_kind = ii_kind input,
      oi_pre_generation = ii_pre_generation input, oi_target_generation = ii_target_generation input,
      oi_request_fingerprint = ii_request_fingerprint input, oi_profile_ref = ii_profile_ref input,
      oi_profile_revision = ii_profile_revision input, oi_delivery_mode = mode, oi_state = PendingDelivery,
      oi_reason_code = '''', oi_actor_type = ii_actor_type input, oi_actor_id = ii_actor_id input,
      oi_input_expires_at = None, oi_resolved_at = None, oi_created_at = now\<rparr>"

definition active_intent :: "nat \<Rightarrow> account_db \<Rightarrow> operation_intent option" where
  "active_intent bindingID d =
     (case sort_key (\<lambda>r. - oi_created_at r)
        (filter (\<lambda>r. oi_binding_id r = bindingID \<and> oi_state r \<in> set reservingOperationIntentStates) (ac_intents d)) of
        [] \<Rightarrow> None | r # _ \<Rightarrow> Some r)"

definition displace_active :: "nat \<Rightarrow> instant \<Rightarrow> ('l, unit) aeff" where
  "displace_active bindingID now =
     andThen (aquery (active_intent bindingID)) (\<lambda>found. case found of
       None \<Rightarrow> return ()
     | Some active \<Rightarrow>
         if oi_state active \<noteq> InputRequired
         then raise (CredentialOperationPending (oi_operation_id active) (oi_binding_id active) (oi_state active))
         else andThen (account_change (set_intents
                (\<lambda>r. oi_operation_id r = oi_operation_id active \<and> oi_state r = InputRequired)
                (\<lambda>r. r\<lparr>oi_state := Superseded, oi_resolved_at := Some now\<rparr>))) (\<lambda>_.
              complete_outbox (oi_operation_id active) ''credential_resubmitted''))"

definition admissible :: "CredentialOperationIntentInput \<Rightarrow> bool" where
  "admissible input \<longleftrightarrow> ii_operation_id input \<noteq> '''' \<and> ii_binding_id input \<noteq> 0 \<and> ii_binding_ref input \<noteq> '''' \<and>
     ii_kind input \<noteq> '''' \<and> ii_request_fingerprint input \<noteq> '''' \<and> ii_actor_type input \<noteq> '''' \<and>
     ii_actor_id input \<noteq> '''' \<and> validIntentGeneration input \<and> validIntentProfile input"

definition admit_body :: "CredentialOperationIntentInput \<Rightarrow> instant \<Rightarrow> ('l, operation_intent) aeff" where
  "admit_body input now =
     andThen (take_row ErrBindingNotFound (find_binding (ii_binding_id input))) (\<lambda>parent.
     andThen (displace_active (ii_binding_id input) now) (\<lambda>_.
     store_intent (new_intent input (pb_owner_user_id parent) (pb_platform parent)
         (deliveryModeForOperation (ii_kind input)) now)
       (now + credentialOperationInitialDeliveryLease)))"

definition Admit_intent :: "CredentialOperationIntentInput \<Rightarrow> instant \<Rightarrow> ('l, operation_intent) aeff" where
  "Admit_intent input now =
     (if \<not> admissible input then raise ErrInvalidBindingMutation else db_transaction (admit_body input now))"

definition Get_intent :: "string \<Rightarrow> ('l, operation_intent) aeff" where
  "Get_intent operationID = take_row ErrBindingNotFound (find_intent operationID)"

definition FindPendingBindForOwner :: "nat \<Rightarrow> string \<Rightarrow> ('l, operation_intent option) aeff" where
  "FindPendingBindForOwner ownerUserID platform = aquery (\<lambda>d.
     case sort_key (\<lambda>r. - oi_created_at r) (filter (\<lambda>r. live_binding (oi_binding_id r) d \<noteq> None \<and>
            oi_owner_user_id r = ownerUserID \<and> oi_platform r = platform \<and>
            oi_kind r = ''OPERATION_KIND_BIND_CREDENTIAL'' \<and> oi_state r \<in> set reservingOperationIntentStates)
          (ac_intents d)) of
       [] \<Rightarrow> None | r # _ \<Rightarrow> Some r)"

definition bind_intent ::
    "CredentialOperationReference \<Rightarrow> account_binding \<Rightarrow> string \<Rightarrow> string \<Rightarrow> instant \<Rightarrow> operation_intent" where
  "bind_intent reference binding actorType actorID now =
     \<lparr>oi_operation_id = or_operation_id reference, oi_binding_id = pb_id binding, oi_binding_ref = or_binding_ref reference,
      oi_owner_user_id = pb_owner_user_id binding, oi_platform = pb_platform binding, oi_kind = or_kind reference,
      oi_pre_generation = or_pre_generation reference, oi_target_generation = or_target_generation reference,
      oi_request_fingerprint = or_request_fingerprint reference, oi_profile_ref = '''', oi_profile_revision = 0,
      oi_delivery_mode = deliveryModeForOperation (or_kind reference), oi_state = PendingDelivery, oi_reason_code = '''',
      oi_actor_type = actorType, oi_actor_id = actorID, oi_input_expires_at = None, oi_resolved_at = None,
      oi_created_at = now\<rparr>"

definition create_and_admit_body ::
    "(string \<Rightarrow> string) \<Rightarrow> CreateBindingInput \<Rightarrow> string \<Rightarrow> string \<Rightarrow> string \<Rightarrow> string \<Rightarrow> instant \<Rightarrow>
     ('l, account_binding \<times> operation_intent) aeff" where
  "create_and_admit_body sha256 bindingInput actorType actorID operationID drawn_ref now =
     andThen (insert_binding (new_binding bindingInput drawn_ref now)) (\<lambda>binding.
     let reference = newCredentialOperationReference sha256 binding operationID False in
     andThen (store_intent (bind_intent reference binding actorType actorID now)
        (now + credentialOperationInitialDeliveryLease)) (\<lambda>intent.
     return (binding, intent)))"

definition CreateBindingAndAdmit ::
    "(string \<Rightarrow> string) \<Rightarrow> CreateBindingInput \<Rightarrow> string \<Rightarrow> string \<Rightarrow> string \<Rightarrow> string \<Rightarrow> instant \<Rightarrow>
     ('l, account_binding \<times> operation_intent) aeff" where
  "CreateBindingAndAdmit sha256 bindingInput actorType actorID operationID drawn_ref now =
     (if cb_owner_user_id bindingInput = 0 \<or> cb_platform bindingInput = '''' \<or> cb_platform_service_key bindingInput = '''' \<or>
         actorType = '''' \<or> actorID = '''' \<or> operationID = ''''
      then raise ErrInvalidBindingMutation
      else andThen (attempt (db_transaction
             (create_and_admit_body sha256 bindingInput actorType actorID operationID drawn_ref now))) (\<lambda>r. case r of
             Inr admitted \<Rightarrow> return admitted
           | Inl e \<Rightarrow>
               if IsUniqueViolation e
               then andThen (FindPendingBindForOwner (cb_owner_user_id bindingInput) (cb_platform bindingInput))
                      (\<lambda>pending. case pending of
                        Some p \<Rightarrow> raise (CredentialOperationPending (oi_operation_id p) (oi_binding_id p) (oi_state p))
                      | None \<Rightarrow> raise e)
               else raise e))"

section \<open>Retrying\<close>

definition same_operation :: "operation_intent \<Rightarrow> CredentialOperationIntentInput \<Rightarrow> bool" where
  "same_operation previous input \<longleftrightarrow>
     oi_binding_id previous = ii_binding_id input \<and> oi_binding_ref previous = ii_binding_ref input \<and>
     oi_kind previous = ii_kind input \<and> oi_pre_generation previous = ii_pre_generation input \<and>
     oi_target_generation previous = ii_target_generation input \<and>
     oi_request_fingerprint previous = ii_request_fingerprint input \<and>
     oi_profile_ref previous = ii_profile_ref input \<and> oi_profile_revision previous = ii_profile_revision input"

definition retry_body :: "string \<Rightarrow> CredentialOperationIntentInput \<Rightarrow> instant \<Rightarrow> ('l, operation_intent) aeff" where
  "retry_body previousOperationID input now =
     andThen (take_row GormRecordNotFound (find_intent previousOperationID)) (\<lambda>previous.
     if \<not> reserving previous \<or> \<not> same_operation previous input then raise ErrInvalidBindingMutation
     else andThen (account_change (set_intents (\<lambda>r. oi_operation_id r = previousOperationID)
            (\<lambda>r. r\<lparr>oi_state := Superseded, oi_reason_code := ''not_received_retry'', oi_resolved_at := Some now\<rparr>))) (\<lambda>_.
          andThen (complete_outbox previousOperationID ''not_received_retry'') (\<lambda>_.
          store_intent (new_intent input (oi_owner_user_id previous) (oi_platform previous) Outbox now) now)))"

definition RetryNonSensitive :: "string \<Rightarrow> CredentialOperationIntentInput \<Rightarrow> instant \<Rightarrow> ('l, operation_intent) aeff" where
  "RetryNonSensitive previousOperationID input now =
     (if ii_kind input \<notin> {''OPERATION_KIND_REFRESH_CREDENTIAL'', ''OPERATION_KIND_DELETE_CREDENTIAL'',
                            ''OPERATION_KIND_SET_PRIMARY_PROFILE''}
      then raise ErrInvalidBindingMutation else db_transaction (retry_body previousOperationID input now))"

section \<open>Transitions\<close>

text \<open>The \<open>UPDATE\<close> of the intents in one of the allowed states, with the number of rows it found.\<close>

definition move_intents :: "string \<Rightarrow> intent_state list \<Rightarrow> (operation_intent \<Rightarrow> operation_intent) \<Rightarrow> ('l, nat) aeff" where
  "move_intents operationID allowedFrom f =
     (let p = \<lambda>r. oi_operation_id r = operationID \<and> oi_state r \<in> set allowedFrom
      in account_write (\<lambda>d. (count_where p (ac_intents d), set_intents p f d)))"

definition reopen_outbox :: "string \<Rightarrow> string \<Rightarrow> instant \<Rightarrow> ('l, unit) aeff" where
  "reopen_outbox operationID reason availableAt = account_change (set_outbox (of_operation operationID)
     (\<lambda>o1. o1\<lparr>ob_status := OutboxPending, ob_available_at := availableAt, ob_last_reason_code := reason\<rparr>))"

definition transition_body ::
    "string \<Rightarrow> intent_state \<Rightarrow> string \<Rightarrow> bool \<Rightarrow> intent_state list \<Rightarrow> instant \<Rightarrow> ('l, unit) aeff" where
  "transition_body operationID state reasonCode completeOutbox allowedFrom now =
     andThen (move_intents operationID allowedFrom (\<lambda>r. r\<lparr>oi_state := state, oi_reason_code := reasonCode,
         oi_resolved_at := (if completeOutbox then Some now else oi_resolved_at r)\<rparr>)) (\<lambda>affected.
     if affected = 0 then
       andThen (take_row GormRecordNotFound (find_intent operationID)) (\<lambda>current.
       if oi_state current = state \<or> \<not> reserving current then return () else raise ErrBindingGenerationConflict)
     else if \<not> completeOutbox
     then reopen_outbox operationID reasonCode (now + credentialOperationRetryDelay)
     else complete_outbox operationID reasonCode)"

definition transition ::
    "string \<Rightarrow> intent_state \<Rightarrow> string \<Rightarrow> bool \<Rightarrow> intent_state list \<Rightarrow> instant \<Rightarrow> ('l, unit) aeff" where
  "transition operationID state reasonCode completeOutbox allowedFrom now =
     db_transaction (transition_body operationID state reasonCode completeOutbox allowedFrom now)"

definition transition_expiry_body ::
    "string \<Rightarrow> intent_state \<Rightarrow> string \<Rightarrow> instant \<Rightarrow> intent_state list \<Rightarrow> ('l, unit) aeff" where
  "transition_expiry_body operationID state reasonCode expiresAt allowedFrom =
     andThen (move_intents operationID allowedFrom (\<lambda>r. r\<lparr>oi_state := state, oi_reason_code := reasonCode,
         oi_input_expires_at := Some expiresAt\<rparr>)) (\<lambda>affected.
     if affected = 0 then raise ErrBindingGenerationConflict
     else account_change (set_outbox (of_operation operationID) (\<lambda>o1. o1\<lparr>ob_status := OutboxPending,
            ob_available_at := expiresAt, ob_attempt_count := 0, ob_last_reason_code := reasonCode\<rparr>)))"

definition transitionWithExpiry ::
    "string \<Rightarrow> intent_state \<Rightarrow> string \<Rightarrow> instant \<Rightarrow> intent_state list \<Rightarrow> ('l, unit) aeff" where
  "transitionWithExpiry operationID state reasonCode expiresAt allowedFrom =
     db_transaction (transition_expiry_body operationID state reasonCode expiresAt allowedFrom)"

definition MarkUncertain :: "string \<Rightarrow> string \<Rightarrow> instant \<Rightarrow> ('l, unit) aeff" where
  "MarkUncertain operationID reasonCode now =
     transition operationID Uncertain reasonCode False [PendingDelivery, Uncertain] now"

definition MarkProjectionPending :: "string \<Rightarrow> string \<Rightarrow> instant \<Rightarrow> ('l, unit) aeff" where
  "MarkProjectionPending operationID reasonCode now = transition operationID ProjectionPending reasonCode False
     [PendingDelivery, Uncertain, ProjectionPending, InvariantViolation] now"

definition MarkInputRequired :: "string \<Rightarrow> string \<Rightarrow> instant \<Rightarrow> ('l, unit) aeff" where
  "MarkInputRequired operationID reasonCode now = transitionWithExpiry operationID InputRequired reasonCode
     (now + credentialOperationInputTTL) [PendingDelivery, Uncertain, InvariantViolation]"

definition MarkInvariantViolation :: "string \<Rightarrow> string \<Rightarrow> instant \<Rightarrow> ('l, unit) aeff" where
  "MarkInvariantViolation operationID reasonCode now = transition operationID InvariantViolation reasonCode False
     [PendingDelivery, Uncertain, ProjectionPending, InvariantViolation] now"

definition MarkSucceeded :: "string \<Rightarrow> instant \<Rightarrow> ('l, unit) aeff" where
  "MarkSucceeded operationID now = transition operationID Succeeded '''' True [ProjectionPending] now"

definition MarkFailed :: "string \<Rightarrow> string \<Rightarrow> instant \<Rightarrow> ('l, unit) aeff" where
  "MarkFailed operationID reasonCode now = transition operationID Failed reasonCode True
     [PendingDelivery, Uncertain, ProjectionPending, InvariantViolation] now"

definition expire_body :: "string \<Rightarrow> instant \<Rightarrow> ('l, unit) aeff" where
  "expire_body operationID now =
     (let p = \<lambda>r. oi_operation_id r = operationID \<and> oi_state r = InputRequired \<and>
            (case oi_input_expires_at r of None \<Rightarrow> False | Some t \<Rightarrow> t \<le> now) in
      andThen (account_write (\<lambda>d. (count_where p (ac_intents d), set_intents p
         (\<lambda>r. r\<lparr>oi_state := Superseded, oi_reason_code := ''credential_input_expired'', oi_resolved_at := Some now\<rparr>) d)))
      (\<lambda>affected. if affected = 0 then return () else complete_outbox operationID ''credential_input_expired''))"

definition ExpireInputRequired :: "string \<Rightarrow> instant \<Rightarrow> ('l, unit) aeff" where
  "ExpireInputRequired operationID now = db_transaction (expire_body operationID now)"

section \<open>The outbox\<close>

definition Reschedule :: "string \<Rightarrow> string \<Rightarrow> instant \<Rightarrow> ('l, unit) aeff" where
  "Reschedule operationID reasonCode availableAt = account_change
     (set_outbox (\<lambda>o1. of_operation operationID o1 \<and> ob_status o1 = OutboxPending)
       (\<lambda>o1. o1\<lparr>ob_attempt_count := ob_attempt_count o1 + 1, ob_last_reason_code := reasonCode,
                ob_available_at := availableAt\<rparr>))"

definition is_exhausted :: "instant \<Rightarrow> operation_outbox \<Rightarrow> bool" where
  "is_exhausted now o1 \<longleftrightarrow> ob_status o1 = OutboxPending \<and> ob_available_at o1 \<le> now \<and>
     ob_attempt_count o1 \<ge> credentialOperationDeadLetterAttempts"

definition is_due :: "instant \<Rightarrow> operation_outbox \<Rightarrow> bool" where
  "is_due now o1 \<longleftrightarrow> ob_status o1 = OutboxPending \<and> ob_available_at o1 \<le> now \<and>
     ob_attempt_count o1 < credentialOperationDeadLetterAttempts"

definition bury_exhausted :: "instant \<Rightarrow> ('l, unit) aeff" where
  "bury_exhausted now =
     andThen (account_write (\<lambda>d. (count_where (is_exhausted now) (ac_outbox d), set_outbox (is_exhausted now)
        (\<lambda>o1. o1\<lparr>ob_status := OutboxDeadLetter, ob_last_reason_code := ''retry_exhausted''\<rparr>) d))) (\<lambda>affected.
     if affected > 0 then RecordTx \<lparr>ae_category = ''platform_binding'', ae_actor_type = ''system'', ae_actor_user_id = None,
        ae_action = ''platform_operation_dead_lettered'', ae_target_type = ''outbox'', ae_target_id = '''',
        ae_binding_id = None, ae_result = ''failure'', ae_reason_code = ''retry_exhausted''\<rparr>
     else return ())"

definition due_rows :: "instant \<Rightarrow> nat \<Rightarrow> account_db \<Rightarrow> operation_outbox list" where
  "due_rows now limit d = take limit
     (sort_key ob_available_at (sort_key ob_id (filter (is_due now) (ac_outbox d))))"

definition claim_body :: "instant \<Rightarrow> nat \<Rightarrow> ('l, string list) aeff" where
  "claim_body now limit =
     andThen (bury_exhausted now) (\<lambda>_.
     andThen (aquery (due_rows now limit)) (\<lambda>rows.
     if rows = [] then return []
     else andThen (account_change (set_outbox (\<lambda>o1. ob_id o1 \<in> ob_id ` set rows)
            (\<lambda>o1. o1\<lparr>ob_available_at := now + credentialOperationDispatchLease,
                     ob_attempt_count := ob_attempt_count o1 + 1\<rparr>)))
          (\<lambda>_. return (map ob_operation_id rows))))"

definition ClaimDueOperationIDs :: "instant \<Rightarrow> int \<Rightarrow> ('l, string list) aeff" where
  "ClaimDueOperationIDs now limit = db_transaction (claim_body now (if limit \<le> 0 then 100 else nat limit))"

section \<open>Recovery\<close>

text \<open>The administrator's view of an operation: a missing outbox row is shown as the zero row.\<close>

record OperationRecoveryRecord =
  rr_operation_id :: string
  rr_kind :: string
  rr_state :: intent_state
  rr_reason_code :: string
  rr_delivery_mode :: delivery_mode
  rr_pre_generation :: u64
  rr_target_generation :: u64
  rr_profile_revision :: u64
  rr_outbox_status :: "outbox_status option"
  rr_attempt_count :: nat
  rr_last_reason_code :: string
  rr_available_at :: instant
  rr_created_at :: instant

definition buildOperationRecoveryRecord :: "operation_intent \<Rightarrow> operation_outbox option \<Rightarrow> OperationRecoveryRecord" where
  "buildOperationRecoveryRecord intent outbox =
     \<lparr>rr_operation_id = oi_operation_id intent, rr_kind = oi_kind intent, rr_state = oi_state intent,
      rr_reason_code = oi_reason_code intent, rr_delivery_mode = oi_delivery_mode intent,
      rr_pre_generation = oi_pre_generation intent, rr_target_generation = oi_target_generation intent,
      rr_profile_revision = oi_profile_revision intent, rr_outbox_status = map_option ob_status outbox,
      rr_attempt_count = (case outbox of Some o1 \<Rightarrow> ob_attempt_count o1 | None \<Rightarrow> 0),
      rr_last_reason_code = (case outbox of Some o1 \<Rightarrow> ob_last_reason_code o1 | None \<Rightarrow> ''''),
      rr_available_at = (case outbox of Some o1 \<Rightarrow> ob_available_at o1 | None \<Rightarrow> 0),
      rr_created_at = oi_created_at intent\<rparr>"

definition requeue_body :: "nat \<Rightarrow> string \<Rightarrow> nat \<Rightarrow> instant \<Rightarrow> ('l, OperationRecoveryRecord) aeff" where
  "requeue_body bindingID operationID adminUserID now =
     andThen (take_row ErrCredentialOperationNotFound
       (\<lambda>d. find (\<lambda>r. oi_binding_id r = bindingID \<and> oi_operation_id r = operationID) (ac_intents d))) (\<lambda>intent.
     andThen (take_row ErrCredentialOperationNotFound (find_outbox operationID)) (\<lambda>outbox.
     if \<not> reserving intent \<or> ob_status outbox \<noteq> OutboxDeadLetter then raise ErrCredentialOperationNotRecoverable
     else let p = \<lambda>o1. ob_id o1 = ob_id outbox \<and> ob_status o1 = OutboxDeadLetter;
              f = \<lambda>o1 :: operation_outbox. o1\<lparr>ob_status := OutboxPending, ob_attempt_count := 0,
                    ob_last_reason_code := ''manual_requeue'', ob_available_at := now\<rparr> in
          andThen (account_write (\<lambda>d. (count_where p (ac_outbox d), set_outbox p f d))) (\<lambda>affected.
          if affected \<noteq> 1 then raise ErrCredentialOperationNotRecoverable
          else andThen (RecordTx \<lparr>ae_category = ''platform_binding'', ae_actor_type = ''admin'',
                 ae_actor_user_id = Some adminUserID, ae_action = ''platform_operation_requeued'',
                 ae_target_type = ''platform_operation'', ae_target_id = operationID,
                 ae_binding_id = Some (oi_binding_id intent), ae_result = ''pending'', ae_reason_code = ''manual_requeue''\<rparr>)
               (\<lambda>_. return (buildOperationRecoveryRecord intent (Some (f outbox)))))))"

definition RequeueDeadLetter :: "nat \<Rightarrow> string \<Rightarrow> nat \<Rightarrow> instant \<Rightarrow> ('l, OperationRecoveryRecord) aeff" where
  "RequeueDeadLetter bindingID operationID adminUserID now =
     (if bindingID = 0 \<or> operationID = '''' \<or> adminUserID = 0 then raise ErrInvalidBindingMutation
      else db_transaction (requeue_body bindingID operationID adminUserID now))"

definition ListForBinding :: "nat \<Rightarrow> ListParams \<Rightarrow> ('l, OperationRecoveryRecord list \<times> nat) aeff" where
  "ListForBinding bindingID params =
     (if bindingID = 0 then raise ErrInvalidBindingMutation
      else let normal = normalizeListParams params; mine = \<lambda>r. oi_binding_id r = bindingID in
        andThen (aquery (\<lambda>d. count_where mine (ac_intents d))) (\<lambda>total.
        andThen (aquery (\<lambda>d. page normal (rev (sort_key oi_created_at (sort_key oi_operation_id
            (filter mine (ac_intents d))))))) (\<lambda>intents.
        if intents = [] then return ([], total)
        else andThen (aquery (\<lambda>d. filter (\<lambda>o1. ob_operation_id o1 \<in> oi_operation_id ` set intents) (ac_outbox d)))
          (\<lambda>outboxes. return (map (\<lambda>r. buildOperationRecoveryRecord r
             (find (of_operation (oi_operation_id r)) outboxes)) intents, total)))))"

section \<open>The protocol of the intents\<close>

text \<open>The life cycle the operations implement, one rule per way a state can change.\<close>

inductive intent_move :: "intent_state \<Rightarrow> intent_state \<Rightarrow> bool" where
  uncertain: "s \<in> {PendingDelivery, Uncertain} \<Longrightarrow> intent_move s Uncertain"
| delivered: "s \<in> {PendingDelivery, Uncertain, ProjectionPending, InvariantViolation} \<Longrightarrow> intent_move s ProjectionPending"
| violated: "s \<in> {PendingDelivery, Uncertain, ProjectionPending, InvariantViolation} \<Longrightarrow> intent_move s InvariantViolation"
| input_needed: "s \<in> {PendingDelivery, Uncertain, InvariantViolation} \<Longrightarrow> intent_move s InputRequired"
| succeeded: "intent_move ProjectionPending Succeeded"
| failed: "s \<in> {PendingDelivery, Uncertain, ProjectionPending, InvariantViolation} \<Longrightarrow> intent_move s Failed"
| superseded: "ReservesBinding s \<Longrightarrow> intent_move s Superseded"

inductive_simps intent_move_simps: "intent_move s t"

definition same_request :: "operation_intent \<Rightarrow> operation_intent \<Rightarrow> bool" where
  "same_request r r' \<longleftrightarrow> oi_operation_id r' = oi_operation_id r \<and> oi_binding_id r' = oi_binding_id r \<and>
     oi_binding_ref r' = oi_binding_ref r \<and> oi_owner_user_id r' = oi_owner_user_id r \<and>
     oi_platform r' = oi_platform r \<and> oi_kind r' = oi_kind r \<and> oi_pre_generation r' = oi_pre_generation r \<and>
     oi_target_generation r' = oi_target_generation r \<and>
     oi_request_fingerprint r' = oi_request_fingerprint r \<and> oi_profile_ref r' = oi_profile_ref r \<and>
     oi_profile_revision r' = oi_profile_revision r \<and> oi_actor_type r' = oi_actor_type r \<and>
     oi_actor_id r' = oi_actor_id r \<and> oi_created_at r' = oi_created_at r"

definition intent_follows :: "operation_intent \<Rightarrow> operation_intent \<Rightarrow> bool" where
  "intent_follows r r' \<longleftrightarrow> same_request r r' \<and> intent_move\<^sup>*\<^sup>* (oi_state r) (oi_state r') \<and> (\<not> reserving r \<longrightarrow> r' = r)"

text \<open>Every intent has its outbox row, which is completed exactly when the intent is closed.\<close>

definition wakeups :: "account_db \<Rightarrow> bool" where
  "wakeups d \<longleftrightarrow> (\<forall>r\<in>set (ac_intents d). \<exists>o1. find_outbox (oi_operation_id r) d = Some o1 \<and>
     (ob_status o1 = OutboxCompleted \<longleftrightarrow> \<not> reserving r))"

definition intents_ok :: "account_db \<Rightarrow> bool" where
  "intents_ok d \<longleftrightarrow> account_ok d \<and> wakeups d"

definition intent_protocol :: "account_db \<Rightarrow> account_db \<Rightarrow> bool" where
  "intent_protocol d d' \<longleftrightarrow> (intents_ok d \<longrightarrow> intents_ok d' \<and>
     (\<forall>i r. find_intent i d = Some r \<longrightarrow> (\<exists>r'. find_intent i d' = Some r' \<and> intent_follows r r')))"

lemma intent_follows_refl [simp]: "intent_follows r r"
  by (simp add: intent_follows_def same_request_def)

lemma intent_follows_trans: "intent_follows r r' \<Longrightarrow> intent_follows r' r'' \<Longrightarrow> intent_follows r r''"
  unfolding intent_follows_def same_request_def by (metis rtranclp_trans)

interpretation intents: protocol intent_protocol
proof
  show "intent_protocol d d" for d
    by (auto simp: intent_protocol_def)
  show "intent_protocol d1 d3" if "intent_protocol d1 d2" "intent_protocol d2 d3" for d1 d2 d3
    using that unfolding intent_protocol_def by (meson intent_follows_trans)
qed

lemma find_intent_id: "find_intent i d = Some r \<Longrightarrow> oi_operation_id r = i \<and> r \<in> set (ac_intents d)"
  unfolding find_intent_def by (drule find_SomeD) simp

lemma find_outbox_id: "find_outbox i d = Some o1 \<Longrightarrow> ob_operation_id o1 = i \<and> o1 \<in> set (ac_outbox d)"
  unfolding find_outbox_def by (drule find_SomeD) simp

lemma find_intent_member: "account_ok d \<Longrightarrow> r \<in> set (ac_intents d) \<Longrightarrow> find_intent (oi_operation_id r) d = Some r"
  unfolding find_intent_def by (rule find_unique [OF account_okD(2)]) auto

lemma find_outbox_member: "account_ok d \<Longrightarrow> o1 \<in> set (ac_outbox d) \<Longrightarrow> find_outbox (ob_operation_id o1) d = Some o1"
  unfolding find_outbox_def by (rule find_unique [OF account_okD(4)]) auto

lemma find_intent_set:
  "(\<And>r. p r \<Longrightarrow> oi_operation_id (f r) = oi_operation_id r) \<Longrightarrow>
   find_intent i (set_intents p f d) = map_option (\<lambda>r. if p r then f r else r) (find_intent i d)"
  unfolding find_intent_def set_intents_def by (simp add: find_update_where)

lemma find_outbox_set:
  "(\<And>o1. p o1 \<Longrightarrow> ob_operation_id (f o1) = ob_operation_id o1) \<Longrightarrow>
   find_outbox i (set_outbox p f d) = map_option (\<lambda>o1. if p o1 then f o1 else o1) (find_outbox i d)"
  unfolding find_outbox_def set_outbox_def by (simp add: find_update_where)

lemma set_tables [simp]:
  "find_intent i (set_outbox q g d) = find_intent i d" "find_outbox i (set_intents p f d) = find_outbox i d"
  "ac_intents (set_outbox q g d) = ac_intents d" "ac_outbox (set_intents p f d) = ac_outbox d"
  "ac_bindings (set_outbox q g d) = ac_bindings d" "ac_bindings (set_intents p f d) = ac_bindings d"
  by (simp_all add: find_intent_def find_outbox_def set_outbox_def set_intents_def)

text \<open>An intent moves and its outbox row with it.\<close>

lemma moved_protocol:
  assumes p: "\<And>r. p r \<Longrightarrow> oi_operation_id r = i \<and> intent_follows r (f r) \<and> reserving (f r) = keep"
    and g: "\<And>o1. ob_operation_id (g o1) = ob_operation_id o1 \<and> (ob_status (g o1) = OutboxCompleted \<longleftrightarrow> \<not> keep)"
    and hit: "r0 \<in> set (ac_intents d)" "p r0"
    and ok': "account_ok (set_outbox (of_operation i) g (set_intents p f d))"
  shows "intent_protocol d (set_outbox (of_operation i) g (set_intents p f d))"
  unfolding intent_protocol_def
proof (intro impI conjI allI)
  let ?d = "set_outbox (of_operation i) g (set_intents p f d)"
  assume ok: "intents_ok d"
  then have ok_d: "account_ok d" and wake: "wakeups d" by (simp_all add: intents_ok_def)
  have fid: "oi_operation_id (f r) = oi_operation_id r" if "p r" for r
    using p [OF that] by (simp add: intent_follows_def same_request_def)
  have fi: "find_intent j ?d = map_option (\<lambda>r. if p r then f r else r) (find_intent j d)" for j
    using fid by (simp add: find_intent_set)
  have fo: "find_outbox j ?d = map_option (\<lambda>o1. if of_operation i o1 then g o1 else o1) (find_outbox j d)" for j
    using g by (simp add: find_outbox_set)
  show "\<exists>r'. find_intent j ?d = Some r' \<and> intent_follows r r'" if "find_intent j d = Some r" for j r
    unfolding fi using that p by auto
  have "wakeups ?d"
    unfolding wakeups_def
  proof
    fix r' assume "r' \<in> set (ac_intents ?d)"
    then obtain r where r: "r \<in> set (ac_intents d)" "r' = (if p r then f r else r)"
      by (auto simp: set_intents_def elim: in_update_whereE)
    have same: "oi_operation_id r' = oi_operation_id r" using r fid by simp
    from wake r obtain o1 where o1: "find_outbox (oi_operation_id r) d = Some o1"
      "ob_status o1 = OutboxCompleted \<longleftrightarrow> \<not> reserving r" by (auto simp: wakeups_def)
    have "p r" if "oi_operation_id r = i"
      using unique_onD [OF account_okD(2) [OF ok_d] r(1) hit(1)] that p [OF hit(2)] hit(2) by simp
    then show "\<exists>o1. find_outbox (oi_operation_id r') ?d = Some o1 \<and> (ob_status o1 = OutboxCompleted \<longleftrightarrow> \<not> reserving r')"
      using o1 find_outbox_id [OF o1(1)] r p [of r] g unfolding same fo
      by (auto simp: of_operation_def)
  qed
  with ok' show "intents_ok ?d" by (simp add: intents_ok_def)
qed

text \<open>Only wake-ups change, and open ones stay open.\<close>

lemma rescheduled_protocol:
  assumes g: "\<And>o1. p o1 \<Longrightarrow> ob_operation_id (g o1) = ob_operation_id o1 \<and>
      (ob_status (g o1) = OutboxCompleted \<longleftrightarrow> ob_status o1 = OutboxCompleted)"
    and ok': "account_ok (set_outbox p g d)"
  shows "intent_protocol d (set_outbox p g d)"
proof -
  have fo: "find_outbox j (set_outbox p g d) = map_option (\<lambda>o1. if p o1 then g o1 else o1) (find_outbox j d)" for j
    using g by (simp add: find_outbox_set)
  have "wakeups (set_outbox p g d)" if "wakeups d"
    unfolding wakeups_def
  proof
    fix r assume "r \<in> set (ac_intents (set_outbox p g d))"
    with that obtain o1 where "find_outbox (oi_operation_id r) d = Some o1" "ob_status o1 = OutboxCompleted \<longleftrightarrow> \<not> reserving r"
      by (auto simp: wakeups_def)
    then show "\<exists>o1. find_outbox (oi_operation_id r) (set_outbox p g d) = Some o1 \<and> (ob_status o1 = OutboxCompleted \<longleftrightarrow> \<not> reserving r)"
      using g by (auto simp: fo)
  qed
  with ok' show ?thesis
    by (simp add: intent_protocol_def intents_ok_def)
qed

text \<open>An intent is added with its wake-up.\<close>

lemma added_protocol:
  assumes row: "reserving row"
    and d': "ac_intents d' = ac_intents d @ [row]" "ac_outbox d' = ac_outbox d @ [o1]"
      "ob_operation_id o1 = oi_operation_id row" "ob_status o1 \<noteq> OutboxCompleted"
    and ok': "account_ok d'"
  shows "intent_protocol d d'"
  unfolding intent_protocol_def
proof (intro impI conjI allI)
  assume ok: "intents_ok d"
  have kept: "find_outbox j d' = Some x" if "find_outbox j d = Some x" for j x
    using that d' by (simp add: find_outbox_def find_snoc)
  have new: "find_outbox (oi_operation_id row) d' = Some o1"
    using find_outbox_member [OF ok', of o1] d' by simp
  have "wakeups d'"
    using ok kept new row d' unfolding intents_ok_def wakeups_def by auto
  with ok' show "intents_ok d'" by (simp add: intents_ok_def)
  show "\<exists>r'. find_intent i d' = Some r' \<and> intent_follows r r'" if "find_intent i d = Some r" for i r
    using that d' by (simp add: find_intent_def find_snoc)
qed

text \<open>Other tables change.\<close>

lemma unrelated_protocol:
  assumes "ac_intents d' = ac_intents d" "ac_outbox d' = ac_outbox d" "account_ok d \<Longrightarrow> account_ok d'"
  shows "intent_protocol d d'"
  using assms by (simp add: intent_protocol_def intents_ok_def wakeups_def find_intent_def find_outbox_def)

section \<open>Every operation follows the protocol\<close>

definition in_states :: "string \<Rightarrow> intent_state list \<Rightarrow> operation_intent \<Rightarrow> bool" where
  "in_states i states r \<longleftrightarrow> oi_operation_id r = i \<and> oi_state r \<in> set states"

lemma set_intents_none: "count_where p (ac_intents d) = 0 \<Longrightarrow> set_intents p f d = d"
  by (simp add: set_intents_def count_where_0 list_ex_iff update_where_none)

lemma count_where_hit: "count_where p rows \<noteq> 0 \<longleftrightarrow> (\<exists>r\<in>set rows. p r)"
  by (simp add: count_where_0 list_ex_iff)

lemma move_intents_InrE:
  assumes "move_intents i states f w = (Inr n, w')"
  obtains fs where "n = count_where (in_states i states) (ac_intents (db w))" "account_ok (db w')"
    "w' = w\<lparr>faults := fs, db := set_intents (in_states i states) f (db w)\<rparr>"
  using assms unfolding move_intents_def Let_def in_states_def [abs_def]
  by (auto elim!: account_write_InrE)

lemma complete_outbox_InrE:
  assumes "complete_outbox i reason w = (Inr u, w')"
  obtains fs where "account_ok (db w')" "w' = w\<lparr>faults := fs, db := set_outbox (of_operation i)
     (\<lambda>o1. o1\<lparr>ob_status := OutboxCompleted, ob_last_reason_code := reason\<rparr>) (db w)\<rparr>"
  using assms unfolding complete_outbox_def by (auto elim!: account_change_InrE)

lemma reopen_outbox_InrE:
  assumes "reopen_outbox i reason t w = (Inr u, w')"
  obtains fs where "account_ok (db w')" "w' = w\<lparr>faults := fs, db := set_outbox (of_operation i)
     (\<lambda>o1. o1\<lparr>ob_status := OutboxPending, ob_available_at := t, ob_last_reason_code := reason\<rparr>) (db w)\<rparr>"
  using assms unfolding reopen_outbox_def by (auto elim!: account_change_InrE)

lemma store_intent_InrE:
  assumes "store_intent row t w = (Inr x, w')"
  obtains o1 where "x = row" "account_ok (db w')" "ac_intents (db w') = ac_intents (db w) @ [row]"
    "ac_outbox (db w') = ac_outbox (db w) @ [o1]" "ob_operation_id o1 = oi_operation_id row" "ob_status o1 = OutboxPending"
    "ac_bindings (db w') = ac_bindings (db w)"
  using assms unfolding store_intent_def insert_intent_def insert_outbox_def writeOperationAdmissionAudit_def
  by (auto elim!: andThen_InrE return_InrE account_change_InrE RecordTx_InrE)

lemma intent_pins [keeps_rules, simp]:
  "pins_committed (complete_outbox i reason)" "pins_committed (reopen_outbox i reason t)"
  "pins_committed (move_intents i states f)" "pins_committed (store_intent row t)"
  "pins_committed (displace_active b now)" "pins_committed (admit_body input now)"
  "pins_committed (create_and_admit_body sha256 binding_input actor actor_id i ref now)"
  "pins_committed (retry_body i input now)" "pins_committed (transition_body i st reason c states now)"
  "pins_committed (transition_expiry_body i st reason t states)" "pins_committed (expire_body i now)"
  "pins_committed (bury_exhausted now)" "pins_committed (claim_body now n)" "pins_committed (requeue_body b i u now)"
  unfolding complete_outbox_def reopen_outbox_def move_intents_def store_intent_def insert_intent_def insert_outbox_def
    writeOperationAdmissionAudit_def displace_active_def admit_body_def create_and_admit_body_def retry_body_def
    transition_body_def transition_expiry_body_def expire_body_def bury_exhausted_def claim_body_def requeue_body_def Let_def
  by (auto intro!: keeps_rules)

text \<open>The moves an operation makes stay within the life cycle.\<close>

definition moves_to :: "intent_state list \<Rightarrow> intent_state \<Rightarrow> bool" where
  "moves_to states st \<longleftrightarrow> list_all (\<lambda>s. ReservesBinding s \<and> intent_move s st) states"

lemma moves_follow:
  assumes "moves_to states st" and "in_states i states r" and "oi_state r' = st" and "same_request r r'"
  shows "intent_follows r r'"
  using assms by (auto simp: moves_to_def in_states_def list_all_iff intent_follows_def reserving_def)

lemma moved_states:
  assumes m: "moves_to states st" and keep: "ReservesBinding st = keep"
    and f: "\<And>r. oi_state (f r) = st \<and> same_request r (f r)"
    and g: "\<And>o1. ob_operation_id (g o1) = ob_operation_id o1 \<and> (ob_status (g o1) = OutboxCompleted \<longleftrightarrow> \<not> keep)"
    and hit: "count_where (in_states i states) (ac_intents d) \<noteq> 0"
    and ok': "account_ok (set_outbox (of_operation i) g (set_intents (in_states i states) f d))"
  shows "intent_protocol d (set_outbox (of_operation i) g (set_intents (in_states i states) f d))"
proof -
  from hit [unfolded count_where_hit] obtain r0 where r0: "r0 \<in> set (ac_intents d)" "in_states i states r0"
    by blast
  have "oi_operation_id r = i \<and> intent_follows r (f r) \<and> reserving (f r) = keep" if "in_states i states r" for r
    using moves_follow [OF m that] f [of r] that keep by (simp add: in_states_def reserving_def)
  from moved_protocol [OF this g r0 ok'] show ?thesis .
qed

lemma transition_body_protocol:
  assumes run: "transition_body i st reason c states now w = (Inr u, w')"
    and m: "moves_to states st" and c: "ReservesBinding st = (\<not> c)"
  shows "intent_protocol (db w) (db w')"
proof -
  let ?f = "\<lambda>r. r\<lparr>oi_state := st, oi_reason_code := reason, oi_resolved_at := (if c then Some now else oi_resolved_at r)\<rparr>"
  let ?n = "count_where (in_states i states) (ac_intents (db w))"
  from run [unfolded transition_body_def] obtain n w1 where move: "move_intents i states ?f w = (Inr n, w1)"
    and tail: "(if n = 0 then andThen (take_row GormRecordNotFound (find_intent i)) (\<lambda>current.
         if oi_state current = st \<or> \<not> reserving current then return () else raise ErrBindingGenerationConflict)
       else if \<not> c then reopen_outbox i reason (now + credentialOperationRetryDelay)
       else complete_outbox i reason) w1 = (Inr u, w')"
    by (rule andThen_InrE)
  from move have n: "n = ?n" by (rule move_intents_InrE)
  from move have d1: "db w1 = set_intents (in_states i states) ?f (db w)" by (rule move_intents_InrE) simp
  from tail have rest: "(if ?n = 0 then andThen (take_row GormRecordNotFound (find_intent i)) (\<lambda>current.
         if oi_state current = st \<or> \<not> reserving current then return () else raise ErrBindingGenerationConflict)
       else if \<not> c then reopen_outbox i reason (now + credentialOperationRetryDelay)
       else complete_outbox i reason) w1 = (Inr u, w')"
    unfolding n .
  have f: "oi_state (?f r) = st \<and> same_request r (?f r)" for r by (simp add: same_request_def)
  show ?thesis
  proof (cases "?n = 0")
    case True
    with rest have "db w' = db w"
      by (auto simp: d1 set_intents_none elim!: account_success split: if_splits)
    then show ?thesis by (simp add: intents.R_refl)
  next
    case hit: False
    show ?thesis
    proof (cases c)
      case True
      with rest hit show ?thesis
        using moved_states [where f = ?f, OF m c f _ hit, where g = "\<lambda>o1. o1\<lparr>ob_status := OutboxCompleted, ob_last_reason_code := reason\<rparr>"]
        by (auto simp: d1 elim!: complete_outbox_InrE)
    next
      case False
      with rest hit show ?thesis
        using moved_states [where f = ?f, OF m c f _ hit, where g = "\<lambda>o1. o1\<lparr>ob_status := OutboxPending,
            ob_available_at := now + credentialOperationRetryDelay, ob_last_reason_code := reason\<rparr>"]
        by (auto simp: d1 elim!: reopen_outbox_InrE)
    qed
  qed
qed

lemma transition_expiry_protocol:
  assumes run: "transition_expiry_body i st reason t states w = (Inr u, w')"
    and m: "moves_to states st" and st: "ReservesBinding st"
  shows "intent_protocol (db w) (db w')"
proof -
  let ?f = "\<lambda>r. r\<lparr>oi_state := st, oi_reason_code := reason, oi_input_expires_at := Some t\<rparr>"
  let ?g = "\<lambda>o1. o1\<lparr>ob_status := OutboxPending, ob_available_at := t, ob_attempt_count := 0, ob_last_reason_code := reason\<rparr>"
  let ?n = "count_where (in_states i states) (ac_intents (db w))"
  from run [unfolded transition_expiry_body_def] obtain n w1 where move: "move_intents i states ?f w = (Inr n, w1)"
    and tail: "(if n = 0 then raise ErrBindingGenerationConflict
       else account_change (set_outbox (of_operation i) ?g)) w1 = (Inr u, w')"
    by (rule andThen_InrE)
  from move have n: "n = ?n" by (rule move_intents_InrE)
  from move have d1: "db w1 = set_intents (in_states i states) ?f (db w)" by (rule move_intents_InrE) simp
  from tail have hit: "?n \<noteq> 0" by (auto simp: n raise_apply split: if_splits)
  with tail have "account_change (set_outbox (of_operation i) ?g) w1 = (Inr u, w')" by (simp add: n)
  then have "account_ok (db w')" "db w' = set_outbox (of_operation i) ?g (db w1)"
    by (auto elim!: account_change_InrE)
  then show ?thesis
    using moved_states [where f = ?f and g = ?g, OF m _ _ _ hit, of True] st
    by (simp add: d1 same_request_def)
qed

lemma expire_protocol:
  assumes run: "expire_body i now w = (Inr u, w')"
  shows "intent_protocol (db w) (db w')"
proof -
  let ?p = "\<lambda>r. oi_operation_id r = i \<and> oi_state r = InputRequired \<and>
    (case oi_input_expires_at r of None \<Rightarrow> False | Some t \<Rightarrow> t \<le> now)"
  let ?f = "\<lambda>r. r\<lparr>oi_state := Superseded, oi_reason_code := ''credential_input_expired'', oi_resolved_at := Some now\<rparr>"
  let ?g = "\<lambda>o1. o1\<lparr>ob_status := OutboxCompleted, ob_last_reason_code := ''credential_input_expired''\<rparr>"
  let ?n = "count_where ?p (ac_intents (db w))"
  from run [unfolded expire_body_def Let_def] obtain n w1 where
    move: "account_write (\<lambda>d. (count_where ?p (ac_intents d), set_intents ?p ?f d)) w = (Inr n, w1)" and
    tail: "(if n = 0 then return () else complete_outbox i ''credential_input_expired'') w1 = (Inr u, w')"
    by (rule andThen_InrE)
  from move have n: "n = ?n" and d1: "db w1 = set_intents ?p ?f (db w)" by (auto elim!: account_write_InrE)
  show ?thesis
  proof (cases "?n = 0")
    case True
    with tail have "db w' = db w" by (auto simp: n d1 set_intents_none elim!: account_success)
    then show ?thesis by (simp add: intents.R_refl)
  next
    case False
    with tail have d': "db w' = set_outbox (of_operation i) ?g (db w1)" "account_ok (db w')"
      by (auto simp: n elim!: complete_outbox_InrE)
    from False [unfolded count_where_hit] obtain r0 where r0: "r0 \<in> set (ac_intents (db w))" "?p r0" by blast
    have follows: "oi_operation_id r = i \<and> intent_follows r (?f r) \<and> reserving (?f r) = False" if "?p r" for r
      using that by (auto simp: intent_follows_def same_request_def reserving_def ReservesBinding_def intent_move_simps)
    from d' have "account_ok (set_outbox (of_operation i) ?g (set_intents ?p ?f (db w)))" by (simp add: d1)
    from moved_protocol [where f = ?f and g = ?g, OF follows _ r0 this] show ?thesis
      by (simp add: d' d1)
  qed
qed

lemma active_intent_member:
  assumes "active_intent b d = Some r"
  shows "r \<in> set (ac_intents d) \<and> oi_binding_id r = b \<and> reserving r"
proof -
  let ?p = "\<lambda>r. oi_binding_id r = b \<and> oi_state r \<in> set reservingOperationIntentStates"
  from assms obtain rs where "sort_key (\<lambda>r. - oi_created_at r) (filter ?p (ac_intents d)) = r # rs"
    by (auto simp: active_intent_def split: list.splits)
  then have "r \<in> set (filter ?p (ac_intents d))"
    by (metis list.set_intros(1) set_sort)
  then show ?thesis
    by (auto simp: reserving_def reservingOperationIntentStates_def ReservesBinding_def)
qed

lemma displace_protocol:
  assumes run: "displace_active b now w = (Inr u, w')" and ok: "account_ok (db w)"
  shows "intent_protocol (db w) (db w')"
proof (cases "active_intent b (db w)")
  case None
  with run have "db w' = db w" unfolding displace_active_def by (auto elim!: account_success)
  then show ?thesis by (simp add: intents.R_refl)
next
  case (Some r0)
  let ?i = "oi_operation_id r0"
  let ?f = "\<lambda>r. r\<lparr>oi_state := Superseded, oi_resolved_at := Some now\<rparr>"
  let ?g = "\<lambda>o1. o1\<lparr>ob_status := OutboxCompleted, ob_last_reason_code := ''credential_resubmitted''\<rparr>"
  let ?p = "in_states ?i [InputRequired]"
  have p: "?p = (\<lambda>r. oi_operation_id r = ?i \<and> oi_state r = InputRequired)"
    by (simp add: in_states_def [abs_def])
  from run Some have input: "oi_state r0 = InputRequired" and d': "account_ok (db w')"
    "db w' = set_outbox (of_operation ?i) ?g (set_intents ?p ?f (db w))"
    unfolding displace_active_def p
    by (auto elim!: andThen_InrE query_InrE account_change_InrE complete_outbox_InrE simp: raise_apply split: if_splits)
  have "r0 \<in> set (ac_intents (db w))"
    using active_intent_member [OF Some] by simp
  with input have hit: "count_where ?p (ac_intents (db w)) \<noteq> 0"
    unfolding count_where_hit by (auto simp: in_states_def)
  have "moves_to [InputRequired] Superseded"
    by (simp add: moves_to_def intent_move_simps ReservesBinding_def)
  from moved_states [where f = ?f and g = ?g, OF this _ _ _ hit, of False] d' show ?thesis
    by (simp add: same_request_def ReservesBinding_def)
qed

lemma stored_protocol:
  "store_intent row t w = (Inr x, w') \<Longrightarrow> reserving row \<Longrightarrow> intent_protocol (db w) (db w')"
  by (erule store_intent_InrE) (rule added_protocol, auto)

lemma new_intent_reserving [simp]: "reserving (new_intent input owner platform mode now)"
  by (simp add: reserving_def new_intent_def ReservesBinding_def)

lemma admit_protocol:
  assumes run: "admit_body input now w = (Inr x, w')"
  shows "intent_protocol (db w) (db w')"
proof -
  from run [unfolded admit_body_def] obtain parent w1 where
    parent: "take_row ErrBindingNotFound (find_binding (ii_binding_id input)) w = (Inr parent, w1)" and
    tail: "andThen (displace_active (ii_binding_id input) now) (\<lambda>_.
      store_intent (new_intent input (pb_owner_user_id parent) (pb_platform parent)
         (deliveryModeForOperation (ii_kind input)) now) (now + credentialOperationInitialDeliveryLease)) w1 = (Inr x, w')"
    by (rule andThen_InrE)
  from parent have d1: "db w1 = db w" by (auto elim!: select_one_InrE)
  from tail obtain u w2 where displaced: "displace_active (ii_binding_id input) now w1 = (Inr u, w2)" and
    stored: "store_intent (new_intent input (pb_owner_user_id parent) (pb_platform parent)
         (deliveryModeForOperation (ii_kind input)) now) (now + credentialOperationInitialDeliveryLease) w2 = (Inr x, w')"
    by (rule andThen_InrE)
  show ?thesis
  proof (cases "account_ok (db w)")
    case True
    then show ?thesis
      using displace_protocol [OF displaced] stored_protocol [OF stored] by (auto simp: d1 intro: intents.R_trans)
  next
    case False
    then show ?thesis by (simp add: intent_protocol_def intents_ok_def)
  qed
qed

lemma create_protocol:
  assumes run: "create_and_admit_body sha256 input actor actor_id i ref now w = (Inr x, w')"
  shows "intent_protocol (db w) (db w')"
proof -
  from run [unfolded create_and_admit_body_def Let_def] obtain binding y w1 where
    ins: "insert_binding (new_binding input ref now) w = (Inr binding, w1)" and
    stored: "store_intent (bind_intent (newCredentialOperationReference sha256 binding i False) binding actor actor_id now)
      (now + credentialOperationInitialDeliveryLease) w1 = (Inr y, w')"
    by (elim andThen_InrE return_InrE) auto
  from ins have ins: "account_ok (db w1)" "ac_intents (db w1) = ac_intents (db w)" "ac_outbox (db w1) = ac_outbox (db w)"
    unfolding insert_binding_def by (auto elim!: account_write_InrE simp: Let_def)
  have "reserving (bind_intent (newCredentialOperationReference sha256 binding i False) binding actor actor_id now)"
    by (simp add: bind_intent_def reserving_def ReservesBinding_def)
  from stored_protocol [OF stored this] unrelated_protocol [OF ins(2,3)] ins(1) show ?thesis
    by (meson intents.R_trans)
qed

lemma retry_protocol:
  assumes run: "retry_body i input now w = (Inr x, w')"
  shows "intent_protocol (db w) (db w')"
proof -
  let ?p = "\<lambda>r. oi_operation_id r = i"
  let ?f = "\<lambda>r. r\<lparr>oi_state := Superseded, oi_reason_code := ''not_received_retry'', oi_resolved_at := Some now\<rparr>"
  let ?g = "\<lambda>o1. o1\<lparr>ob_status := OutboxCompleted, ob_last_reason_code := ''not_received_retry''\<rparr>"
  from run [unfolded retry_body_def] obtain previous w0 where
    found: "take_row GormRecordNotFound (find_intent i) w = (Inr previous, w0)" and
    tail: "(if \<not> reserving previous \<or> \<not> same_operation previous input then raise ErrInvalidBindingMutation
     else andThen (account_change (set_intents ?p ?f)) (\<lambda>_.
          andThen (complete_outbox i ''not_received_retry'') (\<lambda>_.
          store_intent (new_intent input (oi_owner_user_id previous) (oi_platform previous) Outbox now) now))) w0 = (Inr x, w')"
    by (rule andThen_InrE)
  from found have prev: "find_intent i (db w) = Some previous" and d0: "db w0 = db w" by (auto elim!: select_one_InrE)
  from tail have res: "reserving previous" by (auto simp: raise_apply split: if_splits)
  from tail obtain u w1 where c1: "account_change (set_intents ?p ?f) w0 = (Inr u, w1)" and
    tail1: "andThen (complete_outbox i ''not_received_retry'') (\<lambda>_.
          store_intent (new_intent input (oi_owner_user_id previous) (oi_platform previous) Outbox now) now) w1 = (Inr x, w')"
    by (auto simp: raise_apply split: if_splits elim: andThen_InrE)
  from tail1 obtain u2 w2 where c2: "complete_outbox i ''not_received_retry'' w1 = (Inr u2, w2)" and
    stored: "store_intent (new_intent input (oi_owner_user_id previous) (oi_platform previous) Outbox now) now w2 = (Inr x, w')"
    by (rule andThen_InrE)
  from c1 have "db w1 = set_intents ?p ?f (db w)" by (auto simp: d0 elim!: account_change_InrE)
  with c2 have d2: "account_ok (db w2)" "db w2 = set_outbox (of_operation i) ?g (set_intents ?p ?f (db w))"
    by (auto elim!: complete_outbox_InrE)
  show ?thesis
  proof (cases "account_ok (db w)")
    case ok: True
    have one: "r = previous" if "r \<in> set (ac_intents (db w))" "?p r" for r
      using find_intent_member [OF ok that(1)] prev that by simp
    have same: "set_intents (\<lambda>r. r = previous) ?f (db w) = set_intents ?p ?f (db w)"
      unfolding set_intents_def update_where_def
      by (rule arg_cong [where f = "\<lambda>x. (db w)\<lparr>ac_intents := x\<rparr>"]) (auto dest: one simp: find_intent_id [OF prev])
    have "intent_protocol (db w) (set_outbox (of_operation i) ?g (set_intents (\<lambda>r. r = previous) ?f (db w)))"
    proof (rule moved_protocol [where keep = False])
      show "oi_operation_id r = i \<and> intent_follows r (?f r) \<and> reserving (?f r) = False" if "r = previous" for r
        using res find_intent_id [OF prev] that
        by (auto simp: intent_follows_def same_request_def reserving_def ReservesBinding_def intent_move_simps)
      show "account_ok (set_outbox (of_operation i) ?g (set_intents (\<lambda>r. r = previous) ?f (db w)))"
        using d2 by (simp add: same)
    qed (use find_intent_id [OF prev] in simp_all)
    then show ?thesis
      using d2 stored_protocol [OF stored] by (auto simp: same intro: intents.R_trans)
  next
    case False
    then show ?thesis by (simp add: intent_protocol_def intents_ok_def)
  qed
qed

lemma bury_protocol:
  assumes "bury_exhausted now w = (Inr u, w')"
  shows "intent_protocol (db w) (db w')"
proof -
  let ?g = "\<lambda>o1. o1\<lparr>ob_status := OutboxDeadLetter, ob_last_reason_code := ''retry_exhausted''\<rparr>"
  let ?d = "set_outbox (is_exhausted now) ?g (db w)"
  from assms have "account_ok ?d" "ac_intents (db w') = ac_intents ?d" "ac_outbox (db w') = ac_outbox ?d"
    and "account_ok ?d \<Longrightarrow> account_ok (db w')"
    unfolding bury_exhausted_def by (auto elim!: andThen_InrE account_write_InrE return_InrE RecordTx_InrE split: if_splits)
  moreover have "intent_protocol (db w) ?d"
    by (rule rescheduled_protocol) (use calculation in \<open>auto simp: is_exhausted_def\<close>)
  ultimately show ?thesis
    using unrelated_protocol [of "db w'" ?d] intents.R_trans by blast
qed

lemma claim_protocol:
  assumes "claim_body now n w = (Inr ids, w')"
  shows "intent_protocol (db w) (db w')"
proof -
  from assms [unfolded claim_body_def] obtain w1 where bury: "bury_exhausted now w = (Inr (), w1)"
    and rest: "db w' = db w1 \<or> (\<exists>rows. rows = due_rows now n (db w1) \<and> account_ok (db w') \<and>
      db w' = set_outbox (\<lambda>o1. ob_id o1 \<in> ob_id ` set rows) (\<lambda>o1. o1\<lparr>ob_available_at := now + credentialOperationDispatchLease,
        ob_attempt_count := ob_attempt_count o1 + 1\<rparr>) (db w1))"
    by (auto elim!: andThen_InrE query_InrE return_InrE account_change_InrE split: if_splits)
  from rest have "intent_protocol (db w1) (db w')"
    by (auto intro!: rescheduled_protocol simp: intents.R_refl)
  with bury_protocol [OF bury] show ?thesis by (rule intents.R_trans)
qed

lemma requeue_protocol:
  assumes "requeue_body b i u now w = (Inr x, w')"
  shows "intent_protocol (db w) (db w')"
proof -
  let ?g = "\<lambda>o1 :: operation_outbox. o1\<lparr>ob_status := OutboxPending, ob_attempt_count := 0,
    ob_last_reason_code := ''manual_requeue'', ob_available_at := now\<rparr>"
  from assms [unfolded requeue_body_def Let_def] obtain k where
    d: "account_ok (set_outbox (\<lambda>o1. ob_id o1 = k \<and> ob_status o1 = OutboxDeadLetter) ?g (db w))"
    and same: "ac_intents (db w') = ac_intents (set_outbox (\<lambda>o1. ob_id o1 = k \<and> ob_status o1 = OutboxDeadLetter) ?g (db w))"
      "ac_outbox (db w') = ac_outbox (set_outbox (\<lambda>o1. ob_id o1 = k \<and> ob_status o1 = OutboxDeadLetter) ?g (db w))"
      "account_ok (db w')"
    by (auto elim!: andThen_InrE select_one_InrE account_write_InrE return_InrE RecordTx_InrE simp: raise_apply
        split: if_splits)
  from d have "intent_protocol (db w) (set_outbox (\<lambda>o1. ob_id o1 = k \<and> ob_status o1 = OutboxDeadLetter) ?g (db w))"
    by (rule rescheduled_protocol [rotated]) auto
  with unrelated_protocol [OF same(1,2)] same(3) show ?thesis
    by (blast intro: intents.R_trans)
qed

lemma intent_store_runs:
  "runs intent_protocol (Admit_intent input now)"
  "runs intent_protocol (CreateBindingAndAdmit sha256 binding_input actor actor_id i ref now)"
  "runs intent_protocol (RetryNonSensitive i input now)"
  "runs intent_protocol (MarkUncertain i reason now)" "runs intent_protocol (MarkProjectionPending i reason now)"
  "runs intent_protocol (MarkInputRequired i reason now)" "runs intent_protocol (MarkInvariantViolation i reason now)"
  "runs intent_protocol (MarkSucceeded i now)" "runs intent_protocol (MarkFailed i reason now)"
  "runs intent_protocol (ExpireInputRequired i now)" "runs intent_protocol (Reschedule i reason t)"
  "runs intent_protocol (ClaimDueOperationIDs now limit)" "runs intent_protocol (RequeueDeadLetter b i u now)"
proof -
  have moves: "moves_to [PendingDelivery, Uncertain] Uncertain"
    "moves_to [PendingDelivery, Uncertain, ProjectionPending, InvariantViolation] ProjectionPending"
    "moves_to [PendingDelivery, Uncertain, InvariantViolation] InputRequired"
    "moves_to [PendingDelivery, Uncertain, ProjectionPending, InvariantViolation] InvariantViolation"
    "moves_to [ProjectionPending] Succeeded"
    "moves_to [PendingDelivery, Uncertain, ProjectionPending, InvariantViolation] Failed"
    by (simp_all add: moves_to_def intent_move_simps ReservesBinding_def)
  have step: "runs intent_protocol (transition i st reason c states now)"
    if "moves_to states st" "ReservesBinding st = (\<not> c)" for i st reason c states now
    unfolding transition_def by (rule intents.transaction) (simp, erule transition_body_protocol [OF _ that])
  show "runs intent_protocol (Admit_intent input now)" "runs intent_protocol (RetryNonSensitive i input now)"
    "runs intent_protocol (ExpireInputRequired i now)" "runs intent_protocol (ClaimDueOperationIDs now limit)"
    "runs intent_protocol (RequeueDeadLetter b i u now)"
    unfolding Admit_intent_def RetryNonSensitive_def ExpireInputRequired_def ClaimDueOperationIDs_def RequeueDeadLetter_def
    by (auto intro!: intents.raise intents.if_rule intents.transaction
        intro: admit_protocol retry_protocol expire_protocol claim_protocol requeue_protocol)
  show "runs intent_protocol (CreateBindingAndAdmit sha256 binding_input actor actor_id i ref now)"
    unfolding CreateBindingAndAdmit_def FindPendingBindForOwner_def
    by (intro intents.rules intents.transaction) (auto intro: create_protocol)
  show "runs intent_protocol (MarkInputRequired i reason now)"
    unfolding MarkInputRequired_def transitionWithExpiry_def
    by (rule intents.transaction) (auto intro: transition_expiry_protocol moves simp: ReservesBinding_def)
  show "runs intent_protocol (Reschedule i reason t)"
    unfolding Reschedule_def account_change_def account_write_def
    by (rule intents.statement) (auto simp: account_ok_def intro!: rescheduled_protocol split: option.splits)
  show "runs intent_protocol (MarkUncertain i reason now)" "runs intent_protocol (MarkProjectionPending i reason now)"
    "runs intent_protocol (MarkInvariantViolation i reason now)" "runs intent_protocol (MarkSucceeded i now)"
    "runs intent_protocol (MarkFailed i reason now)"
    unfolding MarkUncertain_def MarkProjectionPending_def MarkInvariantViolation_def MarkSucceeded_def MarkFailed_def
    by (rule step; simp add: moves ReservesBinding_def)+
qed

text \<open>C7: The durable intents of credential operations follow one life cycle under every operation of
  the store, whatever statements fail.  Intents are never lost and their request never changes; their
  state moves only along the life cycle; a closed intent never changes again; at most one intent
  reserves a binding (a constraint of the tables, part of \<open>account_ok\<close>); and no wake-up is lost: each
  intent has its outbox row, which is completed exactly when the intent is closed.\<close>

theorem intent_store_follows_protocol:
  "runs intent_protocol (Admit_intent input now) \<and>
   runs intent_protocol (CreateBindingAndAdmit sha256 binding_input actor actor_id i ref now) \<and>
   runs intent_protocol (RetryNonSensitive i input now) \<and>
   runs intent_protocol (MarkUncertain i reason now) \<and> runs intent_protocol (MarkProjectionPending i reason now) \<and>
   runs intent_protocol (MarkInputRequired i reason now) \<and> runs intent_protocol (MarkInvariantViolation i reason now) \<and>
   runs intent_protocol (MarkSucceeded i now) \<and> runs intent_protocol (MarkFailed i reason now) \<and>
   runs intent_protocol (ExpireInputRequired i now) \<and> runs intent_protocol (Reschedule i reason t) \<and>
   runs intent_protocol (ClaimDueOperationIDs now limit) \<and> runs intent_protocol (RequeueDeadLetter b i u now)"
  by (intro conjI intent_store_runs)

section \<open>Reservations\<close>

interpretation intent_store: settling find_intent "\<lambda>r. \<not> reserving r" intents_ok intent_protocol
proof
  fix s t k r
  assume step: "intent_protocol s t" and ok: "intents_ok s"
  show "intents_ok t"
    using step ok by (simp add: intent_protocol_def)
  show "find_intent k t = Some r" if "find_intent k s = Some r" "\<not> reserving r"
    using step ok that unfolding intent_protocol_def intent_follows_def by blast
  show "find_intent k t \<noteq> None" if "find_intent k s \<noteq> None"
    using step ok that unfolding intent_protocol_def by blast
qed

lemma active_intent_unique:
  assumes ok: "account_ok d" and r: "r \<in> set (ac_intents d)" "reserving r"
  shows "active_intent (oi_binding_id r) d = Some r"
proof -
  let ?rows = "filter (\<lambda>x. oi_binding_id x = oi_binding_id r \<and> oi_state x \<in> set reservingOperationIntentStates) (ac_intents d)"
  have "r \<in> set ?rows"
    using r by (auto simp: reserving_def reservingOperationIntentStates_def ReservesBinding_def split: intent_state.splits)
  then have "active_intent (oi_binding_id r) d \<noteq> None"
    by (auto simp: active_intent_def split: list.splits dest: arg_cong [where f = set])
  then obtain x where x: "active_intent (oi_binding_id r) d = Some x" by blast
  from active_intent_member [OF x] r account_okD(3) [OF ok] have "x = r"
    by (auto simp: unique_where_iff [OF unique_on_distinct [OF account_okD(2) [OF ok]]])
  with x show ?thesis by simp
qed

text \<open>C19: A binding with an unfinished operation admits no second one.  Whatever fails, \<open>Admit\<close>
  changes nothing and returns an error, and without statement failures the error names the pending
  operation and its state.  Only an operation that waits for new input can be displaced.\<close>

theorem reserved_binding_refuses:
  assumes ok: "account_ok (db w)" and outside: "base w = None"
    and r: "r \<in> set (ac_intents (db w))" "reserving r" "oi_state r \<noteq> InputRequired"
    and input: "admissible input" "ii_binding_id input = oi_binding_id r"
  shows "(\<exists>e. fst (Admit_intent input now w) = Inl e) \<and> db (snd (Admit_intent input now w)) = db w \<and>
    (faults w = [] \<and> has_binding (db w) (oi_binding_id r) \<longrightarrow> fst (Admit_intent input now w) =
       Inl (CredentialOperationPending (oi_operation_id r) (oi_binding_id r) (oi_state r)))"
proof -
  note active = active_intent_unique [OF ok r(1,2)]
  have adm: "Admit_intent input now = db_transaction (admit_body input now)"
    by (simp add: Admit_intent_def input)
  have "fst (Admit_intent input now w) \<noteq> Inr x" for x
  proof
    assume "fst (Admit_intent input now w) = Inr x"
    then obtain w1 where "db_transaction (admit_body input now) w = (Inr x, w1)"
      by (metis adm prod.collapse)
    then obtain w2 where "admit_body input now (w\<lparr>base := Some (db w)\<rparr>) = (Inr x, w2)"
      using outside by (auto elim!: transaction_InrE)
    then show False
      using active r(3) unfolding admit_body_def displace_active_def
      by (auto elim!: andThen_InrE select_one_InrE query_InrE simp: input raise_apply)
  qed
  then obtain e where e: "fst (Admit_intent input now w) = Inl e"
    by (cases "fst (Admit_intent input now w)") auto
  moreover have "db (snd (Admit_intent input now w)) = db w"
    using transaction_atomic [OF intent_pins(6) outside] e unfolding adm by blast
  moreover have "fst (Admit_intent input now w) =
       Inl (CredentialOperationPending (oi_operation_id r) (oi_binding_id r) (oi_state r))"
    if "faults w = []" "has_binding (db w) (oi_binding_id r)"
  proof -
    from that(2) obtain b where "find_binding (oi_binding_id r) (db w) = Some b"
      by (auto simp: has_binding_def find_binding_def list_ex_find)
    with that(1) active outside r(3) show ?thesis
      by (simp add: adm transaction_def admit_body_def displace_active_def effect_simps input)
  qed
  ultimately show ?thesis by blast
qed

section \<open>Claims\<close>

lemma due_after_burial:
  "filter (is_due now) (ac_outbox (set_outbox (is_exhausted now)
     (\<lambda>o1. o1\<lparr>ob_status := OutboxDeadLetter, ob_last_reason_code := reason\<rparr>) d)) = filter (is_due now) (ac_outbox d)"
proof -
  have "filter (is_due now) (update_where (is_exhausted now) (\<lambda>o1. o1\<lparr>ob_status := OutboxDeadLetter,
      ob_last_reason_code := reason\<rparr>) rows) = filter (is_due now) rows" for rows
    by (induction rows) (auto simp: is_due_def is_exhausted_def)
  then show ?thesis by (simp add: set_outbox_def)
qed

lemma bury_InrE:
  assumes "bury_exhausted now w = (Inr u, w')"
  obtains "ac_outbox (db w') = ac_outbox (set_outbox (is_exhausted now)
     (\<lambda>o1. o1\<lparr>ob_status := OutboxDeadLetter, ob_last_reason_code := ''retry_exhausted''\<rparr>) (db w))" "account_ok (db w')"
  using assms unfolding bury_exhausted_def
  by (auto elim!: andThen_InrE account_write_InrE return_InrE RecordTx_InrE split: if_splits)

lemma set_due_rows: "set (due_rows now limit d) \<subseteq> set (filter (is_due now) (ac_outbox d))"
  using set_take_subset [of limit "sort_key ob_available_at (sort_key ob_id (filter (is_due now) (ac_outbox d)))"]
  by (simp add: due_rows_def)

lemma all_due_rows:
  "count_where (is_due now) (ac_outbox d) \<le> limit \<Longrightarrow> set (due_rows now limit d) = set (filter (is_due now) (ac_outbox d))"
  by (simp add: due_rows_def count_where_def)

lemma claim_body_InrE:
  assumes "claim_body now limit w = (Inr ids, w')"
  obtains d1 where "filter (is_due now) (ac_outbox d1) = filter (is_due now) (ac_outbox (db w))" "account_ok d1"
    "\<And>o1. o1 \<in> set (ac_outbox d1) \<Longrightarrow> is_due now o1 \<Longrightarrow> o1 \<in> set (ac_outbox (db w))"
    "ids = map ob_operation_id (due_rows now limit d1)" "account_ok (db w')"
    "ac_outbox (db w') = ac_outbox (set_outbox (\<lambda>o1. ob_id o1 \<in> ob_id ` set (due_rows now limit d1))
       (\<lambda>o1. o1\<lparr>ob_available_at := now + credentialOperationDispatchLease, ob_attempt_count := ob_attempt_count o1 + 1\<rparr>) d1)"
proof -
  from assms [unfolded claim_body_def] obtain u w1 where bury: "bury_exhausted now w = (Inr u, w1)" and
    tail: "andThen (aquery (due_rows now limit)) (\<lambda>rows. if rows = [] then return []
     else andThen (account_change (set_outbox (\<lambda>o1. ob_id o1 \<in> ob_id ` set rows)
            (\<lambda>o1. o1\<lparr>ob_available_at := now + credentialOperationDispatchLease, ob_attempt_count := ob_attempt_count o1 + 1\<rparr>)))
          (\<lambda>_. return (map ob_operation_id rows))) w1 = (Inr ids, w')"
    by (rule andThen_InrE)
  from bury have due: "filter (is_due now) (ac_outbox (db w1)) = filter (is_due now) (ac_outbox (db w))"
    and ok1: "account_ok (db w1)"
    by (auto elim!: bury_InrE simp: due_after_burial)
  show ?thesis
  proof (rule that [OF due ok1])
    show "o1 \<in> set (ac_outbox (db w))" if "o1 \<in> set (ac_outbox (db w1))" "is_due now o1" for o1
      using arg_cong [OF due, of set] that by auto
  qed (use tail ok1 in \<open>auto simp: set_outbox_def elim!: andThen_InrE query_InrE return_InrE account_change_InrE split: if_splits\<close>)
qed


section \<open>Examples\<close>

definition acct_input :: "string \<Rightarrow> CredentialOperationIntentInput" where
  "acct_input i = \<lparr>ii_operation_id = i, ii_binding_id = 1, ii_binding_ref = ''bind_1'',
     ii_kind = ''OPERATION_KIND_REFRESH_CREDENTIAL'', ii_pre_generation = 3, ii_target_generation = 4,
     ii_request_fingerprint = ''fp'', ii_profile_ref = '''', ii_profile_revision = 0, ii_actor_type = ''user'',
     ii_actor_id = ''binding-refresh''\<rparr>"

definition acct_intent :: operation_intent where
  "acct_intent = new_intent (acct_input ''op1'') 7 ''mihomo'' Outbox 0"

definition acct_outbox :: operation_outbox where
  "acct_outbox = \<lparr>ob_id = 1, ob_operation_id = ''op1'', ob_status = OutboxPending, ob_available_at = 15,
     ob_attempt_count = 99, ob_last_reason_code = ''''\<rparr>"

definition acct_busy_db :: account_db where
  "acct_busy_db = acct_db\<lparr>ac_intents := [acct_intent], ac_outbox := [acct_outbox], ac_next_outbox_id := 2\<rparr>"

lemmas acct_intent_samples = acct_input_def acct_intent_def new_intent_def acct_outbox_def acct_busy_db_def

lemma acct_busy_ok: "account_ok acct_busy_db"
  by (simp add: account_ok_def account_checks account_samples acct_intent_samples intent_row_valid_def intent_kinds_def
      reserving_def reserving_bind_def ReservesBinding_def)

theorem reserved_binding_refuses_witness:
  "fst (Admit_intent (acct_input ''op2'') 20 (account_world acct_busy_db :: unit aworld)) =
     Inl (CredentialOperationPending ''op1'' 1 PendingDelivery)"
proof -
  let ?w = "account_world acct_busy_db :: unit aworld"
  have "acct_intent \<in> set (ac_intents (db ?w))" "reserving acct_intent" "oi_state acct_intent \<noteq> InputRequired"
    "has_binding (db ?w) (oi_binding_id acct_intent)"
    by (simp_all add: acct_intent_samples account_samples reserving_def ReservesBinding_def has_binding_def)
  moreover have "admissible (acct_input ''op2'')" "ii_binding_id (acct_input ''op2'') = oi_binding_id acct_intent"
    by (simp_all add: admissible_def validIntentGeneration_def validIntentProfile_def acct_intent_samples)
  moreover have "account_ok (db ?w)" "base ?w = None" "faults ?w = []"
    by (simp_all add: acct_busy_ok)
  ultimately have "fst (Admit_intent (acct_input ''op2'') 20 ?w) =
      Inl (CredentialOperationPending (oi_operation_id acct_intent) (oi_binding_id acct_intent) (oi_state acct_intent))"
    using reserved_binding_refuses [of ?w acct_intent "acct_input ''op2''" 20] by blast
  then show ?thesis by (simp add: acct_intent_samples)
qed

lemma acct_claim_runs:
  "\<exists>w'. ClaimDueOperationIDs 20 5 (account_world acct_busy_db :: unit aworld) = (Inr [''op1''], w')"
  by (simp add: ClaimDueOperationIDs_def claim_body_def bury_exhausted_def account_world_def transaction_def effect_simps
      account_violation_def account_constraints_def account_checks account_samples acct_intent_samples intent_row_valid_def
      intent_kinds_def reserving_def reserving_bind_def ReservesBinding_def set_outbox_def is_exhausted_def is_due_def
      due_rows_def count_where_def credentialOperationDeadLetterAttempts_def)


end
