(* ===== verification/Account_Grants.thy ===== *)
theory Account_Grants
  imports Account_Intents
begin

text \<open>
  Consumer grants: \<open>service/platformbinding/grant_service.go\<close>, \<open>grant_transaction.go\<close>,
  \<open>grant_invalidation.go\<close> and \<open>grant_invalidation_completion.go\<close>.  A grant lets one consumer use a
  binding for some actions; every change of what it allows raises its ticket version, which a fence
  at the platform then demands of tickets.  The serializable transactions are retried on
  conflicts, which an argument schedules; the invalidator is an argument, as in the code.
  The clock readings of an operation are its argument \<open>now\<close>.
\<close>

section \<open>Inputs\<close>

record GrantInvalidationInput =
  gi_binding_id :: nat
  gi_binding_ref :: string
  gi_generation :: u64
  gi_owner_user_id :: nat
  gi_platform :: string
  gi_platform_service_key :: string
  gi_consumer :: string
  gi_minimum_grant_version :: u64
  gi_minimum_entry_epoch :: u64
  gi_actor_type :: string
  gi_actor_id :: string

type_synonym 'l grant_invalidator = "(GrantInvalidationInput \<Rightarrow> ('l, unit) aeff) option"

record UpsertGrantInput =
  ug_binding_id :: nat
  ug_consumer :: string
  ug_actions :: "string list"
  ug_granted_by :: "nat option"
  ug_granted_at :: instant

record RevokeGrantInput =
  rg_binding_id :: nat
  rg_consumer :: string
  rg_revoked_at :: instant
  rg_actor_user_id :: "nat option"

definition ConsumerPaiGramBot :: string where "ConsumerPaiGramBot = ''paigram-bot''"
definition ConsumerPamgram :: string where "ConsumerPamgram = ''pamgram''"

definition SupportedConsumers :: "string list" where
  "SupportedConsumers = [ConsumerPaiGramBot, ConsumerPamgram]"

section \<open>Serializable transactions\<close>

text \<open>SQLSTATE 40001 and 40P01, and the race of two first grants.\<close>

definition isRetryableGrantError :: "acerror \<Rightarrow> bool" where
  "isRetryableGrantError err = (case List.map_filter postgres_error (error_tree err) of
     [] \<Rightarrow> False
   | e # _ \<Rightarrow> e = Serialization_Failure \<or> e = Unique_Violation ''uk_consumer_grants_binding_consumer'')"

text \<open>The deferred constraint trigger: an active grant has an action when the transaction commits.\<close>

definition grants_have_actions :: "account_db \<Rightarrow> bool" where
  "grants_have_actions d \<longleftrightarrow> list_all (\<lambda>g. cg_status g = GrantActive \<longrightarrow>
     list_ex (\<lambda>a. ga_grant_id a = cg_id g) (ac_grant_actions d)) (ac_grants d)"

definition commit_check :: "bool \<Rightarrow> 'a \<Rightarrow> ('l, 'a) aeff" where
  "commit_check conflict x = (\<lambda>w.
     if conflict then (Inl (AcDb Serialization_Failure), w)
     else if \<not> grants_have_actions (db w) then (Inl (AcDb (Check_Violation ''consumer_grants'')), w)
     else (Inr x, w))"

definition serializable :: "bool \<Rightarrow> ('l, 'a) aeff \<Rightarrow> ('l, 'a) aeff" where
  "serializable conflict mutation = db_transaction (andThen mutation (commit_check conflict))"

definition grantTransactionAttempts :: nat where
  "grantTransactionAttempts = 4"

text \<open>The loop with \<open>n\<close> retries left; the schedule says which attempts conflict.\<close>

fun grant_attempts :: "nat \<Rightarrow> bool list \<Rightarrow> ('l, 'a) aeff \<Rightarrow> ('l, 'a) aeff" where
  "grant_attempts 0 conflicts mutation = serializable (fst (next_fault conflicts)) mutation"
| "grant_attempts (Suc n) conflicts mutation =
     andThen (attempt (serializable (fst (next_fault conflicts)) mutation)) (\<lambda>r. case r of
       Inr x \<Rightarrow> return x
     | Inl e \<Rightarrow> if isRetryableGrantError e then grant_attempts n (snd (next_fault conflicts)) mutation
                else raise e)"

definition runGrantTransaction :: "bool list \<Rightarrow> ('l, 'a) aeff \<Rightarrow> ('l, 'a) aeff" where
  "runGrantTransaction conflicts mutation = grant_attempts (grantTransactionAttempts - 1) conflicts mutation"

section \<open>Statements\<close>

definition find_grant :: "nat \<Rightarrow> string \<Rightarrow> account_db \<Rightarrow> consumer_grant option" where
  "find_grant bindingID consumer d =
     find (\<lambda>g. cg_binding_id g = bindingID \<and> cg_consumer g = consumer) (ac_grants d)"

definition find_grant_id :: "nat \<Rightarrow> account_db \<Rightarrow> consumer_grant option" where
  "find_grant_id i d = find (\<lambda>g. cg_id g = i) (ac_grants d)"

definition grant_actions :: "nat \<Rightarrow> account_db \<Rightarrow> string list" where
  "grant_actions i d = map ga_action (filter (\<lambda>a. ga_grant_id a = i) (ac_grant_actions d))"

definition insert_grant :: "consumer_grant \<Rightarrow> ('l, consumer_grant) aeff" where
  "insert_grant row = account_write (\<lambda>d.
     let g = row\<lparr>cg_id := ac_next_grant_id d\<rparr>
     in (g, d\<lparr>ac_grants := ac_grants d @ [g], ac_next_grant_id := Suc (ac_next_grant_id d)\<rparr>))"

text \<open>\<open>Save\<close> of a grant; its preloaded actions are stored already.\<close>

definition save_grant :: "consumer_grant \<Rightarrow> account_db \<Rightarrow> account_db" where
  "save_grant g d = d\<lparr>ac_grants := update_where (\<lambda>r. cg_id r = cg_id g) (\<lambda>_. g) (ac_grants d)\<rparr>"

definition replaceGrantActions :: "nat \<Rightarrow> string list \<Rightarrow> ('l, unit) aeff" where
  "replaceGrantActions grantID actions =
     andThen (account_change (\<lambda>d. d\<lparr>ac_grant_actions :=
       delete_where (\<lambda>a. ga_grant_id a = grantID) (ac_grant_actions d)\<rparr>)) (\<lambda>_.
     account_change (\<lambda>d. d\<lparr>ac_grant_actions := ac_grant_actions d @
       map (\<lambda>action. \<lparr>ga_grant_id = grantID, ga_action = action\<rparr>) actions\<rparr>))"

definition grantActionNames :: "string list \<Rightarrow> string list" where
  "grantActionNames actions = sort actions"

fun normalize_actions_from :: "string list \<Rightarrow> string list \<Rightarrow> acerror + string list" where
  "normalize_actions_from seen [] = Inr []"
| "normalize_actions_from seen (a # as) =
     (let action = trim_space a in
      if \<not> IsMihomoDelegationAction action then Inl ErrGrantActionNotAllowed
      else if action \<in> set seen then normalize_actions_from seen as
      else map_sum id (\<lambda>rest. action # rest) (normalize_actions_from (action # seen) as))"

definition normalizeGrantActions :: "string list \<Rightarrow> acerror + string list" where
  "normalizeGrantActions actions =
     (if actions = [] then Inr mihomoDelegationActions
      else case normalize_actions_from [] actions of
        Inl e \<Rightarrow> Inl e
      | Inr normalized \<Rightarrow> if normalized = [] then Inl ErrGrantActionNotAllowed else Inr (sort normalized))"

definition nextTicketVersion :: "u64 \<Rightarrow> u64" where
  "nextTicketVersion current = (if current = 0 then 1 else current + 1)"

definition IsGrantActive :: "consumer_grant \<Rightarrow> bool" where
  "IsGrantActive grant \<longleftrightarrow> cg_status grant = GrantActive \<and> cg_revoked_at grant = None"

definition auditActorUserID :: "nat option \<Rightarrow> nat option" where
  "auditActorUserID value = (case value of None \<Rightarrow> None | Some v \<Rightarrow> if v > 0 then Some v else None)"

definition writeGrantAudit :: "account_binding \<Rightarrow> nat \<Rightarrow> nat option \<Rightarrow> ('l, unit) aeff" where
  "writeGrantAudit binding bindingID actorUserID =
     (let ownerUserID = pb_owner_user_id binding in
      RecordTx \<lparr>ae_category = ''platform_binding'',
        ae_actor_type = (if actorUserID \<noteq> None \<and> ownerUserID \<noteq> 0 \<and> actorUserID \<noteq> Some ownerUserID
                         then ''admin'' else ''user''),
        ae_actor_user_id = actorUserID, ae_action = ''grant_change'', ae_target_type = ''binding'',
        ae_target_id = decimal bindingID, ae_binding_id = Some bindingID, ae_result = ''success'', ae_reason_code = ''''\<rparr>)"

definition writeGrantAuditBestEffort :: "account_binding \<Rightarrow> nat \<Rightarrow> nat option \<Rightarrow> ('l, unit) aeff" where
  "writeGrantAuditBestEffort binding bindingID actorUserID =
     andThen (attempt (nested_transaction AcDb (writeGrantAudit binding bindingID actorUserID))) (\<lambda>_. return ())"

section \<open>Guards\<close>

definition getBinding :: "nat \<Rightarrow> ('l, account_binding) aeff" where
  "getBinding bindingID = take_row ErrBindingNotFound (live_binding bindingID)"

definition ensureBindingOwnedByUser :: "nat \<Rightarrow> nat \<Rightarrow> ('l, unit) aeff" where
  "ensureBindingOwnedByUser ownerUserID bindingID =
     andThen (take_row ErrBindingNotFound
       (\<lambda>d. find (\<lambda>b. is_live bindingID b \<and> pb_owner_user_id b = ownerUserID) (ac_bindings d))) (\<lambda>_. return ())"

definition validateConsumer :: "string \<Rightarrow> ('l, unit) aeff" where
  "validateConsumer consumer =
     (if consumer \<in> set SupportedConsumers then return ()
      else andThen (attempt (aquery (\<lambda>d. count_where
             (\<lambda>c. sc_client_id c = consumer \<and> sc_status c = ''active'' \<and> sc_deleted_at c = None) (ac_credentials d)))) (\<lambda>r.
           case r of Inr n \<Rightarrow> if n = 1 then return () else raise ErrConsumerNotSupported
                   | Inl e \<Rightarrow> raise ErrConsumerNotSupported))"

section \<open>Invalidation\<close>

definition invalidation_input :: "account_binding \<Rightarrow> string \<Rightarrow> nat option \<Rightarrow> u64 \<Rightarrow> u64 \<Rightarrow> GrantInvalidationInput" where
  "invalidation_input binding consumer actorUserID minimumGrantVersion minimumEntryEpoch =
     (let known = (actorUserID \<noteq> None \<and> the actorUserID > 0) in
      \<lparr>gi_binding_id = pb_id binding, gi_binding_ref = pb_binding_ref binding,
       gi_generation = pb_generation binding, gi_owner_user_id = pb_owner_user_id binding,
       gi_platform = pb_platform binding, gi_platform_service_key = pb_platform_service_key binding,
       gi_consumer = consumer, gi_minimum_grant_version = minimumGrantVersion,
       gi_minimum_entry_epoch = minimumEntryEpoch,
       gi_actor_type = (if known \<and> the actorUserID \<noteq> pb_owner_user_id binding then ''admin'' else ''user''),
       gi_actor_id = (if known then decimal (the actorUserID) else ''system:grant-revoke'')\<rparr>)"

definition invalidateGrant ::
    "'l grant_invalidator \<Rightarrow> account_binding \<Rightarrow> string \<Rightarrow> nat option \<Rightarrow> u64 \<Rightarrow> u64 \<Rightarrow> ('l, unit) aeff" where
  "invalidateGrant invalidator binding consumer actorUserID minimumGrantVersion minimumEntryEpoch =
     (case invalidator of
        None \<Rightarrow> return ()
      | Some invalidate \<Rightarrow>
          invalidate (invalidation_input binding consumer actorUserID minimumGrantVersion minimumEntryEpoch))"

definition unconfirmed :: "string \<Rightarrow> account_db \<Rightarrow> bool" where
  "unconfirmed operationID d \<longleftrightarrow>
     list_ex (\<lambda>t. ut_operation_id t = operationID \<and> ut_confirmed_at t = None) (ac_unlink_targets d)"

definition completeConfirmedUnlinkOperations :: "string list \<Rightarrow> instant \<Rightarrow> ('l, unit) aeff" where
  "completeConfirmedUnlinkOperations operationIDs completedAt = account_change (\<lambda>d. d\<lparr>ac_unlinks :=
     update_where (\<lambda>u. uo_state u = UnlinkPending \<and> uo_operation_id u \<in> set operationIDs \<and> \<not> unconfirmed (uo_operation_id u) d)
       (\<lambda>u. u\<lparr>uo_state := UnlinkComplete, uo_completed_at := Some completedAt\<rparr>) (ac_unlinks d)\<rparr>)"

definition waiting_unlinks :: "nat \<Rightarrow> u64 \<Rightarrow> account_db \<Rightarrow> string list" where
  "waiting_unlinks grantID minimumEntryEpoch d = sort (map uo_operation_id (filter (\<lambda>u.
     uo_minimum_entry_epoch u \<le> minimumEntryEpoch \<and>
     list_ex (\<lambda>t. ut_operation_id t = uo_operation_id u \<and> ut_grant_id t = grantID \<and> ut_confirmed_at t = None)
       (ac_unlink_targets d)) (ac_unlinks d)))"

definition confirm_unlinks :: "nat \<Rightarrow> u64 \<Rightarrow> instant \<Rightarrow> ('l, unit) aeff" where
  "confirm_unlinks grantID minimumEntryEpoch invalidatedAt =
     (if minimumEntryEpoch = 0 then return ()
      else andThen (aquery (waiting_unlinks grantID minimumEntryEpoch)) (\<lambda>operationIDs.
        if operationIDs = [] then return ()
        else andThen (account_change (\<lambda>d. d\<lparr>ac_unlink_targets := update_where
               (\<lambda>t. ut_grant_id t = grantID \<and> ut_confirmed_at t = None \<and> ut_operation_id t \<in> set operationIDs)
               (\<lambda>t. t\<lparr>ut_confirmed_at := Some invalidatedAt\<rparr>) (ac_unlink_targets d)\<rparr>)) (\<lambda>_.
             completeConfirmedUnlinkOperations operationIDs invalidatedAt)))"

definition awaits :: "nat \<Rightarrow> u64 \<Rightarrow> u64 \<Rightarrow> consumer_grant \<Rightarrow> bool" where
  "awaits grantID version epoch g \<longleftrightarrow> cg_id g = grantID \<and> cg_ticket_version g = version \<and> cg_pending_entry_epoch g = epoch"

definition confirmed :: "instant \<Rightarrow> instant \<Rightarrow> consumer_grant \<Rightarrow> consumer_grant" where
  "confirmed invalidatedAt now g = g\<lparr>cg_last_invalidated_at := Some invalidatedAt, cg_pending_entry_epoch := 0,
     cg_updated_at := now\<rparr>"

text \<open>What follows the compare-and-set: \<open>affected\<close> rows were confirmed, the row is \<open>current\<close>.\<close>

definition settle_invalidation ::
    "nat \<Rightarrow> u64 \<Rightarrow> u64 \<Rightarrow> instant \<Rightarrow> nat \<Rightarrow> consumer_grant \<Rightarrow> string list \<Rightarrow> ('l, consumer_grant \<times> string list) aeff" where
  "settle_invalidation grantID minimumVersion minimumEntryEpoch invalidatedAt affected current actions =
     (if affected = 0 \<and> cg_ticket_version current > minimumVersion \<and> IsGrantActive current \<and>
         cg_pending_entry_epoch current = 0 \<and> cg_last_invalidated_at current \<noteq> None
      then return (current, actions)
      else if affected = 0 \<and> (cg_ticket_version current \<noteq> minimumVersion \<or> cg_pending_entry_epoch current \<noteq> 0 \<or>
         cg_last_invalidated_at current = None)
      then raise ErrGrantPropagationPending
      else andThen (confirm_unlinks grantID minimumEntryEpoch invalidatedAt) (\<lambda>_. return (current, actions)))"

definition complete_invalidation_body ::
    "nat \<Rightarrow> u64 \<Rightarrow> u64 \<Rightarrow> instant \<Rightarrow> instant \<Rightarrow> ('l, consumer_grant \<times> string list) aeff" where
  "complete_invalidation_body grantID minimumVersion minimumEntryEpoch invalidatedAt now =
     (let p = awaits grantID minimumVersion minimumEntryEpoch in
      andThen (account_write (\<lambda>d. (count_where p (ac_grants d),
        d\<lparr>ac_grants := update_where p (confirmed invalidatedAt now) (ac_grants d)\<rparr>))) (\<lambda>affected.
      andThen (take_row GormRecordNotFound (find_grant_id grantID)) (\<lambda>current.
      andThen (aquery (grant_actions grantID)) (\<lambda>actions.
      settle_invalidation grantID minimumVersion minimumEntryEpoch invalidatedAt affected current actions))))"

definition completeGrantInvalidation ::
    "nat \<Rightarrow> u64 \<Rightarrow> u64 \<Rightarrow> instant \<Rightarrow> instant \<Rightarrow> ('l, consumer_grant \<times> string list) aeff" where
  "completeGrantInvalidation grantID minimumVersion minimumEntryEpoch invalidatedAt now =
     db_transaction (complete_invalidation_body grantID minimumVersion minimumEntryEpoch invalidatedAt now)"

text \<open>What follows a transaction that left the platform to be told: the fence, then its record.
  Any failure leaves the grant pending.\<close>

definition propagate ::
    "'l grant_invalidator \<Rightarrow> account_binding \<Rightarrow> consumer_grant \<Rightarrow> nat option \<Rightarrow> u64 \<Rightarrow> instant \<Rightarrow> instant \<Rightarrow>
     ('l, consumer_grant \<times> string list) aeff" where
  "propagate invalidator binding grant actorUserID minimumVersion invalidatedAt now =
     map_error (GrantPropagationPending (pb_id binding) (cg_consumer grant) minimumVersion)
       (andThen (invalidateGrant invalidator binding (cg_consumer grant) actorUserID minimumVersion
          (cg_pending_entry_epoch grant)) (\<lambda>_.
        completeGrantInvalidation (cg_id grant) minimumVersion (cg_pending_entry_epoch grant) invalidatedAt now))"

section \<open>Granting\<close>

text \<open>What the transaction hands to the rest of the function: the grant with its actions, whether it
  is new, and the version the platform must demand, if it must be told.\<close>

record grant_outcome =
  go_grant :: consumer_grant
  go_actions :: "string list"
  go_created :: bool
  go_minimum :: "u64 option"

definition new_grant :: "nat \<Rightarrow> string \<Rightarrow> grant_status \<Rightarrow> nat option \<Rightarrow> instant \<Rightarrow> instant option \<Rightarrow> instant \<Rightarrow> consumer_grant" where
  "new_grant bindingID consumer status grantedBy grantedAt revokedAt now =
     \<lparr>cg_id = 0, cg_binding_id = bindingID, cg_consumer = consumer, cg_status = status, cg_ticket_version = 1,
      cg_pending_entry_epoch = 0, cg_granted_by = grantedBy, cg_granted_at = grantedAt, cg_revoked_at = revokedAt,
      cg_last_invalidated_at = None, cg_updated_at = now\<rparr>"

definition create_grant ::
    "UpsertGrantInput \<Rightarrow> account_binding \<Rightarrow> string list \<Rightarrow> instant \<Rightarrow> instant \<Rightarrow> ('l, grant_outcome) aeff" where
  "create_grant input binding actions grantedAt now =
     andThen (insert_grant (new_grant (ug_binding_id input) (ug_consumer input) GrantActive (ug_granted_by input)
        grantedAt None now)) (\<lambda>grant.
     andThen (replaceGrantActions (cg_id grant) actions) (\<lambda>_.
     andThen (writeGrantAudit binding (ug_binding_id input) (auditActorUserID (ug_granted_by input))) (\<lambda>_.
     return \<lparr>go_grant = grant, go_actions = actions, go_created = True, go_minimum = None\<rparr>)))"

text \<open>The row a renewed grant is saved as, for the row found, and the version to demand.\<close>

definition renewed :: "consumer_grant \<Rightarrow> bool \<Rightarrow> UpsertGrantInput \<Rightarrow> instant \<Rightarrow> instant \<Rightarrow> consumer_grant" where
  "renewed grant actionsChanged input grantedAt now =
     (let statusChanged = (cg_status grant \<noteq> GrantActive \<or> cg_revoked_at grant \<noteq> None);
          bumped = (if actionsChanged \<or> statusChanged
            then grant\<lparr>cg_status := GrantActive, cg_ticket_version := nextTicketVersion (cg_ticket_version grant),
                       cg_last_invalidated_at := None\<rparr>
            else grant\<lparr>cg_status := GrantActive\<rparr>);
          versioned = (if cg_ticket_version bumped = 0 then bumped\<lparr>cg_ticket_version := 1\<rparr> else bumped)
      in versioned\<lparr>cg_granted_by := ug_granted_by input, cg_granted_at := grantedAt, cg_revoked_at := None,
                  cg_updated_at := now\<rparr>)"

definition renewal_minimum :: "consumer_grant \<Rightarrow> bool \<Rightarrow> consumer_grant \<Rightarrow> u64 option" where
  "renewal_minimum grant actionsChanged saved =
     (if cg_last_invalidated_at saved = None \<and> cg_ticket_version saved > 1 then Some (cg_ticket_version saved)
      else if actionsChanged \<or> cg_status grant \<noteq> GrantActive \<or> cg_revoked_at grant \<noteq> None
      then Some (nextTicketVersion (cg_ticket_version grant)) else None)"

definition save_renewed ::
    "consumer_grant \<Rightarrow> string list \<Rightarrow> UpsertGrantInput \<Rightarrow> account_binding \<Rightarrow> string list \<Rightarrow> instant \<Rightarrow> instant \<Rightarrow>
     ('l, grant_outcome) aeff" where
  "save_renewed grant names input binding actions grantedAt now =
     (let actionsChanged = (grantActionNames names \<noteq> actions); saved = renewed grant actionsChanged input grantedAt now in
      andThen (if actionsChanged then replaceGrantActions (cg_id grant) actions else return ()) (\<lambda>_.
      andThen (account_change (save_grant saved)) (\<lambda>_.
      andThen (writeGrantAudit binding (ug_binding_id input) (auditActorUserID (ug_granted_by input))) (\<lambda>_.
      return \<lparr>go_grant = saved, go_actions = (if actionsChanged then actions else names), go_created = False,
              go_minimum = renewal_minimum grant actionsChanged saved\<rparr>))))"

definition renew_grant ::
    "consumer_grant \<Rightarrow> UpsertGrantInput \<Rightarrow> account_binding \<Rightarrow> string list \<Rightarrow> instant \<Rightarrow> instant \<Rightarrow> ('l, grant_outcome) aeff" where
  "renew_grant grant input binding actions grantedAt now =
     andThen (aquery (grant_actions (cg_id grant)))
       (\<lambda>names. save_renewed grant names input binding actions grantedAt now)"

definition upsert_grant_body ::
    "UpsertGrantInput \<Rightarrow> account_binding \<Rightarrow> string list \<Rightarrow> instant \<Rightarrow> instant \<Rightarrow> ('l, grant_outcome) aeff" where
  "upsert_grant_body input binding actions grantedAt now =
     andThen (aquery (find_grant (ug_binding_id input) (ug_consumer input))) (\<lambda>found. case found of
       None \<Rightarrow> create_grant input binding actions grantedAt now
     | Some grant \<Rightarrow> renew_grant grant input binding actions grantedAt now)"

definition UpsertGrant ::
    "'l grant_invalidator \<Rightarrow> bool list \<Rightarrow> UpsertGrantInput \<Rightarrow> instant \<Rightarrow> ('l, (consumer_grant \<times> string list) \<times> bool) aeff" where
  "UpsertGrant invalidator conflicts input now =
     andThen (validateConsumer (ug_consumer input)) (\<lambda>_.
     andThen (lift_result (normalizeGrantActions (ug_actions input))) (\<lambda>actions.
     andThen (getBinding (ug_binding_id input)) (\<lambda>binding.
     let grantedAt = (if ug_granted_at input = 0 then now else ug_granted_at input) in
     andThen (runGrantTransaction conflicts (upsert_grant_body input binding actions grantedAt now)) (\<lambda>out.
     case go_minimum out of
       None \<Rightarrow> return ((go_grant out, go_actions out), go_created out)
     | Some minimum \<Rightarrow>
         andThen (propagate invalidator binding (go_grant out) (ug_granted_by input) minimum grantedAt now)
           (\<lambda>current. return (current, go_created out))))))"

definition UpsertGrantForOwner ::
    "'l grant_invalidator \<Rightarrow> bool list \<Rightarrow> nat \<Rightarrow> UpsertGrantInput \<Rightarrow> instant \<Rightarrow>
     ('l, (consumer_grant \<times> string list) \<times> bool) aeff" where
  "UpsertGrantForOwner invalidator conflicts ownerUserID input now =
     andThen (ensureBindingOwnedByUser ownerUserID (ug_binding_id input)) (\<lambda>_. UpsertGrant invalidator conflicts input now)"

section \<open>Revoking\<close>

definition revoke_unknown ::
    "RevokeGrantInput \<Rightarrow> account_binding \<Rightarrow> instant \<Rightarrow> instant \<Rightarrow> ('l, grant_outcome) aeff" where
  "revoke_unknown input binding revokedAt now =
     andThen (insert_grant (new_grant (rg_binding_id input) (rg_consumer input) GrantRevoked None revokedAt (Some revokedAt) now))
       (\<lambda>grant.
     andThen (writeGrantAuditBestEffort binding (rg_binding_id input) (auditActorUserID (rg_actor_user_id input))) (\<lambda>_.
     return \<lparr>go_grant = grant, go_actions = [], go_created = True, go_minimum = Some 1\<rparr>))"

definition revoked :: "consumer_grant \<Rightarrow> instant \<Rightarrow> instant \<Rightarrow> consumer_grant" where
  "revoked grant revokedAt now = grant\<lparr>cg_status := GrantRevoked,
     cg_ticket_version := (if cg_ticket_version grant = 0 then 1 else cg_ticket_version grant) + 1,
     cg_revoked_at := Some revokedAt, cg_last_invalidated_at := None, cg_updated_at := now\<rparr>"

definition revoke_known ::
    "consumer_grant \<Rightarrow> RevokeGrantInput \<Rightarrow> account_binding \<Rightarrow> instant \<Rightarrow> instant \<Rightarrow> ('l, grant_outcome) aeff" where
  "revoke_known grant input binding revokedAt now =
     andThen (aquery (grant_actions (cg_id grant))) (\<lambda>names.
     let audit = writeGrantAuditBestEffort binding (rg_binding_id input) (auditActorUserID (rg_actor_user_id input)) in
     if cg_status grant = GrantRevoked \<and> cg_revoked_at grant \<noteq> None then
       andThen audit (\<lambda>_. return \<lparr>go_grant = grant, go_actions = names, go_created = False,
         go_minimum = (if cg_last_invalidated_at grant = None
           then Some (if cg_ticket_version grant = 0 then 1 else cg_ticket_version grant) else None)\<rparr>)
     else andThen (account_change (save_grant (revoked grant revokedAt now))) (\<lambda>_.
          andThen audit (\<lambda>_. return \<lparr>go_grant = revoked grant revokedAt now, go_actions = names, go_created = False,
            go_minimum = Some (cg_ticket_version (revoked grant revokedAt now))\<rparr>)))"

definition revoke_grant_body ::
    "RevokeGrantInput \<Rightarrow> account_binding \<Rightarrow> instant \<Rightarrow> instant \<Rightarrow> ('l, grant_outcome) aeff" where
  "revoke_grant_body input binding revokedAt now =
     andThen (aquery (find_grant (rg_binding_id input) (rg_consumer input))) (\<lambda>found. case found of
       None \<Rightarrow> revoke_unknown input binding revokedAt now
     | Some grant \<Rightarrow> revoke_known grant input binding revokedAt now)"

definition RevokeGrant ::
    "'l grant_invalidator \<Rightarrow> bool list \<Rightarrow> RevokeGrantInput \<Rightarrow> instant \<Rightarrow> ('l, consumer_grant \<times> string list) aeff" where
  "RevokeGrant invalidator conflicts input now =
     andThen (validateConsumer (rg_consumer input)) (\<lambda>_.
     andThen (getBinding (rg_binding_id input)) (\<lambda>binding.
     let revokedAt = (if rg_revoked_at input = 0 then now else rg_revoked_at input) in
     andThen (runGrantTransaction conflicts (revoke_grant_body input binding revokedAt now)) (\<lambda>out.
     case go_minimum out of
       None \<Rightarrow> return (go_grant out, go_actions out)
     | Some minimum \<Rightarrow>
         propagate invalidator binding (go_grant out) (rg_actor_user_id input) minimum revokedAt now)))"

definition RevokeGrantForOwner ::
    "'l grant_invalidator \<Rightarrow> bool list \<Rightarrow> nat \<Rightarrow> RevokeGrantInput \<Rightarrow> instant \<Rightarrow> ('l, consumer_grant \<times> string list) aeff" where
  "RevokeGrantForOwner invalidator conflicts ownerUserID input now =
     andThen (ensureBindingOwnedByUser ownerUserID (rg_binding_id input)) (\<lambda>_. RevokeGrant invalidator conflicts input now)"

section \<open>Listing, deleting and reconciling\<close>

definition ListGrants :: "nat \<Rightarrow> ListParams \<Rightarrow> ('l, (consumer_grant \<times> string list) list \<times> nat) aeff" where
  "ListGrants bindingID params =
     (let normal = normalizeListParams params; mine = \<lambda>g. cg_binding_id g = bindingID in
      andThen (getBinding bindingID) (\<lambda>_.
      andThen (aquery (\<lambda>d. count_where mine (ac_grants d))) (\<lambda>total.
      andThen (aquery (\<lambda>d. page normal (sort_key cg_id (filter mine (ac_grants d))))) (\<lambda>rows.
      andThen (aquery (\<lambda>d. map (\<lambda>g. (g, grant_actions (cg_id g) d)) rows)) (\<lambda>loaded.
      return (loaded, total))))))"

definition ListGrantsForOwner ::
    "nat \<Rightarrow> nat \<Rightarrow> ListParams \<Rightarrow> ('l, (consumer_grant \<times> string list) list \<times> nat) aeff" where
  "ListGrantsForOwner ownerUserID bindingID params =
     andThen (ensureBindingOwnedByUser ownerUserID bindingID) (\<lambda>_. ListGrants bindingID params)"

definition DeleteGrants :: "nat \<Rightarrow> ('l, unit) aeff" where
  "DeleteGrants bindingID = andThen (getBinding bindingID) (\<lambda>_.
     account_change (drop_grants (\<lambda>g. cg_binding_id g = bindingID)))"

definition ListPendingGrantInvalidationIDs :: "int \<Rightarrow> ('l, nat list) aeff" where
  "ListPendingGrantInvalidationIDs limit = aquery (\<lambda>d.
     take (if limit \<le> 0 then 100 else nat limit) (map cg_id (sort_key cg_updated_at (sort_key cg_id
       (filter (\<lambda>g. cg_last_invalidated_at g = None \<and> cg_ticket_version g > 0) (ac_grants d))))))"

definition ReconcileGrantInvalidation :: "'l grant_invalidator \<Rightarrow> nat \<Rightarrow> instant \<Rightarrow> ('l, unit) aeff" where
  "ReconcileGrantInvalidation invalidator grantID now =
     andThen (take_row GormRecordNotFound (find_grant_id grantID)) (\<lambda>grant.
     andThen (aquery (grant_actions grantID)) (\<lambda>_.
     if cg_last_invalidated_at grant \<noteq> None then return ()
     else andThen (getBinding (cg_binding_id grant)) (\<lambda>binding.
       let minimumVersion = (if cg_ticket_version grant = 0 then 1 else cg_ticket_version grant) in
       andThen (propagate invalidator binding grant (cg_granted_by grant) minimumVersion now now) (\<lambda>_. return ()))))"

section \<open>The version protocol\<close>

text \<open>What a grant allows, and how a row may change: its key stays, its ticket version never falls,
  and it rises whenever what the grant allows changes.  A ticket bound to an older version is then
  told apart from one that states what the grant allows now.\<close>

definition allows :: "account_db \<Rightarrow> consumer_grant \<Rightarrow> string set" where
  "allows d g = (if IsGrantActive g then set (grant_actions (cg_id g) d) else {})"

definition grant_follows :: "account_db \<Rightarrow> account_db \<Rightarrow> consumer_grant \<Rightarrow> consumer_grant \<Rightarrow> bool" where
  "grant_follows d d' g g' \<longleftrightarrow> cg_id g' = cg_id g \<and> cg_binding_id g' = cg_binding_id g \<and>
     cg_consumer g' = cg_consumer g \<and> cg_ticket_version g \<le> cg_ticket_version g' \<and>
     (allows d' g' \<noteq> allows d g \<longrightarrow> cg_ticket_version g < cg_ticket_version g')"

definition grant_protocol :: "account_db \<Rightarrow> account_db \<Rightarrow> bool" where
  "grant_protocol d d' \<longleftrightarrow> (account_ok d \<longrightarrow> account_ok d' \<and>
     (\<forall>g\<in>set (ac_grants d). \<exists>g'\<in>set (ac_grants d'). grant_follows d d' g g'))"

lemma grant_follows_refl [simp]: "grant_follows d d g g"
  by (simp add: grant_follows_def)

lemma grant_follows_trans: "grant_follows d d' g g' \<Longrightarrow> grant_follows d' d'' g' g'' \<Longrightarrow> grant_follows d d'' g g''"
  unfolding grant_follows_def by (metis order_trans less_le_trans le_less_trans)

interpretation grants: protocol grant_protocol
proof
  show "grant_protocol d d" for d
    by (auto simp: grant_protocol_def intro: grant_follows_refl)
  show "grant_protocol d1 d3" if "grant_protocol d1 d2" "grant_protocol d2 d3" for d1 d2 d3
    using that unfolding grant_protocol_def by (meson grant_follows_trans)
qed

lemma grant_protocol_refl [simp]: "grant_protocol d d"
  by (rule grants.R_refl)

lemma next_version_rises:
  "bigint_ok v \<Longrightarrow> v < nextTicketVersion v" "bigint_ok v \<Longrightarrow> v < (if v = 0 then 1 else v) + 1"
proof -
  assume "bigint_ok v"
  then have v: "unat v < 2 ^ 63" by (simp add: bigint_ok_def)
  then have s: "v < v + 1" by (simp add: word_less_nat_alt unat_word_ariths)
  then show "v < nextTicketVersion v" by (simp add: nextTicketVersion_def)
  from s show "v < (if v = 0 then 1 else v) + 1" by simp
qed

lemma find_grant_member: "find_grant b c d = Some g \<Longrightarrow> g \<in> set (ac_grants d) \<and> cg_binding_id g = b \<and> cg_consumer g = c"
  unfolding find_grant_def by (drule find_SomeD) simp

lemma find_grant_id_member: "find_grant_id i d = Some g \<Longrightarrow> g \<in> set (ac_grants d) \<and> cg_id g = i"
  unfolding find_grant_id_def by (drule find_SomeD) simp

lemma grant_row_unique: "account_ok d \<Longrightarrow> g \<in> set (ac_grants d) \<Longrightarrow> g' \<in> set (ac_grants d) \<Longrightarrow> cg_id g = cg_id g' \<Longrightarrow> g = g'"
  by (rule unique_onD [OF account_okD(10)])

lemma grant_version_bounded: "account_ok d \<Longrightarrow> g \<in> set (ac_grants d) \<Longrightarrow> bigint_ok (cg_ticket_version g)"
  using account_okD(14) [of d] by (simp add: list_all_iff)

text \<open>The actions of a grant after they were replaced.\<close>

definition set_actions :: "nat \<Rightarrow> string list \<Rightarrow> account_db \<Rightarrow> account_db" where
  "set_actions i actions d = d\<lparr>ac_grant_actions := delete_where (\<lambda>a. ga_grant_id a = i) (ac_grant_actions d) @
     map (\<lambda>action. \<lparr>ga_grant_id = i, ga_action = action\<rparr>) actions\<rparr>"

lemma set_actions_tables [simp]: "ac_grants (set_actions i actions d) = ac_grants d"
  "ac_audit (set_actions i actions d) = ac_audit d" "ac_bindings (set_actions i actions d) = ac_bindings d"
  by (simp_all add: set_actions_def)

lemma grant_actions_set [simp]:
  "grant_actions j (set_actions i actions d) = (if j = i then actions else grant_actions j d)"
  by (auto simp: grant_actions_def set_actions_def delete_where_def o_def filter_map intro!: arg_cong [where f = "map ga_action"] filter_cong)

lemma grant_actions_other [simp]:
  "grant_actions j (save_grant g d) = grant_actions j d"
  "grant_actions j (d\<lparr>ac_audit := x\<rparr>) = grant_actions j d"
  "grant_actions j (d\<lparr>ac_grants := gs\<rparr>) = grant_actions j d"
  "grant_actions j (d\<lparr>ac_grants := gs, ac_next_grant_id := n\<rparr>) = grant_actions j d"
  "grant_actions j (d\<lparr>ac_unlinks := u\<rparr>) = grant_actions j d"
  "grant_actions j (d\<lparr>ac_unlink_targets := t\<rparr>) = grant_actions j d"
  by (simp_all add: grant_actions_def save_grant_def)

lemma replaceGrantActions_InrE:
  assumes "replaceGrantActions i actions w = (Inr u, w')"
  obtains fs where "account_ok (db w')" "w' = w\<lparr>faults := fs, db := set_actions i actions (db w)\<rparr>"
  using assms unfolding replaceGrantActions_def set_actions_def
  by (auto elim!: andThen_InrE account_change_InrE)

lemma insert_grant_InrE:
  assumes "insert_grant row w = (Inr g, w')"
  obtains fs where "account_ok (db w')" "g = row\<lparr>cg_id := ac_next_grant_id (db w)\<rparr>"
    "w' = w\<lparr>faults := fs, db := (db w)\<lparr>ac_grants := ac_grants (db w) @ [g], ac_next_grant_id := Suc (ac_next_grant_id (db w))\<rparr>\<rparr>"
  using assms unfolding insert_grant_def Let_def by (auto elim!: account_write_InrE)

lemma grant_audit_InrE:
  assumes "writeGrantAudit b i actor w = (Inr u, w')"
  obtains fs a where "w' = w\<lparr>faults := fs, db := (db w)\<lparr>ac_audit := a\<rparr>\<rparr>"
  using assms unfolding writeGrantAudit_def Let_def by (elim RecordTx_InrE) blast

lemma RecordTx_world:
  fixes w :: "(account_db, 'l) world"
  assumes "RecordTx input w = (r, w')"
  shows "\<exists>fs a. w' = w\<lparr>faults := fs, db := (db w)\<lparr>ac_audit := a\<rparr>\<rparr>"
proof -
  have same: "w\<lparr>faults := fs\<rparr> = w\<lparr>faults := fs, db := (db w)\<lparr>ac_audit := ac_audit (db w)\<rparr>\<rparr>" for fs by simp
  obtain bad fs where f: "next_fault (faults w) = (bad, fs)" by (metis surj_pair)
  let ?row = "buildAuditEventRow input"
  show ?thesis
  proof (cases "bad \<or> \<not> audit_row_ok ?row (db w)")
    case True
    with assms f have "w' = w\<lparr>faults := fs\<rparr>" by (cases bad) (simp_all add: RecordTx_def statement_def Let_def)
    with same show ?thesis by metis
  next
    case False
    with assms f have "w' = w\<lparr>faults := fs, db := (db w)\<lparr>ac_audit := ac_audit (db w) @ [?row]\<rparr>\<rparr>"
      by (simp add: RecordTx_def statement_def Let_def)
    then show ?thesis by blast
  qed
qed

text \<open>The best-effort audit is a savepoint: its failure leaves the tables alone.\<close>

lemma best_effort_audit_run:
  assumes "writeGrantAuditBestEffort b i actor w = (Inr u, w')" and "base w = Some d0"
  obtains fs a where "w' = w\<lparr>faults := fs, db := (db w)\<lparr>ac_audit := a\<rparr>\<rparr>"
proof -
  obtain r w1 where run: "nested_transaction AcDb (writeGrantAudit b i actor) w = (r, w1)" by (metis surj_pair)
  with assms have w': "w' = w1" by (simp add: writeGrantAuditBestEffort_def effect_simps)
  obtain r2 w2 where body: "writeGrantAudit b i actor w = (r2, w2)" by (metis surj_pair)
  have "\<exists>fs a. w2 = w\<lparr>faults := fs, db := (db w)\<lparr>ac_audit := a\<rparr>\<rparr>"
    using body unfolding writeGrantAudit_def Let_def by (rule RecordTx_world)
  then obtain fs a where w2: "w2 = w\<lparr>faults := fs, db := (db w)\<lparr>ac_audit := a\<rparr>\<rparr>" by blast
  show thesis
  proof (cases r2)
    case (Inl e)
    with run body assms(2) have "w1 = w2\<lparr>db := db w\<rparr>" by (simp add: nested_transaction_def)
    with w2 have "w1 = w\<lparr>faults := fs, db := (db w)\<lparr>ac_audit := ac_audit (db w)\<rparr>\<rparr>" by simp
    with that w' show thesis by blast
  next
    case (Inr x)
    with run body assms(2) have "w1 = w2" by (simp add: nested_transaction_def)
    with w2 w' that show thesis by blast
  qed
qed

section \<open>Runs of the serializable transactions\<close>

lemma commit_check_world: "commit_check conflict x w = (Inr y, w') \<Longrightarrow> y = x \<and> w' = w"
  by (simp add: commit_check_def split: if_splits)

lemma commit_check_pins [keeps_rules, simp]: "pins_committed (commit_check conflict x)"
  by (simp add: commit_check_def pins_committed_def)

lemma serializable_runs:
  assumes "protocol R" and "pins_committed m"
    and body: "\<And>w x w'. m w = (Inr x, w') \<Longrightarrow> base w = Some (db w) \<Longrightarrow> R (db w) (db w')"
  shows "runs R (serializable conflict m)"
  unfolding serializable_def
proof (rule protocol.transaction [OF assms(1)])
  show "pins_committed (andThen m (commit_check conflict))"
    using assms(2) by (intro pins_andThen) simp_all
  show "R (db w) (db w')" if "andThen m (commit_check conflict) w = (Inr x, w')" "base w = Some (db w)" for w x w'
    using that(1)
  proof (rule andThen_InrE)
    fix y w1 assume "m w = (Inr y, w1)" "commit_check conflict y w1 = (Inr x, w')"
    with body that(2) commit_check_world show ?thesis by metis
  qed
qed

lemma grant_attempts_runs:
  assumes "protocol R" and "\<And>c. runs R (serializable c m)"
  shows "runs R (grant_attempts n conflicts m)"
proof (induction n arbitrary: conflicts)
  case 0
  show ?case by (simp add: assms(2))
next
  case (Suc n)
  show ?case unfolding grant_attempts.simps
    by (intro protocol.andThen [OF assms(1)] protocol.attempt [OF assms(1)] protocol.case_sum [OF assms(1)]
        protocol.if_rule [OF assms(1)] protocol.return [OF assms(1)] protocol.raise [OF assms(1)] assms(2) Suc.IH)
qed

lemma serializable_InrE:
  assumes "serializable conflict m w = (Inr x, w')" and "base w = None"
  obtains w1 fs where "m (w\<lparr>base := Some (db w)\<rparr>) = (Inr x, w1)" "w' = w1\<lparr>base := None, faults := fs\<rparr>"
  using assms unfolding serializable_def
  by (auto elim!: transaction_InrE andThen_InrE dest!: commit_check_world)

text \<open>A failed attempt leaves the tables as they were.\<close>

lemma serializable_failed:
  assumes "serializable conflict m w = (Inl e, w')" and "base w = None" and "pins_committed m"
  shows "db w' = db w \<and> base w' = None"
proof -
  have "pins_committed (andThen m (commit_check conflict))"
    using assms(3) by (intro pins_andThen) simp_all
  from transaction_atomic [OF this assms(2), of AcDb e] assms(1)
    transaction_base [OF assms(2), of AcDb "andThen m (commit_check conflict)"]
  show ?thesis by (simp add: serializable_def)
qed

lemma grant_attempts_InrE:
  assumes "grant_attempts n conflicts m w = (Inr x, w')" and "base w = None" and "pins_committed m"
  obtains w1 w2 fs where "base w1 = Some (db w)" "db w1 = db w" "m w1 = (Inr x, w2)"
    "w' = w2\<lparr>base := None, faults := fs\<rparr>"
  using assms(1,2)
proof (induction n arbitrary: conflicts w thesis)
  case 0
  from 0(2) have "serializable (fst (next_fault conflicts)) m w = (Inr x, w')" by simp
  then show ?case using 0(3) by (rule serializable_InrE) (rule 0(1), auto)
next
  case (Suc n)
  obtain r w1 where run: "serializable (fst (next_fault conflicts)) m w = (r, w1)" by (metis surj_pair)
  show ?case
  proof (cases r)
    case (Inl e)
    with run Suc.prems(2) have "isRetryableGrantError e"
      "grant_attempts n (snd (next_fault conflicts)) m w1 = (Inr x, w')"
      by (auto simp: effect_simps split: if_splits)
    moreover have "db w1 = db w" "base w1 = None"
      using serializable_failed [OF run [unfolded Inl] Suc.prems(3) assms(3)] by simp_all
    ultimately show ?thesis using Suc.IH Suc.prems(1) by metis
  next
    case (Inr y)
    with run Suc.prems(2) have "y = x" "w1 = w'" by (auto simp: effect_simps)
    with Inr run have "serializable (fst (next_fault conflicts)) m w = (Inr x, w')" by simp
    then show ?thesis using Suc.prems(3) by (rule serializable_InrE) (rule Suc.prems(1), auto)
  qed
qed

section \<open>Every operation follows the version protocol\<close>

lemma grant_pins [keeps_rules, simp]:
  "pins_committed (insert_grant row)" "pins_committed (replaceGrantActions i actions)"
  "pins_committed (writeGrantAudit b j actor)" "pins_committed (writeGrantAuditBestEffort b j actor)"
  unfolding insert_grant_def replaceGrantActions_def writeGrantAudit_def writeGrantAuditBestEffort_def Let_def
  by (intro keeps_rules account_write_rules RecordTx_pins)+

lemma grant_body_pins [keeps_rules, simp]:
  "pins_committed (upsert_grant_body input b actions grantedAt now)"
  "pins_committed (revoke_grant_body rinput b revokedAt now)"
  "pins_committed (complete_invalidation_body i v e t now)"
  unfolding upsert_grant_body_def create_grant_def renew_grant_def save_renewed_def revoke_grant_body_def revoke_unknown_def
    revoke_known_def complete_invalidation_body_def settle_invalidation_def confirm_unlinks_def
    completeConfirmedUnlinkOperations_def Let_def
  by (intro keeps_rules grant_pins account_write_rules select_one_rules pins_query)+

text \<open>A grant is added.\<close>

lemma added_grant_protocol:
  assumes "ac_grants d' = ac_grants d @ [g]" and "\<And>i. i \<noteq> cg_id g \<Longrightarrow> grant_actions i d' = grant_actions i d"
    and ok': "account_ok d'"
  shows "grant_protocol d d'"
  unfolding grant_protocol_def
proof (intro impI conjI ballI)
  fix r assume r: "r \<in> set (ac_grants d)"
  have "unique_on cg_id (ac_grants d @ [g])" using account_okD(10) [OF ok'] assms(1) by simp
  with r have "cg_id r \<noteq> cg_id g" by (auto simp: unique_on_snoc list_ex_iff)
  with assms(2) have "grant_follows d d' r r" by (simp add: grant_follows_def allows_def)
  then show "\<exists>g'\<in>set (ac_grants d'). grant_follows d d' r g'" using r assms(1) by auto
qed (rule ok')

text \<open>One grant is saved.\<close>

lemma saved_grant_protocol:
  assumes g: "g \<in> set (ac_grants d)"
    and d': "ac_grants d' = update_where (\<lambda>r. cg_id r = cg_id g') (\<lambda>_. g') (ac_grants d)"
      "\<And>i. i \<noteq> cg_id g \<Longrightarrow> grant_actions i d' = grant_actions i d"
    and follows: "account_ok d \<Longrightarrow> grant_follows d d' g g'" and ok': "account_ok d'"
  shows "grant_protocol d d'"
  unfolding grant_protocol_def
proof (intro impI conjI ballI)
  assume ok: "account_ok d"
  note f = follows [OF ok]
  then have same: "cg_id g' = cg_id g" by (simp add: grant_follows_def)
  fix r assume r: "r \<in> set (ac_grants d)"
  show "\<exists>g'\<in>set (ac_grants d'). grant_follows d d' r g'"
  proof (cases "cg_id r = cg_id g")
    case True
    with grant_row_unique [OF ok r g] have "r = g" by simp
    with f g same show ?thesis unfolding d' by (force simp: set_update_where)
  next
    case False
    with d'(2) have "grant_follows d d' r r" by (simp add: grant_follows_def allows_def)
    with r False same show ?thesis unfolding d' by (force simp: set_update_where)
  qed
qed (rule ok')

lemma save_grant_tables [simp]:
  "ac_grants (save_grant g d) = update_where (\<lambda>r. cg_id r = cg_id g) (\<lambda>_. g) (ac_grants d)"
  "ac_grant_actions (save_grant g d) = ac_grant_actions d" "ac_bindings (save_grant g d) = ac_bindings d"
  by (simp_all add: save_grant_def)

lemma set_grantActionNames [simp]: "set (grantActionNames names) = set names"
  by (simp add: grantActionNames_def)

lemma renewed_key [simp]:
  "cg_id (renewed g c input t now) = cg_id g" "cg_binding_id (renewed g c input t now) = cg_binding_id g"
  "cg_consumer (renewed g c input t now) = cg_consumer g" "IsGrantActive (renewed g c input t now)"
  "cg_pending_entry_epoch (renewed g c input t now) = cg_pending_entry_epoch g"
  by (simp_all add: renewed_def Let_def IsGrantActive_def)

lemma renewed_version:
  assumes "bigint_ok (cg_ticket_version g)"
  shows "cg_ticket_version g \<le> cg_ticket_version (renewed g c input t now)"
    and "c \<or> \<not> IsGrantActive g \<Longrightarrow> cg_ticket_version g < cg_ticket_version (renewed g c input t now)"
  using next_version_rises(1) [OF assms]
  by (auto simp: renewed_def Let_def IsGrantActive_def)

lemma revoked_key [simp]:
  "cg_id (revoked g t now) = cg_id g" "cg_binding_id (revoked g t now) = cg_binding_id g"
  "cg_consumer (revoked g t now) = cg_consumer g" "\<not> IsGrantActive (revoked g t now)"
  "cg_pending_entry_epoch (revoked g t now) = cg_pending_entry_epoch g"
  by (simp_all add: revoked_def IsGrantActive_def)

lemma revoked_version:
  "bigint_ok (cg_ticket_version g) \<Longrightarrow> cg_ticket_version g < cg_ticket_version (revoked g t now)"
  using next_version_rises(2) by (simp add: revoked_def)

lemma audited_InrE:
  assumes "andThen (writeGrantAudit b i actor) (\<lambda>_. return x) w = (Inr y, w')"
  obtains a where "y = x" "db w' = (db w)\<lparr>ac_audit := a\<rparr>" "base w' = base w"
proof (rule andThen_InrE [OF assms])
  fix u w1 assume audit: "writeGrantAudit b i actor w = (Inr u, w1)"
  assume "return x w1 = (Inr y, w')"
  then have y: "y = x" "w' = w1" by (simp_all add: return_def)
  from audit obtain fs a where "w1 = w\<lparr>faults := fs, db := (db w)\<lparr>ac_audit := a\<rparr>\<rparr>" by (rule grant_audit_InrE)
  with y have "db w' = (db w)\<lparr>ac_audit := a\<rparr>" "base w' = base w" by simp_all
  with y(1) show thesis by (rule that)
qed

lemma create_grant_protocol:
  assumes "create_grant input b actions t now w = (Inr out, w')"
  shows "grant_protocol (db w) (db w')"
  using assms unfolding create_grant_def
proof (rule andThen_InrE)
  fix g w1
  assume ins: "insert_grant (new_grant (ug_binding_id input) (ug_consumer input) GrantActive (ug_granted_by input) t None now) w = (Inr g, w1)"
    and rest: "andThen (replaceGrantActions (cg_id g) actions) (\<lambda>_.
      andThen (writeGrantAudit b (ug_binding_id input) (auditActorUserID (ug_granted_by input))) (\<lambda>_.
      return \<lparr>go_grant = g, go_actions = actions, go_created = True, go_minimum = None\<rparr>)) w1 = (Inr out, w')"
  from rest obtain u w2 where "replaceGrantActions (cg_id g) actions w1 = (Inr u, w2)"
    and last: "andThen (writeGrantAudit b (ug_binding_id input) (auditActorUserID (ug_granted_by input))) (\<lambda>_.
      return \<lparr>go_grant = g, go_actions = actions, go_created = True, go_minimum = None\<rparr>) w2 = (Inr out, w')"
    by (rule andThen_InrE)
  then have "account_ok (set_actions (cg_id g) actions (db w1))" "db w2 = set_actions (cg_id g) actions (db w1)"
    by (auto elim!: replaceGrantActions_InrE)
  moreover from last obtain a where "db w' = (db w2)\<lparr>ac_audit := a\<rparr>"
    by (rule audited_InrE)
  moreover from ins have "ac_grants (db w1) = ac_grants (db w) @ [g]" "\<And>i. grant_actions i (db w1) = grant_actions i (db w)"
    by (auto elim!: insert_grant_InrE)
  ultimately show ?thesis
    by (intro added_grant_protocol [where g = g]) simp_all
qed

lemma save_renewed_run:
  assumes run: "save_renewed g names input b actions t now w = (Inr out, w')"
  defines "c \<equiv> grantActionNames names \<noteq> actions"
  defines "d1 \<equiv> (if c then set_actions (cg_id g) actions (db w) else db w)"
  defines "saved \<equiv> renewed g c input t now"
  obtains a where "account_ok (save_grant saved d1)" "db w' = (save_grant saved d1)\<lparr>ac_audit := a\<rparr>"
    "go_grant out = saved" "go_minimum out = renewal_minimum g c saved"
proof -
  from run [unfolded save_renewed_def Let_def, folded c_def, folded saved_def]
  obtain u w1 where first: "(if c then replaceGrantActions (cg_id g) actions else return ()) w = (Inr u, w1)"
    and rest: "andThen (account_change (save_grant saved)) (\<lambda>_.
      andThen (writeGrantAudit b (ug_binding_id input) (auditActorUserID (ug_granted_by input))) (\<lambda>_.
      return \<lparr>go_grant = saved, go_actions = (if c then actions else names), go_created = False,
              go_minimum = renewal_minimum g c saved\<rparr>)) w1 = (Inr out, w')"
    by (rule andThen_InrE)
  from first have w1: "db w1 = d1"
    by (auto elim!: replaceGrantActions_InrE return_InrE simp: d1_def split: if_splits)
  from rest obtain u2 w2 where "account_change (save_grant saved) w1 = (Inr u2, w2)"
    and last: "andThen (writeGrantAudit b (ug_binding_id input) (auditActorUserID (ug_granted_by input))) (\<lambda>_.
      return \<lparr>go_grant = saved, go_actions = (if c then actions else names), go_created = False,
              go_minimum = renewal_minimum g c saved\<rparr>) w2 = (Inr out, w')"
    by (rule andThen_InrE)
  then have "account_ok (save_grant saved d1)" "db w2 = save_grant saved d1"
    using w1 by (auto elim!: account_change_InrE)
  moreover from last obtain a where a: "out = \<lparr>go_grant = saved, go_actions = (if c then actions else names),
      go_created = False, go_minimum = renewal_minimum g c saved\<rparr>" "db w' = (db w2)\<lparr>ac_audit := a\<rparr>"
    by (rule audited_InrE)
  ultimately have "account_ok (save_grant saved d1)" "db w' = (save_grant saved d1)\<lparr>ac_audit := a\<rparr>" by simp_all
  moreover from a(1) have "go_grant out = saved" "go_minimum out = renewal_minimum g c saved" by simp_all
  ultimately show thesis by (rule that)
qed

lemma renewed_follows:
  fixes g :: consumer_grant and d :: account_db and actions :: "string list"
  defines "c \<equiv> grantActionNames (grant_actions (cg_id g) d) \<noteq> actions"
  defines "d1 \<equiv> (if c then set_actions (cg_id g) actions d else d)"
  assumes "bigint_ok (cg_ticket_version g)"
  shows "grant_follows d ((save_grant (renewed g c input t now) d1)\<lparr>ac_audit := a\<rparr>) g (renewed g c input t now)"
proof -
  have "allows ((save_grant (renewed g c input t now) d1)\<lparr>ac_audit := a\<rparr>) (renewed g c input t now) = allows d g"
    if "\<not> c" "IsGrantActive g"
    using that by (simp add: allows_def d1_def)
  then show ?thesis
    unfolding grant_follows_def using renewed_version [OF assms(3), of c input t now]
    by (cases "c \<or> \<not> IsGrantActive g") simp_all
qed

lemma renew_grant_protocol:
  assumes g: "g \<in> set (ac_grants (db w))" and run: "renew_grant g input b actions t now w = (Inr out, w')"
  shows "grant_protocol (db w) (db w')"
  using run unfolding renew_grant_def
proof (elim andThen_InrE query_InrE)
  fix names w1 fs
  assume names: "names = grant_actions (cg_id g) (db w)" and w1: "w1 = w\<lparr>faults := fs\<rparr>"
    and "save_renewed g names input b actions t now w1 = (Inr out, w')"
  from w1 have db1: "db w1 = db w" by simp
  show ?thesis
  proof (rule save_renewed_run [OF \<open>save_renewed g names input b actions t now w1 = (Inr out, w')\<close>])
    let ?c = "grantActionNames names \<noteq> actions"
    let ?saved = "renewed g ?c input t now"
    let ?d1 = "if ?c then set_actions (cg_id g) actions (db w1) else db w1"
    fix a assume ok: "account_ok (save_grant ?saved ?d1)" and w': "db w' = (save_grant ?saved ?d1)\<lparr>ac_audit := a\<rparr>"
    show ?thesis
    proof (rule saved_grant_protocol [OF g])
      show "grant_follows (db w) (db w') g ?saved" if "account_ok (db w)"
        unfolding w' by (simp only: names db1) (rule renewed_follows [OF grant_version_bounded [OF that g]])
    qed (use ok w' db1 in simp_all)
  qed
qed

lemma upsert_body_protocol:
  assumes "upsert_grant_body input b actions t now w = (Inr out, w')"
  shows "grant_protocol (db w) (db w')"
  using assms unfolding upsert_grant_body_def
proof (elim andThen_InrE query_InrE)
  fix found w1 fs
  assume found: "found = find_grant (ug_binding_id input) (ug_consumer input) (db w)" and w1: "w1 = w\<lparr>faults := fs\<rparr>"
    and run: "(case found of None \<Rightarrow> create_grant input b actions t now
      | Some g \<Rightarrow> renew_grant g input b actions t now) w1 = (Inr out, w')"
  show ?thesis
  proof (cases found)
    case None
    with run w1 create_grant_protocol show ?thesis by fastforce
  next
    case (Some g)
    with found w1 have "g \<in> set (ac_grants (db w1))" using find_grant_member by fastforce
    from renew_grant_protocol [OF this] run Some w1 show ?thesis by fastforce
  qed
qed

text \<open>What the transaction of a revocation leaves: the row it hands on is the stored one.\<close>

lemma audited_best_effort_InrE:
  assumes "andThen (writeGrantAuditBestEffort b i actor) (\<lambda>_. return x) w = (Inr y, w')" and "base w = Some d0"
  obtains a where "y = x" "db w' = (db w)\<lparr>ac_audit := a\<rparr>" "base w' = base w"
proof (rule andThen_InrE [OF assms(1)])
  fix u w1 assume audit: "writeGrantAuditBestEffort b i actor w = (Inr u, w1)"
  assume "return x w1 = (Inr y, w')"
  then have y: "y = x" "w' = w1" by (simp_all add: return_def)
  from audit assms(2) obtain fs a where "w1 = w\<lparr>faults := fs, db := (db w)\<lparr>ac_audit := a\<rparr>\<rparr>"
    by (rule best_effort_audit_run)
  with y have "db w' = (db w)\<lparr>ac_audit := a\<rparr>" "base w' = base w" by simp_all
  with y(1) show thesis by (rule that)
qed

lemma revoke_unknown_run:
  assumes run: "revoke_unknown input b t now w = (Inr out, w')" and w: "base w = Some d0"
  obtains i a where "account_ok (db w')" "ac_grants (db w') = ac_grants (db w) @ [go_grant out]"
    "\<And>j. grant_actions j (db w') = grant_actions j (db w)"
    "go_grant out = (new_grant (rg_binding_id input) (rg_consumer input) GrantRevoked None t (Some t) now)\<lparr>cg_id := i\<rparr>"
    "go_minimum out = Some 1"
  using run unfolding revoke_unknown_def
proof (rule andThen_InrE)
  fix g w1
  assume ins: "insert_grant (new_grant (rg_binding_id input) (rg_consumer input) GrantRevoked None t (Some t) now) w = (Inr g, w1)"
    and rest: "andThen (writeGrantAuditBestEffort b (rg_binding_id input) (auditActorUserID (rg_actor_user_id input))) (\<lambda>_.
     return \<lparr>go_grant = g, go_actions = [], go_created = True, go_minimum = Some 1\<rparr>) w1 = (Inr out, w')"
  from ins w have w1: "base w1 = Some d0" "account_ok (db w1)" "ac_grants (db w1) = ac_grants (db w) @ [g]"
    "\<And>j. grant_actions j (db w1) = grant_actions j (db w)"
    "\<exists>i. g = (new_grant (rg_binding_id input) (rg_consumer input) GrantRevoked None t (Some t) now)\<lparr>cg_id := i\<rparr>"
    by (auto elim!: insert_grant_InrE)
  from rest w1(1) obtain a where "out = \<lparr>go_grant = g, go_actions = [], go_created = True, go_minimum = Some 1\<rparr>"
    "db w' = (db w1)\<lparr>ac_audit := a\<rparr>" by (rule audited_best_effort_InrE)
  with w1 that show thesis by auto
qed

definition already_revoked :: "consumer_grant \<Rightarrow> bool" where
  "already_revoked g \<longleftrightarrow> cg_status g = GrantRevoked \<and> cg_revoked_at g \<noteq> None"

lemma revoke_known_run:
  assumes run: "revoke_known g input b t now w = (Inr out, w')" and w: "base w = Some d0"
  obtains (old) a where "already_revoked g" "db w' = (db w)\<lparr>ac_audit := a\<rparr>" "go_grant out = g"
      "go_minimum out = (if cg_last_invalidated_at g = None
         then Some (if cg_ticket_version g = 0 then 1 else cg_ticket_version g) else None)"
    | (new) a where "\<not> already_revoked g" "account_ok (save_grant (revoked g t now) (db w))"
      "db w' = (save_grant (revoked g t now) (db w))\<lparr>ac_audit := a\<rparr>" "go_grant out = revoked g t now"
      "go_minimum out = Some (cg_ticket_version (revoked g t now))"
  using run unfolding revoke_known_def Let_def already_revoked_def [symmetric]
proof (elim andThen_InrE [of "aquery _"] query_InrE)
  fix names w1 fs
  assume w1: "w1 = w\<lparr>faults := fs\<rparr>"
  let ?audit = "writeGrantAuditBestEffort b (rg_binding_id input) (auditActorUserID (rg_actor_user_id input))"
  let ?old = "\<lparr>go_grant = g, go_actions = names, go_created = False, go_minimum = (if cg_last_invalidated_at g = None
     then Some (if cg_ticket_version g = 0 then 1 else cg_ticket_version g) else None)\<rparr>"
  let ?new = "\<lparr>go_grant = revoked g t now, go_actions = names, go_created = False,
     go_minimum = Some (cg_ticket_version (revoked g t now))\<rparr>"
  assume rest: "(if already_revoked g then andThen ?audit (\<lambda>_. return ?old)
     else andThen (account_change (save_grant (revoked g t now))) (\<lambda>_. andThen ?audit (\<lambda>_. return ?new))) w1 = (Inr out, w')"
  from w w1 have b1: "base w1 = Some d0" and db1: "db w1 = db w" by simp_all
  show thesis
  proof (cases "already_revoked g")
    case True
    with rest have "andThen ?audit (\<lambda>_. return ?old) w1 = (Inr out, w')" by simp
    then obtain a where out: "out = ?old" and w': "db w' = (db w1)\<lparr>ac_audit := a\<rparr>"
      using b1 by (rule audited_best_effort_InrE)
    show thesis by (rule old [OF True w' [unfolded db1]]) (simp_all only: out grant_outcome.simps)
  next
    case False
    with rest have "andThen (account_change (save_grant (revoked g t now))) (\<lambda>_. andThen ?audit (\<lambda>_. return ?new)) w1 = (Inr out, w')"
      by simp
    then obtain u w2 where c: "account_change (save_grant (revoked g t now)) w1 = (Inr u, w2)"
      and last: "andThen ?audit (\<lambda>_. return ?new) w2 = (Inr out, w')" by (rule andThen_InrE)
    from c b1 db1 have w2: "base w2 = Some d0" "db w2 = save_grant (revoked g t now) (db w)"
      "account_ok (save_grant (revoked g t now) (db w))" by (auto elim!: account_change_InrE)
    from last w2(1) obtain a where out: "out = ?new" and w': "db w' = (db w2)\<lparr>ac_audit := a\<rparr>"
      by (rule audited_best_effort_InrE)
    show thesis by (rule new [OF False w2(3) w' [unfolded w2(2)]]) (simp_all only: out grant_outcome.simps)
  qed
qed

lemma audited_protocol: "d' = d\<lparr>ac_audit := a\<rparr> \<Longrightarrow> grant_protocol d d'"
  by (auto simp: grant_protocol_def grant_follows_def allows_def)

lemma revoke_known_protocol:
  assumes g: "g \<in> set (ac_grants (db w))" and "revoke_known g input b t now w = (Inr out, w')" and "base w = Some d0"
  shows "grant_protocol (db w) (db w')"
  using assms(2,3)
proof (rule revoke_known_run)
  fix a assume "db w' = (db w)\<lparr>ac_audit := a\<rparr>"
  then show ?thesis by (rule audited_protocol)
next
  fix a assume ok: "account_ok (save_grant (revoked g t now) (db w))"
    and w': "db w' = (save_grant (revoked g t now) (db w))\<lparr>ac_audit := a\<rparr>"
  show ?thesis
  proof (rule saved_grant_protocol [OF g, where g' = "revoked g t now"])
    show "grant_follows (db w) (db w') g (revoked g t now)" if "account_ok (db w)"
      using revoked_version [OF grant_version_bounded [OF that g], of t now]
      by (simp add: grant_follows_def less_imp_le)
  qed (use ok w' in simp_all)
qed

lemma revoke_body_protocol:
  assumes "revoke_grant_body input b t now w = (Inr out, w')" and "base w = Some (db w)"
  shows "grant_protocol (db w) (db w')"
  using assms(1) unfolding revoke_grant_body_def
proof (elim andThen_InrE query_InrE)
  fix found w1 fs
  assume found: "found = find_grant (rg_binding_id input) (rg_consumer input) (db w)" and w1: "w1 = w\<lparr>faults := fs\<rparr>"
    and run: "(case found of None \<Rightarrow> revoke_unknown input b t now
      | Some g \<Rightarrow> revoke_known g input b t now) w1 = (Inr out, w')"
  from w1 assms(2) have b1: "base w1 = Some (db w)" and db1: "db w1 = db w" by simp_all
  show ?thesis
  proof (cases found)
    case None
    with run have "revoke_unknown input b t now w1 = (Inr out, w')" by simp
    then show ?thesis using b1
    proof (rule revoke_unknown_run)
      assume "account_ok (db w')" "ac_grants (db w') = ac_grants (db w1) @ [go_grant out]"
        "\<And>j. grant_actions j (db w') = grant_actions j (db w1)"
      then show ?thesis unfolding db1 by (intro added_grant_protocol)
    qed
  next
    case (Some g)
    with found db1 have "g \<in> set (ac_grants (db w1))" using find_grant_member by fastforce
    from revoke_known_protocol [OF this _ b1] run Some db1 show ?thesis by simp
  qed
qed

lemma confirm_unlinks_rules:
  "frames ac_grants (confirm_unlinks i e t)" "frames ac_grant_actions (confirm_unlinks i e t)"
  "keeps account_ok (confirm_unlinks i e t)"
  unfolding confirm_unlinks_def completeConfirmedUnlinkOperations_def
  by (intro keeps_rules account_write_rules account_change_frames | simp)+

lemma complete_body_keeps [keeps_rules, simp]: "keeps account_ok (complete_invalidation_body i v e t now)"
  unfolding complete_invalidation_body_def settle_invalidation_def Let_def
  by (intro keeps_rules account_write_rules select_one_rules confirm_unlinks_rules)+

lemma settle_invalidation_run:
  assumes "settle_invalidation i v e t n current actions w = (Inr r, w')"
  shows "r = (current, actions) \<and> ac_grants (db w') = ac_grants (db w) \<and> ac_grant_actions (db w') = ac_grant_actions (db w) \<and>
    (n = 0 \<longrightarrow> cg_last_invalidated_at current \<noteq> None)"
proof -
  have "r = (current, actions)" "n = 0 \<longrightarrow> cg_last_invalidated_at current \<noteq> None"
    using assms by (auto simp: settle_invalidation_def effect_simps split: if_splits prod.splits sum.splits)
  moreover have "frames ac_grants (settle_invalidation i v e t n current actions)"
    "frames ac_grant_actions (settle_invalidation i v e t n current actions)"
    unfolding settle_invalidation_def by (intro keeps_rules confirm_unlinks_rules)+
  ultimately show ?thesis using assms framesD by (metis snd_conv)
qed

lemma complete_body_run:
  assumes run: "complete_invalidation_body i v e t now w = (Inr (current, actions), w')"
  obtains "ac_grants (db w') = update_where (awaits i v e) (confirmed t now) (ac_grants (db w))"
    "ac_grant_actions (db w') = ac_grant_actions (db w)" "find_grant_id i (db w') = Some current"
    "actions = grant_actions i (db w')"
    "count_where (awaits i v e) (ac_grants (db w)) = 0 \<Longrightarrow> cg_last_invalidated_at current \<noteq> None"
  using run unfolding complete_invalidation_body_def Let_def
proof (elim andThen_InrE account_write_InrE select_one_InrE query_InrE)
  fix n c names w1 w2 w3 fs d fs2 fs3
  assume c: "(count_where (awaits i v e) (ac_grants (db w)), (db w)\<lparr>ac_grants :=
      update_where (awaits i v e) (confirmed t now) (ac_grants (db w))\<rparr>) = (n, d)"
    and w1: "w1 = w\<lparr>faults := fs, db := d\<rparr>" and found: "find_grant_id i (db w1) = Some c"
    and w2: "w2 = w1\<lparr>faults := fs2\<rparr>" and names: "names = grant_actions i (db w2)" and w3: "w3 = w2\<lparr>faults := fs3\<rparr>"
    and last: "settle_invalidation i v e t n c names w3 = (Inr (current, actions), w')"
  from settle_invalidation_run [OF last] w1 w2 w3
  have g: "ac_grants (db w') = ac_grants d" "ac_grant_actions (db w') = ac_grant_actions d"
    and r: "current = c" "actions = names" and n: "n = 0 \<longrightarrow> cg_last_invalidated_at c \<noteq> None" by simp_all
  from found g w1 r have "find_grant_id i (db w') = Some current" by (simp add: find_grant_id_def)
  moreover from names g w1 w2 r have "actions = grant_actions i (db w')" by (simp add: grant_actions_def)
  ultimately show thesis using that g c n r by auto
qed

lemma confirmed_key [simp]: "cg_id (confirmed t now g) = cg_id g" "cg_binding_id (confirmed t now g) = cg_binding_id g"
  "cg_consumer (confirmed t now g) = cg_consumer g" "cg_ticket_version (confirmed t now g) = cg_ticket_version g"
  "IsGrantActive (confirmed t now g) = IsGrantActive g"
  by (simp_all add: confirmed_def IsGrantActive_def)

lemma complete_body_protocol:
  assumes run: "complete_invalidation_body i v e t now w = (Inr x, w')" and w: "base w = Some (db w)"
  shows "grant_protocol (db w) (db w')"
  unfolding grant_protocol_def
proof (intro impI conjI ballI)
  obtain current actions where x: "x = (current, actions)" by (cases x)
  assume "account_ok (db w)"
  with w have "holds account_ok w" by (simp add: holds_def)
  from keepsD [OF complete_body_keeps this, of i v e t now] run show "account_ok (db w')" by (simp add: holds_def)
  fix g assume g: "g \<in> set (ac_grants (db w))"
  from run [unfolded x] show "\<exists>g'\<in>set (ac_grants (db w')). grant_follows (db w) (db w') g g'"
  proof (rule complete_body_run)
    assume d': "ac_grants (db w') = update_where (awaits i v e) (confirmed t now) (ac_grants (db w))"
      "ac_grant_actions (db w') = ac_grant_actions (db w)"
    let ?g = "if awaits i v e g then confirmed t now g else g"
    have "?g \<in> set (ac_grants (db w'))" using g d' by (simp add: set_update_where)
    moreover have "grant_follows (db w) (db w') g ?g"
      using d'(2) by (simp add: grant_follows_def allows_def grant_actions_def)
    ultimately show ?thesis by blast
  qed
qed

text \<open>An invalidator that only reads the tables, as the one the services are built with.\<close>

definition invalidator_reads :: "'l grant_invalidator \<Rightarrow> bool" where
  "invalidator_reads invalidator \<longleftrightarrow> (case invalidator of None \<Rightarrow> True | Some f \<Rightarrow> \<forall>x. frames (\<lambda>d. d) (f x))"

lemma invalidator_reads_runs:
  assumes "invalidator_reads invalidator" and "invalidator = Some f"
  shows "runs grant_protocol (f x)"
proof -
  from assms have "frames (\<lambda>d. d) (f x)" by (simp add: invalidator_reads_def)
  from runs_mono [OF frames_still [OF this], of grant_protocol] show ?thesis by simp
qed

lemma propagate_runs: "invalidator_reads invalidator \<Longrightarrow> runs grant_protocol (propagate invalidator b g actor v t now)"
  unfolding propagate_def invalidateGrant_def completeGrantInvalidation_def Let_def
  by (intro grants.map_error grants.andThen grants.case_option grants.return grants.transaction
      complete_body_protocol grant_body_pins) (auto intro: invalidator_reads_runs)

lemma guard_runs: "runs grant_protocol (validateConsumer c)" "runs grant_protocol (getBinding i)"
  "runs grant_protocol (ensureBindingOwnedByUser u i)"
  unfolding validateConsumer_def getBinding_def ensureBindingOwnedByUser_def by (intro grants.rules)+

lemma UpsertGrant_runs: "invalidator_reads invalidator \<Longrightarrow> runs grant_protocol (UpsertGrant invalidator conflicts input now)"
  unfolding UpsertGrant_def runGrantTransaction_def Let_def
  by (intro grants.andThen grants.case_option grants.return grants.lift_result guard_runs propagate_runs
      grant_attempts_runs grants.protocol_axioms serializable_runs grant_body_pins upsert_body_protocol)

lemma RevokeGrant_runs: "invalidator_reads invalidator \<Longrightarrow> runs grant_protocol (RevokeGrant invalidator conflicts input now)"
  unfolding RevokeGrant_def runGrantTransaction_def Let_def
  by (intro grants.andThen grants.case_option grants.return guard_runs propagate_runs
      grant_attempts_runs grants.protocol_axioms serializable_runs grant_body_pins revoke_body_protocol)

lemma ReconcileGrant_runs: "invalidator_reads invalidator \<Longrightarrow> runs grant_protocol (ReconcileGrantInvalidation invalidator i now)"
  unfolding ReconcileGrantInvalidation_def Let_def
  by (intro grants.rules guard_runs propagate_runs)

section \<open>Revocation\<close>

text \<open>A successful propagation: the invalidator answered, and the grant is recorded as confirmed.\<close>

lemma propagate_run:
  assumes run: "propagate (Some invalidate) b g actor v t now w = (Inr (current, actions), w')"
    and reads: "invalidator_reads (Some invalidate)" and w: "base w = None" and ok: "account_ok (db w)"
    and g: "g \<in> set (ac_grants (db w))" "cg_last_invalidated_at g = None"
  obtains u w1 where
    "invalidate (invalidation_input b (cg_consumer g) actor v (cg_pending_entry_epoch g)) w = (Inr u, w1)"
    "v = cg_ticket_version g" "current = confirmed t now g"
    "ac_grants (db w') = update_where (awaits (cg_id g) v (cg_pending_entry_epoch g)) (confirmed t now) (ac_grants (db w))"
proof -
  let ?i = "invalidation_input b (cg_consumer g) actor v (cg_pending_entry_epoch g)"
  let ?p = "awaits (cg_id g) v (cg_pending_entry_epoch g)"
  from run obtain u w1 where told: "invalidate ?i w = (Inr u, w1)"
    and settled: "completeGrantInvalidation (cg_id g) v (cg_pending_entry_epoch g) t now w1 = (Inr (current, actions), w')"
    unfolding propagate_def invalidateGrant_def by (auto elim!: map_error_InrE andThen_InrE)
  from reads have "frames (\<lambda>d. d) (invalidate ?i)" by (simp add: invalidator_reads_def)
  from runsD [OF frames_still [OF this] told w] have w1: "base w1 = None" "db w1 = db w" by simp_all
  from settled w1(1) obtain w2 fs where
    "complete_invalidation_body (cg_id g) v (cg_pending_entry_epoch g) t now (w1\<lparr>base := Some (db w1)\<rparr>) = (Inr (current, actions), w2)"
    and w': "w' = w2\<lparr>base := None, faults := fs\<rparr>"
    unfolding completeGrantInvalidation_def by (rule transaction_InrE)
  then have "ac_grants (db w2) = update_where ?p (confirmed t now) (ac_grants (db w)) \<and>
      find_grant_id (cg_id g) (db w2) = Some current \<and>
      (count_where ?p (ac_grants (db w)) = 0 \<longrightarrow> cg_last_invalidated_at current \<noteq> None)"
    using w1 by (elim complete_body_run) simp
  then have d2: "ac_grants (db w2) = update_where ?p (confirmed t now) (ac_grants (db w))"
      "find_grant_id (cg_id g) (db w2) = Some current"
      "count_where ?p (ac_grants (db w)) = 0 \<Longrightarrow> cg_last_invalidated_at current \<noteq> None" by simp_all
  have "find (\<lambda>r. cg_id r = cg_id g) (ac_grants (db w)) = Some g"
    by (rule find_unique [OF account_okD(10) [OF ok] g(1)]) simp
  with d2(1,2) have current: "current = (if ?p g then confirmed t now g else g)"
    by (simp add: find_grant_id_def find_update_where)
  have "?p g"
  proof (rule ccontr)
    assume no: "\<not> ?p g"
    have "\<not> ?p x" if "x \<in> set (ac_grants (db w))" for x
      using no grant_row_unique [OF ok g(1) that] by (cases "cg_id x = cg_id g") (auto simp: awaits_def)
    then have "count_where ?p (ac_grants (db w)) = 0"
      by (simp add: count_where_0 list_ex_iff)
    with d2(3) current no g(2) show False by simp
  qed
  then have cur: "current = confirmed t now g" and v: "v = cg_ticket_version g"
    using current by (simp_all add: awaits_def)
  from w' d2(1) have "ac_grants (db w') = update_where ?p (confirmed t now) (ac_grants (db w))" by simp
  with told v cur show thesis by (rule that)
qed

text \<open>What the transaction of a revocation hands on: a revoked row that is stored.\<close>

lemma revoke_body_run:
  assumes run: "revoke_grant_body input b t now w = (Inr out, w')" and w: "base w = Some (db w)" and ok: "account_ok (db w)"
  defines "k \<equiv> (\<lambda>d. find_grant (rg_binding_id input) (rg_consumer input) d)"
  obtains "account_ok (db w')" "k (db w') = Some (go_grant out)" "already_revoked (go_grant out)"
    "\<And>g. k (db w) = Some g \<Longrightarrow> \<not> already_revoked g \<Longrightarrow> cg_ticket_version g < cg_ticket_version (go_grant out)"
    "go_minimum out \<noteq> None \<Longrightarrow> cg_last_invalidated_at (go_grant out) = None"
    "go_minimum out = None \<Longrightarrow> k (db w) = Some (go_grant out) \<and> cg_last_invalidated_at (go_grant out) \<noteq> None"
  using run unfolding revoke_grant_body_def
proof (elim andThen_InrE query_InrE)
  fix found w1 fs
  assume found: "found = find_grant (rg_binding_id input) (rg_consumer input) (db w)" and w1: "w1 = w\<lparr>faults := fs\<rparr>"
    and rest: "(case found of None \<Rightarrow> revoke_unknown input b t now
      | Some g \<Rightarrow> revoke_known g input b t now) w1 = (Inr out, w')"
  note res = that
  have b1: "base w1 = Some (db w)" and db1: "db w1 = db w" using w w1 by simp_all
  have w1_ok: "holds account_ok w1" using b1 db1 ok by (simp add: holds_def)
  show thesis
  proof (cases found)
    case None
    with rest have "revoke_unknown input b t now w1 = (Inr out, w')" by simp
    then show thesis using b1
    proof (rule revoke_unknown_run)
      fix i
      assume ok': "account_ok (db w')" and gs: "ac_grants (db w') = ac_grants (db w1) @ [go_grant out]"
        and g: "go_grant out = (new_grant (rg_binding_id input) (rg_consumer input) GrantRevoked None t (Some t) now)\<lparr>cg_id := i\<rparr>"
        and m: "go_minimum out = Some 1"
      show thesis
      proof (rule res)
        show "k (db w') = Some (go_grant out)"
          using None found gs g db1 by (simp add: k_def find_grant_def find_snoc new_grant_def)
      qed (use ok' None found m g in \<open>simp_all add: k_def new_grant_def already_revoked_def\<close>)
    qed
  next
    case (Some g)
    then have g: "g \<in> set (ac_grants (db w))" "cg_binding_id g = rg_binding_id input" "cg_consumer g = rg_consumer input"
      using found find_grant_member by fastforce+
    have kg: "k (db w) = Some g" using found Some by (simp add: k_def)
    from rest Some have "revoke_known g input b t now w1 = (Inr out, w')" by simp
    then show thesis using b1
    proof (cases rule: revoke_known_run)
      case (old a)
      show thesis
      proof (rule res)
        show "account_ok (db w')" using old(2) db1 ok by simp
        show "k (db w') = Some (go_grant out)" using old(2,3) kg db1 by (simp add: k_def find_grant_def)
        show "already_revoked (go_grant out)" using old by simp
      qed (use old kg in \<open>auto split: if_splits\<close>)
    next
      case (new a)
      have ok': "account_ok (db w')" using new(2,3) by simp
      have "revoked g t now \<in> set (ac_grants (db w'))" using new(3) g(1) db1 by (force simp: set_update_where)
      then have "k (db w') = Some (revoked g t now)"
        unfolding k_def find_grant_def using g(2,3)
        by (intro find_unique [OF account_okD(11) [OF ok']]) auto
      then show thesis
        using new kg db1 revoked_version [OF grant_version_bounded [OF ok g(1)]]
        by (intro res) (auto simp: already_revoked_def revoked_def)
    qed
  qed
qed

lemma already_revoked_inactive: "already_revoked g \<Longrightarrow> \<not> IsGrantActive g"
  by (simp add: already_revoked_def IsGrantActive_def)

lemma already_revoked_confirmed [simp]: "already_revoked (confirmed t now g) = already_revoked g"
  by (simp add: already_revoked_def confirmed_def)

lemma getBinding_InrE:
  assumes "getBinding i w = (Inr b, w')"
  obtains fs where "live_binding i (db w) = Some b" "w' = w\<lparr>faults := fs\<rparr>"
  using assms unfolding getBinding_def by (rule select_one_InrE)

lemma validateConsumer_world:
  assumes "validateConsumer c w = (Inr u, w')"
  obtains fs where "w' = w\<lparr>faults := fs\<rparr>"
proof -
  have same: "w = w\<lparr>faults := faults w\<rparr>" by simp
  show thesis
  proof (cases "c \<in> set SupportedConsumers")
    case True
    with assms have "w' = w" by (simp add: validateConsumer_def effect_simps)
    with same that show thesis by metis
  next
    case False
    with assms show thesis unfolding validateConsumer_def
      by (auto elim!: andThen_InrE attempt_InrE query_world return_InrE raise_InrE intro: that split: sum.splits if_splits)
  qed
qed

lemma RevokeGrant_run:
  assumes run: "RevokeGrant invalidator conflicts input now w = (Inr r, w')"
  obtains w1 b where "db w1 = db w" "base w1 = base w" "live_binding (rg_binding_id input) (db w) = Some b"
    "andThen (runGrantTransaction conflicts (revoke_grant_body input b
        (if rg_revoked_at input = 0 then now else rg_revoked_at input) now)) (\<lambda>out. case go_minimum out of
       None \<Rightarrow> return (go_grant out, go_actions out)
     | Some minimum \<Rightarrow> propagate invalidator b (go_grant out) (rg_actor_user_id input) minimum
         (if rg_revoked_at input = 0 then now else rg_revoked_at input) now) w1 = (Inr r, w')"
  using run unfolding RevokeGrant_def Let_def
proof (elim andThen_InrE [of "validateConsumer _"] andThen_InrE [of "getBinding _"] validateConsumer_world getBinding_InrE)
  fix fs1 fs2 w1 w2 b
  assume "w1 = w\<lparr>faults := fs1\<rparr>" "w2 = w1\<lparr>faults := fs2\<rparr>" "live_binding (rg_binding_id input) (db w1) = Some b"
    and rest: "andThen (runGrantTransaction conflicts (revoke_grant_body input b
        (if rg_revoked_at input = 0 then now else rg_revoked_at input) now)) (\<lambda>out. case go_minimum out of
       None \<Rightarrow> return (go_grant out, go_actions out)
     | Some minimum \<Rightarrow> propagate invalidator b (go_grant out) (rg_actor_user_id input) minimum
         (if rg_revoked_at input = 0 then now else rg_revoked_at input) now) w2 = (Inr r, w')"
  then have "db w2 = db w" "base w2 = base w" "live_binding (rg_binding_id input) (db w) = Some b" by simp_all
  then show thesis using rest by (rule that)
qed

text \<open>What a confirmed revocation says: the invalidator was told the version of the row, or the row
  had been confirmed before.\<close>

definition platform_told ::
    "(GrantInvalidationInput \<Rightarrow> ('l, unit) aeff) \<Rightarrow> RevokeGrantInput \<Rightarrow> account_binding \<Rightarrow> consumer_grant \<Rightarrow> bool" where
  "platform_told invalidate input b g \<longleftrightarrow> (\<exists>epoch u w1 w2. invalidate
     (invalidation_input b (rg_consumer input) (rg_actor_user_id input) (cg_ticket_version g) epoch) w1 = (Inr u, w2))"

lemma revocation_settles:
  fixes input :: RevokeGrantInput
  assumes run: "RevokeGrant (Some invalidate) conflicts input now w = (Inr (g, actions), w')"
    and reads: "invalidator_reads (Some invalidate)" and w: "base w = None" and ok: "account_ok (db w)"
  defines "k \<equiv> (\<lambda>d. find_grant (rg_binding_id input) (rg_consumer input) d)"
  obtains b where "live_binding (rg_binding_id input) (db w) = Some b" "k (db w') = Some g" "already_revoked g"
    "cg_last_invalidated_at g \<noteq> None"
    "\<And>g0. k (db w) = Some g0 \<Longrightarrow> IsGrantActive g0 \<Longrightarrow> cg_ticket_version g0 < cg_ticket_version g"
    "platform_told invalidate input b g \<or> k (db w) = Some g"
  using run
proof (rule RevokeGrant_run)
  fix w1 b
  let ?t = "if rg_revoked_at input = 0 then now else rg_revoked_at input"
  assume w1: "db w1 = db w" "base w1 = base w" and b: "live_binding (rg_binding_id input) (db w) = Some b"
    and rest: "andThen (runGrantTransaction conflicts (revoke_grant_body input b ?t now)) (\<lambda>out. case go_minimum out of
       None \<Rightarrow> return (go_grant out, go_actions out)
     | Some minimum \<Rightarrow> propagate (Some invalidate) b (go_grant out) (rg_actor_user_id input) minimum ?t now) w1
     = (Inr (g, actions), w')"
  note res = that [OF b]
  from rest obtain out w2 where tx: "runGrantTransaction conflicts (revoke_grant_body input b ?t now) w1 = (Inr out, w2)"
    and after: "(case go_minimum out of None \<Rightarrow> return (go_grant out, go_actions out)
     | Some minimum \<Rightarrow> propagate (Some invalidate) b (go_grant out) (rg_actor_user_id input) minimum ?t now) w2
     = (Inr (g, actions), w')" by (rule andThen_InrE)
  have "base w1 = None" using w w1 by simp
  from grant_attempts_InrE [OF tx [unfolded runGrantTransaction_def] this grant_body_pins(2)] obtain w3 w4 fs where
    "base w3 = Some (db w1)" "db w3 = db w1" and body: "revoke_grant_body input b ?t now w3 = (Inr out, w4)"
    and w2: "w2 = w4\<lparr>base := None, faults := fs\<rparr>" by metis
  then have w3: "base w3 = Some (db w3)" "db w3 = db w" using w1 by simp_all
  from body w3(1) show thesis
  proof (rule revoke_body_run)
    show "account_ok (db w3)" using ok w3 by simp
  next
    let ?g = "go_grant out"
    assume ok4: "account_ok (db w4)" and found: "find_grant (rg_binding_id input) (rg_consumer input) (db w4) = Some ?g"
      and rev: "already_revoked ?g"
      and rises: "\<And>g0. find_grant (rg_binding_id input) (rg_consumer input) (db w3) = Some g0 \<Longrightarrow>
         \<not> already_revoked g0 \<Longrightarrow> cg_ticket_version g0 < cg_ticket_version ?g"
      and open_row: "go_minimum out \<noteq> None \<Longrightarrow> cg_last_invalidated_at ?g = None"
      and closed: "go_minimum out = None \<Longrightarrow> find_grant (rg_binding_id input) (rg_consumer input) (db w3) = Some ?g
         \<and> cg_last_invalidated_at ?g \<noteq> None"
    have up: "cg_ticket_version g0 < cg_ticket_version ?g" if "k (db w) = Some g0" "IsGrantActive g0" for g0
      using rises [of g0] that already_revoked_inactive w3(2) by (auto simp: k_def)
    show thesis
    proof (cases "go_minimum out")
      case None
      with after have "g = ?g" "w' = w2" by (simp_all add: effect_simps)
      moreover have "k (db w) = Some ?g" "cg_last_invalidated_at ?g \<noteq> None" using closed [OF None] w3 by (simp_all add: k_def)
      moreover have "k (db w2) = Some ?g" using found w2 by (simp add: k_def)
      ultimately show thesis using rev up by (intro res) simp_all
    next
      case (Some v)
      with after have p: "propagate (Some invalidate) b ?g (rg_actor_user_id input) v ?t now w2 = (Inr (g, actions), w')" by simp
      have mem: "?g \<in> set (ac_grants (db w2))" and key: "cg_consumer ?g = rg_consumer input"
        using find_grant_member [OF found] w2 by simp_all
      from p reads obtain u w5 where
        told: "invalidate (invalidation_input b (cg_consumer ?g) (rg_actor_user_id input) v (cg_pending_entry_epoch ?g)) w2 = (Inr u, w5)"
        and v: "v = cg_ticket_version ?g" and g: "g = confirmed ?t now ?g"
        and gs: "ac_grants (db w') = update_where (awaits (cg_id ?g) v (cg_pending_entry_epoch ?g)) (confirmed ?t now) (ac_grants (db w2))"
        by (rule propagate_run) (use w2 ok4 mem open_row Some in simp_all)
      have "k (db w') = Some g"
        using found v unfolding k_def find_grant_def gs g w2 by (simp add: find_update_where awaits_def)
      moreover have "platform_told invalidate input b g" using told v key g unfolding platform_told_def by auto
      moreover have "cg_last_invalidated_at g \<noteq> None" using g by (simp add: confirmed_def)
      ultimately show thesis using rev up g by (intro res) simp_all
    qed
  qed
qed

section \<open>Properties\<close>

text \<open>C13: However statements fail and transactions conflict, granting, revoking and reconciling keep
  the tables' constraints, keep the row of every grant, and never lower its ticket version; an
  operation that changes what a grant allows (whether it is active, or its set of actions) raises
  the version.\<close>

theorem grants_follow_version_protocol:
  assumes "invalidator_reads invalidator"
  shows "runs grant_protocol (UpsertGrant invalidator conflicts input now) \<and>
     runs grant_protocol (RevokeGrant invalidator conflicts rinput now) \<and>
     runs grant_protocol (ReconcileGrantInvalidation invalidator i now)"
  using UpsertGrant_runs [OF assms] RevokeGrant_runs [OF assms] ReconcileGrant_runs [OF assms] by blast

text \<open>C12: When revoking a consumer's grant succeeds, the stored grant of the consumer is revoked and
  recorded as invalidated; its ticket version is above that of the grant that was active before, and
  the platform has answered that it demands this version, unless it had confirmed the very row
  before.\<close>

theorem RevokeGrant_settles:
  assumes "RevokeGrant (Some invalidate) conflicts input now w = (Inr (g, actions), w')"
    and "invalidator_reads (Some invalidate)" and "base w = None" and "account_ok (db w)"
    and "find_grant (rg_binding_id input) (rg_consumer input) (db w) = Some g0" and "IsGrantActive g0"
  shows "find_grant (rg_binding_id input) (rg_consumer input) (db w') = Some g \<and> \<not> IsGrantActive g \<and>
     cg_last_invalidated_at g \<noteq> None \<and> cg_ticket_version g0 < cg_ticket_version g \<and>
     (\<exists>b. live_binding (rg_binding_id input) (db w) = Some b \<and> platform_told invalidate input b g)"
proof (rule revocation_settles [OF assms(1-4)])
  fix b
  assume b: "live_binding (rg_binding_id input) (db w) = Some b" and rev: "already_revoked g"
    and stored: "find_grant (rg_binding_id input) (rg_consumer input) (db w') = Some g"
    and at: "cg_last_invalidated_at g \<noteq> None"
    and up: "\<And>g0. find_grant (rg_binding_id input) (rg_consumer input) (db w) = Some g0 \<Longrightarrow>
       IsGrantActive g0 \<Longrightarrow> cg_ticket_version g0 < cg_ticket_version g"
    and told: "platform_told invalidate input b g \<or> find_grant (rg_binding_id input) (rg_consumer input) (db w) = Some g"
  have "platform_told invalidate input b g"
    using told assms(5,6) already_revoked_inactive [OF rev] by auto
  with b stored at up [OF assms(5,6)] already_revoked_inactive [OF rev] show ?thesis by blast
qed

section \<open>Examples\<close>

definition acct_grant :: consumer_grant where
  "acct_grant = \<lparr>cg_id = 1, cg_binding_id = 1, cg_consumer = ''bot-a'', cg_status = GrantActive,
     cg_ticket_version = 2, cg_pending_entry_epoch = 0, cg_granted_by = Some 7, cg_granted_at = 5,
     cg_revoked_at = None, cg_last_invalidated_at = Some 6, cg_updated_at = 6\<rparr>"

definition acct_granted_binding :: account_binding where
  "acct_granted_binding = acct_binding\<lparr>pb_generation := 1\<rparr>"

definition acct_grant_db :: account_db where
  "acct_grant_db = acct_db\<lparr>
     ac_services := [\<lparr>svc_id = 1, svc_platform_key = ''mihomo'', svc_service_key = ''svc'',
       svc_service_audience = ''platform-mihomo-service'', svc_control_endpoint = ''mihomo:9000'',
       svc_runtime_endpoint = ''mihomo:9001'', svc_runtime_server_name = ''mihomo'',
       svc_supported_actions = Some [], svc_enabled = True\<rparr>],
     ac_bindings := [acct_granted_binding], ac_grants := [acct_grant], ac_next_grant_id := 2,
     ac_grant_actions := [\<lparr>ga_grant_id = 1, ga_action = ''mihomo.authkey.issue''\<rparr>],
     ac_identities := [\<lparr>bid_id = 1, bid_entry_identity_ref = ''ent_1'', bid_entry_epoch = 1, bid_user_id = 7,
       bid_bot_id = ''bot'', bid_issuer = ''qq'', bid_external_user_id = ''100'', bid_external_username = None,
       bid_linked_at = 0,
       bid_deleted_at = None\<rparr>],
     ac_credentials := [\<lparr>sc_client_id = ''bot-a'', sc_consumer_epoch = 1, sc_bot_id = ''bot'', sc_display_name = ''Bot A'',
       sc_secret_hash = '''', sc_audiences = Some [''account-center''], sc_scopes = Some [''bot.access.issue_ticket''], sc_status = ''active'',
       sc_owner_user_id = 7, sc_description = '''', sc_last_used_at = None,
       sc_deleted_at = None\<rparr>]\<rparr>"

definition acct_revoke :: RevokeGrantInput where
  "acct_revoke = \<lparr>rg_binding_id = 1, rg_consumer = ''bot-a'', rg_revoked_at = 9, rg_actor_user_id = Some 7\<rparr>"

definition acct_tell :: "GrantInvalidationInput \<Rightarrow> (GrantInvalidationInput, unit) aeff" where
  "acct_tell x = external x (Inr ())"

lemmas acct_grant_samples = acct_grant_def acct_granted_binding_def acct_grant_db_def acct_revoke_def acct_tell_def

lemma acct_grant_ok: "account_ok acct_grant_db"
  by (simp add: account_ok_def account_checks account_samples acct_grant_samples)

lemma acct_tell_reads: "invalidator_reads (Some acct_tell)"
  by (simp add: invalidator_reads_def acct_tell_def)

lemma first_attempt:
  "grant_attempts (Suc n) conflicts m w = (case serializable (fst (next_fault conflicts)) m w of
     (Inr x, w') \<Rightarrow> (Inr x, w')
   | (Inl e, w') \<Rightarrow> if isRetryableGrantError e then grant_attempts n (snd (next_fault conflicts)) m w' else (Inl e, w'))"
  by (simp add: effect_simps split: prod.splits sum.splits)

lemma run_transaction_first:
  "serializable (fst (next_fault conflicts)) m w = (Inr x, w') \<Longrightarrow> runGrantTransaction conflicts m w = (Inr x, w')"
  by (simp add: runGrantTransaction_def grantTransactionAttempts_def numeral_3_eq_3 first_attempt del: grant_attempts.simps)

definition acct_revoked_db :: account_db where
  "acct_revoked_db = (save_grant (revoked acct_grant 9 9) acct_grant_db)\<lparr>ac_audit := [\<lparr>ae_category = ''platform_binding'',
     ae_actor_type = ''user'', ae_actor_user_id = Some 7, ae_action = ''grant_change'', ae_target_type = ''binding'',
     ae_target_id = ''1'', ae_binding_id = Some 1, ae_result = ''success'', ae_reason_code = ''''\<rparr>]\<rparr>"

definition acct_revoked_out :: grant_outcome where
  "acct_revoked_out = \<lparr>go_grant = revoked acct_grant 9 9, go_actions = [''mihomo.authkey.issue''], go_created = False,
     go_minimum = Some 3\<rparr>"

lemma acct_audit_row:
  "buildAuditEventRow \<lparr>ae_category = ''platform_binding'', ae_actor_type = ''user'', ae_actor_user_id = Some 7,
     ae_action = ''grant_change'', ae_target_type = ''binding'', ae_target_id = ''1'', ae_binding_id = Some (Suc 0),
     ae_result = ''success'', ae_reason_code = ''''\<rparr> = \<lparr>ae_category = ''platform_binding'', ae_actor_type = ''user'',
     ae_actor_user_id = Some 7, ae_action = ''grant_change'', ae_target_type = ''binding'', ae_target_id = ''1'',
     ae_binding_id = Some (Suc 0), ae_result = ''success'', ae_reason_code = ''''\<rparr>"
  by code_simp

lemma decimal_1: "decimal (Suc 0) = ''1''"
  by code_simp

lemma acct_revoke_transaction:
  "serializable False (revoke_grant_body acct_revoke acct_granted_binding 9 9) (account_world acct_grant_db) =
     (Inr acct_revoked_out, account_world acct_revoked_db)"
  by (simp add: serializable_def acct_revoked_db_def acct_revoked_out_def
      revoke_grant_body_def find_grant_def revoke_known_def revoked_def save_grant_def grant_actions_def
      writeGrantAuditBestEffort_def nested_transaction_def writeGrantAudit_def audit_row_ok_def acct_audit_row
      commit_check_def grants_have_actions_def account_samples acct_grant_samples account_world_def
      effect_simps transaction_def account_checks auditActorUserID_def Let_def decimal_1)

definition acct_confirmed_db :: account_db where
  "acct_confirmed_db = acct_revoked_db\<lparr>ac_grants := [confirmed 9 9 (revoked acct_grant 9 9)]\<rparr>"

text \<open>The revocation succeeds with every invalidator that answers.\<close>

lemma acct_propagates:
  assumes "invalidate (invalidation_input acct_granted_binding ''bot-a'' (Some 7) 3 0) (account_world acct_revoked_db) =
     (Inr (), (account_world acct_revoked_db)\<lparr>calls := cs\<rparr>)"
  shows "propagate (Some invalidate) acct_granted_binding (revoked acct_grant 9 9) (Some 7) 3 9 9 (account_world acct_revoked_db) =
     (Inr (confirmed 9 9 (revoked acct_grant 9 9), [''mihomo.authkey.issue'']),
      (account_world acct_confirmed_db)\<lparr>calls := cs\<rparr>)"
proof -
  have "completeGrantInvalidation 1 3 0 9 9 ((account_world acct_revoked_db)\<lparr>calls := cs\<rparr>) =
      (Inr (confirmed 9 9 (revoked acct_grant 9 9), [''mihomo.authkey.issue'']),
       (account_world acct_confirmed_db)\<lparr>calls := cs\<rparr>)"
    by (simp add: completeGrantInvalidation_def complete_invalidation_body_def
      settle_invalidation_def confirm_unlinks_def awaits_def count_where_def confirmed_def revoked_def save_grant_def
      find_grant_id_def grant_actions_def account_samples acct_grant_samples acct_revoked_db_def acct_confirmed_db_def
      account_world_def effect_simps transaction_def account_checks Let_def)
  moreover have "cg_id (revoked acct_grant 9 9) = 1" "cg_consumer (revoked acct_grant 9 9) = ''bot-a''"
    "cg_pending_entry_epoch (revoked acct_grant 9 9) = 0" by (simp_all add: acct_grant_def)
  ultimately show ?thesis using assms by (simp add: propagate_def invalidateGrant_def effect_simps)
qed

lemma acct_revoke_runs:
  fixes invalidate :: "GrantInvalidationInput \<Rightarrow> ('l, unit) aeff"
  assumes "invalidate (invalidation_input acct_granted_binding ''bot-a'' (Some 7) 3 0) (account_world acct_revoked_db) =
     (Inr (), (account_world acct_revoked_db)\<lparr>calls := cs\<rparr>)"
  shows "RevokeGrant (Some invalidate) [] acct_revoke 9 (account_world acct_grant_db) =
     (Inr (confirmed 9 9 (revoked acct_grant 9 9), [''mihomo.authkey.issue'']),
      (account_world acct_confirmed_db)\<lparr>calls := cs\<rparr>)"
proof -
  let ?w = "account_world acct_grant_db :: 'l aworld"
  have valid: "validateConsumer ''bot-a'' ?w = (Inr (), ?w)"
    by (simp add: validateConsumer_def SupportedConsumers_def ConsumerPamgram_def ConsumerPaiGramBot_def effect_simps
        count_where_def acct_grant_samples)
  have "runGrantTransaction [] (revoke_grant_body acct_revoke acct_granted_binding 9 9) ?w =
      (Inr acct_revoked_out, account_world acct_revoked_db)"
    by (rule run_transaction_first) (simp add: acct_revoke_transaction)
  moreover have "live_binding 1 acct_grant_db = Some acct_granted_binding"
    by (simp add: live_binding_def account_samples acct_grant_samples)
  ultimately show ?thesis
    using valid acct_propagates [of invalidate cs] assms
    by (simp add: RevokeGrant_def getBinding_def acct_revoke_def acct_revoked_out_def effect_simps Let_def)
qed

theorem RevokeGrant_settles_witness:
  "\<exists>g actions w'. RevokeGrant (Some acct_tell) [] acct_revoke 9 (account_world acct_grant_db) = (Inr (g, actions), w') \<and>
     find_grant 1 ''bot-a'' (db w') = Some g \<and> 2 < cg_ticket_version g"
proof -
  have "acct_tell x (account_world acct_revoked_db) = (Inr (), (account_world acct_revoked_db)\<lparr>calls := [x]\<rparr>)" for x
    by (simp add: acct_tell_def effect_simps)
  from acct_revoke_runs [of acct_tell, OF this] obtain g actions w' where
    run: "RevokeGrant (Some acct_tell) [] acct_revoke 9 (account_world acct_grant_db) = (Inr (g, actions), w')" by blast
  have "find_grant (rg_binding_id acct_revoke) (rg_consumer acct_revoke) (db (account_world acct_grant_db)) = Some acct_grant"
    by (simp add: find_grant_def acct_grant_samples)
  from RevokeGrant_settles [OF run acct_tell_reads _ _ this] acct_grant_ok
  have "find_grant 1 ''bot-a'' (db w') = Some g \<and> 2 < cg_ticket_version g"
    by (simp add: acct_grant_samples IsGrantActive_def)
  with run show ?thesis by blast
qed

theorem grants_follow_version_protocol_witness:
  "runs grant_protocol (UpsertGrant (Some acct_tell) [True] \<lparr>ug_binding_id = 1, ug_consumer = ConsumerPamgram,
      ug_actions = [], ug_granted_by = Some 7, ug_granted_at = 9\<rparr> 9)"
  using grants_follow_version_protocol [OF acct_tell_reads] by blast

end
