(* ===== verification/Mihomo_Ledger.thy ===== *)
theory Mihomo_Ledger
  imports Mihomo_Model Settling
begin

text \<open>
  The operation ledger: \<open>internal/data/operation_repo.go\<close> and
  \<open>internal/usecase/operation_usecase.go\<close>.  A control-plane command carries an operation id;
  \<open>Execute\<close> admits it once, runs its mutation in one transaction together with the completion of
  the ledger row, and answers later requests with the stored result.  \<open>Resolve\<close> settles the
  fate of a command whose answer was lost.

  The second half abstracts the ledger row of one operation to a step relation in which any
  number of workers and resolvers interleave, and shows that the row's life is what the code needs.
\<close>

section \<open>Repository\<close>

definition operationStatePending :: string where
  "operationStatePending = ''pending''"

definition operationStateNotReceived :: string where
  "operationStateNotReceived = ''not_received''"

definition operationStateFailedInputRequired :: string where
  "operationStateFailedInputRequired = ''failed_input_required''"

definition operationExecutionLease :: duration where
  "operationExecutionLease = 30 * second"

lemmas operation_states =
  operationStatePending_def operationStateNotReceived_def operationStateFailedInputRequired_def

definition fixed_generation_kinds :: "string list" where
  "fixed_generation_kinds =
     [''OPERATION_KIND_APPLY_AUTHORIZATION_FENCE'', ''OPERATION_KIND_SET_PRIMARY_PROFILE'']"

text \<open>The CHECK constraints of \<open>platform_operations\<close>.  BIGINT columns hold the generations, so the
  database adds without wrap-around and takes no value of \<open>2 ^ 63\<close> or more.\<close>

definition operation_row_ok :: "platform_operation \<Rightarrow> bool" where
  "operation_row_ok r \<longleftrightarrow>
     (if row_kind r \<in> set fixed_generation_kinds
      then row_target_generation r = row_pre_generation r
      else unat (row_target_generation r) = unat (row_pre_generation r) + 1) \<and>
     bigint_ok (row_pre_generation r) \<and> bigint_ok (row_target_generation r) \<and>
     row_request_fingerprint r \<noteq> '''' \<and>
     row_execution_token r \<noteq> '''' \<and>
     row_state r \<in> {''pending'', ''succeeded'', ''failed'', ''not_received'', ''failed_input_required''}"

definition operationFromRecord :: "platform_operation \<Rightarrow> operation_result" where
  "operationFromRecord record = \<lparr>
     res_operation = \<lparr>
       op_operation_id = row_operation_id record,
       op_kind = row_kind record,
       op_binding_ref = row_binding_ref record,
       op_pre_generation = row_pre_generation record,
       op_target_generation = row_target_generation record,
       op_request_fingerprint = row_request_fingerprint record\<rparr>,
     res_state = row_state record,
     res_reason_code = row_reason_code record,
     res_account_key = row_account_key record,
     res_status = row_credential_status record,
     res_snapshot_json = row_snapshot_json record,
     res_execution_token = row_execution_token record,
     res_lease_expires_at = row_lease_expires_at record\<rparr>"

definition new_operation_row :: "operation_ref \<Rightarrow> string \<Rightarrow> instant \<Rightarrow> string \<Rightarrow> platform_operation" where
  "new_operation_row operation token lease state = \<lparr>
     row_operation_id = op_operation_id operation,
     row_kind = op_kind operation,
     row_binding_ref = op_binding_ref operation,
     row_pre_generation = op_pre_generation operation,
     row_target_generation = op_target_generation operation,
     row_request_fingerprint = op_request_fingerprint operation,
     row_execution_token = token,
     row_lease_expires_at = lease,
     row_state = state,
     row_reason_code = '''',
     row_account_key = '''',
     row_credential_status = '''',
     row_snapshot_json = ''{}''\<rparr>"

text \<open>\<open>INSERT ... ON CONFLICT DO NOTHING\<close>: the number of rows inserted.\<close>

definition insert_operation :: "platform_operation \<Rightarrow> nat meff" where
  "insert_operation record = sql (\<lambda>d.
     if \<not> operation_row_ok record then Inl (Check_Violation ''platform_operations'')
     else if list_ex (\<lambda>r. row_operation_id r = row_operation_id record) (operations d)
     then Inr (0, d)
     else Inr (1, d\<lparr>operations := operations d @ [record]\<rparr>))"

text \<open>\<open>UPDATE ... WHERE\<close>: the number of rows changed; a CHECK failure changes none.\<close>

definition update_operations ::
    "(platform_operation \<Rightarrow> bool) \<Rightarrow> (platform_operation \<Rightarrow> platform_operation) \<Rightarrow> nat meff" where
  "update_operations p f = sql (\<lambda>d.
     if list_ex (\<lambda>r. p r \<and> \<not> operation_row_ok (f r)) (operations d)
     then Inl (Check_Violation ''platform_operations'')
     else Inr (count_where p (operations d), d\<lparr>operations := update_where p f (operations d)\<rparr>))"

definition find_operation :: "string \<Rightarrow> mihomo_db \<Rightarrow> platform_operation option" where
  "find_operation operationID d = find (\<lambda>r. row_operation_id r = operationID) (operations d)"

definition is_pending :: "string \<Rightarrow> string \<Rightarrow> platform_operation \<Rightarrow> bool" where
  "is_pending operationID executionToken r \<longleftrightarrow>
     row_operation_id r = operationID \<and> row_state r = operationStatePending \<and>
     row_execution_token r = executionToken"

definition get_operation :: "string \<Rightarrow> operation_result option meff" where
  "get_operation operationID =
     andThen (sql_query (find_operation operationID)) (\<lambda>record.
     return (map_option operationFromRecord record))"

text \<open>\<open>now\<close> and \<open>token\<close> are the results of \<open>time.Now\<close> and \<open>uuid.NewString\<close>.\<close>

definition Admit ::
    "instant \<Rightarrow> string \<Rightarrow> operation_ref \<Rightarrow> (operation_result option \<times> bool) meff" where
  "Admit now token operation = within_transaction
     (let record = new_operation_row operation token (now + operationExecutionLease) operationStatePending
      in andThen (insert_operation record) (\<lambda>rows.
         if rows = 1 then return (Some (operationFromRecord record), True)
         else andThen (get_operation (op_operation_id operation)) (\<lambda>existing.
           case existing of
             None \<Rightarrow> raise ErrOperationConflict
           | Some e \<Rightarrow>
               if res_operation e \<noteq> operation then raise ErrOperationConflict
               else return (Some e, False))))"

definition LockPending :: "string \<Rightarrow> string \<Rightarrow> unit meff" where
  "LockPending operationID executionToken =
     andThen (sql_query (\<lambda>d. find (is_pending operationID executionToken) (operations d))) (\<lambda>record.
     case record of None \<Rightarrow> raise ErrOperationState | Some _ \<Rightarrow> return ())"

definition Complete :: "operation_result \<Rightarrow> unit meff" where
  "Complete result =
     (if res_state result = '''' \<or> res_state result = operationStatePending
         \<or> res_state result = operationStateNotReceived
      then raise ErrOperationState
      else andThen
        (update_operations
          (is_pending (op_operation_id (res_operation result)) (res_execution_token result))
          (\<lambda>r. r\<lparr>row_state := res_state result,
                  row_reason_code := res_reason_code result,
                  row_account_key := res_account_key result,
                  row_credential_status := res_status result,
                  row_snapshot_json := res_snapshot_json result\<rparr>))
        (\<lambda>rows. if rows \<noteq> 1 then raise ErrOperationState else return ()))"

definition FailPending :: "string \<Rightarrow> string \<Rightarrow> string \<Rightarrow> string \<Rightarrow> unit meff" where
  "FailPending newToken operationID executionToken reasonCode = andThen
     (update_operations (is_pending operationID executionToken)
        (\<lambda>r. r\<lparr>row_state := ''failed'', row_reason_code := reasonCode,
                row_execution_token := newToken\<rparr>))
     (\<lambda>rows. if rows \<noteq> 1 then raise ErrOperationState else return ())"

definition Resolve_repo ::
    "instant \<Rightarrow> string \<Rightarrow> string \<Rightarrow> operation_ref \<Rightarrow> operation_result option meff" where
  "Resolve_repo now token newToken operation = within_transaction
     (let record = new_operation_row operation token now operationStateNotReceived
      in andThen (insert_operation record) (\<lambda>rows.
         if rows = 1 then return (Some (operationFromRecord record))
         else andThen (get_operation (op_operation_id operation)) (\<lambda>found.
           case found of
             None \<Rightarrow> raise (OtherError ''nil pointer dereference'')
           | Some existing \<Rightarrow>
               if res_operation existing \<noteq> operation then raise ErrOperationConflict
               else if res_state existing = operationStatePending
                       \<and> \<not> res_lease_expires_at existing > now
               then andThen
                 (update_operations
                   (is_pending (op_operation_id operation) (res_execution_token existing))
                   (\<lambda>r. r\<lparr>row_state := operationStateFailedInputRequired,
                           row_reason_code := ''operation_outcome_unknown'',
                           row_execution_token := newToken\<rparr>))
                 (\<lambda>_. get_operation (op_operation_id operation))
               else return (Some existing))))"

section \<open>Use case\<close>

definition validateOperationRef :: "operation_ref \<Rightarrow> merror option" where
  "validateOperationRef operation =
     (if op_operation_id operation = '''' \<or> op_kind operation = '''' \<or>
         op_binding_ref operation = '''' \<or> op_request_fingerprint operation = ''''
      then Some ErrOperationRequired
      else if op_kind operation = ''OPERATION_KIND_APPLY_AUTHORIZATION_FENCE'' \<or>
              op_kind operation = ''OPERATION_KIND_SET_PRIMARY_PROFILE''
      then (if op_target_generation operation \<noteq> op_pre_generation operation
            then Some ErrOperationRequired else None)
      else if op_target_generation operation \<noteq> op_pre_generation operation + 1
      then Some ErrOperationRequired
      else None)"

definition operationFailureReason :: "merror \<Rightarrow> string" where
  "operationFailureReason err = (case status_code err of
       InvalidArgument \<Rightarrow> ''invalid_input''
     | PermissionDenied \<Rightarrow> ''permission_denied''
     | Unauthenticated \<Rightarrow> ''permission_denied''
     | NotFound \<Rightarrow> ''not_found''
     | AlreadyExists \<Rightarrow> ''conflict''
     | FailedPrecondition \<Rightarrow> ''failed_precondition''
     | Aborted \<Rightarrow> ''generation_conflict''
     | DeadlineExceeded \<Rightarrow> ''deadline_exceeded''
     | Unavailable \<Rightarrow> ''dependency_unavailable''
     | _ \<Rightarrow> ''internal_failure'')"

text \<open>The transaction body of \<open>Execute\<close>: lock, mutate, complete, read back.\<close>

definition run_admitted ::
    "operation_ref \<Rightarrow> string \<Rightarrow> operation_result option meff \<Rightarrow> operation_result option meff" where
  "run_admitted operation executionToken mutation = within_transaction
     (andThen (LockPending (op_operation_id operation) executionToken) (\<lambda>_.
      andThen mutation (\<lambda>result.
        case result of
          None \<Rightarrow> raise ErrOperationState
        | Some res \<Rightarrow>
            andThen (Complete (res\<lparr>res_operation := operation, res_execution_token := executionToken\<rparr>)) (\<lambda>_.
            get_operation (op_operation_id operation)))))"

definition Execute ::
    "instant \<Rightarrow> string \<Rightarrow> string \<Rightarrow> operation_ref \<Rightarrow> operation_result option meff
      \<Rightarrow> operation_result option meff" where
  "Execute now token newToken operation mutation =
     (case validateOperationRef operation of
        Some e \<Rightarrow> raise e
      | None \<Rightarrow>
          andThen (Admit now token operation) (\<lambda>(existing, admitted).
            if \<not> admitted then return existing
            else case existing of
              None \<Rightarrow> raise ErrOperationState
            | Some e \<Rightarrow>
                if res_execution_token e = '''' then raise ErrOperationState
                else andThen (attempt (run_admitted operation (res_execution_token e) mutation)) (\<lambda>outcome.
                  case outcome of
                    Inr output \<Rightarrow> return output
                  | Inl err \<Rightarrow>
                      andThen (attempt (FailPending newToken (op_operation_id operation)
                                 (res_execution_token e) (operationFailureReason err)))
                        (\<lambda>_. raise err))))"

definition Get_operation_uc :: "string \<Rightarrow> operation_result option meff" where
  "Get_operation_uc operationID =
     (if operationID = '''' then raise ErrOperationRequired else get_operation operationID)"

definition Resolve :: "instant \<Rightarrow> string \<Rightarrow> string \<Rightarrow> operation_ref \<Rightarrow> operation_result option meff" where
  "Resolve now token newToken operation =
     (case validateOperationRef operation of
        Some e \<Rightarrow> raise e
      | None \<Rightarrow> Resolve_repo now token newToken operation)"

section \<open>Ledger lemmas\<close>

text \<open>The operation a stored row stands for.\<close>

definition row_ref :: "platform_operation \<Rightarrow> operation_ref" where
  "row_ref r = res_operation (operationFromRecord r)"

lemma operationFromRecord_simps [simp]:
  "res_operation (operationFromRecord r) = row_ref r"
  "res_state (operationFromRecord r) = row_state r"
  "res_execution_token (operationFromRecord r) = row_execution_token r"
  "res_lease_expires_at (operationFromRecord r) = row_lease_expires_at r"
  "res_reason_code (operationFromRecord r) = row_reason_code r"
  by (simp_all add: row_ref_def operationFromRecord_def)

lemma row_ref_id [simp]: "op_operation_id (row_ref r) = row_operation_id r"
  by (simp add: row_ref_def operationFromRecord_def)

lemma new_operation_row_simps [simp]:
  "row_ref (new_operation_row operation token lease state) = operation"
  "row_operation_id (new_operation_row operation token lease state) = op_operation_id operation"
  "row_execution_token (new_operation_row operation token lease state) = token"
  "row_lease_expires_at (new_operation_row operation token lease state) = lease"
  "row_state (new_operation_row operation token lease state) = state"
  by (simp_all add: row_ref_def operationFromRecord_def new_operation_row_def)

text \<open>A mutation that does not write the ledger.\<close>

definition leaves_ledger :: "'a meff \<Rightarrow> bool" where
  "leaves_ledger m \<longleftrightarrow> frames operations m"

lemma leaves_ledgerD:
  "leaves_ledger m \<Longrightarrow> m w = (r, w') \<Longrightarrow> operations (db w') = operations (db w)"
  using framesD [of operations m w] by (simp add: leaves_ledger_def)

lemma LockPending_InrE:
  assumes "LockPending operationID token w = (Inr u, w')"
  obtains r fs where "find (is_pending operationID token) (operations (db w)) = Some r"
    "w' = w\<lparr>faults := fs\<rparr>"
  using assms unfolding LockPending_def
  by (auto elim!: success_elims split: option.splits)

lemma update_operations_InrE:
  assumes "update_operations p f w = (Inr n, w')"
  obtains fs where "n = count_where p (operations (db w))"
    "w' = w\<lparr>faults := fs, db := (db w)\<lparr>operations := update_where p f (operations (db w))\<rparr>\<rparr>"
  using assms unfolding update_operations_def
  by (auto elim!: success_elims split: if_splits)

lemma insert_operation_InrE:
  assumes "insert_operation record w = (Inr n, w')"
  obtains fs where "operation_row_ok record"
    "n = (if find_operation (row_operation_id record) (db w) = None then 1 else 0)"
    "w' = w\<lparr>faults := fs, db := (if n = 1 then (db w)\<lparr>operations := operations (db w) @ [record]\<rparr> else db w)\<rparr>"
  using assms unfolding insert_operation_def find_operation_def find_None_list_ex
  by (auto elim!: success_elims split: if_splits)

lemma get_operation_InrE:
  assumes "get_operation operationID w = (Inr x, w')"
  obtains fs where "x = map_option operationFromRecord (find_operation operationID (db w))"
    "w' = w\<lparr>faults := fs\<rparr>"
  using assms unfolding get_operation_def by (auto elim!: success_elims)

lemmas ledger_success =
  LockPending_InrE update_operations_InrE insert_operation_InrE get_operation_InrE

text \<open>Evaluation without faults.\<close>

lemma get_operation_no_fault [effect_simps]:
  "faults w = [] \<Longrightarrow>
   get_operation operationID w = (Inr (map_option operationFromRecord (find_operation operationID (db w))), w)"
  by (simp add: get_operation_def effect_simps)

lemma insert_operation_no_fault [effect_simps]:
  "faults w = [] \<Longrightarrow> insert_operation record w =
     (if \<not> operation_row_ok record then (Inl (Db (Check_Violation ''platform_operations'')), w)
      else if find_operation (row_operation_id record) (db w) \<noteq> None then (Inr 0, w)
      else (Inr 1, w\<lparr>db := (db w)\<lparr>operations := operations (db w) @ [record]\<rparr>\<rparr>))"
  by (cases w) (auto simp: insert_operation_def effect_simps find_operation_def find_None_list_ex)

text \<open>A request for an operation id that is taken is answered from the stored row alone.\<close>

lemma Admit_taken:
  assumes "faults w = []" "base w = None"
    and "find_operation (op_operation_id operation) (db w) = Some r"
    and "operation_row_ok (new_operation_row operation token (now + operationExecutionLease) operationStatePending)"
  shows "Admit now token operation w =
    (if row_ref r = operation then Inr (Some (operationFromRecord r), False) else Inl ErrOperationConflict, w)"
  using assms by (cases w) (auto simp: Admit_def transaction_def Let_def effect_simps committed_def)

lemma operation_row_ok_new:
  "operation_row_ok (new_operation_row operation token lease state) \<longleftrightarrow>
     (if op_kind operation \<in> set fixed_generation_kinds
      then op_target_generation operation = op_pre_generation operation
      else unat (op_target_generation operation) = unat (op_pre_generation operation) + 1) \<and>
     bigint_ok (op_pre_generation operation) \<and> bigint_ok (op_target_generation operation) \<and>
     op_request_fingerprint operation \<noteq> '''' \<and> token \<noteq> '''' \<and>
     state \<in> {''pending'', ''succeeded'', ''failed'', ''not_received'', ''failed_input_required''}"
  by (simp add: operation_row_ok_def new_operation_row_def)

text \<open>What admission demands of the request beyond \<open>validateOperationRef\<close>: the generation pair
  does not wrap around (the columns are not modular) and fits the columns.\<close>

definition generation_fits :: "operation_ref \<Rightarrow> bool" where
  "generation_fits operation \<longleftrightarrow>
     (op_kind operation \<in> set fixed_generation_kinds \<or>
      unat (op_target_generation operation) = unat (op_pre_generation operation) + 1) \<and>
     bigint_ok (op_pre_generation operation) \<and> bigint_ok (op_target_generation operation)"

lemma admissible_row:
  "validateOperationRef operation = None \<Longrightarrow> generation_fits operation \<Longrightarrow> token \<noteq> '''' \<Longrightarrow>
   state \<in> {''pending'', ''not_received''} \<Longrightarrow>
   operation_row_ok (new_operation_row operation token lease state)"
  by (auto simp: operation_row_ok_new validateOperationRef_def fixed_generation_kinds_def
      generation_fits_def split: if_splits)

lemma Execute_taken:
  assumes "validateOperationRef operation = None" "generation_fits operation" "token \<noteq> ''''"
    and "faults w = []" "base w = None"
    and "find_operation (op_operation_id operation) (db w) = Some r"
  shows "Execute now token newToken operation mutation w =
    (if row_ref r = operation then Inr (Some (operationFromRecord r)) else Inl ErrOperationConflict, w)"
proof -
  have "operation_row_ok (new_operation_row operation token (now + operationExecutionLease) operationStatePending)"
    using assms(1-3) by (simp add: admissible_row operation_states)
  with assms show ?thesis
    by (simp add: Execute_def effect_simps Admit_taken)
qed

text \<open>An update of the pending row of one operation, as the repository issues it.\<close>

lemma find_operation_update:
  assumes "\<And>r. row_operation_id (f r) = row_operation_id r"
  shows "find_operation i (d\<lparr>operations := update_where (is_pending j token) f (operations d)\<rparr>) =
     map_option (\<lambda>r. if is_pending j token r then f r else r) (find_operation i d)"
  unfolding find_operation_def using assms by (simp add: find_update_where)

lemma find_pending:
  assumes "unique_on row_operation_id (operations d)"
    and "r \<in> set (operations d)" and "is_pending i token r"
  shows "find_operation i d = Some r"
  unfolding find_operation_def
  by (rule find_unique [OF assms(1,2)]) (use assms(3) in \<open>auto simp: is_pending_def\<close>)

lemma count_pending:
  assumes "unique_on row_operation_id (operations d)"
    and "count_where (is_pending i token) (operations d) = 1"
  shows "\<exists>r. find_operation i d = Some r \<and> is_pending i token r"
proof -
  from assms(2) have "list_ex (is_pending i token) (operations d)"
    using count_where_0 [of "is_pending i token" "operations d"] by linarith
  then obtain r where "r \<in> set (operations d)" "is_pending i token r"
    by (auto simp: list_ex_iff)
  with find_pending [OF assms(1) this] show ?thesis by blast
qed

lemma Complete_InrE:
  assumes "Complete result w = (Inr u, w')"
    and uniq: "unique_on row_operation_id (operations (db w))"
  obtains r fs where
    "find_operation (op_operation_id (res_operation result)) (db w) = Some r"
    "is_pending (op_operation_id (res_operation result)) (res_execution_token result) r"
    "res_state result \<notin> {'''', operationStatePending, operationStateNotReceived}"
    "w' = w\<lparr>faults := fs, db := (db w)\<lparr>operations := update_where
       (is_pending (op_operation_id (res_operation result)) (res_execution_token result))
       (\<lambda>r. r\<lparr>row_state := res_state result, row_reason_code := res_reason_code result,
          row_account_key := res_account_key result, row_credential_status := res_status result,
          row_snapshot_json := res_snapshot_json result\<rparr>) (operations (db w))\<rparr>\<rparr>"
proof -
  let ?i = "op_operation_id (res_operation result)" and ?t = "res_execution_token result"
  from assms(1) obtain fs where n: "count_where (is_pending ?i ?t) (operations (db w)) = 1"
    and st: "res_state result \<notin> {'''', operationStatePending, operationStateNotReceived}"
    and w': "w' = w\<lparr>faults := fs, db := (db w)\<lparr>operations := update_where (is_pending ?i ?t)
       (\<lambda>r. r\<lparr>row_state := res_state result, row_reason_code := res_reason_code result,
          row_account_key := res_account_key result, row_credential_status := res_status result,
          row_snapshot_json := res_snapshot_json result\<rparr>) (operations (db w))\<rparr>\<rparr>"
    unfolding Complete_def
    by (auto elim!: success_elims update_operations_InrE split: if_splits)
  from count_pending [OF uniq n] obtain r
    where "find_operation ?i (db w) = Some r" "is_pending ?i ?t r" by blast
  from that [OF this st w'] show thesis .
qed

text \<open>A successful transaction of \<open>Execute\<close>: the row was pending under the worker's token, and
  is now closed with the result that is returned; no other row changed.\<close>

lemma run_admitted_InrE:
  assumes run: "run_admitted operation token mutation w = (Inr out, w')"
    and base: "base w = None" and ll: "leaves_ledger mutation"
    and uniq: "unique_on row_operation_id (operations (db w))"
  obtains r r' where
    "find_operation (op_operation_id operation) (db w) = Some r"
    "is_pending (op_operation_id operation) token r"
    "find_operation (op_operation_id operation) (db w') = Some r'"
    "out = Some (operationFromRecord r')"
    "row_state r' \<noteq> operationStatePending" "row_state r' \<noteq> operationStateNotReceived"
    "row_ref r' = row_ref r"
    "\<And>i. i \<noteq> op_operation_id operation \<Longrightarrow> find_operation i (db w') = find_operation i (db w)"
    "map row_operation_id (operations (db w')) = map row_operation_id (operations (db w))"
    "base w' = None"
proof -
  let ?i = "op_operation_id operation"
  let ?w0 = "w\<lparr>base := Some (db w)\<rparr>"
  from run base obtain w1 w2 res w3 fs0 fs3 where
    lock: "LockPending ?i token ?w0 = (Inr (), w1)" and
    mut: "mutation w1 = (Inr (Some res), w2)" and
    comp: "Complete (res\<lparr>res_operation := operation, res_execution_token := token\<rparr>) w2 = (Inr (), w3)" and
    out: "out = map_option operationFromRecord (find_operation ?i (db w3))" and
    w': "db w' = db w3" "base w' = None"
    unfolding run_admitted_def
    by (auto elim!: transaction_InrE success_elims get_operation_InrE split: option.splits)
  from lock have w1: "db w1 = db w" "base w1 = Some (db w)"
    by (auto elim!: LockPending_InrE)
  have ops2: "operations (db w2) = operations (db w)"
    using leaves_ledgerD [OF ll mut] w1(1) by simp
  with uniq have uniq2: "unique_on row_operation_id (operations (db w2))" by simp
  let ?f = "\<lambda>r. r\<lparr>row_state := res_state res, row_reason_code := res_reason_code res,
          row_account_key := res_account_key res, row_credential_status := res_status res,
          row_snapshot_json := res_snapshot_json res\<rparr>"
  obtain r where
    r: "find_operation ?i (db w2) = Some r" "is_pending ?i token r" and
    st: "res_state res \<noteq> operationStatePending" "res_state res \<noteq> operationStateNotReceived" and
    db3: "db w3 = (db w2)\<lparr>operations := update_where (is_pending ?i token) ?f (operations (db w2))\<rparr>"
    by (rule Complete_InrE [OF comp uniq2]) (rule that, simp_all)
  have look: "find_operation j (db w3) =
      map_option (\<lambda>r. if is_pending ?i token r then ?f r else r) (find_operation j (db w))" for j
    unfolding db3 by (subst find_operation_update) (simp_all add: find_operation_def ops2)
  have same: "find_operation j (db w2) = find_operation j (db w)" for j
    by (simp add: find_operation_def ops2)
  show thesis
  proof (rule that [of r "?f r"])
    show "find_operation i (db w') = find_operation i (db w)" if "i \<noteq> ?i" for i
      using that look [of i] w'(1)
      by (cases "find_operation i (db w)") (auto simp: find_operation_def is_pending_def dest: find_SomeD)
    show "map row_operation_id (operations (db w')) = map row_operation_id (operations (db w))"
      unfolding w'(1) db3 by (simp add: map_update_where ops2)
    show "row_ref (?f r) = row_ref r"
      by (simp add: row_ref_def operationFromRecord_def)
  qed (use r st look same out w' in \<open>simp_all\<close>)
qed

section \<open>The life of a ledger row\<close>

text \<open>One statement changes the row of an operation in one of three ways: it appears, it stays, or
  it moves from pending to closed with the same operation reference.\<close>

definition row_evolves :: "platform_operation option \<Rightarrow> platform_operation option \<Rightarrow> bool" where
  "row_evolves before after \<longleftrightarrow> (case before of
       None \<Rightarrow> True
     | Some r \<Rightarrow> (case after of
         None \<Rightarrow> False
       | Some r' \<Rightarrow> r' = r \<or> (row_state r = operationStatePending
                           \<and> row_state r' \<noteq> operationStatePending \<and> row_ref r' = row_ref r)))"

definition ledger_evolves :: "mihomo_db \<Rightarrow> mihomo_db \<Rightarrow> bool" where
  "ledger_evolves d d' \<longleftrightarrow>
     (unique_on row_operation_id (operations d) \<longrightarrow> unique_on row_operation_id (operations d')) \<and>
     (\<forall>i. row_evolves (find_operation i d) (find_operation i d'))"

lemma row_evolves_refl [simp]: "row_evolves x x"
  by (simp add: row_evolves_def split: option.splits)

lemma row_evolves_trans: "row_evolves x y \<Longrightarrow> row_evolves y z \<Longrightarrow> row_evolves x z"
  by (auto simp: row_evolves_def split: option.splits)

lemma ledger_evolves_refl [simp]: "ledger_evolves d d"
  by (simp add: ledger_evolves_def)

lemma ledger_evolves_trans: "ledger_evolves d1 d2 \<Longrightarrow> ledger_evolves d2 d3 \<Longrightarrow> ledger_evolves d1 d3"
  unfolding ledger_evolves_def by (blast intro: row_evolves_trans)

lemma ledger_evolves_ops: "operations d' = operations d \<Longrightarrow> ledger_evolves d d'"
  by (simp add: ledger_evolves_def find_operation_def)

lemma evolves_insert:
  assumes "find_operation (row_operation_id record) d = None"
  shows "ledger_evolves d (d\<lparr>operations := operations d @ [record]\<rparr>)"
  using assms
  by (auto simp: ledger_evolves_def find_operation_def unique_on_snoc find_snoc row_evolves_def
      find_None_list_ex split: option.splits)

lemma evolves_close:
  assumes "\<And>r. row_ref (f r) = row_ref r" and "\<And>r. row_state (f r) \<noteq> operationStatePending"
  shows "ledger_evolves d (d\<lparr>operations := update_where (is_pending i token) f (operations d)\<rparr>)"
proof -
  have id: "row_operation_id (f r) = row_operation_id r" for r
    using assms(1) [of r] by (metis row_ref_id)
  then show ?thesis
    using assms find_operation_update [of f, OF id]
    by (auto simp: ledger_evolves_def unique_on_update_where row_evolves_def is_pending_def
        split: option.splits)
qed

lemma insert_operation_evolves: "keeps (ledger_evolves d0) (insert_operation record)"
  unfolding insert_operation_def
  by (rule keeps_statement)
     (auto split: if_splits intro!: ledger_evolves_trans [OF _ evolves_insert]
       simp: find_operation_def find_None_list_ex)

lemma update_operations_evolves:
  assumes "\<And>r. row_ref (f r) = row_ref r" and "\<And>r. row_state (f r) \<noteq> operationStatePending"
  shows "keeps (ledger_evolves d0) (update_operations (is_pending i token) f)"
  unfolding update_operations_def
  by (rule keeps_statement)
     (auto split: if_splits intro!: ledger_evolves_trans [OF _ evolves_close] assms)

lemma get_operation_keeps [keeps_rules, simp]: "keeps I (get_operation i)"
  unfolding get_operation_def by (auto intro!: keeps_rules)

lemma Admit_evolves: "keeps (ledger_evolves d0) (Admit now token operation)"
  unfolding Admit_def Let_def by (intro keeps_rules insert_operation_evolves)

lemma FailPending_evolves: "keeps (ledger_evolves d0) (FailPending newToken i token reason)"
  unfolding FailPending_def
  by (intro keeps_rules update_operations_evolves)
     (simp_all add: row_ref_def operationFromRecord_def operation_states)

lemma Resolve_evolves: "keeps (ledger_evolves d0) (Resolve_repo now token newToken operation)"
  unfolding Resolve_repo_def Let_def
  by (intro keeps_rules insert_operation_evolves update_operations_evolves)
     (simp_all add: row_ref_def operationFromRecord_def operation_states)

lemma LockPending_keeps [keeps_rules, simp]: "keeps I (LockPending i token)"
  unfolding LockPending_def by (intro keeps_rules)

lemma Complete_evolves: "keeps (ledger_evolves d0) (Complete result)"
  unfolding Complete_def
  by (intro keeps_rules update_operations_evolves)
     (simp_all add: row_ref_def operationFromRecord_def)

lemma leaves_ledger_evolves:
  assumes "leaves_ledger m"
  shows "keeps (ledger_evolves d0) m"
proof -
  have eq: "(\<lambda>d. ledger_evolves d0 (d0\<lparr>operations := operations d\<rparr>)) = ledger_evolves d0"
    by (rule ext) (simp add: ledger_evolves_def find_operation_def)
  have "keeps (\<lambda>d. ledger_evolves d0 (d0\<lparr>operations := operations d\<rparr>)) m"
    by (rule frames_keeps) (rule assms [unfolded leaves_ledger_def])
  then show ?thesis
    by (simp only: eq)
qed

lemma run_admitted_evolves:
  "leaves_ledger mutation \<Longrightarrow> keeps (ledger_evolves d0) (run_admitted operation token mutation)"
  unfolding run_admitted_def
  by (intro keeps_rules leaves_ledger_evolves Complete_evolves)

lemma evolves_after:
  assumes "\<And>d0. keeps (ledger_evolves d0) m" and "base w = None"
  shows "ledger_evolves (db w) (db (snd (m w)))"
  using keepsD [OF assms(1) [of "db w"], of w] assms(2) by (simp add: holds_def)

section \<open>Interleavings of workers and resolvers\<close>

text \<open>Each transaction of the code is one step; their arguments (instants, fresh tokens, the
  mutation, which statements fail) are arbitrary, so the steps of any number of concurrent
  \<open>Execute\<close> and \<open>Resolve\<close> calls are covered.\<close>

inductive ledger_step :: "mihomo_db \<Rightarrow> mihomo_db \<Rightarrow> bool" where
  step_admit: "base w = None \<Longrightarrow> ledger_step (db w) (db (snd (Admit now token operation w)))"
| step_run: "base w = None \<Longrightarrow> leaves_ledger mutation \<Longrightarrow>
    ledger_step (db w) (db (snd (run_admitted operation token mutation w)))"
| step_fail: "base w = None \<Longrightarrow>
    ledger_step (db w) (db (snd (FailPending newToken i token reason w)))"
| step_resolve: "base w = None \<Longrightarrow>
    ledger_step (db w) (db (snd (Resolve_repo now token newToken operation w)))"

inductive ledger_commit :: "string \<Rightarrow> mihomo_db \<Rightarrow> mihomo_db \<Rightarrow> bool" where
  "base w = None \<Longrightarrow> leaves_ledger mutation \<Longrightarrow>
   run_admitted operation token mutation w = (Inr out, w') \<Longrightarrow>
   ledger_commit (op_operation_id operation) (db w) (db w')"

abbreviation operation_ids_unique :: "mihomo_db \<Rightarrow> bool" where
  "operation_ids_unique d \<equiv> unique_on row_operation_id (operations d)"

abbreviation operation_closed :: "platform_operation \<Rightarrow> bool" where
  "operation_closed r \<equiv> row_state r \<noteq> operationStatePending"

lemma ledger_step_evolves: "ledger_step d d' \<Longrightarrow> ledger_evolves d d'"
  by (induction rule: ledger_step.induct)
     (auto intro!: evolves_after Admit_evolves run_admitted_evolves FailPending_evolves Resolve_evolves)

lemma ledger_commit_step: "ledger_commit i d d' \<Longrightarrow> ledger_step d d'"
  by (induction rule: ledger_commit.induct) (metis snd_conv step_run)

interpretation ledger: closing find_operation operation_closed operation_ids_unique ledger_step ledger_commit
proof unfold_locales
  fix s t
  assume st: "ledger_step s t"
  note ev = ledger_step_evolves [OF st, unfolded ledger_evolves_def]
  show "operation_ids_unique s \<Longrightarrow> operation_ids_unique t"
    using ev by blast
  show "find_operation k t = Some r"
    if "find_operation k s = Some r" "operation_closed r" for k r
    using ev that by (auto simp: row_evolves_def split: option.splits dest!: spec [of _ k])
  show "find_operation k t \<noteq> None" if "find_operation k s \<noteq> None" for k
    using ev that by (auto simp: row_evolves_def split: option.splits dest!: spec [of _ k])
next
  fix k s t
  assume c: "ledger_commit k s t"
  then show "ledger_step s t" by (rule ledger_commit_step)
  assume u: "operation_ids_unique s"
  from c u show "\<exists>r. find_operation k s = Some r \<and> \<not> operation_closed r"
    by (induction rule: ledger_commit.induct) (auto elim!: run_admitted_InrE simp: is_pending_def)
  from c u show "\<exists>r. find_operation k t = Some r \<and> operation_closed r"
    by (induction rule: ledger_commit.induct) (auto elim!: run_admitted_InrE)
qed

lemma Admit_base: "base w = None \<Longrightarrow> base (snd (Admit now token operation w)) = None"
  by (simp add: Admit_def transaction_base)

lemma run_admitted_base: "base w = None \<Longrightarrow> base (snd (run_admitted operation token mutation w)) = None"
  by (simp add: run_admitted_def transaction_base)

lemma FailPending_base: "base (snd (FailPending newToken i token reason w)) = base w"
  by (auto simp: FailPending_def update_operations_def statement_def effect_simps
      split: prod.splits sum.splits)

lemma Resolve_base: "base w = None \<Longrightarrow> base (snd (Resolve now token newToken operation w)) = None"
  by (auto simp: Resolve_def Resolve_repo_def transaction_base effect_simps split: option.splits)

text \<open>The transactions of one \<open>Execute\<close>, as steps of the protocol.\<close>

lemma fires_one_step: "step s t \<Longrightarrow> fires step fire s [] t"
  by (rule fires_quiet [where t = s]) (rule fires_start)

lemma fires_admitted:
  assumes "base w = None" and "leaves_ledger mutation"
  shows "\<exists>ids \<in> {[], [op_operation_id operation]}.
    fires ledger_step ledger_commit (db w) ids (db (snd (run_admitted operation token mutation w)))"
proof (cases "fst (run_admitted operation token mutation w)")
  case (Inl e)
  have "fires ledger_step ledger_commit (db w) [] (db (snd (run_admitted operation token mutation w)))"
    by (rule fires_one_step) (rule step_run [OF assms])
  then show ?thesis by blast
next
  case (Inr out)
  then have "run_admitted operation token mutation w
      = (Inr out, snd (run_admitted operation token mutation w))"
    by (metis prod.collapse)
  from ledger_commit.intros [OF assms this]
  have "fires ledger_step ledger_commit (db w) ([] @ [op_operation_id operation])
      (db (snd (run_admitted operation token mutation w)))"
    by (rule fires_fire [OF fires_start])
  then show ?thesis by simp
qed

lemma Execute_cases:
  obtains (refused) e where "Execute now token newToken operation mutation w = (Inl e, w)"
  | (answered) r where "Execute now token newToken operation mutation w
        = (r, snd (Admit now token operation w))"
  | (ran) tok r where "Execute now token newToken operation mutation w
        = (r, snd (run_admitted operation tok mutation (snd (Admit now token operation w))))"
  | (failed) tok reason e where "Execute now token newToken operation mutation w
        = (Inl e, snd (FailPending newToken (op_operation_id operation) tok reason
            (snd (run_admitted operation tok mutation (snd (Admit now token operation w))))))"
proof (cases "validateOperationRef operation")
  case (Some e)
  then show ?thesis
    using refused by (simp add: Execute_def effect_simps)
next
  case None
  obtain r1 w1 where a: "Admit now token operation w = (r1, w1)"
    by (metis surj_pair)
  show ?thesis
  proof (cases r1)
    case (Inl e)
    with None a show ?thesis
      using answered by (simp add: Execute_def effect_simps)
  next
    case (Inr p)
    obtain existing admitted where p: "p = (existing, admitted)" by (cases p) auto
    show ?thesis
    proof (cases "admitted \<and> existing \<noteq> None \<and> res_execution_token (the existing) \<noteq> ''''")
      case False
      with None a Inr p show ?thesis
        using answered
        by (cases admitted; cases existing) (auto simp: Execute_def effect_simps)
    next
      case True
      then obtain e where e: "existing = Some e" by blast
      obtain r2 w2 where b: "run_admitted operation (res_execution_token e) mutation w1 = (r2, w2)"
        by (metis surj_pair)
      show ?thesis
        using None a Inr p True e b ran [of r2 "res_execution_token e"]
          failed [of _ "res_execution_token e"]
        by (cases r2) (auto simp: Execute_def effect_simps)
    qed
  qed
qed

lemma Execute_protocol:
  assumes w: "base w = None" and ll: "leaves_ledger mutation"
  shows "\<exists>ids \<in> {[], [op_operation_id operation]}. fires ledger_step ledger_commit (db w) ids
           (db (snd (Execute now token newToken operation mutation w)))"
proof -
  let ?w1 = "snd (Admit now token operation w)"
  let ?goal = "\<lambda>d. \<exists>ids \<in> {[], [op_operation_id operation]}. fires ledger_step ledger_commit (db w) ids d"
  have w1: "base ?w1 = None" using w by (rule Admit_base)
  have admit: "fires ledger_step ledger_commit (db w) [] (db ?w1)"
    by (rule fires_one_step) (rule step_admit [OF w])
  have run: "?goal (db (snd (run_admitted operation tok mutation ?w1)))" for tok
  proof -
    from fires_admitted [OF w1 ll] obtain ids where ids: "ids \<in> {[], [op_operation_id operation]}"
      "fires ledger_step ledger_commit (db ?w1) ids (db (snd (run_admitted operation tok mutation ?w1)))"
      by blast
    from fires_trans [OF ids(2) admit] ids(1) show ?thesis by auto
  qed
  have fail: "?goal (db (snd (FailPending newToken i tok' reason (snd (run_admitted operation tok mutation ?w1)))))"
    for i tok tok' reason
    using run [of tok]
    by (blast intro: fires_quiet step_fail [OF run_admitted_base [OF w1]])
  show ?thesis
  proof (rule Execute_cases [of now token newToken operation mutation w])
  qed (use run fail admit fires_start in \<open>auto\<close>)
qed

section \<open>What callers may rely on\<close>

lemma row_ok_fits:
  "operation_row_ok (new_operation_row operation token lease state) \<Longrightarrow> generation_fits operation"
  by (auto simp: operation_row_ok_new generation_fits_def split: if_splits)

lemma find_operation_id: "find_operation i d = Some r \<Longrightarrow> row_operation_id r = i"
  by (auto simp: find_operation_def dest: find_SomeD)

lemma find_operation_insert:
  "find_operation (row_operation_id record) d = None \<Longrightarrow>
   find_operation (row_operation_id record) (d\<lparr>operations := operations d @ [record]\<rparr>) = Some record"
  by (simp add: find_operation_def find_snoc)

lemma Admit_InrE:
  assumes "Admit now token operation w = (Inr (x, admitted), w1)" and "base w = None"
  obtains r where "find_operation (op_operation_id operation) (db w1) = Some r"
    "row_ref r = operation" "x = Some (operationFromRecord r)" "generation_fits operation"
    "base w1 = None"
    "operation_ids_unique (db w) \<Longrightarrow> operation_ids_unique (db w1)"
    "if admitted then find_operation (op_operation_id operation) (db w) = None
       \<and> r = new_operation_row operation token (now + operationExecutionLease) operationStatePending
     else db w1 = db w"
proof -
  let ?row = "new_operation_row operation token (now + operationExecutionLease) operationStatePending"
  from assms obtain n w2 w3 fs where
    ins: "insert_operation ?row (w\<lparr>base := Some (db w)\<rparr>) = (Inr n, w2)" and
    rest: "(if n = 1 then return (Some (operationFromRecord ?row), True)
      else andThen (get_operation (op_operation_id operation)) (\<lambda>existing. case existing of
          None \<Rightarrow> raise ErrOperationConflict
        | Some e \<Rightarrow> if res_operation e \<noteq> operation then raise ErrOperationConflict
                    else return (Some e, False))) w2 = (Inr (x, admitted), w3)" and
    w1: "w1 = w3\<lparr>base := None, faults := fs\<rparr>"
    unfolding Admit_def Let_def by (auto elim!: transaction_InrE andThen_InrE)
  from ins obtain fs' where ok: "operation_row_ok ?row"
    and n: "n = (if find_operation (op_operation_id operation) (db w) = None then 1 else 0)"
    and w2: "db w2 = (if n = 1 then (db w)\<lparr>operations := operations (db w) @ [?row]\<rparr> else db w)"
    by (auto elim!: insert_operation_InrE)
  have uniq: "operation_ids_unique (db w) \<Longrightarrow> operation_ids_unique (db w1)"
    using evolves_after [OF Admit_evolves assms(2), of now token operation] assms(1)
    by (simp add: ledger_evolves_def)
  show thesis
  proof (cases "find_operation (op_operation_id operation) (db w)")
    case None
    with rest n w1 w2 have "x = Some (operationFromRecord ?row)" "admitted"
      "db w1 = (db w)\<lparr>operations := operations (db w) @ [?row]\<rparr>" "base w1 = None"
      by (auto simp: effect_simps)
    with None row_ok_fits [OF ok] uniq find_operation_insert [of ?row] that [of ?row]
    show ?thesis by simp
  next
    case (Some r)
    with rest n w1 w2 have "row_ref r = operation" "x = Some (operationFromRecord r)" "\<not> admitted"
      "db w1 = db w" "base w1 = None"
      by (auto elim!: success_elims get_operation_InrE split: if_splits)
    with Some row_ok_fits [OF ok] uniq that [of r] show ?thesis by simp
  qed
qed

text \<open>Whatever \<open>Execute\<close> or \<open>Resolve\<close> returns is the stored row of the requested operation.\<close>

definition stored_answer :: "operation_ref \<Rightarrow> operation_result \<Rightarrow> mihomo_db \<Rightarrow> bool" where
  "stored_answer operation res d \<longleftrightarrow> generation_fits operation \<and>
     (\<exists>r. find_operation (op_operation_id operation) d = Some r \<and> row_ref r = operation \<and>
          res = operationFromRecord r)"

lemma Execute_stored:
  assumes run: "Execute now token newToken operation mutation w = (Inr out, w1)"
    and base: "base w = None" and ll: "leaves_ledger mutation" and uniq: "operation_ids_unique (db w)"
  shows "\<exists>res. out = Some res \<and> stored_answer operation res (db w1)"
    and "validateOperationRef operation = None"
proof -
  show valid: "validateOperationRef operation = None"
    using run by (auto simp: Execute_def effect_simps split: option.splits)
  obtain r0 w2 where a0: "Admit now token operation w = (r0, w2)" by (metis surj_pair)
  with run valid obtain x admitted where r0: "r0 = Inr (x, admitted)"
    by (cases r0) (auto simp: Execute_def effect_simps)
  note a = a0 [unfolded r0]
  from run valid a have rest: "\<not> admitted \<Longrightarrow> out = x \<and> w1 = w2"
    by (simp add: Execute_def effect_simps)
  have rest': "\<exists>e. x = Some e \<and> run_admitted operation (res_execution_token e) mutation w2 = (Inr out, w1)"
    if admitted
  proof -
    from run valid a that obtain e where e: "x = Some e"
      by (cases x) (auto simp: Execute_def effect_simps)
    obtain r2 w3 where "run_admitted operation (res_execution_token e) mutation w2 = (r2, w3)"
      by (metis surj_pair)
    with run valid a that e show ?thesis
      by (cases r2) (auto simp: Execute_def effect_simps split: if_splits)
  qed
  from Admit_InrE [OF a base] obtain r where
    r: "find_operation (op_operation_id operation) (db w2) = Some r" "row_ref r = operation"
       "x = Some (operationFromRecord r)" "generation_fits operation" "base w2 = None"
       "operation_ids_unique (db w2)"
    using uniq by blast
  show "\<exists>res. out = Some res \<and> stored_answer operation res (db w1)"
  proof (cases admitted)
    case False
    with rest r show ?thesis by (auto simp: stored_answer_def)
  next
    case True
    with rest' r(3) have "run_admitted operation (row_execution_token r) mutation w2 = (Inr out, w1)"
      by auto
    from run_admitted_InrE [OF this r(5) ll r(6)] r(1,2,4) show ?thesis
      by (metis (no_types, lifting) option.inject stored_answer_def)
  qed
qed

lemma Resolve_stored:
  assumes run: "Resolve now token newToken operation w = (Inr out, w1)" and base: "base w = None"
  shows "\<exists>res. out = Some res \<and> stored_answer operation res (db w1)"
    and "validateOperationRef operation = None"
proof -
  show valid: "validateOperationRef operation = None"
    using run by (auto simp: Resolve_def effect_simps split: option.splits)
  let ?row = "new_operation_row operation token now operationStateNotReceived"
  let ?i = "op_operation_id operation"
  from run valid base obtain n w2 w3 fs where
    ins: "insert_operation ?row (w\<lparr>base := Some (db w)\<rparr>) = (Inr n, w2)" and
    rest: "(if n = 1 then return (Some (operationFromRecord ?row))
      else andThen (get_operation ?i) (\<lambda>found. case found of
          None \<Rightarrow> raise (OtherError ''nil pointer dereference'')
        | Some existing \<Rightarrow>
            if res_operation existing \<noteq> operation then raise ErrOperationConflict
            else if res_state existing = operationStatePending \<and> \<not> res_lease_expires_at existing > now
            then andThen (update_operations (is_pending ?i (res_execution_token existing))
                   (\<lambda>r. r\<lparr>row_state := operationStateFailedInputRequired,
                     row_reason_code := ''operation_outcome_unknown'', row_execution_token := newToken\<rparr>))
                   (\<lambda>_. get_operation ?i)
            else return (Some existing))) w2 = (Inr out, w3)" and
    w1: "w1 = w3\<lparr>base := None, faults := fs\<rparr>"
    unfolding Resolve_def Resolve_repo_def Let_def by (auto elim!: transaction_InrE andThen_InrE)
  from ins obtain fs' where ok: "operation_row_ok ?row"
    and n: "n = (if find_operation ?i (db w) = None then 1 else 0)"
    and w2: "db w2 = (if n = 1 then (db w)\<lparr>operations := operations (db w) @ [?row]\<rparr> else db w)"
    by (auto elim!: insert_operation_InrE)
  note fits = row_ok_fits [OF ok]
  show "\<exists>res. out = Some res \<and> stored_answer operation res (db w1)"
  proof (cases "find_operation ?i (db w)")
    case None
    with rest n w1 w2 fits find_operation_insert [of ?row "db w"] show ?thesis
      by (auto simp: effect_simps stored_answer_def)
  next
    case (Some r)
    let ?f = "\<lambda>r. r\<lparr>row_state := operationStateFailedInputRequired,
       row_reason_code := ''operation_outcome_unknown'', row_execution_token := newToken\<rparr>"
    have f: "row_ref (?f r) = row_ref r" "\<And>r. row_operation_id (?f r) = row_operation_id r" for r
      by (simp_all add: row_ref_def operationFromRecord_def)
    from Some rest n w1 w2 fits show ?thesis
      by (auto elim!: success_elims get_operation_InrE update_operations_InrE split: if_splits
          simp: stored_answer_def find_operation_update f)
  qed
qed

lemma later_Execute_answers:
  assumes ans: "stored_answer operation res d" and closed: "res_state res \<noteq> operationStatePending"
    and valid: "validateOperationRef operation = None"
    and uniq: "operation_ids_unique d" and steps: "ledger_step\<^sup>*\<^sup>* d (db w)"
    and w: "base w = None" "faults w = []" and token: "token \<noteq> ''''"
  shows "Execute now token newToken operation mutation w = (Inr (Some res), w)"
proof -
  from ans obtain r where r: "find_operation (op_operation_id operation) d = Some r"
    "row_ref r = operation" "res = operationFromRecord r" "generation_fits operation"
    by (auto simp: stored_answer_def)
  from closed r(3) have "operation_closed r" by simp
  from ledger.run_closed [OF steps uniq r(1) this]
  have "find_operation (op_operation_id operation) (db w) = Some r" .
  from Execute_taken [OF valid r(4) token w(2,1) this] r(2,3) show ?thesis by simp
qed

section \<open>Properties of the ledger\<close>

text \<open>A request and a mutation the examples use.\<close>

definition sample_operation :: operation_ref where
  "sample_operation = \<lparr>op_operation_id = ''op-1'', op_kind = ''OPERATION_KIND_BIND_CREDENTIAL'',
     op_binding_ref = ''bind_1'', op_pre_generation = 0, op_target_generation = 1,
     op_request_fingerprint = ''fp''\<rparr>"

definition sample_result :: operation_result where
  "sample_result = \<lparr>res_operation = sample_operation, res_state = ''succeeded'',
     res_reason_code = '''', res_account_key = ''acct'', res_status = ''active'',
     res_snapshot_json = ''{}'', res_execution_token = '''', res_lease_expires_at = 0\<rparr>"

lemma leaves_ledger_return [simp]: "leaves_ledger (return x)"
  by (simp add: leaves_ledger_def)

lemma sample_admit:
  "Admit 0 ''t'' sample_operation (initial_world empty_mihomo_db) =
     (Inr (Some (operationFromRecord (new_operation_row sample_operation ''t'' operationExecutionLease ''pending'')), True),
      initial_world (empty_mihomo_db\<lparr>operations := [new_operation_row sample_operation ''t'' operationExecutionLease ''pending'']\<rparr>))"
  by (simp add: bigint_ok_def Admit_def Let_def transaction_def effect_simps find_operation_def operation_row_ok_new
      fixed_generation_kinds_def sample_operation_def empty_mihomo_db_def initial_world_def
      operation_states operation_row_ok_def new_operation_row_def)

text \<open>The row \<open>Execute\<close> leaves in the ledger for the sample request.\<close>

definition sample_row :: platform_operation where
  "sample_row = (new_operation_row sample_operation ''t'' operationExecutionLease ''succeeded'')
     \<lparr>row_account_key := ''acct'', row_credential_status := ''active''\<rparr>"

lemma sample_run:
  "run_admitted sample_operation ''t'' (return (Some sample_result))
     (initial_world (empty_mihomo_db\<lparr>operations := [new_operation_row sample_operation ''t'' operationExecutionLease ''pending'']\<rparr>)) =
   (Inr (Some (operationFromRecord sample_row)), initial_world (empty_mihomo_db\<lparr>operations := [sample_row]\<rparr>))"
  by (simp add: bigint_ok_def run_admitted_def transaction_def effect_simps LockPending_def Complete_def
      update_operations_def find_operation_def operation_row_ok_def fixed_generation_kinds_def
      sample_operation_def sample_result_def sample_row_def empty_mihomo_db_def initial_world_def
      operation_states is_pending_def new_operation_row_def count_where_def get_operation_def)

lemma sample_execute:
  "Execute 0 ''t'' ''n'' sample_operation (return (Some sample_result)) (initial_world empty_mihomo_db) =
   (Inr (Some (operationFromRecord sample_row)), initial_world (empty_mihomo_db\<lparr>operations := [sample_row]\<rparr>))"
proof -
  have "validateOperationRef sample_operation = None"
    by (simp add: validateOperationRef_def sample_operation_def)
  then show ?thesis
    by (simp add: Execute_def effect_simps sample_admit sample_run)
qed

lemma sample_row_simps [simp]:
  "row_ref sample_row = sample_operation" "row_state sample_row = ''succeeded''"
  "row_operation_id sample_row = ''op-1''"
  by (simp_all add: sample_row_def row_ref_def operationFromRecord_def new_operation_row_def
      sample_operation_def)

text \<open>C3: However the transactions of any number of concurrent \<open>Execute\<close> and \<open>Resolve\<close> calls
  interleave, and whichever statements fail, the mutation of an operation id commits at most
  once.\<close>

theorem ledger_mutation_at_most_once:
  assumes "fires ledger_step ledger_commit d ids d'" and "operation_ids_unique d"
  shows "distinct ids"
  using assms by (rule ledger.fires_distinct)

lemma ledger_mutation_at_most_once_witness:
  "fires ledger_step ledger_commit empty_mihomo_db [''op-1''] (empty_mihomo_db\<lparr>operations := [sample_row]\<rparr>)
   \<and> distinct [''op-1'']"
proof -
  let ?d = "empty_mihomo_db\<lparr>operations := [new_operation_row sample_operation ''t'' operationExecutionLease ''pending'']\<rparr>"
  have "ledger_step empty_mihomo_db ?d"
    using step_admit [of "initial_world empty_mihomo_db" 0 "''t''" sample_operation]
    by (simp add: sample_admit)
  then have "fires ledger_step ledger_commit empty_mihomo_db [] ?d" by (rule fires_one_step)
  moreover have "ledger_commit ''op-1'' ?d (empty_mihomo_db\<lparr>operations := [sample_row]\<rparr>)"
    using ledger_commit.intros [OF _ _ sample_run] by (simp add: sample_operation_def)
  ultimately have f: "fires ledger_step ledger_commit empty_mihomo_db ([] @ [''op-1''])
      (empty_mihomo_db\<lparr>operations := [sample_row]\<rparr>)" by (rule fires_fire)
  have "operation_ids_unique empty_mihomo_db" by (simp add: empty_mihomo_db_def unique_on_def)
  from ledger_mutation_at_most_once [OF f this] f show ?thesis by simp
qed



text \<open>Once \<open>Execute\<close> has answered with a closed row, that answer is final: after any further
  interleaving, every later \<open>Execute\<close> of the same request returns the same result without
  running its mutation or writing anything.\<close>

theorem Execute_answer_is_final:
  assumes "Execute now token newToken operation mutation w = (Inr (Some res), w1)"
    and "res_state res \<noteq> operationStatePending"
    and "base w = None" "leaves_ledger mutation" "operation_ids_unique (db w)"
    and "ledger_step\<^sup>*\<^sup>* (db w1) (db v)" "operation_ids_unique (db w1)"
    and "base v = None" "faults v = []" "token' \<noteq> ''''"
  shows "Execute now' token' newToken' operation mutation' v = (Inr (Some res), v)"
proof -
  from Execute_stored [OF assms(1,3,4,5)] have "stored_answer operation res (db w1)"
    and v: "validateOperationRef operation = None" by auto
  from later_Execute_answers [OF this(1) assms(2) v assms(7,6,8,9,10)] show ?thesis .
qed

lemma Execute_answer_is_final_witness:
  "Execute 7 ''t2'' ''n2'' sample_operation (raise ErrOperationState)
     (initial_world (empty_mihomo_db\<lparr>operations := [sample_row]\<rparr>)) =
   (Inr (Some (operationFromRecord sample_row)), initial_world (empty_mihomo_db\<lparr>operations := [sample_row]\<rparr>))"
  by (rule Execute_answer_is_final [OF sample_execute])
     (simp_all add: operation_states unique_on_def empty_mihomo_db_def)

text \<open>When \<open>Resolve\<close> has answered that an operation was not received, or has closed it, no
  later \<open>Execute\<close> of that operation runs its mutation: each returns the resolved result and
  changes nothing.\<close>

theorem Resolve_answer_is_final:
  assumes "Resolve now token newToken operation w = (Inr (Some res), w1)"
    and "res_state res \<noteq> operationStatePending"
    and "base w = None" "operation_ids_unique (db w1)"
    and "ledger_step\<^sup>*\<^sup>* (db w1) (db v)"
    and "base v = None" "faults v = []" "token' \<noteq> ''''"
  shows "Execute now' token' newToken' operation mutation v = (Inr (Some res), v)"
proof -
  from Resolve_stored [OF assms(1,3)] have "stored_answer operation res (db w1)"
    and v: "validateOperationRef operation = None" by auto
  from later_Execute_answers [OF this(1) assms(2) v assms(4-8)] show ?thesis .
qed

lemma sample_resolve:
  "Resolve 0 ''t'' ''n'' sample_operation (initial_world empty_mihomo_db) =
   (Inr (Some (operationFromRecord (new_operation_row sample_operation ''t'' 0 ''not_received''))),
    initial_world (empty_mihomo_db\<lparr>operations := [new_operation_row sample_operation ''t'' 0 ''not_received'']\<rparr>))"
  by (simp add: bigint_ok_def Resolve_def Resolve_repo_def Let_def transaction_def effect_simps validateOperationRef_def
      find_operation_def fixed_generation_kinds_def sample_operation_def empty_mihomo_db_def
      initial_world_def operation_states operation_row_ok_def new_operation_row_def)

lemma Resolve_answer_is_final_witness:
  "Execute 7 ''t2'' ''n2'' sample_operation (return (Some sample_result))
     (initial_world (empty_mihomo_db\<lparr>operations := [new_operation_row sample_operation ''t'' 0 ''not_received'']\<rparr>)) =
   (Inr (Some (operationFromRecord (new_operation_row sample_operation ''t'' 0 ''not_received''))),
    initial_world (empty_mihomo_db\<lparr>operations := [new_operation_row sample_operation ''t'' 0 ''not_received'']\<rparr>))"
  by (rule Resolve_answer_is_final [OF sample_resolve])
     (simp_all add: operation_states unique_on_def empty_mihomo_db_def)

text \<open>The row \<open>Resolve\<close> leaves when it takes over an operation whose lease has run out.\<close>

definition abandoned :: "string \<Rightarrow> platform_operation \<Rightarrow> platform_operation" where
  "abandoned newToken r = r\<lparr>row_state := operationStateFailedInputRequired,
     row_reason_code := ''operation_outcome_unknown'', row_execution_token := newToken\<rparr>"

lemma abandoned_simps [simp]:
  "row_operation_id (abandoned newToken r) = row_operation_id r"
  "row_ref (abandoned newToken r) = row_ref r"
  "row_state (abandoned newToken r) = operationStateFailedInputRequired"
  by (simp_all add: abandoned_def row_ref_def operationFromRecord_def)

lemma abandoned_row_ok:
  "operation_row_ok r \<Longrightarrow> newToken \<noteq> '''' \<Longrightarrow> operation_row_ok (abandoned newToken r)"
  by (auto simp: operation_row_ok_def abandoned_def operation_states)

lemma run_admitted_not_pending:
  assumes "faults w = []" "base w = None"
    and "find (is_pending (op_operation_id operation) token) (operations (db w)) = None"
  shows "run_admitted operation token mutation w = (Inl ErrOperationState, w)"
  using assms by (cases w) (simp add: run_admitted_def transaction_def LockPending_def effect_simps committed_def)

lemma not_pending:
  assumes "operation_ids_unique d" and "find_operation i d = Some r" and "operation_closed r"
  shows "find (is_pending i token) (operations d) = None"
proof -
  have "\<not> is_pending i token r'" if "r' \<in> set (operations d)" for r'
    using find_pending [OF assms(1) that, of i token] assms(2,3) by (auto simp: is_pending_def)
  then show ?thesis by (auto simp: find_None_list_ex list_ex_iff)
qed

lemma Resolve_taken:
  assumes valid: "validateOperationRef operation = None" "generation_fits operation" "token \<noteq> ''''"
    and w: "faults w = []" "base w = None"
    and r: "find_operation (op_operation_id operation) (db w) = Some r" "row_ref r = operation"
    and ok: "list_all operation_row_ok (operations (db w))" "newToken \<noteq> ''''"
  shows "Resolve now token newToken operation w =
    (if row_state r = operationStatePending \<and> \<not> row_lease_expires_at r > now
     then (Inr (Some (operationFromRecord (abandoned newToken r))),
           w\<lparr>db := (db w)\<lparr>operations := update_where
              (is_pending (op_operation_id operation) (row_execution_token r)) (abandoned newToken)
              (operations (db w))\<rparr>\<rparr>)
     else (Inr (Some (operationFromRecord r)), w))"
proof -
  have row: "operation_row_ok (new_operation_row operation token now operationStateNotReceived)"
    using valid by (simp add: admissible_row operation_states)
  have f: "(\<lambda>r. r\<lparr>row_state := operationStateFailedInputRequired,
      row_reason_code := ''operation_outcome_unknown'', row_execution_token := newToken\<rparr>) = abandoned newToken"
    by (rule ext) (simp add: abandoned_def)
  have noviol: "\<not> list_ex (\<lambda>r. is_pending i t r \<and> \<not> operation_row_ok (abandoned newToken r)) (operations (db w))" for i t
    using ok abandoned_row_ok by (auto simp: list_ex_iff list_all_iff)
  have look: "find_operation (op_operation_id operation) ((db w)\<lparr>operations := update_where
      (is_pending (op_operation_id operation) (row_execution_token r)) (abandoned newToken) (operations (db w))\<rparr>)
      = (if row_state r = operationStatePending then Some (abandoned newToken r) else Some r)"
    using find_operation_id [OF r(1)]
    by (subst find_operation_update) (simp_all add: r(1) is_pending_def)
  from valid(1) row w r noviol look show ?thesis
    by (cases w) (simp add: Resolve_def Resolve_repo_def Let_def f transaction_def effect_simps
        update_operations_def)
qed

text \<open>\<open>Resolve\<close> respects the lease of a running worker.  While the lease lasts it changes
  nothing and answers with the pending row; once it has run out it closes the row with an outcome
  that asks for input, and the worker that held the token can then no longer commit.\<close>

theorem Resolve_respects_lease:
  assumes "validateOperationRef operation = None" "generation_fits operation" "token \<noteq> ''''" "newToken \<noteq> ''''"
    and w: "faults w = []" "base w = None" "operation_ids_unique (db w)"
    and "list_all operation_row_ok (operations (db w))"
    and r: "find_operation (op_operation_id operation) (db w) = Some r" "row_ref r = operation"
      "row_state r = operationStatePending"
    and run: "Resolve now token newToken operation w = (res, w')"
  shows "if now < row_lease_expires_at r
         then res = Inr (Some (operationFromRecord r)) \<and> w' = w
         else res = Inr (Some (operationFromRecord (abandoned newToken r))) \<and>
              run_admitted operation (row_execution_token r) mutation w' = (Inl ErrOperationState, w')"
proof (cases "now < row_lease_expires_at r")
  case True
  with Resolve_taken [OF assms(1-3) w(1,2) r(1,2) assms(8) assms(4), of now] run show ?thesis by simp
next
  case False
  let ?i = "op_operation_id operation"
  let ?d = "(db w)\<lparr>operations := update_where (is_pending ?i (row_execution_token r)) (abandoned newToken) (operations (db w))\<rparr>"
  from False Resolve_taken [OF assms(1-3) w(1,2) r(1,2) assms(8) assms(4), of now] r(3) run
  have out: "res = Inr (Some (operationFromRecord (abandoned newToken r)))" "w' = w\<lparr>db := ?d\<rparr>" by simp_all
  have "find_operation ?i ?d = Some (abandoned newToken r)"
    using find_operation_id [OF r(1)] r(3)
    by (subst find_operation_update) (simp_all add: r(1) is_pending_def)
  moreover have "operation_ids_unique ?d"
    using w(3) by (simp add: unique_on_update_where)
  ultimately have "find (is_pending ?i (row_execution_token r)) (operations ?d) = None"
    using not_pending [of ?d ?i "abandoned newToken r"] by (simp add: operation_states)
  with out w False show ?thesis
    by (simp add: run_admitted_not_pending)
qed

lemma Resolve_respects_lease_witness:
  "run_admitted sample_operation ''t'' (return (Some sample_result)) (initial_world
     (empty_mihomo_db\<lparr>operations := [abandoned ''n2'' (new_operation_row sample_operation ''t'' operationExecutionLease ''pending'')]\<rparr>))
   = (Inl ErrOperationState, initial_world
     (empty_mihomo_db\<lparr>operations := [abandoned ''n2'' (new_operation_row sample_operation ''t'' operationExecutionLease ''pending'')]\<rparr>))"
proof -
  let ?r = "new_operation_row sample_operation ''t'' operationExecutionLease ''pending''"
  let ?w = "initial_world (empty_mihomo_db\<lparr>operations := [?r]\<rparr>)"
  have v: "validateOperationRef sample_operation = None" "generation_fits sample_operation"
    "op_operation_id sample_operation = ''op-1''"
    by (simp_all add: validateOperationRef_def generation_fits_def sample_operation_def bigint_ok_def)
  have rows: "list_all operation_row_ok (operations (db ?w))" "operation_ids_unique (db ?w)"
    "find_operation ''op-1'' (db ?w) = Some ?r"
    by (simp_all add: operation_row_ok_new fixed_generation_kinds_def unique_on_def find_operation_def v(3))
       (simp_all add: sample_operation_def bigint_ok_def)
  have run: "Resolve operationExecutionLease ''u'' ''n2'' sample_operation ?w =
      (Inr (Some (operationFromRecord (abandoned ''n2'' ?r))),
       initial_world (empty_mihomo_db\<lparr>operations := [abandoned ''n2'' ?r]\<rparr>))"
    using Resolve_taken [OF v(1,2), of "''u''" ?w ?r "''n2''" operationExecutionLease] rows
    by (simp add: v(3) operation_states is_pending_def initial_world_def)
  from Resolve_respects_lease [OF v(1,2) _ _ _ _ rows(2,1) _ _ _ run, of ?r "return (Some sample_result)"] rows(3)
  show ?thesis by (simp add: v(3) operation_states)
qed



end
