(* ===== verification/Mihomo_Store.thy ===== *)
theory Mihomo_Store
  imports Mihomo_Model "HOL-Library.List_Lexorder" "HOL-Library.Char_ord"
begin

text \<open>
  The store of credentials, profiles and devices: \<open>internal/data/credential_repo.go\<close>,
  \<open>profile_repo.go\<close>, \<open>device_repo.go\<close> and the graph deletion of \<open>management_repo.go\<close> is in
  \<open>Mihomo_Artifacts\<close>.  The constraints of \<open>000001_init_schema.up.sql\<close> are a check every
  write passes; a write that would break one changes nothing and fails with the violation.
  Deleting a credential deletes its profiles, devices and artifacts (\<open>ON DELETE CASCADE\<close>).
\<close>

section \<open>Constraints of the schema\<close>

definition credential_row_ok :: "credential \<Rightarrow> bool" where
  "credential_row_ok c \<longleftrightarrow>
     1 \<le> cred_generation c \<and> bigint_ok (cred_generation c) \<and>
     cred_binding_ref c \<noteq> '''' \<and> cred_account_key c \<noteq> '''' \<and>
     cred_observed_revision c \<le> cred_profile_revision c \<and> bigint_ok (cred_profile_revision c)"

definition intent_row_ok :: "revocation_intent \<Rightarrow> bool" where
  "intent_row_ok i \<longleftrightarrow>
     int_state i \<in> {''provisional'', ''ready''} \<and>
     (int_lease_token i = None \<longleftrightarrow> int_lease_expires_at i = None)"

definition invalidation_row_ok :: "grant_invalidation \<Rightarrow> bool" where
  "invalidation_row_ok i \<longleftrightarrow> 1 \<le> inv_minimum_grant_version i \<and> bigint_ok (inv_minimum_grant_version i)"

definition fence_row_ok :: "authorization_fence \<Rightarrow> bool" where
  "fence_row_ok f \<longleftrightarrow>
     bigint_ok (fence_minimum_grant_version f) \<and> bigint_ok (fence_minimum_owner_epoch f) \<and>
     bigint_ok (fence_minimum_consumer_epoch f) \<and> bigint_ok (fence_minimum_entry_epoch f)"

text \<open>The unique keys that more than one statement names.\<close>

definition device_key :: "device \<Rightarrow> string \<times> string" where
  "device_key d = (dev_binding_ref d, dev_device_id d)"

definition profile_key :: "profile \<Rightarrow> string \<times> string \<times> string" where
  "profile_key p = (prof_binding_ref p, prof_player_id p, prof_region p)"

definition artifact_key :: "'a artifact_scheme \<Rightarrow> string \<times> string \<times> string" where
  "artifact_key a = (art_binding_ref a, art_type a, art_scope_key a)"

definition intent_payload :: "revocation_intent \<Rightarrow> string \<times> string \<times> string \<times> string" where
  "intent_payload i = (int_binding_ref i, int_type i, int_scope_key i, int_value i)"

definition invalidation_key :: "grant_invalidation \<Rightarrow> string \<times> string" where
  "invalidation_key i = (inv_binding_ref i, inv_consumer i)"

definition fence_key :: "authorization_fence \<Rightarrow> string \<times> string" where
  "fence_key f = (fence_binding_ref f, fence_consumer_principal f)"

lemmas table_keys = device_key_def profile_key_def artifact_key_def intent_payload_def
  invalidation_key_def fence_key_def

definition credential_exists :: "mihomo_db \<Rightarrow> string \<Rightarrow> string \<Rightarrow> bool" where
  "credential_exists d binding account \<longleftrightarrow>
     list_ex (\<lambda>c. cred_binding_ref c = binding \<and> cred_account_key c = account) (credentials d)"

definition store_constraints :: "mihomo_db \<Rightarrow> (bool \<times> db_error) list" where
  "store_constraints d =
    [(list_all credential_row_ok (credentials d), Check_Violation ''credential_records''),
     (unique_on cred_binding_ref (credentials d), Unique_Violation ''uniq_credential_binding_ref''),
     (unique_on cred_account_key (credentials d), Unique_Violation ''uniq_account_key''),
     (unique_on (\<lambda>c. (cred_platform c, cred_account_id c)) (credentials d),
        Unique_Violation ''uniq_platform_account''),
     (unique_on dev_device_ref (devices d), Unique_Violation ''uniq_device_ref''),
     (unique_on device_key (devices d), Unique_Violation ''uniq_device_record_binding''),
     (unique_on prof_profile_ref (profiles d), Unique_Violation ''uniq_profile_ref''),
     (unique_on profile_key (profiles d), Unique_Violation ''uniq_profile_binding_player_region''),
     (unique_where prof_is_default prof_binding_ref (profiles d),
        Unique_Violation ''uniq_default_profile_per_binding''),
     (unique_on prof_id (profiles d), Unique_Violation ''account_profiles_pkey''),
     (unique_on artifact_key (artifacts d), Unique_Violation ''uniq_runtime_artifact_binding''),
     (list_all intent_row_ok (intents d), Check_Violation ''artifact_revocation_intents''),
     (unique_on int_intent_id (intents d), Unique_Violation ''artifact_revocation_intents_pkey''),
     (unique_on intent_payload (intents d), Unique_Violation ''uniq_artifact_revocation_payload''),
     (list_all invalidation_row_ok (invalidations d), Check_Violation ''consumer_grant_invalidations''),
     (unique_on invalidation_key (invalidations d),
        Unique_Violation ''uk_consumer_grant_invalidations_binding_consumer''),
     (list_all fence_row_ok (fences d), Check_Violation ''authorization_fences''),
     (unique_on fence_key (fences d), Unique_Violation ''uniq_authorization_fence''),
     (list_all (\<lambda>x. credential_exists d (dev_binding_ref x) (dev_account_key x)) (devices d),
        Foreign_Key_Violation ''fk_device_binding_account''),
     (list_all (\<lambda>x. credential_exists d (prof_binding_ref x) (prof_account_key x)) (profiles d),
        Foreign_Key_Violation ''fk_profile_binding_account''),
     (list_all (\<lambda>x. credential_exists d (art_binding_ref x) (art_account_key x)) (artifacts d),
        Foreign_Key_Violation ''fk_artifact_binding_account'')]"

text \<open>The violation a write reports: CHECK before UNIQUE before FOREIGN KEY, in schema order.\<close>

definition store_violation :: "mihomo_db \<Rightarrow> db_error option" where
  "store_violation d = map_option snd (find (\<lambda>(ok, _). \<not> ok) (store_constraints d))"

definition store_ok :: "mihomo_db \<Rightarrow> bool" where
  "store_ok d \<longleftrightarrow> store_violation d = None"

text \<open>A write under the constraints, with its number of rows affected.\<close>

definition checked_write :: "(mihomo_db \<Rightarrow> nat) \<Rightarrow> (mihomo_db \<Rightarrow> mihomo_db) \<Rightarrow>
    mihomo_db \<Rightarrow> db_error + (nat \<times> mihomo_db)" where
  "checked_write rows f d =
     (case store_violation (f d) of Some e \<Rightarrow> Inl e | None \<Rightarrow> Inr (rows d, f d))"

definition sql_write :: "(mihomo_db \<Rightarrow> nat) \<Rightarrow> (mihomo_db \<Rightarrow> mihomo_db) \<Rightarrow> nat meff" where
  "sql_write rows f = sql (checked_write rows f)"

definition sql_change :: "(mihomo_db \<Rightarrow> mihomo_db) \<Rightarrow> unit meff" where
  "sql_change f = andThen (sql_write (\<lambda>_. 0) f) (\<lambda>_. return ())"

lemma find_constraints_None:
  "find (\<lambda>(ok, _). \<not> ok) cs = None \<longleftrightarrow> (\<forall>c\<in>set cs. fst c)"
  by (induction cs) auto

lemma store_ok_iff:
  "store_ok d \<longleftrightarrow>
     list_all credential_row_ok (credentials d) \<and> unique_on cred_binding_ref (credentials d) \<and>
     unique_on cred_account_key (credentials d) \<and>
     unique_on (\<lambda>c. (cred_platform c, cred_account_id c)) (credentials d) \<and>
     unique_on dev_device_ref (devices d) \<and> unique_on device_key (devices d) \<and>
     unique_on prof_profile_ref (profiles d) \<and> unique_on profile_key (profiles d) \<and>
     unique_where prof_is_default prof_binding_ref (profiles d) \<and> unique_on prof_id (profiles d) \<and>
     unique_on artifact_key (artifacts d) \<and>
     list_all intent_row_ok (intents d) \<and> unique_on int_intent_id (intents d) \<and>
     unique_on intent_payload (intents d) \<and>
     list_all invalidation_row_ok (invalidations d) \<and> unique_on invalidation_key (invalidations d) \<and>
     list_all fence_row_ok (fences d) \<and> unique_on fence_key (fences d) \<and>
     list_all (\<lambda>x. credential_exists d (dev_binding_ref x) (dev_account_key x)) (devices d) \<and>
     list_all (\<lambda>x. credential_exists d (prof_binding_ref x) (prof_account_key x)) (profiles d) \<and>
     list_all (\<lambda>x. credential_exists d (art_binding_ref x) (art_account_key x)) (artifacts d)"
  by (simp add: store_ok_def store_violation_def find_constraints_None store_constraints_def)

lemma store_ok_empty [simp]: "store_ok empty_mihomo_db"
  by (simp add: store_ok_iff empty_mihomo_db_def unique_on_def unique_where_def)

lemma checked_write_InrD:
  "checked_write rows f d = Inr (n, d') \<Longrightarrow> n = rows d \<and> d' = f d \<and> store_ok (f d)"
  by (auto simp: checked_write_def store_ok_def split: option.splits)

lemma checked_write_ok: "store_ok (f d) \<Longrightarrow> checked_write rows f d = Inr (rows d, f d)"
  by (simp add: checked_write_def store_ok_def)

lemma sql_write_InrE:
  assumes "sql_write rows f w = (Inr n, w')"
  obtains fs where "n = rows (db w)" "w' = w\<lparr>faults := fs, db := f (db w)\<rparr>" "store_ok (f (db w))"
  using assms unfolding sql_write_def
  by (auto elim!: statement_InrE dest!: checked_write_InrD)

lemma sql_change_InrE:
  assumes "sql_change f w = (Inr u, w')"
  obtains fs where "w' = w\<lparr>faults := fs, db := f (db w)\<rparr>" "store_ok (f (db w))"
  using assms unfolding sql_change_def by (auto elim!: success_elims sql_write_InrE)

lemmas store_success = sql_write_InrE sql_change_InrE

lemma sql_write_no_fault [effect_simps]:
  "faults w = [] \<Longrightarrow> sql_write rows f w =
     (case store_violation (f (db w)) of
        Some e \<Rightarrow> (Inl (Db e), w) | None \<Rightarrow> (Inr (rows (db w)), w\<lparr>db := f (db w)\<rparr>))"
  by (cases w) (simp add: sql_write_def checked_write_def effect_simps split: option.splits)

lemma sql_change_no_fault [effect_simps]:
  "faults w = [] \<Longrightarrow> sql_change f w =
     (case store_violation (f (db w)) of
        Some e \<Rightarrow> (Inl (Db e), w) | None \<Rightarrow> (Inr (), w\<lparr>db := f (db w)\<rparr>))"
  by (simp add: sql_change_def effect_simps split: option.splits)

lemma sql_write_keeps [keeps_rules, simp]: "keeps store_ok (sql_write rows f)"
  unfolding sql_write_def by (rule keeps_statement) (auto dest: checked_write_InrD)

lemma sql_change_keeps [keeps_rules, simp]: "keeps store_ok (sql_change f)"
  unfolding sql_change_def by (intro keeps_rules)

lemma sql_write_pins [keeps_rules, simp]: "pins_committed (sql_write rows f)"
  by (simp add: sql_write_def)

lemma sql_change_pins [keeps_rules, simp]: "pins_committed (sql_change f)"
  by (simp add: sql_change_def pins_andThen)

lemma sql_write_frames: "(\<And>d. g (f d) = g d) \<Longrightarrow> frames g (sql_write rows f)"
  unfolding sql_write_def by (rule frames_statement) (auto dest: checked_write_InrD)

text \<open>The tables that hold operations and authorization minima; only the ledger and the fences'
  repositories write them.\<close>

definition safeguards ::
    "mihomo_db \<Rightarrow> platform_operation list \<times> authorization_fence list \<times> grant_invalidation list" where
  "safeguards d = (operations d, fences d, invalidations d)"

lemma safeguards_simps [simp]:
  "safeguards (d\<lparr>credentials := a\<rparr>) = safeguards d" "safeguards (d\<lparr>devices := b\<rparr>) = safeguards d"
  "safeguards (d\<lparr>profiles := c\<rparr>) = safeguards d" "safeguards (d\<lparr>next_profile_id := n\<rparr>) = safeguards d"
  "safeguards (d\<lparr>artifacts := e\<rparr>) = safeguards d" "safeguards (d\<lparr>intents := i\<rparr>) = safeguards d"
  by (simp_all add: safeguards_def)

lemma sql_change_frames: "(\<And>d. g (f d) = g d) \<Longrightarrow> frames g (sql_change f)"
  unfolding sql_change_def by (intro keeps_rules sql_write_frames)

lemma sql_write_keeps_inv: "(\<And>d. I d \<Longrightarrow> store_ok (f d) \<Longrightarrow> I (f d)) \<Longrightarrow> keeps I (sql_write rows f)"
  unfolding sql_write_def by (rule keeps_statement) (auto dest: checked_write_InrD)

lemma sql_change_keeps_inv: "(\<And>d. I d \<Longrightarrow> store_ok (f d) \<Longrightarrow> I (f d)) \<Longrightarrow> keeps I (sql_change f)"
  unfolding sql_change_def by (intro keeps_rules sql_write_keeps_inv)

section \<open>Credentials\<close>

definition credentialRecord :: "credential \<Rightarrow> credential" where
  "credentialRecord credential = \<lparr>
     cred_binding_ref = cred_binding_ref credential,
     cred_account_key = cred_account_key credential,
     cred_generation = cred_generation credential,
     cred_platform = cred_platform credential,
     cred_account_id = cred_account_id credential,
     cred_region = cred_region credential,
     cred_blob = cred_blob credential,
     cred_version = cred_version credential,
     cred_status = cred_status credential,
     cred_last_validated_at = cred_last_validated_at credential,
     cred_last_refreshed_at = cred_last_refreshed_at credential,
     cred_expires_at = cred_expires_at credential,
     cred_snapshot_complete = cred_snapshot_complete credential,
     cred_profile_revision = cred_profile_revision credential,
     cred_observed_revision = cred_observed_revision credential\<rparr>"

definition credentialFromRecord :: "credential \<Rightarrow> credential" where
  "credentialFromRecord record = \<lparr>
     cred_binding_ref = cred_binding_ref record,
     cred_account_key = cred_account_key record,
     cred_generation = cred_generation record,
     cred_platform = cred_platform record,
     cred_account_id = cred_account_id record,
     cred_region = cred_region record,
     cred_blob = cred_blob record,
     cred_version = cred_version record,
     cred_status = cred_status record,
     cred_last_validated_at = cred_last_validated_at record,
     cred_last_refreshed_at = cred_last_refreshed_at record,
     cred_expires_at = cred_expires_at record,
     cred_snapshot_complete = cred_snapshot_complete record,
     cred_profile_revision = cred_profile_revision record,
     cred_observed_revision = cred_observed_revision record\<rparr>"

lemma credential_copies [simp]: "credentialRecord c = c" "credentialFromRecord = (\<lambda>c. c)"
  by (simp_all add: credentialRecord_def credentialFromRecord_def fun_eq_iff)

definition mapCredentialDuplicateError :: "merror \<Rightarrow> merror" where
  "mapCredentialDuplicateError err = (case err of
       Db (Unique_Violation _) \<Rightarrow> ErrCredentialAlreadyBound
     | _ \<Rightarrow> err)"

text \<open>The columns \<open>Save\<close> assigns when the binding already has a row: all but the generation.\<close>

definition save_columns :: "credential \<Rightarrow> credential \<Rightarrow> credential" where
  "save_columns old new = new\<lparr>cred_binding_ref := cred_binding_ref old, cred_generation := cred_generation old\<rparr>"

definition Save_credential :: "credential \<Rightarrow> unit meff" where
  "Save_credential credential =
     (let record = credentialRecord credential
      in sql_change (\<lambda>d. d\<lparr>credentials := upsert cred_binding_ref save_columns record (credentials d)\<rparr>))"

definition Create_credential :: "credential \<Rightarrow> unit meff" where
  "Create_credential credential =
     (let record = credentialRecord credential
      in map_error mapCredentialDuplicateError
           (sql_change (\<lambda>d. d\<lparr>credentials := credentials d @ [record]\<rparr>)))"

definition update_credentials ::
    "(credential \<Rightarrow> bool) \<Rightarrow> (credential \<Rightarrow> credential) \<Rightarrow> nat meff" where
  "update_credentials p f = sql_write (\<lambda>d. count_where p (credentials d))
     (\<lambda>d. d\<lparr>credentials := update_where p f (credentials d)\<rparr>)"

definition SetProfileSnapshotState :: "string \<Rightarrow> bool \<Rightarrow> u64 \<Rightarrow> u64 \<Rightarrow> unit meff" where
  "SetProfileSnapshotState bindingRef complete revision observedRevision =
     andThen (update_credentials (\<lambda>c. cred_binding_ref c = bindingRef)
        (\<lambda>c. c\<lparr>cred_snapshot_complete := complete, cred_profile_revision := revision,
                cred_observed_revision := observedRevision\<rparr>))
     (\<lambda>rows. if rows \<noteq> 1 then raise ErrCredentialGenerationConflict else return ())"

text \<open>The row lock of \<open>GetByBindingRefForUpdate\<close> orders transactions; each transaction here is one
  step, so the read is the same.\<close>

definition getByBindingRef_credential :: "string \<Rightarrow> bool \<Rightarrow> credential option meff" where
  "getByBindingRef_credential bindingRef forUpdate =
     andThen (sql_query (\<lambda>d. find (\<lambda>c. cred_binding_ref c = bindingRef) (credentials d)))
     (\<lambda>record. return (map_option credentialFromRecord record))"

definition GetByBindingRef_credential :: "string \<Rightarrow> credential option meff" where
  "GetByBindingRef_credential bindingRef = getByBindingRef_credential bindingRef False"

definition GetByBindingRefForUpdate :: "string \<Rightarrow> credential option meff" where
  "GetByBindingRefForUpdate bindingRef = getByBindingRef_credential bindingRef True"

definition GetByAccountKey_credential :: "string \<Rightarrow> credential option meff" where
  "GetByAccountKey_credential accountKey =
     andThen (sql_query (\<lambda>d. find (\<lambda>c. cred_account_key c = accountKey) (credentials d)))
     (\<lambda>record. return (map_option credentialFromRecord record))"

definition AdvanceGeneration :: "string \<Rightarrow> string \<Rightarrow> u64 \<Rightarrow> u64 \<Rightarrow> credential option meff" where
  "AdvanceGeneration bindingRef accountKey expected target =
     andThen (update_credentials
        (\<lambda>c. cred_binding_ref c = bindingRef \<and> cred_account_key c = accountKey \<and> cred_generation c = expected)
        (\<lambda>c. c\<lparr>cred_generation := target\<rparr>))
     (\<lambda>rows. if rows \<noteq> 1 then raise ErrCredentialGenerationConflict
             else GetByBindingRef_credential bindingRef)"

definition AdvanceProfileRevision :: "string \<Rightarrow> string \<Rightarrow> u64 \<Rightarrow> u64 \<Rightarrow> credential option meff" where
  "AdvanceProfileRevision bindingRef accountKey generation expectedRevision =
     andThen (update_credentials
        (\<lambda>c. cred_binding_ref c = bindingRef \<and> cred_account_key c = accountKey \<and>
             cred_generation c = generation \<and> cred_profile_revision c = expectedRevision \<and>
             cred_observed_revision c = expectedRevision \<and> cred_snapshot_complete c)
        (\<lambda>c. c\<lparr>cred_profile_revision := expectedRevision + 1,
                cred_observed_revision := expectedRevision + 1\<rparr>))
     (\<lambda>rows. if rows \<noteq> 1 then raise ErrCredentialGenerationConflict
             else GetByBindingRef_credential bindingRef)"

text \<open>Deleting credentials deletes the rows that reference them.\<close>

definition delete_credentials :: "(credential \<Rightarrow> bool) \<Rightarrow> mihomo_db \<Rightarrow> mihomo_db" where
  "delete_credentials p d =
     (let gone = (\<lambda>binding account. list_ex (\<lambda>c. p c \<and> cred_binding_ref c = binding
                    \<and> cred_account_key c = account) (credentials d))
      in d\<lparr>credentials := delete_where p (credentials d),
           devices := delete_where (\<lambda>x. gone (dev_binding_ref x) (dev_account_key x)) (devices d),
           profiles := delete_where (\<lambda>x. gone (prof_binding_ref x) (prof_account_key x)) (profiles d),
           artifacts := delete_where (\<lambda>x. gone (art_binding_ref x) (art_account_key x)) (artifacts d)\<rparr>)"

definition DeleteByAccountKey_credential :: "string \<Rightarrow> unit meff" where
  "DeleteByAccountKey_credential accountKey =
     sql_change (delete_credentials (\<lambda>c. cred_account_key c = accountKey))"

text \<open>\<open>credential_reencryption_repo.go\<close>.\<close>

definition ListCredentialReencryptionBatch ::
    "string \<Rightarrow> int \<Rightarrow> credential list meff" where
  "ListCredentialReencryptionBatch afterBindingRef limit =
     (if limit \<le> 0 then return []
      else andThen (sql_query (\<lambda>d.
          take (nat limit) (filter (\<lambda>c. afterBindingRef < cred_binding_ref c)
            (sort_key cred_binding_ref (credentials d)))))
        (\<lambda>records. return (map credentialFromRecord records)))"

definition ReencryptCredentialBlob :: "string \<Rightarrow> string \<Rightarrow> string \<Rightarrow> bool meff" where
  "ReencryptCredentialBlob bindingRef expectedBlob replacementBlob =
     andThen (update_credentials
        (\<lambda>c. cred_binding_ref c = bindingRef \<and> cred_blob c = expectedBlob)
        (\<lambda>c. c\<lparr>cred_blob := replacementBlob, cred_version := ''v2''\<rparr>))
     (\<lambda>rows. return (rows = 1))"

section \<open>Devices\<close>

definition save_device_columns :: "device \<Rightarrow> device \<Rightarrow> device" where
  "save_device_columns old new =
     new\<lparr>dev_binding_ref := dev_binding_ref old, dev_device_id := dev_device_id old\<rparr>"

definition Save_device :: "device \<Rightarrow> unit meff" where
  "Save_device device =
     sql_change (\<lambda>d. d\<lparr>devices := upsert device_key save_device_columns device (devices d)\<rparr>)"

definition deviceFromRecord :: "device \<Rightarrow> device" where
  "deviceFromRecord record = \<lparr>
     dev_binding_ref = dev_binding_ref record,
     dev_account_key = dev_account_key record,
     dev_device_ref = dev_device_ref record,
     dev_device_id = dev_device_id record,
     dev_device_fp = dev_device_fp record,
     dev_device_name = dev_device_name record,
     dev_is_valid = dev_is_valid record,
     dev_last_seen_at = dev_last_seen_at record\<rparr>"

lemma deviceFromRecord_id [simp]: "deviceFromRecord = (\<lambda>x. x)"
  by (simp add: deviceFromRecord_def fun_eq_iff)

definition devicesFromRecords :: "device list \<Rightarrow> device list" where
  "devicesFromRecords records = map deviceFromRecord records"

lemma devicesFromRecords_id [simp]: "devicesFromRecords xs = xs"
  by (simp add: devicesFromRecords_def map_idI)

definition GetByDeviceRef :: "string \<Rightarrow> string \<Rightarrow> device option meff" where
  "GetByDeviceRef bindingRef deviceRef =
     andThen (sql_query (\<lambda>d. find (\<lambda>x. dev_binding_ref x = bindingRef \<and> dev_device_ref x = deviceRef) (devices d)))
     (\<lambda>record. return (map_option deviceFromRecord record))"

definition ListByBindingRef_device :: "string \<Rightarrow> device list meff" where
  "ListByBindingRef_device bindingRef =
     andThen (sql_query (\<lambda>d. filter (\<lambda>x. dev_binding_ref x = bindingRef) (devices d)))
     (\<lambda>records. return (devicesFromRecords records))"

definition ListByAccountKey_device :: "string \<Rightarrow> device list meff" where
  "ListByAccountKey_device accountKey =
     andThen (sql_query (\<lambda>d. filter (\<lambda>x. dev_account_key x = accountKey) (devices d)))
     (\<lambda>records. return (devicesFromRecords records))"

definition DeleteByBindingRef_device :: "string \<Rightarrow> unit meff" where
  "DeleteByBindingRef_device bindingRef =
     sql_change (\<lambda>d. d\<lparr>devices := delete_where (\<lambda>x. dev_binding_ref x = bindingRef) (devices d)\<rparr>)"

definition DeleteByAccountKey_device :: "string \<Rightarrow> unit meff" where
  "DeleteByAccountKey_device accountKey =
     sql_change (\<lambda>d. d\<lparr>devices := delete_where (\<lambda>x. dev_account_key x = accountKey) (devices d)\<rparr>)"

section \<open>Profiles\<close>

definition profilesFromRecords :: "profile list \<Rightarrow> profile list" where
  "profilesFromRecords records = map (\<lambda>record. \<lparr>
     prof_id = prof_id record,
     prof_binding_ref = prof_binding_ref record,
     prof_account_key = prof_account_key record,
     prof_profile_ref = prof_profile_ref record,
     prof_game_biz = prof_game_biz record,
     prof_region = prof_region record,
     prof_player_id = prof_player_id record,
     prof_nickname = prof_nickname record,
     prof_level = prof_level record,
     prof_is_default = prof_is_default record,
     prof_discovered_at = prof_discovered_at record\<rparr>) records"

lemma profilesFromRecords_id [simp]: "profilesFromRecords xs = xs"
  by (simp add: profilesFromRecords_def map_idI)

definition mapDefaultProfileDuplicateError :: "merror \<Rightarrow> merror" where
  "mapDefaultProfileDuplicateError err =
     (if err = Db (Unique_Violation ''uniq_default_profile_per_binding'')
      then ErrDefaultProfileAlreadyExists else err)"

definition ensureNoConflictingDefaultProfile :: "profile \<Rightarrow> nat \<Rightarrow> unit meff" where
  "ensureNoConflictingDefaultProfile profile excludeID =
     andThen (sql_query (\<lambda>d. count_where (\<lambda>p.
        prof_binding_ref p = prof_binding_ref profile \<and> prof_is_default p \<and>
        \<not> (prof_binding_ref p = prof_binding_ref profile \<and> prof_player_id p = prof_player_id profile
           \<and> prof_region p = prof_region profile) \<and>
        (excludeID \<noteq> 0 \<longrightarrow> prof_id p \<noteq> excludeID)) (profiles d)))
     (\<lambda>count. if count > 0 then raise ErrDefaultProfileAlreadyExists else return ())"

definition update_profiles :: "(profile \<Rightarrow> bool) \<Rightarrow> (profile \<Rightarrow> profile) \<Rightarrow> nat meff" where
  "update_profiles p f = sql_write (\<lambda>d. count_where p (profiles d))
     (\<lambda>d. d\<lparr>profiles := update_where p f (profiles d)\<rparr>)"

text \<open>An inserted row takes the next id of the table's sequence.\<close>

definition insert_profile :: "profile \<Rightarrow> mihomo_db \<Rightarrow> mihomo_db" where
  "insert_profile record d = d\<lparr>profiles := profiles d @ [record\<lparr>prof_id := next_profile_id d\<rparr>],
     next_profile_id := next_profile_id d + 1\<rparr>"

definition saveDefaultProfile :: "profile \<Rightarrow> profile \<Rightarrow> unit meff" where
  "saveDefaultProfile profile record =
     andThen (sql_query (\<lambda>d. find (\<lambda>p. profile_key p = profile_key profile) (profiles d))) (\<lambda>existing.
     case existing of
       Some row \<Rightarrow>
         andThen (ensureNoConflictingDefaultProfile profile (prof_id row)) (\<lambda>_.
         map_error mapDefaultProfileDuplicateError
           (andThen (update_profiles (\<lambda>p. prof_id p = prof_id row)
              (\<lambda>p. p\<lparr>prof_account_key := prof_account_key profile,
                      prof_profile_ref := prof_profile_ref profile,
                      prof_game_biz := prof_game_biz profile,
                      prof_nickname := prof_nickname profile,
                      prof_level := prof_level profile,
                      prof_is_default := True\<rparr>)) (\<lambda>_. return ())))
     | None \<Rightarrow>
         andThen (ensureNoConflictingDefaultProfile profile 0) (\<lambda>_.
         map_error mapDefaultProfileDuplicateError (sql_change (insert_profile record))))"

text \<open>The columns \<open>Save\<close> assigns when the player already has a row in the region.\<close>

definition save_profile_columns :: "profile \<Rightarrow> profile \<Rightarrow> profile" where
  "save_profile_columns old new = old\<lparr>
     prof_account_key := prof_account_key new, prof_profile_ref := prof_profile_ref new,
     prof_game_biz := prof_game_biz new, prof_nickname := prof_nickname new,
     prof_level := prof_level new, prof_is_default := prof_is_default new\<rparr>"

definition Save_profile :: "profile \<Rightarrow> unit meff" where
  "Save_profile profile =
     (if prof_is_default profile then saveDefaultProfile profile profile
      else sql_change (\<lambda>d. d\<lparr>
        profiles := upsert profile_key save_profile_columns
                      (profile\<lparr>prof_id := next_profile_id d\<rparr>) (profiles d),
        next_profile_id := next_profile_id d + 1\<rparr>))"

definition SetDefaultByBindingAndPlayerID :: "string \<Rightarrow> string \<Rightarrow> string \<Rightarrow> unit meff" where
  "SetDefaultByBindingAndPlayerID bindingRef accountKey playerID = nested_transaction Db
     (andThen (update_profiles (\<lambda>p. prof_binding_ref p = bindingRef \<and> prof_is_default p)
        (\<lambda>p. p\<lparr>prof_is_default := False\<rparr>)) (\<lambda>_.
      andThen (map_error mapDefaultProfileDuplicateError
        (update_profiles (\<lambda>p. prof_binding_ref p = bindingRef \<and> prof_account_key p = accountKey
             \<and> prof_player_id p = playerID)
          (\<lambda>p. p\<lparr>prof_is_default := True\<rparr>))) (\<lambda>rows.
      if rows = 0 then raise RecordNotFound else return ())))"

definition ListByBindingRef_profile :: "string \<Rightarrow> profile list meff" where
  "ListByBindingRef_profile bindingRef =
     andThen (sql_query (\<lambda>d. filter (\<lambda>p. prof_binding_ref p = bindingRef) (profiles d)))
     (\<lambda>records. return (profilesFromRecords records))"

definition GetByProfileRef :: "string \<Rightarrow> string \<Rightarrow> profile option meff" where
  "GetByProfileRef bindingRef profileRef =
     andThen (sql_query (\<lambda>d. find (\<lambda>p. prof_binding_ref p = bindingRef \<and> prof_profile_ref p = profileRef) (profiles d)))
     (\<lambda>record. case record of None \<Rightarrow> return None
        | Some r \<Rightarrow> return (Some (hd (profilesFromRecords [r]))))"

definition ListByAccountKey_profile :: "string \<Rightarrow> profile list meff" where
  "ListByAccountKey_profile accountKey =
     andThen (sql_query (\<lambda>d. filter (\<lambda>p. prof_account_key p = accountKey) (profiles d)))
     (\<lambda>records. return (profilesFromRecords records))"

definition DeleteByAccountKey_profile :: "string \<Rightarrow> unit meff" where
  "DeleteByAccountKey_profile accountKey =
     sql_change (\<lambda>d. d\<lparr>profiles := delete_where (\<lambda>p. prof_account_key p = accountKey) (profiles d)\<rparr>)"

definition DeleteMissingByBindingRef :: "string \<Rightarrow> profile_identity list \<Rightarrow> unit meff" where
  "DeleteMissingByBindingRef bindingRef keep =
     (if keep = []
      then sql_change (\<lambda>d. d\<lparr>profiles := delete_where (\<lambda>p. prof_binding_ref p = bindingRef) (profiles d)\<rparr>)
      else sql_change (\<lambda>d. d\<lparr>profiles := delete_where (\<lambda>p. prof_binding_ref p = bindingRef \<and>
             \<not> list_ex (\<lambda>identity. prof_player_id p = pid_player_id identity
                          \<and> prof_region p = pid_region identity) keep) (profiles d)\<rparr>))"

definition DeleteMissingByAccountKey :: "string \<Rightarrow> profile_identity list \<Rightarrow> unit meff" where
  "DeleteMissingByAccountKey accountKey keep =
     andThen (sql_query (\<lambda>d. filter (\<lambda>p. prof_account_key p = accountKey) (profiles d))) (\<lambda>records.
     let keepSet = map (\<lambda>identity. pid_player_id identity @ '':'' @ pid_region identity) keep
     in andThen (for_each records (\<lambda>record.
          let key = prof_player_id record @ '':'' @ prof_region record
          in if key \<in> set keepSet then return ()
             else sql_change (\<lambda>d. d\<lparr>profiles := delete_where (\<lambda>p. prof_id p = prof_id record) (profiles d)\<rparr>)))
        (\<lambda>_. return ()))"

section \<open>Invariants of the repositories\<close>

lemmas credential_repo_defs =
  Save_credential_def Create_credential_def update_credentials_def SetProfileSnapshotState_def
  getByBindingRef_credential_def GetByBindingRef_credential_def GetByBindingRefForUpdate_def
  GetByAccountKey_credential_def AdvanceGeneration_def AdvanceProfileRevision_def
  DeleteByAccountKey_credential_def ListCredentialReencryptionBatch_def ReencryptCredentialBlob_def

lemmas device_repo_defs =
  Save_device_def GetByDeviceRef_def ListByBindingRef_device_def ListByAccountKey_device_def
  DeleteByBindingRef_device_def DeleteByAccountKey_device_def

lemmas profile_repo_defs =
  ensureNoConflictingDefaultProfile_def update_profiles_def saveDefaultProfile_def Save_profile_def
  SetDefaultByBindingAndPlayerID_def ListByBindingRef_profile_def GetByProfileRef_def
  ListByAccountKey_profile_def DeleteByAccountKey_profile_def DeleteMissingByBindingRef_def
  DeleteMissingByAccountKey_def

text \<open>Reads change nothing.\<close>

lemma store_reads_keep [keeps_rules, simp]:
  "keeps I (getByBindingRef_credential b l)" "keeps I (GetByBindingRef_credential b)"
  "keeps I (GetByBindingRefForUpdate b)" "keeps I (GetByAccountKey_credential a)"
  "keeps I (ListCredentialReencryptionBatch after n)" "keeps I (GetByDeviceRef b x)"
  "keeps I (ListByBindingRef_device b)" "keeps I (ListByAccountKey_device a)"
  "keeps I (ListByBindingRef_profile b)" "keeps I (GetByProfileRef b p)"
  "keeps I (ListByAccountKey_profile a)" "keeps I (ensureNoConflictingDefaultProfile pr i)"
  by (auto simp: credential_repo_defs device_repo_defs profile_repo_defs intro!: keeps_rules)

lemma store_reads_frame [keeps_rules, simp]:
  "frames f (getByBindingRef_credential b l)" "frames f (GetByBindingRef_credential b)"
  "frames f (GetByBindingRefForUpdate b)" "frames f (GetByAccountKey_credential a)"
  "frames f (ListCredentialReencryptionBatch after n)" "frames f (GetByDeviceRef b x)"
  "frames f (ListByBindingRef_device b)" "frames f (ListByAccountKey_device a)"
  "frames f (ListByBindingRef_profile b)" "frames f (GetByProfileRef b p)"
  "frames f (ListByAccountKey_profile a)" "frames f (ensureNoConflictingDefaultProfile pr i)"
  by (auto simp: credential_repo_defs device_repo_defs profile_repo_defs intro!: keeps_rules)

lemma store_reads_pin [keeps_rules, simp]:
  "pins_committed (getByBindingRef_credential b l)" "pins_committed (GetByBindingRef_credential b)"
  "pins_committed (GetByBindingRefForUpdate b)" "pins_committed (GetByAccountKey_credential a)"
  "pins_committed (ListCredentialReencryptionBatch after n)" "pins_committed (GetByDeviceRef b x)"
  "pins_committed (ListByBindingRef_device b)" "pins_committed (ListByAccountKey_device a)"
  "pins_committed (ListByBindingRef_profile b)" "pins_committed (GetByProfileRef b p)"
  "pins_committed (ListByAccountKey_profile a)" "pins_committed (ensureNoConflictingDefaultProfile pr i)"
  by (auto simp: credential_repo_defs device_repo_defs profile_repo_defs intro!: keeps_rules)

text \<open>Writes keep the constraints, and touch only the tables of the store.\<close>

lemma store_writes_keep [keeps_rules, simp]:
  "keeps store_ok (Save_credential c)" "keeps store_ok (Create_credential c)"
  "keeps store_ok (update_credentials p f)" "keeps store_ok (SetProfileSnapshotState b q r s)"
  "keeps store_ok (AdvanceGeneration b a e t)" "keeps store_ok (AdvanceProfileRevision b a g r)"
  "keeps store_ok (DeleteByAccountKey_credential a)" "keeps store_ok (ReencryptCredentialBlob b x y)"
  "keeps store_ok (Save_device dv)" "keeps store_ok (DeleteByBindingRef_device b)"
  "keeps store_ok (DeleteByAccountKey_device a)"
  "keeps store_ok (update_profiles pp pf)" "keeps store_ok (Save_profile pr)"
  "keeps store_ok (SetDefaultByBindingAndPlayerID b a i)"
  "keeps store_ok (DeleteByAccountKey_profile a)" "keeps store_ok (DeleteMissingByBindingRef b k)"
  "keeps store_ok (DeleteMissingByAccountKey a k)"
  by (auto simp: credential_repo_defs device_repo_defs profile_repo_defs Let_def intro!: keeps_rules)

lemma store_writes_frame [keeps_rules, simp]:
  "frames safeguards (Save_credential c)" "frames safeguards (Create_credential c)"
  "frames safeguards (update_credentials p f)" "frames safeguards (SetProfileSnapshotState b q r s)"
  "frames safeguards (AdvanceGeneration b a e t)" "frames safeguards (AdvanceProfileRevision b a g r)"
  "frames safeguards (DeleteByAccountKey_credential a)" "frames safeguards (ReencryptCredentialBlob b x y)"
  "frames safeguards (Save_device dv)" "frames safeguards (DeleteByBindingRef_device b)"
  "frames safeguards (DeleteByAccountKey_device a)"
  "frames safeguards (update_profiles pp pf)" "frames safeguards (Save_profile pr)"
  "frames safeguards (SetDefaultByBindingAndPlayerID b a i)"
  "frames safeguards (DeleteByAccountKey_profile a)" "frames safeguards (DeleteMissingByBindingRef b k)"
  "frames safeguards (DeleteMissingByAccountKey a k)"
  by (auto simp: credential_repo_defs device_repo_defs profile_repo_defs Let_def delete_credentials_def
      insert_profile_def intro!: keeps_rules sql_change_frames sql_write_frames)

lemma store_writes_pin [keeps_rules, simp]:
  "pins_committed (Save_credential c)" "pins_committed (Create_credential c)"
  "pins_committed (update_credentials p f)" "pins_committed (SetProfileSnapshotState b q r s)"
  "pins_committed (AdvanceGeneration b a e t)" "pins_committed (AdvanceProfileRevision b a g r)"
  "pins_committed (DeleteByAccountKey_credential a)" "pins_committed (ReencryptCredentialBlob b x y)"
  "pins_committed (Save_device dv)" "pins_committed (DeleteByBindingRef_device b)"
  "pins_committed (DeleteByAccountKey_device a)"
  "pins_committed (update_profiles pp pf)" "pins_committed (Save_profile pr)"
  "pins_committed (DeleteByAccountKey_profile a)" "pins_committed (DeleteMissingByBindingRef b k)"
  "pins_committed (DeleteMissingByAccountKey a k)"
  by (auto simp: credential_repo_defs device_repo_defs profile_repo_defs Let_def intro!: keeps_rules)

section \<open>The upserts of the store\<close>

interpretation credential_table: upsert_table cred_binding_ref save_columns
  by unfold_locales (simp add: save_columns_def)

interpretation device_table: upsert_table device_key save_device_columns
  by unfold_locales (simp add: save_device_columns_def device_key_def)

interpretation profile_table: upsert_table profile_key save_profile_columns
  by unfold_locales (simp add: save_profile_columns_def profile_key_def)

text \<open>The row of a binding.\<close>

definition credential_of :: "string \<Rightarrow> mihomo_db \<Rightarrow> credential option" where
  "credential_of binding d = find (\<lambda>c. cred_binding_ref c = binding) (credentials d)"

lemma credential_of_binding: "credential_of b d = Some c \<Longrightarrow> cred_binding_ref c = b"
  by (auto simp: credential_of_def dest: find_SomeD)

lemma Save_credential_InrE:
  assumes "Save_credential c w = (Inr u, w')"
  obtains fs where
    "w' = w\<lparr>faults := fs, db := (db w)\<lparr>credentials := upsert cred_binding_ref save_columns c (credentials (db w))\<rparr>\<rparr>"
    "store_ok (db w')"
  using assms unfolding Save_credential_def by (auto elim!: sql_change_InrE)

lemma Save_credential_lookup:
  assumes "Save_credential c w = (Inr u, w')"
  shows "credential_of b (db w') =
    (if b = cred_binding_ref c
     then Some (case credential_of b (db w) of None \<Rightarrow> c
                | Some old \<Rightarrow> c\<lparr>cred_generation := cred_generation old\<rparr>)
     else credential_of b (db w))"
proof (cases "credential_of (cred_binding_ref c) (db w)")
  case None
  with assms show ?thesis
    by (auto elim!: Save_credential_InrE simp: credential_of_def credential_table.upsert_lookup)
next
  case (Some old)
  from credential_of_binding [OF this]
  have "save_columns old c = c\<lparr>cred_generation := cred_generation old\<rparr>"
    by (simp add: save_columns_def)
  with Some assms show ?thesis
    by (auto elim!: Save_credential_InrE simp: credential_of_def credential_table.upsert_lookup)
qed

lemma update_credentials_InrE:
  assumes "update_credentials p f w = (Inr n, w')"
  obtains fs where "n = count_where p (credentials (db w))"
    "w' = w\<lparr>faults := fs, db := (db w)\<lparr>credentials := update_where p f (credentials (db w))\<rparr>\<rparr>"
    "store_ok (db w')"
  using assms unfolding update_credentials_def by (auto elim!: sql_write_InrE)

lemma credential_count:
  assumes "store_ok d" and "\<And>c. p c \<Longrightarrow> cred_binding_ref c = b"
  shows "count_where p (credentials d) = 1 \<longleftrightarrow> (\<exists>c. credential_of b d = Some c \<and> p c)"
proof -
  have u: "unique_on cred_binding_ref (credentials d)" using assms(1) by (simp add: store_ok_iff)
  have "count_where p (credentials d) = 1 \<longleftrightarrow> list_ex p (credentials d)"
    using count_where_1_find [OF u] assms(2) by blast
  also have "\<dots> \<longleftrightarrow> (\<exists>c. credential_of b d = Some c \<and> p c)"
  proof
    assume "list_ex p (credentials d)"
    then obtain c where c: "c \<in> set (credentials d)" "p c" by (auto simp: list_ex_iff)
    with find_unique [OF u c(1), of "\<lambda>c. cred_binding_ref c = b"] assms(2)
    show "\<exists>c. credential_of b d = Some c \<and> p c"
      by (auto simp: credential_of_def)
  qed (auto simp: credential_of_def list_ex_iff dest: find_SomeD)
  finally show ?thesis .
qed

text \<open>A compare-and-set on one credential row.\<close>

lemma credential_of_update:
  assumes "\<And>c. p c \<Longrightarrow> cred_binding_ref (f c) = cred_binding_ref c"
  shows "credential_of b (d\<lparr>credentials := update_where p f (credentials d)\<rparr>) =
    map_option (\<lambda>c. if p c then f c else c) (credential_of b d)"
  using assms by (simp add: credential_of_def find_update_where)

lemma GetByBindingRef_no_fault [effect_simps]:
  "faults w = [] \<Longrightarrow> GetByBindingRef_credential b w = (Inr (credential_of b (db w)), w)"
  by (simp add: GetByBindingRef_credential_def getByBindingRef_credential_def effect_simps
      credential_of_def option.map_ident)

lemma getByBindingRef_InrE:
  assumes "getByBindingRef_credential b l w = (Inr x, w')"
  obtains fs where "x = credential_of b (db w)" "w' = w\<lparr>faults := fs\<rparr>"
  using assms unfolding getByBindingRef_credential_def
  by (auto elim!: success_elims simp: credential_of_def option.map_ident)

lemma AdvanceGeneration_InrE:
  assumes run: "AdvanceGeneration b a e t w = (Inr x, w')" and ok: "store_ok (db w)"
  obtains c fs where "credential_of b (db w) = Some c" "cred_account_key c = a" "cred_generation c = e"
    "credential_of b (db w') = Some (c\<lparr>cred_generation := t\<rparr>)" "x = Some (c\<lparr>cred_generation := t\<rparr>)"
    "\<And>b'. b' \<noteq> b \<Longrightarrow> credential_of b' (db w') = credential_of b' (db w)"
    "base w' = base w" "store_ok (db w')"
proof -
  let ?p = "\<lambda>c. cred_binding_ref c = b \<and> cred_account_key c = a \<and> cred_generation c = e"
  from run obtain n w1 where upd: "update_credentials ?p (\<lambda>c. c\<lparr>cred_generation := t\<rparr>) w = (Inr n, w1)"
    and n: "n = 1" and get: "GetByBindingRef_credential b w1 = (Inr x, w')"
    unfolding AdvanceGeneration_def by (auto elim!: success_elims split: if_splits)
  from upd obtain fs where cnt: "n = count_where ?p (credentials (db w))" and
    w1: "w1 = w\<lparr>faults := fs, db := (db w)\<lparr>credentials := update_where ?p (\<lambda>c. c\<lparr>cred_generation := t\<rparr>) (credentials (db w))\<rparr>\<rparr>"
    and ok1: "store_ok (db w1)"
    by (rule update_credentials_InrE)
  from cnt n credential_count [OF ok, of ?p b] obtain c where
    c: "credential_of b (db w) = Some c" "?p c" by auto
  from get obtain fs' where x: "x = credential_of b (db w1)" "w' = w1\<lparr>faults := fs'\<rparr>"
    unfolding GetByBindingRef_credential_def by (rule getByBindingRef_InrE)
  have look: "credential_of b' (db w1) = map_option (\<lambda>c. if ?p c then c\<lparr>cred_generation := t\<rparr> else c) (credential_of b' (db w))" for b'
    unfolding w1 using credential_of_update [of ?p "\<lambda>c. c\<lparr>cred_generation := t\<rparr>" b' "db w"] by simp
  have look_other: "credential_of b' (db w1) = credential_of b' (db w)" if "b' \<noteq> b" for b'
    using look [of b'] that credential_of_binding [of b' "db w"] by (cases "credential_of b' (db w)") auto
  show thesis
    by (rule that [of c]) (use c x look [of b] look_other ok1 w1 in \<open>simp_all\<close>)
qed

section \<open>The default profile\<close>

lemma credential_exists_other [simp]:
  "credential_exists (d\<lparr>profiles := ps\<rparr>) = credential_exists d"
  "credential_exists (d\<lparr>devices := ds\<rparr>) = credential_exists d"
  "credential_exists (d\<lparr>artifacts := as\<rparr>) = credential_exists d"
  "credential_exists (d\<lparr>next_profile_id := n\<rparr>) = credential_exists d"
  by (simp_all add: credential_exists_def fun_eq_iff)

lemma list_all_update_where:
  "(\<And>r. P r \<Longrightarrow> P (f r)) \<Longrightarrow> list_all P rows \<Longrightarrow> list_all P (update_where p f rows)"
  by (induction rows) auto

text \<open>Changing the default marks can break one constraint only.\<close>

lemma default_change_violation:
  assumes ok: "store_ok d"
    and ps: "ps = update_where q (\<lambda>p. p\<lparr>prof_is_default := v\<rparr>) ps0"
    and ps0: "ps0 = profiles d"
  shows "store_violation (d\<lparr>profiles := ps\<rparr>) =
    (if unique_where prof_is_default prof_binding_ref ps then None
     else Some (Unique_Violation ''uniq_default_profile_per_binding''))"
proof -
  have "unique_on prof_profile_ref ps" "unique_on profile_key ps" "unique_on prof_id ps"
    "list_all (\<lambda>x. credential_exists d (prof_binding_ref x) (prof_account_key x)) ps"
    using ok by (auto simp: ps ps0 store_ok_iff unique_on_update_where profile_key_def
        intro!: list_all_update_where)
  with ok show ?thesis
    by (simp add: store_violation_def store_constraints_def store_ok_iff)
qed

definition is_player :: "string \<Rightarrow> string \<Rightarrow> string \<Rightarrow> profile \<Rightarrow> bool" where
  "is_player b a i p \<longleftrightarrow> prof_binding_ref p = b \<and> prof_account_key p = a \<and> prof_player_id p = i"

text \<open>The profiles after player \<open>i\<close> of binding \<open>b\<close> was made the default.\<close>

definition mark_default :: "string \<Rightarrow> string \<Rightarrow> string \<Rightarrow> profile \<Rightarrow> profile" where
  "mark_default b a i p = (if prof_binding_ref p = b then p\<lparr>prof_is_default := is_player b a i p\<rparr> else p)"

definition with_default :: "string \<Rightarrow> string \<Rightarrow> string \<Rightarrow> profile list \<Rightarrow> profile list" where
  "with_default b a i = map (mark_default b a i)"

lemma mark_default_simps [simp]:
  "prof_id (mark_default b a i p) = prof_id p"
  "prof_binding_ref (mark_default b a i p) = prof_binding_ref p"
  "prof_is_default (mark_default b a i p) =
     (if prof_binding_ref p = b then is_player b a i p else prof_is_default p)"
  by (simp_all add: mark_default_def)

lemma default_steps:
  "update_where (is_player b a i) (\<lambda>p. p\<lparr>prof_is_default := True\<rparr>)
     (update_where (\<lambda>p. prof_binding_ref p = b \<and> prof_is_default p) (\<lambda>p. p\<lparr>prof_is_default := False\<rparr>) ps)
   = with_default b a i ps"
  by (auto simp: update_where_def with_default_def mark_default_def is_player_def intro!: profile.equality)

lemma cleared_unique:
  assumes "store_ok d"
  shows "unique_where prof_is_default prof_binding_ref
    (update_where (\<lambda>p. prof_binding_ref p = b \<and> prof_is_default p) (\<lambda>p. p\<lparr>prof_is_default := False\<rparr>) (profiles d))"
proof -
  have eq: "filter prof_is_default (update_where (\<lambda>p. prof_binding_ref p = b \<and> prof_is_default p)
      (\<lambda>p. p\<lparr>prof_is_default := False\<rparr>) ps) = filter (\<lambda>p. prof_is_default p \<and> prof_binding_ref p \<noteq> b) ps" for ps
    by (induction ps) auto
  have "unique_where prof_is_default prof_binding_ref (profiles d)"
    using assms by (simp add: store_ok_iff)
  then have "distinct (map prof_binding_ref (filter (\<lambda>p. prof_binding_ref p \<noteq> b)
      (filter prof_is_default (profiles d))))"
    unfolding unique_where_def by (rule distinct_map_filter)
  then show ?thesis
    unfolding unique_where_def eq by (simp add: filter_filter)
qed

lemma mark_default_inj:
  assumes "unique_on prof_id ps" "p \<in> set ps" "p' \<in> set ps" "mark_default b a i p = mark_default b a i p'"
  shows "p = p'"
  using unique_onD [OF assms(1-3)] assms(4) by (metis mark_default_simps(1))

lemma with_default_unique:
  assumes "store_ok d"
  shows "unique_where prof_is_default prof_binding_ref (with_default b a i (profiles d)) \<longleftrightarrow>
    length (filter (is_player b a i) (profiles d)) \<le> 1"
proof -
  have ids: "unique_on prof_id (profiles d)" and old: "unique_where prof_is_default prof_binding_ref (profiles d)"
    using assms by (simp_all add: store_ok_iff)
  have "unique_on prof_id (with_default b a i (profiles d))"
    using ids by (simp add: unique_on_def with_default_def o_def)
  then have dn: "distinct (with_default b a i (profiles d))" by (rule unique_on_distinct)
  have dd: "distinct (profiles d)" using ids by (rule unique_on_distinct)
  have old': "p = p'" if "p \<in> set (profiles d)" "p' \<in> set (profiles d)" "prof_is_default p" "prof_is_default p'"
      "prof_binding_ref p = prof_binding_ref p'" for p p'
    using old that unique_where_iff [OF dd, of prof_is_default prof_binding_ref] by blast
  have uw: "unique_where prof_is_default prof_binding_ref (with_default b a i (profiles d)) \<longleftrightarrow>
    (\<forall>p\<in>set (profiles d). \<forall>p'\<in>set (profiles d).
       prof_is_default (mark_default b a i p) \<longrightarrow> prof_is_default (mark_default b a i p') \<longrightarrow>
       prof_binding_ref p = prof_binding_ref p' \<longrightarrow> mark_default b a i p = mark_default b a i p')"
    unfolding unique_where_iff [OF dn] by (simp only: with_default_def set_map ball_simps mark_default_simps)
  show ?thesis
    unfolding uw filter_at_most_one [OF dd]
  proof (intro iffI ballI impI)
    fix p p'
    assume all: "\<forall>p\<in>set (profiles d). \<forall>p'\<in>set (profiles d).
       prof_is_default (mark_default b a i p) \<longrightarrow> prof_is_default (mark_default b a i p') \<longrightarrow>
       prof_binding_ref p = prof_binding_ref p' \<longrightarrow> mark_default b a i p = mark_default b a i p'"
      and p: "p \<in> set (profiles d)" "p' \<in> set (profiles d)" "is_player b a i p" "is_player b a i p'"
    have b: "prof_binding_ref p = b" "prof_binding_ref p' = b"
      using p(3,4) by (simp_all add: is_player_def)
    have "mark_default b a i p = mark_default b a i p'"
      by (rule all [rule_format, OF p(1,2)]) (simp_all add: b p(3,4))
    then show "p = p'" by (rule mark_default_inj [OF ids p(1,2)])
  next
    fix p p'
    assume one: "\<forall>p\<in>set (profiles d). \<forall>p'\<in>set (profiles d). is_player b a i p \<longrightarrow> is_player b a i p' \<longrightarrow> p = p'"
      and p: "p \<in> set (profiles d)" "p' \<in> set (profiles d)" "prof_binding_ref p = prof_binding_ref p'"
        "prof_is_default (mark_default b a i p)" "prof_is_default (mark_default b a i p')"
    have "p = p'"
    proof (cases "prof_binding_ref p = b")
      case True
      with p(3-5) have "is_player b a i p" "is_player b a i p'" by simp_all
      then show ?thesis by (rule one [rule_format, OF p(1,2)])
    next
      case False
      with p(3-5) have "prof_is_default p" "prof_is_default p'" by simp_all
      then show ?thesis by (rule old' [OF p(1,2) _ _ p(3)])
    qed
    then show "mark_default b a i p = mark_default b a i p'" by simp
  qed
qed

lemma update_profiles_no_fault [effect_simps]:
  "faults w = [] \<Longrightarrow> update_profiles p f w =
     (case store_violation ((db w)\<lparr>profiles := update_where p f (profiles (db w))\<rparr>) of
        Some e \<Rightarrow> (Inl (Db e), w)
      | None \<Rightarrow> (Inr (count_where p (profiles (db w))),
                 w\<lparr>db := (db w)\<lparr>profiles := update_where p f (profiles (db w))\<rparr>\<rparr>))"
  by (simp add: update_profiles_def effect_simps)

lemma count_where_update_where:
  "(\<And>r. p r \<Longrightarrow> q (f r) = q r) \<Longrightarrow> count_where q (update_where p f rows) = count_where q rows"
  by (induction rows) (auto simp: count_where_def)

lemma is_player_default [simp]: "is_player b a i (p\<lparr>prof_is_default := v\<rparr>) = is_player b a i p"
  by (simp add: is_player_def)

section \<open>Properties of the store\<close>

text \<open>\<open>Save\<close> of a credential writes the row of its own binding and no other, and never
  changes the generation of a binding that already has a credential.\<close>

theorem Save_keeps_generation:
  assumes "Save_credential c w = (Inr u, w')"
  shows "credential_of b (db w') =
    (if b \<noteq> cred_binding_ref c then credential_of b (db w)
     else case credential_of b (db w) of
       None \<Rightarrow> Some c
     | Some old \<Rightarrow> Some (c\<lparr>cred_generation := cred_generation old\<rparr>))"
  using Save_credential_lookup [OF assms, of b] by (simp split: option.splits)

definition sample_credential :: credential where
  "sample_credential = \<lparr>cred_binding_ref = ''bind_1'', cred_account_key = ''acct_1'', cred_generation = 1,
     cred_platform = ''mihomo'', cred_account_id = ''10001'', cred_region = ''cn'', cred_blob = ''blob'',
     cred_version = ''v2'', cred_status = ''active'', cred_last_validated_at = None,
     cred_last_refreshed_at = None, cred_expires_at = None, cred_snapshot_complete = True,
     cred_profile_revision = 3, cred_observed_revision = 3\<rparr>"

definition sample_db :: mihomo_db where
  "sample_db = empty_mihomo_db\<lparr>credentials := [sample_credential]\<rparr>"

lemma sample_credential_simps [simp]:
  "cred_binding_ref sample_credential = ''bind_1''" "cred_account_key sample_credential = ''acct_1''"
  "cred_generation sample_credential = 1" "cred_status sample_credential = ''active''"
  "cred_profile_revision sample_credential = 3" "cred_observed_revision sample_credential = 3"
  "cred_expires_at sample_credential = None"
  by (simp_all add: sample_credential_def)

lemma sample_db_ok [simp]: "store_ok sample_db" "store_ok (sample_db\<lparr>credentials :=
    [sample_credential\<lparr>cred_generation := 2\<rparr>]\<rparr>)"
  by (simp_all add: store_ok_iff sample_db_def empty_mihomo_db_def unique_on_def unique_where_def
      credential_row_ok_def bigint_ok_def)

lemma sample_db_credential [simp]: "credential_of ''bind_1'' sample_db = Some sample_credential"
  by (simp add: sample_db_def credential_of_def)

lemma Save_keeps_generation_witness:
  "credential_of ''bind_1'' (db (snd (Save_credential (sample_credential\<lparr>cred_generation := 9\<rparr>) (initial_world sample_db))))
   = Some sample_credential"
proof -
  have "save_columns sample_credential (sample_credential\<lparr>cred_generation := 9\<rparr>) = sample_credential"
    and eq: "sample_credential\<lparr>cred_generation := 1\<rparr> = sample_credential"
    by (simp_all add: save_columns_def sample_credential_def)
  moreover have "sample_db\<lparr>credentials := [sample_credential]\<rparr> = sample_db"
    "credentials sample_db = [sample_credential]" by (simp_all add: sample_db_def)
  ultimately have "sample_db\<lparr>credentials := upsert cred_binding_ref save_columns
      (sample_credential\<lparr>cred_generation := 9\<rparr>) (credentials sample_db)\<rparr> = sample_db"
    by (simp add: upsert_def)
  then have "Save_credential (sample_credential\<lparr>cred_generation := 9\<rparr>) (initial_world sample_db)
      = (Inr (), initial_world sample_db)"
    using sample_db_ok(1)
    by (simp add: Save_credential_def effect_simps store_ok_def Let_def initial_world_def)
  from Save_keeps_generation [OF this, of "''bind_1''"] this eq show ?thesis by simp
qed

text \<open>The generation of a credential is a compare-and-set register.  A successful
  \<open>AdvanceGeneration\<close> found the expected generation, installs the target and touches no other
  binding; a second caller that expected the same generation then fails with a conflict and
  changes nothing.\<close>

theorem AdvanceGeneration_once:
  assumes run: "AdvanceGeneration b a e t w = (Inr x, w')" and "store_ok (db w)" and "t \<noteq> e"
    and v: "faults v = []" "store_ok (db v)" "credential_of b (db v) = credential_of b (db w')"
  shows "(\<exists>c. credential_of b (db w) = Some c \<and> cred_account_key c = a \<and> cred_generation c = e \<and>
           x = Some (c\<lparr>cred_generation := t\<rparr>) \<and> credential_of b (db w') = x) \<and>
    (\<forall>b'. b' \<noteq> b \<longrightarrow> credential_of b' (db w') = credential_of b' (db w)) \<and>
    fst (AdvanceGeneration b a e t' v) = Inl ErrCredentialGenerationConflict \<and>
    credential_of b (db (snd (AdvanceGeneration b a e t' v))) = x"
proof -
  let ?p = "\<lambda>c. cred_binding_ref c = b \<and> cred_account_key c = a \<and> cred_generation c = e"
  from run assms(2) obtain c where c: "credential_of b (db w) = Some c" "cred_account_key c = a" "cred_generation c = e"
    "credential_of b (db w') = Some (c\<lparr>cred_generation := t\<rparr>)" "x = Some (c\<lparr>cred_generation := t\<rparr>)"
    "\<And>b'. b' \<noteq> b \<Longrightarrow> credential_of b' (db w') = credential_of b' (db w)"
    by (rule AdvanceGeneration_InrE) (rule that)
  have none: "\<not> ?p c'" if "c' \<in> set (credentials (db v))" for c'
  proof
    assume "?p c'"
    with credential_count [OF v(2), of ?p b] have "\<exists>c. credential_of b (db v) = Some c \<and> ?p c"
      using that find_unique [of cred_binding_ref "credentials (db v)" c' "\<lambda>c. cred_binding_ref c = b"] v(2)
      by (auto simp: credential_of_def store_ok_iff)
    with v(3) c(4) assms(3) show False by simp
  qed
  then have same: "update_where ?p f (credentials (db v)) = credentials (db v)" for f
    by (rule update_where_none)
  have "count_where ?p (credentials (db v)) = 0"
    using none by (auto simp: count_where_0 list_ex_iff)
  with v same have "AdvanceGeneration b a e t' v = (Inl ErrCredentialGenerationConflict, v)"
    by (cases v) (simp add: AdvanceGeneration_def update_credentials_def effect_simps store_ok_def)
  with c v(3) show ?thesis by simp
qed

lemma AdvanceGeneration_once_witness:
  "fst (AdvanceGeneration ''bind_1'' ''acct_1'' 1 2 (initial_world sample_db)) =
     Inr (Some (sample_credential\<lparr>cred_generation := 2\<rparr>)) \<and>
   fst (AdvanceGeneration ''bind_1'' ''acct_1'' 1 3
     (initial_world (sample_db\<lparr>credentials := [sample_credential\<lparr>cred_generation := 2\<rparr>]\<rparr>))) =
     Inl ErrCredentialGenerationConflict"
proof -
  have run: "AdvanceGeneration ''bind_1'' ''acct_1'' 1 2 (initial_world sample_db) =
    (Inr (Some (sample_credential\<lparr>cred_generation := 2\<rparr>)),
     initial_world (sample_db\<lparr>credentials := [sample_credential\<lparr>cred_generation := 2\<rparr>]\<rparr>))"
    using sample_db_ok(2)
    by (simp add: AdvanceGeneration_def update_credentials_def effect_simps store_ok_def sample_db_def
        count_where_def initial_world_def credential_of_def)
  from AdvanceGeneration_once [OF run, of "initial_world (sample_db\<lparr>credentials :=
      [sample_credential\<lparr>cred_generation := 2\<rparr>]\<rparr>)" 3] run
  show ?thesis by simp
qed

text \<open>C35: \<open>SetDefaultByBindingAndPlayerID\<close>, on every branch: with exactly one profile of that
  player it becomes the only default profile of its binding and no other binding changes; with
  none the call fails and changes nothing; and with two (the same player id in two regions) it
  fails with \<open>ErrDefaultProfileAlreadyExists\<close> and changes nothing, because the update does not
  name the region.\<close>

theorem SetDefault_outcome:
  assumes "store_ok (db w)" "faults w = []" "base w = None"
  shows "SetDefaultByBindingAndPlayerID b a i w =
    (let n = length (filter (is_player b a i) (profiles (db w)))
     in if n = 0 then (Inl RecordNotFound, w)
        else if n = 1 then (Inr (), w\<lparr>db := (db w)\<lparr>profiles := with_default b a i (profiles (db w))\<rparr>\<rparr>)
        else (Inl ErrDefaultProfileAlreadyExists, w))"
proof -
  let ?clear = "update_where (\<lambda>p. prof_binding_ref p = b \<and> prof_is_default p) (\<lambda>p. p\<lparr>prof_is_default := False\<rparr>)"
  let ?d1 = "(db w)\<lparr>profiles := ?clear (profiles (db w))\<rparr>"
  have player: "(\<lambda>p. prof_binding_ref p = b \<and> prof_account_key p = a \<and> prof_player_id p = i) = is_player b a i"
    by (simp add: is_player_def fun_eq_iff)
  have s1: "store_violation ?d1 = None"
    using default_change_violation [OF assms(1) refl refl] cleared_unique [OF assms(1)] by simp
  then have ok1: "store_ok ?d1" by (simp add: store_ok_def)
  have s2: "store_violation ((db w)\<lparr>profiles := with_default b a i (profiles (db w))\<rparr>) =
    (if length (filter (is_player b a i) (profiles (db w))) \<le> 1 then None
     else Some (Unique_Violation ''uniq_default_profile_per_binding''))"
    using default_change_violation [OF ok1 default_steps [symmetric]]
    by (simp add: with_default_unique [OF assms(1)])
  have cnt: "count_where (is_player b a i) (?clear (profiles (db w)))
      = length (filter (is_player b a i) (profiles (db w)))"
    by (subst count_where_update_where) (simp_all add: count_where_def)
  show ?thesis
    using assms(2,3) s1 s2 cnt
    by (cases w) (auto simp: SetDefaultByBindingAndPlayerID_def player nested_transaction_def transaction_def
        effect_simps default_steps committed_def mapDefaultProfileDuplicateError_def Let_def le_Suc_eq)
qed

definition sample_profile :: profile where
  "sample_profile = \<lparr>prof_id = 1, prof_binding_ref = ''bind_1'', prof_account_key = ''acct_1'',
     prof_profile_ref = ''p1'', prof_game_biz = ''hk4e_cn'', prof_region = ''cn_gf01'',
     prof_player_id = ''100'', prof_nickname = ''n'', prof_level = 60, prof_is_default = False,
     prof_discovered_at = 0\<rparr>"

definition two_regions :: mihomo_db where
  "two_regions = sample_db\<lparr>profiles :=
     [sample_profile, sample_profile\<lparr>prof_id := 2, prof_profile_ref := ''p2'', prof_region := ''cn_qd01''\<rparr>]\<rparr>"

lemma two_regions_ok [simp]: "store_ok two_regions"
  by (simp add: two_regions_def store_ok_iff sample_db_def empty_mihomo_db_def unique_on_def unique_where_def
      credential_row_ok_def bigint_ok_def profile_key_def credential_exists_def sample_profile_def)

lemma SetDefault_outcome_witness:
  "SetDefaultByBindingAndPlayerID ''bind_1'' ''acct_1'' ''100'' (initial_world two_regions) =
   (Inl ErrDefaultProfileAlreadyExists, initial_world two_regions)"
  using SetDefault_outcome [of "initial_world two_regions" "''bind_1''" "''acct_1''" "''100''"]
  by (simp add: Let_def) (simp add: two_regions_def sample_profile_def is_player_def)

end
