(* ===== verification/Mihomo_Fences.thy ===== *)
theory Mihomo_Fences
  imports Mihomo_Store
begin

text \<open>
  Authorization minima: the fence per binding and consumer (\<open>internal/data/authorization_fence_repo.go\<close>),
  the minimum grant version (\<open>grant_invalidation_repo.go\<close>) and the state a ticket is checked
  against (\<open>ticket_authorization_state.go\<close>).  Both tables only ever grow: their upserts are joins
  of the semilattice \<open>epochs\<close>, so they commute, are idempotent and can be retried and reordered.
\<close>

section \<open>Epoch vectors\<close>

datatype epochs = Epochs (grant_epoch: u64) (owner_epoch: u64) (consumer_epoch: u64) (entry_epoch: u64)

instantiation epochs :: semilattice_sup
begin

definition less_eq_epochs :: "epochs \<Rightarrow> epochs \<Rightarrow> bool" where
  "less_eq_epochs a b \<longleftrightarrow> grant_epoch a \<le> grant_epoch b \<and> owner_epoch a \<le> owner_epoch b \<and>
     consumer_epoch a \<le> consumer_epoch b \<and> entry_epoch a \<le> entry_epoch b"

definition less_epochs :: "epochs \<Rightarrow> epochs \<Rightarrow> bool" where
  "less_epochs a b \<longleftrightarrow> a \<le> b \<and> \<not> b \<le> (a :: epochs)"

definition sup_epochs :: "epochs \<Rightarrow> epochs \<Rightarrow> epochs" where
  "sup_epochs a b = Epochs (max (grant_epoch a) (grant_epoch b)) (max (owner_epoch a) (owner_epoch b))
     (max (consumer_epoch a) (consumer_epoch b)) (max (entry_epoch a) (entry_epoch b))"

instance
  by intro_classes (auto simp: less_eq_epochs_def less_epochs_def sup_epochs_def intro: epochs.expand)

end

definition no_epochs :: epochs where
  "no_epochs = Epochs 0 0 0 0"

lemma no_epochs_least [simp]: "no_epochs \<le> e"
  by (simp add: less_eq_epochs_def no_epochs_def)

section \<open>Repositories\<close>

text \<open>\<open>GREATEST\<close> per column.\<close>

definition merge_fence :: "authorization_fence \<Rightarrow> authorization_fence \<Rightarrow> authorization_fence" where
  "merge_fence old excluded = old\<lparr>
     fence_minimum_grant_version := max (fence_minimum_grant_version old) (fence_minimum_grant_version excluded),
     fence_minimum_owner_epoch := max (fence_minimum_owner_epoch old) (fence_minimum_owner_epoch excluded),
     fence_minimum_consumer_epoch := max (fence_minimum_consumer_epoch old) (fence_minimum_consumer_epoch excluded),
     fence_minimum_entry_epoch := max (fence_minimum_entry_epoch old) (fence_minimum_entry_epoch excluded)\<rparr>"

definition put_fence :: "authorization_fence \<Rightarrow> mihomo_db \<Rightarrow> mihomo_db" where
  "put_fence fence d = d\<lparr>fences := upsert fence_key merge_fence fence (fences d)\<rparr>"

definition Upsert_fence :: "authorization_fence \<Rightarrow> unit meff" where
  "Upsert_fence fence = sql_change (put_fence fence)"

definition merge_invalidation :: "grant_invalidation \<Rightarrow> grant_invalidation \<Rightarrow> grant_invalidation" where
  "merge_invalidation old excluded = old\<lparr>
     inv_minimum_grant_version :=
       (if inv_minimum_grant_version old > inv_minimum_grant_version excluded
        then inv_minimum_grant_version old else inv_minimum_grant_version excluded),
     inv_invalidated_at := inv_invalidated_at excluded\<rparr>"

definition put_invalidation :: "instant \<Rightarrow> string \<Rightarrow> string \<Rightarrow> u64 \<Rightarrow> mihomo_db \<Rightarrow> mihomo_db" where
  "put_invalidation now bindingRef consumer minimumVersion d = d\<lparr>invalidations :=
     upsert invalidation_key merge_invalidation
       \<lparr>inv_binding_ref = bindingRef, inv_consumer = consumer,
        inv_minimum_grant_version = minimumVersion, inv_invalidated_at = now\<rparr> (invalidations d)\<rparr>"

definition Upsert_invalidation :: "instant \<Rightarrow> string \<Rightarrow> string \<Rightarrow> u64 \<Rightarrow> unit meff" where
  "Upsert_invalidation now bindingRef consumer minimumVersion =
     sql_change (put_invalidation now bindingRef consumer minimumVersion)"

definition MinimumVersion :: "string \<Rightarrow> string \<Rightarrow> u64 meff" where
  "MinimumVersion bindingRef consumer =
     andThen (sql_query (\<lambda>d. find (\<lambda>i. inv_binding_ref i = bindingRef \<and> inv_consumer i = consumer) (invalidations d)))
     (\<lambda>row. case row of None \<Rightarrow> return 0 | Some r \<Rightarrow> return (inv_minimum_grant_version r))"

record authorization_state =
  st_minimum_grant_version :: u64
  st_minimum_owner_epoch :: u64
  st_minimum_consumer_epoch :: u64
  st_minimum_entry_epoch :: u64
  st_credential_generation :: u64

definition zero_state :: authorization_state where
  "zero_state = \<lparr>st_minimum_grant_version = 0, st_minimum_owner_epoch = 0, st_minimum_consumer_epoch = 0,
     st_minimum_entry_epoch = 0, st_credential_generation = 0\<rparr>"

definition LookupAuthorizationState :: "string \<Rightarrow> string \<Rightarrow> authorization_state meff" where
  "LookupAuthorizationState bindingRef consumer =
     andThen (sql_query (\<lambda>d. find (\<lambda>c. cred_binding_ref c = bindingRef) (credentials d))) (\<lambda>credential.
     case credential of
       None \<Rightarrow> return zero_state
     | Some c \<Rightarrow>
         let state = zero_state\<lparr>st_credential_generation := cred_generation c\<rparr> in
         andThen (sql_query (\<lambda>d. find (\<lambda>f. fence_binding_ref f = bindingRef
                     \<and> fence_consumer_principal f = consumer) (fences d))) (\<lambda>fence.
         case fence of
           None \<Rightarrow> return state
         | Some f \<Rightarrow> return (state\<lparr>
             st_minimum_grant_version := fence_minimum_grant_version f,
             st_minimum_owner_epoch := fence_minimum_owner_epoch f,
             st_minimum_consumer_epoch := fence_minimum_consumer_epoch f,
             st_minimum_entry_epoch := fence_minimum_entry_epoch f\<rparr>)))"

section \<open>The joining tables\<close>

definition fence_epochs :: "authorization_fence \<Rightarrow> epochs" where
  "fence_epochs f = Epochs (fence_minimum_grant_version f) (fence_minimum_owner_epoch f)
     (fence_minimum_consumer_epoch f) (fence_minimum_entry_epoch f)"

definition invalidation_epochs :: "grant_invalidation \<Rightarrow> epochs" where
  "invalidation_epochs i = Epochs (inv_minimum_grant_version i) 0 0 0"

interpretation fence_table: joining_table fence_key merge_fence fence_epochs
  by unfold_locales (simp_all add: merge_fence_def fence_key_def fence_epochs_def sup_epochs_def)

interpretation invalidation_table: joining_table invalidation_key merge_invalidation invalidation_epochs
  by unfold_locales (auto simp: merge_invalidation_def invalidation_key_def invalidation_epochs_def
      sup_epochs_def max_def)

text \<open>What the tables demand of a binding and consumer.\<close>

definition fence_minimum :: "string \<Rightarrow> string \<Rightarrow> mihomo_db \<Rightarrow> epochs" where
  "fence_minimum b c d =
     (case map_option fence_epochs (find (\<lambda>f. fence_key f = (b, c)) (fences d)) of
        None \<Rightarrow> no_epochs | Some e \<Rightarrow> e)"

definition invalidation_minimum :: "string \<Rightarrow> string \<Rightarrow> mihomo_db \<Rightarrow> u64" where
  "invalidation_minimum b c d =
     (case map_option invalidation_epochs (find (\<lambda>i. invalidation_key i = (b, c)) (invalidations d)) of
        None \<Rightarrow> 0 | Some e \<Rightarrow> grant_epoch e)"

lemma fence_minimum_put:
  "fence_minimum b c (put_fence f d) =
     (if fence_key f = (b, c) then sup (fence_minimum b c d) (fence_epochs f) else fence_minimum b c d)"
  unfolding fence_minimum_def put_fence_def
  by (auto simp: fence_table.upsert_val sup_epochs_def no_epochs_def split: option.splits intro: epochs.expand)

lemma invalidation_minimum_put:
  "invalidation_minimum b c (put_invalidation now b' c' v d) =
     (if (b', c') = (b, c) then max (invalidation_minimum b c d) v else invalidation_minimum b c d)"
proof -
  let ?row = "\<lparr>inv_binding_ref = b', inv_consumer = c', inv_minimum_grant_version = v, inv_invalidated_at = now\<rparr>"
  have "invalidation_key ?row = (b', c')" "invalidation_epochs ?row = Epochs v 0 0 0"
    by (simp_all add: invalidation_key_def invalidation_epochs_def)
  then show ?thesis
    by (auto simp: invalidation_minimum_def put_invalidation_def invalidation_table.upsert_val
        sup_epochs_def split: option.splits)
qed

lemma fence_minimum_other [simp]:
  "fence_minimum b c (put_invalidation now b' c' v d) = fence_minimum b c d"
  "invalidation_minimum b c (put_fence f d) = invalidation_minimum b c d"
  by (simp_all add: fence_minimum_def put_invalidation_def invalidation_minimum_def put_fence_def)

text \<open>Any later writes of fences and invalidations, of any binding and consumer.\<close>

inductive raises :: "mihomo_db \<Rightarrow> mihomo_db \<Rightarrow> bool" where
  "raises d (put_fence f d)"
| "raises d (put_invalidation now b c v d)"

lemma raises_minimum:
  "raises d d' \<Longrightarrow> fence_minimum b c d \<le> fence_minimum b c d' \<and>
     invalidation_minimum b c d \<le> invalidation_minimum b c d'"
  by (induction rule: raises.induct) (auto simp: fence_minimum_put invalidation_minimum_put)

lemma raises_star_minimum:
  "raises\<^sup>*\<^sup>* d d' \<Longrightarrow> fence_minimum b c d \<le> fence_minimum b c d' \<and>
     invalidation_minimum b c d \<le> invalidation_minimum b c d'"
  by (induction rule: rtranclp_induct) (auto dest!: raises_minimum [of _ _ b c] intro: order_trans)

lemma fence_repo_rules [keeps_rules, simp]:
  "keeps store_ok (Upsert_fence f)" "keeps store_ok (Upsert_invalidation now b c v)"
  "frames operations (Upsert_fence f)" "frames operations (Upsert_invalidation now b c v)"
  "pins_committed (Upsert_fence f)" "pins_committed (Upsert_invalidation now b c v)"
  by (auto simp: Upsert_fence_def Upsert_invalidation_def put_fence_def put_invalidation_def
      intro!: keeps_rules sql_change_frames)

lemma fence_read_rules [keeps_rules, simp]:
  "keeps I (MinimumVersion b c)" "keeps I (LookupAuthorizationState b c)"
  "frames g (MinimumVersion b c)" "frames g (LookupAuthorizationState b c)"
  "pins_committed (MinimumVersion b c)" "pins_committed (LookupAuthorizationState b c)"
  by (auto simp: MinimumVersion_def LookupAuthorizationState_def Let_def intro!: keeps_rules)

lemma LookupAuthorizationState_no_fault [effect_simps]:
  assumes "faults w = []"
  shows "LookupAuthorizationState b c w =
    (Inr (case credential_of b (db w) of None \<Rightarrow> zero_state
          | Some cr \<Rightarrow> (let e = fence_minimum b c (db w) in
              \<lparr>st_minimum_grant_version = grant_epoch e, st_minimum_owner_epoch = owner_epoch e,
               st_minimum_consumer_epoch = consumer_epoch e, st_minimum_entry_epoch = entry_epoch e,
               st_credential_generation = cred_generation cr\<rparr>)), w)"
  using assms
  by (auto simp: LookupAuthorizationState_def effect_simps credential_of_def fence_minimum_def fence_key_def
      fence_epochs_def no_epochs_def zero_state_def Let_def split: option.splits)

lemma MinimumVersion_no_fault [effect_simps]:
  "faults w = [] \<Longrightarrow> MinimumVersion b c w = (Inr (invalidation_minimum b c (db w)), w)"
  by (auto simp: MinimumVersion_def effect_simps invalidation_minimum_def invalidation_key_def
      invalidation_epochs_def split: option.splits)



end
