(* ===== verification/Mihomo_Ticket.thy ===== *)
theory Mihomo_Ticket
  imports Mihomo_Fences Contracts
begin

text \<open>
  Service tickets: their issue (\<open>contracts/runtime/go/serviceticket/issuer.go\<close>), the key ring
  (\<open>internal/data/jwks_verifier.go\<close>) and their verification
  (\<open>internal/data/ticket_verifier.go\<close>).  The JWT library is a parameter: decoding a token without
  verifying it, checking its signature, checking the registered claims against the options the
  verifier passes, and signing.
\<close>

section \<open>Tokens\<close>

definition AlgorithmEd25519 :: string where "AlgorithmEd25519 = ''Ed25519''"
definition TypeControl :: string where "TypeControl = ''paigram-platform-control+jwt''"
definition TypeDelegation :: string where "TypeDelegation = ''paigram-platform-delegation+jwt''"

lemmas ticket_types = TypeControl_def TypeDelegation_def

record jwt_claims =
  jc_actor_type :: string
  jc_actor_id :: string
  jc_owner_user_ref :: string
  jc_entry_identity_ref :: string
  jc_binding_ref :: string
  jc_platform :: string
  jc_account_key :: string
  jc_consumer :: string
  jc_consumer_principal :: string
  jc_grant_version :: u64
  jc_owner_epoch :: u64
  jc_consumer_epoch :: u64
  jc_entry_epoch :: u64
  jc_credential_generation :: u64
  jc_operation_id :: string
  jc_profile_ref :: string
  jc_scopes :: "string list"
  jc_allowed_actions :: "string list"
  jc_bot_id :: string
  jc_platform_service_key :: string
  jc_issuer :: string
  jc_subject :: string
  jc_audience :: "string list"
  jc_expires_at :: "instant option"
  jc_not_before :: "instant option"
  jc_issued_at :: "instant option"
  jc_id :: string

record jwt_token =
  tok_alg :: string
  tok_kid :: "string option"
  tok_typ :: "string option"
  tok_claims :: jwt_claims

text \<open>The JWT library: \<open>jwt_claims_ok now audience issuer claims\<close> is its check of the registered
  claims (expiry required and not past, issued-at and not-before not in the future, audience and
  issuer as given, with the verifier's leeway).\<close>

record 'k jwt_library =
  jwt_decode :: "string \<Rightarrow> jwt_token option"
  jwt_signature_ok :: "string \<Rightarrow> 'k \<Rightarrow> bool"
  jwt_claims_ok :: "instant \<Rightarrow> string \<Rightarrow> string \<Rightarrow> jwt_claims \<Rightarrow> bool"

section \<open>Issue\<close>

definition maximumTTL :: duration where "maximumTTL = 5 * minute"

record 'k issuer_config =
  iss_issuer :: string
  iss_key_id :: string
  iss_ttl :: duration
  iss_private_key :: 'k

text \<open>\<open>parse\<close> is \<open>ParsePrivateKeyPEM\<close>.\<close>

definition NewIssuer ::
    "(string \<Rightarrow> 'k option) \<Rightarrow> string \<Rightarrow> string \<Rightarrow> duration \<Rightarrow> string \<Rightarrow> 'k issuer_config option" where
  "NewIssuer parse issuer keyID ttl privateKeyPEM =
     (if issuer = '''' \<or> keyID = '''' \<or> ttl \<le> 0 \<or> ttl > maximumTTL then None
      else case parse privateKeyPEM of
        None \<Rightarrow> None
      | Some key \<Rightarrow> Some \<lparr>iss_issuer = issuer, iss_key_id = keyID, iss_ttl = ttl, iss_private_key = key\<rparr>)"

definition has_prefix :: "string \<Rightarrow> string \<Rightarrow> bool" where
  "has_prefix s p \<longleftrightarrow> take (length p) s = p"

definition validSubject :: "string \<Rightarrow> string \<Rightarrow> bool" where
  "validSubject ticketType subject =
     (if ticketType = TypeControl
      then has_prefix subject ''user:'' \<or> subject = ''system:account-center''
      else if ticketType = TypeDelegation then has_prefix subject ''consumer:''
      else False)"

text \<open>\<open>newTokenID\<close>: the 16 random bytes are the argument.\<close>

definition newTokenID :: "string option \<Rightarrow> string option" where
  "newTokenID random = map_option base64url_encode random"

text \<open>\<open>Issue\<close>: the token to sign and its expiry.  Signing is the library's.\<close>

definition Issue ::
    "'k issuer_config \<Rightarrow> instant \<Rightarrow> string option \<Rightarrow> string \<Rightarrow> string \<Rightarrow> string \<Rightarrow> jwt_claims
      \<Rightarrow> (jwt_token \<times> instant) option" where
  "Issue s now random ticketType subject audience claims =
     (if \<not> validSubject ticketType subject \<or> audience = '''' then None
      else case newTokenID random of
        None \<Rightarrow> None
      | Some tokenID \<Rightarrow>
          let expiresAt = now + iss_ttl s;
              registered = claims\<lparr>
                jc_issuer := iss_issuer s, jc_subject := subject, jc_audience := [audience],
                jc_expires_at := Some expiresAt, jc_not_before := Some now, jc_issued_at := Some now,
                jc_id := tokenID\<rparr>
          in Some (\<lparr>tok_alg = AlgorithmEd25519, tok_kid = Some (iss_key_id s),
                    tok_typ = Some ticketType, tok_claims = registered\<rparr>, expiresAt))"

section \<open>Keys\<close>

text \<open>\<open>StaticPublicKeyResolver\<close>: keys as byte strings.\<close>

definition NewStaticPublicKeyResolver :: "string \<Rightarrow> string \<Rightarrow> string \<rightharpoonup> string" where
  "NewStaticPublicKeyResolver kid key =
     (if kid \<noteq> '''' \<and> key \<noteq> '''' then Map.empty(kid \<mapsto> key) else Map.empty)"

definition Static_Resolve :: "(string \<rightharpoonup> string) option \<Rightarrow> string \<Rightarrow> merror + string" where
  "Static_Resolve r kid =
     (case r of
        None \<Rightarrow> Inl (OtherError ''service ticket public key not found'')
      | Some keys \<Rightarrow>
          if kid = '''' then Inl (OtherError ''service ticket public key not found'')
          else case keys kid of
            None \<Rightarrow> Inl (OtherError ''service ticket public key not found'')
          | Some key \<Rightarrow> Inr key)"

text \<open>\<open>LoadPublicKeyring\<close> on the decoded key file: no empty and no duplicate key id, every key parses.\<close>

fun load_keys :: "(string \<Rightarrow> 'k option) \<Rightarrow> (string \<times> string) list \<Rightarrow> (string \<rightharpoonup> 'k) \<Rightarrow> (string \<rightharpoonup> 'k) option" where
  "load_keys parse [] keys = Some keys"
| "load_keys parse ((kid, pem) # entries) keys =
     (if kid = '''' \<or> keys kid \<noteq> None then None
      else case parse pem of
        None \<Rightarrow> None
      | Some key \<Rightarrow> load_keys parse entries (keys(kid \<mapsto> key)))"

definition LoadPublicKeyring ::
    "(string \<Rightarrow> 'k option) \<Rightarrow> (string \<times> string) list option \<Rightarrow> (string \<rightharpoonup> 'k) option" where
  "LoadPublicKeyring parse file =
     (case file of
        None \<Rightarrow> None
      | Some entries \<Rightarrow> if entries = [] then None else load_keys parse entries Map.empty)"

definition ResolvePublicKeyFile ::
    "(string \<Rightarrow> 'k option) \<Rightarrow> (string \<times> string) list option \<Rightarrow> string \<Rightarrow> 'k option" where
  "ResolvePublicKeyFile parse file keyID =
     (case LoadPublicKeyring parse file of None \<Rightarrow> None | Some keys \<Rightarrow> keys keyID)"

section \<open>Verification\<close>

definition maximumServiceTicketTTL :: duration where "maximumServiceTicketTTL = 5 * minute"

text \<open>The verifier: \<open>tv_lookup\<close> and \<open>tv_authorization_state\<close> say whether the two lookups are
  configured.\<close>

record 'k ticket_verifier =
  tv_issuer :: string
  tv_resolver :: "(string \<Rightarrow> merror + 'k) option"
  tv_lookup :: bool
  tv_authorization_state :: bool

text \<open>The key function passed to the parser: the key of the token, and its type.\<close>

definition ticket_key :: "'k ticket_verifier \<Rightarrow> jwt_token \<Rightarrow> merror + ('k \<times> string)" where
  "ticket_key v token =
     (if tok_alg token \<noteq> AlgorithmEd25519 then Inl (OtherError ''unexpected signing method'')
      else case tok_kid token of
        None \<Rightarrow> Inl (OtherError ''service ticket missing kid'')
      | Some kid \<Rightarrow>
          if kid = '''' then Inl (OtherError ''service ticket missing kid'')
          else case tok_typ token of
            None \<Rightarrow> Inl (OtherError ''invalid service ticket typ'')
          | Some typ \<Rightarrow>
              if typ \<noteq> TypeControl \<and> typ \<noteq> TypeDelegation
              then Inl (OtherError ''invalid service ticket typ'')
              else case tv_resolver v of
                None \<Rightarrow> Inl (OtherError ''service ticket public key resolver is not configured'')
              | Some resolve \<Rightarrow> (case resolve kid of Inl e \<Rightarrow> Inl e | Inr key \<Rightarrow> Inr (key, typ)))"

text \<open>\<open>jwt.ParseWithClaims\<close> with the verifier's options.\<close>

definition parse_ticket ::
    "'k jwt_library \<Rightarrow> 'k ticket_verifier \<Rightarrow> instant \<Rightarrow> string \<Rightarrow> string \<Rightarrow> merror + (jwt_claims \<times> string)" where
  "parse_ticket lib v now raw expectedAudience =
     (case jwt_decode lib raw of
        None \<Rightarrow> Inl (OtherError ''token is malformed'')
      | Some token \<Rightarrow>
          (case ticket_key v token of
             Inl e \<Rightarrow> Inl e
           | Inr (key, typ) \<Rightarrow>
               if \<not> jwt_signature_ok lib raw key then Inl (OtherError ''token signature is invalid'')
               else if \<not> jwt_claims_ok lib now expectedAudience (tv_issuer v) (tok_claims token)
               then Inl (OtherError ''token has invalid claims'')
               else Inr (tok_claims token, typ)))"

definition check_common :: "string \<Rightarrow> jwt_claims \<Rightarrow> merror option" where
  "check_common expectedAudience claims =
     (if jc_subject claims = '''' \<or> jc_id claims = '''' \<or> jc_issued_at claims = None \<or> jc_not_before claims = None
      then Some (OtherError ''service ticket missing required registered claim'')
      else if jc_actor_type claims = '''' then Some (OtherError ''service ticket missing actor_type'')
      else if jc_actor_id claims = '''' then Some (OtherError ''service ticket missing actor_id'')
      else if jc_binding_ref claims = '''' then Some (OtherError ''service ticket missing binding_ref'')
      else if jc_platform claims = '''' then Some (OtherError ''service ticket missing platform'')
      else if jc_audience claims \<noteq> [expectedAudience]
      then Some (OtherError ''service ticket audience must be a single exact value'')
      else case (jc_expires_at claims, jc_issued_at claims) of
        (Some expires, Some issued) \<Rightarrow>
          if expires - issued \<le> 0 \<or> expires - issued > maximumServiceTicketTTL
          then Some (OtherError ''service ticket lifetime exceeds the allowed profile'') else None
      | _ \<Rightarrow> Some (OtherError ''service ticket lifetime exceeds the allowed profile''))"

definition check_consumer :: "string \<Rightarrow> jwt_claims \<Rightarrow> merror option" where
  "check_consumer ticketType claims =
     (if ticketType \<noteq> TypeDelegation then Some (OtherError ''consumer ticket must use delegation typ'')
      else if jc_consumer claims = '''' \<or> jc_consumer_principal claims = ''''
              \<or> jc_consumer claims \<noteq> jc_consumer_principal claims
      then Some (OtherError ''service ticket missing consumer principal'')
      else if jc_owner_user_ref claims = '''' \<or> jc_entry_identity_ref claims = ''''
      then Some (OtherError ''service ticket missing stable identity reference'')
      else if jc_grant_version claims = 0 \<or> jc_owner_epoch claims = 0 \<or> jc_consumer_epoch claims = 0
              \<or> jc_entry_epoch claims = 0 \<or> jc_credential_generation claims = 0
      then Some (OtherError ''service ticket missing authorization version'')
      else if jc_subject claims \<noteq> ''consumer:'' @ jc_consumer claims
      then Some (OtherError ''service ticket subject does not match consumer'')
      else None)"

definition check_control :: "string \<Rightarrow> jwt_claims \<Rightarrow> merror option" where
  "check_control ticketType claims =
     (if ticketType \<noteq> TypeControl then Some (OtherError ''non-consumer ticket must use control typ'')
      else if jc_actor_type claims = ''user'' \<or> jc_actor_type claims = ''admin''
      then (if jc_owner_user_ref claims = '''' then Some (OtherError ''service ticket missing owner_user_ref'')
            else if jc_subject claims \<noteq> ''user:'' @ jc_owner_user_ref claims
            then Some (OtherError ''service ticket subject does not match owner'')
            else None)
      else if jc_actor_type claims = ''system''
      then (if jc_subject claims \<noteq> ''system:account-center''
            then Some (OtherError ''service ticket subject does not match system actor'') else None)
      else Some (OtherError ''unsupported service ticket actor_type''))"

definition fail_with :: "merror option \<Rightarrow> unit meff" where
  "fail_with e = (case e of None \<Rightarrow> return () | Some err \<Rightarrow> raise err)"

definition verified_claims :: "string \<Rightarrow> string \<Rightarrow> jwt_claims \<Rightarrow> service_ticket_claims" where
  "verified_claims ticketType expectedAudience claims = \<lparr>
     tc_ticket_type = ticketType,
     tc_actor_type = jc_actor_type claims,
     tc_actor_id = jc_actor_id claims,
     tc_owner_user_ref = jc_owner_user_ref claims,
     tc_entry_identity_ref = jc_entry_identity_ref claims,
     tc_binding_ref = jc_binding_ref claims,
     tc_platform = jc_platform claims,
     tc_account_key = jc_account_key claims,
     tc_consumer = jc_consumer claims,
     tc_grant_version = jc_grant_version claims,
     tc_owner_epoch = jc_owner_epoch claims,
     tc_consumer_epoch = jc_consumer_epoch claims,
     tc_entry_epoch = jc_entry_epoch claims,
     tc_credential_generation = jc_credential_generation claims,
     tc_operation_id = jc_operation_id claims,
     tc_profile_ref = jc_profile_ref claims,
     tc_scopes = (if jc_allowed_actions claims \<noteq> [] then jc_allowed_actions claims else jc_scopes claims),
     tc_audience = expectedAudience,
     tc_bot_id = jc_bot_id claims,
     tc_platform_service_key = jc_platform_service_key claims\<rparr>"

text \<open>The two lookups of a consumer ticket.\<close>

definition check_minimum :: "'k ticket_verifier \<Rightarrow> jwt_claims \<Rightarrow> unit meff" where
  "check_minimum v claims =
     (if tv_lookup v
      then andThen (MinimumVersion (jc_binding_ref claims) (jc_consumer claims)) (\<lambda>minimum.
           require (\<not> (minimum > 0 \<and> jc_grant_version claims < minimum)) ErrGrantVersionRevoked)
      else return ())"

definition outdated :: "jwt_claims \<Rightarrow> authorization_state \<Rightarrow> bool" where
  "outdated claims state \<longleftrightarrow>
     jc_grant_version claims < st_minimum_grant_version state \<or>
     jc_owner_epoch claims < st_minimum_owner_epoch state \<or>
     jc_consumer_epoch claims < st_minimum_consumer_epoch state \<or>
     jc_entry_epoch claims < st_minimum_entry_epoch state \<or>
     jc_credential_generation claims \<noteq> st_credential_generation state"

definition check_state :: "'k ticket_verifier \<Rightarrow> jwt_claims \<Rightarrow> unit meff" where
  "check_state v claims =
     (if tv_authorization_state v
      then andThen (LookupAuthorizationState (jc_binding_ref claims) (jc_consumer claims)) (\<lambda>state.
           require (\<not> outdated claims state) ErrGrantVersionRevoked)
      else return ())"

definition VerifyContext ::
    "'k jwt_library \<Rightarrow> 'k ticket_verifier \<Rightarrow> instant \<Rightarrow> string \<Rightarrow> string \<Rightarrow> service_ticket_claims meff" where
  "VerifyContext lib v now raw expectedAudience =
     andThen (lift_result (parse_ticket lib v now raw expectedAudience)) (\<lambda>(claims, ticketType).
     andThen (fail_with (check_common expectedAudience claims)) (\<lambda>_.
     andThen
       (if jc_actor_type claims = ''consumer''
        then andThen (fail_with (check_consumer ticketType claims)) (\<lambda>_.
             andThen (check_minimum v claims) (\<lambda>_. check_state v claims))
        else fail_with (check_control ticketType claims)) (\<lambda>_.
     return (verified_claims ticketType expectedAudience claims))))"

section \<open>Lemmas\<close>

lemma fail_with_rules [keeps_rules, simp]:
  "keeps I (fail_with e)" "frames f (fail_with e)" "pins_committed (fail_with e)"
  by (auto simp: fail_with_def split: option.splits)

lemma fail_with_InrE:
  assumes "fail_with e w = (Inr u, w')"
  obtains "e = None" "w' = w"
  using assms by (cases e) (auto simp: fail_with_def effect_simps)

lemma fail_with_apply [effect_simps]:
  "fail_with e w = (case e of None \<Rightarrow> (Inr (), w) | Some err \<Rightarrow> (Inl err, w))"
  by (cases e) (simp_all add: fail_with_def effect_simps)

lemma VerifyContext_rules [keeps_rules, simp]:
  "keeps I (VerifyContext lib v now raw aud)" "frames f (VerifyContext lib v now raw aud)"
  unfolding VerifyContext_def check_minimum_def check_state_def by (intro keeps_rules)+

lemma LookupAuthorizationState_InrE:
  assumes "LookupAuthorizationState b c w = (Inr s, w')"
  obtains "db w' = db w"
    "s = (case credential_of b (db w) of None \<Rightarrow> zero_state
          | Some cr \<Rightarrow> (let e = fence_minimum b c (db w) in
              \<lparr>st_minimum_grant_version = grant_epoch e, st_minimum_owner_epoch = owner_epoch e,
               st_minimum_consumer_epoch = consumer_epoch e, st_minimum_entry_epoch = entry_epoch e,
               st_credential_generation = cred_generation cr\<rparr>))"
proof (rule that)
  show "db w' = db w"
    using assms by (auto simp: LookupAuthorizationState_def Let_def elim!: success_elims split: option.splits)
  show "s = (case credential_of b (db w) of None \<Rightarrow> zero_state
          | Some cr \<Rightarrow> (let e = fence_minimum b c (db w) in
              \<lparr>st_minimum_grant_version = grant_epoch e, st_minimum_owner_epoch = owner_epoch e,
               st_minimum_consumer_epoch = consumer_epoch e, st_minimum_entry_epoch = entry_epoch e,
               st_credential_generation = cred_generation cr\<rparr>))"
    using assms
    by (auto simp: LookupAuthorizationState_def Let_def credential_of_def fence_minimum_def fence_key_def
        fence_epochs_def no_epochs_def zero_state_def elim!: success_elims split: option.splits)
qed

lemma MinimumVersion_InrE:
  assumes "MinimumVersion b c w = (Inr m, w')"
  obtains "m = invalidation_minimum b c (db w)" "db w' = db w"
  using assms
  by (auto simp: MinimumVersion_def invalidation_minimum_def invalidation_key_def invalidation_epochs_def
      elim!: success_elims split: option.splits)

definition claims_epochs :: "jwt_claims \<Rightarrow> epochs" where
  "claims_epochs c = Epochs (jc_grant_version c) (jc_owner_epoch c) (jc_consumer_epoch c) (jc_entry_epoch c)"

lemma check_state_InrE:
  assumes st: "check_state v claims w = (Inr u, w')" and "tv_authorization_state v"
    and gen: "jc_credential_generation claims \<noteq> 0"
  shows "\<exists>cr. credential_of (jc_binding_ref claims) (db w) = Some cr \<and>
      cred_generation cr = jc_credential_generation claims \<and>
      fence_minimum (jc_binding_ref claims) (jc_consumer claims) (db w) \<le> claims_epochs claims"
proof -
  from st assms(2) obtain state w5 where
    look: "LookupAuthorizationState (jc_binding_ref claims) (jc_consumer claims) w = (Inr state, w5)" and
    req: "\<not> outdated claims state"
    unfolding check_state_def by (auto elim!: andThen_InrE require_InrE)
  from look have state: "state = (case credential_of (jc_binding_ref claims) (db w) of None \<Rightarrow> zero_state
          | Some cr \<Rightarrow> (let e = fence_minimum (jc_binding_ref claims) (jc_consumer claims) (db w) in
              \<lparr>st_minimum_grant_version = grant_epoch e, st_minimum_owner_epoch = owner_epoch e,
               st_minimum_consumer_epoch = consumer_epoch e, st_minimum_entry_epoch = entry_epoch e,
               st_credential_generation = cred_generation cr\<rparr>))"
    by (rule LookupAuthorizationState_InrE)
  with req gen show ?thesis
    by (cases "credential_of (jc_binding_ref claims) (db w)")
       (auto simp: outdated_def zero_state_def Let_def less_eq_epochs_def claims_epochs_def not_less)
qed

text \<open>What a successful verification has established.\<close>

lemma VerifyContext_InrE:
  assumes run: "VerifyContext lib v now raw aud w = (Inr tc, w')"
  obtains claims kind where "parse_ticket lib v now raw aud = Inr (claims, kind)"
    "tc = verified_claims kind aud claims" "check_common aud claims = None"
    "jc_actor_type claims \<noteq> ''consumer'' \<Longrightarrow> check_control kind claims = None"
    "jc_actor_type claims = ''consumer'' \<Longrightarrow> check_consumer kind claims = None"
    "jc_actor_type claims = ''consumer'' \<Longrightarrow> tv_lookup v \<Longrightarrow>
       invalidation_minimum (jc_binding_ref claims) (jc_consumer claims) (db w) \<le> jc_grant_version claims"
    "jc_actor_type claims = ''consumer'' \<Longrightarrow> tv_authorization_state v \<Longrightarrow>
       \<exists>cr. credential_of (jc_binding_ref claims) (db w) = Some cr \<and>
            cred_generation cr = jc_credential_generation claims \<and>
            fence_minimum (jc_binding_ref claims) (jc_consumer claims) (db w) \<le> claims_epochs claims"
proof -
  from run obtain claims kind where parse: "parse_ticket lib v now raw aud = Inr (claims, kind)"
    unfolding VerifyContext_def by (auto elim!: andThen_InrE lift_result_InrE)
  note run' = run [unfolded VerifyContext_def parse]
  from run' have common: "check_common aud claims = None"
    by (auto elim!: andThen_InrE lift_result_InrE fail_with_InrE)
  from run' have tc: "tc = verified_claims kind aud claims"
    by (auto elim!: andThen_InrE lift_result_InrE return_InrE)
  show thesis
  proof (cases "jc_actor_type claims = ''consumer''")
    case False
    with run' have "check_control kind claims = None"
      by (auto elim!: andThen_InrE lift_result_InrE fail_with_InrE)
    with parse tc common False that show thesis by blast
  next
    case True
    with run' obtain w3 u2 u3 w4 where cc: "check_consumer kind claims = None" and
      lk: "check_minimum v claims w = (Inr u2, w3)" and st: "check_state v claims w3 = (Inr u3, w4)"
      by (auto elim!: andThen_InrE lift_result_InrE fail_with_InrE)
    from lk have w3: "db w3 = db w" and
      l: "tv_lookup v \<Longrightarrow> invalidation_minimum (jc_binding_ref claims) (jc_consumer claims) (db w) \<le> jc_grant_version claims"
      unfolding check_minimum_def
      by (auto elim!: andThen_InrE MinimumVersion_InrE require_InrE return_InrE split: if_splits
          simp: word_gt_0 not_less)
    have "jc_credential_generation claims \<noteq> 0"
      using cc by (auto simp: check_consumer_def split: if_splits)
    from check_state_InrE [OF st _ this] that [OF parse tc common] cc l w3 True show thesis by simp
  qed
qed

lemma parse_ticket_InrD:
  "parse_ticket lib v now raw aud = Inr (claims, kind) \<Longrightarrow> kind = TypeControl \<or> kind = TypeDelegation"
  by (auto simp: parse_ticket_def ticket_key_def split: option.splits sum.splits if_splits)

section \<open>Properties of tickets\<close>


text \<open>A library and a ticket for the examples: the token text is its own signature check.\<close>

definition sample_claims :: jwt_claims where
  "sample_claims = \<lparr>jc_actor_type = ''consumer'', jc_actor_id = ''bot'', jc_owner_user_ref = ''u1'',
     jc_entry_identity_ref = ''e1'', jc_binding_ref = ''bind_1'', jc_platform = ''mihomo'',
     jc_account_key = ''acct_1'', jc_consumer = ''bot-a'', jc_consumer_principal = ''bot-a'',
     jc_grant_version = 2, jc_owner_epoch = 1, jc_consumer_epoch = 1, jc_entry_epoch = 1,
     jc_credential_generation = 1, jc_operation_id = '''', jc_profile_ref = '''',
     jc_scopes = [MihomoProfileRead], jc_allowed_actions = [], jc_bot_id = ''b'',
     jc_platform_service_key = ''k'', jc_issuer = ''ac'', jc_subject = ''consumer:bot-a'',
     jc_audience = [''platform-mihomo-service''], jc_expires_at = Some minute, jc_not_before = Some 0,
     jc_issued_at = Some 0, jc_id = ''AA''\<rparr>"

definition sample_token :: jwt_token where
  "sample_token = \<lparr>tok_alg = AlgorithmEd25519, tok_kid = Some ''k1'', tok_typ = Some TypeDelegation,
     tok_claims = sample_claims\<rparr>"

definition sample_library :: "string jwt_library" where
  "sample_library = \<lparr>jwt_decode = (\<lambda>raw. if raw = ''t'' then Some sample_token else None),
     jwt_signature_ok = (\<lambda>raw key. key = ''key''),
     jwt_claims_ok = (\<lambda>now aud iss c. (case jc_expires_at c of None \<Rightarrow> False | Some e \<Rightarrow> now < e)
        \<and> aud \<in> set (jc_audience c) \<and> jc_issuer c = iss)\<rparr>"

definition sample_verifier :: "string ticket_verifier" where
  "sample_verifier = \<lparr>tv_issuer = ''ac'',
     tv_resolver = Some (Static_Resolve (Some (NewStaticPublicKeyResolver ''k1'' ''key''))),
     tv_lookup = True, tv_authorization_state = True\<rparr>"

lemma sample_parse:
  "parse_ticket sample_library sample_verifier 0 ''t'' ''platform-mihomo-service'' = Inr (sample_claims, TypeDelegation)"
  by (simp add: parse_ticket_def sample_library_def sample_token_def ticket_key_def sample_verifier_def
      Static_Resolve_def NewStaticPublicKeyResolver_def sample_claims_def duration_defs)

lemma sample_claims_simps [simp]:
  "jc_binding_ref sample_claims = ''bind_1''" "jc_consumer sample_claims = ''bot-a''"
  "jc_actor_type sample_claims = ''consumer''" "jc_credential_generation sample_claims = 1"
  by (simp_all add: sample_claims_def)

lemma sample_minima [simp]:
  "invalidation_minimum b c sample_db = 0" "fence_minimum b c sample_db = no_epochs"
  by (simp_all add: invalidation_minimum_def fence_minimum_def sample_db_def empty_mihomo_db_def)

lemma sample_verify:
  "VerifyContext sample_library sample_verifier 0 ''t'' ''platform-mihomo-service'' (initial_world sample_db) =
   (Inr (verified_claims TypeDelegation ''platform-mihomo-service'' sample_claims), initial_world sample_db)"
proof -
  have "check_common ''platform-mihomo-service'' sample_claims = None" "check_consumer TypeDelegation sample_claims = None"
    by (simp_all add: check_common_def check_consumer_def sample_claims_def duration_defs maximumServiceTicketTTL_def)
  moreover have "check_minimum sample_verifier sample_claims (initial_world sample_db) = (Inr (), initial_world sample_db)"
    by (simp add: check_minimum_def effect_simps sample_claims_def)
  moreover have "check_state sample_verifier sample_claims (initial_world sample_db) = (Inr (), initial_world sample_db)"
    by (simp add: check_state_def effect_simps outdated_def Let_def)
       (simp add: sample_claims_def no_epochs_def)
  moreover have "jc_actor_type sample_claims = ''consumer''" by (simp add: sample_claims_def)
  ultimately show ?thesis
    by (simp add: VerifyContext_def effect_simps sample_parse)
qed



definition sample_fence :: authorization_fence where
  "sample_fence = \<lparr>fence_binding_ref = ''bind_1'', fence_consumer_principal = ''bot-a'',
     fence_minimum_grant_version = 3, fence_minimum_owner_epoch = 1, fence_minimum_consumer_epoch = 1,
     fence_minimum_entry_epoch = 1\<rparr>"


text \<open>The claims a consumer's ticket needs beside the registered ones, and that the stored minima
  admit.\<close>

definition complete_consumer_claims :: "jwt_claims \<Rightarrow> bool" where
  "complete_consumer_claims c \<longleftrightarrow>
     jc_actor_type c = ''consumer'' \<and> jc_actor_id c \<noteq> '''' \<and> jc_binding_ref c \<noteq> '''' \<and> jc_platform c \<noteq> '''' \<and>
     jc_consumer c \<noteq> '''' \<and> jc_consumer c = jc_consumer_principal c \<and>
     jc_owner_user_ref c \<noteq> '''' \<and> jc_entry_identity_ref c \<noteq> '''' \<and>
     jc_grant_version c \<noteq> 0 \<and> jc_owner_epoch c \<noteq> 0 \<and> jc_consumer_epoch c \<noteq> 0 \<and>
     jc_entry_epoch c \<noteq> 0 \<and> jc_credential_generation c \<noteq> 0"

definition admitted_by :: "mihomo_db \<Rightarrow> jwt_claims \<Rightarrow> bool" where
  "admitted_by d c \<longleftrightarrow>
     invalidation_minimum (jc_binding_ref c) (jc_consumer c) d \<le> jc_grant_version c \<and>
     fence_minimum (jc_binding_ref c) (jc_consumer c) d \<le> claims_epochs c \<and>
     (\<exists>cr. credential_of (jc_binding_ref c) d = Some cr \<and> cred_generation cr = jc_credential_generation c)"

lemma check_minimum_admitted:
  "faults w = [] \<Longrightarrow> admitted_by (db w) c \<Longrightarrow> check_minimum v c w = (Inr (), w)"
  by (auto simp: check_minimum_def effect_simps admitted_by_def not_less [symmetric])

lemma check_state_admitted:
  "faults w = [] \<Longrightarrow> admitted_by (db w) c \<Longrightarrow> check_state v c w = (Inr (), w)"
  by (auto simp: check_state_def effect_simps admitted_by_def outdated_def Let_def less_eq_epochs_def claims_epochs_def)

lemma base64url_encode_nonempty: "xs \<noteq> [] \<Longrightarrow> base64url_encode xs \<noteq> []"
  by (cases xs rule: base64url_encode.cases) (simp_all add: Let_def)


definition sample_issuer :: "string issuer_config" where
  "sample_issuer = \<lparr>iss_issuer = ''ac'', iss_key_id = ''k1'', iss_ttl = minute, iss_private_key = ''priv''\<rparr>"

definition issued_library :: "string jwt_library" where
  "issued_library = sample_library\<lparr>jwt_decode := (\<lambda>raw. map_option fst
     (Issue sample_issuer 0 (Some raw) TypeDelegation ''consumer:bot-a'' ''platform-mihomo-service'' sample_claims))\<rparr>"


end
