(* ===== verification/Mihomo_Scope.thy ===== *)
theory Mihomo_Scope
  imports Mihomo_Ticket
begin

text \<open>
  From a verified ticket to the permission to act: \<open>internal/usecase/scope_guard.go\<close>,
  \<open>internal/service/platform_service_authorization.go\<close> and
  \<open>internal/service/service_ticket_metadata.go\<close>.
\<close>

section \<open>Scope guard\<close>

record scope_guard =
  sg_allowed_actions :: "string list"
  sg_binding_ref :: string
  sg_account_key :: string
  sg_profile_ref :: string

definition RequireAction :: "scope_guard \<Rightarrow> string \<Rightarrow> merror option" where
  "RequireAction g action =
     (if action \<notin> set (sg_allowed_actions g) then Some ErrActionScopeDenied else None)"

definition RequireAccountKey :: "scope_guard \<Rightarrow> string \<Rightarrow> merror option" where
  "RequireAccountKey g accountKey =
     (if sg_binding_ref g = '''' \<or> sg_account_key g = '''' \<or> accountKey = '''' \<or> sg_account_key g \<noteq> accountKey
      then Some ErrBindingScopeDenied else None)"

definition RequireBindingWide :: "scope_guard \<Rightarrow> merror option" where
  "RequireBindingWide g = (if sg_profile_ref g \<noteq> '''' then Some ErrProfileScopeDenied else None)"

definition RequireProfile :: "scope_guard \<Rightarrow> string \<Rightarrow> string \<Rightarrow> merror option" where
  "RequireProfile g bindingRef profileRef =
     (if sg_binding_ref g = '''' \<or> sg_binding_ref g \<noteq> bindingRef then Some ErrBindingScopeDenied
      else if sg_profile_ref g \<noteq> '''' \<and> sg_profile_ref g \<noteq> profileRef then Some ErrProfileScopeDenied
      else None)"

definition RequireExactProfile :: "scope_guard \<Rightarrow> string \<Rightarrow> merror option" where
  "RequireExactProfile g profileRef =
     (if sg_profile_ref g = '''' \<or> profileRef = '''' \<or> sg_profile_ref g \<noteq> profileRef
      then Some ErrProfileScopeDenied else None)"

section \<open>Service authorization\<close>

definition serviceTicketAudience :: string where
  "serviceTicketAudience = ''platform-mihomo-service''"

definition requireControlTicket :: "service_ticket_claims \<Rightarrow> merror option" where
  "requireControlTicket claims =
     (if tc_ticket_type claims \<noteq> TypeControl then Some (StatusError PermissionDenied) else None)"

definition requireDelegationTicket :: "service_ticket_claims \<Rightarrow> merror option" where
  "requireDelegationTicket claims =
     (if tc_ticket_type claims \<noteq> TypeDelegation then Some (StatusError PermissionDenied) else None)"

definition mapTicketVerificationError :: "merror \<Rightarrow> merror" where
  "mapTicketVerificationError err =
     (if is_error err ErrGrantVersionRevoked then StatusError PermissionDenied
      else StatusError Unauthenticated)"

definition mapUsecaseError :: "merror \<Rightarrow> merror" where
  "mapUsecaseError err =
     (if is_error err ErrCredentialAlreadyBound then StatusError AlreadyExists
      else if is_error err ErrCredentialGenerationConflict then StatusError Aborted
      else if is_error err ErrCredentialNotFound then StatusError NotFound
      else if is_error err ErrCredentialRequiresAttention then StatusError FailedPrecondition
      else if is_error err ErrArtifactRevocationPending then StatusError FailedPrecondition
      else if is_error err ErrProfileNotFound then StatusError NotFound
      else if is_error err ErrPlatformAccountMismatch then StatusError PermissionDenied
      else if is_error err ErrActionScopeDenied \<or> is_error err ErrBindingScopeDenied
              \<or> is_error err ErrProfileScopeDenied then StatusError PermissionDenied
      else case upstream_kind err of
        Some ErrorRateLimited \<Rightarrow> StatusError ResourceExhausted
      | Some ErrorUnavailable \<Rightarrow> StatusError Unavailable
      | Some ErrorInvalidResponse \<Rightarrow> StatusError Unavailable
      | Some ErrorInvalidCredential \<Rightarrow> StatusError FailedPrecondition
      | Some ErrorExpiredCredential \<Rightarrow> StatusError FailedPrecondition
      | Some ErrorChallengeRequired \<Rightarrow> StatusError FailedPrecondition
      | None \<Rightarrow> StatusError Internal)"

definition toScopeGuard :: "service_ticket_claims \<Rightarrow> merror + scope_guard" where
  "toScopeGuard claims =
     (if tc_platform claims \<noteq> ''mihomo'' then Inl ErrBindingScopeDenied
      else Inr \<lparr>sg_allowed_actions = tc_scopes claims, sg_binding_ref = tc_binding_ref claims,
               sg_account_key = tc_account_key claims, sg_profile_ref = tc_profile_ref claims\<rparr>)"

text \<open>\<open>toScopeGuardMust\<close> ignores the error and then yields the zero guard.\<close>

definition toScopeGuardMust :: "service_ticket_claims \<Rightarrow> scope_guard" where
  "toScopeGuardMust claims = (case toScopeGuard claims of
       Inr guard \<Rightarrow> guard
     | Inl _ \<Rightarrow> \<lparr>sg_allowed_actions = [], sg_binding_ref = '''', sg_account_key = '''', sg_profile_ref = ''''\<rparr>)"

fun require_actions :: "scope_guard \<Rightarrow> string list \<Rightarrow> merror option" where
  "require_actions guard [] = None"
| "require_actions guard (action # actions) =
     (case RequireAction guard action of Some e \<Rightarrow> Some e | None \<Rightarrow> require_actions guard actions)"

definition scopedGuard :: "service_ticket_claims \<Rightarrow> string list \<Rightarrow> merror + scope_guard" where
  "scopedGuard claims requiredActions = (case toScopeGuard claims of
       Inl e \<Rightarrow> Inl e
     | Inr guard \<Rightarrow> (case require_actions guard requiredActions of Some e \<Rightarrow> Inl e | None \<Rightarrow> Inr guard))"

definition scopedGuardForPlatformAccount ::
    "service_ticket_claims \<Rightarrow> string \<Rightarrow> string list \<Rightarrow> merror + scope_guard" where
  "scopedGuardForPlatformAccount claims accountKey requiredActions =
     (case scopedGuard claims requiredActions of
       Inl e \<Rightarrow> Inl e
     | Inr guard \<Rightarrow> (case RequireAccountKey guard accountKey of Some e \<Rightarrow> Inl e | None \<Rightarrow> Inr guard))"

section \<open>Incoming tickets\<close>

text \<open>\<open>strings.Fields\<close> and \<open>strings.EqualFold\<close> on ASCII header values.\<close>

fun fields_from :: "string \<Rightarrow> string \<Rightarrow> string list" where
  "fields_from current [] = (if current = [] then [] else [rev current])"
| "fields_from current (c # cs) =
     (if is_space c then (if current = [] then [] else [rev current]) @ fields_from [] cs
      else fields_from (c # current) cs)"

definition string_fields :: "string \<Rightarrow> string list" where
  "string_fields s = fields_from [] s"

definition fold_case :: "char \<Rightarrow> char" where
  "fold_case c = (if CHR ''A'' \<le> c \<and> c \<le> CHR ''Z'' then char_of (of_char c + 32 :: nat) else c)"

definition equal_fold :: "string \<Rightarrow> string \<Rightarrow> bool" where
  "equal_fold a b \<longleftrightarrow> map fold_case a = map fold_case b"

text \<open>The incoming call: the claims a middleware verified before, and the authorization metadata.
  The verifier in use is fixed for the service.\<close>

record 'k request_context =
  rc_library :: "'k jwt_library"
  rc_verifier :: "'k ticket_verifier"
  rc_now :: instant
  rc_verified_claims :: "service_ticket_claims option"
  rc_authorization :: "string list option"

definition verifyIncomingServiceTicket :: "'k request_context \<Rightarrow> service_ticket_claims meff" where
  "verifyIncomingServiceTicket ctx =
     (case rc_authorization ctx of
        None \<Rightarrow> raise (StatusError Unauthenticated)
      | Some values \<Rightarrow>
          if length values \<noteq> 1 then raise (StatusError Unauthenticated)
          else let parts = string_fields (hd values) in
            if length parts \<noteq> 2 \<or> \<not> equal_fold (parts ! 0) ''Bearer'' \<or> parts ! 1 = ''''
            then raise (StatusError Unauthenticated)
            else andThen (map_error mapTicketVerificationError
                   (VerifyContext (rc_library ctx) (rc_verifier ctx) (rc_now ctx) (parts ! 1)
                     serviceTicketAudience)) (\<lambda>claims.
                 if length (tc_scopes claims) \<noteq> 1 then raise (StatusError PermissionDenied)
                 else return claims))"

definition serviceTicketClaims :: "'k request_context \<Rightarrow> service_ticket_claims meff" where
  "serviceTicketClaims ctx = (case rc_verified_claims ctx of
       Some claims \<Rightarrow> return claims
     | None \<Rightarrow> verifyIncomingServiceTicket ctx)"

definition authorizeTicketActionForScope ::
    "'k request_context \<Rightarrow> string \<Rightarrow> bool \<Rightarrow> bool \<Rightarrow> service_ticket_claims meff" where
  "authorizeTicketActionForScope ctx action control bindingWide =
     andThen (serviceTicketClaims ctx) (\<lambda>claims.
     andThen (fail_with (if control then requireControlTicket claims else requireDelegationTicket claims)) (\<lambda>_.
     andThen (map_error mapUsecaseError (lift_result (scopedGuard claims [action]))) (\<lambda>guard.
     case RequireBindingWide guard of
       Some e \<Rightarrow> if control \<and> bindingWide then raise (mapUsecaseError e) else return claims
     | None \<Rightarrow> return claims)))"

definition authorizeTicketAction :: "'k request_context \<Rightarrow> string \<Rightarrow> bool \<Rightarrow> service_ticket_claims meff" where
  "authorizeTicketAction ctx action control = authorizeTicketActionForScope ctx action control True"

section \<open>Middleware\<close>

text \<open>The prefixes of the two generated services, and the one method that needs no ticket.\<close>

record service_names =
  control_prefix :: string
  runtime_prefix :: string
  describe_platform :: string

definition ticketSurface :: "service_names \<Rightarrow> string \<Rightarrow> string" where
  "ticketSurface names operation =
     (if has_prefix operation (control_prefix names) then ''control''
      else if has_prefix operation (runtime_prefix names) then ''runtime''
      else ''other'')"

definition isProtectedPlatformOperation :: "service_names \<Rightarrow> string \<Rightarrow> bool" where
  "isProtectedPlatformOperation names operation \<longleftrightarrow>
     has_prefix operation (control_prefix names) \<or>
     (has_prefix operation (runtime_prefix names) \<and> operation \<noteq> describe_platform names)"

text \<open>\<open>ServiceTicketMiddleware\<close>: the handler runs with the verified claims in its context.  The
  rejection metric is not modelled.\<close>

definition ServiceTicketMiddleware ::
    "service_names \<Rightarrow> string option \<Rightarrow> 'k request_context \<Rightarrow> ('k request_context \<Rightarrow> 'a meff) \<Rightarrow> 'a meff" where
  "ServiceTicketMiddleware names operation ctx next =
     (case operation of
        None \<Rightarrow> next ctx
      | Some op \<Rightarrow>
          if \<not> isProtectedPlatformOperation names op then next ctx
          else andThen (verifyIncomingServiceTicket ctx) (\<lambda>claims.
               next (ctx\<lparr>rc_verified_claims := Some claims\<rparr>)))"

section \<open>Lemmas\<close>

lemma scope_rules [keeps_rules, simp]:
  "keeps I (verifyIncomingServiceTicket ctx)" "frames f (verifyIncomingServiceTicket ctx)"
  "keeps I (serviceTicketClaims ctx)" "frames f (serviceTicketClaims ctx)"
  "keeps I (authorizeTicketActionForScope ctx a c b)" "frames f (authorizeTicketActionForScope ctx a c b)"
  "keeps I (authorizeTicketAction ctx a c)" "frames f (authorizeTicketAction ctx a c)"
  by (auto simp: verifyIncomingServiceTicket_def serviceTicketClaims_def authorizeTicketActionForScope_def
      authorizeTicketAction_def Let_def intro!: keeps_rules split: option.splits)

text \<open>The ticket in the authorization metadata of a call.\<close>

definition presented_ticket :: "'k request_context \<Rightarrow> string option" where
  "presented_ticket ctx = (case rc_authorization ctx of
       Some [value] \<Rightarrow> (case string_fields value of [scheme, raw] \<Rightarrow> Some raw | _ \<Rightarrow> None)
     | _ \<Rightarrow> None)"

lemma presented_ticketI:
  "rc_authorization ctx = Some values \<Longrightarrow> length values = 1 \<Longrightarrow> length (string_fields (hd values)) = 2 \<Longrightarrow>
   presented_ticket ctx = Some (string_fields (hd values) ! 1)"
  by (auto simp: presented_ticket_def length_Suc_conv numeral_2_eq_2 split: list.splits)

lemma verifyIncoming_InrE:
  assumes "verifyIncomingServiceTicket ctx w = (Inr claims, w')"
  obtains raw where
    "VerifyContext (rc_library ctx) (rc_verifier ctx) (rc_now ctx) raw serviceTicketAudience w = (Inr claims, w')"
    "length (tc_scopes claims) = 1" "presented_ticket ctx = Some raw"
  using assms presented_ticketI [of ctx] unfolding verifyIncomingServiceTicket_def
  by (auto simp: Let_def elim!: andThen_InrE map_error_InrE return_InrE raise_InrE split: option.splits if_splits)

lemma scopedGuard_action:
  "scopedGuard claims [action] = Inr guard \<Longrightarrow>
   action \<in> set (tc_scopes claims) \<and> tc_platform claims = ''mihomo'' \<and>
   guard = \<lparr>sg_allowed_actions = tc_scopes claims, sg_binding_ref = tc_binding_ref claims,
      sg_account_key = tc_account_key claims, sg_profile_ref = tc_profile_ref claims\<rparr>"
  by (auto simp: scopedGuard_def toScopeGuard_def RequireAction_def split: sum.splits option.splits if_splits)

lemma authorize_InrE:
  assumes "authorizeTicketActionForScope ctx action control bindingWide w = (Inr claims, w')"
  obtains "serviceTicketClaims ctx w = (Inr claims, w')"
    "tc_ticket_type claims = (if control then TypeControl else TypeDelegation)"
    "action \<in> set (tc_scopes claims)" "tc_platform claims = ''mihomo''"
    "control \<and> bindingWide \<Longrightarrow> tc_profile_ref claims = ''''"
proof -
  from assms obtain guard where
    claims: "serviceTicketClaims ctx w = (Inr claims, w')" and
    kind: "(if control then requireControlTicket claims else requireDelegationTicket claims) = None" and
    guard: "scopedGuard claims [action] = Inr guard" and
    wide: "control \<and> bindingWide \<longrightarrow> RequireBindingWide guard = None"
    unfolding authorizeTicketActionForScope_def
    by (auto elim!: andThen_InrE fail_with_InrE map_error_InrE lift_result_InrE return_InrE raise_InrE
        split: option.splits if_splits)
  from scopedGuard_action [OF guard] kind wide claims that show thesis
    by (auto simp: requireControlTicket_def requireDelegationTicket_def RequireBindingWide_def split: if_splits)
qed


definition sample_context :: "string request_context" where
  "sample_context = \<lparr>rc_library = sample_library, rc_verifier = sample_verifier, rc_now = 0,
     rc_verified_claims = None, rc_authorization = Some [''bearer t'']\<rparr>"

lemma sample_authorized:
  "authorizeTicketActionForScope sample_context MihomoProfileRead False True (initial_world sample_db) =
   (Inr (verified_claims TypeDelegation ''platform-mihomo-service'' sample_claims), initial_world sample_db)"
proof -
  have "string_fields ''bearer t'' = [''bearer'', ''t'']" "equal_fold ''bearer'' ''Bearer''"
    by (simp_all add: string_fields_def is_space_def equal_fold_def fold_case_def less_eq_char_def
        char_of_def bit_iff_odd)
  then have "verifyIncomingServiceTicket sample_context (initial_world sample_db) =
      (Inr (verified_claims TypeDelegation ''platform-mihomo-service'' sample_claims), initial_world sample_db)"
    by (simp add: verifyIncomingServiceTicket_def sample_context_def Let_def effect_simps sample_verify
        serviceTicketAudience_def) (simp add: verified_claims_def sample_claims_def effect_simps)
  then show ?thesis
    by (simp add: authorizeTicketActionForScope_def serviceTicketClaims_def sample_context_def effect_simps)
       (simp add: requireDelegationTicket_def scopedGuard_def toScopeGuard_def RequireAction_def
         RequireBindingWide_def verified_claims_def sample_claims_def effect_simps)
qed


end
