(* ===== verification/Mihomo_Artifacts.thy ===== *)
theory Mihomo_Artifacts
  imports Mihomo_Store
begin

text \<open>
  Runtime artifacts (issued auth keys) and the intents to revoke them upstream:
  \<open>internal/data/artifact_repo.go\<close>, \<open>artifact_revocation_repo.go\<close> and
  \<open>management_repo.go\<close>.  The parameter \<open>redis\<close> is the key prefix of the Redis client when one is
  configured.  The service writes the cache and never reads it, so its contents are not state of
  the model; each cache command can fail, and is recorded when it succeeds.
\<close>

section \<open>Cache commands\<close>

definition cacheKey :: "string \<Rightarrow> string \<Rightarrow> string \<Rightarrow> string \<Rightarrow> string" where
  "cacheKey prefix accountKey artifactType scopeKey =
     prefix @ ''artifact:'' @ accountKey @ '':'' @ artifactType @ '':'' @ scopeKey"

definition cacheKeyByBinding :: "string \<Rightarrow> string \<Rightarrow> string \<Rightarrow> string \<Rightarrow> string" where
  "cacheKeyByBinding prefix bindingRef artifactType scopeKey =
     prefix @ ''artifact:binding:'' @ bindingRef @ '':'' @ artifactType @ '':'' @ scopeKey"

definition cacheKeysForRecords :: "string \<Rightarrow> runtime_artifact list \<Rightarrow> string list" where
  "cacheKeysForRecords prefix records = concat (map (\<lambda>record.
     [cacheKey prefix (art_account_key record) (art_type record) (art_scope_key record),
      cacheKeyByBinding prefix (art_binding_ref record) (art_type record) (art_scope_key record)]) records)"

definition cacheKeysForArtifacts :: "string \<Rightarrow> artifact list \<Rightarrow> string list" where
  "cacheKeysForArtifacts prefix as = concat (map (\<lambda>a.
     [cacheKey prefix (art_account_key a) (art_type a) (art_scope_key a),
      cacheKeyByBinding prefix (art_binding_ref a) (art_type a) (art_scope_key a)]) as)"

definition cache_command :: "upstream_call \<Rightarrow> unit meff" where
  "cache_command c = andThen (statement (\<lambda>_. OtherError ''redis'') (\<lambda>d. Inr ((), d)))
     (\<lambda>_. external c (Inr ()))"

definition deleteCacheKeys :: "string option \<Rightarrow> string list \<Rightarrow> unit meff" where
  "deleteCacheKeys redis keys =
     (if redis = None \<or> keys = [] then return () else cache_command (Cache_Del keys))"

section \<open>Artifacts\<close>

definition artifactFromRecord :: "runtime_artifact \<Rightarrow> artifact" where
  "artifactFromRecord record = \<lparr>
     art_binding_ref = art_binding_ref record,
     art_account_key = art_account_key record,
     art_type = art_type record,
     art_value = art_value record,
     art_scope_key = art_scope_key record,
     art_expires_at = art_expires_at record\<rparr>"

definition artifact_row :: "artifact \<Rightarrow> runtime_artifact" where
  "artifact_row artifact = \<lparr>
     art_binding_ref = art_binding_ref artifact,
     art_account_key = art_account_key artifact,
     art_type = art_type artifact,
     art_value = art_value artifact,
     art_scope_key = art_scope_key artifact,
     art_expires_at = art_expires_at artifact,
     art_revocation_pending = False\<rparr>"

text \<open>\<open>ON CONFLICT ... UpdateAll\<close>: every column takes the proposed value, the pending mark too.\<close>

definition put_artifact :: "string option \<Rightarrow> instant \<Rightarrow> artifact \<Rightarrow> unit meff" where
  "put_artifact redis now artifact =
     andThen (if redis = None then return None
              else andThen (attempt (sql_query (\<lambda>d. find (\<lambda>r. artifact_key r = artifact_key artifact) (artifacts d))))
                     (\<lambda>found. return (case found of Inl _ \<Rightarrow> None | Inr previous \<Rightarrow> previous))) (\<lambda>previous.
     andThen (sql_change (\<lambda>d. d\<lparr>artifacts :=
        upsert artifact_key (\<lambda>old new. new) (artifact_row artifact) (artifacts d)\<rparr>)) (\<lambda>_.
     andThen in_transaction (\<lambda>tx.
     case redis of
       None \<Rightarrow> return ()
     | Some prefix \<Rightarrow>
         if tx then return ()
         else andThen (case previous of
                None \<Rightarrow> return ()
              | Some p \<Rightarrow>
                  if art_account_key p \<noteq> '''' \<and> art_account_key p \<noteq> art_account_key artifact
                  then cache_command (Cache_Del
                    [cacheKey prefix (art_account_key p) (art_type artifact) (art_scope_key artifact)])
                  else return ()) (\<lambda>_.
              andThen (cache_command (Cache_Del
                [cacheKey prefix (art_account_key artifact) (art_type artifact) (art_scope_key artifact)])) (\<lambda>_.
              if art_expires_at artifact - now \<le> 0
              then cache_command (Cache_Del
                [cacheKeyByBinding prefix (art_binding_ref artifact) (art_type artifact) (art_scope_key artifact)])
              else cache_command (Cache_Set
                (cacheKeyByBinding prefix (art_binding_ref artifact) (art_type artifact) (art_scope_key artifact))))))))"

definition Put :: "string option \<Rightarrow> instant \<Rightarrow> artifact \<Rightarrow> unit meff" where
  "Put redis now artifact = put_artifact redis now artifact"

definition is_current :: "instant \<Rightarrow> artifact \<Rightarrow> u64 \<Rightarrow> credential \<Rightarrow> bool" where
  "is_current now artifact expectedGeneration c \<longleftrightarrow>
     cred_binding_ref c = art_binding_ref artifact \<and> cred_account_key c = art_account_key artifact \<and>
     cred_generation c = expectedGeneration \<and> cred_status c = ''active'' \<and>
     (case cred_expires_at c of None \<Rightarrow> True | Some t \<Rightarrow> t > now)"

definition PutIfCredentialCurrent :: "string option \<Rightarrow> instant \<Rightarrow> artifact \<Rightarrow> u64 \<Rightarrow> unit meff" where
  "PutIfCredentialCurrent redis now artifact expectedGeneration =
     andThen (sql_query (\<lambda>d. count_where (\<lambda>r. art_binding_ref r = art_binding_ref artifact
                 \<and> art_revocation_pending r) (artifacts d))) (\<lambda>pending.
     if pending > 0 then raise ErrArtifactRevocationPending
     else andThen (sql_query (\<lambda>d. find (is_current now artifact expectedGeneration) (credentials d))) (\<lambda>current.
       case current of
         None \<Rightarrow> raise ErrArtifactCredentialStale
       | Some _ \<Rightarrow> put_artifact redis now artifact))"

definition ListByBindingRef_artifact :: "string \<Rightarrow> artifact list meff" where
  "ListByBindingRef_artifact bindingRef =
     andThen (sql_query (\<lambda>d. filter (\<lambda>r. art_binding_ref r = bindingRef) (artifacts d)))
     (\<lambda>records. return (map artifactFromRecord records))"

definition HasRevocationPending :: "string \<Rightarrow> bool meff" where
  "HasRevocationPending bindingRef =
     andThen (sql_query (\<lambda>d. count_where (\<lambda>r. art_binding_ref r = bindingRef \<and> art_revocation_pending r)
                (artifacts d))) (\<lambda>count.
     if count > 0 then return True
     else andThen (on_db True (\<lambda>d. Inr (count_where (\<lambda>i. int_binding_ref i = bindingRef) (intents d), d)))
       (\<lambda>count. return (count > 0)))"

definition deleteExpiredArtifact :: "string option \<Rightarrow> instant \<Rightarrow> artifact \<Rightarrow> unit meff" where
  "deleteExpiredArtifact redis now artifact =
     andThen (sql_change (\<lambda>d. d\<lparr>artifacts := delete_where (\<lambda>r. artifact_key r = artifact_key artifact
                \<and> art_expires_at r \<le> now) (artifacts d)\<rparr>))
     (\<lambda>_. deleteCacheKeys redis (case redis of None \<Rightarrow> []
            | Some prefix \<Rightarrow> cacheKeysForArtifacts prefix [artifact]))"

definition get_artifact :: "(runtime_artifact \<Rightarrow> bool) \<Rightarrow> artifact option meff" where
  "get_artifact p =
     andThen (sql_query (\<lambda>d. find p (artifacts d))) (\<lambda>record. return (map_option artifactFromRecord record))"

text \<open>The three readings of the clock are \<open>now\<close>, \<open>now1\<close> (for the cache) and \<open>now2\<close> (for the
  deletion of an expired row).\<close>

definition GetByBindingRef_artifact ::
    "string option \<Rightarrow> instant \<Rightarrow> instant \<Rightarrow> instant \<Rightarrow> string \<Rightarrow> string \<Rightarrow> string \<Rightarrow> artifact option meff" where
  "GetByBindingRef_artifact redis now now1 now2 bindingRef artifactType scopeKey =
     andThen (get_artifact (\<lambda>r. art_binding_ref r = bindingRef \<and> art_type r = artifactType
                \<and> art_scope_key r = scopeKey \<and> \<not> art_revocation_pending r)) (\<lambda>found.
     case found of
       None \<Rightarrow> return None
     | Some artifact \<Rightarrow>
         if \<not> art_expires_at artifact > now
         then andThen (deleteExpiredArtifact redis now2 artifact) (\<lambda>_. return None)
         else (case redis of
           None \<Rightarrow> return (Some artifact)
         | Some prefix \<Rightarrow>
             if art_expires_at artifact - now1 \<le> 0
             then andThen (deleteExpiredArtifact redis now2 artifact) (\<lambda>_. return None)
             else andThen (attempt (cache_command (Cache_Set
                    (cacheKeyByBinding prefix bindingRef artifactType scopeKey))))
                  (\<lambda>_. return (Some artifact))))"

definition Get_artifact ::
    "string option \<Rightarrow> instant \<Rightarrow> instant \<Rightarrow> instant \<Rightarrow> string \<Rightarrow> string \<Rightarrow> string \<Rightarrow> artifact option meff" where
  "Get_artifact redis now now1 now2 accountKey artifactType scopeKey =
     andThen (get_artifact (\<lambda>r. art_account_key r = accountKey \<and> art_type r = artifactType
                \<and> art_scope_key r = scopeKey \<and> \<not> art_revocation_pending r)) (\<lambda>found.
     case found of
       None \<Rightarrow> return None
     | Some artifact \<Rightarrow>
         if \<not> art_expires_at artifact > now
         then andThen (deleteExpiredArtifact redis now2 artifact) (\<lambda>_. return None)
         else (case redis of
           None \<Rightarrow> return (Some artifact)
         | Some prefix \<Rightarrow>
             if art_expires_at artifact - now1 \<le> 0
             then andThen (deleteExpiredArtifact redis now2 artifact) (\<lambda>_. return None)
             else andThen (attempt (cache_command (Cache_Set
                    (cacheKey prefix accountKey artifactType scopeKey))))
                  (\<lambda>_. return (Some artifact))))"

text \<open>The deletions run on the context's connection or on their own (\<open>direct\<close>).\<close>

definition change_on :: "bool \<Rightarrow> (mihomo_db \<Rightarrow> mihomo_db) \<Rightarrow> unit meff" where
  "change_on direct f = andThen (on_db direct (checked_write (\<lambda>_. 0) f)) (\<lambda>_. return ())"

definition recordsForBindingCacheDeletion ::
    "string option \<Rightarrow> bool \<Rightarrow> string \<Rightarrow> runtime_artifact list meff" where
  "recordsForBindingCacheDeletion redis direct bindingRef =
     (if redis = None then return []
      else on_db direct (\<lambda>d. Inr (filter (\<lambda>r. art_binding_ref r = bindingRef) (artifacts d), d)))"

definition recordsForPlatformCacheDeletion ::
    "string option \<Rightarrow> bool \<Rightarrow> string \<Rightarrow> runtime_artifact list meff" where
  "recordsForPlatformCacheDeletion redis direct accountKey =
     (if redis = None then return []
      else on_db direct (\<lambda>d. Inr (filter (\<lambda>r. art_account_key r = accountKey) (artifacts d), d)))"

definition delete_artifacts :: "(runtime_artifact \<Rightarrow> bool) \<Rightarrow> mihomo_db \<Rightarrow> mihomo_db" where
  "delete_artifacts p d = d\<lparr>artifacts := delete_where p (artifacts d)\<rparr>"

definition record_keys :: "string option \<Rightarrow> runtime_artifact list \<Rightarrow> string list" where
  "record_keys redis records =
     (case redis of None \<Rightarrow> [] | Some prefix \<Rightarrow> cacheKeysForRecords prefix records)"

definition deleteByAccountKey_artifact :: "string option \<Rightarrow> bool \<Rightarrow> string \<Rightarrow> unit meff" where
  "deleteByAccountKey_artifact redis direct accountKey =
     andThen (recordsForPlatformCacheDeletion redis direct accountKey) (\<lambda>records.
     andThen (change_on direct (delete_artifacts (\<lambda>r. art_account_key r = accountKey))) (\<lambda>_.
     deleteCacheKeys redis (record_keys redis records)))"

definition deleteByBindingRef_artifact :: "string option \<Rightarrow> bool \<Rightarrow> string \<Rightarrow> unit meff" where
  "deleteByBindingRef_artifact redis direct bindingRef =
     andThen (recordsForBindingCacheDeletion redis direct bindingRef) (\<lambda>records.
     andThen (change_on direct (delete_artifacts (\<lambda>r. art_binding_ref r = bindingRef))) (\<lambda>_.
     deleteCacheKeys redis (record_keys redis records)))"

definition DeleteByBindingRef_artifact :: "string option \<Rightarrow> string \<Rightarrow> unit meff" where
  "DeleteByBindingRef_artifact redis bindingRef = deleteByBindingRef_artifact redis False bindingRef"

definition DeleteByBindingRefImmediately :: "string option \<Rightarrow> string \<Rightarrow> unit meff" where
  "DeleteByBindingRefImmediately redis bindingRef = deleteByBindingRef_artifact redis True bindingRef"

definition is_artifact :: "string \<Rightarrow> string \<Rightarrow> string \<Rightarrow> string \<Rightarrow> runtime_artifact \<Rightarrow> bool" where
  "is_artifact bindingRef artifactType scopeKey artifactValue r \<longleftrightarrow>
     art_binding_ref r = bindingRef \<and> art_type r = artifactType \<and>
     art_scope_key r = scopeKey \<and> art_value r = artifactValue"

definition DeleteArtifactImmediately ::
    "string option \<Rightarrow> string \<Rightarrow> string \<Rightarrow> string \<Rightarrow> string \<Rightarrow> unit meff" where
  "DeleteArtifactImmediately redis bindingRef artifactType scopeKey artifactValue =
     (let p = is_artifact bindingRef artifactType scopeKey artifactValue in
      andThen (on_db True (\<lambda>d. Inr (find p (artifacts d), d))) (\<lambda>record.
      andThen (change_on True (delete_artifacts p)) (\<lambda>_.
      case record of
        None \<Rightarrow> return ()
      | Some r \<Rightarrow> deleteCacheKeys redis (record_keys redis [r]))))"

definition mark_pending :: "string \<Rightarrow> mihomo_db \<Rightarrow> mihomo_db" where
  "mark_pending bindingRef d = d\<lparr>artifacts := update_where (\<lambda>r. art_binding_ref r = bindingRef)
     (\<lambda>r. r\<lparr>art_revocation_pending := True\<rparr>) (artifacts d)\<rparr>"

definition MarkRevocationPendingImmediately :: "string option \<Rightarrow> string \<Rightarrow> unit meff" where
  "MarkRevocationPendingImmediately redis bindingRef =
     andThen (recordsForBindingCacheDeletion redis True bindingRef) (\<lambda>records.
     andThen (change_on True (mark_pending bindingRef)) (\<lambda>_.
     deleteCacheKeys redis (record_keys redis records)))"

definition is_expired :: "instant \<Rightarrow> runtime_artifact \<Rightarrow> bool" where
  "is_expired expiredBefore r \<longleftrightarrow> art_expires_at r \<le> expiredBefore \<and> \<not> art_revocation_pending r"

definition DeleteExpired :: "string option \<Rightarrow> instant \<Rightarrow> nat meff" where
  "DeleteExpired redis expiredBefore =
     andThen (if redis = None then return []
              else sql_query (\<lambda>d. filter (is_expired expiredBefore) (artifacts d))) (\<lambda>records.
     andThen (sql_write (\<lambda>d. count_where (is_expired expiredBefore) (artifacts d))
                (delete_artifacts (is_expired expiredBefore))) (\<lambda>deleted.
     andThen (deleteCacheKeys redis (record_keys redis records)) (\<lambda>_. return deleted)))"

section \<open>Revocation intents\<close>

definition optionalString :: "string \<Rightarrow> string option" where
  "optionalString value = (if value = '''' then None else Some value)"

definition stringValue :: "string option \<Rightarrow> string" where
  "stringValue value = (case value of None \<Rightarrow> '''' | Some s \<Rightarrow> s)"

definition revocationIntentRecord :: "artifact_revocation_intent \<Rightarrow> revocation_intent" where
  "revocationIntentRecord intent = \<lparr>
     int_intent_id = bi_intent_id intent, int_binding_ref = bi_binding_ref intent,
     int_account_key = bi_account_key intent, int_type = bi_type intent,
     int_value = bi_value intent, int_scope_key = bi_scope_key intent,
     int_expires_at = bi_expires_at intent, int_state = bi_state intent,
     int_ready_after = bi_ready_after intent,
     int_lease_token = optionalString (bi_lease_token intent),
     int_lease_expires_at = bi_lease_expires_at intent\<rparr>"

definition revocationIntentFromRecord :: "revocation_intent \<Rightarrow> artifact_revocation_intent" where
  "revocationIntentFromRecord record = \<lparr>
     bi_intent_id = int_intent_id record, bi_binding_ref = int_binding_ref record,
     bi_account_key = int_account_key record, bi_type = int_type record,
     bi_value = int_value record, bi_scope_key = int_scope_key record,
     bi_expires_at = int_expires_at record, bi_state = int_state record,
     bi_ready_after = int_ready_after record,
     bi_lease_token = stringValue (int_lease_token record),
     bi_lease_expires_at = int_lease_expires_at record\<rparr>"

text \<open>On a payload that is there already, a ready intent promotes the row and clears its lease; a
  provisional one leaves it as it is.\<close>

definition merge_intent :: "revocation_intent \<Rightarrow> revocation_intent \<Rightarrow> revocation_intent" where
  "merge_intent old new =
     (if int_state new = ''ready''
      then old\<lparr>int_state := ''ready'', int_ready_after := int_ready_after new,
               int_lease_token := None, int_lease_expires_at := None\<rparr>
      else old)"

text \<open>\<open>RETURNING *\<close> yields the row as stored.\<close>

definition PutRevocationIntentImmediately ::
    "artifact_revocation_intent \<Rightarrow> artifact_revocation_intent option meff" where
  "PutRevocationIntentImmediately intent =
     (let record = revocationIntentRecord intent;
          put = (\<lambda>d. d\<lparr>intents := upsert intent_payload merge_intent record (intents d)\<rparr>)
      in andThen (on_db True (\<lambda>d. case store_violation (put d) of
             Some e \<Rightarrow> Inl e
           | None \<Rightarrow> Inr (find (\<lambda>i. intent_payload i = intent_payload record) (intents (put d)), put d)))
         (\<lambda>stored. return (map_option revocationIntentFromRecord stored)))"

definition update_intents :: "(revocation_intent \<Rightarrow> bool) \<Rightarrow> (revocation_intent \<Rightarrow> revocation_intent)
    \<Rightarrow> mihomo_db \<Rightarrow> mihomo_db" where
  "update_intents p f d = d\<lparr>intents := update_where p f (intents d)\<rparr>"

definition delete_intents :: "(revocation_intent \<Rightarrow> bool) \<Rightarrow> mihomo_db \<Rightarrow> mihomo_db" where
  "delete_intents p d = d\<lparr>intents := delete_where p (intents d)\<rparr>"

definition MarkRevocationIntentReadyImmediately :: "instant \<Rightarrow> string \<Rightarrow> unit meff" where
  "MarkRevocationIntentReadyImmediately now intentID =
     change_on True (update_intents (\<lambda>i. int_intent_id i = intentID)
       (\<lambda>i. i\<lparr>int_state := ''ready'', int_ready_after := now,
               int_lease_token := None, int_lease_expires_at := None\<rparr>))"

text \<open>An intent a worker may take up at \<open>now\<close>.\<close>

definition is_claimable :: "instant \<Rightarrow> revocation_intent \<Rightarrow> bool" where
  "is_claimable now i \<longleftrightarrow>
     (int_state i = ''ready'' \<or> (int_state i = ''provisional'' \<and> int_ready_after i \<le> now)) \<and>
     (case int_lease_expires_at i of None \<Rightarrow> True | Some t \<Rightarrow> t \<le> now)"

text \<open>\<open>FOR UPDATE SKIP LOCKED\<close> passes over the rows \<open>locked\<close> that concurrent transactions hold.\<close>

definition claimable_batch :: "string list \<Rightarrow> instant \<Rightarrow> revocation_intent list \<Rightarrow> revocation_intent list" where
  "claimable_batch locked now rows = take 100
     (filter (\<lambda>i. is_claimable now i \<and> int_intent_id i \<notin> set locked)
       (sort_key int_ready_after (sort_key int_intent_id rows)))"

definition ClaimRevocationIntents ::
    "string list \<Rightarrow> instant \<Rightarrow> instant \<Rightarrow> string \<Rightarrow> artifact_revocation_intent list meff" where
  "ClaimRevocationIntents locked now leaseExpiresAt leaseToken =
     andThen (within_transaction
       (andThen (sql_query (\<lambda>d. claimable_batch locked now (intents d))) (\<lambda>records.
        if records = [] then return []
        else let ids = map int_intent_id records in
          andThen (sql_change (update_intents (\<lambda>i. int_intent_id i \<in> set ids)
              (\<lambda>i. i\<lparr>int_lease_token := Some leaseToken, int_lease_expires_at := Some leaseExpiresAt\<rparr>)))
            (\<lambda>_. return records))))
     (\<lambda>records. return (map (\<lambda>record. revocationIntentFromRecord
        (record\<lparr>int_lease_token := Some leaseToken, int_lease_expires_at := Some leaseExpiresAt\<rparr>)) records))"

definition holds_claim :: "string \<Rightarrow> string \<Rightarrow> revocation_intent \<Rightarrow> bool" where
  "holds_claim intentID leaseToken i \<longleftrightarrow> int_intent_id i = intentID \<and> int_lease_token i = Some leaseToken"

text \<open>The transaction's result is \<open>shouldRevoke\<close>; on an error the code still returns the flag it
  had set, which its caller ignores.\<close>

definition resolve_claimed :: "string \<Rightarrow> string \<Rightarrow> revocation_intent \<Rightarrow> bool meff" where
  "resolve_claimed intentID leaseToken intent =
     andThen (sql_query (\<lambda>d. find (is_artifact (int_binding_ref intent) (int_type intent)
                 (int_scope_key intent) (int_value intent)) (artifacts d))) (\<lambda>artifact.
     if (case artifact of None \<Rightarrow> False | Some a \<Rightarrow> \<not> art_revocation_pending a)
     then andThen (sql_change (delete_intents (holds_claim intentID leaseToken))) (\<lambda>_. return False)
     else andThen (sql_change (update_intents (holds_claim intentID leaseToken)
              (\<lambda>i. i\<lparr>int_state := ''ready''\<rparr>))) (\<lambda>_. return True))"

definition ResolveProvisionalRevocationIntent :: "string \<Rightarrow> string \<Rightarrow> bool meff" where
  "ResolveProvisionalRevocationIntent intentID leaseToken = within_transaction
     (andThen (sql_query (\<lambda>d. find (holds_claim intentID leaseToken) (intents d))) (\<lambda>found.
      case found of
        None \<Rightarrow> return False
      | Some intent0 \<Rightarrow>
        andThen (sql_query (\<lambda>d. find (\<lambda>c. cred_binding_ref c = int_binding_ref intent0) (credentials d))) (\<lambda>_.
        andThen (sql_query (\<lambda>d. find (holds_claim intentID leaseToken) (intents d))) (\<lambda>again.
        case again of
          None \<Rightarrow> return False
        | Some intent \<Rightarrow> resolve_claimed intentID leaseToken intent))))"

definition ReleaseRevocationIntentClaim :: "string \<Rightarrow> string \<Rightarrow> unit meff" where
  "ReleaseRevocationIntentClaim intentID leaseToken =
     change_on True (update_intents (holds_claim intentID leaseToken)
       (\<lambda>i. i\<lparr>int_lease_token := None, int_lease_expires_at := None\<rparr>))"

definition FinalizeRevocationIntentImmediately :: "string \<Rightarrow> unit meff" where
  "FinalizeRevocationIntentImmediately intentID = within_transaction
     (andThen (sql_query (\<lambda>d. find (\<lambda>i. int_intent_id i = intentID) (intents d))) (\<lambda>found.
      case found of
        None \<Rightarrow> return ()
      | Some intent \<Rightarrow>
          if int_state intent \<noteq> ''provisional'' then raise ErrArtifactRevocationPending
          else sql_change (delete_intents (\<lambda>i. int_intent_id i = intentID \<and> int_state i = ''provisional''))))"

definition DeleteRevocationIntentImmediately :: "string \<Rightarrow> unit meff" where
  "DeleteRevocationIntentImmediately intentID =
     change_on True (delete_intents (\<lambda>i. int_intent_id i = intentID))"

section \<open>Deleting the rows of an account\<close>

definition bindingRefsForAccountKey :: "string \<Rightarrow> string list meff" where
  "bindingRefsForAccountKey accountKey =
     andThen (sql_query (\<lambda>d. remdups
       (map cred_binding_ref (filter (\<lambda>c. cred_account_key c = accountKey) (credentials d)) @
        map art_binding_ref (filter (\<lambda>r. art_account_key r = accountKey) (artifacts d)) @
        map prof_binding_ref (filter (\<lambda>p. prof_account_key p = accountKey) (profiles d)) @
        map dev_binding_ref (filter (\<lambda>x. dev_account_key x = accountKey) (devices d)))))
     (\<lambda>rows. return (filter (\<lambda>b. b \<noteq> '''') rows))"

definition DeleteCredentialGraph :: "string option \<Rightarrow> string \<Rightarrow> unit meff" where
  "DeleteCredentialGraph redis accountKey = within_transaction
     (andThen (bindingRefsForAccountKey accountKey) (\<lambda>bindingRefs.
      andThen (if bindingRefs = [] then deleteByAccountKey_artifact redis False accountKey
               else andThen (for_each bindingRefs (deleteByBindingRef_artifact redis False)) (\<lambda>_. return ())) (\<lambda>_.
      andThen (sql_change (\<lambda>d. d\<lparr>profiles := delete_where (\<lambda>p. prof_account_key p = accountKey) (profiles d)\<rparr>)) (\<lambda>_.
      andThen (sql_change (\<lambda>d. d\<lparr>devices := delete_where (\<lambda>x. dev_account_key x = accountKey) (devices d)\<rparr>)) (\<lambda>_.
      sql_change (delete_credentials (\<lambda>c. cred_account_key c = accountKey)))))))"

definition DeleteCredentialGraphByBindingRef :: "string option \<Rightarrow> string \<Rightarrow> unit meff" where
  "DeleteCredentialGraphByBindingRef redis bindingRef = within_transaction
     (andThen (deleteByBindingRef_artifact redis False bindingRef) (\<lambda>_.
      andThen (sql_change (\<lambda>d. d\<lparr>profiles := delete_where (\<lambda>p. prof_binding_ref p = bindingRef) (profiles d)\<rparr>)) (\<lambda>_.
      andThen (sql_change (\<lambda>d. d\<lparr>devices := delete_where (\<lambda>x. dev_binding_ref x = bindingRef) (devices d)\<rparr>)) (\<lambda>_.
      sql_change (delete_credentials (\<lambda>c. cred_binding_ref c = bindingRef))))))"

section \<open>Invariants\<close>

interpretation artifact_table: upsert_table artifact_key "\<lambda>old new. new"
  by unfold_locales simp

interpretation intent_table: upsert_table intent_payload merge_intent
  by unfold_locales (simp add: merge_intent_def intent_payload_def)

lemma cache_command_rules [keeps_rules, simp]:
  "keeps I (cache_command c)" "frames f (cache_command c)" "pins_committed (cache_command c)"
proof -
  show "keeps I (cache_command c)"
    unfolding cache_command_def by (intro keeps_rules keeps_statement) auto
  show "frames f (cache_command c)"
    unfolding cache_command_def by (intro keeps_rules frames_statement) auto
  show "pins_committed (cache_command c)"
    unfolding cache_command_def by (intro keeps_rules)
qed

lemma deleteCacheKeys_rules [keeps_rules, simp]:
  "keeps I (deleteCacheKeys redis ks)" "frames f (deleteCacheKeys redis ks)"
  "pins_committed (deleteCacheKeys redis ks)"
  by (simp_all add: deleteCacheKeys_def)

lemma keeps_on_db:
  assumes "\<And>d x d'. I d \<Longrightarrow> q d = Inr (x, d') \<Longrightarrow> I d'"
  shows "keeps I (on_db direct q)"
  unfolding on_db_def using assms by (auto intro: keeps_statement keeps_immediately)

lemma frames_on_db:
  assumes "\<And>d x d'. q d = Inr (x, d') \<Longrightarrow> f d' = f d"
  shows "frames f (on_db direct q)"
  unfolding on_db_def using assms by (auto intro: frames_statement frames_immediately)

lemma keeps_on_db_read [keeps_rules, simp]: "keeps I (on_db direct (\<lambda>d. Inr (g d, d)))"
  by (rule keeps_on_db) simp

lemma frames_on_db_read [keeps_rules, simp]: "frames f (on_db direct (\<lambda>d. Inr (g d, d)))"
  by (rule frames_on_db) simp

lemma change_on_keeps [keeps_rules, simp]: "keeps store_ok (change_on direct f)"
  unfolding change_on_def by (intro keeps_rules keeps_on_db) (auto dest: checked_write_InrD)

lemma change_on_frames: "(\<And>d. g (f d) = g d) \<Longrightarrow> frames g (change_on direct f)"
  unfolding change_on_def by (intro keeps_rules frames_on_db) (auto dest: checked_write_InrD)

lemma PutRevocationIntentImmediately_keeps [keeps_rules, simp]:
  "keeps store_ok (PutRevocationIntentImmediately i)"
  unfolding PutRevocationIntentImmediately_def Let_def
  by (intro keeps_rules keeps_on_db) (auto simp: store_ok_def split: option.splits)

lemma PutRevocationIntentImmediately_frames:
  "(\<And>d is. f (d\<lparr>intents := is\<rparr>) = f d) \<Longrightarrow> frames f (PutRevocationIntentImmediately i)"
  unfolding PutRevocationIntentImmediately_def Let_def
  by (intro keeps_rules frames_on_db) (auto split: option.splits)

lemmas artifact_repo_defs =
  put_artifact_def Put_def PutIfCredentialCurrent_def ListByBindingRef_artifact_def
  HasRevocationPending_def deleteExpiredArtifact_def get_artifact_def GetByBindingRef_artifact_def
  Get_artifact_def recordsForBindingCacheDeletion_def recordsForPlatformCacheDeletion_def
  deleteByAccountKey_artifact_def deleteByBindingRef_artifact_def DeleteByBindingRef_artifact_def
  DeleteByBindingRefImmediately_def DeleteArtifactImmediately_def MarkRevocationPendingImmediately_def
  DeleteExpired_def MarkRevocationIntentReadyImmediately_def ClaimRevocationIntents_def
  resolve_claimed_def ResolveProvisionalRevocationIntent_def ReleaseRevocationIntentClaim_def
  FinalizeRevocationIntentImmediately_def DeleteRevocationIntentImmediately_def
  bindingRefsForAccountKey_def DeleteCredentialGraph_def DeleteCredentialGraphByBindingRef_def

lemmas artifact_writes = delete_artifacts_def mark_pending_def update_intents_def delete_intents_def
  delete_credentials_def

lemma artifact_repo_keeps [keeps_rules, simp]:
  "keeps store_ok (put_artifact redis now a)" "keeps store_ok (Put redis now a)"
  "keeps store_ok (PutIfCredentialCurrent redis now a g)" "keeps store_ok (ListByBindingRef_artifact b)"
  "keeps store_ok (HasRevocationPending b)" "keeps store_ok (deleteExpiredArtifact redis now a)"
  "keeps store_ok (GetByBindingRef_artifact redis now now1 now2 b t s)"
  "keeps store_ok (Get_artifact redis now now1 now2 b t s)"
  "keeps store_ok (deleteByAccountKey_artifact redis direct k)"
  "keeps store_ok (deleteByBindingRef_artifact redis direct b)"
  "keeps store_ok (DeleteByBindingRef_artifact redis b)"
  "keeps store_ok (DeleteByBindingRefImmediately redis b)"
  "keeps store_ok (DeleteArtifactImmediately redis b t s v)"
  "keeps store_ok (MarkRevocationPendingImmediately redis b)"
  "keeps store_ok (DeleteExpired redis now)"
  by (auto simp: artifact_repo_defs Let_def intro!: keeps_rules)

lemma intent_repo_keeps [keeps_rules, simp]:
  "keeps store_ok (MarkRevocationIntentReadyImmediately now i)"
  "keeps store_ok (ClaimRevocationIntents locked now e t)"
  "keeps store_ok (ResolveProvisionalRevocationIntent i t)"
  "keeps store_ok (ReleaseRevocationIntentClaim i t)"
  "keeps store_ok (FinalizeRevocationIntentImmediately i)"
  "keeps store_ok (DeleteRevocationIntentImmediately i)"
  "keeps store_ok (bindingRefsForAccountKey k)"
  "keeps store_ok (DeleteCredentialGraph redis k)"
  "keeps store_ok (DeleteCredentialGraphByBindingRef redis b)"
  by (auto simp: artifact_repo_defs Let_def intro!: keeps_rules)

lemma artifact_repo_frames [keeps_rules, simp]:
  "frames safeguards (put_artifact redis now a)" "frames safeguards (Put redis now a)"
  "frames safeguards (PutIfCredentialCurrent redis now a g)" "frames safeguards (ListByBindingRef_artifact b)"
  "frames safeguards (HasRevocationPending b)" "frames safeguards (deleteExpiredArtifact redis now a)"
  "frames safeguards (GetByBindingRef_artifact redis now now1 now2 b t s)"
  "frames safeguards (Get_artifact redis now now1 now2 b t s)"
  "frames safeguards (deleteByAccountKey_artifact redis direct k)"
  "frames safeguards (deleteByBindingRef_artifact redis direct b)"
  "frames safeguards (DeleteByBindingRef_artifact redis b)"
  "frames safeguards (DeleteByBindingRefImmediately redis b)"
  "frames safeguards (DeleteArtifactImmediately redis b t s v)"
  "frames safeguards (MarkRevocationPendingImmediately redis b)"
  "frames safeguards (DeleteExpired redis now)"
  by (auto simp: artifact_repo_defs Let_def artifact_writes
      intro!: keeps_rules sql_change_frames sql_write_frames change_on_frames)

lemma intent_repo_frames [keeps_rules, simp]:
  "frames safeguards (PutRevocationIntentImmediately ri)"
  "frames safeguards (MarkRevocationIntentReadyImmediately now i)"
  "frames safeguards (ClaimRevocationIntents locked now e t)"
  "frames safeguards (ResolveProvisionalRevocationIntent i t)"
  "frames safeguards (ReleaseRevocationIntentClaim i t)"
  "frames safeguards (FinalizeRevocationIntentImmediately i)"
  "frames safeguards (DeleteRevocationIntentImmediately i)"
  "frames safeguards (bindingRefsForAccountKey k)"
  "frames safeguards (DeleteCredentialGraph redis k)"
  "frames safeguards (DeleteCredentialGraphByBindingRef redis b)"
  by (auto simp: artifact_repo_defs Let_def artifact_writes
      intro!: keeps_rules sql_change_frames sql_write_frames change_on_frames
        PutRevocationIntentImmediately_frames)

section \<open>Claims\<close>

lemma Claim_InrE:
  assumes run: "ClaimRevocationIntents locked now e t w = (Inr xs, w')" and "base w = None"
  obtains records where "records = claimable_batch locked now (intents (db w))"
    "intents (db w') = update_where (\<lambda>i. int_intent_id i \<in> set (map int_intent_id records))
       (\<lambda>i. i\<lparr>int_lease_token := Some t, int_lease_expires_at := Some e\<rparr>) (intents (db w))"
    "xs = map (\<lambda>r. revocationIntentFromRecord (r\<lparr>int_lease_token := Some t, int_lease_expires_at := Some e\<rparr>)) records"
    "base w' = None"
  using assms unfolding ClaimRevocationIntents_def Let_def
  by (auto elim!: success_elims transaction_InrE sql_change_InrE split: if_splits simp: update_intents_def)

lemma claimable_batch_members:
  "i \<in> set (claimable_batch locked now rows) \<Longrightarrow> i \<in> set rows \<and> is_claimable now i"
  unfolding claimable_batch_def by (auto dest!: in_set_takeD)

text \<open>The row a claim leaves cannot be claimed before the lease runs out.\<close>

lemma claimed_not_claimable:
  assumes "j \<in> set (update_where (\<lambda>i. int_intent_id i \<in> ids)
      (\<lambda>i. i\<lparr>int_lease_token := Some t, int_lease_expires_at := Some e\<rparr>) rows)"
    and "int_intent_id j \<in> ids" and "now < e"
  shows "\<not> is_claimable now j"
  using assms by (auto simp: is_claimable_def elim!: in_update_whereE split: if_splits)

section \<open>Properties of the artifact store\<close>


definition sample_intent :: revocation_intent where
  "sample_intent = \<lparr>int_intent_id = ''i1'', int_binding_ref = ''bind_1'', int_account_key = ''acct_1'',
     int_type = ''authkey'', int_value = ''sealed'', int_scope_key = ''100'', int_expires_at = 300,
     int_state = ''ready'', int_ready_after = 0, int_lease_token = None, int_lease_expires_at = None\<rparr>"

definition leased :: "string \<Rightarrow> instant \<Rightarrow> revocation_intent \<Rightarrow> revocation_intent" where
  "leased t e i = i\<lparr>int_lease_token := Some t, int_lease_expires_at := Some e\<rparr>"

lemma intents_ok:
  "store_ok (empty_mihomo_db\<lparr>intents := [leased t e sample_intent]\<rparr>)"
  "store_ok (empty_mihomo_db\<lparr>intents := [sample_intent]\<rparr>)"
  by (simp_all add: store_ok_iff empty_mihomo_db_def unique_on_def unique_where_def intent_row_ok_def
      sample_intent_def leased_def)

lemma sample_claim:
  "ClaimRevocationIntents [] 0 30 ''w1'' (initial_world (empty_mihomo_db\<lparr>intents := [sample_intent]\<rparr>)) =
   (Inr [revocationIntentFromRecord (leased ''w1'' 30 sample_intent)],
    initial_world (empty_mihomo_db\<lparr>intents := [leased ''w1'' 30 sample_intent]\<rparr>))"
  using intents_ok(1) [of "''w1''" 30]
  by (simp add: ClaimRevocationIntents_def transaction_def effect_simps Let_def store_ok_def update_intents_def
      claimable_batch_def is_claimable_def initial_world_def leased_def)
     (simp add: sample_intent_def)

lemma sample_claim_again:
  "ClaimRevocationIntents [] 10 40 ''w2'' (initial_world (empty_mihomo_db\<lparr>intents := [leased ''w1'' 30 sample_intent]\<rparr>)) =
   (Inr [], initial_world (empty_mihomo_db\<lparr>intents := [leased ''w1'' 30 sample_intent]\<rparr>))"
  by (simp add: ClaimRevocationIntents_def transaction_def effect_simps claimable_batch_def
      is_claimable_def initial_world_def leased_def)


lemma pins_on_db [keeps_rules, simp]: "pins_committed (on_db False q)"
  by (simp add: on_db_def)

lemma pins_change_on [keeps_rules, simp]: "pins_committed (change_on False f)"
  unfolding change_on_def by (intro keeps_rules)

lemma graph_pins [keeps_rules, simp]:
  "pins_committed (deleteByBindingRef_artifact redis False b)"
  "pins_committed (deleteByAccountKey_artifact redis False k)"
  by (auto simp: artifact_repo_defs intro!: keeps_rules)

lemma cache_command_InrE:
  assumes "cache_command c w = (Inr u, w')"
  obtains "db w' = db w" "base w' = base w"
  using assms unfolding cache_command_def
  by (auto elim!: success_elims)

lemma deleteCacheKeys_InrE:
  assumes "deleteCacheKeys redis ks w = (Inr u, w')"
  obtains "db w' = db w" "base w' = base w"
  using assms unfolding deleteCacheKeys_def
  by (auto elim!: return_InrE cache_command_InrE split: if_splits)

lemma change_on_False_InrE:
  assumes "change_on False f w = (Inr u, w')"
  obtains "db w' = f (db w)" "base w' = base w" "store_ok (db w')"
  using assms unfolding change_on_def on_db_def
  by (auto elim!: success_elims dest!: checked_write_InrD)

lemma deleteByBindingRef_artifact_InrE:
  assumes "deleteByBindingRef_artifact redis False b w = (Inr u, w')"
  obtains "db w' = delete_artifacts (\<lambda>r. art_binding_ref r = b) (db w)" "base w' = base w"
  using assms
  unfolding deleteByBindingRef_artifact_def recordsForBindingCacheDeletion_def on_db_def
  by (auto elim!: success_elims deleteCacheKeys_InrE change_on_False_InrE split: if_splits)

lemma put_artifact_InrE:
  assumes "put_artifact redis now a w = (Inr u, w')"
  obtains "db w' = (db w)\<lparr>artifacts := upsert artifact_key (\<lambda>old new. new) (artifact_row a) (artifacts (db w))\<rparr>"
    "base w' = base w" "store_ok (db w')"
  using assms unfolding put_artifact_def
  by (auto elim!: success_elims query_world in_transaction_InrE sql_change_InrE cache_command_InrE
      split: if_splits option.splits)

lemma delete_where_twice [simp]: "delete_where p (delete_where p rows) = delete_where p rows"
  by (simp add: delete_where_def)

lemma delete_where_subsumed:
  "(\<And>r. r \<in> set rows \<Longrightarrow> q r \<Longrightarrow> p r) \<Longrightarrow> delete_where q (delete_where p rows) = delete_where p rows"
  by (induction rows) auto

text \<open>The tables without the rows of a binding.\<close>

definition without_binding :: "string \<Rightarrow> mihomo_db \<Rightarrow> mihomo_db" where
  "without_binding b d = d\<lparr>
     credentials := delete_where (\<lambda>c. cred_binding_ref c = b) (credentials d),
     devices := delete_where (\<lambda>x. dev_binding_ref x = b) (devices d),
     profiles := delete_where (\<lambda>p. prof_binding_ref p = b) (profiles d),
     artifacts := delete_where (\<lambda>r. art_binding_ref r = b) (artifacts d)\<rparr>"

lemma graph_steps:
  "delete_credentials (\<lambda>c. cred_binding_ref c = b)
     (d\<lparr>artifacts := delete_where (\<lambda>r. art_binding_ref r = b) (artifacts d),
        profiles := delete_where (\<lambda>p. prof_binding_ref p = b) (profiles d),
        devices := delete_where (\<lambda>x. dev_binding_ref x = b) (devices d)\<rparr>) = without_binding b d"
  by (auto simp: delete_credentials_def without_binding_def list_ex_iff Let_def
      intro!: mihomo_db.equality delete_where_subsumed)

lemma DeleteCredentialGraphByBindingRef_InrE:
  assumes "DeleteCredentialGraphByBindingRef redis b w = (Inr u, w')"
  obtains "db w' = without_binding b (db w)" "base w' = base w"
proof -
  let ?body = "andThen (deleteByBindingRef_artifact redis False b) (\<lambda>_.
      andThen (sql_change (\<lambda>d. d\<lparr>profiles := delete_where (\<lambda>p. prof_binding_ref p = b) (profiles d)\<rparr>)) (\<lambda>_.
      andThen (sql_change (\<lambda>d. d\<lparr>devices := delete_where (\<lambda>x. dev_binding_ref x = b) (devices d)\<rparr>)) (\<lambda>_.
      sql_change (delete_credentials (\<lambda>c. cred_binding_ref c = b)))))"
  have body: "db v' = without_binding b (db v)" "base v' = base v"
    if "?body v = (Inr u, v')" for v v'
    using that
    by (auto elim!: andThen_InrE deleteByBindingRef_artifact_InrE sql_change_InrE
        simp: delete_artifacts_def graph_steps)
  show thesis
  proof (cases "base w")
    case None
    with assms obtain w1 fs where "?body (w\<lparr>base := Some (db w)\<rparr>) = (Inr u, w1)" "w' = w1\<lparr>base := None, faults := fs\<rparr>"
      unfolding DeleteCredentialGraphByBindingRef_def by (auto elim!: transaction_InrE)
    with body [of "w\<lparr>base := Some (db w)\<rparr>" w1] None show thesis
      by (auto intro!: that)
  next
    case (Some d)
    with assms body [of w w'] show thesis
      unfolding DeleteCredentialGraphByBindingRef_def by (auto simp: transaction_joined intro!: that)
  qed
qed

text \<open>\<open>DeleteCredentialGraphByBindingRef\<close> is all or nothing: when it succeeds, exactly the rows of
  the binding are gone from credentials, devices, profiles and artifacts and nothing else changed;
  when it fails, nothing changed.\<close>

theorem DeleteCredentialGraph_all_or_nothing:
  assumes "DeleteCredentialGraphByBindingRef redis b w = (res, w')" and "base w = None"
  shows "db w' = (case res of Inr _ \<Rightarrow> without_binding b (db w) | Inl _ \<Rightarrow> db w)"
proof (cases res)
  case (Inr u)
  with assms(1) have "DeleteCredentialGraphByBindingRef redis b w = (Inr u, w')" by simp
  then show ?thesis
    by (rule DeleteCredentialGraphByBindingRef_InrE) (simp add: Inr)
next
  case (Inl e)
  have "pins_committed (andThen (deleteByBindingRef_artifact redis False b) (\<lambda>_.
      andThen (sql_change (\<lambda>d. d\<lparr>profiles := delete_where (\<lambda>p. prof_binding_ref p = b) (profiles d)\<rparr>)) (\<lambda>_.
      andThen (sql_change (\<lambda>d. d\<lparr>devices := delete_where (\<lambda>x. dev_binding_ref x = b) (devices d)\<rparr>)) (\<lambda>_.
      sql_change (delete_credentials (\<lambda>c. cred_binding_ref c = b))))))"
    by (intro keeps_rules)
  from transaction_atomic [OF this assms(2), of Db e] assms(1) Inl show ?thesis
    by (simp add: DeleteCredentialGraphByBindingRef_def)
qed

lemma DeleteCredentialGraph_all_or_nothing_witness:
  "db (snd (DeleteCredentialGraphByBindingRef None ''bind_1'' (initial_world two_regions))) = empty_mihomo_db \<or>
   db (snd (DeleteCredentialGraphByBindingRef None ''bind_1'' (initial_world two_regions))) = two_regions"
proof -
  have "without_binding ''bind_1'' two_regions = empty_mihomo_db"
    by (simp add: without_binding_def two_regions_def sample_db_def empty_mihomo_db_def sample_profile_def)
  with DeleteCredentialGraph_all_or_nothing [of None "''bind_1''" "initial_world two_regions"
      "fst (DeleteCredentialGraphByBindingRef None ''bind_1'' (initial_world two_regions))"
      "snd (DeleteCredentialGraphByBindingRef None ''bind_1'' (initial_world two_regions))"]
  show ?thesis by (auto split: sum.splits)
qed

text \<open>\<open>PutIfCredentialCurrent\<close> stores an artifact only while no artifact of the binding waits for
  revocation and the credential is active, unexpired and of the expected generation; the artifact
  is then the one row of its key, not pending, and the rows of other keys are as before.\<close>

theorem PutIfCredentialCurrent_guard:
  assumes run: "PutIfCredentialCurrent redis now a g w = (Inr u, w')"
  shows "(\<forall>r\<in>set (artifacts (db w)). art_binding_ref r = art_binding_ref a \<longrightarrow> \<not> art_revocation_pending r) \<and>
    (\<exists>c\<in>set (credentials (db w)). is_current now a g c) \<and>
    find (\<lambda>r. artifact_key r = k) (artifacts (db w')) =
      (if k = artifact_key a then Some (artifact_row a)
       else find (\<lambda>r. artifact_key r = k) (artifacts (db w)))"
proof -
  from run obtain fs0 c fs1 where
    pend: "count_where (\<lambda>r. art_binding_ref r = art_binding_ref a \<and> art_revocation_pending r) (artifacts (db w)) = 0" and
    cur: "find (is_current now a g) (credentials (db w)) = Some c" and
    put: "put_artifact redis now a (w\<lparr>faults := fs1\<rparr>) = (Inr u, w')"
    unfolding PutIfCredentialCurrent_def
    by (auto elim!: success_elims split: if_splits option.splits)
  have "artifact_key (artifact_row a) = artifact_key a"
    by (simp add: artifact_row_def artifact_key_def)
  moreover from put have "artifacts (db w') =
      upsert artifact_key (\<lambda>old new. new) (artifact_row a) (artifacts (db w))"
    by (auto elim!: put_artifact_InrE)
  ultimately show ?thesis
    using pend find_SomeD [OF cur]
    by (auto simp: artifact_table.upsert_lookup count_where_0 list_ex_iff split: option.splits)
qed

definition sample_artifact :: artifact where
  "sample_artifact = \<lparr>art_binding_ref = ''bind_1'', art_account_key = ''acct_1'', art_type = ''authkey'',
     art_value = ''sealed'', art_scope_key = ''100'', art_expires_at = 300\<rparr>"

lemma sample_artifact_ok: "store_ok (sample_db\<lparr>artifacts := [artifact_row sample_artifact]\<rparr>)"
  by (simp add: store_ok_iff sample_db_def empty_mihomo_db_def unique_on_def unique_where_def
      credential_row_ok_def bigint_ok_def credential_exists_def artifact_row_def sample_artifact_def)

lemma sample_put:
  "PutIfCredentialCurrent None 0 sample_artifact 1 (initial_world sample_db) =
   (Inr (), initial_world (sample_db\<lparr>artifacts := [artifact_row sample_artifact]\<rparr>))"
proof -
  have "upsert artifact_key (\<lambda>old new. new) (artifact_row sample_artifact) (artifacts sample_db)
      = [artifact_row sample_artifact]" "artifacts sample_db = []" "credentials sample_db = [sample_credential]"
    by (simp_all add: upsert_def sample_db_def empty_mihomo_db_def)
  moreover have "is_current 0 sample_artifact 1 sample_credential"
    by (simp add: is_current_def sample_artifact_def)
  ultimately show ?thesis
    using sample_artifact_ok
    by (simp add: PutIfCredentialCurrent_def put_artifact_def effect_simps count_where_def store_ok_def
        initial_world_def)
qed

lemma PutIfCredentialCurrent_guard_witness:
  "find (\<lambda>r. artifact_key r = (''bind_1'', ''authkey'', ''100''))
     (artifacts (sample_db\<lparr>artifacts := [artifact_row sample_artifact]\<rparr>)) = Some (artifact_row sample_artifact)"
  using PutIfCredentialCurrent_guard [OF sample_put, of "(''bind_1'', ''authkey'', ''100'')"]
  by (simp add: artifact_key_def sample_artifact_def)

text \<open>Resolution of a provisional intent by a recovery worker.\<close>

lemma intent_unique:
  assumes "store_ok d" "i \<in> set (intents d)" "j \<in> set (intents d)" "int_intent_id i = int_intent_id j"
  shows "i = j"
  using assms unique_onD [of int_intent_id "intents d" i j] by (simp add: store_ok_iff)

definition intent_of :: "string \<Rightarrow> mihomo_db \<Rightarrow> revocation_intent option" where
  "intent_of i d = find (\<lambda>x. int_intent_id x = i) (intents d)"

lemma intent_of_eq:
  "store_ok d \<Longrightarrow> intent_of i d = Some x \<longleftrightarrow> x \<in> set (intents d) \<and> int_intent_id x = i"
  using find_unique [of int_intent_id "intents d" x "\<lambda>y. int_intent_id y = i"]
  by (auto simp: intent_of_def store_ok_iff dest: find_SomeD)

lemma resolve_claimed_InrE:
  assumes "resolve_claimed i t x w = (Inr b, w')"
  shows "store_ok (db w') \<and>
    db w' = (if b then update_intents (holds_claim i t) (\<lambda>i. i\<lparr>int_state := ''ready''\<rparr>) (db w)
             else delete_intents (holds_claim i t) (db w))"
  using assms unfolding resolve_claimed_def
  by (auto elim!: andThen_InrE query_InrE return_InrE sql_change_InrE split: if_splits)

lemma Resolve_intent_InrE:
  assumes run: "ResolveProvisionalRevocationIntent i t w = (Inr b, w')" and "base w = None"
    and held: "find (holds_claim i t) (intents (db w)) = Some x"
  shows "store_ok (db w') \<and>
    db w' = (if b then update_intents (holds_claim i t) (\<lambda>i. i\<lparr>int_state := ''ready''\<rparr>) (db w)
             else delete_intents (holds_claim i t) (db w))"
proof -
  from run [unfolded ResolveProvisionalRevocationIntent_def] assms(2) held obtain w1 w2 fs where
    "resolve_claimed i t x w2 = (Inr b, w1)" "db w2 = db w" "w' = w1\<lparr>base := None, faults := fs\<rparr>"
    by (auto elim!: transaction_InrE andThen_InrE query_InrE)
  with resolve_claimed_InrE [of i t x w2 b w1] show ?thesis by force
qed

lemma Resolve_intent_gone:
  assumes "base w = None" "find (holds_claim i t) (intents (db w)) = None"
    and "ResolveProvisionalRevocationIntent i t w = (Inr b, w')"
  shows "\<not> b"
  using assms unfolding ResolveProvisionalRevocationIntent_def
  by (auto elim!: transaction_InrE andThen_InrE query_InrE return_InrE)

lemma Finalize_ready:
  assumes "faults v = []" "base v = None" "intent_of i (db v) = Some x" "int_state x \<noteq> ''provisional''"
  shows "FinalizeRevocationIntentImmediately i v = (Inl ErrArtifactRevocationPending, v)"
  using assms by (cases v) (simp add: FinalizeRevocationIntentImmediately_def transaction_def effect_simps
      intent_of_def committed_def)

lemma Finalize_InrE:
  assumes run: "FinalizeRevocationIntentImmediately i w = (Inr u, w')" and "base w = None"
  obtains "db w' = delete_intents (\<lambda>x. int_intent_id x = i \<and> int_state x = ''provisional'') (db w)"
    "\<And>x. intent_of i (db w) = Some x \<Longrightarrow> int_state x = ''provisional''" "base w' = None"
proof (cases "intent_of i (db w)")
  case None
  then have "delete_intents (\<lambda>x. int_intent_id x = i \<and> int_state x = ''provisional'') (db w) = db w"
    by (auto simp: delete_intents_def delete_where_def intent_of_def find_None_iff intro!: filter_True)
  with None run assms(2) show thesis
    unfolding FinalizeRevocationIntentImmediately_def
    by (intro that) (auto elim!: success_elims transaction_InrE simp: intent_of_def)
next
  case (Some x)
  with run assms(2) show thesis
    unfolding FinalizeRevocationIntentImmediately_def
    by (intro that) (auto elim!: success_elims transaction_InrE sql_change_InrE simp: intent_of_def split: if_splits)
qed

text \<open>A freshly issued key is either delivered or revoked, never both.  When recovery has
  decided to revoke the key of an intent, \<open>FinalizeIssuedArtifact\<close> fails from then on, so the key
  is not handed out; when finalisation came first, the intent is gone and recovery finds nothing
  to revoke.\<close>

theorem delivered_or_revoked:
  assumes "store_ok (db w)" "base w = None"
    and v: "base v = None" "faults v = []" "intents (db v) = intents (db w')" "store_ok (db v)"
  shows "(ResolveProvisionalRevocationIntent i t w = (Inr True, w') \<longrightarrow>
           FinalizeRevocationIntentImmediately i v = (Inl ErrArtifactRevocationPending, v)) \<and>
         (FinalizeRevocationIntentImmediately i w = (Inr (), w') \<longrightarrow>
           ResolveProvisionalRevocationIntent i t v = (Inr False, v))"
proof (intro conjI impI)
  assume "ResolveProvisionalRevocationIntent i t w = (Inr True, w')"
  note run = this
  with Resolve_intent_gone [OF assms(2) _ run] obtain x where held: "find (holds_claim i t) (intents (db w)) = Some x"
    by fastforce
  from Resolve_intent_InrE [OF run assms(2) held]
  have w': "db w' = update_intents (holds_claim i t) (\<lambda>i. i\<lparr>int_state := ''ready''\<rparr>) (db w)" by simp
  from held have x: "x \<in> set (intents (db w))" "holds_claim i t x"
    by (auto dest: find_SomeD)
  then have "x\<lparr>int_state := ''ready''\<rparr> \<in> set (intents (db w'))"
    by (force simp: w' update_intents_def set_update_where)
  with x(2) v(3,4) have "intent_of i (db v) = Some (x\<lparr>int_state := ''ready''\<rparr>)"
    by (simp add: intent_of_eq holds_claim_def)
  then show "FinalizeRevocationIntentImmediately i v = (Inl ErrArtifactRevocationPending, v)"
    by (rule Finalize_ready [OF v(2,1)]) simp
next
  assume "FinalizeRevocationIntentImmediately i w = (Inr (), w')"
  then have w': "db w' = delete_intents (\<lambda>x. int_intent_id x = i \<and> int_state x = ''provisional'') (db w)"
    and st: "\<And>x. intent_of i (db w) = Some x \<Longrightarrow> int_state x = ''provisional''"
    using assms(2) by (auto elim!: Finalize_InrE)
  have "int_intent_id x \<noteq> i" if "x \<in> set (intents (db w'))" for x
    using that st [of x] by (auto simp: w' delete_intents_def intent_of_eq [OF assms(1)])
  then have "find (holds_claim i t) (intents (db v)) = None"
    unfolding v(3) by (auto simp: find_None_iff holds_claim_def)
  then show "ResolveProvisionalRevocationIntent i t v = (Inr False, v)"
    using v(1,2) by (cases v) (simp add: ResolveProvisionalRevocationIntent_def transaction_def effect_simps)
qed

definition provisional_intent :: revocation_intent where
  "provisional_intent = sample_intent\<lparr>int_state := ''provisional'', int_lease_token := Some ''w1'',
     int_lease_expires_at := Some 30\<rparr>"

lemma provisional_ok:
  "store_ok (empty_mihomo_db\<lparr>intents := [provisional_intent]\<rparr>)"
  "store_ok (empty_mihomo_db\<lparr>intents := [provisional_intent\<lparr>int_state := ''ready''\<rparr>]\<rparr>)"
  by (simp_all add: store_ok_iff empty_mihomo_db_def unique_on_def unique_where_def intent_row_ok_def
      sample_intent_def provisional_intent_def)

lemma delivered_or_revoked_witness:
  "FinalizeRevocationIntentImmediately ''i1''
     (initial_world (empty_mihomo_db\<lparr>intents := [provisional_intent\<lparr>int_state := ''ready''\<rparr>]\<rparr>)) =
   (Inl ErrArtifactRevocationPending,
    initial_world (empty_mihomo_db\<lparr>intents := [provisional_intent\<lparr>int_state := ''ready''\<rparr>]\<rparr>))"
proof -
  have "holds_claim ''i1'' ''w1'' provisional_intent"
    by (simp add: holds_claim_def provisional_intent_def sample_intent_def)
  then have "ResolveProvisionalRevocationIntent ''i1'' ''w1'' (initial_world (empty_mihomo_db\<lparr>intents := [provisional_intent]\<rparr>))
      = (Inr True, initial_world (empty_mihomo_db\<lparr>intents := [provisional_intent\<lparr>int_state := ''ready''\<rparr>]\<rparr>))"
    using provisional_ok(2)
    by (simp add: ResolveProvisionalRevocationIntent_def resolve_claimed_def transaction_def effect_simps
        update_intents_def store_ok_def initial_world_def empty_mihomo_db_def)
  with delivered_or_revoked [of "initial_world (empty_mihomo_db\<lparr>intents := [provisional_intent]\<rparr>)"
      "initial_world (empty_mihomo_db\<lparr>intents := [provisional_intent\<lparr>int_state := ''ready''\<rparr>]\<rparr>)" _ "''i1''" "''w1''"]
  show ?thesis using provisional_ok by simp
qed

end
