(* ===== verification/Mihomo_Crypto.thy ===== *)
theory Mihomo_Crypto
  imports Mihomo_Store Contracts
begin

text \<open>
  Envelopes for stored secrets: \<open>internal/crypto/keyring.go\<close>, \<open>blob.go\<close> and \<open>artifact.go\<close>, and the
  re-encryption of all credentials after a key rotation
  (\<open>internal/usecase/credential_reencryption.go\<close>).  AES-GCM, HMAC and SHA-256 are a parameter;
  the random nonces are arguments.
\<close>

section \<open>The cipher library\<close>

record cipher_library =
  cl_seal :: "string \<Rightarrow> string \<Rightarrow> string \<Rightarrow> string \<Rightarrow> string"
  cl_open :: "string \<Rightarrow> string \<Rightarrow> string \<Rightarrow> string \<Rightarrow> string option"
  cl_hmac :: "string \<Rightarrow> string \<Rightarrow> string"
  cl_sha256 :: "string \<Rightarrow> string"

definition nonce_size :: nat where "nonce_size = 12"

text \<open>\<open>aes.NewCipher\<close> takes keys of 16, 24 or 32 bytes.\<close>

definition valid_aes_key :: "string \<Rightarrow> bool" where
  "valid_aes_key key \<longleftrightarrow> length key \<in> {16, 24, 32}"

text \<open>\<open>strings.Cut(s, ".")\<close>.\<close>

definition cut_dot :: "string \<Rightarrow> (string \<times> string) option" where
  "cut_dot s = (if CHR ''.'' \<in> set s
     then Some (takeWhile (\<lambda>c. c \<noteq> CHR ''.'') s, tl (dropWhile (\<lambda>c. c \<noteq> CHR ''.'') s)) else None)"

text \<open>\<open>base64.RawURLEncoding.DecodeString\<close>: line breaks are skipped, the trailing bits of a short
  last group are not checked.\<close>

definition base64url_value :: "char \<Rightarrow> nat option" where
  "base64url_value c = (let i = length (takeWhile (\<lambda>d. d \<noteq> c) base64url_alphabet)
     in if i < 64 then Some i else None)"

fun decode_groups :: "nat list \<Rightarrow> string option" where
  "decode_groups (a # b # c # d # rest) =
     (let n = a * 262144 + b * 4096 + c * 64 + d in
      map_option (\<lambda>s. char_of (n div 65536) # char_of (n div 256) # char_of n # s) (decode_groups rest))"
| "decode_groups [a, b, c] =
     (let n = a * 262144 + b * 4096 + c * 64 in Some [char_of (n div 65536), char_of (n div 256)])"
| "decode_groups [a, b] = (let n = a * 262144 + b * 4096 in Some [char_of (n div 65536)])"
| "decode_groups [a] = None"
| "decode_groups [] = Some []"

definition base64url_decode :: "string \<Rightarrow> string option" where
  "base64url_decode s =
     (let digits = map base64url_value (filter (\<lambda>c. c \<noteq> CHR 0x0A \<and> c \<noteq> CHR 0x0D) s)
      in if None \<in> set digits then None else decode_groups (map the digits))"

section \<open>Key rings\<close>

record key_provider =
  ActiveKey :: "merror + (string \<times> string)"
  ResolveKey :: "string \<Rightarrow> merror + string"

definition validEncryptionKeyID :: "string \<Rightarrow> bool" where
  "validEncryptionKeyID keyID \<longleftrightarrow> keyID \<noteq> '''' \<and> length keyID \<le> 64 \<and>
     list_all (\<lambda>c. is_alnum c \<or> c = CHR ''_'' \<or> c = CHR ''-'') keyID"

text \<open>The decoded key file: the active key id and the entries, each with the result of decoding
  its base64 key.\<close>

fun load_entries :: "(string \<times> string option) list \<Rightarrow> (string \<rightharpoonup> string) \<Rightarrow> (string \<rightharpoonup> string) option" where
  "load_entries [] keys = Some keys"
| "load_entries ((keyID, decoded) # entries) keys =
     (if \<not> validEncryptionKeyID keyID then None
      else if keys keyID \<noteq> None then None
      else case decoded of
        None \<Rightarrow> None
      | Some key \<Rightarrow> if length key \<noteq> 32 then None else load_entries entries (keys(keyID \<mapsto> key)))"

definition load_keyring ::
    "(string \<times> (string \<times> string option) list) option \<Rightarrow> (string \<times> (string \<rightharpoonup> string)) option" where
  "load_keyring file = (case file of
       None \<Rightarrow> None
     | Some (active, entries) \<Rightarrow>
         if \<not> validEncryptionKeyID active \<or> entries = [] then None
         else case load_entries entries Map.empty of
           None \<Rightarrow> None
         | Some keys \<Rightarrow> if keys active = None then None else Some (active, keys))"

definition file_keyring :: "(string \<times> (string \<times> string option) list) option \<Rightarrow> key_provider" where
  "file_keyring file = \<lparr>
     ActiveKey = (case load_keyring file of
        None \<Rightarrow> Inl ErrInvalidKeyring
      | Some (active, keys) \<Rightarrow> Inr (active, case keys active of None \<Rightarrow> '''' | Some k \<Rightarrow> k)),
     ResolveKey = (\<lambda>keyID. case load_keyring file of
        None \<Rightarrow> Inl ErrInvalidKeyring
      | Some (active, keys) \<Rightarrow> (case keys keyID of None \<Rightarrow> Inl ErrInvalidKeyring | Some k \<Rightarrow> Inr k))\<rparr>"

definition static_key_provider :: "string \<Rightarrow> key_provider" where
  "static_key_provider key = \<lparr>
     ActiveKey = (if length key \<noteq> 32 then Inl ErrInvalidKeyring else Inr (''static'', key)),
     ResolveKey = (\<lambda>keyID. if keyID \<noteq> ''static'' \<or> length key \<noteq> 32 then Inl ErrInvalidKeyring else Inr key)\<rparr>"

definition EnvelopeNeedsReencryption :: "key_provider option \<Rightarrow> string \<Rightarrow> merror + bool" where
  "EnvelopeNeedsReencryption keySource encoded =
     (case cut_dot encoded of
        None \<Rightarrow> Inl ErrInvalidKeyring
      | Some (_, remainder) \<Rightarrow> (case cut_dot remainder of
          None \<Rightarrow> Inl ErrInvalidKeyring
        | Some (keyID, _) \<Rightarrow>
            if keyID = '''' then Inl ErrInvalidKeyring
            else case keySource of
              None \<Rightarrow> Inl ErrInvalidKeyring
            | Some ks \<Rightarrow> (case ActiveKey ks of Inl e \<Rightarrow> Inl e | Inr (active, _) \<Rightarrow> Inr (keyID \<noteq> active))))"

section \<open>Credential blobs\<close>

definition credentialCipherVersion :: string where "credentialCipherVersion = ''v2''"

text \<open>\<open>nonce\<close> is what the random source gives, or \<open>None\<close> when reading it fails.\<close>

definition EncryptString ::
    "cipher_library \<Rightarrow> key_provider option \<Rightarrow> string option \<Rightarrow> string \<Rightarrow> merror + string" where
  "EncryptString lib keySource nonce plaintext =
     (case keySource of
        None \<Rightarrow> Inl ErrInvalidKeyring
      | Some ks \<Rightarrow> (case ActiveKey ks of
          Inl e \<Rightarrow> Inl e
        | Inr (keyID, key) \<Rightarrow>
            if \<not> valid_aes_key key then Inl (OtherError ''crypto/aes: invalid key size'')
            else case nonce of
              None \<Rightarrow> Inl (OtherError ''random source'')
            | Some n \<Rightarrow>
                let aad = credentialCipherVersion @ '':'' @ keyID;
                    ciphertext = n @ cl_seal lib key n plaintext aad
                in Inr (credentialCipherVersion @ ''.'' @ keyID @ ''.'' @ base64url_encode ciphertext)))"

definition DecryptString :: "cipher_library \<Rightarrow> key_provider option \<Rightarrow> string \<Rightarrow> merror + string" where
  "DecryptString lib keySource encoded =
     (case cut_dot encoded of
        None \<Rightarrow> Inl ErrInvalidKeyring
      | Some (version, remainder) \<Rightarrow>
          if version \<noteq> credentialCipherVersion then Inl ErrInvalidKeyring
          else case cut_dot remainder of
            None \<Rightarrow> Inl ErrInvalidKeyring
          | Some (keyID, payload) \<Rightarrow>
              if keyID = '''' then Inl ErrInvalidKeyring
              else case keySource of
                None \<Rightarrow> Inl ErrInvalidKeyring
              | Some ks \<Rightarrow> (case ResolveKey ks keyID of
                  Inl e \<Rightarrow> Inl e
                | Inr key \<Rightarrow> (case base64url_decode payload of
                    None \<Rightarrow> Inl (OtherError ''illegal base64 data'')
                  | Some data \<Rightarrow>
                      if \<not> valid_aes_key key then Inl (OtherError ''crypto/aes: invalid key size'')
                      else if length data < nonce_size then Inl (OtherError ''ciphertext too short'')
                      else case cl_open lib key (take nonce_size data) (drop nonce_size data)
                                  (version @ '':'' @ keyID) of
                        None \<Rightarrow> Inl (OtherError ''cipher: message authentication failed'')
                      | Some plaintext \<Rightarrow> Inr plaintext)))"

section \<open>Artifacts\<close>

definition artifactCipherVersion :: string where "artifactCipherVersion = ''v2''"

definition artifact_key_for :: "cipher_library \<Rightarrow> string \<Rightarrow> string" where
  "artifact_key_for lib masterKey = cl_hmac lib masterKey ''paigram-mihomo-artifact-key-v1''"

definition be32_length :: "string \<Rightarrow> string" where
  "be32_length part = (let n = length part in
     [char_of (n div 16777216), char_of (n div 65536), char_of (n div 256), char_of n])"

definition aad_input :: "string list \<Rightarrow> string" where
  "aad_input parts = concat (map (\<lambda>part. be32_length part @ part) parts)"

definition artifactAAD :: "cipher_library \<Rightarrow> string list \<Rightarrow> string" where
  "artifactAAD lib parts = cl_sha256 lib (aad_input parts)"

definition EncryptArtifact ::
    "cipher_library \<Rightarrow> key_provider option \<Rightarrow> string option \<Rightarrow> string \<Rightarrow> string \<Rightarrow> string \<Rightarrow> string \<Rightarrow> string
      \<Rightarrow> merror + string" where
  "EncryptArtifact lib keySource nonce plaintext bindingRef accountKey artifactType scopeKey =
     (case keySource of
        None \<Rightarrow> Inl ErrInvalidKeyring
      | Some ks \<Rightarrow> (case ActiveKey ks of
          Inl e \<Rightarrow> Inl e
        | Inr (keyID, masterKey) \<Rightarrow>
            let key = artifact_key_for lib masterKey in
            if \<not> valid_aes_key key then Inl (OtherError ''crypto/aes: invalid key size'')
            else case nonce of
              None \<Rightarrow> Inl (OtherError ''random source'')
            | Some n \<Rightarrow>
                let ciphertext = n @ cl_seal lib key n plaintext
                      (artifactAAD lib [artifactCipherVersion, keyID, bindingRef, accountKey, artifactType, scopeKey])
                in Inr (artifactCipherVersion @ ''.'' @ keyID @ ''.'' @ base64url_encode ciphertext)))"

definition DecryptArtifact ::
    "cipher_library \<Rightarrow> key_provider option \<Rightarrow> string \<Rightarrow> string \<Rightarrow> string \<Rightarrow> string \<Rightarrow> string \<Rightarrow> merror + string" where
  "DecryptArtifact lib keySource encoded bindingRef accountKey artifactType scopeKey =
     (case cut_dot encoded of
        None \<Rightarrow> Inl ErrInvalidArtifactCiphertext
      | Some (version, remainder) \<Rightarrow>
          if version \<noteq> artifactCipherVersion then Inl ErrInvalidArtifactCiphertext
          else case cut_dot remainder of
            None \<Rightarrow> Inl ErrInvalidArtifactCiphertext
          | Some (keyID, payload) \<Rightarrow>
              if keyID = '''' then Inl ErrInvalidArtifactCiphertext
              else case keySource of
                None \<Rightarrow> Inl ErrInvalidKeyring
              | Some ks \<Rightarrow> (case ResolveKey ks keyID of
                  Inl e \<Rightarrow> Inl (Joined ErrInvalidArtifactCiphertext e)
                | Inr masterKey \<Rightarrow> (case base64url_decode payload of
                    None \<Rightarrow> Inl (Joined ErrInvalidArtifactCiphertext (OtherError ''illegal base64 data''))
                  | Some ciphertext \<Rightarrow>
                      let key = artifact_key_for lib masterKey in
                      if \<not> valid_aes_key key then Inl (OtherError ''crypto/aes: invalid key size'')
                      else if length ciphertext < nonce_size then Inl ErrInvalidArtifactCiphertext
                      else case cl_open lib key (take nonce_size ciphertext) (drop nonce_size ciphertext)
                                  (artifactAAD lib [version, keyID, bindingRef, accountKey, artifactType, scopeKey]) of
                        None \<Rightarrow> Inl (Joined ErrInvalidArtifactCiphertext
                                  (OtherError ''cipher: message authentication failed''))
                      | Some plaintext \<Rightarrow> Inr plaintext)))"

section \<open>Encoding lemmas\<close>

lemma base64url_alphabet_facts [simp]: "distinct base64url_alphabet" "length base64url_alphabet = 64"
  "CHR 0x0A \<notin> set base64url_alphabet" "CHR 0x0D \<notin> set base64url_alphabet" "CHR ''.'' \<notin> set base64url_alphabet"
  by (simp_all add: base64url_alphabet_def)

lemma base64url_value_digit: "n < 64 \<Longrightarrow> base64url_value (base64url_digit n) = Some n"
proof -
  assume n: "n < 64"
  have "takeWhile (\<lambda>d. d \<noteq> base64url_alphabet ! n) base64url_alphabet = take n base64url_alphabet"
    by (rule takeWhile_eq_take_P_nth) (use n in \<open>auto simp: nth_eq_iff_index_eq\<close>)
  with n show ?thesis by (simp add: base64url_value_def base64url_digit_def)
qed

lemma base64url_digit_in: "n < 64 \<Longrightarrow> base64url_digit n \<in> set base64url_alphabet"
  by (simp add: base64url_digit_def)

text \<open>The digits of an encoding, and the groups they stand for.\<close>

lemma four_digits:
  "(n::nat) div 262144 * 262144 + n div 4096 mod 64 * 4096 + n div 64 mod 64 * 64 + n mod 64 = n"
proof -
  have "n div 262144 = n div 4096 div 64" "n div 4096 = n div 64 div 64"
    by (simp_all flip: div_mult2_eq)
  moreover have "n div 64 * 64 + n mod 64 = n" "n div 64 div 64 * 64 + n div 64 mod 64 = n div 64"
    "n div 4096 div 64 * 64 + n div 4096 mod 64 = n div 4096"
    by simp_all
  ultimately show ?thesis by linarith
qed

lemma three_bytes:
  fixes x y z :: nat
  assumes "x < 256" "y < 256" "z < 256" and n: "n = x * 65536 + y * 256 + z"
  shows "n div 262144 < 64" "n div 65536 = x" "n div 256 mod 256 = y" "n mod 256 = z"
proof -
  from assms have "n < 64 * 262144" by linarith
  then show "n div 262144 < 64" by (rule less_mult_imp_div_less)
  show "n div 65536 = x" by (rule div_nat_eqI) (use assms in simp_all)
  have "n div 256 = x * 256 + y" by (rule div_nat_eqI) (use assms in simp_all)
  with assms show "n div 256 mod 256 = y" by simp
  have "n = z + 256 * (x * 256 + y)" using n by simp
  with assms(3) show "n mod 256 = z" by (simp only: mod_mult_self2 mod_less)
qed

lemma char_of_mod: "(n :: nat) mod 256 = of_char c \<Longrightarrow> char_of n = c"
  by (metis char_of_char char_of_mod_256)

lemma base64url_decode_encode: "base64url_decode (base64url_encode s) = Some s"
proof -
  have lt: "n div 262144 < 64" if "n = of_char a * 65536 + of_char b * 256 + of_char c"
    for n :: nat and a b c :: char
    using three_bytes(1) [OF nat_of_char_less_256 nat_of_char_less_256 nat_of_char_less_256 that] .
  have lt2: "(of_char a * 65536 + of_char b * 256 :: nat) div 262144 < 64" for a b :: char
    using three_bytes(1) [OF nat_of_char_less_256 nat_of_char_less_256, of 0] by simp
  have lt3: "(of_char a :: nat) div 4 < 64" for a :: char
    using nat_of_char_less_256 [of a] by (intro less_mult_imp_div_less) simp
  have digits: "set (base64url_encode s) \<subseteq> set base64url_alphabet" for s
    by (induction s rule: base64url_encode.induct) (simp_all add: Let_def base64url_digit_in lt lt2 lt3)
  then have clean: "filter (\<lambda>c. c \<noteq> CHR 0x0A \<and> c \<noteq> CHR 0x0D) (base64url_encode s) = base64url_encode s"
    by (intro filter_True) (metis base64url_alphabet_facts(3,4) subsetD)
  have "None \<notin> set (map base64url_value (base64url_encode s)) \<and>
      decode_groups (map the (map base64url_value (base64url_encode s))) = Some s"
  proof (induction s rule: base64url_encode.induct)
    case (1 a b c rest)
    define n :: nat where "n = of_char a * 65536 + of_char b * 256 + of_char c"
    note t = three_bytes [OF nat_of_char_less_256 nat_of_char_less_256 nat_of_char_less_256 n_def]
    have "char_of (n div 65536) = a" "char_of (n div 256) = b" "char_of n = c"
      using t(3,4) by (simp_all only: t(2) char_of_char char_of_mod)
    with 1 t(1) four_digits [of n] show ?case
      by (simp add: Let_def base64url_value_digit flip: n_def)
  next
    case (2 a b)
    define n :: nat where "n = of_char a * 65536 + of_char b * 256"
    then have n: "n = of_char a * 65536 + of_char b * 256 + 0" by simp
    note t = three_bytes [OF nat_of_char_less_256 nat_of_char_less_256 _ n, simplified]
    have "n = (of_char a * 1024 + of_char b * 4) * 64" by (simp add: n_def)
    then have "n mod 64 = 0" by (metis mod_mult_self2_is_0)
    with four_digits [of n] have "n div 262144 * 262144 + n div 4096 mod 64 * 4096 + n div 64 mod 64 * 64 = n" by simp
    moreover have "char_of (n div 65536) = a" "char_of (n div 256) = b"
      using t(3) by (simp_all only: t(2) char_of_char char_of_mod)
    ultimately show ?case
      using t(1) by (simp add: Let_def base64url_value_digit flip: n_def)
  next
    case (3 a)
    define n :: nat where "n = of_char a * 65536"
    then have n: "n = of_char a * 65536 + 0 * 256 + 0" by simp
    note t = three_bytes [OF nat_of_char_less_256 _ _ n, simplified]
    have "n = (of_char a * 1024) * 64" "n div 64 = (of_char a * 16) * 64" by (simp_all add: n_def)
    then have "n mod 64 = 0" "n div 64 mod 64 = 0" by (metis mod_mult_self2_is_0)+
    with four_digits [of n] have "n div 262144 * 262144 + n div 4096 mod 64 * 4096 = n" by simp
    moreover have "char_of (n div 65536) = a"
      by (simp only: t(2) char_of_char)
    ultimately show ?case
      using t(1) by (simp add: Let_def base64url_value_digit flip: n_def)
  qed simp
  with clean show ?thesis by (simp add: base64url_decode_def Let_def)
qed

lemma cut_dot_append: "CHR ''.'' \<notin> set a \<Longrightarrow> cut_dot (a @ CHR ''.'' # b) = Some (a, b)"
  by (induction a) (auto simp: cut_dot_def)

section \<open>Key sources\<close>

text \<open>What the envelope code relies on in a key source: the active key can be resolved by its id,
  the id has no separator, and keys have 32 bytes.\<close>

locale key_source =
  fixes ks :: key_provider
  assumes active_key: "ActiveKey ks = Inr (keyID, key) \<Longrightarrow>
    keyID \<noteq> '''' \<and> CHR ''.'' \<notin> set keyID \<and> length key = 32 \<and> ResolveKey ks keyID = Inr key"
begin

lemma sealed_parts:
  assumes "EncryptString lib (Some ks) nonce p = Inr s"
  obtains keyID key n where "nonce = Some n" "ActiveKey ks = Inr (keyID, key)" "ResolveKey ks keyID = Inr key"
    "valid_aes_key key" "keyID \<noteq> ''''"
    "cut_dot s = Some (''v2'', keyID @ ''.'' @ base64url_encode (n @ cl_seal lib key n p (''v2:'' @ keyID)))"
    "cut_dot (keyID @ ''.'' @ base64url_encode (n @ cl_seal lib key n p (''v2:'' @ keyID))) =
       Some (keyID, base64url_encode (n @ cl_seal lib key n p (''v2:'' @ keyID)))"
proof -
  from assms obtain keyID key n where k: "ActiveKey ks = Inr (keyID, key)" "valid_aes_key key" "nonce = Some n"
    and s: "s = ''v2.'' @ keyID @ ''.'' @ base64url_encode (n @ cl_seal lib key n p (''v2:'' @ keyID))"
    unfolding EncryptString_def
    by (auto simp: Let_def credentialCipherVersion_def split: sum.splits prod.splits if_splits option.splits)
  from active_key [OF k(1)] show thesis
    by (intro that [OF k(3,1)])
      (use k(2) cut_dot_append [of "''v2''"] cut_dot_append [of keyID] in \<open>simp_all add: s\<close>)
qed

lemma fresh_envelope:
  "EncryptString lib (Some ks) nonce p = Inr s \<Longrightarrow> EnvelopeNeedsReencryption (Some ks) s = Inr False"
  by (erule sealed_parts) (simp add: EnvelopeNeedsReencryption_def)

end

interpretation static_source: key_source "static_key_provider key" for key
  by unfold_locales (auto simp: static_key_provider_def split: if_splits)

lemma load_entries_valid:
  assumes "load_entries entries keys = Some keys'"
    and "\<And>i k. keys i = Some k \<Longrightarrow> validEncryptionKeyID i \<and> length k = 32"
    and "keys' i = Some k"
  shows "validEncryptionKeyID i \<and> length k = 32"
  using assms
proof (induction entries keys arbitrary: keys' rule: load_entries.induct)
  case (2 keyID decoded entries keys)
  then obtain key where d: "decoded = Some key" "validEncryptionKeyID keyID" "length key = 32" "keys keyID = None"
    "load_entries entries (keys(keyID \<mapsto> key)) = Some keys'"
    by (auto split: if_splits option.splits)
  show ?case
    by (rule "2.IH" [OF _ _ _ _ d(5)]) (use d 2(3,4) in \<open>auto split: if_splits\<close>)
qed simp

lemma validEncryptionKeyID_no_dot: "validEncryptionKeyID i \<Longrightarrow> i \<noteq> '''' \<and> CHR ''.'' \<notin> set i"
  by (auto simp: validEncryptionKeyID_def list_all_iff is_alnum_def)

interpretation file_source: key_source "file_keyring f" for f
proof
  fix keyID key
  assume "ActiveKey (file_keyring f) = Inr (keyID, key)"
  then obtain keys where load: "load_keyring f = Some (keyID, keys)"
    and key: "key = (case keys keyID of None \<Rightarrow> '''' | Some k \<Rightarrow> k)"
    by (auto simp: file_keyring_def split: option.splits prod.splits)
  from load obtain entries where e: "load_entries entries Map.empty = Some keys" "keys keyID \<noteq> None"
    unfolding load_keyring_def by (auto split: option.splits prod.splits if_splits)
  with key have k: "keys keyID = Some key" by auto
  from load_entries_valid [OF e(1) _ k] have "validEncryptionKeyID keyID" "length key = 32" by auto
  with k load validEncryptionKeyID_no_dot [of keyID]
  show "keyID \<noteq> '''' \<and> CHR ''.'' \<notin> set keyID \<and> length key = 32 \<and> ResolveKey (file_keyring f) keyID = Inr key"
    by (simp add: file_keyring_def)
qed

section \<open>Opening what was sealed\<close>

text \<open>AES-GCM opens what it sealed, under the same additional data.\<close>

definition opens_what_it_seals :: "cipher_library \<Rightarrow> bool" where
  "opens_what_it_seals lib \<longleftrightarrow> (\<forall>key n p a. cl_open lib key n (cl_seal lib key n p a) a = Some p)"

context key_source
begin

lemma decrypt_sealed:
  assumes "EncryptString lib (Some ks) (Some n) p = Inr s" "length n = nonce_size" "opens_what_it_seals lib"
    and later: "\<And>keyID key. ResolveKey ks keyID = Inr key \<Longrightarrow> ResolveKey ks' keyID = Inr key"
  shows "DecryptString lib (Some ks') s = Inr p"
  using assms(1)
  by (rule sealed_parts)
    (use assms(2,3) later in \<open>auto simp: DecryptString_def credentialCipherVersion_def base64url_decode_encode
      opens_what_it_seals_def\<close>)

lemma artifact_sealed_parts:
  assumes "EncryptArtifact lib (Some ks) nonce p b a t sc = Inr s"
  obtains keyID key n where "nonce = Some n" "ResolveKey ks keyID = Inr key" "keyID \<noteq> ''''"
    "valid_aes_key (artifact_key_for lib key)" "ActiveKey ks = Inr (keyID, key)"
    "cut_dot s = Some (''v2'', keyID @ ''.'' @ base64url_encode (n @ cl_seal lib (artifact_key_for lib key) n p
        (artifactAAD lib [''v2'', keyID, b, a, t, sc])))"
    "cut_dot (keyID @ ''.'' @ base64url_encode (n @ cl_seal lib (artifact_key_for lib key) n p
        (artifactAAD lib [''v2'', keyID, b, a, t, sc]))) =
       Some (keyID, base64url_encode (n @ cl_seal lib (artifact_key_for lib key) n p
        (artifactAAD lib [''v2'', keyID, b, a, t, sc])))"
proof -
  from assms obtain keyID key n where k: "ActiveKey ks = Inr (keyID, key)" "nonce = Some n"
      "valid_aes_key (artifact_key_for lib key)"
    and s: "s = ''v2.'' @ keyID @ ''.'' @ base64url_encode (n @ cl_seal lib (artifact_key_for lib key) n p
        (artifactAAD lib [''v2'', keyID, b, a, t, sc]))"
    unfolding EncryptArtifact_def
    by (auto simp: Let_def artifactCipherVersion_def split: sum.splits prod.splits if_splits option.splits)
  from active_key [OF k(1)] show thesis
    by (intro that [OF k(2)])
      (use k cut_dot_append [of "''v2''"] cut_dot_append [of keyID] in \<open>simp_all add: s\<close>)
qed

end

section \<open>Re-encryption after a key rotation\<close>

text \<open>\<open>CredentialReencryptionUsecase\<close>.  One credential: \<open>True\<close> when its row was replaced.\<close>

definition reencrypt_one ::
    "cipher_library \<Rightarrow> key_provider option \<Rightarrow> (string \<Rightarrow> string option) \<Rightarrow> credential \<Rightarrow> bool meff" where
  "reencrypt_one lib keyring nonces credential =
     andThen (lift_result (EnvelopeNeedsReencryption keyring (cred_blob credential))) (\<lambda>needsReencryption.
     if \<not> needsReencryption then return False
     else andThen (lift_result (DecryptString lib keyring (cred_blob credential))) (\<lambda>plaintext.
          andThen (lift_result (EncryptString lib keyring (nonces (cred_binding_ref credential)) plaintext)) (\<lambda>replacement.
          ReencryptCredentialBlob (cred_binding_ref credential) (cred_blob credential) replacement)))"

text \<open>The loop over one batch: the last binding reached, the number of replaced rows, and the error
  that stopped it.\<close>

fun reencrypt_batch ::
    "cipher_library \<Rightarrow> key_provider option \<Rightarrow> (string \<Rightarrow> string option) \<Rightarrow> credential list \<Rightarrow> string \<Rightarrow> int \<Rightarrow>
      (string \<times> int \<times> merror option) meff" where
  "reencrypt_batch lib keyring nonces [] afterBindingRef updated = return (afterBindingRef, updated, None)"
| "reencrypt_batch lib keyring nonces (credential # rest) afterBindingRef updated =
     andThen (attempt (reencrypt_one lib keyring nonces credential)) (\<lambda>r.
     case r of
       Inl err \<Rightarrow> return (cred_binding_ref credential, updated, Some err)
     | Inr replaced \<Rightarrow> reencrypt_batch lib keyring nonces rest (cred_binding_ref credential)
         (if replaced then updated + 1 else updated))"

definition credentialReencryptionBatchSize :: nat where "credentialReencryptionBatchSize = 100"

text \<open>The outer loop, with fuel; \<open>None\<close> when it runs out.\<close>

fun reencrypt_loop ::
    "cipher_library \<Rightarrow> key_provider option \<Rightarrow> (string \<Rightarrow> string option) \<Rightarrow> nat \<Rightarrow> string \<Rightarrow> int \<Rightarrow>
      (int \<times> merror option) option meff" where
  "reencrypt_loop lib keyring nonces 0 afterBindingRef updated = return None"
| "reencrypt_loop lib keyring nonces (Suc fuel) afterBindingRef updated =
     andThen (attempt (ListCredentialReencryptionBatch afterBindingRef (int credentialReencryptionBatchSize))) (\<lambda>r.
     case r of
       Inl err \<Rightarrow> return (Some (updated, Some err))
     | Inr batch \<Rightarrow>
         if length batch = 0 then return (Some (updated, None))
         else andThen (reencrypt_batch lib keyring nonces batch afterBindingRef updated) (\<lambda>(reached, updated, err).
              if err \<noteq> None then return (Some (updated, err))
              else if length batch < credentialReencryptionBatchSize then return (Some (updated, None))
              else reencrypt_loop lib keyring nonces fuel reached updated))"

definition ReencryptAll ::
    "cipher_library \<Rightarrow> key_provider option \<Rightarrow> (string \<Rightarrow> string option) \<Rightarrow> nat \<Rightarrow> (int \<times> merror option) option meff" where
  "ReencryptAll lib keyring nonces fuel =
     (if keyring = None then return (Some (0, Some ErrInvalidKeyring))
      else reencrypt_loop lib keyring nonces fuel '''' 0)"

text \<open>How far a run has come: the credentials up to \<open>reached\<close> are under the active key and open to
  the same plaintext, the others are untouched.\<close>

definition only_resealed :: "cipher_library \<Rightarrow> key_provider \<Rightarrow> credential \<Rightarrow> credential \<Rightarrow> bool" where
  "only_resealed lib ks c c' \<longleftrightarrow>
     c' = c\<lparr>cred_blob := cred_blob c', cred_version := cred_version c'\<rparr> \<and>
     DecryptString lib (Some ks) (cred_blob c') = DecryptString lib (Some ks) (cred_blob c)"

definition resealed_upto :: "cipher_library \<Rightarrow> key_provider \<Rightarrow> string \<Rightarrow> credential \<Rightarrow> credential \<Rightarrow> bool" where
  "resealed_upto lib ks reached c c' \<longleftrightarrow> only_resealed lib ks c c' \<and>
     (cred_binding_ref c \<le> reached \<longrightarrow> EnvelopeNeedsReencryption (Some ks) (cred_blob c') = Inr False) \<and>
     (reached < cred_binding_ref c \<longrightarrow> c' = c)"

lemma only_resealed_binding: "only_resealed lib ks c c' \<Longrightarrow> cred_binding_ref c' = cred_binding_ref c"
  unfolding only_resealed_def by (metis credential.ext_inject credential.surjective credential.update_convs(7,8))

text \<open>A batch: the next credentials in order; \<open>open_end\<close> when there may be others after it.\<close>

definition next_batch :: "bool \<Rightarrow> string \<Rightarrow> credential list \<Rightarrow> credential list \<Rightarrow> bool" where
  "next_batch open_end reached batch rows \<longleftrightarrow> sorted_wrt (<) (map cred_binding_ref batch) \<and> set batch \<subseteq> set rows \<and>
     (\<forall>c\<in>set batch. reached < cred_binding_ref c) \<and>
     (\<forall>c\<in>set rows. reached < cred_binding_ref c \<longrightarrow> c \<in> set batch \<or>
        (open_end \<and> (\<forall>x\<in>set batch. cred_binding_ref x < cred_binding_ref c)))"

lemma sorted_keys:
  assumes "unique_on cred_binding_ref rows"
  shows "sorted_wrt (<) (map cred_binding_ref (filter p (sort_key cred_binding_ref rows)))"
proof -
  have "distinct (map cred_binding_ref (sort_key cred_binding_ref rows))"
    using assms by (simp add: unique_on_def distinct_map)
  then have "distinct (map cred_binding_ref (filter p (sort_key cred_binding_ref rows)))"
    by (rule distinct_map_filter)
  moreover have "sorted (map cred_binding_ref (filter p (sort_key cred_binding_ref rows)))"
    by (simp add: sorted_filter)
  ultimately show ?thesis by (simp add: strict_sorted_iff)
qed

lemma listed_next_batch:
  assumes "unique_on cred_binding_ref rows"
    and batch: "batch = take n (filter (\<lambda>c. reached < cred_binding_ref c) (sort_key cred_binding_ref rows))"
  shows "next_batch (n \<le> length batch) reached batch rows"
proof -
  let ?all = "filter (\<lambda>c. reached < cred_binding_ref c) (sort_key cred_binding_ref rows)"
  have s: "sorted_wrt (<) (map cred_binding_ref ?all)" by (rule sorted_keys [OF assms(1)])
  have split: "sorted_wrt (<) (map cred_binding_ref (batch @ drop n ?all))"
    using s by (simp add: batch)
  then have lt: "cred_binding_ref x < cred_binding_ref c" if "x \<in> set batch" "c \<in> set (drop n ?all)" for x c
    using that by (simp only: map_append sorted_wrt_append) (auto simp: in_set_conv_nth)
  have cover: "set ?all = set batch \<union> set (drop n ?all)"
    unfolding batch by (metis append_take_drop_id set_append)
  have few: "drop n ?all = []" if "length batch < n" using that by (simp add: batch)
  show ?thesis
    unfolding next_batch_def
  proof (intro conjI ballI impI)
    show "sorted_wrt (<) (map cred_binding_ref batch)"
      using split by (simp only: map_append sorted_wrt_append)
    show "set batch \<subseteq> set rows" using cover by auto
    fix c assume "c \<in> set batch"
    then show "reached < cred_binding_ref c" using cover by auto
  next
    fix c assume "c \<in> set rows" "reached < cred_binding_ref c"
    then have "c \<in> set ?all" by simp
    with cover few lt show "c \<in> set batch \<or> (n \<le> length batch \<and> (\<forall>x\<in>set batch. cred_binding_ref x < cred_binding_ref c))"
      by (cases "n \<le> length batch") auto
  qed
qed

lemma list_all2_update_where:
  assumes "list_all2 P xs ys" "\<And>x y. y \<in> set ys \<Longrightarrow> P x y \<Longrightarrow> Q x (if p y then f y else y)"
  shows "list_all2 Q xs (update_where p f ys)"
  using assms by (induction rule: list_all2_induct) auto

lemma ReencryptCredentialBlob_InrE:
  assumes "ReencryptCredentialBlob b x y w = (Inr r, w')"
  obtains fs where "w' = w\<lparr>faults := fs, db := (db w)\<lparr>credentials := update_where
      (\<lambda>c. cred_binding_ref c = b \<and> cred_blob c = x) (\<lambda>c. c\<lparr>cred_blob := y, cred_version := ''v2''\<rparr>)
      (credentials (db w))\<rparr>\<rparr>" "store_ok (db w')"
  using assms unfolding ReencryptCredentialBlob_def
  by (auto elim!: success_elims update_credentials_InrE)

lemma failed_write_changes_nothing:
  assumes "sql_write rows f w = (Inl e, w')"
  shows "db w' = db w"
  using assms by (auto simp: sql_write_def statement_def split: prod.splits sum.splits if_splits)

lemma reencrypt_one_error:
  assumes "reencrypt_one lib keyring nonces c w = (Inl e, w')"
  shows "db w' = db w"
  using assms
  by (auto simp: reencrypt_one_def ReencryptCredentialBlob_def update_credentials_def effect_simps
      split: sum.splits if_splits prod.splits dest: failed_write_changes_nothing)

definition sound_nonces :: "(string \<Rightarrow> string option) \<Rightarrow> bool" where
  "sound_nonces nonces \<longleftrightarrow> (\<forall>b n. nonces b = Some n \<longrightarrow> length n = nonce_size)"

lemma update_own_row:
  assumes "unique_on cred_binding_ref rows" "c \<in> set rows"
  shows "update_where (\<lambda>x. cred_binding_ref x = cred_binding_ref c) (\<lambda>_. c) rows = rows"
  using unique_onD [OF assms(1) _ assms(2)] by (auto simp: update_where_def intro!: map_idI sym [of _ c])

context key_source
begin

lemma reencrypt_one_success:
  assumes run: "reencrypt_one lib (Some ks) nonces c w = (Inr r, w')"
    and lib: "opens_what_it_seals lib" "sound_nonces nonces"
    and w: "store_ok (db w)" "c \<in> set (credentials (db w))"
  obtains c' where "credentials (db w') = update_where (\<lambda>x. cred_binding_ref x = cred_binding_ref c) (\<lambda>_. c')
      (credentials (db w))"
    "only_resealed lib ks c c'" "EnvelopeNeedsReencryption (Some ks) (cred_blob c') = Inr False" "store_ok (db w')"
proof -
  have u: "unique_on cred_binding_ref (credentials (db w))" using w(1) by (simp add: store_ok_iff)
  from run obtain needs where n: "EnvelopeNeedsReencryption (Some ks) (cred_blob c) = Inr needs"
    and rest: "(if \<not> needs then return False
     else andThen (lift_result (DecryptString lib (Some ks) (cred_blob c))) (\<lambda>plaintext.
          andThen (lift_result (EncryptString lib (Some ks) (nonces (cred_binding_ref c)) plaintext)) (\<lambda>replacement.
          ReencryptCredentialBlob (cred_binding_ref c) (cred_blob c) replacement))) w = (Inr r, w')"
    unfolding reencrypt_one_def by (auto elim!: success_elims)
  show thesis
  proof (cases needs)
    case False
    with rest have "w' = w" by (auto elim!: success_elims)
    with n False w update_own_row [OF u w(2)] show thesis
      by (intro that [of c]) (simp_all add: only_resealed_def)
  next
    case True
    with rest obtain plain repl fs where d: "DecryptString lib (Some ks) (cred_blob c) = Inr plain"
      "EncryptString lib (Some ks) (nonces (cred_binding_ref c)) plain = Inr repl"
      and w': "w' = w\<lparr>faults := fs, db := (db w)\<lparr>credentials := update_where
        (\<lambda>x. cred_binding_ref x = cred_binding_ref c \<and> cred_blob x = cred_blob c)
        (\<lambda>x. x\<lparr>cred_blob := repl, cred_version := ''v2''\<rparr>) (credentials (db w))\<rparr>\<rparr>" "store_ok (db w')"
      by (auto elim!: success_elims ReencryptCredentialBlob_InrE)
    from d(2) obtain n where nn: "nonces (cred_binding_ref c) = Some n" by (rule sealed_parts)
    with lib(2) have len: "length n = nonce_size" by (simp add: sound_nonces_def)
    have "DecryptString lib (Some ks) repl = Inr plain"
      by (rule decrypt_sealed [OF _ len lib(1)]) (use d(2) nn in auto)
    moreover have "update_where (\<lambda>x. cred_binding_ref x = cred_binding_ref c \<and> cred_blob x = cred_blob c)
        (\<lambda>x. x\<lparr>cred_blob := repl, cred_version := ''v2''\<rparr>) (credentials (db w)) =
      update_where (\<lambda>x. cred_binding_ref x = cred_binding_ref c)
        (\<lambda>_. c\<lparr>cred_blob := repl, cred_version := ''v2''\<rparr>) (credentials (db w))"
      using unique_onD [OF u _ w(2)] by (auto simp: update_where_def)
    ultimately show thesis
      using w' d fresh_envelope [OF d(2)]
      by (intro that [of "c\<lparr>cred_blob := repl, cred_version := ''v2''\<rparr>"]) (simp_all add: only_resealed_def)
  qed
qed

lemma reencrypt_step:
  assumes run: "reencrypt_one lib (Some ks) nonces c w = (Inr r, w')"
    and lib: "opens_what_it_seals lib" "sound_nonces nonces" and ok: "store_ok (db w)"
    and inv: "list_all2 (resealed_upto lib ks reached) cs (credentials (db w))"
    and batch: "next_batch m reached (c # rest) (credentials (db w))"
  shows "list_all2 (resealed_upto lib ks (cred_binding_ref c)) cs (credentials (db w')) \<and>
    next_batch m (cred_binding_ref c) rest (credentials (db w')) \<and> store_ok (db w')"
proof -
  have c: "c \<in> set (credentials (db w))" "reached < cred_binding_ref c"
    using batch by (auto simp: next_batch_def)
  have u: "unique_on cred_binding_ref (credentials (db w))" using ok by (simp add: store_ok_iff)
  from run lib ok c(1) obtain c' where c': "credentials (db w') =
      update_where (\<lambda>x. cred_binding_ref x = cred_binding_ref c) (\<lambda>_. c') (credentials (db w))"
    "only_resealed lib ks c c'" "EnvelopeNeedsReencryption (Some ks) (cred_blob c') = Inr False" "store_ok (db w')"
    by (rule reencrypt_one_success)
  note same = only_resealed_binding [OF c'(2)]
  have "list_all2 (resealed_upto lib ks (cred_binding_ref c)) cs (credentials (db w'))"
    unfolding c'(1)
  proof (rule list_all2_update_where [OF inv])
    fix x y assume y: "y \<in> set (credentials (db w))" and r: "resealed_upto lib ks reached x y"
    show "resealed_upto lib ks (cred_binding_ref c) x (if cred_binding_ref y = cred_binding_ref c then c' else y)"
    proof (cases "cred_binding_ref y = cred_binding_ref c")
      case True
      with unique_onD [OF u y c(1)] have "y = c" by blast
      with r c(2) have "x = c"
        using only_resealed_binding [of lib ks x y] by (simp add: resealed_upto_def)
      with True c' show ?thesis by (simp add: resealed_upto_def)
    next
      case False
      have "\<not> (reached < cred_binding_ref y \<and> cred_binding_ref y \<le> cred_binding_ref c)"
        using batch y False by (force simp: next_batch_def)
      with False r c(2) only_resealed_binding [of lib ks x y] show ?thesis
        by (auto simp: resealed_upto_def)
    qed
  qed
  moreover have "next_batch m (cred_binding_ref c) rest (credentials (db w'))"
    using batch same unfolding next_batch_def c'(1)
    by (auto simp: update_where_def image_iff)
  ultimately show ?thesis using c'(4) by blast
qed

end

lemma only_resealed_trans_error:
  "list_all2 (resealed_upto lib ks reached) cs rows \<Longrightarrow> list_all2 (only_resealed lib ks) cs rows"
  by (erule list_all2_mono) (simp add: resealed_upto_def)

lemma next_batch_last: "next_batch m reached batch rows \<Longrightarrow> batch \<noteq> [] \<Longrightarrow>
    reached < cred_binding_ref (last batch) \<and> last batch \<in> set rows"
  by (auto simp: next_batch_def)

lemma list_all2_counterpart:
  assumes "list_all2 P xs ys" "y \<in> set ys"
  obtains x where "x \<in> set xs" "P x y"
  using assms by (induction rule: list_all2_induct) auto

lemma fewer_left:
  assumes "list_all2 (resealed_upto lib ks a) cs rows" "c \<in> set rows" "a < cred_binding_ref c"
  shows "length (filter (\<lambda>x. cred_binding_ref c < cred_binding_ref x) cs)
       < length (filter (\<lambda>x. a < cred_binding_ref x) cs)"
proof -
  from assms(1,2) obtain x where x: "x \<in> set cs" "resealed_upto lib ks a x c"
    by (rule list_all2_counterpart)
  then have "cred_binding_ref x = cred_binding_ref c"
    using only_resealed_binding [of lib ks x c] by (simp add: resealed_upto_def)
  with assms(3) x(1) have "x \<in> set (filter (\<lambda>x. a < cred_binding_ref x) cs)"
    "\<not> cred_binding_ref c < cred_binding_ref x" by auto
  then have "length (filter (\<lambda>x. cred_binding_ref c < cred_binding_ref x) (filter (\<lambda>x. a < cred_binding_ref x) cs))
       < length (filter (\<lambda>x. a < cred_binding_ref x) cs)"
    by (rule length_filter_less)
  moreover have "filter (\<lambda>x. cred_binding_ref c < cred_binding_ref x) (filter (\<lambda>x. a < cred_binding_ref x) cs)
       = filter (\<lambda>x. cred_binding_ref c < cred_binding_ref x) cs"
    using assms(3) by (auto simp: filter_filter intro!: filter_cong)
  ultimately show ?thesis by simp
qed

context key_source
begin

lemma reencrypt_batch_outcome:
  assumes lib: "opens_what_it_seals lib" "sound_nonces nonces"
    and "reencrypt_batch lib (Some ks) nonces batch reached n w = (r, w')" "store_ok (db w)"
    and "list_all2 (resealed_upto lib ks reached) cs (credentials (db w))"
    and "next_batch m reached batch (credentials (db w))"
  shows "\<exists>last' n' e. r = Inr (last', n', e) \<and> list_all2 (only_resealed lib ks) cs (credentials (db w')) \<and>
    (e = None \<longrightarrow> list_all2 (resealed_upto lib ks last') cs (credentials (db w')) \<and> store_ok (db w') \<and>
       next_batch m last' [] (credentials (db w')) \<and>
       last' = (if batch = [] then reached else cred_binding_ref (last batch)))"
  using assms(3-6)
proof (induction batch arbitrary: reached n w)
  case Nil
  then show ?case by (auto simp: effect_simps dest: only_resealed_trans_error)
next
  case (Cons c rest)
  obtain q w1 where one: "reencrypt_one lib (Some ks) nonces c w = (q, w1)" by fastforce
  show ?case
  proof (cases q)
    case (Inl e)
    with one reencrypt_one_error [of lib "Some ks" nonces c w e w1] Cons.prems show ?thesis
      by (auto simp: effect_simps dest: only_resealed_trans_error)
  next
    case (Inr x)
    from reencrypt_step [OF one [unfolded Inr] lib Cons.prems(2-4)]
    have s: "list_all2 (resealed_upto lib ks (cred_binding_ref c)) cs (credentials (db w1))"
      "next_batch m (cred_binding_ref c) rest (credentials (db w1))" "store_ok (db w1)" by auto
    from one Inr Cons.prems(1)
    have "reencrypt_batch lib (Some ks) nonces rest (cred_binding_ref c) (if x then n + 1 else n) w1 = (r, w')"
      by (simp add: effect_simps)
    from Cons.IH [OF this s(3,1,2)] show ?thesis by auto
  qed
qed

lemma reencrypt_loop_outcome:
  assumes lib: "opens_what_it_seals lib" "sound_nonces nonces"
    and "reencrypt_loop lib (Some ks) nonces fuel reached n w = (r, w')" "store_ok (db w)"
    and "list_all2 (resealed_upto lib ks reached) cs (credentials (db w))"
  shows "\<exists>res. r = Inr res \<and> list_all2 (only_resealed lib ks) cs (credentials (db w')) \<and>
    (length (filter (\<lambda>c. reached < cred_binding_ref c) cs) < fuel \<longrightarrow> res \<noteq> None) \<and>
    (\<forall>n'. res = Some (n', None) \<longrightarrow>
       (\<forall>c\<in>set (credentials (db w')). EnvelopeNeedsReencryption (Some ks) (cred_blob c) = Inr False))"
  using assms(3-5)
proof (induction fuel arbitrary: reached n w)
  case 0
  then show ?case by (auto simp: effect_simps dest: only_resealed_trans_error)
next
  case (Suc fuel)
  have fin: "\<forall>c\<in>set rows. EnvelopeNeedsReencryption (Some ks) (cred_blob c) = Inr False"
    if all: "list_all2 (resealed_upto lib ks b) cs rows" "next_batch False b [] rows" for b rows
  proof
    fix c assume c: "c \<in> set rows"
    with all(2) have "cred_binding_ref c \<le> b" by (force simp: next_batch_def)
    moreover from all(1) c obtain c0 where "resealed_upto lib ks b c0 c"
      by (rule list_all2_counterpart)
    ultimately show "EnvelopeNeedsReencryption (Some ks) (cred_blob c) = Inr False"
      using only_resealed_binding [of lib ks c0 c] by (auto simp: resealed_upto_def)
  qed
  obtain q w1 where list: "ListCredentialReencryptionBatch reached (int credentialReencryptionBatchSize) w = (q, w1)"
    by fastforce
  have db1: "db w1 = db w"
    using framesD [where f = "\<lambda>d. d", OF store_reads_frame(5), of reached _ w] list
    by (metis snd_conv)
  show ?case
  proof (cases q)
    case (Inl e)
    with list db1 Suc.prems show ?thesis
      by (auto simp: effect_simps dest: only_resealed_trans_error)
  next
    case (Inr batch)
    have u: "unique_on cred_binding_ref (credentials (db w))" using Suc.prems(2) by (simp add: store_ok_iff)
    from list Inr have "batch = take credentialReencryptionBatchSize (filter (\<lambda>c. reached < cred_binding_ref c)
        (sort_key cred_binding_ref (credentials (db w))))"
      by (auto simp: ListCredentialReencryptionBatch_def credentialReencryptionBatchSize_def elim!: success_elims)
    from listed_next_batch [OF u this]
    have nb: "next_batch (credentialReencryptionBatchSize \<le> length batch) reached batch (credentials (db w1))"
      by (simp add: db1)
    show ?thesis
    proof (cases "batch = []")
      case True
      with nb have "next_batch False reached [] (credentials (db w1))"
        by (simp add: credentialReencryptionBatchSize_def)
      with True list Inr db1 Suc.prems fin show ?thesis
        by (auto simp: effect_simps dest: only_resealed_trans_error)
    next
      case False
      obtain p w2 where run: "reencrypt_batch lib (Some ks) nonces batch reached n w1 = (p, w2)" by fastforce
      from reencrypt_batch_outcome [OF lib run _ _ nb, of cs] Suc.prems(2,3) False
      obtain b n' e where p: "p = Inr (b, n', e)" and b: "e = None \<Longrightarrow> b = cred_binding_ref (last batch)"
        and o: "list_all2 (only_resealed lib ks) cs (credentials (db w2))"
        and d: "e = None \<Longrightarrow> list_all2 (resealed_upto lib ks (cred_binding_ref (last batch))) cs (credentials (db w2))"
          "e = None \<Longrightarrow> store_ok (db w2)"
          "e = None \<Longrightarrow> next_batch (credentialReencryptionBatchSize \<le> length batch) (cred_binding_ref (last batch))
             [] (credentials (db w2))"
        by (auto simp: db1)
      show ?thesis
      proof (cases e)
        case (Some err)
        with p o list Inr run False Suc.prems(1) show ?thesis by (auto simp: effect_simps)
      next
        case None
        have "last batch \<in> set (credentials (db w))" "reached < cred_binding_ref (last batch)"
          using next_batch_last [OF nb False] by (simp_all add: db1)
        then have shrink: "length (filter (\<lambda>c. cred_binding_ref (last batch) < cred_binding_ref c) cs)
            < length (filter (\<lambda>c. reached < cred_binding_ref c) cs)"
          by (rule fewer_left [OF Suc.prems(3)])
        show ?thesis
        proof (cases "length batch < credentialReencryptionBatchSize")
          case True
          with d(3) [OF None] have "next_batch False (cred_binding_ref (last batch)) [] (credentials (db w2))" by simp
          from fin [OF d(1) [OF None] this] True None p o list Inr run False Suc.prems(1) show ?thesis
            by (auto simp: effect_simps)
        next
          case more: False
          from None p b list Inr run False more Suc.prems(1)
          have "reencrypt_loop lib (Some ks) nonces fuel (cred_binding_ref (last batch)) n' w2 = (r, w')"
            by (simp add: effect_simps)
          from Suc.IH [OF this d(2,1) [OF None]] shrink show ?thesis by auto
        qed
      qed
    qed
  qed
qed

end

lemma nothing_resealed: "store_ok d \<Longrightarrow>
    list_all2 (resealed_upto lib ks '''') (credentials d) (credentials d)"
  by (rule list.rel_refl_strong)
    (auto simp: resealed_upto_def only_resealed_def store_ok_iff list_all_iff credential_row_ok_def)

lemma be32_length_length [simp]: "length (be32_length p) = 4"
  by (simp add: be32_length_def Let_def)

lemma be32_length_inj:
  assumes "be32_length p = be32_length q" "length p < 2 ^ 32" "length q < 2 ^ 32"
  shows "length p = length q"
proof -
  have digits: "n = n div 16777216 mod 256 * 16777216 + n div 65536 mod 256 * 65536 + n div 256 mod 256 * 256 + n mod 256"
    if n: "n < 2 ^ 32" for n :: nat
  proof -
    have "n div 16777216 < 256" using n by (intro less_mult_imp_div_less) simp
    then have m: "n div 16777216 mod 256 = n div 16777216" by (rule mod_less)
    have "n div 65536 = n div 256 div 256" "n div 16777216 = n div 65536 div 256"
      by (simp_all flip: div_mult2_eq)
    then show ?thesis
      unfolding m
      using div_mult_mod_eq [of n 256] div_mult_mod_eq [of "n div 256" 256] div_mult_mod_eq [of "n div 65536" 256]
      by linarith
  qed
  have byte: "m mod 256 = n mod 256" if "(char_of m :: char) = char_of n" for m n :: nat
    using that by (metis of_char_of)
  from assms(1) have "(char_of (length p div 16777216) :: char) = char_of (length q div 16777216)"
    "(char_of (length p div 65536) :: char) = char_of (length q div 65536)"
    "(char_of (length p div 256) :: char) = char_of (length q div 256)"
    "(char_of (length p) :: char) = char_of (length q)"
    by (simp_all only: be32_length_def Let_def list.inject)
  note b = this [THEN byte]
  show ?thesis
    using digits [OF assms(2)] digits [OF assms(3)] b by argo
qed

text \<open>The additional data of an artifact determines its parts: each is preceded by its length.\<close>

lemma aad_input_inj:
  assumes "aad_input ps = aad_input qs" "length ps = length qs"
    "\<forall>p\<in>set ps. length p < 2 ^ 32" "\<forall>q\<in>set qs. length q < 2 ^ 32"
  shows "ps = qs"
  using assms
proof (induction ps arbitrary: qs)
  case (Cons p ps)
  then obtain q qs' where qs: "qs = q # qs'" by (cases qs) auto
  with Cons.prems(1) have e: "be32_length p @ (p @ aad_input ps) = be32_length q @ (q @ aad_input qs')"
    by (simp add: aad_input_def)
  then have "be32_length p = be32_length q" "p @ aad_input ps = q @ aad_input qs'"
    by (metis append_eq_append_conv be32_length_length)+
  with be32_length_inj [of p q] Cons.prems qs have "p = q" "aad_input ps = aad_input qs'" by auto
  with Cons qs show ?case by simp
qed simp

section \<open>Properties of the envelopes\<close>

text \<open>C37: A credential sealed under a key file opens again to the same plaintext under every later
  key file that still has its key, whichever key is active there, and is current under its own.\<close>

theorem sealed_credential_opens:
  assumes "EncryptString lib (Some (file_keyring f)) (Some n) p = Inr s" and "length n = nonce_size"
    and "opens_what_it_seals lib"
    and "\<And>keyID key. ResolveKey (file_keyring f) keyID = Inr key \<Longrightarrow> ResolveKey (file_keyring g) keyID = Inr key"
  shows "DecryptString lib (Some (file_keyring g)) s = Inr p \<and>
    EnvelopeNeedsReencryption (Some (file_keyring f)) s = Inr False"
  using file_source.decrypt_sealed [OF assms(1-4)] file_source.fresh_envelope [OF assms(1)] by blast

definition sample_key :: string where "sample_key = replicate 32 CHR ''k''"
definition sample_key_file :: "(string \<times> (string \<times> string option) list) option" where
  "sample_key_file = Some (''k1'', [(''k1'', Some sample_key)])"
definition rotated_key_file :: "(string \<times> (string \<times> string option) list) option" where
  "rotated_key_file = Some (''k2'', [(''k1'', Some sample_key), (''k2'', Some (replicate 32 CHR ''m''))])"
definition sample_nonce :: string where "sample_nonce = replicate 12 CHR ''n''"
definition sample_cipher :: cipher_library where
  "sample_cipher = \<lparr>cl_seal = (\<lambda>key n p a. a @ p),
     cl_open = (\<lambda>key n c a. if take (length a) c = a then Some (drop (length a) c) else None),
     cl_hmac = (\<lambda>key m. key), cl_sha256 = (\<lambda>m. m)\<rparr>"

lemma sample_cipher_opens [simp]: "opens_what_it_seals sample_cipher"
  by (simp add: opens_what_it_seals_def sample_cipher_def)

lemma sample_nonce_length [simp]: "length sample_nonce = nonce_size"
  by (simp add: sample_nonce_def nonce_size_def)

lemma key_ids_valid [simp]: "validEncryptionKeyID ''k1''" "validEncryptionKeyID ''k2''"
  by (simp_all add: validEncryptionKeyID_def is_alnum_def)

lemma sample_keyrings:
  "load_keyring sample_key_file = Some (''k1'', [''k1'' \<mapsto> sample_key])"
  "load_keyring rotated_key_file = Some (''k2'', [''k1'' \<mapsto> sample_key, ''k2'' \<mapsto> replicate 32 CHR ''m''])"
  by (simp_all add: load_keyring_def sample_key_file_def rotated_key_file_def sample_key_def)

lemma sample_sealed:
  "EncryptString sample_cipher (Some (file_keyring sample_key_file)) (Some sample_nonce) ''stoken'' =
   Inr (''v2.k1.'' @ base64url_encode (sample_nonce @ ''v2:k1stoken''))"
  by (simp add: EncryptString_def file_keyring_def sample_keyrings valid_aes_key_def sample_key_def
      credentialCipherVersion_def sample_cipher_def)

lemma sealed_credential_opens_witness:
  "\<exists>s. DecryptString sample_cipher (Some (file_keyring rotated_key_file)) s = Inr ''stoken''"
proof -
  have "ResolveKey (file_keyring rotated_key_file) i = Inr k" if "ResolveKey (file_keyring sample_key_file) i = Inr k" for i k
    using that by (auto simp: file_keyring_def sample_keyrings split: option.splits if_splits)
  from sealed_credential_opens [OF sample_sealed sample_nonce_length sample_cipher_opens this]
  show ?thesis by blast
qed

text \<open>C38: A stored artifact is bound to its row.  Moved to another binding, account, type or scope it
  does not open: the call fails with \<open>ErrInvalidArtifactCiphertext\<close>.  The cipher is assumed to
  refuse additional data other than the sealed one, and the hash not to collide on the two inputs.\<close>

theorem artifact_not_transferable:
  assumes sealed: "EncryptArtifact lib (Some (file_keyring f)) (Some n) p b a t sc = Inr s" and "length n = nonce_size"
    and other: "(b', a', t', sc') \<noteq> (b, a, t, sc)"
    and short: "\<forall>x\<in>{b, a, t, sc, b', a', t', sc'}. length x < 2 ^ 32"
      "\<And>keyID key. ActiveKey (file_keyring f) = Inr (keyID, key) \<Longrightarrow> length keyID < 2 ^ 32"
    and hash: "\<And>x. artifactAAD lib [''v2'', x, b, a, t, sc] = artifactAAD lib [''v2'', x, b', a', t', sc'] \<Longrightarrow>
        aad_input [''v2'', x, b, a, t, sc] = aad_input [''v2'', x, b', a', t', sc']"
    and refuses: "\<And>key x. cl_open lib key n (cl_seal lib key n p (artifactAAD lib [''v2'', x, b, a, t, sc]))
        (artifactAAD lib [''v2'', x, b', a', t', sc']) \<noteq> None \<Longrightarrow>
        artifactAAD lib [''v2'', x, b, a, t, sc] = artifactAAD lib [''v2'', x, b', a', t', sc']"
  shows "\<exists>e. DecryptArtifact lib (Some (file_keyring f)) s b' a' t' sc' = Inl e \<and>
    is_error e ErrInvalidArtifactCiphertext"
proof -
  from sealed obtain keyID key where k: "ResolveKey (file_keyring f) keyID = Inr key" "keyID \<noteq> ''''"
    "length keyID < 2 ^ 32" "valid_aes_key (artifact_key_for lib key)"
    "cut_dot s = Some (''v2'', keyID @ ''.'' @ base64url_encode (n @ cl_seal lib (artifact_key_for lib key) n p
        (artifactAAD lib [''v2'', keyID, b, a, t, sc])))"
    "cut_dot (keyID @ ''.'' @ base64url_encode (n @ cl_seal lib (artifact_key_for lib key) n p
        (artifactAAD lib [''v2'', keyID, b, a, t, sc]))) =
       Some (keyID, base64url_encode (n @ cl_seal lib (artifact_key_for lib key) n p
        (artifactAAD lib [''v2'', keyID, b, a, t, sc])))"
    by (rule file_source.artifact_sealed_parts) (use short(2) in auto)
  have "cl_open lib (artifact_key_for lib key) n (cl_seal lib (artifact_key_for lib key) n p
        (artifactAAD lib [''v2'', keyID, b, a, t, sc])) (artifactAAD lib [''v2'', keyID, b', a', t', sc']) = None"
  proof (rule ccontr)
    assume "\<not> ?thesis"
    from refuses [OF this] hash have "aad_input [''v2'', keyID, b, a, t, sc] = aad_input [''v2'', keyID, b', a', t', sc']"
      by blast
    then have "[''v2'', keyID, b, a, t, sc] = [''v2'', keyID, b', a', t', sc']"
      by (rule aad_input_inj) (use short(1) k(3) in auto)
    with other show False by simp
  qed
  with k assms(2) show ?thesis
    by (simp add: DecryptArtifact_def artifactCipherVersion_def base64url_decode_encode Let_def)
qed

lemma artifact_not_transferable_witness:
  "\<exists>s e. EncryptArtifact sample_cipher (Some (file_keyring sample_key_file)) (Some sample_nonce) ''authkey''
      ''bind_1'' ''acct_1'' ''authkey'' ''p1'' = Inr s \<and>
    DecryptArtifact sample_cipher (Some (file_keyring sample_key_file)) s ''bind_2'' ''acct_1'' ''authkey'' ''p1'' = Inl e"
proof -
  have sealed: "EncryptArtifact sample_cipher (Some (file_keyring sample_key_file)) (Some sample_nonce) ''authkey''
      ''bind_1'' ''acct_1'' ''authkey'' ''p1'' = Inr (''v2.k1.'' @ base64url_encode (sample_nonce @
        aad_input [''v2'', ''k1'', ''bind_1'', ''acct_1'', ''authkey'', ''p1''] @ ''authkey''))"
    by (simp add: EncryptArtifact_def file_keyring_def sample_keyrings valid_aes_key_def sample_key_def
        artifactCipherVersion_def sample_cipher_def artifact_key_for_def artifactAAD_def Let_def)
  have short: "\<forall>x\<in>{''bind_1'', ''acct_1'', ''authkey'', ''p1'', ''bind_2'', ''acct_1'', ''authkey'', ''p1''}.
      length x < 2 ^ 32" by simp
  have keys: "length keyID < 2 ^ 32" if "ActiveKey (file_keyring sample_key_file) = Inr (keyID, key)" for keyID key
    using that by (auto simp: file_keyring_def sample_keyrings)
  have refuses: "artifactAAD sample_cipher [''v2'', x, ''bind_1'', ''acct_1'', ''authkey'', ''p1''] =
      artifactAAD sample_cipher [''v2'', x, ''bind_2'', ''acct_1'', ''authkey'', ''p1'']"
    if "cl_open sample_cipher key sample_nonce (cl_seal sample_cipher key sample_nonce ''authkey''
        (artifactAAD sample_cipher [''v2'', x, ''bind_1'', ''acct_1'', ''authkey'', ''p1'']))
      (artifactAAD sample_cipher [''v2'', x, ''bind_2'', ''acct_1'', ''authkey'', ''p1'']) \<noteq> None" for key x
  proof -
    let ?a = "aad_input [''v2'', x, ''bind_1'', ''acct_1'', ''authkey'', ''p1'']"
    let ?b = "aad_input [''v2'', x, ''bind_2'', ''acct_1'', ''authkey'', ''p1'']"
    have "length ?a = length ?b" by (simp add: aad_input_def)
    moreover from that have "take (length ?b) (?a @ ''authkey'') = ?b"
      by (auto simp: sample_cipher_def artifactAAD_def split: if_splits)
    ultimately have "?a = ?b" by (metis append_eq_conv_conj)
    then show ?thesis by (simp add: artifactAAD_def)
  qed
  have hash: "artifactAAD sample_cipher ps = artifactAAD sample_cipher qs \<Longrightarrow> aad_input ps = aad_input qs" for ps qs
    by (simp add: artifactAAD_def sample_cipher_def)
  have "\<exists>e. DecryptArtifact sample_cipher (Some (file_keyring sample_key_file))
      (''v2.k1.'' @ base64url_encode (sample_nonce @
        aad_input [''v2'', ''k1'', ''bind_1'', ''acct_1'', ''authkey'', ''p1''] @ ''authkey''))
      ''bind_2'' ''acct_1'' ''authkey'' ''p1'' = Inl e \<and> is_error e ErrInvalidArtifactCiphertext"
  proof (rule artifact_not_transferable [OF sealed sample_nonce_length _ short])
    show "(''bind_2'', ''acct_1'', ''authkey'', ''p1'') \<noteq> (''bind_1'', ''acct_1'', ''authkey'', ''p1'')" by simp
  qed (fact keys hash refuses)+
  with sealed show ?thesis by blast
qed

text \<open>C39: Re-encrypting all credentials returns, with as much fuel as there are credentials.  It changes
  nothing but the envelopes, and every envelope still opens to the same plaintext, even when the run
  stops at an error.  A run without an error leaves every credential under the active key.\<close>

theorem ReencryptAll_reseals:
  assumes "store_ok (db w)" "opens_what_it_seals lib" "sound_nonces nonces"
    and run: "ReencryptAll lib (Some (file_keyring f)) nonces fuel w = (r, w')"
  shows "\<exists>res. r = Inr res \<and> (length (credentials (db w)) < fuel \<longrightarrow> res \<noteq> None) \<and>
    list_all2 (only_resealed lib (file_keyring f)) (credentials (db w)) (credentials (db w')) \<and>
    (\<forall>n. res = Some (n, None) \<longrightarrow> (\<forall>c\<in>set (credentials (db w')).
       EnvelopeNeedsReencryption (Some (file_keyring f)) (cred_blob c) = Inr False))"
proof -
  have "length (filter p xs) < fuel" if "length xs < fuel" for p and xs :: "credential list"
    using that length_filter_le [of p xs] by linarith
  with file_source.reencrypt_loop_outcome [OF assms(2,3) _ assms(1) nothing_resealed [OF assms(1)], of f fuel 0 r w']
    run show ?thesis by (auto simp: ReencryptAll_def)
qed

lemma ReencryptAll_reseals_witness:
  "\<exists>r w'. ReencryptAll sample_cipher (Some (file_keyring rotated_key_file)) (\<lambda>_. Some sample_nonce) 2
      (initial_world sample_db) = (Inr (Some r), w') \<and> length (credentials (db w')) = 1"
proof -
  obtain r w' where run: "ReencryptAll sample_cipher (Some (file_keyring rotated_key_file)) (\<lambda>_. Some sample_nonce) 2
      (initial_world sample_db) = (r, w')" by fastforce
  have "sound_nonces (\<lambda>_. Some sample_nonce)" by (simp add: sound_nonces_def)
  from ReencryptAll_reseals [OF _ sample_cipher_opens this run]
  obtain res where "r = Inr res" "length (credentials sample_db) < 2 \<longrightarrow> res \<noteq> None"
    "list_all2 (only_resealed sample_cipher (file_keyring rotated_key_file)) (credentials sample_db) (credentials (db w'))"
    by auto
  then show ?thesis
    using run list_all2_lengthD by (fastforce simp: sample_db_def)
qed

end
