(* ===== verification/Mihomo_Lifecycle.thy ===== *)
theory Mihomo_Lifecycle
  imports Mihomo_Artifacts Mihomo_Crypto
begin

text \<open>
  The life of issued auth keys: \<open>internal/usecase/artifact_lifecycle.go\<close>.  A key that was issued
  upstream is recorded as a revocation intent before it is used; revoking decrypts it, calls the
  upstream platform and only then forgets it.  The answers of the platform and of the random source,
  and the readings of the clock, are arguments; a revocation the platform accepted is recorded in
  the world's calls.
\<close>

section \<open>Configuration and chance\<close>

text \<open>\<open>ArtifactLifecycle\<close>: whether it has its repository, the Redis prefix of the repository, the
  revoker (with its answers) and the key source.\<close>

record artifact_lifecycle =
  al_configured :: bool
  al_redis :: "string option"
  al_revoker :: "(string \<Rightarrow> merror option) option"
  al_key :: "key_provider option"
  al_cipher :: cipher_library

text \<open>What one call draws: an id for the intent of an artifact (\<open>None\<close> when reading the random source
  fails) and the clock readings when an artifact is staged and when an intent is marked ready.\<close>

record chance =
  ch_intent_id :: "artifact \<Rightarrow> string option"
  ch_staged_at :: "artifact \<Rightarrow> instant"
  ch_ready_at :: "string \<Rightarrow> instant"

definition artifactProvisionalRecoveryDelay :: duration where
  "artifactProvisionalRecoveryDelay = 30 * second"

definition artifactRevocationLease :: duration where
  "artifactRevocationLease = 30 * second"

definition authKeyArtifactType :: string where "authKeyArtifactType = ''authkey''"

section \<open>Staging and revoking\<close>

definition staged_intent :: "chance \<Rightarrow> artifact \<Rightarrow> string \<Rightarrow> string \<Rightarrow> artifact_revocation_intent" where
  "staged_intent ch artifact state intentID = \<lparr>
     bi_intent_id = intentID, bi_binding_ref = art_binding_ref artifact,
     bi_account_key = art_account_key artifact, bi_type = art_type artifact,
     bi_value = art_value artifact, bi_scope_key = art_scope_key artifact,
     bi_expires_at = art_expires_at artifact, bi_state = state,
     bi_ready_after = (if state = ''provisional'' then ch_staged_at ch artifact + artifactProvisionalRecoveryDelay
                       else ch_staged_at ch artifact),
     bi_lease_token = '''', bi_lease_expires_at = None\<rparr>"

definition stageArtifact ::
    "artifact_lifecycle \<Rightarrow> chance \<Rightarrow> artifact \<Rightarrow> string \<Rightarrow> artifact_revocation_intent option meff" where
  "stageArtifact l ch artifact state =
     (if \<not> al_configured l then raise ErrArtifactStorageNotConfigured
      else case ch_intent_id ch artifact of
        None \<Rightarrow> raise (OtherError ''random source'')
      | Some intentID \<Rightarrow> PutRevocationIntentImmediately (staged_intent ch artifact state intentID))"

definition StageIssuedArtifact ::
    "artifact_lifecycle \<Rightarrow> chance \<Rightarrow> artifact \<Rightarrow> artifact_revocation_intent option meff" where
  "StageIssuedArtifact l ch artifact = stageArtifact l ch artifact ''provisional''"

definition FinalizeIssuedArtifact :: "artifact_lifecycle \<Rightarrow> string \<Rightarrow> unit meff" where
  "FinalizeIssuedArtifact l intentID =
     (if \<not> al_configured l then raise ErrArtifactStorageNotConfigured
      else FinalizeRevocationIntentImmediately intentID)"

text \<open>The call to the platform, recorded when it was accepted.\<close>

definition RevokeAuthKey :: "(string \<Rightarrow> merror option) \<Rightarrow> string \<Rightarrow> unit meff" where
  "RevokeAuthKey revoker authKey = (case revoker authKey of
       Some e \<Rightarrow> raise e
     | None \<Rightarrow> external (Revoked_AuthKey authKey) (Inr ()))"

definition open_intent :: "artifact_lifecycle \<Rightarrow> artifact_revocation_intent \<Rightarrow> merror + string" where
  "open_intent l intent = DecryptArtifact (al_cipher l) (al_key l) (bi_value intent)
     (bi_binding_ref intent) (bi_account_key intent) (bi_type intent) (bi_scope_key intent)"

definition revoke_and_forget ::
    "artifact_lifecycle \<Rightarrow> (string \<Rightarrow> merror option) \<Rightarrow> artifact_revocation_intent \<Rightarrow> unit meff" where
  "revoke_and_forget l revoker intent =
     andThen (lift_result (open_intent l intent)) (\<lambda>authKey.
     andThen (map_error (Joined ErrArtifactRevocationPending) (RevokeAuthKey revoker authKey)) (\<lambda>_.
     andThen (map_error (Joined ErrArtifactRevocationPending)
       (DeleteArtifactImmediately (al_redis l) (bi_binding_ref intent) (bi_type intent)
          (bi_scope_key intent) (bi_value intent))) (\<lambda>_.
     DeleteRevocationIntentImmediately (bi_intent_id intent))))"

definition revokeIssuedArtifact ::
    "artifact_lifecycle \<Rightarrow> chance \<Rightarrow> artifact_revocation_intent option \<Rightarrow> bool \<Rightarrow> unit meff" where
  "revokeIssuedArtifact l ch revocationIntent markReady =
     (if \<not> al_configured l then raise ErrArtifactStorageNotConfigured
      else case al_revoker l of
        None \<Rightarrow> raise ErrArtifactStorageNotConfigured
      | Some revoker \<Rightarrow> (case revocationIntent of
          None \<Rightarrow> return ()
        | Some intent \<Rightarrow>
            andThen (if markReady
                     then map_error (Joined ErrArtifactRevocationPending)
                       (MarkRevocationIntentReadyImmediately (ch_ready_at ch (bi_intent_id intent)) (bi_intent_id intent))
                     else return ()) (\<lambda>_.
            revoke_and_forget l revoker intent)))"

definition RevokeIssuedArtifact ::
    "artifact_lifecycle \<Rightarrow> chance \<Rightarrow> artifact_revocation_intent option \<Rightarrow> unit meff" where
  "RevokeIssuedArtifact l ch intent = revokeIssuedArtifact l ch intent True"

definition RevokeUntrackedAuthKey :: "artifact_lifecycle \<Rightarrow> string \<Rightarrow> unit meff" where
  "RevokeUntrackedAuthKey l authKey = (case al_revoker l of
       None \<Rightarrow> raise ErrArtifactStorageNotConfigured
     | Some revoker \<Rightarrow> RevokeAuthKey revoker authKey)"

definition lifecycle_DeleteExpired :: "artifact_lifecycle \<Rightarrow> instant \<Rightarrow> nat meff" where
  "lifecycle_DeleteExpired l expiredBefore =
     (if \<not> al_configured l then raise ErrArtifactStorageNotConfigured
      else DeleteExpired (al_redis l) expiredBefore)"

text \<open>\<open>errors.Join\<close> onto an error that may still be nil.\<close>

definition join_error :: "merror option \<Rightarrow> merror \<Rightarrow> merror option" where
  "join_error acc err = Some (case acc of None \<Rightarrow> err | Some e \<Rightarrow> Joined e err)"

text \<open>Every intent is tried; the errors are collected.\<close>

fun revoke_all ::
    "artifact_lifecycle \<Rightarrow> chance \<Rightarrow> artifact_revocation_intent option list \<Rightarrow> merror option \<Rightarrow> merror option meff" where
  "revoke_all l ch [] revokeErr = return revokeErr"
| "revoke_all l ch (intent # rest) revokeErr =
     andThen (attempt (RevokeIssuedArtifact l ch intent)) (\<lambda>r.
     revoke_all l ch rest (case r of Inl err \<Rightarrow> join_error revokeErr err | Inr _ \<Rightarrow> revokeErr))"

definition InvalidateBinding :: "artifact_lifecycle \<Rightarrow> chance \<Rightarrow> string \<Rightarrow> unit meff" where
  "InvalidateBinding l ch bindingRef =
     (if \<not> al_configured l then raise ErrArtifactStorageNotConfigured
      else if bindingRef = '''' then return ()
      else andThen (ListByBindingRef_artifact bindingRef) (\<lambda>as.
      andThen (for_each (filter (\<lambda>a. art_type a = authKeyArtifactType) as)
                 (\<lambda>a. stageArtifact l ch a ''ready'')) (\<lambda>staged.
      andThen (map_error (\<lambda>err. if staged \<noteq> [] then Joined ErrArtifactRevocationPending err else err)
                 (MarkRevocationPendingImmediately (al_redis l) bindingRef)) (\<lambda>_.
      andThen (revoke_all l ch staged None) (\<lambda>revokeErr.
      case revokeErr of
        Some e \<Rightarrow> raise (Joined ErrArtifactRevocationPending e)
      | None \<Rightarrow> DeleteByBindingRefImmediately (al_redis l) bindingRef)))))"

text \<open>One claimed intent of the recovery worker, and the loop over them.\<close>

definition retry_intent ::
    "artifact_lifecycle \<Rightarrow> chance \<Rightarrow> string \<Rightarrow> artifact_revocation_intent \<Rightarrow> merror option meff" where
  "retry_intent l ch leaseToken intent =
     andThen (attempt (if bi_state intent = ''provisional''
                then ResolveProvisionalRevocationIntent (bi_intent_id intent) leaseToken
                else return True)) (\<lambda>resolved.
     case resolved of
       Inl err \<Rightarrow> andThen (attempt (ReleaseRevocationIntentClaim (bi_intent_id intent) leaseToken))
                    (\<lambda>_. return (Some err))
     | Inr shouldRevoke \<Rightarrow>
         if \<not> shouldRevoke then return None
         else andThen (attempt (revokeIssuedArtifact l ch (Some intent) False)) (\<lambda>revoked.
           case revoked of
             Inr _ \<Rightarrow> return None
           | Inl err \<Rightarrow> andThen (attempt (ReleaseRevocationIntentClaim (bi_intent_id intent) leaseToken))
                          (\<lambda>_. return (Some err))))"

definition RetryPending ::
    "artifact_lifecycle \<Rightarrow> chance \<Rightarrow> string list \<Rightarrow> instant \<Rightarrow> string option \<Rightarrow> merror option meff" where
  "RetryPending l ch locked now token =
     (if \<not> al_configured l then raise ErrArtifactStorageNotConfigured
      else case token of
        None \<Rightarrow> raise (OtherError ''random source'')
      | Some leaseToken \<Rightarrow>
          andThen (ClaimRevocationIntents locked now (now + artifactRevocationLease) leaseToken) (\<lambda>claimed.
          andThen (for_each claimed (retry_intent l ch leaseToken)) (\<lambda>errs.
          return (fold (\<lambda>e acc. case e of None \<Rightarrow> acc | Some err \<Rightarrow> join_error acc err) errs None))))"

section \<open>Invariants\<close>

lemmas lifecycle_defs = stageArtifact_def StageIssuedArtifact_def FinalizeIssuedArtifact_def RevokeAuthKey_def
  revoke_and_forget_def revokeIssuedArtifact_def RevokeIssuedArtifact_def RevokeUntrackedAuthKey_def
  lifecycle_DeleteExpired_def InvalidateBinding_def retry_intent_def RetryPending_def

lemma RevokeAuthKey_rules [keeps_rules, simp]:
  "keeps I (RevokeAuthKey r k)" "frames f (RevokeAuthKey r k)"
  by (simp_all add: RevokeAuthKey_def split: option.splits)

lemma revoke_all_keeps [keeps_rules]:
  "(\<And>i. keeps I (RevokeIssuedArtifact l ch i)) \<Longrightarrow> keeps I (revoke_all l ch is e)"
  by (induction "is" arbitrary: e) (auto intro!: keeps_rules)

lemma revoke_all_frames [keeps_rules]:
  "(\<And>i. frames f (RevokeIssuedArtifact l ch i)) \<Longrightarrow> frames f (revoke_all l ch is e)"
  by (induction "is" arbitrary: e) (auto intro!: keeps_rules)

lemma lifecycle_keeps [keeps_rules, simp]:
  "keeps store_ok (stageArtifact l ch a s)" "keeps store_ok (StageIssuedArtifact l ch a)"
  "keeps store_ok (FinalizeIssuedArtifact l i)" "keeps store_ok (revoke_and_forget l r j)"
  "keeps store_ok (revokeIssuedArtifact l ch ri m)" "keeps store_ok (RevokeIssuedArtifact l ch ri)"
  "keeps store_ok (RevokeUntrackedAuthKey l k)" "keeps store_ok (lifecycle_DeleteExpired l t)"
  "keeps store_ok (InvalidateBinding l ch b)" "keeps store_ok (retry_intent l ch tk j)"
  "keeps store_ok (RetryPending l ch locked now tok)"
  by (auto simp: lifecycle_defs intro!: keeps_rules)

lemma lifecycle_frames [keeps_rules, simp]:
  "frames safeguards (stageArtifact l ch a s)" "frames safeguards (StageIssuedArtifact l ch a)"
  "frames safeguards (FinalizeIssuedArtifact l i)" "frames safeguards (revoke_and_forget l r j)"
  "frames safeguards (revokeIssuedArtifact l ch ri m)" "frames safeguards (RevokeIssuedArtifact l ch ri)"
  "frames safeguards (RevokeUntrackedAuthKey l k)" "frames safeguards (lifecycle_DeleteExpired l t)"
  "frames safeguards (InvalidateBinding l ch b)" "frames safeguards (retry_intent l ch tk j)"
  "frames safeguards (RetryPending l ch locked now tok)"
  by (auto simp: lifecycle_defs intro!: keeps_rules)

section \<open>Effects on the committed tables\<close>

text \<open>A statement on its own connection acts on the committed tables.\<close>

lemma committed_simps [simp]:
  "committed (w\<lparr>faults := fs\<rparr>) = committed w" "committed (w\<lparr>calls := cs\<rparr>) = committed w"
  by (simp_all add: committed_def split: option.splits)

lemma on_db_committed:
  assumes "on_db True q w = (r, w')"
  shows "calls w' = calls w \<and>
    (case r of Inl _ \<Rightarrow> committed w' = committed w | Inr x \<Rightarrow> q (committed w) = Inr (x, committed w'))"
  using assms
  by (auto simp: on_db_def immediately_def statement_def committed_def split: option.splits prod.splits sum.splits if_splits)

lemma change_on_committed:
  assumes "change_on True f w = (r, w')"
  shows "calls w' = calls w \<and>
    (case r of Inl _ \<Rightarrow> committed w' = committed w | Inr _ \<Rightarrow> committed w' = f (committed w) \<and> store_ok (committed w'))"
  using assms on_db_committed [of "checked_write (\<lambda>_. 0) f" w]
  by (auto simp: change_on_def effect_simps split: prod.splits sum.splits dest!: checked_write_InrD)

lemma deleteCacheKeys_committed:
  assumes "deleteCacheKeys redis ks w = (r, w')"
  shows "committed w' = committed w \<and> set (calls w) \<subseteq> set (calls w')"
  using assms
  by (auto simp: deleteCacheKeys_def cache_command_def statement_def committed_def effect_simps
      split: if_splits prod.splits option.splits)

lemma records_committed:
  assumes "recordsForBindingCacheDeletion redis True b w = (r, w')"
  shows "committed w' = committed w \<and> calls w' = calls w"
  using assms on_db_committed [of "\<lambda>d. Inr (filter (\<lambda>r. art_binding_ref r = b) (artifacts d), d)" w]
  by (auto simp: recordsForBindingCacheDeletion_def effect_simps split: if_splits sum.splits)

text \<open>What the immediate operations may do to the committed tables, success or not.\<close>

lemma MarkPending_committed:
  assumes "MarkRevocationPendingImmediately redis b w = (r, w')"
  shows "set (calls w) \<subseteq> set (calls w') \<and> committed w' \<in> {committed w, mark_pending b (committed w)}"
  using assms unfolding MarkRevocationPendingImmediately_def
  by (auto simp: effect_simps split: prod.splits sum.splits
      dest!: records_committed change_on_committed deleteCacheKeys_committed)

lemma DeleteByBinding_committed:
  assumes "DeleteByBindingRefImmediately redis b w = (r, w')"
  shows "set (calls w) \<subseteq> set (calls w') \<and>
    committed w' \<in> {committed w, delete_artifacts (\<lambda>r. art_binding_ref r = b) (committed w)} \<and>
    (\<forall>u. r = Inr u \<longrightarrow> committed w' = delete_artifacts (\<lambda>r. art_binding_ref r = b) (committed w))"
  using assms unfolding DeleteByBindingRefImmediately_def deleteByBindingRef_artifact_def
  by (auto simp: effect_simps split: prod.splits sum.splits
      dest!: records_committed change_on_committed deleteCacheKeys_committed)

lemma DeleteArtifact_committed:
  assumes "DeleteArtifactImmediately redis b t s v w = (r, w')"
  shows "set (calls w) \<subseteq> set (calls w') \<and>
    committed w' \<in> {committed w, delete_artifacts (is_artifact b t s v) (committed w)}"
  using assms unfolding DeleteArtifactImmediately_def Let_def
  by (auto simp: effect_simps split: prod.splits sum.splits option.splits
      dest!: on_db_committed change_on_committed deleteCacheKeys_committed)

lemma MarkReady_committed:
  assumes "MarkRevocationIntentReadyImmediately now i w = (r, w')"
  shows "calls w' = calls w \<and> committed w' \<in> {committed w, update_intents (\<lambda>x. int_intent_id x = i)
       (\<lambda>x. x\<lparr>int_state := ''ready'', int_ready_after := now, int_lease_token := None,
               int_lease_expires_at := None\<rparr>) (committed w)}"
  using assms unfolding MarkRevocationIntentReadyImmediately_def
  by (auto split: sum.splits dest!: change_on_committed)

lemma DeleteIntent_committed:
  assumes "DeleteRevocationIntentImmediately i w = (r, w')"
  shows "calls w' = calls w \<and>
    committed w' \<in> {committed w, delete_intents (\<lambda>x. int_intent_id x = i) (committed w)}"
  using assms unfolding DeleteRevocationIntentImmediately_def
  by (auto split: sum.splits dest!: change_on_committed)

lemma ListByBinding_committed:
  assumes "ListByBindingRef_artifact b w = (r, w')"
  shows "committed w' = committed w \<and> calls w' = calls w \<and> db w' = db w \<and>
    (\<forall>as. r = Inr as \<longrightarrow> as = map artifactFromRecord (filter (\<lambda>x. art_binding_ref x = b) (artifacts (db w))))"
  using assms
  by (auto simp: ListByBindingRef_artifact_def query_def statement_def effect_simps split: prod.splits if_splits)

lemma Put_committed:
  assumes "PutRevocationIntentImmediately j w = (r, w')"
  shows "calls w' = calls w \<and> (case r of Inl _ \<Rightarrow> committed w' = committed w
    | Inr x \<Rightarrow> committed w' = (committed w)\<lparr>intents := upsert intent_payload merge_intent
          (revocationIntentRecord j) (intents (committed w))\<rparr> \<and> store_ok (committed w') \<and>
        x = map_option revocationIntentFromRecord (find (\<lambda>i. intent_payload i =
          intent_payload (revocationIntentRecord j))
          (upsert intent_payload merge_intent (revocationIntentRecord j) (intents (committed w)))))"
  using assms unfolding PutRevocationIntentImmediately_def Let_def
  by (auto simp: effect_simps store_ok_def split: prod.splits sum.splits option.splits dest!: on_db_committed)

section \<open>No recorded key is lost\<close>

definition bi_payload :: "artifact_revocation_intent \<Rightarrow> string \<times> string \<times> string \<times> string" where
  "bi_payload j = (bi_binding_ref j, bi_type j, bi_scope_key j, bi_value j)"

text \<open>A payload: binding, type, scope and sealed value.  Its key was revoked when the platform
  accepted the revocation of what the value opens to.\<close>

definition revoked_payload ::
    "artifact_lifecycle \<Rightarrow> (string \<times> string \<times> string \<times> string) \<Rightarrow> mworld \<Rightarrow> bool" where
  "revoked_payload l P w \<longleftrightarrow> (case P of (b, t, s, v) \<Rightarrow>
     \<exists>account k. DecryptArtifact (al_cipher l) (al_key l) v b account t s = Inr k \<and>
       Revoked_AuthKey k \<in> set (calls w))"

text \<open>The intent \<open>j\<close> is the committed row of its id, if there is one.\<close>

definition tracks :: "artifact_revocation_intent \<Rightarrow> revocation_intent list \<Rightarrow> bool" where
  "tracks j rows \<longleftrightarrow> (\<forall>i\<in>set rows. int_intent_id i = bi_intent_id j \<longrightarrow> intent_payload i = bi_payload j)"

definition secured ::
    "artifact_lifecycle \<Rightarrow> (string \<times> string \<times> string \<times> string) \<Rightarrow> mworld \<Rightarrow> bool" where
  "secured l P w \<longleftrightarrow> revoked_payload l P w \<or> P \<in> intent_payload ` set (intents (committed w))"

text \<open>One table of intents is another with rows removed or their state changed.\<close>

definition no_new_intents :: "revocation_intent list \<Rightarrow> revocation_intent list \<Rightarrow> bool" where
  "no_new_intents rows rows' \<longleftrightarrow> (\<forall>i\<in>set rows'. \<exists>i0\<in>set rows. int_intent_id i = int_intent_id i0 \<and>
     intent_payload i = intent_payload i0)"

lemma no_new_intents_refl [simp]: "no_new_intents rows rows"
  by (auto simp: no_new_intents_def)

lemma no_new_intents_trans: "no_new_intents a b \<Longrightarrow> no_new_intents b c \<Longrightarrow> no_new_intents a c"
  by (fastforce simp: no_new_intents_def)

lemma no_new_intents_tracks: "no_new_intents rows rows' \<Longrightarrow> tracks j rows \<Longrightarrow> tracks j rows'"
  by (fastforce simp: no_new_intents_def tracks_def)

lemma no_new_intents_update:
  assumes "\<And>x. int_intent_id (f x) = int_intent_id x" "\<And>x. intent_payload (f x) = intent_payload x"
  shows "no_new_intents rows (update_where p f rows)"
    "intent_payload ` set (update_where p f rows) = intent_payload ` set rows"
proof -
  have "map intent_payload (update_where p f rows) = map intent_payload rows"
    by (simp add: update_where_def assms)
  then have "set (map intent_payload (update_where p f rows)) = set (map intent_payload rows)" by simp
  then show "intent_payload ` set (update_where p f rows) = intent_payload ` set rows" by (simp only: set_map)
  show "no_new_intents rows (update_where p f rows)"
    unfolding no_new_intents_def
  proof
    fix i assume "i \<in> set (update_where p f rows)"
    then obtain x where "x \<in> set rows" "i = (if p x then f x else x)" by (auto simp: update_where_def)
    then show "\<exists>i0\<in>set rows. int_intent_id i = int_intent_id i0 \<and> intent_payload i = intent_payload i0"
      by (intro bexI [of _ x]) (simp_all add: assms)
  qed
qed

lemma MarkReady_intents:
  assumes "MarkRevocationIntentReadyImmediately now i w = (r, w')"
  shows "no_new_intents (intents (committed w)) (intents (committed w')) \<and>
    intent_payload ` set (intents (committed w')) = intent_payload ` set (intents (committed w)) \<and>
    artifacts (committed w') = artifacts (committed w) \<and> calls w' = calls w"
proof -
  let ?f = "\<lambda>x. x\<lparr>int_state := ''ready'', int_ready_after := now, int_lease_token := None,
               int_lease_expires_at := None\<rparr>"
  let ?p = "\<lambda>x. int_intent_id x = i"
  have f: "int_intent_id (?f x) = int_intent_id x" "intent_payload (?f x) = intent_payload x" for x
    by (simp_all add: intent_payload_def)
  from MarkReady_committed [OF assms] have calls: "calls w' = calls w"
    and cases: "committed w' = committed w \<or> committed w' = update_intents ?p ?f (committed w)" by blast+
  from cases show ?thesis
  proof
    assume "committed w' = update_intents ?p ?f (committed w)"
    then have "intents (committed w') = update_where ?p ?f (intents (committed w))"
      "artifacts (committed w') = artifacts (committed w)"
      by (simp_all add: update_intents_def)
    with calls no_new_intents_update [of ?f, OF f] show ?thesis by simp
  qed (simp add: calls)
qed

definition row_payload :: "'a artifact_scheme \<Rightarrow> string \<times> string \<times> string \<times> string" where
  "row_payload a = (art_binding_ref a, art_type a, art_scope_key a, art_value a)"

text \<open>Revoking never loses a key: an intent or an artifact row goes only after the platform accepted
  the revocation of what it seals.\<close>

definition custody_kept :: "artifact_lifecycle \<Rightarrow> mworld \<Rightarrow> mworld \<Rightarrow> bool" where
  "custody_kept l w w' \<longleftrightarrow> set (calls w) \<subseteq> set (calls w') \<and>
     no_new_intents (intents (committed w)) (intents (committed w')) \<and>
     set (artifacts (committed w')) \<subseteq> set (artifacts (committed w)) \<and>
     (\<forall>P. secured l P w \<longrightarrow> secured l P w') \<and>
     (\<forall>x\<in>set (artifacts (committed w)). x \<in> set (artifacts (committed w')) \<or> revoked_payload l (row_payload x) w')"

lemma revoked_payload_mono:
  "revoked_payload l P w \<Longrightarrow> set (calls w) \<subseteq> set (calls v) \<Longrightarrow> revoked_payload l P v"
  by (auto simp: revoked_payload_def split: prod.splits)

lemma custody_kept_refl [simp]: "custody_kept l w w"
  by (simp add: custody_kept_def)

lemma custody_kept_trans: "custody_kept l w1 w2 \<Longrightarrow> custody_kept l w2 w3 \<Longrightarrow> custody_kept l w1 w3"
  unfolding custody_kept_def by (meson no_new_intents_trans revoked_payload_mono subset_trans)

lemma same_tables_custody:
  "committed w' = committed w \<Longrightarrow> set (calls w) \<subseteq> set (calls w') \<Longrightarrow> custody_kept l w w'"
  by (auto simp: custody_kept_def secured_def intro: revoked_payload_mono)

lemma revoke_and_forget_custody:
  assumes run: "revoke_and_forget l rv j w = (r, w')" and t: "tracks j (intents (committed w))"
  shows "custody_kept l w w' \<and> (\<forall>u. r = Inr u \<longrightarrow> revoked_payload l (bi_payload j) w')"
proof (cases "open_intent l j")
  case (Inl e)
  with run show ?thesis by (auto simp: revoke_and_forget_def effect_simps)
next
  case opened: (Inr k)
  show ?thesis
  proof (cases "rv k")
    case (Some e)
    with run opened show ?thesis by (auto simp: revoke_and_forget_def RevokeAuthKey_def effect_simps)
  next
    case None
    let ?w1 = "w\<lparr>calls := calls w @ [Revoked_AuthKey k]\<rparr>"
    obtain r2 w2 where del: "DeleteArtifactImmediately (al_redis l) (bi_binding_ref j) (bi_type j)
        (bi_scope_key j) (bi_value j) ?w1 = (r2, w2)" by fastforce
    note d = DeleteArtifact_committed [OF del]
    have rev: "revoked_payload l (bi_payload j) v" if "set (calls ?w1) \<subseteq> set (calls v)" for v
      using opened that by (auto simp: revoked_payload_def bi_payload_def open_intent_def)
    have rows: "x \<in> set (artifacts (committed w2)) \<or> row_payload x = bi_payload j" if "x \<in> set (artifacts (committed w))" for x
      using d that by (auto simp: delete_artifacts_def is_artifact_def row_payload_def bi_payload_def)
    have c2: "custody_kept l w w2"
      unfolding custody_kept_def
    proof (intro conjI allI impI ballI)
      fix P assume "secured l P w"
      with d show "secured l P w2"
        by (auto simp: secured_def delete_artifacts_def intro: revoked_payload_mono)
    next
      fix x assume "x \<in> set (artifacts (committed w))"
      with rows [OF this] rev d show "x \<in> set (artifacts (committed w2)) \<or> revoked_payload l (row_payload x) w2" by auto
    qed (use d in \<open>auto simp: delete_artifacts_def\<close>)
    show ?thesis
    proof (cases r2)
      case (Inl e)
      with run opened None del have "w' = w2" "r = Inl (Joined ErrArtifactRevocationPending e)"
        by (auto simp: revoke_and_forget_def RevokeAuthKey_def effect_simps)
      with c2 show ?thesis by simp
    next
      case r2: (Inr u)
      with run opened None del have last: "DeleteRevocationIntentImmediately (bi_intent_id j) w2 = (r, w')"
        by (auto simp: revoke_and_forget_def RevokeAuthKey_def effect_simps)
      note e = DeleteIntent_committed [OF last]
      have j: "revoked_payload l (bi_payload j) w'" using rev d e by auto
      have t2: "tracks j (intents (committed w2))"
        using t d by (auto simp: delete_artifacts_def)
      have "custody_kept l w2 w'"
        unfolding custody_kept_def
      proof (intro conjI allI impI ballI)
        fix P assume P: "secured l P w2"
        show "secured l P w'"
        proof (cases "P = bi_payload j")
          case False
          with P t2 e show ?thesis
            by (auto simp: secured_def tracks_def delete_intents_def intro: revoked_payload_mono)
        qed (simp add: j secured_def)
      qed (use e in \<open>auto simp: delete_intents_def no_new_intents_def\<close>)
      with c2 j show ?thesis by (blast intro: custody_kept_trans)
    qed
  qed
qed

lemma RevokeIssuedArtifact_custody:
  assumes run: "RevokeIssuedArtifact l ch (Some j) w = (r, w')" and t: "tracks j (intents (committed w))"
  shows "custody_kept l w w' \<and> (\<forall>u. r = Inr u \<longrightarrow> revoked_payload l (bi_payload j) w')"
proof (cases "al_configured l \<and> al_revoker l \<noteq> None")
  case True
  then obtain rv where l: "al_configured l" "al_revoker l = Some rv" by auto
  obtain r1 w1 where m: "MarkRevocationIntentReadyImmediately (ch_ready_at ch (bi_intent_id j)) (bi_intent_id j) w = (r1, w1)"
    by fastforce
  note e = MarkReady_intents [OF m]
  then have c: "custody_kept l w w1"
    by (auto simp: custody_kept_def secured_def intro: revoked_payload_mono)
  from e t have t1: "tracks j (intents (committed w1))" by (blast intro: no_new_intents_tracks)
  show ?thesis
  proof (cases r1)
    case (Inl err)
    with run l m c show ?thesis
      by (auto simp: RevokeIssuedArtifact_def revokeIssuedArtifact_def effect_simps)
  next
    case (Inr u)
    with run l m have "revoke_and_forget l rv j w1 = (r, w')"
      by (simp add: RevokeIssuedArtifact_def revokeIssuedArtifact_def effect_simps)
    with c revoke_and_forget_custody [OF this t1] show ?thesis by (blast intro: custody_kept_trans)
  qed
qed (use run in \<open>auto simp: RevokeIssuedArtifact_def revokeIssuedArtifact_def effect_simps split: option.splits\<close>)

lemma revoke_all_custody:
  assumes "revoke_all l ch js e w = (r, w')" "\<And>j. j \<in> set js \<Longrightarrow> \<exists>j'. j = Some j'"
    and "\<And>j. Some j \<in> set js \<Longrightarrow> tracks j (intents (committed w))"
  shows "custody_kept l w w' \<and> (\<exists>e'. r = Inr e' \<and> (e' = None \<longrightarrow> e = None \<and>
    (\<forall>j. Some j \<in> set js \<longrightarrow> revoked_payload l (bi_payload j) w')))"
  using assms
proof (induction js arbitrary: e w)
  case Nil
  then show ?case by (auto simp: effect_simps)
next
  case (Cons j js)
  from Cons.prems(2) [of j] obtain j' where j: "j = Some j'" by auto
  obtain q w1 where one: "RevokeIssuedArtifact l ch (Some j') w = (q, w1)" by fastforce
  from RevokeIssuedArtifact_custody [OF this] Cons.prems(3) j
  have c: "custody_kept l w w1" "\<forall>u. q = Inr u \<longrightarrow> revoked_payload l (bi_payload j') w1" by auto
  let ?e = "case q of Inl err \<Rightarrow> join_error e err | Inr _ \<Rightarrow> e"
  have "revoke_all l ch js ?e w1 = (r, w')"
    using Cons.prems(1) one j by (simp add: effect_simps)
  moreover have "no_new_intents (intents (committed w)) (intents (committed w1))"
    using c(1) by (simp add: custody_kept_def)
  then have "tracks i (intents (committed w1))" if "Some i \<in> set js" for i
    by (rule no_new_intents_tracks) (use that Cons.prems(3) in simp)
  ultimately have "custody_kept l w1 w' \<and> (\<exists>e'. r = Inr e' \<and> (e' = None \<longrightarrow> ?e = None \<and>
    (\<forall>j. Some j \<in> set js \<longrightarrow> revoked_payload l (bi_payload j) w')))"
    using Cons.prems(2) by (intro Cons.IH) auto
  then obtain e' where tail: "custody_kept l w1 w'" "r = Inr e'"
    "e' = None \<Longrightarrow> ?e = None \<and> (\<forall>j. Some j \<in> set js \<longrightarrow> revoked_payload l (bi_payload j) w')" by auto
  have "e = None \<and> revoked_payload l (bi_payload j') w'" if "?e = None"
    using that c(2) tail(1) by (auto simp: join_error_def custody_kept_def intro: revoked_payload_mono split: sum.splits)
  with custody_kept_trans [OF c(1) tail(1)] tail(2,3) j show ?case by auto
qed

section \<open>Invalidating a binding\<close>

lemma merge_intent_keeps [simp]:
  "int_intent_id (merge_intent old new) = int_intent_id old"
  "intent_payload (merge_intent old new) = intent_payload old"
  by (simp_all add: merge_intent_def intent_payload_def)

lemma upsert_keeps_intents: "no_new_intents (upsert intent_payload merge_intent new rows) rows"
  unfolding no_new_intents_def
proof
  fix i assume i: "i \<in> set rows"
  let ?i = "if intent_payload i = intent_payload new then merge_intent i new else i"
  have "?i \<in> set (upsert intent_payload merge_intent new rows)"
    using i by (auto simp: upsert_def update_where_def list_ex_iff)
  then show "\<exists>i0\<in>set (upsert intent_payload merge_intent new rows).
      int_intent_id i = int_intent_id i0 \<and> intent_payload i = intent_payload i0"
    by (rule bexI [rotated]) simp
qed

text \<open>The intent \<open>j\<close> stands in the table.\<close>

definition stands :: "artifact_revocation_intent \<Rightarrow> revocation_intent list \<Rightarrow> bool" where
  "stands j rows \<longleftrightarrow> (\<exists>i\<in>set rows. int_intent_id i = bi_intent_id j \<and> intent_payload i = bi_payload j)"

lemma stands_mono: "no_new_intents rows' rows \<Longrightarrow> stands j rows \<Longrightarrow> stands j rows'"
  by (fastforce simp: no_new_intents_def stands_def)

lemma stands_tracks: "stands j (intents d) \<Longrightarrow> store_ok d \<Longrightarrow> tracks j (intents d)"
  unfolding stands_def tracks_def using intent_unique by metis

lemma stageArtifact_effect:
  assumes "stageArtifact l ch a s w = (r, w')"
  shows "calls w' = calls w \<and> artifacts (committed w') = artifacts (committed w) \<and>
    no_new_intents (intents (committed w')) (intents (committed w)) \<and>
    (store_ok (committed w) \<longrightarrow> store_ok (committed w')) \<and>
    (\<forall>x. r = Inr x \<longrightarrow> (\<exists>j. x = Some j \<and> bi_payload j = row_payload a \<and> stands j (intents (committed w'))))"
proof (cases "al_configured l \<and> ch_intent_id ch a \<noteq> None")
  case True
  then obtain i where "al_configured l" "ch_intent_id ch a = Some i" by auto
  with assms have put: "PutRevocationIntentImmediately (staged_intent ch a s i) w = (r, w')"
    by (simp add: stageArtifact_def)
  note p = Put_committed [OF put]
  let ?rec = "revocationIntentRecord (staged_intent ch a s i)"
  show ?thesis
  proof (cases r)
    case (Inl e)
    with p show ?thesis by simp
  next
    case (Inr x)
    with p have d: "committed w' = (committed w)\<lparr>intents := upsert intent_payload merge_intent ?rec (intents (committed w))\<rparr>"
      and x: "x = map_option revocationIntentFromRecord (find (\<lambda>i. intent_payload i = intent_payload ?rec)
          (upsert intent_payload merge_intent ?rec (intents (committed w))))" by simp_all
    then have ds: "intents (committed w') = upsert intent_payload merge_intent ?rec (intents (committed w))"
      "artifacts (committed w') = artifacts (committed w)" by simp_all
    obtain row where row: "find (\<lambda>i. intent_payload i = intent_payload ?rec)
        (upsert intent_payload merge_intent ?rec (intents (committed w))) = Some row"
      by (simp add: intent_table.upsert_lookup_same)
    from find_SomeD [OF row] have r: "row \<in> set (intents (committed w'))" "intent_payload row = row_payload a"
      by (simp_all add: ds revocationIntentRecord_def staged_intent_def intent_payload_def row_payload_def)
    have "bi_payload (revocationIntentFromRecord row) = intent_payload row"
      "bi_intent_id (revocationIntentFromRecord row) = int_intent_id row"
      by (simp_all add: revocationIntentFromRecord_def bi_payload_def intent_payload_def)
    with r have "bi_payload (revocationIntentFromRecord row) = row_payload a"
      "stands (revocationIntentFromRecord row) (intents (committed w'))"
      by (auto simp: stands_def)
    with x row p Inr ds upsert_keeps_intents show ?thesis by auto
  qed
qed (use assms in \<open>auto simp: stageArtifact_def effect_simps split: if_splits option.splits\<close>)

lemma stage_all_effect:
  assumes "for_each as (\<lambda>a. stageArtifact l ch a s) w = (r, w')"
  shows "calls w' = calls w \<and> artifacts (committed w') = artifacts (committed w) \<and>
    no_new_intents (intents (committed w')) (intents (committed w)) \<and>
    (store_ok (committed w) \<longrightarrow> store_ok (committed w')) \<and>
    (\<forall>js. r = Inr js \<longrightarrow> list_all2 (\<lambda>a x. \<exists>j. x = Some j \<and> bi_payload j = row_payload a \<and>
        stands j (intents (committed w'))) as js)"
  using assms
proof (induction as arbitrary: w r)
  case Nil
  then show ?case by (auto simp: effect_simps)
next
  case (Cons a as)
  obtain q w1 where one: "stageArtifact l ch a s w = (q, w1)" by fastforce
  note e = stageArtifact_effect [OF one]
  show ?case
  proof (cases q)
    case (Inl err)
    with Cons.prems one e show ?thesis by (auto simp: effect_simps)
  next
    case (Inr x)
    obtain q2 w2 where rest: "for_each as (\<lambda>a. stageArtifact l ch a s) w1 = (q2, w2)" by fastforce
    from Cons.prems one Inr rest have w': "w' = w2" "r = map_sum id (\<lambda>ys. x # ys) q2"
      by (auto simp: effect_simps split: sum.splits)
    from Cons.IH [OF rest [folded w'(1)]] have f: "calls w' = calls w1" "artifacts (committed w') = artifacts (committed w1)"
      "no_new_intents (intents (committed w')) (intents (committed w1))"
      "store_ok (committed w1) \<longrightarrow> store_ok (committed w')"
      "\<And>js. q2 = Inr js \<Longrightarrow> list_all2 (\<lambda>a x. \<exists>j. x = Some j \<and> bi_payload j = row_payload a \<and>
        stands j (intents (committed w'))) as js" by auto
    from e Inr obtain j where "x = Some j" "bi_payload j = row_payload a" "stands j (intents (committed w1))" by auto
    with stands_mono [OF f(3)] f e show ?thesis
      by (cases q2) (auto simp: w'(2) intro: no_new_intents_trans)
  qed
qed

text \<open>A payload is kept: its key was revoked, or an intent or an auth key artifact still holds it.\<close>

definition kept ::
    "artifact_lifecycle \<Rightarrow> (string \<times> string \<times> string \<times> string) \<Rightarrow> mworld \<Rightarrow> bool" where
  "kept l P w \<longleftrightarrow> secured l P w \<or>
     (\<exists>x\<in>set (artifacts (committed w)). art_type x = authKeyArtifactType \<and> row_payload x = P)"

lemma custody_kept_kept: "custody_kept l w w' \<Longrightarrow> kept l P w \<Longrightarrow> kept l P w'"
  unfolding kept_def custody_kept_def secured_def by metis

lemma stands_secured: "stands j (intents (committed w)) \<Longrightarrow> secured l (bi_payload j) w"
  by (force simp: stands_def secured_def)

lemma secured_grow:
  assumes "set (calls w) \<subseteq> set (calls w')" "no_new_intents (intents (committed w')) (intents (committed w))"
    and "secured l P w"
  shows "secured l P w'"
proof (cases "revoked_payload l P w")
  case True
  with assms(1) show ?thesis by (simp add: secured_def revoked_payload_mono)
next
  case False
  with assms(2,3) show ?thesis unfolding secured_def no_new_intents_def by (metis (no_types, lifting) imageE image_eqI)
qed

lemma list_all2_image:
  assumes "list_all2 Q xs ys" "x \<in> set xs"
  obtains y where "y \<in> set ys" "Q x y"
  using assms by (induction rule: list_all2_induct) auto

text \<open>Held outside the binding \<open>b\<close>, or secured.\<close>

definition kept_elsewhere ::
    "artifact_lifecycle \<Rightarrow> string \<Rightarrow> (string \<times> string \<times> string \<times> string) \<Rightarrow> mworld \<Rightarrow> bool" where
  "kept_elsewhere l b P w \<longleftrightarrow> secured l P w \<or> (\<exists>x\<in>set (artifacts (committed w)).
     art_type x = authKeyArtifactType \<and> row_payload x = P \<and> art_binding_ref x \<noteq> b)"

lemma kept_elsewhere_kept: "kept_elsewhere l b P w \<Longrightarrow> kept l P w"
  by (auto simp: kept_elsewhere_def kept_def)

lemma kept_elsewhere_step:
  assumes "kept_elsewhere l b P w" "secured l P w \<Longrightarrow> secured l P w'"
    and "\<And>x. x \<in> set (artifacts (committed w)) \<Longrightarrow> art_binding_ref x \<noteq> b \<Longrightarrow>
      x \<in> set (artifacts (committed w')) \<or> revoked_payload l (row_payload x) w'"
  shows "kept_elsewhere l b P w'"
  using assms unfolding kept_elsewhere_def secured_def by blast

lemma MarkPending_rows:
  assumes "MarkRevocationPendingImmediately redis b w = (r, w')"
  shows "intents (committed w') = intents (committed w) \<and> set (calls w) \<subseteq> set (calls w') \<and>
    (\<forall>x. art_binding_ref x \<noteq> b \<longrightarrow> x \<in> set (artifacts (committed w)) \<longrightarrow> x \<in> set (artifacts (committed w')))"
  using MarkPending_committed [OF assms]
  by (auto simp: mark_pending_def set_update_where)

lemma staged_kept_elsewhere:
  assumes staged: "for_each (filter (\<lambda>a. art_type a = authKeyArtifactType) as) (\<lambda>a. stageArtifact l ch a s) w = (Inr js, w')"
    and as: "as = map artifactFromRecord (filter (\<lambda>x. art_binding_ref x = b) (artifacts (committed w)))"
    and "kept l P w"
  shows "kept_elsewhere l b P w'"
proof -
  note e = stage_all_effect [OF staged]
  then have e': "set (calls w) \<subseteq> set (calls w')" "no_new_intents (intents (committed w')) (intents (committed w))"
    "artifacts (committed w') = artifacts (committed w)"
    "list_all2 (\<lambda>a x. \<exists>j. x = Some j \<and> bi_payload j = row_payload a \<and> stands j (intents (committed w')))
       (filter (\<lambda>a. art_type a = authKeyArtifactType) as) js" by auto
  have "secured l (row_payload x) w'"
    if x: "x \<in> set (artifacts (committed w))" "art_type x = authKeyArtifactType" "art_binding_ref x = b" for x
  proof -
    have "artifactFromRecord x \<in> set (filter (\<lambda>a. art_type a = authKeyArtifactType) as)"
      using x by (auto simp: as artifactFromRecord_def)
    from list_all2_image [OF e'(4) this] obtain j where
      "bi_payload j = row_payload (artifactFromRecord x)" "stands j (intents (committed w'))" by blast
    with stands_secured [of j w' l] show ?thesis
      by (simp add: row_payload_def artifactFromRecord_def)
  qed
  moreover have "secured l P w \<Longrightarrow> secured l P w'" by (rule secured_grow [OF e'(1,2)])
  ultimately show ?thesis
    using assms(3) e'(3) unfolding kept_def kept_elsewhere_def by (metis (no_types, lifting))
qed

lemma staged_tracked:
  assumes "list_all2 (\<lambda>a x. \<exists>j. x = Some j \<and> bi_payload j = row_payload a \<and> stands j (intents d)) as js" "store_ok d"
  shows "(x \<in> set js \<longrightarrow> (\<exists>j. x = Some j)) \<and> (Some j \<in> set js \<longrightarrow> tracks j (intents d))"
  using assms(1) stands_tracks [OF _ assms(2)]
  by (fastforce simp: list_all2_conv_all_nth in_set_conv_nth)

text \<open>The steps after staging.\<close>

lemma after_staging:
  assumes mark: "MarkRevocationPendingImmediately redis b w1 = (r2, w2)"
    and rev: "revoke_all l ch js None w2 = (r3, w3)"
    and staged: "list_all2 (\<lambda>a x. \<exists>j. x = Some j \<and> bi_payload j = row_payload a \<and> stands j (intents (committed w1))) as js"
    and ok: "store_ok (committed w1)"
  shows "custody_kept l w2 w3 \<and> (\<exists>e. r3 = Inr e \<and>
    (e = None \<longrightarrow> (\<forall>a\<in>set as. revoked_payload l (row_payload a) w3)))"
proof -
  have i2: "intents (committed w2) = intents (committed w1)"
    using MarkPending_rows [OF mark] by blast
  have t: "\<exists>j. x = Some j" if "x \<in> set js" for x
    using staged_tracked [OF staged ok] that by blast
  have t': "tracks j (intents (committed w2))" if "Some j \<in> set js" for j
    using staged_tracked [OF staged ok] that by (simp add: i2)
  from revoke_all_custody [OF rev t t'] obtain e where e: "custody_kept l w2 w3" "r3 = Inr e"
    "e = None \<Longrightarrow> \<forall>j. Some j \<in> set js \<longrightarrow> revoked_payload l (bi_payload j) w3" by blast
  have "revoked_payload l (row_payload a) w3" if "e = None" "a \<in> set as" for a
  proof -
    from staged that(2) obtain j where "Some j \<in> set js" "bi_payload j = row_payload a"
      by (fastforce simp: list_all2_conv_all_nth in_set_conv_nth)
    with e(3) [OF that(1)] show ?thesis by metis
  qed
  with e show ?thesis by blast
qed

text \<open>The steps of \<open>InvalidateBinding\<close> once every key is staged.\<close>

definition invalidate_staged ::
    "artifact_lifecycle \<Rightarrow> chance \<Rightarrow> string \<Rightarrow> artifact_revocation_intent option list \<Rightarrow> unit meff" where
  "invalidate_staged l ch b staged =
     andThen (map_error (\<lambda>err. if staged \<noteq> [] then Joined ErrArtifactRevocationPending err else err)
                 (MarkRevocationPendingImmediately (al_redis l) b)) (\<lambda>_.
     andThen (revoke_all l ch staged None) (\<lambda>revokeErr.
     case revokeErr of
       Some e \<Rightarrow> raise (Joined ErrArtifactRevocationPending e)
     | None \<Rightarrow> DeleteByBindingRefImmediately (al_redis l) b))"

lemma invalidate_staged_effect:
  assumes run: "invalidate_staged l ch b js w1 = (r, w')"
    and staged: "list_all2 (\<lambda>a x. \<exists>j. x = Some j \<and> bi_payload j = row_payload a \<and> stands j (intents (committed w1))) as js"
    and ok: "store_ok (committed w1)"
  shows "(kept_elsewhere l b P w1 \<longrightarrow> kept_elsewhere l b P w') \<and> (r = Inr () \<longrightarrow>
    (\<forall>x\<in>set (artifacts (committed w')). art_binding_ref x \<noteq> b) \<and> (\<forall>a\<in>set as. revoked_payload l (row_payload a) w'))"
proof -
  obtain r2 w2 where mk: "MarkRevocationPendingImmediately (al_redis l) b w1 = (r2, w2)" by fastforce
  note e2 = MarkPending_rows [OF mk]
  have k2: "kept_elsewhere l b P w2" if "kept_elsewhere l b P w1"
    by (rule kept_elsewhere_step [OF that]) (use e2 secured_grow [of w1 w2 l P] in auto)
  show ?thesis
  proof (cases r2)
    case (Inl e)
    with run mk k2 show ?thesis by (auto simp: invalidate_staged_def effect_simps)
  next
    case r2: (Inr u)
    obtain r3 w3 where rv: "revoke_all l ch js None w2 = (r3, w3)" by fastforce
    from after_staging [OF mk rv staged ok] obtain e where e: "custody_kept l w2 w3" "r3 = Inr e"
      "e = None \<Longrightarrow> \<forall>a\<in>set as. revoked_payload l (row_payload a) w3" by blast
    have k3: "kept_elsewhere l b P w3" if "kept_elsewhere l b P w1"
      by (rule kept_elsewhere_step [OF k2 [OF that]]) (use e(1) in \<open>unfold custody_kept_def, blast+\<close>)
    show ?thesis
    proof (cases e)
      case (Some err)
      with run mk r2 rv e(2) k3 show ?thesis by (auto simp: invalidate_staged_def effect_simps)
    next
      case None
      with run mk r2 rv e(2) have del: "DeleteByBindingRefImmediately (al_redis l) b w3 = (r, w')"
        by (auto simp: invalidate_staged_def effect_simps)
      note d = DeleteByBinding_committed [OF del]
      have "kept_elsewhere l b P w'" if "kept_elsewhere l b P w1"
        by (rule kept_elsewhere_step [OF k3 [OF that]])
          (use d in \<open>auto simp: delete_artifacts_def secured_def intro: revoked_payload_mono\<close>)
      with e(3) [OF None] d show ?thesis
        by (auto simp: delete_artifacts_def intro: revoked_payload_mono)
    qed
  qed
qed

lemma kept_same:
  "committed w' = committed w \<Longrightarrow> calls w' = calls w \<Longrightarrow> kept l P w' = kept l P w"
  by (simp add: kept_def secured_def revoked_payload_def)

section \<open>Properties of the life cycle\<close>

text \<open>C22: Invalidating a binding never loses an auth key, whatever fails on the way: a key that an intent
  or an artifact of the committed tables holds is afterwards still held by one, or was revoked by
  the platform.  When the call succeeds, the binding has no artifact left and the keys of all its
  auth key artifacts were revoked.\<close>

theorem InvalidateBinding_never_loses_a_key:
  assumes run: "InvalidateBinding l ch b w = (r, w')" and ok: "store_ok (committed w)"
    and view: "artifacts (db w) = artifacts (committed w)" and "b \<noteq> ''''"
  shows "(kept l P w \<longrightarrow> kept l P w') \<and>
    (r = Inr () \<longrightarrow> (\<forall>x\<in>set (artifacts (committed w')). art_binding_ref x \<noteq> b) \<and>
      (\<forall>x\<in>set (artifacts (committed w)). art_binding_ref x = b \<and> art_type x = authKeyArtifactType \<longrightarrow>
         revoked_payload l (row_payload x) w'))"
proof (cases "al_configured l")
  case False
  with run show ?thesis by (auto simp: InvalidateBinding_def effect_simps)
next
  case conf: True
  obtain r0 w0 where list: "ListByBindingRef_artifact b w = (r0, w0)" by fastforce
  note l0 = ListByBinding_committed [OF list]
  have same: "kept l P w0 = kept l P w" using l0 by (intro kept_same) auto
  show ?thesis
  proof (cases r0)
    case (Inl e)
    with run conf assms(4) list same show ?thesis by (auto simp: InvalidateBinding_def effect_simps)
  next
    case r0: (Inr as)
    let ?keys = "filter (\<lambda>a. art_type a = authKeyArtifactType) as"
    have as: "as = map artifactFromRecord (filter (\<lambda>x. art_binding_ref x = b) (artifacts (committed w0)))"
      using l0 r0 view by simp
    obtain r1 w1 where st: "for_each ?keys (\<lambda>a. stageArtifact l ch a ''ready'') w0 = (r1, w1)" by fastforce
    note e1 = stage_all_effect [OF st]
    show ?thesis
    proof (cases r1)
      case (Inl e)
      with run conf assms(4) list r0 st have "w' = w1" "r = Inl e"
        by (auto simp: InvalidateBinding_def effect_simps)
      with e1 same secured_grow [of w0 w1 l P] show ?thesis by (auto simp: kept_def)
    next
      case r1: (Inr js)
      with run conf assms(4) list r0 st have tail: "invalidate_staged l ch b js w1 = (r, w')"
        by (simp add: InvalidateBinding_def invalidate_staged_def effect_simps)
      from e1 r1 l0 ok have "list_all2 (\<lambda>a x. \<exists>j. x = Some j \<and> bi_payload j = row_payload a \<and>
          stands j (intents (committed w1))) ?keys js" "store_ok (committed w1)" by auto
      note t = invalidate_staged_effect [OF tail this, of P]
      have "artifactFromRecord x \<in> set ?keys" "row_payload (artifactFromRecord x) = row_payload x"
        if "x \<in> set (artifacts (committed w))" "art_binding_ref x = b \<and> art_type x = authKeyArtifactType" for x
        using that l0 by (auto simp: as artifactFromRecord_def row_payload_def)
      with t have "r = Inr () \<longrightarrow> (\<forall>x\<in>set (artifacts (committed w)). art_binding_ref x = b \<and>
          art_type x = authKeyArtifactType \<longrightarrow> revoked_payload l (row_payload x) w')" by metis
      with t staged_kept_elsewhere [OF st [unfolded r1] as, of P] same show ?thesis
        by (blast intro: kept_elsewhere_kept)
    qed
  qed
qed

definition sample_lifecycle :: artifact_lifecycle where
  "sample_lifecycle = \<lparr>al_configured = True, al_redis = None, al_revoker = Some (\<lambda>_. None),
     al_key = Some (file_keyring sample_key_file), al_cipher = sample_cipher\<rparr>"

definition sample_chance :: chance where
  "sample_chance = \<lparr>ch_intent_id = (\<lambda>_. Some ''intent-1''), ch_staged_at = (\<lambda>_. 100), ch_ready_at = (\<lambda>_. 101)\<rparr>"

lemma InvalidateBinding_never_loses_a_key_witness:
  "\<exists>r w'. InvalidateBinding sample_lifecycle sample_chance ''bind_1''
       (initial_world (sample_db\<lparr>artifacts := [artifact_row sample_artifact]\<rparr>)) = (r, w') \<and>
     kept sample_lifecycle (''bind_1'', ''authkey'', ''100'', ''sealed'') w'"
proof -
  let ?w = "initial_world (sample_db\<lparr>artifacts := [artifact_row sample_artifact]\<rparr>)"
  have "store_ok (committed ?w)" "artifacts (db ?w) = artifacts (committed ?w)" "''bind_1'' \<noteq> ''''"
    using sample_artifact_ok by (simp_all add: committed_def)
  moreover have "kept sample_lifecycle (''bind_1'', ''authkey'', ''100'', ''sealed'') ?w"
    by (simp add: kept_def committed_def artifact_row_def sample_artifact_def row_payload_def authKeyArtifactType_def)
  moreover obtain r w' where "InvalidateBinding sample_lifecycle sample_chance ''bind_1'' ?w = (r, w')" by fastforce
  ultimately show ?thesis
    using InvalidateBinding_never_loses_a_key [of sample_lifecycle sample_chance "''bind_1''" ?w r w'] by blast
qed

end
