(* ===== verification/Mihomo_Custody.thy ===== *)
theory Mihomo_Custody
  imports Mihomo_Lifecycle
begin

text \<open>
  Custody of issued keys across transactions.  The revocation intents are written on a connection of
  their own while a transaction is open, and no code of the service writes them inside one, so the
  tables a transaction sees and the committed tables always hold the same intents.  This is the
  invariant \<open>sound\<close>; on top of it the step relation \<open>custody\<close> says that no step forgets a
  key, so a whole use case keeps what its steps keep.
\<close>

definition mirrored :: "mworld \<Rightarrow> bool" where
  "mirrored w \<longleftrightarrow> (\<forall>b. base w = Some b \<longrightarrow> intents (db w) = intents b)"

definition sound :: "mworld \<Rightarrow> bool" where
  "sound w \<longleftrightarrow> holds store_ok w \<and> mirrored w"

text \<open>Steps that keep the tables sound, keep what was called, and leave a transaction open or closed
  as they found it.\<close>

definition orderly :: "mworld \<Rightarrow> mworld \<Rightarrow> bool" where
  "orderly w w' \<longleftrightarrow> set (calls w) \<subseteq> set (calls w') \<and> (base w' = None \<longleftrightarrow> base w = None) \<and>
     (sound w \<longrightarrow> sound w')"

definition custody :: "artifact_lifecycle \<Rightarrow> mworld \<Rightarrow> mworld \<Rightarrow> bool" where
  "custody l w w' \<longleftrightarrow> orderly w w' \<and> (sound w \<longrightarrow> (\<forall>P. secured l P w \<longrightarrow> secured l P w'))"

interpretation orderly: step_relation orderly
  by unfold_locales (auto simp: orderly_def)

interpretation custody: step_relation "custody l" for l
  by unfold_locales (auto simp: custody_def orderly_def)

lemma custody_orderly: "obeys (custody l) m \<Longrightarrow> obeys orderly m"
  by (simp add: obeys_def custody_def)

lemma sound_committed: "sound w \<Longrightarrow> store_ok (committed w) \<and> intents (committed w) = intents (db w)"
  by (auto simp: sound_def holds_def mirrored_def committed_def split: option.splits)

section \<open>Statements\<close>

text \<open>A statement that leaves the intents alone.\<close>

lemma orderly_frame:
  assumes "frames intents m" "keeps store_ok m"
    and "\<And>w. set (calls w) \<subseteq> set (calls (snd (m w)))"
    and "\<And>w. base (snd (m w)) = None \<longleftrightarrow> base w = None"
  shows "obeys orderly m"
  unfolding obeys_def orderly_def
proof (intro allI conjI impI)
  fix w assume "sound w"
  moreover have "map_option intents (base (snd (m w))) = map_option intents (base w)"
    "intents (db (snd (m w))) = intents (db w)"
    using assms(1) by (simp_all add: framesD framesD_base)
  ultimately show "sound (snd (m w))"
    using keepsD [OF assms(2), of w] by (cases "base w") (auto simp: sound_def mirrored_def)
qed (use assms(3,4) in auto)

lemma custody_frame:
  assumes "obeys orderly m" "frames intents m"
  shows "obeys (custody l) m"
  unfolding obeys_def custody_def
proof (intro allI conjI impI)
  fix w P assume w: "sound w" and P: "secured l P w"
  have o: "orderly w (snd (m w))" using assms(1) by (simp add: obeys_def)
  have "intents (committed (snd (m w))) = intents (committed w)"
    using o w sound_committed [of "snd (m w)"] sound_committed [OF w] framesD [OF assms(2), of w]
    by (simp add: orderly_def)
  with P o show "secured l P (snd (m w))"
    by (auto simp: secured_def orderly_def intro: revoked_payload_mono)
qed (use assms(1) in \<open>simp add: obeys_def\<close>)

lemma statement_shape:
  "calls (snd (statement mk q w)) = calls w" "base (snd (statement mk q w)) = base w"
  by (auto simp: statement_def split: prod.splits sum.splits)

lemma immediately_shape:
  "calls (snd (immediately mk q w)) = calls w"
  "base (snd (immediately mk q w)) = None \<longleftrightarrow> base w = None"
  by (auto simp: immediately_def statement_shape split: prod.splits sum.splits option.splits)

lemma statement_custody:
  assumes "\<And>d x d'. q d = Inr (x, d') \<Longrightarrow> intents d' = intents d \<and> (store_ok d \<longrightarrow> store_ok d')"
  shows "obeys (custody l) (statement mk q)"
  by (intro custody_frame orderly_frame frames_statement keeps_statement)
    (use assms in \<open>auto simp: statement_shape\<close>)

lemma on_db_custody:
  assumes "\<And>d x d'. q d = Inr (x, d') \<Longrightarrow> intents d' = intents d \<and> (store_ok d \<longrightarrow> store_ok d')"
  shows "obeys (custody l) (on_db direct q)"
  unfolding on_db_def
  by (intro custody.if_rule statement_custody custody_frame orderly_frame frames_immediately keeps_immediately)
    (use assms in \<open>auto simp: immediately_shape\<close>)

lemma sql_query_custody: "obeys (custody l) (sql_query f)"
  unfolding query_def by (rule statement_custody) simp

lemma sql_change_custody:
  "(\<And>d. intents (f d) = intents d) \<Longrightarrow> obeys (custody l) (sql_change f)"
  unfolding sql_change_def sql_write_def
  by (intro custody.rules statement_custody) (auto dest: checked_write_InrD)

lemma sql_write_custody:
  "(\<And>d. intents (f d) = intents d) \<Longrightarrow> obeys (custody l) (sql_write n f)"
  unfolding sql_write_def by (intro statement_custody) (auto dest: checked_write_InrD)

lemma change_on_custody:
  "(\<And>d. intents (f d) = intents d) \<Longrightarrow> obeys (custody l) (change_on direct f)"
  unfolding change_on_def by (intro custody.rules on_db_custody) (auto dest: checked_write_InrD)

lemma external_custody: "obeys (custody l) (external c r)"
  by (auto simp: obeys_def effect_simps custody_def orderly_def sound_def holds_def mirrored_def
      secured_def committed_def revoked_payload_def split: option.splits)

lemma in_transaction_custody: "obeys (custody l) in_transaction"
  by (simp add: obeys_def effect_simps)

lemma cache_custody: "obeys (custody l) (cache_command c)" "obeys (custody l) (deleteCacheKeys redis ks)"
  by (auto simp: cache_command_def deleteCacheKeys_def intro!: custody.rules statement_custody external_custody)

lemmas custody_statements = sql_query_custody sql_change_custody sql_write_custody change_on_custody
  external_custody in_transaction_custody cache_custody

section \<open>Transactions\<close>

lemma sound_open: "base w = None \<Longrightarrow> sound w \<Longrightarrow> sound (w\<lparr>base := Some (db w)\<rparr>)"
  by (auto simp: sound_def holds_def mirrored_def)

lemma sound_close:
  assumes "sound w"
  shows "sound (w\<lparr>db := committed w, base := None, faults := fs\<rparr>)" "sound (w\<lparr>db := committed w, base := None\<rparr>)"
    "sound (w\<lparr>base := None, faults := fs\<rparr>)"
  using assms by (auto simp: sound_def holds_def mirrored_def committed_def split: option.splits)

lemma secured_open: "base w = None \<Longrightarrow> secured l P (w\<lparr>base := Some (db w)\<rparr>) = secured l P w"
  by (simp add: secured_def revoked_payload_def committed_def)

lemma secured_close:
  assumes "sound w"
  shows "secured l P (w\<lparr>db := committed w, base := None, faults := fs\<rparr>) = secured l P w"
    "secured l P (w\<lparr>db := committed w, base := None\<rparr>) = secured l P w"
    "secured l P (w\<lparr>base := None, faults := fs\<rparr>) = secured l P w"
  using sound_committed [OF assms] by (simp_all add: secured_def revoked_payload_def committed_def)

text \<open>The ways a transaction that started here can end.\<close>

definition closes :: "mworld \<Rightarrow> mworld \<Rightarrow> bool" where
  "closes v w' \<longleftrightarrow> (\<exists>fs. w' = v\<lparr>db := committed v, base := None, faults := fs\<rparr> \<or> w' = v\<lparr>base := None, faults := fs\<rparr>)"

lemma closes_custody:
  assumes "base w = None" "custody l (w\<lparr>base := Some (db w)\<rparr>) v" "closes v w'"
  shows "custody l w w'"
proof -
  from assms(3) have c: "calls w' = calls v" "base w' = None" by (auto simp: closes_def)
  have s: "sound w' \<and> (secured l P w \<longrightarrow> secured l P w')" if w: "sound w" for P
  proof -
    from assms(2) sound_open [OF assms(1) w] have v: "sound v"
      and P: "secured l P w \<Longrightarrow> secured l P v"
      unfolding custody_def orderly_def secured_open [OF assms(1)] by blast+
    from assms(3) obtain fs where
      "w' = v\<lparr>db := committed v, base := None, faults := fs\<rparr> \<or> w' = v\<lparr>base := None, faults := fs\<rparr>"
      by (auto simp: closes_def)
    with sound_close(1,3) [OF v] secured_close(1,3) [OF v, of l P] P show ?thesis by metis
  qed
  with c assms(1,2) show ?thesis by (auto simp: custody_def orderly_def)
qed

lemma faults_same: "w\<lparr>faults := faults w\<rparr> = w" for w :: "('d, 'l) world"
  by simp

lemma transaction_closes:
  assumes "base w = None"
  shows "closes (snd (m (w\<lparr>base := Some (db w)\<rparr>))) (snd (transaction mk m w))"
    "closes (snd (m' (w\<lparr>base := Some (db w)\<rparr>))) (snd (transaction_capturing mk' m' w))"
proof -
  have rollback: "closes v (v\<lparr>db := committed v, base := None\<rparr>)" for v
    unfolding closes_def by (rule exI [of _ "faults v"]) (cases v, simp)
  show "closes (snd (m (w\<lparr>base := Some (db w)\<rparr>))) (snd (transaction mk m w))"
    using assms rollback
    by (auto simp: transaction_def split: prod.splits sum.splits option.splits) (auto simp: closes_def)
  show "closes (snd (m' (w\<lparr>base := Some (db w)\<rparr>))) (snd (transaction_capturing mk' m' w))"
    using assms rollback
    by (auto simp: transaction_capturing_def split: prod.splits sum.splits option.splits) (auto simp: closes_def)
qed

lemma transaction_custody:
  assumes "obeys (custody l) m"
  shows "obeys (custody l) (transaction mk m)"
  unfolding obeys_def
proof
  fix w
  show "custody l w (snd (transaction mk m w))"
  proof (cases "base w")
    case None
    with assms transaction_closes(1) [OF None] show ?thesis
      by (auto simp: obeys_def intro: closes_custody)
  qed (use assms in \<open>simp add: transaction_joined obeys_def\<close>)
qed

lemma transaction_capturing_custody:
  assumes "obeys (custody l) m"
  shows "obeys (custody l) (transaction_capturing mk m)"
  unfolding obeys_def
proof
  fix w
  show "custody l w (snd (transaction_capturing mk m w))"
  proof (cases "base w")
    case None
    with assms transaction_closes(2) [OF None] show ?thesis
      by (auto simp: obeys_def intro: closes_custody)
  next
    case (Some b)
    with assms [unfolded obeys_def, rule_format, of w] show ?thesis
      by (auto simp: transaction_capturing_def split: prod.splits sum.splits)
  qed
qed

section \<open>Repositories\<close>

lemma artifact_reads_custody:
  "obeys (custody l) (HasRevocationPending b)"
  "obeys (custody l) (ListByBindingRef_artifact b)"
  "obeys (custody l) (GetByBindingRef_artifact redis now now1 now2 b t s)"
  by (auto simp: artifact_repo_defs intro!: custody.rules custody_statements on_db_custody)

lemma artifact_writes_custody:
  "obeys (custody l) (PutIfCredentialCurrent redis now a g)"
  "obeys (custody l) (MarkRevocationPendingImmediately redis b)"
  "obeys (custody l) (DeleteByBindingRefImmediately redis b)"
  "obeys (custody l) (DeleteArtifactImmediately redis b t s v)"
  by (auto simp: artifact_repo_defs Let_def delete_artifacts_def mark_pending_def
      intro!: custody.rules custody_statements on_db_custody)

lemma credential_custody:
  "obeys (custody l) (Save_credential c)" "obeys (custody l) (GetByBindingRefForUpdate b)"
  "obeys (custody l) (GetByBindingRef_credential b)" "obeys (custody l) (GetByAccountKey_credential a)"
  by (auto simp: credential_repo_defs Let_def intro!: custody.rules custody_statements)

text \<open>Writes of the intents: on the committed tables and on the view of an open transaction they
  succeed together, because the constraints of the intents concern no other table.\<close>

lemma intents_part:
  "store_ok (b\<lparr>intents := X\<rparr>) \<Longrightarrow> store_ok d \<Longrightarrow> store_ok (d\<lparr>intents := X\<rparr>)"
  by (simp add: store_ok_iff credential_exists_def)

definition writes_intents :: "(revocation_intent list \<Rightarrow> revocation_intent list) \<Rightarrow>
    (mihomo_db \<Rightarrow> db_error + ('x \<times> mihomo_db)) \<Rightarrow> bool" where
  "writes_intents F q \<longleftrightarrow> (\<forall>d. if store_ok (d\<lparr>intents := F (intents d)\<rparr>)
     then \<exists>x. q d = Inr (x, d\<lparr>intents := F (intents d)\<rparr>) else \<exists>e. q d = Inl e)"

lemma writes_intents_checked: "writes_intents F (checked_write rows (\<lambda>d. d\<lparr>intents := F (intents d)\<rparr>))"
  by (auto simp: writes_intents_def checked_write_def store_ok_def split: option.splits)

lemma immediate_intents_orderly:
  assumes q: "writes_intents F q"
  shows "obeys orderly (on_db True q)"
  unfolding obeys_def orderly_def
proof (intro allI conjI impI)
  fix w :: mworld assume w: "sound w"
  let ?f = "\<lambda>d. d\<lparr>intents := F (intents d)\<rparr>"
  have cases: "(store_ok (?f d) \<and> (\<exists>x. q d = Inr (x, ?f d))) \<or> (\<not> store_ok (?f d) \<and> (\<exists>e. q d = Inl e))" for d
    using q unfolding writes_intents_def by metis
  show "sound (snd (on_db True q w))"
  proof (cases "base w")
    case None
    with w cases [of "db w"] show ?thesis
      by (auto simp: on_db_def immediately_def statement_def sound_def holds_def mirrored_def
          split: prod.splits sum.splits)
  next
    case (Some b)
    have same: "intents (db w) = intents b" and ok: "store_ok (db w)" "store_ok b"
      using w Some by (auto simp: sound_def holds_def mirrored_def)
    have "store_ok (?f (db w))" if "store_ok (?f b)"
      using intents_part [OF that ok(1)] by (simp add: same)
    with w Some cases [of b] cases [of "db w"] same show ?thesis
      by (auto simp: on_db_def immediately_def sound_def holds_def mirrored_def split: prod.splits sum.splits)
  qed
qed (simp_all add: on_db_def immediately_shape)

lemma orderlyD: "obeys orderly m \<Longrightarrow> m w = (r, w') \<Longrightarrow> orderly w w'"
  by (rule obeysD)

lemma change_intents_orderly: "obeys orderly (change_on True (\<lambda>d. d\<lparr>intents := F (intents d)\<rparr>))"
  unfolding change_on_def
  by (rule orderly.andThen [OF immediate_intents_orderly [OF writes_intents_checked] orderly.return])

lemma intent_writes_orderly:
  "obeys orderly (MarkRevocationIntentReadyImmediately now i)"
  "obeys orderly (DeleteRevocationIntentImmediately i)"
  unfolding MarkRevocationIntentReadyImmediately_def DeleteRevocationIntentImmediately_def
    update_intents_def delete_intents_def
  by (rule change_intents_orderly)+

lemma Put_intent_orderly: "obeys orderly (PutRevocationIntentImmediately j)"
proof -
  let ?F = "upsert intent_payload merge_intent (revocationIntentRecord j)"
  have "writes_intents ?F (\<lambda>d. case store_violation (d\<lparr>intents := ?F (intents d)\<rparr>) of Some e \<Rightarrow> Inl e
      | None \<Rightarrow> Inr (find (\<lambda>i. intent_payload i = intent_payload (revocationIntentRecord j))
          (intents (d\<lparr>intents := ?F (intents d)\<rparr>)), d\<lparr>intents := ?F (intents d)\<rparr>))"
    by (auto simp: writes_intents_def store_ok_def split: option.splits)
  then show ?thesis
    unfolding PutRevocationIntentImmediately_def Let_def by (intro orderly.rules immediate_intents_orderly)
qed

section \<open>The life cycle\<close>

lemmas orderly_lifts = custody_orderly [OF artifact_reads_custody(1)] custody_orderly [OF artifact_reads_custody(2)]
  custody_orderly [OF artifact_writes_custody(2)] custody_orderly [OF artifact_writes_custody(3)]
  custody_orderly [OF artifact_writes_custody(4)] custody_orderly [OF external_custody]
  intent_writes_orderly Put_intent_orderly

lemma revoke_all_orderly:
  "(\<And>i. obeys orderly (RevokeIssuedArtifact l ch i)) \<Longrightarrow> obeys orderly (revoke_all l ch is e)"
  by (induction "is" arbitrary: e) (auto intro!: orderly.rules)

lemma lifecycle_orderly:
  "obeys orderly (stageArtifact l ch a s)" "obeys orderly (StageIssuedArtifact l ch a)"
  "obeys orderly (revoke_and_forget l rv j)" "obeys orderly (RevokeIssuedArtifact l ch ri)"
  "obeys orderly (RevokeUntrackedAuthKey l k)" "obeys orderly (InvalidateBinding l ch b)"
  by (auto simp: lifecycle_defs intro!: orderly.rules orderly_lifts revoke_all_orderly)

lemma stageArtifact_custody: "obeys (custody l) (stageArtifact l ch a s)"
proof (rule obeysI)
  fix w r w' assume run: "stageArtifact l ch a s w = (r, w')"
  have "set (calls w) \<subseteq> set (calls w')" "no_new_intents (intents (committed w')) (intents (committed w))"
    using stageArtifact_effect [OF run] by auto
  then have "\<forall>P. secured l P w \<longrightarrow> secured l P w'" using secured_grow by blast
  with orderlyD [OF lifecycle_orderly(1) run] show "custody l w w'" by (simp add: custody_def)
qed

lemma RevokeUntracked_custody: "obeys (custody l) (RevokeUntrackedAuthKey l' k)"
  by (auto simp: RevokeUntrackedAuthKey_def RevokeAuthKey_def intro!: custody.rules external_custody)

lemma RevokeIssuedArtifact_keeps_custody:
  assumes "RevokeIssuedArtifact l ch (Some j) w = (r, w')" "tracks j (intents (committed w))"
  shows "custody l w w'"
  using RevokeIssuedArtifact_custody [OF assms] orderlyD [OF lifecycle_orderly(4) assms(1)]
  unfolding custody_def custody_kept_def by blast

lemma custodyI_sound:
  "orderly w w' \<Longrightarrow> (sound w \<Longrightarrow> custody l w w') \<Longrightarrow> custody l w w'"
  by (auto simp: custody_def)

lemma custody_sound: "custody l w w' \<Longrightarrow> sound w \<Longrightarrow> sound w'"
  by (simp add: custody_def orderly_def)

lemma invalidate_staged_custody:
  assumes run: "invalidate_staged l ch b js w1 = (r, w')" and ok: "sound w1"
    and staged: "list_all2 (\<lambda>a x. \<exists>j. x = Some j \<and> bi_payload j = row_payload a \<and> stands j (intents (committed w1))) as js"
  shows "custody l w1 w'"
proof -
  obtain r2 w2 where mk: "MarkRevocationPendingImmediately (al_redis l) b w1 = (r2, w2)" by fastforce
  from obeysD [OF artifact_writes_custody(2) mk] have c2: "custody l w1 w2" .
  show ?thesis
  proof (cases r2)
    case (Inl e)
    with run mk c2 show ?thesis by (auto simp: invalidate_staged_def effect_simps)
  next
    case r2: (Inr u)
    obtain r3 w3 where rv: "revoke_all l ch js None w2 = (r3, w3)" by fastforce
    from after_staging [OF mk rv staged] sound_committed [OF ok] obtain e
      where e: "custody_kept l w2 w3" "r3 = Inr e" by blast
    from orderlyD [OF revoke_all_orderly rv, OF lifecycle_orderly(4)] e(1) have c3: "custody l w2 w3"
      unfolding custody_def custody_kept_def by blast
    show ?thesis
    proof (cases e)
      case (Some err)
      with run mk r2 rv e(2) custody.R_trans [OF c2 c3] show ?thesis
        by (auto simp: invalidate_staged_def effect_simps)
    next
      case None
      with run mk r2 rv e(2) have "DeleteByBindingRefImmediately (al_redis l) b w3 = (r, w')"
        by (auto simp: invalidate_staged_def effect_simps)
      from obeysD [OF artifact_writes_custody(3) this] custody.R_trans [OF c2 c3] show ?thesis
        by (blast intro: custody.R_trans)
    qed
  qed
qed

lemma InvalidateBinding_custody: "obeys (custody l) (InvalidateBinding l ch b)"
proof (rule obeysI, rule custodyI_sound)
  fix w r w' assume run: "InvalidateBinding l ch b w = (r, w')"
  show "orderly w w'" by (rule orderlyD [OF lifecycle_orderly(6) run])
  assume ok: "sound w"
  obtain r0 w0 where list: "ListByBindingRef_artifact b w = (r0, w0)" by fastforce
  note c0 = obeysD [OF artifact_reads_custody(2) list]
  show "custody l w w'"
  proof (cases "al_configured l \<and> b \<noteq> '''' \<and> (\<exists>as. r0 = Inr as)")
    case False
    with run list c0 [of l] show ?thesis
      by (cases r0) (auto simp: InvalidateBinding_def effect_simps split: if_splits)
  next
    case True
    then obtain as where t: "al_configured l" "b \<noteq> ''''" "r0 = Inr as" by blast
    let ?keys = "filter (\<lambda>a. art_type a = authKeyArtifactType) as"
    obtain r1 w1 where st: "for_each ?keys (\<lambda>a. stageArtifact l ch a ''ready'') w0 = (r1, w1)" by fastforce
    have c1: "custody l w w1"
      using obeysD [OF custody.for_each [OF stageArtifact_custody] st] c0 by (blast intro: custody.R_trans)
    show ?thesis
    proof (cases r1)
      case (Inl e)
      with run t list st c1 show ?thesis by (auto simp: InvalidateBinding_def effect_simps)
    next
      case (Inr js)
      with run t list st have tail: "invalidate_staged l ch b js w1 = (r, w')"
        by (simp add: InvalidateBinding_def invalidate_staged_def effect_simps)
      have "list_all2 (\<lambda>a x. \<exists>j. x = Some j \<and> bi_payload j = row_payload a \<and>
          stands j (intents (committed w1))) ?keys js"
        using stage_all_effect [OF st] Inr by auto
      from invalidate_staged_custody [OF tail custody_sound [OF c1 ok] this] c1
      show ?thesis by (blast intro: custody.R_trans)
    qed
  qed
qed

section \<open>Steps that issue no key\<close>

definition no_issue :: "mworld \<Rightarrow> mworld \<Rightarrow> bool" where
  "no_issue w w' \<longleftrightarrow> (\<forall>k. Issued_AuthKey k \<in> set (calls w') \<longrightarrow> Issued_AuthKey k \<in> set (calls w))"

interpretation quiet: step_relation no_issue
  by unfold_locales (auto simp: no_issue_def)

lemma quiet_statement: "obeys no_issue (statement mk q)" "obeys no_issue (on_db direct q)"
  by (simp_all add: obeys_def no_issue_def on_db_def statement_shape immediately_shape)

lemma quiet_external: "(\<And>k. c \<noteq> Issued_AuthKey k) \<Longrightarrow> obeys no_issue (external c r)"
  by (auto simp: obeys_def no_issue_def effect_simps)

lemma quiet_transaction:
  assumes "obeys no_issue m"
  shows "obeys no_issue (transaction mk m)"
  unfolding obeys_def
proof
  fix w
  show "no_issue w (snd (transaction mk m w))"
  proof (cases "base w")
    case None
    have "calls (snd (transaction mk m w)) = calls (snd (m (w\<lparr>base := Some (db w)\<rparr>)))"
      using transaction_closes(1) [OF None, of m mk] by (auto simp: closes_def)
    with assms [unfolded obeys_def, rule_format, of "w\<lparr>base := Some (db w)\<rparr>"] show ?thesis
      by (simp add: no_issue_def)
  qed (use assms in \<open>simp add: transaction_joined obeys_def\<close>)
qed

lemmas quiet_primitives = quiet_statement quiet_external quiet_transaction

lemma quiet_basic:
  "obeys no_issue (sql_query f)" "obeys no_issue (sql_write n g)" "obeys no_issue (sql_change g)"
  "obeys no_issue (change_on direct g)" "obeys no_issue in_transaction" "obeys no_issue (cache_command (Cache_Del ks))"
  "obeys no_issue (cache_command (Cache_Set key))" "obeys no_issue (deleteCacheKeys redis ks)"
  by (auto simp: query_def sql_write_def sql_change_def change_on_def cache_command_def deleteCacheKeys_def
      obeys_def [of _ in_transaction] effect_simps intro!: quiet.rules quiet_primitives)

lemma quiet_artifacts:
  "obeys no_issue (HasRevocationPending b)" "obeys no_issue (ListByBindingRef_artifact b)"
  "obeys no_issue (GetByBindingRef_artifact redis now now1 now2 b t s)"
  "obeys no_issue (PutIfCredentialCurrent redis now a g)"
  "obeys no_issue (MarkRevocationPendingImmediately redis b)"
  "obeys no_issue (DeleteByBindingRefImmediately redis b)"
  "obeys no_issue (DeleteArtifactImmediately redis b t s v)"
  "obeys no_issue (MarkRevocationIntentReadyImmediately now i)" "obeys no_issue (DeleteRevocationIntentImmediately i)"
  "obeys no_issue (FinalizeRevocationIntentImmediately i)" "obeys no_issue (PutRevocationIntentImmediately j)"
  by (auto simp: artifact_repo_defs PutRevocationIntentImmediately_def Let_def
      intro!: quiet.rules quiet_basic quiet_primitives)

lemma quiet_credentials:
  "obeys no_issue (Save_credential c)" "obeys no_issue (GetByBindingRefForUpdate b)"
  "obeys no_issue (GetByBindingRef_credential b)" "obeys no_issue (GetByAccountKey_credential a)"
  by (auto simp: credential_repo_defs Let_def intro!: quiet.rules quiet_basic)

lemma quiet_revoke: "obeys no_issue (RevokeAuthKey rv k)"
  by (auto simp: RevokeAuthKey_def intro!: quiet.rules quiet_external)

lemma quiet_revoke_all:
  "(\<And>i. obeys no_issue (RevokeIssuedArtifact l ch i)) \<Longrightarrow> obeys no_issue (revoke_all l ch is e)"
  by (induction "is" arbitrary: e) (auto intro!: quiet.rules)

lemma quiet_lifecycle:
  "obeys no_issue (stageArtifact l ch a s)" "obeys no_issue (StageIssuedArtifact l ch a)"
  "obeys no_issue (FinalizeIssuedArtifact l i)" "obeys no_issue (RevokeIssuedArtifact l ch ri)"
  "obeys no_issue (RevokeUntrackedAuthKey l k)" "obeys no_issue (InvalidateBinding l ch b)"
  by (auto simp: stageArtifact_def StageIssuedArtifact_def FinalizeIssuedArtifact_def revoke_and_forget_def
      revokeIssuedArtifact_def RevokeIssuedArtifact_def RevokeUntrackedAuthKey_def InvalidateBinding_def
      intro!: quiet.rules quiet_revoke quiet_artifacts quiet_revoke_all)

end
