(* ===== verification/Mihomo_Profiles.thy ===== *)
theory Mihomo_Profiles
  imports Mihomo_Scope Mihomo_Custody
begin

text \<open>
  Profiles of a bound account: \<open>internal/usecase/profile_usecase.go\<close>, the views of
  \<open>runtime_view.go\<close> and the references of \<open>platform_account_key.go\<close>.  SHA-256 is the
  hash of the cipher library.
\<close>

section \<open>References\<close>

definition opaqueReference :: "cipher_library \<Rightarrow> string \<Rightarrow> string \<Rightarrow> string" where
  "opaqueReference lib prefix canonical =
     prefix @ ''_'' @ base64url_encode (take 24 (cl_sha256 lib canonical))"

definition FormatAccountKey :: "cipher_library \<Rightarrow> string \<Rightarrow> string" where
  "FormatAccountKey lib accountID = opaqueReference lib ''acct'' (''mihomo'' @ [CHR 0x00] @ accountID)"

definition FormatProfileRef :: "cipher_library \<Rightarrow> string \<Rightarrow> string \<Rightarrow> string \<Rightarrow> string \<Rightarrow> string" where
  "FormatProfileRef lib accountKey gameBiz region playerID = opaqueReference lib ''prof''
     (accountKey @ [CHR 0x00] @ gameBiz @ [CHR 0x00] @ region @ [CHR 0x00] @ playerID)"

definition FormatDeviceRef :: "cipher_library \<Rightarrow> string \<Rightarrow> string \<Rightarrow> string" where
  "FormatDeviceRef lib accountKey deviceID = opaqueReference lib ''dev'' (accountKey @ [CHR 0x00] @ deviceID)"

section \<open>Views\<close>

datatype credential_status =
    CredentialStatusUnspecified
  | CredentialStatusActive
  | CredentialStatusExpired
  | CredentialStatusInvalid
  | CredentialStatusChallengeRequired

definition credentialStatusFromStorage :: "string \<Rightarrow> credential_status" where
  "credentialStatusFromStorage status =
     (if status = ''active'' then CredentialStatusActive
      else if status = ''expired'' then CredentialStatusExpired
      else if status = ''invalid'' then CredentialStatusInvalid
      else if status = ''challenge_required'' then CredentialStatusChallengeRequired
      else CredentialStatusUnspecified)"

record profile_summary =
  sum_id :: nat
  sum_account_key :: string
  sum_profile_ref :: string
  sum_game_biz :: string
  sum_region :: string
  sum_player_id :: string
  sum_nickname :: string
  sum_level :: int
  sum_is_default :: bool

text \<open>The level is cut to 32 bits.\<close>

definition toProfileSummary :: "profile \<Rightarrow> profile_summary" where
  "toProfileSummary profile = \<lparr>
     sum_id = prof_id profile, sum_account_key = prof_account_key profile,
     sum_profile_ref = prof_profile_ref profile, sum_game_biz = prof_game_biz profile,
     sum_region = prof_region profile, sum_player_id = prof_player_id profile,
     sum_nickname = prof_nickname profile, sum_level = sint (word_of_int (prof_level profile) :: u32),
     sum_is_default = prof_is_default profile\<rparr>"

section \<open>Use cases\<close>

definition allow :: "merror option \<Rightarrow> unit meff" where
  "allow verdict = (case verdict of None \<Rightarrow> return () | Some err \<Rightarrow> raise err)"

definition ListProfiles :: "string \<Rightarrow> profile_summary list meff" where
  "ListProfiles accountKey =
     andThen (ListByAccountKey_profile accountKey) (\<lambda>ps. return (map toProfileSummary ps))"

definition listScopedProfiles :: "scope_guard \<Rightarrow> string \<Rightarrow> profile list meff" where
  "listScopedProfiles guard accountKey =
     andThen (allow (RequireAccountKey guard accountKey)) (\<lambda>_.
     andThen (ListByBindingRef_profile (sg_binding_ref guard)) (\<lambda>listed.
     let ps = filter (\<lambda>p. prof_account_key p = accountKey) listed in
     if sg_profile_ref guard = '''' then return ps
     else let filtered = filter (\<lambda>p. RequireProfile guard (prof_binding_ref p) (prof_profile_ref p) = None) ps in
       if filtered = [] then raise ErrProfileScopeDenied else return filtered))"

definition ListProfilesWithScope :: "scope_guard \<Rightarrow> string \<Rightarrow> profile_summary list meff" where
  "ListProfilesWithScope guard accountKey =
     andThen (listScopedProfiles guard accountKey) (\<lambda>ps. return (map toProfileSummary ps))"

definition pick_primary :: "profile list \<Rightarrow> profile_summary option" where
  "pick_primary ps =
     (if ps = [] then None
      else case find prof_is_default ps of
        Some p \<Rightarrow> Some (toProfileSummary p)
      | None \<Rightarrow> Some (toProfileSummary (hd ps)))"

definition GetPrimaryProfile :: "string \<Rightarrow> profile_summary option meff" where
  "GetPrimaryProfile accountKey =
     andThen (ListByAccountKey_profile accountKey) (\<lambda>ps. return (pick_primary ps))"

definition GetPrimaryProfileWithScope :: "scope_guard \<Rightarrow> string \<Rightarrow> profile_summary option meff" where
  "GetPrimaryProfileWithScope guard accountKey =
     andThen (listScopedProfiles guard accountKey) (\<lambda>ps. return (pick_primary ps))"

definition GetProfileByRef :: "scope_guard \<Rightarrow> string \<Rightarrow> string \<Rightarrow> profile option meff" where
  "GetProfileByRef guard accountKey profileRef =
     andThen (allow (RequireAccountKey guard accountKey)) (\<lambda>_.
     if profileRef = '''' then raise ErrProfileNotFound
     else andThen (allow (RequireProfile guard (sg_binding_ref guard) profileRef)) (\<lambda>_.
       andThen (GetByProfileRef (sg_binding_ref guard) profileRef) (\<lambda>found.
       case found of
         None \<Rightarrow> raise ErrProfileNotFound
       | Some p \<Rightarrow> if prof_account_key p \<noteq> accountKey then raise ErrProfileNotFound else return (Some p))))"

definition SetPrimaryProfileByRef :: "scope_guard \<Rightarrow> string \<Rightarrow> string \<Rightarrow> profile_summary meff" where
  "SetPrimaryProfileByRef guard accountKey profileRef =
     andThen (allow (RequireAccountKey guard accountKey)) (\<lambda>_.
     andThen (allow (RequireExactProfile guard profileRef)) (\<lambda>_.
     andThen (GetProfileByRef guard accountKey profileRef) (\<lambda>found.
     case found of
       None \<Rightarrow> raise ErrProfileNotFound
     | Some p \<Rightarrow>
         andThen (SetDefaultByBindingAndPlayerID (prof_binding_ref p) accountKey (prof_player_id p)) (\<lambda>_.
         return (toProfileSummary (p\<lparr>prof_is_default := True\<rparr>))))))"

definition ConfirmPrimaryProfile :: "string \<Rightarrow> string \<Rightarrow> profile_summary meff" where
  "ConfirmPrimaryProfile accountKey playerID =
     andThen (ListByAccountKey_profile accountKey) (\<lambda>ps.
     case find (\<lambda>p. prof_player_id p = playerID) ps of
       None \<Rightarrow> raise ErrProfileNotFound
     | Some selected \<Rightarrow>
         andThen (SetDefaultByBindingAndPlayerID (prof_binding_ref selected) accountKey playerID) (\<lambda>_.
         return (toProfileSummary (selected\<lparr>prof_is_default := True\<rparr>))))"

text \<open>The last profile of the player is taken.\<close>

definition findProfileByBindingAndPlayerID ::
    "string \<Rightarrow> string \<Rightarrow> string \<Rightarrow> (profile list \<times> profile) meff" where
  "findProfileByBindingAndPlayerID bindingRef accountKey playerID =
     andThen (ListByBindingRef_profile bindingRef) (\<lambda>ps.
     let filtered = filter (\<lambda>p. prof_account_key p = accountKey) ps in
     case find (\<lambda>p. prof_player_id p = playerID) (rev filtered) of
       Some selected \<Rightarrow> return (filtered, selected)
     | None \<Rightarrow> raise ErrProfileNotFound)"

definition ConfirmPrimaryProfileWithScope :: "scope_guard \<Rightarrow> string \<Rightarrow> string \<Rightarrow> profile_summary meff" where
  "ConfirmPrimaryProfileWithScope guard accountKey playerID =
     andThen (allow (RequireAccountKey guard accountKey)) (\<lambda>_.
     andThen (allow (RequireBindingWide guard)) (\<lambda>_.
     andThen (findProfileByBindingAndPlayerID (sg_binding_ref guard) accountKey playerID) (\<lambda>(_, selected).
     andThen (allow (RequireProfile guard (prof_binding_ref selected) (prof_profile_ref selected))) (\<lambda>_.
     andThen (SetDefaultByBindingAndPlayerID (prof_binding_ref selected) accountKey playerID) (\<lambda>_.
     return (toProfileSummary (selected\<lparr>prof_is_default := True\<rparr>)))))))"

definition findProfileByPlayerID :: "string \<Rightarrow> string \<Rightarrow> (profile list \<times> profile) meff" where
  "findProfileByPlayerID accountKey playerID =
     andThen (ListByAccountKey_profile accountKey) (\<lambda>ps.
     case find (\<lambda>p. prof_player_id p = playerID) ps of
       Some p \<Rightarrow> return (ps, p)
     | None \<Rightarrow> raise ErrProfileNotFound)"

definition RequireProfileAccessByPlayerID :: "scope_guard \<Rightarrow> string \<Rightarrow> string \<Rightarrow> unit meff" where
  "RequireProfileAccessByPlayerID guard accountKey playerID =
     andThen (allow (RequireAccountKey guard accountKey)) (\<lambda>_.
     andThen (findProfileByPlayerID accountKey playerID) (\<lambda>(_, selected).
     allow (RequireProfile guard (prof_binding_ref selected) (prof_profile_ref selected))))"

section \<open>Invariants\<close>

lemmas profile_usecase_defs = ListProfiles_def listScopedProfiles_def ListProfilesWithScope_def
  GetPrimaryProfile_def GetPrimaryProfileWithScope_def GetProfileByRef_def SetPrimaryProfileByRef_def
  ConfirmPrimaryProfile_def findProfileByBindingAndPlayerID_def ConfirmPrimaryProfileWithScope_def
  findProfileByPlayerID_def RequireProfileAccessByPlayerID_def

lemma allow_rules [keeps_rules, simp]:
  "keeps I (allow v)" "frames f (allow v)" "pins_committed (allow v)"
  by (cases v; simp add: allow_def)+

lemma allow_apply [effect_simps]: "allow v w = (case v of None \<Rightarrow> Inr () | Some e \<Rightarrow> Inl e, w)"
  by (cases v) (simp_all add: allow_def effect_simps)

lemma allow_InrE:
  assumes "allow v w = (Inr u, w')"
  obtains "v = None" "w' = w"
  using assms by (auto simp: effect_simps split: option.splits)

lemma profile_usecase_keeps [keeps_rules, simp]:
  "keeps store_ok (ListProfiles a)" "keeps store_ok (listScopedProfiles g a)"
  "keeps store_ok (ListProfilesWithScope g a)" "keeps store_ok (GetPrimaryProfile a)"
  "keeps store_ok (GetPrimaryProfileWithScope g a)" "keeps store_ok (GetProfileByRef g a p)"
  "keeps store_ok (SetPrimaryProfileByRef g a p)" "keeps store_ok (ConfirmPrimaryProfile a p)"
  "keeps store_ok (ConfirmPrimaryProfileWithScope g a p)" "keeps store_ok (RequireProfileAccessByPlayerID g a p)"
  by (auto simp: profile_usecase_defs Let_def intro!: keeps_rules)

lemma profile_usecase_frames [keeps_rules, simp]:
  "frames safeguards (ListProfiles a)" "frames safeguards (listScopedProfiles g a)"
  "frames safeguards (ListProfilesWithScope g a)" "frames safeguards (GetPrimaryProfile a)"
  "frames safeguards (GetPrimaryProfileWithScope g a)" "frames safeguards (GetProfileByRef g a p)"
  "frames safeguards (SetPrimaryProfileByRef g a p)" "frames safeguards (ConfirmPrimaryProfile a p)"
  "frames safeguards (ConfirmPrimaryProfileWithScope g a p)" "frames safeguards (RequireProfileAccessByPlayerID g a p)"
  by (auto simp: profile_usecase_defs Let_def intro!: keeps_rules)

section \<open>Choosing the primary profile\<close>

lemma nested_transaction_InrE:
  assumes "nested_transaction mk m w = (Inr x, w')"
  obtains w0 v where "m w0 = (Inr x, v)" "db w0 = db w" "db w' = db v"
  using assms
  by (cases "base w")
    (auto simp: nested_transaction_def transaction_def split: prod.splits sum.splits if_splits option.splits)

lemma update_profiles_InrE:
  assumes "update_profiles p f w = (Inr n, w')"
  obtains "n = count_where p (profiles (db w))" "profiles (db w') = update_where p f (profiles (db w))" "store_ok (db w')"
  using assms by (auto simp: update_profiles_def elim!: sql_write_InrE)

lemma SetDefault_InrE:
  assumes "SetDefaultByBindingAndPlayerID b a i w = (Inr u, w')"
  obtains "profiles (db w') = with_default b a i (profiles (db w))" "store_ok (db w')"
proof -
  have player: "(\<lambda>p. prof_binding_ref p = b \<and> prof_account_key p = a \<and> prof_player_id p = i) = is_player b a i"
    by (simp add: is_player_def fun_eq_iff)
  from assms obtain w0 v where v: "db w0 = db w" "db w' = db v"
    and run: "andThen (update_profiles (\<lambda>p. prof_binding_ref p = b \<and> prof_is_default p)
        (\<lambda>p. p\<lparr>prof_is_default := False\<rparr>)) (\<lambda>_.
      andThen (map_error mapDefaultProfileDuplicateError
        (update_profiles (is_player b a i) (\<lambda>p. p\<lparr>prof_is_default := True\<rparr>))) (\<lambda>rows.
      if rows = 0 then raise RecordNotFound else return ())) w0 = (Inr u, v)"
    unfolding SetDefaultByBindingAndPlayerID_def player by (elim nested_transaction_InrE)
  from run have "profiles (db v) = with_default b a i (profiles (db w0))" "store_ok (db v)"
    by (auto elim!: success_elims update_profiles_InrE simp: default_steps split: if_splits)
  with v that show thesis by simp
qed

lemma GetProfileByRef_InrE:
  assumes "GetProfileByRef g a ref w = (Inr x, w')"
  obtains p where "x = Some p" "p \<in> set (profiles (db w))" "prof_binding_ref p = sg_binding_ref g"
    "prof_profile_ref p = ref" "prof_account_key p = a" "db w' = db w"
  using assms unfolding GetProfileByRef_def profile_repo_defs
  by (auto elim!: success_elims allow_InrE split: if_splits option.splits dest!: find_SomeD)

text \<open>A caller whose ticket names one profile can make exactly that profile the primary one: on
  success the guard's binding and account are the caller's, the profile is the only default of its
  binding, and the profiles of other bindings are untouched.\<close>

theorem SetPrimaryProfileByRef_effect:
  assumes run: "SetPrimaryProfileByRef guard accountKey profileRef w = (Inr s, w')" and ok: "store_ok (db w)"
  shows "sg_profile_ref guard = profileRef \<and> sg_account_key guard = accountKey \<and>
    sum_profile_ref s = profileRef \<and> sum_is_default s \<and>
    (\<forall>p\<in>set (profiles (db w')). prof_binding_ref p = sg_binding_ref guard \<longrightarrow>
       (prof_is_default p \<longleftrightarrow> prof_profile_ref p = profileRef)) \<and>
    filter (\<lambda>p. prof_binding_ref p \<noteq> sg_binding_ref guard) (profiles (db w')) =
    filter (\<lambda>p. prof_binding_ref p \<noteq> sg_binding_ref guard) (profiles (db w))"
proof -
  from run obtain w1 p where guards: "RequireAccountKey guard accountKey = None" "RequireExactProfile guard profileRef = None"
    and get: "GetProfileByRef guard accountKey profileRef w = (Inr (Some p), w1)"
    and set: "SetDefaultByBindingAndPlayerID (prof_binding_ref p) accountKey (prof_player_id p) w1 = (Inr (), w')"
    and s: "s = toProfileSummary (p\<lparr>prof_is_default := True\<rparr>)"
    unfolding SetPrimaryProfileByRef_def by (auto elim!: success_elims allow_InrE split: option.splits)
  from get have p: "p \<in> set (profiles (db w))" "prof_binding_ref p = sg_binding_ref guard"
    "prof_profile_ref p = profileRef" "prof_account_key p = accountKey" "db w1 = db w"
    by (auto elim: GetProfileByRef_InrE)
  from set p(5) have d: "profiles (db w') = with_default (prof_binding_ref p) accountKey (prof_player_id p) (profiles (db w))"
    and ok': "store_ok (db w')" by (auto elim: SetDefault_InrE)
  let ?mark = "mark_default (prof_binding_ref p) accountKey (prof_player_id p)"
  have one: "q' = ?mark p" if "q' \<in> set (profiles (db w'))" "prof_binding_ref q' = sg_binding_ref guard" "prof_is_default q'" for q'
  proof -
    have "?mark p \<in> set (profiles (db w'))" "prof_is_default (?mark p)" "prof_binding_ref (?mark p) = prof_binding_ref q'"
      using p that(2) by (auto simp: d with_default_def is_player_def)
    moreover have "distinct (profiles (db w'))" "unique_where prof_is_default prof_binding_ref (profiles (db w'))"
      using ok' by (auto simp: store_ok_iff intro: unique_on_distinct)
    ultimately show ?thesis using that unique_where_iff by blast
  qed
  have refs: "unique_on prof_profile_ref (profiles (db w'))" using ok' by (simp add: store_ok_iff)
  have default: "prof_is_default q \<longleftrightarrow> prof_profile_ref q = profileRef"
    if "q \<in> set (profiles (db w'))" "prof_binding_ref q = sg_binding_ref guard" for q
  proof
    assume "prof_is_default q"
    from one [OF that this] p(3) show "prof_profile_ref q = profileRef" by (simp add: mark_default_def)
  next
    assume "prof_profile_ref q = profileRef"
    with p(1,3) unique_onD [OF refs that(1), of "?mark p"] have "q = ?mark p"
      by (auto simp: d with_default_def mark_default_def)
    with p(4) show "prof_is_default q" by (simp add: is_player_def)
  qed
  have "filter (\<lambda>p. prof_binding_ref p \<noteq> sg_binding_ref guard) (with_default (prof_binding_ref p) a i ps) =
    filter (\<lambda>p. prof_binding_ref p \<noteq> sg_binding_ref guard) ps" for a i ps
    using p(2) by (induction ps) (auto simp: with_default_def mark_default_def)
  with guards default s p(3) d show ?thesis
    by (auto simp: RequireAccountKey_def RequireExactProfile_def toProfileSummary_def split: if_splits)
qed

definition sample_guard :: scope_guard where
  "sample_guard = \<lparr>sg_allowed_actions = [], sg_binding_ref = ''bind_1'', sg_account_key = ''acct_1'',
     sg_profile_ref = ''p1''\<rparr>"

definition one_profile :: mihomo_db where
  "one_profile = sample_db\<lparr>profiles := [sample_profile]\<rparr>"

lemma one_profile_ok: "store_ok one_profile" "store_ok (one_profile\<lparr>profiles := [sample_profile\<lparr>prof_is_default := True\<rparr>]\<rparr>)"
  by (simp_all add: one_profile_def store_ok_iff sample_db_def empty_mihomo_db_def unique_on_def unique_where_def
      credential_row_ok_def bigint_ok_def profile_key_def credential_exists_def sample_profile_def)

lemma sample_primary:
  "SetPrimaryProfileByRef sample_guard ''acct_1'' ''p1'' (initial_world one_profile) =
   (Inr (toProfileSummary (sample_profile\<lparr>prof_is_default := True\<rparr>)),
    initial_world (one_profile\<lparr>profiles := [sample_profile\<lparr>prof_is_default := True\<rparr>]\<rparr>))"
proof -
  have p: "profiles one_profile = [sample_profile]" "prof_binding_ref sample_profile = ''bind_1''"
    "prof_account_key sample_profile = ''acct_1''" "prof_profile_ref sample_profile = ''p1''"
    "prof_player_id sample_profile = ''100''" "\<not> prof_is_default sample_profile"
    by (simp_all add: one_profile_def sample_profile_def)
  have g: "RequireAccountKey sample_guard ''acct_1'' = None" "RequireExactProfile sample_guard ''p1'' = None"
    "RequireProfile sample_guard ''bind_1'' ''p1'' = None" "sg_binding_ref sample_guard = ''bind_1''"
    by (simp_all add: sample_guard_def RequireAccountKey_def RequireExactProfile_def RequireProfile_def)
  have v: "store_violation one_profile = None" "store_violation (one_profile\<lparr>profiles := [sample_profile\<lparr>prof_is_default := True\<rparr>]\<rparr>) = None"
    using one_profile_ok by (simp_all add: store_ok_def)
  have same: "one_profile\<lparr>profiles := [sample_profile]\<rparr> = one_profile" by (simp add: one_profile_def)
  let ?w = "(initial_world one_profile)\<lparr>base := Some one_profile\<rparr>"
  have 1: "update_profiles (\<lambda>p. prof_binding_ref p = ''bind_1'' \<and> prof_is_default p)
      (\<lambda>p. p\<lparr>prof_is_default := False\<rparr>) ?w = (Inr 0, ?w)"
    using p v by (simp add: update_profiles_no_fault count_where_def initial_world_def same)
  have 2: "update_profiles (\<lambda>p. prof_binding_ref p = ''bind_1'' \<and> prof_account_key p = ''acct_1'' \<and> prof_player_id p = ''100'')
      (\<lambda>p. p\<lparr>prof_is_default := True\<rparr>) ?w =
    (Inr 1, ?w\<lparr>db := one_profile\<lparr>profiles := [sample_profile\<lparr>prof_is_default := True\<rparr>]\<rparr>\<rparr>)"
    using p v by (simp add: update_profiles_no_fault count_where_def initial_world_def)
  have "SetDefaultByBindingAndPlayerID ''bind_1'' ''acct_1'' ''100'' (initial_world one_profile) =
    (Inr (), initial_world (one_profile\<lparr>profiles := [sample_profile\<lparr>prof_is_default := True\<rparr>]\<rparr>))"
    using 1 2 by (simp add: SetDefaultByBindingAndPlayerID_def nested_transaction_def transaction_def andThen_def
        map_error_def return_def initial_world_def)
  with p g show ?thesis
    by (simp add: SetPrimaryProfileByRef_def GetProfileByRef_def GetByProfileRef_def effect_simps)
qed

lemma SetPrimaryProfileByRef_effect_witness:
  "filter (\<lambda>p. prof_binding_ref p = ''bind_1'' \<and> \<not> prof_is_default p)
     (profiles (db (snd (SetPrimaryProfileByRef sample_guard ''acct_1'' ''p1'' (initial_world one_profile))))) = []"
  using SetPrimaryProfileByRef_effect [OF sample_primary] one_profile_ok
  unfolding sample_primary filter_empty_conv by (auto simp: sample_guard_def sample_profile_def)

end
