(* ===== verification/Mihomo_AuthKey.thy ===== *)
theory Mihomo_AuthKey
  imports Mihomo_Custody
begin

text \<open>
  Issuing auth keys: \<open>internal/usecase/authkey_usecase.go\<close> and the classification of upstream errors
  of \<open>status_usecase.go\<close>.  The upstream client is a record of functions from the call's arguments to
  its answer; a key the platform issued is recorded in the world's calls.  The readings of the clock,
  the nonces and the intent ids are drawn from an argument, one per place in the code.
\<close>

section \<open>Configuration\<close>

text \<open>The client (\<open>platformmihomo.Client\<close> and the interfaces it may also have), the key source and the
  artifact life cycle the use cases are built with.\<close>

record refresh_result =
  rr_credential_bundle :: string
  rr_account_id :: string
  rr_region :: string
  rr_profiles :: "discovered_profile list option"
  rr_expires_at :: instant

record mihomo_env =
  env_cipher :: cipher_library
  env_key :: "key_provider option"
  env_redis :: "string option"
  env_lifecycle :: artifact_lifecycle
  env_issue :: "(string \<Rightarrow> string \<Rightarrow> duration \<Rightarrow> merror + (string \<times> int)) option"
  env_client_revokes :: bool
  env_discover :: "string \<Rightarrow> string \<Rightarrow> merror + (string \<times> string \<times> discovered_profile list)"
  env_refresh :: "(string \<Rightarrow> string \<Rightarrow> merror + refresh_result) option"

record draws =
  dr_now :: "nat \<Rightarrow> instant"
  dr_nonce :: "nat \<Rightarrow> string option"
  dr_chance :: "nat \<Rightarrow> chance"

definition maximumAuthKeyTTL :: duration where "maximumAuthKeyTTL = 5 * minute"

definition minimumAuthKeyReturnTTL :: duration where "minimumAuthKeyReturnTTL = 5 * second"

section \<open>Classifying upstream errors\<close>

definition isCredentialAttentionError :: "merror option \<Rightarrow> bool" where
  "isCredentialAttentionError err = (case err of None \<Rightarrow> False
     | Some e \<Rightarrow> IsErrorKind e ErrorInvalidCredential \<or> IsErrorKind e ErrorExpiredCredential
                 \<or> IsErrorKind e ErrorChallengeRequired)"

definition classifyCredentialStatus :: "merror \<Rightarrow> string" where
  "classifyCredentialStatus err =
     (if IsErrorKind err ErrorChallengeRequired then ''challenge_required''
      else if IsErrorKind err ErrorExpiredCredential then ''expired'' else ''invalid'')"

definition classifyErrorCode :: "merror \<Rightarrow> string" where
  "classifyErrorCode err =
     (if IsErrorKind err ErrorChallengeRequired then ''CHALLENGE_REQUIRED''
      else if IsErrorKind err ErrorExpiredCredential then ''CREDENTIAL_EXPIRED'' else ''INVALID_CREDENTIAL'')"

section \<open>Issuing a key\<close>

record auth_key_output =
  gk_auth_key :: string
  gk_expires_at :: instant

text \<open>What \<open>getAuthKeyLocked\<close> leaves: the credential it was handed (it assigns to its fields), and its
  three results.\<close>

record locked_result =
  lk_credential :: credential
  lk_output :: "auth_key_output option"
  lk_intent :: "artifact_revocation_intent option"
  lk_error :: "merror option"

definition locked_failure :: "credential \<Rightarrow> merror \<Rightarrow> locked_result" where
  "locked_failure credential err =
     \<lparr>lk_credential = credential, lk_output = None, lk_intent = None, lk_error = Some err\<rparr>"

definition is_usable :: "instant \<Rightarrow> credential \<Rightarrow> bool" where
  "is_usable now credential \<longleftrightarrow> cred_status credential = ''active'' \<and>
     (case cred_expires_at credential of None \<Rightarrow> True | Some t \<Rightarrow> t > now)"

text \<open>The credential's envelope moves to the active key; a failed encryption leaves it empty.\<close>

definition reseal_credential ::
    "mihomo_env \<Rightarrow> string option \<Rightarrow> string \<Rightarrow> credential \<Rightarrow> (credential \<times> merror option) meff" where
  "reseal_credential env nonce cookieBundleJSON credential =
     (case EnvelopeNeedsReencryption (env_key env) (cred_blob credential) of
        Inl err \<Rightarrow> return (credential, Some err)
      | Inr False \<Rightarrow> return (credential, None)
      | Inr True \<Rightarrow> (case EncryptString (env_cipher env) (env_key env) nonce cookieBundleJSON of
            Inl err \<Rightarrow> return (credential\<lparr>cred_blob := ''''\<rparr>, Some err)
          | Inr blob \<Rightarrow>
              let resealed = credential\<lparr>cred_blob := blob, cred_version := ''v2''\<rparr> in
              andThen (attempt (Save_credential resealed)) (\<lambda>saved.
              return (resealed, case saved of Inl err \<Rightarrow> Some err | Inr _ \<Rightarrow> None))))"

text \<open>The stored key, unless it is about to expire: then the binding is invalidated.\<close>

definition stored_auth_key ::
    "mihomo_env \<Rightarrow> draws \<Rightarrow> credential \<Rightarrow> string \<Rightarrow> artifact option meff" where
  "stored_auth_key env dr credential playerID =
     andThen (HasRevocationPending (cred_binding_ref credential)) (\<lambda>pending.
     if pending then raise ErrArtifactRevocationPending
     else andThen (GetByBindingRef_artifact (env_redis env) (dr_now dr 1) (dr_now dr 2) (dr_now dr 3)
                     (cred_binding_ref credential) authKeyArtifactType playerID) (\<lambda>found.
       case found of
         None \<Rightarrow> return None
       | Some artifact \<Rightarrow>
           if art_expires_at artifact - dr_now dr 4 < minimumAuthKeyReturnTTL
           then andThen (InvalidateBinding (env_lifecycle env) (dr_chance dr 1) (cred_binding_ref credential))
                  (\<lambda>_. return None)
           else return (Some artifact)))"

definition seal_artifact :: "mihomo_env \<Rightarrow> string option \<Rightarrow> string \<Rightarrow> artifact \<Rightarrow> merror + string" where
  "seal_artifact env nonce authKey a = EncryptArtifact (env_cipher env) (env_key env) nonce authKey
     (art_binding_ref a) (art_account_key a) (art_type a) (art_scope_key a)"

definition open_artifact :: "mihomo_env \<Rightarrow> artifact \<Rightarrow> merror + string" where
  "open_artifact env a = DecryptArtifact (env_cipher env) (env_key env) (art_value a)
     (art_binding_ref a) (art_account_key a) (art_type a) (art_scope_key a)"

definition reuse_auth_key ::
    "mihomo_env \<Rightarrow> draws \<Rightarrow> credential \<Rightarrow> artifact \<Rightarrow> auth_key_output meff" where
  "reuse_auth_key env dr credential artifact =
     andThen (lift_result (open_artifact env artifact)) (\<lambda>authKey.
     andThen (lift_result (EnvelopeNeedsReencryption (env_key env) (art_value artifact))) (\<lambda>needsReencryption.
     andThen (if needsReencryption
              then andThen (lift_result (seal_artifact env (dr_nonce dr 1) authKey artifact)) (\<lambda>sealed.
                   PutIfCredentialCurrent (env_redis env) (dr_now dr 5) (artifact\<lparr>art_value := sealed\<rparr>)
                     (cred_generation credential))
              else return ()) (\<lambda>_.
     return \<lparr>gk_auth_key = authKey, gk_expires_at = art_expires_at artifact\<rparr>)))"

text \<open>\<open>return errors.Join(err, compensate())\<close>.\<close>

definition joined_with :: "merror \<Rightarrow> unit meff \<Rightarrow> 'a meff" where
  "joined_with err compensate =
     andThen (attempt compensate) (\<lambda>r. raise (case r of Inl e \<Rightarrow> Joined err e | Inr _ \<Rightarrow> err))"

definition IssueAuthKeyWithTTL ::
    "(string \<Rightarrow> string \<Rightarrow> duration \<Rightarrow> merror + (string \<times> int)) \<Rightarrow> string \<Rightarrow> string \<Rightarrow> (string \<times> int) meff" where
  "IssueAuthKeyWithTTL issuer cookieBundleJSON playerID =
     (case issuer cookieBundleJSON playerID maximumAuthKeyTTL of
        Inl err \<Rightarrow> raise err
      | Inr (authKey, seconds) \<Rightarrow> external (Issued_AuthKey authKey) (Inr (authKey, seconds)))"

definition issued_artifact :: "credential \<Rightarrow> string \<Rightarrow> string \<Rightarrow> instant \<Rightarrow> artifact" where
  "issued_artifact credential playerID value expiresAt = \<lparr>
     art_binding_ref = cred_binding_ref credential, art_account_key = cred_account_key credential,
     art_type = authKeyArtifactType, art_value = value, art_scope_key = playerID, art_expires_at = expiresAt\<rparr>"

definition valid_ttl :: "int \<Rightarrow> bool" where
  "valid_ttl expiresInSeconds \<longleftrightarrow> expiresInSeconds \<ge> minimumAuthKeyReturnTTL div second
     \<and> expiresInSeconds \<le> maximumAuthKeyTTL div second"

text \<open>The key is sealed, then recorded as a provisional intent, and stored only after that.\<close>

definition record_issued_key ::
    "mihomo_env \<Rightarrow> draws \<Rightarrow> credential \<Rightarrow> string \<Rightarrow> string \<Rightarrow> int
      \<Rightarrow> (auth_key_output option \<times> artifact_revocation_intent option \<times> merror option) meff" where
  "record_issued_key env dr credential playerID authKey expiresInSeconds =
     (case seal_artifact env (dr_nonce dr 2) authKey (issued_artifact credential playerID '''' 0) of
        Inl err \<Rightarrow> joined_with err (RevokeUntrackedAuthKey (env_lifecycle env) authKey)
      | Inr encryptedAuthKey \<Rightarrow>
          let expiresAt = (if valid_ttl expiresInSeconds then dr_now dr 7 + expiresInSeconds * second
                           else dr_now dr 6 + maximumAuthKeyTTL);
              artifact = issued_artifact credential playerID encryptedAuthKey expiresAt in
          andThen (attempt (StageIssuedArtifact (env_lifecycle env) (dr_chance dr 2) artifact)) (\<lambda>staged.
          case staged of
            Inl err \<Rightarrow> joined_with err (RevokeUntrackedAuthKey (env_lifecycle env) authKey)
          | Inr revocationIntent \<Rightarrow>
              if \<not> valid_ttl expiresInSeconds
              then return (None, revocationIntent, Some (UpstreamError ErrorInvalidResponse))
              else andThen (attempt (PutIfCredentialCurrent (env_redis env) (dr_now dr 8) artifact
                     (cred_generation credential))) (\<lambda>stored.
                return (case stored of
                  Inl err \<Rightarrow> (None, revocationIntent, Some err)
                | Inr _ \<Rightarrow> (Some \<lparr>gk_auth_key = authKey, gk_expires_at = expiresAt\<rparr>, revocationIntent, None)))))"

definition issue_auth_key ::
    "mihomo_env \<Rightarrow> draws \<Rightarrow> credential \<Rightarrow> string \<Rightarrow> string
      \<Rightarrow> (auth_key_output option \<times> artifact_revocation_intent option \<times> merror option) meff" where
  "issue_auth_key env dr credential cookieBundleJSON playerID =
     (case env_issue env of
        None \<Rightarrow> raise (UpstreamError ErrorUnavailable)
      | Some issuer \<Rightarrow>
          if \<not> env_client_revokes env then raise (UpstreamError ErrorUnavailable)
          else andThen (IssueAuthKeyWithTTL issuer cookieBundleJSON playerID) (\<lambda>(authKey, expiresInSeconds).
            if authKey = '''' then raise (UpstreamError ErrorInvalidResponse)
            else record_issued_key env dr credential playerID authKey expiresInSeconds))"

text \<open>Errors end the function with the credential as it is then.\<close>

definition or_fail :: "credential \<Rightarrow> 'a meff \<Rightarrow> ('a \<Rightarrow> locked_result meff) \<Rightarrow> locked_result meff" where
  "or_fail credential m k = andThen (attempt m) (\<lambda>r.
     case r of Inl err \<Rightarrow> return (locked_failure credential err) | Inr x \<Rightarrow> k x)"

definition getAuthKeyLocked :: "mihomo_env \<Rightarrow> draws \<Rightarrow> credential \<Rightarrow> string \<Rightarrow> locked_result meff" where
  "getAuthKeyLocked env dr credential playerID =
     (if \<not> is_usable (dr_now dr 0) credential
      then or_fail credential (InvalidateBinding (env_lifecycle env) (dr_chance dr 0) (cred_binding_ref credential))
             (\<lambda>_. return (locked_failure credential ErrCredentialRequiresAttention))
      else or_fail credential (lift_result (DecryptString (env_cipher env) (env_key env) (cred_blob credential)))
       (\<lambda>cookieBundleJSON.
         andThen (reseal_credential env (dr_nonce dr 0) cookieBundleJSON credential) (\<lambda>(credential, err).
         case err of
           Some e \<Rightarrow> return (locked_failure credential e)
         | None \<Rightarrow> or_fail credential (stored_auth_key env dr credential playerID) (\<lambda>found.
             case found of
               Some artifact \<Rightarrow> or_fail credential (reuse_auth_key env dr credential artifact) (\<lambda>output.
                 return \<lparr>lk_credential = credential, lk_output = Some output, lk_intent = None, lk_error = None\<rparr>)
             | None \<Rightarrow> or_fail credential (issue_auth_key env dr credential cookieBundleJSON playerID)
                 (\<lambda>(output, intent, err).
                   return \<lparr>lk_credential = credential, lk_output = output, lk_intent = intent, lk_error = err\<rparr>)))))"

text \<open>An error that needs attention is recorded in the credential's status, and its binding is
  invalidated.\<close>

definition record_attention ::
    "mihomo_env \<Rightarrow> draws \<Rightarrow> locked_result \<Rightarrow> merror \<Rightarrow> (locked_result \<times> merror option) meff" where
  "record_attention env dr lk operationErr =
     andThen (attempt (Save_credential ((lk_credential lk)\<lparr>cred_status := classifyCredentialStatus operationErr\<rparr>)))
     (\<lambda>saved. case saved of
       Inl err \<Rightarrow> return (lk, Some err)
     | Inr _ \<Rightarrow> andThen (attempt (InvalidateBinding (env_lifecycle env) (dr_chance dr 3)
                  (cred_binding_ref (lk_credential lk)))) (\<lambda>invalidated.
         return (case invalidated of
           Inl err \<Rightarrow> (lk\<lparr>lk_error := join_error (lk_error lk) err\<rparr>, None)
         | Inr _ \<Rightarrow> (lk, None))))"

text \<open>The body of the transaction of \<open>GetAuthKey\<close>: the variables it assigns and its own error.\<close>

definition get_auth_key_body ::
    "mihomo_env \<Rightarrow> draws \<Rightarrow> string \<Rightarrow> string \<Rightarrow> string \<Rightarrow> (locked_result \<times> merror option) meff" where
  "get_auth_key_body env dr bindingRef accountKey playerID =
     andThen (GetByBindingRefForUpdate bindingRef) (\<lambda>current.
     case current of
       None \<Rightarrow> raise ErrCredentialNotFound
     | Some c \<Rightarrow>
         if cred_account_key c \<noteq> accountKey then raise ErrCredentialNotFound
         else andThen (getAuthKeyLocked env dr c playerID) (\<lambda>lk.
           case lk_error lk of
             None \<Rightarrow> return (lk, None)
           | Some err \<Rightarrow> if isCredentialAttentionError (Some err) then record_attention env dr lk err
                         else return (lk, Some err)))"

text \<open>After the transaction: a failure revokes what was issued, success finalizes the intent.\<close>

definition conclude_issue ::
    "mihomo_env \<Rightarrow> draws \<Rightarrow> locked_result option \<Rightarrow> merror option \<Rightarrow> auth_key_output option meff" where
  "conclude_issue env dr captured err =
     (let intent = (case captured of None \<Rightarrow> None | Some lk \<Rightarrow> lk_intent lk);
          output = (case captured of None \<Rightarrow> None | Some lk \<Rightarrow> lk_output lk);
          operationErr = (case captured of None \<Rightarrow> None | Some lk \<Rightarrow> lk_error lk);
          revoke = RevokeIssuedArtifact (env_lifecycle env) (dr_chance dr 4) intent in
      case err of
        Some e \<Rightarrow> joined_with e revoke
      | None \<Rightarrow> (case operationErr of
          Some e \<Rightarrow> joined_with e revoke
        | None \<Rightarrow> (case intent of
            None \<Rightarrow> return output
          | Some j \<Rightarrow> andThen (attempt (FinalizeIssuedArtifact (env_lifecycle env) (bi_intent_id j))) (\<lambda>r.
              case r of Inl e \<Rightarrow> joined_with e revoke | Inr _ \<Rightarrow> return output))))"

definition GetAuthKey :: "mihomo_env \<Rightarrow> draws \<Rightarrow> string \<Rightarrow> string \<Rightarrow> auth_key_output option meff" where
  "GetAuthKey env dr accountKey playerID =
     andThen (GetByAccountKey_credential accountKey) (\<lambda>found.
     case found of
       None \<Rightarrow> raise ErrCredentialNotFound
     | Some credential \<Rightarrow>
         andThen (transaction_capturing Db
           (get_auth_key_body env dr (cred_binding_ref credential) accountKey playerID)) (\<lambda>(captured, err).
         andThen (conclude_issue env dr captured err) (\<lambda>output.
         andThen (attempt (GetByBindingRef_artifact (env_redis env) (dr_now dr 9) (dr_now dr 10) (dr_now dr 11)
                    (cred_binding_ref credential) authKeyArtifactType playerID)) (\<lambda>_.
         return output))))"

definition ConfirmDeliverable :: "instant \<Rightarrow> string \<Rightarrow> unit meff option \<Rightarrow> unit meff" where
  "ConfirmDeliverable now bindingRef authorize = within_transaction
     (andThen (GetByBindingRefForUpdate bindingRef) (\<lambda>found.
      case found of
        None \<Rightarrow> raise ErrCredentialNotFound
      | Some credential \<Rightarrow>
          andThen (case authorize of None \<Rightarrow> return () | Some check \<Rightarrow> check) (\<lambda>_.
          if \<not> is_usable now credential then raise ErrCredentialRequiresAttention
          else andThen (HasRevocationPending bindingRef) (\<lambda>pending.
            if pending then raise ErrArtifactRevocationPending else return ()))))"

section \<open>Every step keeps custody\<close>

lemmas authkey_defs = joined_with_def record_issued_key_def issue_auth_key_def or_fail_def
  reseal_credential_def stored_auth_key_def reuse_auth_key_def IssueAuthKeyWithTTL_def

lemma StageIssued_custody: "obeys (custody l) (StageIssuedArtifact l ch a)"
  by (simp add: StageIssuedArtifact_def stageArtifact_custody)

lemmas authkey_custody_rules = custody.rules artifact_reads_custody artifact_writes_custody credential_custody
  InvalidateBinding_custody StageIssued_custody RevokeUntracked_custody external_custody

lemma or_fail_obeys:
  assumes "obeys (custody l) m" "\<And>x. obeys (custody l) (k x)"
  shows "obeys (custody l) (or_fail c m k)"
  using assms by (auto simp: or_fail_def intro!: custody.rules)

lemma authkey_parts_custody:
  "obeys (custody (env_lifecycle env)) (reseal_credential env n p c)"
  "obeys (custody (env_lifecycle env)) (stored_auth_key env dr c p)"
  "obeys (custody (env_lifecycle env)) (reuse_auth_key env dr c a)"
  "obeys (custody (env_lifecycle env)) (record_issued_key env dr c p k s)"
  by (auto simp: authkey_defs Let_def intro!: authkey_custody_rules split: bool.splits sum.splits)

lemma issue_auth_key_custody: "obeys (custody (env_lifecycle env)) (issue_auth_key env dr c b p)"
  unfolding issue_auth_key_def IssueAuthKeyWithTTL_def
  by (intro authkey_custody_rules authkey_parts_custody)

lemma getAuthKeyLocked_custody: "obeys (custody (env_lifecycle env)) (getAuthKeyLocked env dr c p)"
  unfolding getAuthKeyLocked_def
  by (intro authkey_custody_rules authkey_parts_custody issue_auth_key_custody or_fail_obeys)

lemma record_attention_custody: "obeys (custody (env_lifecycle env)) (record_attention env dr lk e)"
  unfolding record_attention_def by (intro authkey_custody_rules)

lemma get_auth_key_body_custody: "obeys (custody (env_lifecycle env)) (get_auth_key_body env dr b a p)"
  unfolding get_auth_key_body_def
  by (intro authkey_custody_rules getAuthKeyLocked_custody record_attention_custody)

section \<open>Issued keys\<close>

lemma quiet_parts:
  "obeys no_issue (reseal_credential env n p c)" "obeys no_issue (stored_auth_key env dr c p)"
  "obeys no_issue (reuse_auth_key env dr c a)" "obeys no_issue (record_issued_key env dr c p k s)"
  "obeys no_issue (conclude_issue env dr captured err)" "obeys no_issue (record_attention env dr lk e)"
  by (auto simp: authkey_defs conclude_issue_def record_attention_def Let_def split: bool.splits sum.splits
      intro!: quiet.rules quiet_artifacts quiet_credentials quiet_lifecycle)

text \<open>The key \<open>k\<close> is in custody: what is known of it seals to \<open>k\<close>, and waits for its revocation
  as an intent or was revoked.\<close>

definition payload_opens :: "artifact_lifecycle \<Rightarrow> (string \<times> string \<times> string \<times> string) \<Rightarrow> string \<Rightarrow> bool" where
  "payload_opens l P k \<longleftrightarrow> (case P of (b, t, s, v) \<Rightarrow>
     \<exists>account. DecryptArtifact (al_cipher l) (al_key l) v b account t s = Inr k)"

definition in_custody :: "artifact_lifecycle \<Rightarrow> string \<Rightarrow> mworld \<Rightarrow> bool" where
  "in_custody l k w \<longleftrightarrow> (\<exists>P. payload_opens l P k \<and> secured l P w)"

text \<open>The platform refuses to revoke \<open>k\<close> when it is asked.\<close>

definition revocation_refused :: "artifact_lifecycle \<Rightarrow> string \<Rightarrow> bool" where
  "revocation_refused l k \<longleftrightarrow> (case al_revoker l of None \<Rightarrow> True | Some revoker \<Rightarrow> revoker k \<noteq> None)"

definition revoked_or_refused :: "artifact_lifecycle \<Rightarrow> string \<Rightarrow> mworld \<Rightarrow> bool" where
  "revoked_or_refused l k w \<longleftrightarrow> Revoked_AuthKey k \<in> set (calls w) \<or> revocation_refused l k"

text \<open>What the sealing in \<open>record_issued_key\<close> needs of the keys: they open again for the life cycle.\<close>

definition seals_for_lifecycle :: "mihomo_env \<Rightarrow> draws \<Rightarrow> bool" where
  "seals_for_lifecycle env dr \<longleftrightarrow> (\<forall>k a s. seal_artifact env (dr_nonce dr 2) k a = Inr s \<longrightarrow>
     DecryptArtifact (al_cipher (env_lifecycle env)) (al_key (env_lifecycle env)) s
       (art_binding_ref a) (art_account_key a) (art_type a) (art_scope_key a) = Inr k)"

lemma joined_with_run:
  assumes "joined_with err m w = (r, w')"
  obtains e q where "r = Inl e" "m w = (q, w')"
  using assms by (cases "m w") (auto simp: joined_with_def effect_simps)

lemma RevokeUntracked_run:
  "RevokeUntrackedAuthKey l k w = (r, w') \<Longrightarrow> revoked_or_refused l k w'"
  by (auto simp: RevokeUntrackedAuthKey_def RevokeAuthKey_def effect_simps revoked_or_refused_def
      revocation_refused_def split: option.splits)

lemma put_artifact_frames_intents [simp]: "frames intents (PutIfCredentialCurrent redis now a g)"
  by (auto simp: PutIfCredentialCurrent_def put_artifact_def intro!: keeps_rules sql_change_frames)

text \<open>The errors of a repository carry no upstream error.\<close>

definition plain_errors :: "'a meff \<Rightarrow> bool" where
  "plain_errors m \<longleftrightarrow> (\<forall>w e w'. m w = (Inl e, w') \<longrightarrow> upstream_kind e = None)"

lemma plain_errors_rules:
  "plain_errors (return x)" "upstream_kind e = None \<Longrightarrow> plain_errors (raise e)"
  "plain_errors m \<Longrightarrow> (\<And>x. plain_errors (f x)) \<Longrightarrow> plain_errors (andThen m f)"
  "plain_errors (attempt m')" "plain_errors (sql_query g)" "plain_errors (sql_change h)"
  "plain_errors in_transaction" "plain_errors (cache_command c)"
  by (auto simp: plain_errors_def effect_simps query_def sql_change_def sql_write_def statement_def
      cache_command_def split: prod.splits sum.splits if_splits)

lemma plain_errors_branches:
  "(c \<Longrightarrow> plain_errors m) \<Longrightarrow> (\<not> c \<Longrightarrow> plain_errors m') \<Longrightarrow> plain_errors (if c then m else m')"
  "(x = None \<Longrightarrow> plain_errors m) \<Longrightarrow> (\<And>y. x = Some y \<Longrightarrow> plain_errors (f y)) \<Longrightarrow>
     plain_errors (case x of None \<Rightarrow> m | Some y \<Rightarrow> f y)"
  by (simp, cases x, auto)

lemma PutIfCredentialCurrent_plain: "plain_errors (PutIfCredentialCurrent redis now a g)"
  unfolding PutIfCredentialCurrent_def put_artifact_def
  by (intro plain_errors_rules plain_errors_branches) auto

text \<open>What issuing a key leaves: an intent that holds it, or nothing recorded and the key revoked at
  once (or that revocation refused).\<close>

definition holds_key :: "artifact_lifecycle \<Rightarrow> string \<Rightarrow> artifact_revocation_intent \<Rightarrow> mworld \<Rightarrow> bool" where
  "holds_key l k i w \<longleftrightarrow> payload_opens l (bi_payload i) k \<and> stands i (intents (committed w))"

lemma holds_key_same_intents:
  "holds_key l k i w \<Longrightarrow> intents (committed w') = intents (committed w) \<Longrightarrow> holds_key l k i w'"
  by (simp add: holds_key_def)

lemma frames_sound_intents:
  assumes "frames intents m" "m w = (r, w')" "sound w" "sound w'"
  shows "intents (committed w') = intents (committed w)"
  using sound_committed [OF assms(3)] sound_committed [OF assms(4)] framesD [OF assms(1), of w] assms(2) by simp

lemma record_issued_key_outcome:
  assumes run: "record_issued_key env dr c p k secs w = (r, w')" and w: "sound w"
    and seals: "seals_for_lifecycle env dr" and l: "l = env_lifecycle env"
  shows "(\<exists>i out e. r = Inr (out, Some i, e) \<and> holds_key l k i w' \<and>
      (case out of Some x \<Rightarrow> gk_auth_key x = k \<and> e = None
       | None \<Rightarrow> (\<exists>err. e = Some err \<and> \<not> isCredentialAttentionError (Some err)))) \<or>
    (\<exists>e. r = Inl e \<and> revoked_or_refused l k w')"
proof (cases "seal_artifact env (dr_nonce dr 2) k (issued_artifact c p '''' 0)")
  case (Inl e)
  with run have "joined_with e (RevokeUntrackedAuthKey l k) w = (r, w')"
    by (simp add: record_issued_key_def l)
  then show ?thesis by (elim joined_with_run) (auto dest: RevokeUntracked_run)
next
  case sealed: (Inr v)
  let ?exp = "if valid_ttl secs then dr_now dr 7 + secs * second else dr_now dr 6 + maximumAuthKeyTTL"
  let ?a = "issued_artifact c p v ?exp"
  obtain r1 w1 where stage: "stageArtifact l (dr_chance dr 2) ?a ''provisional'' w = (r1, w1)" by fastforce
  have s1: "sound w1" using obeysD [OF stageArtifact_custody stage] w by (rule custody_sound)
  show ?thesis
  proof (cases r1)
    case (Inl e)
    with run sealed stage have "joined_with e (RevokeUntrackedAuthKey l k) w1 = (r, w')"
      by (simp add: record_issued_key_def StageIssuedArtifact_def l effect_simps Let_def)
    then show ?thesis by (elim joined_with_run) (auto dest: RevokeUntracked_run)
  next
    case (Inr x)
    with stageArtifact_effect [OF stage] obtain i where i: "x = Some i" "bi_payload i = row_payload ?a"
      "stands i (intents (committed w1))" by blast
    have "payload_opens l (bi_payload i) k"
      using seals [unfolded seals_for_lifecycle_def, rule_format, OF sealed]
      by (auto simp: payload_opens_def i(2) row_payload_def issued_artifact_def l)
    with i(3) have h1: "holds_key l k i w1" by (simp add: holds_key_def)
    show ?thesis
    proof (cases "valid_ttl secs")
      case False
      with run sealed stage Inr i(1) have "r = Inr (None, Some i, Some (UpstreamError ErrorInvalidResponse))" "w' = w1"
        by (auto simp: record_issued_key_def StageIssuedArtifact_def l effect_simps Let_def)
      with h1 show ?thesis by (auto simp: isCredentialAttentionError_def IsErrorKind_def)
    next
      case True
      obtain r2 w2 where put: "PutIfCredentialCurrent (env_redis env) (dr_now dr 8) ?a (cred_generation c) w1 = (r2, w2)"
        by fastforce
      have s2: "sound w2" using obeysD [OF artifact_writes_custody(1) put] s1 by (rule custody_sound)
      have h2: "holds_key l k i w2"
        using h1 frames_sound_intents [OF put_artifact_frames_intents put s1 s2] by (rule holds_key_same_intents)
      have plain: "upstream_kind e = None" if "r2 = Inl e" for e
        using PutIfCredentialCurrent_plain put that unfolding plain_errors_def by blast
      from run sealed stage Inr i(1) True put have "w' = w2" "r = Inr (case r2 of Inl err \<Rightarrow> (None, Some i, Some err)
          | Inr _ \<Rightarrow> (Some \<lparr>gk_auth_key = k, gk_expires_at = ?exp\<rparr>, Some i, None))"
        by (auto simp: record_issued_key_def StageIssuedArtifact_def l effect_simps Let_def)
      with h2 plain show ?thesis
        by (cases r2) (auto simp: isCredentialAttentionError_def IsErrorKind_def)
    qed
  qed
qed

text \<open>The same for \<open>getAuthKeyLocked\<close>, which also may have issued nothing.\<close>

definition key_outcome :: "artifact_lifecycle \<Rightarrow> string \<Rightarrow> locked_result \<Rightarrow> mworld \<Rightarrow> bool" where
  "key_outcome l k lk w \<longleftrightarrow>
     (\<exists>i. lk_intent lk = Some i \<and> holds_key l k i w \<and>
        (case lk_output lk of Some x \<Rightarrow> gk_auth_key x = k \<and> lk_error lk = None
         | None \<Rightarrow> lk_error lk \<noteq> None \<and> \<not> isCredentialAttentionError (lk_error lk))) \<or>
     (lk_intent lk = None \<and> lk_error lk \<noteq> None \<and> revoked_or_refused l k w)"

lemma or_fail_run:
  assumes "or_fail c m f w = (r, w')"
  obtains e where "m w = (Inl e, w')" "r = Inr (locked_failure c e)"
  | x w1 where "m w = (Inr x, w1)" "f x w1 = (r, w')"
  using assms by (cases "m w") (auto simp: or_fail_def effect_simps split: sum.splits)

definition issues_only :: "artifact_lifecycle \<Rightarrow> string \<Rightarrow> mworld \<Rightarrow> merror + locked_result \<Rightarrow> mworld \<Rightarrow> bool" where
  "issues_only l k w r w' \<longleftrightarrow> (\<exists>lk. r = Inr lk \<and>
     (Issued_AuthKey k \<in> set (calls w') - set (calls w) \<longrightarrow> k \<noteq> '''' \<longrightarrow> key_outcome l k lk w'))"

lemma issues_onlyI:
  "r = Inr lk \<Longrightarrow> no_issue w w' \<Longrightarrow> issues_only l k w r w'"
  by (auto simp: issues_only_def no_issue_def)

lemma issues_only_later:
  "issues_only l k w1 r w' \<Longrightarrow> no_issue w w1 \<Longrightarrow> issues_only l k w r w'"
  by (auto simp: issues_only_def no_issue_def)

lemma issue_auth_key_outcome:
  assumes run: "or_fail c (issue_auth_key env dr c cookie p) (\<lambda>(output, intent, err).
        return \<lparr>lk_credential = c, lk_output = output, lk_intent = intent, lk_error = err\<rparr>) w = (r, w')"
    and w: "sound w" and seals: "seals_for_lifecycle env dr" and l: "l = env_lifecycle env"
  shows "issues_only l k w r w'"
proof (cases "(\<exists>issuer. env_issue env = Some issuer) \<and> env_client_revokes env")
  case False
  with run show ?thesis
    by (intro issues_onlyI [of _ "locked_failure c (UpstreamError ErrorUnavailable)"])
      (auto simp: issue_auth_key_def or_fail_def effect_simps split: option.splits if_splits)
next
  case True
  then obtain issuer where i: "env_issue env = Some issuer" "env_client_revokes env" by blast
  show ?thesis
  proof (cases "issuer cookie p maximumAuthKeyTTL")
    case (Inl e)
    with run i show ?thesis
      by (intro issues_onlyI [of _ "locked_failure c e"])
        (auto simp: issue_auth_key_def IssueAuthKeyWithTTL_def or_fail_def effect_simps)
  next
    case (Inr x)
    obtain k' secs where x: "x = (k', secs)" by fastforce
    let ?w1 = "w\<lparr>calls := calls w @ [Issued_AuthKey k']\<rparr>"
    have w1: "sound ?w1" using w by (auto simp: sound_def holds_def mirrored_def)
    show ?thesis
    proof (cases "k' = ''''")
      case True
      with run i Inr x show ?thesis
        by (auto simp: issue_auth_key_def IssueAuthKeyWithTTL_def or_fail_def effect_simps issues_only_def)
    next
      case False
      obtain q w2 where rec: "record_issued_key env dr c p k' secs ?w1 = (q, w2)" by fastforce
      note o = record_issued_key_outcome [OF rec w1 seals l]
      from obeysD [OF quiet_parts(4) rec] have only: "Issued_AuthKey k \<in> set (calls w2) - set (calls w) \<Longrightarrow> k = k'"
        by (auto simp: no_issue_def)
      from run i Inr x False rec have r: "w' = w2" "r = Inr (case q of Inl e \<Rightarrow> locked_failure c e
          | Inr (output, intent, err) \<Rightarrow> \<lparr>lk_credential = c, lk_output = output, lk_intent = intent, lk_error = err\<rparr>)"
        by (auto simp: issue_auth_key_def IssueAuthKeyWithTTL_def or_fail_def effect_simps split: sum.splits)
      have "\<exists>lk. r = Inr lk \<and> key_outcome l k' lk w'"
        using o r by (fastforce simp: key_outcome_def locked_failure_def split: option.splits)
      with only r(1) show ?thesis by (auto simp: issues_only_def)
    qed
  qed
qed

lemma getAuthKeyLocked_issues:
  assumes run: "getAuthKeyLocked env dr c p w = (r, w')" and w: "sound w"
    and seals: "seals_for_lifecycle env dr" and l: "l = env_lifecycle env"
  shows "issues_only l k w r w'"
proof (cases "is_usable (dr_now dr 0) c")
  case False
  with run have "or_fail c (InvalidateBinding l (dr_chance dr 0) (cred_binding_ref c))
      (\<lambda>_. return (locked_failure c ErrCredentialRequiresAttention)) w = (r, w')"
    by (simp add: getAuthKeyLocked_def l)
  then show ?thesis
    by (elim or_fail_run) (auto simp: effect_simps intro!: issues_onlyI dest: obeysD [OF quiet_lifecycle(6)])
next
  case usable: True
  show ?thesis
  proof (cases "DecryptString (env_cipher env) (env_key env) (cred_blob c)")
    case (Inl e)
    with run usable show ?thesis
      by (auto simp: getAuthKeyLocked_def or_fail_def effect_simps intro!: issues_onlyI)
  next
    case cookie: (Inr cookie)
    obtain q w1 where reseal: "reseal_credential env (dr_nonce dr 0) cookie c w = (q, w1)" by fastforce
    have q1: "no_issue w w1" by (rule obeysD [OF quiet_parts(1) reseal])
    have s1: "sound w1" using obeysD [OF authkey_parts_custody(1) reseal] w by (rule custody_sound)
    obtain c1 err where q: "q = Inr (c1, err)"
      using reseal unfolding reseal_credential_def
      by (auto simp: effect_simps Let_def split: sum.splits bool.splits)
    show ?thesis
    proof (cases err)
      case (Some e)
      with run usable cookie reseal q q1 show ?thesis
        by (auto simp: getAuthKeyLocked_def or_fail_def effect_simps intro!: issues_onlyI)
    next
      case None
      with run usable cookie reseal q have "or_fail c1 (stored_auth_key env dr c1 p) (\<lambda>found. case found of
          Some a \<Rightarrow> or_fail c1 (reuse_auth_key env dr c1 a) (\<lambda>output.
            return \<lparr>lk_credential = c1, lk_output = Some output, lk_intent = None, lk_error = None\<rparr>)
        | None \<Rightarrow> or_fail c1 (issue_auth_key env dr c1 cookie p) (\<lambda>(output, intent, err).
            return \<lparr>lk_credential = c1, lk_output = output, lk_intent = intent, lk_error = err\<rparr>)) w1 = (r, w')"
        by (simp add: getAuthKeyLocked_def or_fail_def [of c "lift_result _"] effect_simps)
      then have "issues_only l k w1 r w'"
      proof (cases rule: or_fail_run)
        case (1 e)
        then show ?thesis by (intro issues_onlyI) (auto dest: obeysD [OF quiet_parts(2)])
      next
        case (2 found w2)
        have q2: "no_issue w1 w2" by (rule obeysD [OF quiet_parts(2) 2(1)])
        have s2: "sound w2" using obeysD [OF authkey_parts_custody(2) 2(1)] s1 by (rule custody_sound)
        show ?thesis
        proof (cases found)
          case None
          with 2(2) have "or_fail c1 (issue_auth_key env dr c1 cookie p) (\<lambda>(output, intent, err).
            return \<lparr>lk_credential = c1, lk_output = output, lk_intent = intent, lk_error = err\<rparr>) w2 = (r, w')"
            by simp
          from issues_only_later [OF issue_auth_key_outcome [OF this s2 seals l] q2] show ?thesis .
        next
          case (Some a)
          with 2(2) have "or_fail c1 (reuse_auth_key env dr c1 a) (\<lambda>output.
            return \<lparr>lk_credential = c1, lk_output = Some output, lk_intent = None, lk_error = None\<rparr>) w2 = (r, w')"
            by simp
          then have "issues_only l k w2 r w'"
            by (elim or_fail_run) (auto simp: effect_simps intro!: issues_onlyI dest: obeysD [OF quiet_parts(3)])
          with q2 show ?thesis by (rule issues_only_later [rotated])
        qed
      qed
      with q1 show ?thesis by (rule issues_only_later [rotated])
    qed
  qed
qed

text \<open>The transaction's body keeps the outcome: where it goes on after an error that needs attention,
  no intent was left.\<close>

lemma holds_key_custody: "holds_key l k i w \<Longrightarrow> in_custody l k w"
  unfolding holds_key_def in_custody_def using stands_secured by blast

lemma get_auth_key_body_issues:
  assumes run: "get_auth_key_body env dr b a p w = (r, w')" and w: "sound w"
    and seals: "seals_for_lifecycle env dr" and l: "l = env_lifecycle env"
    and new: "Issued_AuthKey k \<in> set (calls w') - set (calls w)" "k \<noteq> ''''"
  obtains lk e where "r = Inr (lk, e)" "key_outcome l k lk w'" "lk_error lk \<noteq> None \<and> \<not> isCredentialAttentionError (lk_error lk) \<longrightarrow> e \<noteq> None"
proof -
  obtain r0 w0 where get: "GetByBindingRefForUpdate b w = (r0, w0)" by fastforce
  have s0: "sound w0" using obeysD [OF credential_custody(2) get] w by (rule custody_sound)
  have q0: "no_issue w w0" by (rule obeysD [OF quiet_credentials(2) get])
  show thesis
  proof (cases "\<exists>c. r0 = Inr (Some c) \<and> cred_account_key c = a")
    case False
    with run get q0 new(1) show thesis
      by (cases r0) (auto simp: get_auth_key_body_def effect_simps no_issue_def split: option.splits if_splits)
  next
    case True
    then obtain c where c: "r0 = Inr (Some c)" "cred_account_key c = a" by blast
    obtain q w1 where locked: "getAuthKeyLocked env dr c p w0 = (q, w1)" by fastforce
    from getAuthKeyLocked_issues [OF locked s0 seals l, of k] obtain lk where
      lk: "q = Inr lk" "Issued_AuthKey k \<in> set (calls w1) - set (calls w0) \<Longrightarrow> key_outcome l k lk w1"
      unfolding issues_only_def using new(2) by blast
    show thesis
    proof (cases "isCredentialAttentionError (lk_error lk)")
      case False
      with run get c locked lk(1) have r: "w' = w1" "r = Inr (lk, lk_error lk)"
        by (auto simp: get_auth_key_body_def effect_simps split: option.splits)
      with new(1) q0 have "Issued_AuthKey k \<in> set (calls w1) - set (calls w0)" by (auto simp: no_issue_def)
      from that [OF r(2)] lk(2) [OF this] r(1) show thesis by blast
    next
      case True
      then obtain err where err: "lk_error lk = Some err"
        by (auto simp: isCredentialAttentionError_def split: option.splits)
      with run get c locked lk(1) True have rest: "record_attention env dr lk err w1 = (r, w')"
        by (simp add: get_auth_key_body_def effect_simps)
      from obeysD [OF quiet_parts(6) rest] have q1: "no_issue w1 w'" .
      from obeysD [OF record_attention_custody rest] have calls: "set (calls w1) \<subseteq> set (calls w')"
        by (simp add: custody_def orderly_def)
      from q0 q1 new(1) have "Issued_AuthKey k \<in> set (calls w1) - set (calls w0)" by (auto simp: no_issue_def)
      from lk(2) [OF this] True err have o: "lk_intent lk = None" "revoked_or_refused l k w1"
        by (auto simp: key_outcome_def split: option.splits)
      have "revoked_or_refused l k w'" using o(2) calls by (auto simp: revoked_or_refused_def)
      moreover obtain lk' e where "r = Inr (lk', e)" "lk_intent lk' = None" "lk_error lk' \<noteq> None"
        "isCredentialAttentionError (lk_error lk')"
        using rest o err True by (auto simp: record_attention_def effect_simps join_error_def
            isCredentialAttentionError_def IsErrorKind_def split: sum.splits option.splits)
      ultimately show thesis using that [of lk' e] by (simp add: key_outcome_def)
    qed
  qed
qed

text \<open>The end of the call: an intent that was left is revoked with the failure, or finalized.\<close>

lemma closes_intents:
  assumes "closes v w'" "sound v"
  shows "intents (committed w') = intents (committed v)" "calls w' = calls v" "base w' = None" "sound w'"
  using assms sound_committed [OF assms(2)] sound_close [OF assms(2)]
  by (auto simp: closes_def committed_def)

lemma compensated:
  assumes run: "joined_with e (RevokeIssuedArtifact l ch intent) w = (r, w')" and w: "sound w"
  shows "(\<exists>err. r = Inl err) \<and> (intent = Some i \<longrightarrow> holds_key l k i w \<longrightarrow> in_custody l k w') \<and>
    set (calls w) \<subseteq> set (calls w')"
proof -
  from run obtain q err where r: "r = Inl err" "RevokeIssuedArtifact l ch intent w = (q, w')"
    by (rule joined_with_run)
  have "set (calls w) \<subseteq> set (calls w')"
    using orderlyD [OF lifecycle_orderly(4) r(2)] by (simp add: orderly_def)
  moreover have "in_custody l k w'" if i: "intent = Some i" and h: "holds_key l k i w"
  proof -
    have "tracks i (intents (committed w))"
      using h sound_committed [OF w] stands_tracks [of i "committed w"] by (simp add: holds_key_def)
    from RevokeIssuedArtifact_keeps_custody [OF r(2) [unfolded i] this] w
    have "\<And>P. secured l P w \<Longrightarrow> secured l P w'" unfolding custody_def by blast
    with holds_key_custody [OF h] show ?thesis unfolding in_custody_def by blast
  qed
  ultimately show ?thesis using r(1) by blast
qed

definition accounted_for ::
    "artifact_lifecycle \<Rightarrow> string \<Rightarrow> merror + auth_key_output option \<Rightarrow> mworld \<Rightarrow> bool" where
  "accounted_for l k r w \<longleftrightarrow> (case r of
     Inr out \<Rightarrow> (\<exists>x. out = Some x \<and> gk_auth_key x = k)
   | Inl _ \<Rightarrow> in_custody l k w \<or> revoked_or_refused l k w)"

lemma Finalize_failure:
  assumes "FinalizeIssuedArtifact l i w = (Inl e, w')" "base w = None"
  shows "db w' = db w \<and> base w' = None"
proof (cases "al_configured l")
  case True
  let ?m = "andThen (sql_query (\<lambda>d. find (\<lambda>x. int_intent_id x = i) (intents d))) (\<lambda>found. case found of
      None \<Rightarrow> return () | Some intent \<Rightarrow> if int_state intent \<noteq> ''provisional'' then raise ErrArtifactRevocationPending
      else sql_change (delete_intents (\<lambda>x. int_intent_id x = i \<and> int_state x = ''provisional'')))"
  have "pins_committed ?m" by (intro keeps_rules)
  moreover have "transaction Db ?m w = (Inl e, w')"
    using assms(1) True by (simp add: FinalizeIssuedArtifact_def FinalizeRevocationIntentImmediately_def)
  ultimately show ?thesis
    using transaction_atomic [of ?m w Db e] transaction_base [of w Db ?m] assms(2) by simp
qed (use assms in \<open>auto simp: FinalizeIssuedArtifact_def effect_simps\<close>)

lemma conclude_accounts:
  assumes run: "conclude_issue env dr (Some lk) e w = (r, w')" and w: "sound w" "base w = None"
    and o: "key_outcome l k lk w" and l: "l = env_lifecycle env"
  shows "accounted_for l k r w'"
proof -
  have failing: "accounted_for l k r w'"
    if "joined_with err (RevokeIssuedArtifact l ch (lk_intent lk)) v = (r, w')" "sound v" "key_outcome l k lk v" for err ch v
    using compensated [OF that(1,2)] that(3)
    by (fastforce simp: accounted_for_def key_outcome_def revoked_or_refused_def)
  show ?thesis
  proof (cases "e = None \<and> lk_error lk = None")
    case False
    then obtain err where "joined_with err (RevokeIssuedArtifact l (dr_chance dr 4) (lk_intent lk)) w = (r, w')"
      using run by (cases e) (auto simp: conclude_issue_def Let_def l split: option.splits)
    with failing w(1) o show ?thesis by blast
  next
    case True
    with o obtain i x where i: "lk_intent lk = Some i" "holds_key l k i w" "lk_output lk = Some x" "gk_auth_key x = k"
      by (auto simp: key_outcome_def split: option.splits)
    obtain q w1 where fin: "FinalizeIssuedArtifact l (bi_intent_id i) w = (q, w1)" by fastforce
    show ?thesis
    proof (cases q)
      case (Inr u)
      with run True i fin show ?thesis
        by (auto simp: conclude_issue_def Let_def l effect_simps accounted_for_def)
    next
      case (Inl err)
      with run True i fin have j: "joined_with err (RevokeIssuedArtifact l (dr_chance dr 4) (lk_intent lk)) w1 = (r, w')"
        by (auto simp: conclude_issue_def Let_def l effect_simps)
      from Finalize_failure [OF fin [unfolded Inl] w(2)] have "sound w1" "key_outcome l k lk w1"
        using w o i by (auto simp: sound_def holds_def mirrored_def key_outcome_def holds_key_def committed_def)
      with failing [OF j] show ?thesis by blast
    qed
  qed
qed

text \<open>The transaction ends with the outcome of its body.\<close>

lemma capturing_run:
  assumes "transaction_capturing mk m w = (Inr (captured, err), w')" "base w = None"
  obtains q v where "m (w\<lparr>base := Some (db w)\<rparr>) = (q, v)" "closes v w'"
    "case q of Inl e \<Rightarrow> captured = None \<and> err = Some e
     | Inr (c, e) \<Rightarrow> captured = Some c \<and> (err = e \<or> (e = None \<and> err = Some (mk Connection_Fault)))"
proof -
  obtain q v where m: "m (w\<lparr>base := Some (db w)\<rparr>) = (q, v)" by fastforce
  have "closes v w'" using transaction_closes(2) [OF assms(2), of m mk] m assms(1) by simp
  moreover have "case q of Inl e \<Rightarrow> captured = None \<and> err = Some e
     | Inr (c, e) \<Rightarrow> captured = Some c \<and> (err = e \<or> (e = None \<and> err = Some (mk Connection_Fault)))"
    using assms m by (auto simp: transaction_capturing_def split: sum.splits prod.splits option.splits if_splits)
  ultimately show thesis using that m by blast
qed

lemma accounted_for_later:
  "accounted_for l k (Inr x) w \<Longrightarrow> accounted_for l k (Inr x) w'"
  by (simp add: accounted_for_def)

context key_source
begin

lemma sealed_artifact_opens:
  assumes "EncryptArtifact lib (Some ks) nonce p b a t sc = Inr s" "opens_what_it_seals lib"
    and "\<And>n. nonce = Some n \<Longrightarrow> length n = nonce_size"
  shows "DecryptArtifact lib (Some ks) s b a t sc = Inr p"
  using assms(1)
  by (rule artifact_sealed_parts)
    (use assms(2,3) in \<open>auto simp: DecryptArtifact_def artifactCipherVersion_def base64url_decode_encode
      opens_what_it_seals_def\<close>)

end

lemma file_keys_seal_for_lifecycle:
  assumes "env_key env = Some (file_keyring f)" "al_key (env_lifecycle env) = Some (file_keyring f)"
    and "al_cipher (env_lifecycle env) = env_cipher env" "opens_what_it_seals (env_cipher env)"
    and "\<And>n. dr_nonce dr 2 = Some n \<Longrightarrow> length n = nonce_size"
  shows "seals_for_lifecycle env dr"
  unfolding seals_for_lifecycle_def seal_artifact_def assms(1-3)
  using file_source.sealed_artifact_opens [OF _ assms(4,5)] by blast

lemma GetAuthKey_after_transaction:
  assumes run: "GetAuthKey env dr a p w = (r, w')" and new: "Issued_AuthKey k \<in> set (calls w') - set (calls w)"
  obtains w0 w1 c captured e where "GetByAccountKey_credential a w = (Inr (Some c), w0)"
    "transaction_capturing Db (get_auth_key_body env dr (cred_binding_ref c) a p) w0 = (Inr (captured, e), w1)"
    "Issued_AuthKey k \<in> set (calls w1) - set (calls w0)"
    "\<exists>q w2. conclude_issue env dr captured e w1 = (q, w2) \<and> ((r = q \<and> (\<exists>x. r = Inr x)) \<or> (r = q \<and> w' = w2))"
proof -
  obtain r0 w0 where get: "GetByAccountKey_credential a w = (r0, w0)" by fastforce
  have q0: "no_issue w w0" by (rule obeysD [OF quiet_credentials(4) get])
  with run get new obtain c where c: "r0 = Inr (Some c)"
    by (cases r0) (auto simp: GetAuthKey_def effect_simps no_issue_def split: option.splits)
  let ?m = "get_auth_key_body env dr (cred_binding_ref c) a p"
  obtain r1 w1 where tx: "transaction_capturing Db ?m w0 = (r1, w1)" by fastforce
  obtain captured e where r1: "r1 = Inr (captured, e)"
    using tx by (auto simp: transaction_capturing_def split: sum.splits prod.splits option.splits if_splits)
  let ?cache = "GetByBindingRef_artifact (env_redis env) (dr_now dr 9) (dr_now dr 10) (dr_now dr 11)
    (cred_binding_ref c) authKeyArtifactType p"
  let ?rest = "andThen (conclude_issue env dr captured e) (\<lambda>output. andThen (attempt ?cache) (\<lambda>_. return output))"
  from run get c tx r1 have rest: "?rest w1 = (r, w')" by (simp add: GetAuthKey_def effect_simps)
  have "obeys no_issue ?rest" by (intro quiet.rules quiet_parts quiet_artifacts)
  from obeysD [OF this rest] q0 new have "Issued_AuthKey k \<in> set (calls w1) - set (calls w0)"
    by (auto simp: no_issue_def)
  moreover obtain q w2 where con: "conclude_issue env dr captured e w1 = (q, w2)" by fastforce
  have "(r = q \<and> (\<exists>x. r = Inr x)) \<or> (r = q \<and> w' = w2)"
    using rest con by (cases q) (auto simp: effect_simps)
  ultimately show thesis using that [of c w0 captured e w1] get c tx r1 con by blast
qed

section \<open>Properties of issuing keys\<close>

text \<open>C27: Whatever statements, sealing or platform calls fail, a key the platform issued to
  \<open>GetAuthKey\<close> is either the key the call returns, or the call fails and the key is in custody
  (waiting for its revocation as a committed intent, or revoked), unless the platform refuses to
  revoke it.\<close>

theorem GetAuthKey_accounts_for_issued_keys:
  assumes run: "GetAuthKey env dr accountKey playerID w = (r, w')"
    and w: "base w = None" "store_ok (db w)"
    and keys: "env_key env = Some (file_keyring f)" "al_key (env_lifecycle env) = Some (file_keyring f)"
      "al_cipher (env_lifecycle env) = env_cipher env" "opens_what_it_seals (env_cipher env)"
      "\<And>n. dr_nonce dr 2 = Some n \<Longrightarrow> length n = nonce_size"
    and new: "Issued_AuthKey k \<in> set (calls w') - set (calls w)" "k \<noteq> ''''"
  shows "accounted_for (env_lifecycle env) k r w'"
proof -
  let ?l = "env_lifecycle env"
  obtain w0 w1 c captured e where
    get: "GetByAccountKey_credential accountKey w = (Inr (Some c), w0)"
    and tx: "transaction_capturing Db (get_auth_key_body env dr (cred_binding_ref c) accountKey playerID) w0
        = (Inr (captured, e), w1)"
    and issued: "Issued_AuthKey k \<in> set (calls w1) - set (calls w0)"
    and after: "\<exists>q w2. conclude_issue env dr captured e w1 = (q, w2) \<and>
      ((r = q \<and> (\<exists>x. r = Inr x)) \<or> (r = q \<and> w' = w2))"
    by (rule GetAuthKey_after_transaction [OF run new(1)])
  from after obtain q w2 where con: "conclude_issue env dr captured e w1 = (q, w2)"
    and r: "(r = q \<and> (\<exists>x. r = Inr x)) \<or> (r = q \<and> w' = w2)" by (elim exE conjE)
  have s: "sound w" using w by (simp add: sound_def holds_def mirrored_def)
  have c0: "custody ?l w w0" using credential_custody(4) get by (rule obeysD)
  then have s0: "sound w0" "base w0 = None" using s w(1) by (auto simp: custody_def orderly_def)
  obtain b v where
    body: "get_auth_key_body env dr (cred_binding_ref c) accountKey playerID (w0\<lparr>base := Some (db w0)\<rparr>) = (b, v)"
    and v: "closes v w1"
    and b: "case b of Inl e' \<Rightarrow> captured = None \<and> e = Some e'
      | Inr (lk, e') \<Rightarrow> captured = Some lk \<and> (e = e' \<or> (e' = None \<and> e = Some (Db Connection_Fault)))"
    by (rule capturing_run [OF tx s0(2)])
  have sv: "sound v" using obeysD [OF get_auth_key_body_custody body] sound_open [OF s0(2,1)] by (rule custody_sound)
  note v' = closes_intents [OF v sv]
  from issued v'(2) have "Issued_AuthKey k \<in> set (calls v) - set (calls (w0\<lparr>base := Some (db w0)\<rparr>))" by simp
  note issues = get_auth_key_body_issues [OF body sound_open [OF s0(2,1)] file_keys_seal_for_lifecycle [OF keys] refl this new(2)]
  obtain lk e' where lk: "b = Inr (lk, e')" "key_outcome ?l k lk v"
    by (rule issues)
  then have "key_outcome ?l k lk w1"
    using v'(1,2) by (auto simp: key_outcome_def holds_key_def revoked_or_refused_def)
  moreover from b lk(1) have "captured = Some lk" by auto
  ultimately have "accounted_for ?l k q w2"
    using conclude_accounts [OF con [unfolded \<open>captured = Some lk\<close>] v'(4,3) _ refl] by blast
  with r show ?thesis by (auto intro: accounted_for_later)
qed

definition sample_blob :: string where
  "sample_blob = ''v2.k1.'' @ base64url_encode (sample_nonce @ ''v2:k1stoken'')"

definition sample_env :: mihomo_env where
  "sample_env = \<lparr>env_cipher = sample_cipher, env_key = Some (file_keyring sample_key_file), env_redis = None,
     env_lifecycle = sample_lifecycle, env_issue = Some (\<lambda>_ _ _. Inr (''KEY'', 60)), env_client_revokes = True,
     env_discover = (\<lambda>_ _. Inr (''10001'', ''cn'', [])), env_refresh = None\<rparr>"

text \<open>The random source fails, so the issued key cannot be sealed.\<close>

definition sample_draws :: draws where
  "sample_draws = \<lparr>dr_now = (\<lambda>_. 0), dr_nonce = (\<lambda>_. None), dr_chance = (\<lambda>_. sample_chance)\<rparr>"

lemma sample_env_simps [simp]:
  "env_cipher sample_env = sample_cipher" "env_key sample_env = Some (file_keyring sample_key_file)"
  "env_redis sample_env = None" "env_lifecycle sample_env = sample_lifecycle"
  "env_issue sample_env = Some (\<lambda>_ _ _. Inr (''KEY'', 60))" "env_client_revokes sample_env"
  "dr_now sample_draws i = 0" "dr_nonce sample_draws i = None" "dr_chance sample_draws i = sample_chance"
  "al_configured sample_lifecycle" "al_redis sample_lifecycle = None"
  "al_revoker sample_lifecycle = Some (\<lambda>_. None)" "al_cipher sample_lifecycle = sample_cipher"
  "al_key sample_lifecycle = Some (file_keyring sample_key_file)"
  by (simp_all add: sample_env_def sample_draws_def sample_lifecycle_def)

definition sealed_credential :: credential where
  "sealed_credential = sample_credential\<lparr>cred_blob := sample_blob\<rparr>"

definition sealed_db :: mihomo_db where
  "sealed_db = sample_db\<lparr>credentials := [sealed_credential]\<rparr>"

lemma sealed_credential_simps [simp]:
  "cred_binding_ref sealed_credential = ''bind_1''" "cred_account_key sealed_credential = ''acct_1''"
  "is_usable 0 sealed_credential" "cred_blob sealed_credential = sample_blob"
  by (simp_all add: sealed_credential_def is_usable_def)

lemma sealed_db_simps [simp]:
  "credentials sealed_db = [sealed_credential]" "artifacts sealed_db = []" "intents sealed_db = []"
  by (simp_all add: sealed_db_def sample_db_def empty_mihomo_db_def)

lemma sealed_db_ok: "store_ok sealed_db"
  by (simp add: store_ok_iff sealed_db_def sample_db_def empty_mihomo_db_def unique_on_def unique_where_def
      credential_row_ok_def bigint_ok_def sealed_credential_def)

lemma sample_blob_opens:
  "DecryptString sample_cipher (Some (file_keyring sample_key_file)) sample_blob = Inr ''stoken''"
  "EnvelopeNeedsReencryption (Some (file_keyring sample_key_file)) sample_blob = Inr False"
  using file_source.decrypt_sealed [OF sample_sealed sample_nonce_length sample_cipher_opens, of "file_keyring sample_key_file"]
    file_source.fresh_envelope [OF sample_sealed]
  by (simp_all add: sample_blob_def)

lemma sample_issue_fails:
  assumes "faults w = []" "db w = sealed_db" "base w = Some sealed_db"
  shows "getAuthKeyLocked sample_env sample_draws sealed_credential ''p1'' w =
    (Inr (locked_failure sealed_credential (OtherError ''random source'')),
     w\<lparr>calls := calls w @ [Issued_AuthKey ''KEY'', Revoked_AuthKey ''KEY'']\<rparr>)"
proof -
  have usable: "stored_auth_key sample_env sample_draws sealed_credential ''p1'' w = (Inr None, w)"
    using assms by (simp add: stored_auth_key_def HasRevocationPending_def GetByBindingRef_artifact_def get_artifact_def
        effect_simps count_where_def on_db_def)
  have "seal_artifact sample_env None k a = Inl (OtherError ''random source'')" for k a
    by (simp add: seal_artifact_def EncryptArtifact_def file_keyring_def sample_keyrings
        artifact_key_for_def sample_cipher_def valid_aes_key_def sample_key_def)
  then have rec: "issue_auth_key sample_env sample_draws sealed_credential ''stoken'' ''p1'' w =
      (Inl (OtherError ''random source''), w\<lparr>calls := calls w @ [Issued_AuthKey ''KEY'', Revoked_AuthKey ''KEY'']\<rparr>)"
    by (simp add: issue_auth_key_def IssueAuthKeyWithTTL_def record_issued_key_def joined_with_def effect_simps
        RevokeUntrackedAuthKey_def RevokeAuthKey_def)
  show ?thesis
    using usable rec sample_blob_opens
    by (simp add: getAuthKeyLocked_def or_fail_def effect_simps reseal_credential_def)
qed

lemma sample_GetAuthKey:
  "GetAuthKey sample_env sample_draws ''acct_1'' ''p1'' (initial_world sealed_db) =
    (Inl (OtherError ''random source''), (initial_world sealed_db)\<lparr>calls := [Issued_AuthKey ''KEY'', Revoked_AuthKey ''KEY'']\<rparr>)"
proof -
  let ?w = "(initial_world sealed_db)\<lparr>base := Some sealed_db\<rparr>"
  from sample_issue_fails [of ?w] have "get_auth_key_body sample_env sample_draws ''bind_1'' ''acct_1'' ''p1'' ?w =
    (Inr (locked_failure sealed_credential (OtherError ''random source''), Some (OtherError ''random source'')),
      ?w\<lparr>calls := [Issued_AuthKey ''KEY'', Revoked_AuthKey ''KEY'']\<rparr>)"
    by (simp add: get_auth_key_body_def credential_repo_defs effect_simps locked_failure_def
        isCredentialAttentionError_def IsErrorKind_def)
  then show ?thesis
    by (simp add: GetAuthKey_def credential_repo_defs effect_simps transaction_capturing_def committed_def
        conclude_issue_def locked_failure_def joined_with_def RevokeIssuedArtifact_def revokeIssuedArtifact_def
        initial_world_def)
qed

lemma GetAuthKey_accounts_for_issued_keys_witness:
  "accounted_for sample_lifecycle ''KEY''
     (fst (GetAuthKey sample_env sample_draws ''acct_1'' ''p1'' (initial_world sealed_db)))
     (snd (GetAuthKey sample_env sample_draws ''acct_1'' ''p1'' (initial_world sealed_db)))"
proof -
  from GetAuthKey_accounts_for_issued_keys [of sample_env sample_draws "''acct_1''" "''p1''" "initial_world sealed_db",
      OF sample_GetAuthKey, of sample_key_file "''KEY''"]
  show ?thesis
    unfolding sample_GetAuthKey
    by (simp add: sealed_db_ok)
qed

end
