(* ===== verification/Mihomo_Bind.thy ===== *)
theory Mihomo_Bind
  imports Mihomo_Profiles Mihomo_AuthKey
begin

text \<open>
  Binding and managing credentials: \<open>internal/usecase/bind_usecase.go\<close> and
  \<open>management_usecase.go\<close>.  The repositories are the PostgreSQL ones, which run transactions, and
  the artifact repository is always configured, as in \<open>cmd/platform-mihomo-service\<close>.
\<close>

section \<open>Inputs and outputs\<close>

record bind_input =
  bin_binding_ref :: string
  bin_generation :: u64
  bin_cookie_bundle :: string
  bin_device_id :: string
  bin_device_fp :: string
  bin_device_name :: string
  bin_region_hint :: string

record bind_output =
  bout_binding_ref :: string
  bout_account_key :: string
  bout_profiles :: "profile_summary list"
  bout_status :: credential_status

record bind_preparation =
  prep_account_key :: string
  prep_account_id :: string
  prep_region :: string
  prep_profiles :: "discovered_profile list"
  prep_blob :: string

record credential_summary =
  cs_account_key :: string
  cs_generation :: u64
  cs_status :: credential_status
  cs_last_validated_at :: "instant option"
  cs_last_refreshed_at :: "instant option"
  cs_devices :: "device list"
  cs_profiles :: "profile_summary list"
  cs_snapshot_complete :: bool
  cs_profile_revision :: u64
  cs_observed_revision :: u64

section \<open>Binding\<close>

definition prepareBindCredential :: "mihomo_env \<Rightarrow> string option \<Rightarrow> bind_input \<Rightarrow> bind_preparation meff" where
  "prepareBindCredential env nonce input =
     (if bin_binding_ref input = '''' then raise (OtherError ''binding_ref is required'')
      else andThen (lift_result (env_discover env (bin_cookie_bundle input) (bin_region_hint input)))
        (\<lambda>(accountID, region, discovered).
        andThen (lift_result (EncryptString (env_cipher env) (env_key env) nonce (bin_cookie_bundle input)))
        (\<lambda>encryptedBlob. return \<lparr>
          prep_account_key = FormatAccountKey (env_cipher env) accountID, prep_account_id = accountID,
          prep_region = region, prep_profiles = discovered, prep_blob = encryptedBlob\<rparr>)))"

definition nextProfileRevision :: "u64 \<Rightarrow> u64 \<Rightarrow> u64" where
  "nextProfileRevision revision observedRevision =
     (if observedRevision > revision then observedRevision + 1 else revision + 1)"

definition bound_credential ::
    "instant \<Rightarrow> bind_input \<Rightarrow> bind_preparation \<Rightarrow> credential option \<Rightarrow> credential" where
  "bound_credential now input prepared existing =
     (let revision = (case existing of None \<Rightarrow> bin_generation input
        | Some c \<Rightarrow> nextProfileRevision (cred_profile_revision c) (cred_observed_revision c))
      in \<lparr>cred_binding_ref = bin_binding_ref input, cred_account_key = prep_account_key prepared,
        cred_generation = bin_generation input, cred_platform = ''mihomo'',
        cred_account_id = prep_account_id prepared, cred_region = prep_region prepared,
        cred_blob = prep_blob prepared, cred_version = ''v2'', cred_status = ''active'',
        cred_last_validated_at = Some now, cred_last_refreshed_at = None, cred_expires_at = None,
        cred_snapshot_complete = True, cred_profile_revision = revision, cred_observed_revision = revision\<rparr>)"

definition persistCredential :: "credential \<Rightarrow> bool \<Rightarrow> unit meff" where
  "persistCredential credential createOnly =
     (if createOnly then Create_credential credential else Save_credential credential)"

definition bound_device :: "cipher_library \<Rightarrow> instant \<Rightarrow> bind_input \<Rightarrow> bind_preparation \<Rightarrow> device" where
  "bound_device lib now input prepared = \<lparr>
     dev_binding_ref = bin_binding_ref input, dev_account_key = prep_account_key prepared,
     dev_device_ref = FormatDeviceRef lib (prep_account_key prepared) (bin_device_id input),
     dev_device_id = bin_device_id input, dev_device_fp = bin_device_fp input,
     dev_device_name = (if bin_device_name input \<noteq> '''' then Some (bin_device_name input) else None),
     dev_is_valid = True, dev_last_seen_at = Some now\<rparr>"

definition bound_profile ::
    "cipher_library \<Rightarrow> instant \<Rightarrow> string \<Rightarrow> string \<Rightarrow> bool \<Rightarrow> discovered_profile \<Rightarrow> profile" where
  "bound_profile lib now bindingRef accountKey isDefault disc = \<lparr>
     prof_id = 0, prof_binding_ref = bindingRef, prof_account_key = accountKey,
     prof_profile_ref = FormatProfileRef lib accountKey (disc_game_biz disc) (disc_region disc) (disc_player_id disc),
     prof_game_biz = disc_game_biz disc, prof_region = disc_region disc, prof_player_id = disc_player_id disc,
     prof_nickname = disc_nickname disc, prof_level = disc_level disc, prof_is_default = isDefault,
     prof_discovered_at = now\<rparr>"

definition save_profiles ::
    "cipher_library \<Rightarrow> instant \<Rightarrow> string \<Rightarrow> string \<Rightarrow> int \<Rightarrow> discovered_profile list \<Rightarrow> profile_summary list meff" where
  "save_profiles lib now bindingRef accountKey primaryIndex discovered =
     for_each (enumerate 0 discovered) (\<lambda>(index, disc).
       let p = bound_profile lib now bindingRef accountKey (int index = primaryIndex) disc in
       andThen (Save_profile p) (\<lambda>_. return (toProfileSummary p)))"

text \<open>The deferred function of \<open>bindPreparedCredential\<close>: on an error it undoes what it can, its own
  errors ignored.\<close>

definition undo_binding :: "credential option \<Rightarrow> string \<Rightarrow> unit meff" where
  "undo_binding previous accountKey =
     andThen (attempt (DeleteByAccountKey_profile accountKey)) (\<lambda>_.
     andThen (attempt (DeleteByAccountKey_device accountKey)) (\<lambda>_.
     andThen (attempt (case previous of
       Some existing \<Rightarrow> Save_credential existing
     | None \<Rightarrow> DeleteByAccountKey_credential accountKey)) (\<lambda>_. return ())))"

definition or_undo :: "'a meff \<Rightarrow> unit meff \<Rightarrow> 'a meff" where
  "or_undo m undo = andThen (attempt m) (\<lambda>r. case r of
     Inr x \<Rightarrow> return x | Inl err \<Rightarrow> andThen undo (\<lambda>_. raise err))"

text \<open>The steps after the credential is stored; \<open>previous\<close> is the credential of another account that
  was bound before.\<close>

definition bind_details ::
    "mihomo_env \<Rightarrow> instant \<Rightarrow> bind_input \<Rightarrow> bind_preparation \<Rightarrow> credential option \<Rightarrow> bind_output meff" where
  "bind_details env now input prepared previous =
     (let accountKey = prep_account_key prepared;
          stale = (case previous of Some c \<Rightarrow> cred_account_key c | None \<Rightarrow> accountKey) in
      andThen (Save_device (bound_device (env_cipher env) now input prepared)) (\<lambda>_.
      andThen (DeleteByAccountKey_profile stale) (\<lambda>_.
      andThen (save_profiles (env_cipher env) now (bin_binding_ref input) accountKey 0 (prep_profiles prepared)) (\<lambda>outputProfiles.
      andThen (case previous of
         None \<Rightarrow> return ()
       | Some c \<Rightarrow> andThen (DeleteByAccountKey_device (cred_account_key c)) (\<lambda>_.
                    DeleteByAccountKey_credential (cred_account_key c))) (\<lambda>_.
      return \<lparr>bout_binding_ref = bin_binding_ref input, bout_account_key = accountKey,
        bout_profiles = outputProfiles, bout_status = CredentialStatusActive\<rparr>)))))"

definition previous_account :: "bind_preparation \<Rightarrow> credential option \<Rightarrow> credential option" where
  "previous_account prepared existing = (case existing of
       None \<Rightarrow> None
     | Some c \<Rightarrow> if cred_account_key c \<noteq> '''' \<and> cred_account_key c \<noteq> prep_account_key prepared
                 then Some c else None)"

definition bindPreparedCredential ::
    "mihomo_env \<Rightarrow> instant \<Rightarrow> bind_input \<Rightarrow> bind_preparation \<Rightarrow> bool \<Rightarrow> bind_output meff" where
  "bindPreparedCredential env now input prepared createOnly =
     andThen (GetByBindingRef_credential (bin_binding_ref input)) (\<lambda>existing.
     if createOnly \<and> existing \<noteq> None then raise ErrCredentialAlreadyBound
     else andThen (DeleteByBindingRef_artifact (env_redis env) (bin_binding_ref input)) (\<lambda>_.
       andThen (persistCredential (bound_credential now input prepared existing) createOnly) (\<lambda>_.
       let previous = previous_account prepared existing in
       or_undo (bind_details env now input prepared previous)
         (undo_binding previous (prep_account_key prepared)))))"

definition bindCredential :: "mihomo_env \<Rightarrow> draws \<Rightarrow> bind_input \<Rightarrow> bool \<Rightarrow> bind_output meff" where
  "bindCredential env dr input createOnly =
     andThen (prepareBindCredential env (dr_nonce dr 0) input) (\<lambda>prepared.
     within_transaction (bindPreparedCredential env (dr_now dr 0) input prepared createOnly))"

definition BindCredential :: "mihomo_env \<Rightarrow> draws \<Rightarrow> bind_input \<Rightarrow> bind_output meff" where
  "BindCredential env dr input = bindCredential env dr input False"

definition BindCredentialIfAbsent :: "mihomo_env \<Rightarrow> draws \<Rightarrow> bind_input \<Rightarrow> bind_output meff" where
  "BindCredentialIfAbsent env dr input = bindCredential env dr input True"

text \<open>The device it stores has no device reference.\<close>

definition UpsertDevice :: "instant \<Rightarrow> string \<Rightarrow> string \<Rightarrow> string \<Rightarrow> string \<Rightarrow> unit meff" where
  "UpsertDevice now accountKey deviceID deviceFP deviceName =
     andThen (GetByAccountKey_credential accountKey) (\<lambda>found.
     case found of
       None \<Rightarrow> raise ErrCredentialNotFound
     | Some credential \<Rightarrow> Save_device \<lparr>
         dev_binding_ref = cred_binding_ref credential, dev_account_key = accountKey, dev_device_ref = '''',
         dev_device_id = deviceID, dev_device_fp = deviceFP,
         dev_device_name = (if deviceName \<noteq> '''' then Some deviceName else None),
         dev_is_valid = True, dev_last_seen_at = Some now\<rparr>)"

section \<open>Managing\<close>

definition summarize :: "credential \<Rightarrow> device list \<Rightarrow> profile_summary list \<Rightarrow> credential_summary" where
  "summarize credential ds ps = \<lparr>
     cs_account_key = cred_account_key credential, cs_generation = cred_generation credential,
     cs_status = credentialStatusFromStorage (cred_status credential),
     cs_last_validated_at = cred_last_validated_at credential,
     cs_last_refreshed_at = cred_last_refreshed_at credential, cs_devices = ds, cs_profiles = ps,
     cs_snapshot_complete = cred_snapshot_complete credential,
     cs_profile_revision = cred_profile_revision credential,
     cs_observed_revision = cred_observed_revision credential\<rparr>"

definition GetCredentialSummary :: "string \<Rightarrow> credential_summary meff" where
  "GetCredentialSummary accountKey =
     andThen (GetByAccountKey_credential accountKey) (\<lambda>found.
     case found of
       None \<Rightarrow> raise ErrCredentialNotFound
     | Some credential \<Rightarrow>
         andThen (ListByAccountKey_device accountKey) (\<lambda>ds.
         andThen (ListProfiles accountKey) (\<lambda>ps. return (summarize credential ds ps))))"

text \<open>The credential a binding-wide guard gives access to.\<close>

definition scoped_credential :: "scope_guard \<Rightarrow> string \<Rightarrow> credential meff" where
  "scoped_credential guard accountKey =
     andThen (allow (RequireAccountKey guard accountKey)) (\<lambda>_.
     andThen (allow (RequireBindingWide guard)) (\<lambda>_.
     andThen (GetByBindingRef_credential (sg_binding_ref guard)) (\<lambda>found.
     case found of
       None \<Rightarrow> raise ErrBindingScopeDenied
     | Some credential \<Rightarrow>
         if cred_account_key credential \<noteq> accountKey then raise ErrPlatformAccountMismatch
         else return credential)))"

definition GetCredentialSummaryWithScope :: "scope_guard \<Rightarrow> string \<Rightarrow> credential_summary meff" where
  "GetCredentialSummaryWithScope guard accountKey =
     andThen (scoped_credential guard accountKey) (\<lambda>credential.
     andThen (ListByBindingRef_device (sg_binding_ref guard)) (\<lambda>ds.
     andThen (ListByBindingRef_profile (sg_binding_ref guard)) (\<lambda>ps.
     return (summarize credential ds (map toProfileSummary ps)))))"

definition pruneStaleProfiles :: "string \<Rightarrow> profile_summary list \<Rightarrow> unit meff" where
  "pruneStaleProfiles accountKey ps =
     (let keep = map (\<lambda>p. \<lparr>pid_player_id = sum_player_id p, pid_region = sum_region p\<rparr>) ps in
      andThen (GetByAccountKey_credential accountKey) (\<lambda>found.
      case found of
        None \<Rightarrow> raise ErrCredentialNotFound
      | Some credential \<Rightarrow> DeleteMissingByBindingRef (cred_binding_ref credential) keep))"

definition UpdateCredential :: "mihomo_env \<Rightarrow> draws \<Rightarrow> string \<Rightarrow> bind_input \<Rightarrow> credential_summary meff" where
  "UpdateCredential env dr accountKey input =
     andThen (GetByAccountKey_credential accountKey) (\<lambda>found.
     case found of
       None \<Rightarrow> raise ErrCredentialNotFound
     | Some _ \<Rightarrow>
         andThen (prepareBindCredential env (dr_nonce dr 0) input) (\<lambda>prepared.
         if prep_account_key prepared \<noteq> accountKey then raise ErrPlatformAccountMismatch
         else andThen (within_transaction
             (andThen (bindPreparedCredential env (dr_now dr 0) input prepared False) (\<lambda>result.
              pruneStaleProfiles accountKey (bout_profiles result)))) (\<lambda>_.
           GetCredentialSummary accountKey)))"

definition UpdateCredentialWithScope ::
    "mihomo_env \<Rightarrow> draws \<Rightarrow> scope_guard \<Rightarrow> string \<Rightarrow> bind_input \<Rightarrow> credential_summary meff" where
  "UpdateCredentialWithScope env dr guard accountKey input =
     andThen (allow (RequireAccountKey guard accountKey)) (\<lambda>_.
     andThen (allow (RequireBindingWide guard)) (\<lambda>_.
     UpdateCredential env dr accountKey input))"

definition DeleteCredential :: "mihomo_env \<Rightarrow> string \<Rightarrow> unit meff" where
  "DeleteCredential env accountKey = DeleteCredentialGraph (env_redis env) accountKey"

definition DeleteCredentialWithScope :: "mihomo_env \<Rightarrow> scope_guard \<Rightarrow> string \<Rightarrow> unit meff" where
  "DeleteCredentialWithScope env guard accountKey =
     andThen (scoped_credential guard accountKey) (\<lambda>_.
     DeleteCredentialGraphByBindingRef (env_redis env) (sg_binding_ref guard))"

section \<open>Invariants\<close>

lemmas bind_defs = prepareBindCredential_def persistCredential_def save_profiles_def undo_binding_def
  or_undo_def bind_details_def bindPreparedCredential_def bindCredential_def BindCredential_def
  BindCredentialIfAbsent_def UpsertDevice_def
lemmas management_defs = GetCredentialSummary_def scoped_credential_def GetCredentialSummaryWithScope_def
  pruneStaleProfiles_def UpdateCredential_def UpdateCredentialWithScope_def DeleteCredential_def
  DeleteCredentialWithScope_def

lemma bind_keeps [keeps_rules, simp]:
  "keeps store_ok (prepareBindCredential env n i)" "keeps store_ok (save_profiles lib now b a pi ps)"
  "keeps store_ok (bindPreparedCredential env now i p c)" "keeps store_ok (bindCredential env dr i c)"
  "keeps store_ok (UpsertDevice now a x y z)"
  by (auto simp: bind_defs Let_def intro!: keeps_rules)

lemma bind_frames [keeps_rules, simp]:
  "frames safeguards (prepareBindCredential env n i)" "frames safeguards (save_profiles lib now b a pi ps)"
  "frames safeguards (bindPreparedCredential env now i p c)" "frames safeguards (bindCredential env dr i c)"
  "frames safeguards (UpsertDevice now a x y z)"
  by (auto simp: bind_defs Let_def intro!: keeps_rules)

lemma management_keeps [keeps_rules, simp]:
  "keeps store_ok (GetCredentialSummary a)" "keeps store_ok (GetCredentialSummaryWithScope g a)"
  "keeps store_ok (UpdateCredential env dr a i)" "keeps store_ok (UpdateCredentialWithScope env dr g a i)"
  "keeps store_ok (DeleteCredential env a)" "keeps store_ok (DeleteCredentialWithScope env g a)"
  by (auto simp: management_defs Let_def intro!: keeps_rules)

lemma management_frames [keeps_rules, simp]:
  "frames safeguards (GetCredentialSummary a)" "frames safeguards (GetCredentialSummaryWithScope g a)"
  "frames safeguards (UpdateCredential env dr a i)" "frames safeguards (UpdateCredentialWithScope env dr g a i)"
  "frames safeguards (DeleteCredential env a)" "frames safeguards (DeleteCredentialWithScope env g a)"
  by (auto simp: management_defs Let_def intro!: keeps_rules)

section \<open>What a binding leaves\<close>

lemma bind_pins [keeps_rules, simp]: "pins_committed (bindPreparedCredential env now i p c)"
  by (auto simp: bind_defs Let_def DeleteByBindingRef_artifact_def intro!: keeps_rules)

text \<open>Statements on the other tables leave the credentials and the artifacts.\<close>

definition kept_tables :: "mihomo_db \<Rightarrow> credential list \<times> runtime_artifact list" where
  "kept_tables d = (credentials d, artifacts d)"

lemma detail_frames [keeps_rules, simp]:
  "frames kept_tables (Save_device x)" "frames kept_tables (DeleteByAccountKey_profile a)"
  "frames kept_tables (DeleteByAccountKey_device a)" "frames kept_tables (Save_profile p)"
  "frames kept_tables (save_profiles lib now b a pi ps)"
  by (auto simp: kept_tables_def device_repo_defs profile_repo_defs save_profiles_def Let_def insert_profile_def
      intro!: keeps_rules sql_change_frames sql_write_frames)

lemma frames_InrD: "frames f m \<Longrightarrow> m w = (r, w') \<Longrightarrow> f (db w') = f (db w)"
  using framesD [of f m w] by simp

lemma find_delete_where_other:
  "find q rows = Some c \<Longrightarrow> \<not> p c \<Longrightarrow> find q (delete_where p rows) = Some c"
  by (induction rows) (auto split: if_splits)

lemma delete_credentials_tables:
  "credentials (delete_credentials p d) = delete_where p (credentials d)"
  "set (artifacts (delete_credentials p d)) \<subseteq> set (artifacts d)"
  by (auto simp: delete_credentials_def Let_def)

lemma bind_details_InrE:
  assumes "bind_details env now input prepared previous w = (Inr out, w')"
    and c: "credential_of b (db w) = Some c" "cred_account_key c = prep_account_key prepared"
    and prev: "\<And>x. previous = Some x \<Longrightarrow> cred_account_key x \<noteq> prep_account_key prepared"
  shows "credential_of b (db w') = Some c \<and> set (artifacts (db w')) \<subseteq> set (artifacts (db w)) \<and>
    bout_account_key out = prep_account_key prepared \<and> bout_status out = CredentialStatusActive"
proof -
  let ?stale = "case previous of Some c \<Rightarrow> cred_account_key c | None \<Rightarrow> prep_account_key prepared"
  let ?last = "case previous of None \<Rightarrow> return ()
      | Some c \<Rightarrow> andThen (DeleteByAccountKey_device (cred_account_key c)) (\<lambda>_. DeleteByAccountKey_credential (cred_account_key c))"
  from assms(1) obtain u1 w1 u2 w2 ps w3 where s:
    "Save_device (bound_device (env_cipher env) now input prepared) w = (Inr u1, w1)"
    "DeleteByAccountKey_profile ?stale w1 = (Inr u2, w2)"
    "save_profiles (env_cipher env) now (bin_binding_ref input) (prep_account_key prepared) 0 (prep_profiles prepared) w2 = (Inr ps, w3)"
    and last: "?last w3 = (Inr (), w')"
    and out: "bout_account_key out = prep_account_key prepared" "bout_status out = CredentialStatusActive"
    unfolding bind_details_def Let_def by (elim andThen_InrE return_InrE) auto
  have k: "kept_tables (db w3) = kept_tables (db w)"
    using s by (simp add: frames_InrD [OF detail_frames(1) s(1)] frames_InrD [OF detail_frames(2) s(2)]
        frames_InrD [OF detail_frames(5) s(3)])
  then have c3: "credential_of b (db w3) = Some c" using c(1) by (simp add: kept_tables_def credential_of_def)
  show ?thesis
  proof (cases previous)
    case None
    with last k c3 out show ?thesis by (auto simp: kept_tables_def elim: return_InrE)
  next
    case (Some x)
    with last obtain u w4 where d: "DeleteByAccountKey_device (cred_account_key x) w3 = (Inr u, w4)"
      "DeleteByAccountKey_credential (cred_account_key x) w4 = (Inr (), w')" by (auto elim: andThen_InrE)
    have k4: "kept_tables (db w4) = kept_tables (db w3)" by (rule frames_InrD [OF detail_frames(3) d(1)])
    from d(2) have "db w' = delete_credentials (\<lambda>c. cred_account_key c = cred_account_key x) (db w4)"
      unfolding DeleteByAccountKey_credential_def by (auto elim: sql_change_InrE)
    with k k4 c3 c(2) prev [OF Some] out show ?thesis
      using delete_credentials_tables [of "\<lambda>c. cred_account_key c = cred_account_key x" "db w4"]
      by (auto simp: kept_tables_def credential_of_def intro!: find_delete_where_other)
  qed
qed

lemma or_undo_InrE:
  assumes "or_undo m undo w = (Inr x, w')"
  obtains "m w = (Inr x, w')"
  using assms by (cases "m w") (auto simp: or_undo_def effect_simps split: sum.splits prod.splits)

lemma Create_credential_lookup:
  assumes "Create_credential c w = (Inr u, w')" "credential_of (cred_binding_ref c) (db w) = None"
  shows "credential_of (cred_binding_ref c) (db w') = Some c \<and> artifacts (db w') = artifacts (db w)"
  using assms unfolding Create_credential_def Let_def credential_copies
  by (auto elim!: success_elims sql_change_InrE simp: credential_of_def find_snoc)

lemma bindPrepared_InrE:
  assumes run: "bindPreparedCredential env now input prepared createOnly w = (Inr out, w')"
  shows "\<exists>c. credential_of (bin_binding_ref input) (db w') = Some c \<and> cred_account_key c = bout_account_key out \<and>
    bout_account_key out = prep_account_key prepared \<and> cred_blob c = prep_blob prepared \<and> cred_status c = ''active'' \<and>
    cred_generation c = (case credential_of (bin_binding_ref input) (db w) of
      None \<Rightarrow> bin_generation input | Some old \<Rightarrow> cred_generation old) \<and>
    (createOnly \<longrightarrow> credential_of (bin_binding_ref input) (db w) = None) \<and>
    (\<forall>a\<in>set (artifacts (db w')). art_binding_ref a \<noteq> bin_binding_ref input)"
proof -
  let ?b = "bin_binding_ref input"
  from run obtain ex w1 u w2 u2 w3 where
    get: "GetByBindingRef_credential ?b w = (Inr ex, w1)"
    and free: "\<not> (createOnly \<and> ex \<noteq> None)"
    and del: "DeleteByBindingRef_artifact (env_redis env) ?b w1 = (Inr u, w2)"
    and pers: "persistCredential (bound_credential now input prepared ex) createOnly w2 = (Inr u2, w3)"
    and det: "bind_details env now input prepared (previous_account prepared ex) w3 = (Inr out, w')"
    unfolding bindPreparedCredential_def Let_def
    by (auto elim!: andThen_InrE or_undo_InrE raise_InrE split: if_splits)
  from get have ex: "ex = credential_of ?b (db w)" "db w1 = db w"
    by (auto simp: GetByBindingRef_credential_def getByBindingRef_credential_def credential_of_def option.map_ident
        elim!: success_elims)
  have d2: "db w2 = delete_artifacts (\<lambda>r. art_binding_ref r = ?b) (db w)"
    using del ex(2) unfolding DeleteByBindingRef_artifact_def by (auto elim: deleteByBindingRef_artifact_InrE)
  have cred2: "credential_of ?b (db w2) = ex" "\<forall>a\<in>set (artifacts (db w2)). art_binding_ref a \<noteq> ?b"
    using ex(1) by (auto simp: d2 delete_artifacts_def credential_of_def)
  let ?new = "bound_credential now input prepared ex"
  have fields: "cred_binding_ref ?new = ?b" "cred_account_key ?new = prep_account_key prepared"
    "cred_blob ?new = prep_blob prepared" "cred_status ?new = ''active''" "cred_generation ?new = bin_generation input"
    by (simp_all add: bound_credential_def Let_def)
  obtain c where c: "credential_of ?b (db w3) = Some c" "c = ?new\<lparr>cred_generation := cred_generation c\<rparr>"
    "cred_generation c = (case ex of None \<Rightarrow> bin_generation input | Some old \<Rightarrow> cred_generation old)"
    and arts: "artifacts (db w3) = artifacts (db w2)"
  proof (cases createOnly)
    case True
    with free pers Create_credential_lookup [of ?new w2] cred2(1) fields that [of ?new] show thesis
      by (auto simp: persistCredential_def)
  next
    case False
    with pers have save: "Save_credential ?new w2 = (Inr u2, w3)" by (simp add: persistCredential_def)
    from save have "artifacts (db w3) = artifacts (db w2)" by (auto elim: Save_credential_InrE)
    with Save_credential_lookup [OF save, of ?b] fields cred2(1)
      that [of "case ex of None \<Rightarrow> ?new | Some old \<Rightarrow> ?new\<lparr>cred_generation := cred_generation old\<rparr>"]
    show thesis by (cases ex) auto
  qed
  from c(2) obtain g where "c = ?new\<lparr>cred_generation := g\<rparr>" by blast
  with fields have "cred_account_key c = prep_account_key prepared" "cred_blob c = prep_blob prepared"
    "cred_status c = ''active''" by simp_all
  moreover have "\<And>x. previous_account prepared ex = Some x \<Longrightarrow> cred_account_key x \<noteq> prep_account_key prepared"
    by (auto simp: previous_account_def split: option.splits if_splits)
  ultimately show ?thesis
    using bind_details_InrE [OF det c(1)] c(3) arts cred2(2) free ex(1) by auto
qed

section \<open>Properties of binding\<close>


definition sealing_draws :: draws where
  "sealing_draws = \<lparr>dr_now = (\<lambda>_. 50), dr_nonce = (\<lambda>_. Some sample_nonce), dr_chance = (\<lambda>_. sample_chance)\<rparr>"

definition sample_input :: bind_input where
  "sample_input = \<lparr>bin_binding_ref = ''bind_9'', bin_generation = 1, bin_cookie_bundle = ''stoken'',
     bin_device_id = ''d1'', bin_device_fp = ''fp'', bin_device_name = '''', bin_region_hint = ''''\<rparr>"

definition sample_preparation :: bind_preparation where
  "sample_preparation = \<lparr>prep_account_key = FormatAccountKey sample_cipher ''10001'', prep_account_id = ''10001'',
     prep_region = ''cn'', prep_profiles = [], prep_blob = sample_blob\<rparr>"

lemma sample_prepare:
  "prepareBindCredential sample_env (Some sample_nonce) sample_input w = (Inr sample_preparation, w)"
  using sample_sealed
  by (simp add: prepareBindCredential_def sample_input_def effect_simps sample_preparation_def sample_blob_def)
    (simp add: sample_env_def effect_simps)

definition sample_bound :: mihomo_db where
  "sample_bound = empty_mihomo_db\<lparr>credentials := [bound_credential 50 sample_input sample_preparation None],
     devices := [bound_device sample_cipher 50 sample_input sample_preparation]\<rparr>"

lemma sample_bound_ok: "store_ok sample_bound"
    "store_ok (empty_mihomo_db\<lparr>credentials := [bound_credential 50 sample_input sample_preparation None]\<rparr>)"
  by (simp_all add: sample_bound_def store_ok_iff empty_mihomo_db_def unique_on_def unique_where_def
      credential_row_ok_def bigint_ok_def bound_credential_def bound_device_def Let_def sample_input_def
      sample_preparation_def credential_exists_def FormatAccountKey_def opaqueReference_def)

lemma sample_bind:
  "\<exists>out. bindCredential sample_env sealing_draws sample_input True (initial_world empty_mihomo_db) =
     (Inr out, initial_world sample_bound)"
proof -
  let ?w = "(initial_world empty_mihomo_db)\<lparr>base := Some empty_mihomo_db\<rparr>"
  let ?d1 = "empty_mihomo_db\<lparr>credentials := [bound_credential 50 sample_input sample_preparation None]\<rparr>"
  have tables: "credentials empty_mihomo_db = []" "devices empty_mihomo_db = []" "profiles empty_mihomo_db = []"
    "artifacts empty_mihomo_db = []" "empty_mihomo_db\<lparr>artifacts := []\<rparr> = empty_mihomo_db"
    by (simp_all add: empty_mihomo_db_def)
  have v: "store_violation empty_mihomo_db = None" "store_violation ?d1 = None" "store_violation sample_bound = None"
    using sample_bound_ok store_ok_empty by (simp_all add: store_ok_def)
  have none: "delete_artifacts p empty_mihomo_db = empty_mihomo_db" for p
    by (simp add: delete_artifacts_def empty_mihomo_db_def)
  have artifacts: "DeleteByBindingRef_artifact None b ?w = (Inr (), ?w)" for b
    using v tables by (simp add: DeleteByBindingRef_artifact_def deleteByBindingRef_artifact_def deleteCacheKeys_def
        recordsForBindingCacheDeletion_def change_on_def on_db_def none effect_simps record_keys_def
        checked_write_def initial_world_def)
  have create: "Create_credential (bound_credential 50 sample_input sample_preparation None) ?w = (Inr (), ?w\<lparr>db := ?d1\<rparr>)"
    using v tables by (simp add: Create_credential_def Let_def effect_simps initial_world_def)
  have sb: "?d1\<lparr>devices := [bound_device sample_cipher 50 sample_input sample_preparation]\<rparr> = sample_bound"
    "sample_bound\<lparr>profiles := []\<rparr> = sample_bound" "profiles sample_bound = []"
    by (simp_all add: sample_bound_def empty_mihomo_db_def)
  have device: "Save_device (bound_device sample_cipher 50 sample_input sample_preparation) (?w\<lparr>db := ?d1\<rparr>)
      = (Inr (), ?w\<lparr>db := sample_bound\<rparr>)"
    using v by (simp add: Save_device_def upsert_def sql_change_no_fault tables sb(1) initial_world_def)
  have profs: "DeleteByAccountKey_profile a (?w\<lparr>db := sample_bound\<rparr>) = (Inr (), ?w\<lparr>db := sample_bound\<rparr>)" for a
    using v by (simp add: DeleteByAccountKey_profile_def sql_change_no_fault sb(2) sb(3) initial_world_def)
  have none_found: "prep_profiles sample_preparation = []" by (simp add: sample_preparation_def)
  show ?thesis
    using artifacts create device profs
    by (simp add: none_found initial_world_def bindCredential_def sealing_draws_def sample_prepare effect_simps transaction_def
        bindPreparedCredential_def persistCredential_def or_undo_def bind_details_def Let_def previous_account_def
        GetByBindingRef_credential_def getByBindingRef_credential_def tables save_profiles_def)
qed


end
