(* ===== verification/Mihomo_Status.thy ===== *)
theory Mihomo_Status
  imports Mihomo_Bind
begin

text \<open>
  The status of credentials: \<open>internal/usecase/status_usecase.go\<close> and the check of a refresh
  result in \<open>internal/platform/mihomo/client.go\<close>.  A credential the platform rejects gets the status
  of the rejection and its issued keys are invalidated, a refreshed one gets the rotated bundle and the
  refreshed profiles.
\<close>

section \<open>Outputs\<close>

record validate_output =
  vo_status :: credential_status
  vo_error_code :: string

record refresh_output =
  ro_status :: credential_status
  ro_refreshed_at :: "instant option"
  ro_profiles :: "profile_summary list"
  ro_snapshot_complete :: bool
  ro_profile_revision :: u64
  ro_observed_revision :: u64

section \<open>Refresh results\<close>

definition ValidateRefreshResult :: "refresh_result \<Rightarrow> instant \<Rightarrow> merror option" where
  "ValidateRefreshResult result now =
     (case rr_profiles result of
        None \<Rightarrow> Some (UpstreamError ErrorInvalidResponse)
      | Some ps \<Rightarrow>
          if trim_space (rr_credential_bundle result) = '''' \<or> trim_space (rr_account_id result) = ''''
             \<or> trim_space (rr_region result) = '''' \<or> \<not> rr_expires_at result > now
          then Some (UpstreamError ErrorInvalidResponse)
          else if list_ex (\<lambda>p. trim_space (disc_game_biz p) = '''' \<or> trim_space (disc_region p) = ''''
             \<or> trim_space (disc_player_id p) = '''' \<or> trim_space (disc_nickname p) = '''') ps
          then Some (UpstreamError ErrorInvalidResponse)
          else None)"

definition primaryProfileIdentity :: "profile list \<Rightarrow> profile_identity option" where
  "primaryProfileIdentity ps = map_option
     (\<lambda>p. \<lparr>pid_player_id = prof_player_id p, pid_region = prof_region p\<rparr>) (find prof_is_default ps)"

text \<open>The index of the profile that was primary before, the first one otherwise, \<open>-1\<close> for none.\<close>

fun index_of :: "('a \<Rightarrow> bool) \<Rightarrow> 'a list \<Rightarrow> int option" where
  "index_of p [] = None"
| "index_of p (x # xs) = (if p x then Some 0 else map_option (\<lambda>i. i + 1) (index_of p xs))"

definition refreshedPrimaryIndex :: "discovered_profile list \<Rightarrow> profile_identity option \<Rightarrow> int" where
  "refreshedPrimaryIndex ps previous =
     (if ps = [] then - 1
      else case previous of
        None \<Rightarrow> 0
      | Some i \<Rightarrow> (case index_of (\<lambda>p. disc_player_id p = pid_player_id i \<and> disc_region p = pid_region i) ps of
          Some index \<Rightarrow> index
        | None \<Rightarrow> 0))"

section \<open>Use cases\<close>

definition getCredential :: "string \<Rightarrow> credential meff" where
  "getCredential accountKey =
     andThen (GetByAccountKey_credential accountKey) (\<lambda>found.
     case found of None \<Rightarrow> raise ErrCredentialNotFound | Some credential \<Rightarrow> return credential)"

definition GetCredentialStatus :: "string \<Rightarrow> (credential_status \<times> instant option) meff" where
  "GetCredentialStatus accountKey =
     andThen (getCredential accountKey) (\<lambda>credential.
     return (credentialStatusFromStorage (cred_status credential), cred_last_validated_at credential))"

definition prepareCredentialReencryption ::
    "mihomo_env \<Rightarrow> string option \<Rightarrow> credential \<Rightarrow> string \<Rightarrow> merror + credential" where
  "prepareCredentialReencryption env nonce credential plaintext =
     (case EnvelopeNeedsReencryption (env_key env) (cred_blob credential) of
        Inl err \<Rightarrow> Inl err
      | Inr needs \<Rightarrow>
          if \<not> needs then Inr credential
          else case EncryptString (env_cipher env) (env_key env) nonce plaintext of
            Inl err \<Rightarrow> Inl err
          | Inr reencrypted \<Rightarrow> Inr (credential\<lparr>cred_blob := reencrypted, cred_version := ''v2''\<rparr>))"

definition saveAndInvalidateArtifacts :: "mihomo_env \<Rightarrow> chance \<Rightarrow> credential \<Rightarrow> unit meff" where
  "saveAndInvalidateArtifacts env ch credential = within_transaction
     (andThen (Save_credential credential) (\<lambda>_.
      andThen (attempt (InvalidateBinding (env_lifecycle env) ch (cred_binding_ref credential))) (\<lambda>r.
      case r of
        Inr _ \<Rightarrow> return ()
      | Inl err \<Rightarrow> if is_error err ErrArtifactRevocationPending then return () else raise err)))"

text \<open>The credential that is current in the transaction takes the verdict, if it is the one that was
  validated: the same envelope, or one that opens to the same bundle.\<close>

definition attention_credential ::
    "mihomo_env \<Rightarrow> credential \<Rightarrow> string \<Rightarrow> string \<Rightarrow> credential \<Rightarrow> merror + credential" where
  "attention_credential env credential expectedBlob validatedPlaintext current =
     (if cred_generation current \<noteq> cred_generation credential then Inl ErrCredentialGenerationConflict
      else let verdict = (\<lambda>c. c\<lparr>cred_status := cred_status credential,
             cred_last_validated_at := cred_last_validated_at credential,
             cred_snapshot_complete := cred_snapshot_complete credential\<rparr>) in
        if cred_blob current = expectedBlob
        then Inr (verdict (current\<lparr>cred_blob := cred_blob credential, cred_version := cred_version credential\<rparr>))
        else case DecryptString (env_cipher env) (env_key env) (cred_blob current) of
          Inl _ \<Rightarrow> Inl ErrCredentialGenerationConflict
        | Inr currentPlaintext \<Rightarrow>
            if currentPlaintext \<noteq> validatedPlaintext then Inl ErrCredentialGenerationConflict
            else Inr (verdict current))"

text \<open>The transaction yields the error of the invalidation, which does not roll it back.\<close>

definition saveAttentionAndInvalidateArtifacts ::
    "mihomo_env \<Rightarrow> chance \<Rightarrow> credential \<Rightarrow> string \<Rightarrow> string \<Rightarrow> unit meff" where
  "saveAttentionAndInvalidateArtifacts env ch credential expectedBlob validatedPlaintext =
     andThen (within_transaction
       (andThen (GetByBindingRefForUpdate (cred_binding_ref credential)) (\<lambda>found.
        case found of
          None \<Rightarrow> raise ErrCredentialNotFound
        | Some current \<Rightarrow>
            andThen (lift_result (attention_credential env credential expectedBlob validatedPlaintext current)) (\<lambda>updated.
            andThen (Save_credential updated) (\<lambda>_.
            andThen (attempt (InvalidateBinding (env_lifecycle env) ch (cred_binding_ref updated))) (\<lambda>r.
            return (case r of Inl err \<Rightarrow> Some err | Inr _ \<Rightarrow> None)))))))
     (\<lambda>invalidationErr. case invalidationErr of None \<Rightarrow> return () | Some err \<Rightarrow> raise err)"

definition revalidate ::
    "mihomo_env \<Rightarrow> draws \<Rightarrow> credential \<Rightarrow> bool \<Rightarrow> (credential_status \<times> string) meff" where
  "revalidate env dr credential0 markRefreshed =
     (let expectedBlob = cred_blob credential0 in
      andThen (lift_result (DecryptString (env_cipher env) (env_key env) (cred_blob credential0))) (\<lambda>cookieBundleJSON.
      andThen (lift_result (prepareCredentialReencryption env (dr_nonce dr 0) credential0 cookieBundleJSON)) (\<lambda>prepared.
      let now = dr_now dr 0; credential = prepared\<lparr>cred_last_validated_at := Some now\<rparr> in
      case env_discover env cookieBundleJSON (cred_region credential) of
        Inl err \<Rightarrow>
          if \<not> isCredentialAttentionError (Some err) then raise err
          else let rejected = credential\<lparr>cred_status := classifyCredentialStatus err\<rparr> in
            andThen (saveAttentionAndInvalidateArtifacts env (dr_chance dr 0) rejected expectedBlob cookieBundleJSON) (\<lambda>_.
            return (credentialStatusFromStorage (cred_status rejected), classifyErrorCode err))
      | Inr _ \<Rightarrow>
          andThen (Save_credential (credential\<lparr>cred_status := ''active'',
                     cred_last_refreshed_at := (if markRefreshed then Some now
                                                else cred_last_refreshed_at credential)\<rparr>)) (\<lambda>_.
          return (CredentialStatusActive, '''')))))"

definition ValidateCredential :: "mihomo_env \<Rightarrow> draws \<Rightarrow> string \<Rightarrow> validate_output meff" where
  "ValidateCredential env dr accountKey =
     andThen (getCredential accountKey) (\<lambda>credential.
     andThen (revalidate env dr credential False) (\<lambda>(st, code).
     return \<lparr>vo_status = st, vo_error_code = code\<rparr>))"

definition profileSummariesFromProfiles :: "profile list \<Rightarrow> profile_summary list" where
  "profileSummariesFromProfiles ps = map toProfileSummary ps"

text \<open>The credential after a successful refresh.\<close>

definition refreshed_credential :: "instant \<Rightarrow> refresh_result \<Rightarrow> string \<Rightarrow> credential \<Rightarrow> credential" where
  "refreshed_credential now result rotatedBlob credential =
     (let revision = nextProfileRevision (cred_profile_revision credential) (cred_observed_revision credential) in
      credential\<lparr>cred_account_id := rr_account_id result, cred_region := rr_region result,
        cred_blob := rotatedBlob, cred_status := ''active'', cred_last_refreshed_at := Some now,
        cred_expires_at := Some (rr_expires_at result), cred_snapshot_complete := True,
        cred_profile_revision := revision, cred_observed_revision := revision\<rparr>)"

definition store_refreshed ::
    "mihomo_env \<Rightarrow> draws \<Rightarrow> instant \<Rightarrow> string \<Rightarrow> credential \<Rightarrow> profile list \<Rightarrow> refresh_result \<Rightarrow> discovered_profile list
      \<Rightarrow> refresh_output meff" where
  "store_refreshed env dr now accountKey credential existing result discovered =
     andThen (lift_result (EncryptString (env_cipher env) (env_key env) (dr_nonce dr 1) (rr_credential_bundle result))) (\<lambda>rotatedBlob.
     andThen (DeleteByAccountKey_profile accountKey) (\<lambda>_.
     andThen (save_profiles (env_cipher env) now (cred_binding_ref credential) accountKey
                (refreshedPrimaryIndex discovered (primaryProfileIdentity existing)) discovered) (\<lambda>refreshed.
     let updated = refreshed_credential now result rotatedBlob credential in
     andThen (saveAndInvalidateArtifacts env (dr_chance dr 1) updated) (\<lambda>_.
     return \<lparr>ro_status = CredentialStatusActive, ro_refreshed_at = cred_last_refreshed_at updated,
       ro_profiles = refreshed, ro_snapshot_complete = True,
       ro_profile_revision = cred_profile_revision updated,
       ro_observed_revision = cred_observed_revision updated\<rparr>))))"

definition after_refresh ::
    "mihomo_env \<Rightarrow> draws \<Rightarrow> string \<Rightarrow> string \<Rightarrow> string \<Rightarrow> credential \<Rightarrow> profile list \<Rightarrow> merror + refresh_result
      \<Rightarrow> refresh_output meff" where
  "after_refresh env dr accountKey expectedBlob cookieBundleJSON prepared existing answer =
     (let now = dr_now dr 0; credential = prepared\<lparr>cred_last_validated_at := Some now\<rparr> in
      case answer of
        Inl err \<Rightarrow>
          if \<not> isCredentialAttentionError (Some err) then raise err
          else let rejected = credential\<lparr>cred_status := classifyCredentialStatus err, cred_snapshot_complete := False\<rparr> in
            andThen (saveAttentionAndInvalidateArtifacts env (dr_chance dr 0) rejected expectedBlob cookieBundleJSON) (\<lambda>_.
            return \<lparr>ro_status = credentialStatusFromStorage (cred_status rejected), ro_refreshed_at = None,
              ro_profiles = profileSummariesFromProfiles existing, ro_snapshot_complete = False,
              ro_profile_revision = cred_profile_revision rejected,
              ro_observed_revision = cred_observed_revision rejected\<rparr>)
      | Inr result \<Rightarrow> (case (ValidateRefreshResult result now, rr_profiles result) of
          (None, Some discovered) \<Rightarrow>
            if cred_account_id credential \<noteq> '''' \<and> cred_account_id credential \<noteq> rr_account_id result
            then raise (OtherError ''discovered account does not match credential'')
            else store_refreshed env dr now accountKey credential existing result discovered
        | _ \<Rightarrow> raise (UpstreamError ErrorInvalidResponse)))"

definition RefreshCredential :: "mihomo_env \<Rightarrow> draws \<Rightarrow> string \<Rightarrow> refresh_output meff" where
  "RefreshCredential env dr accountKey =
     andThen (getCredential accountKey) (\<lambda>credential.
     andThen (lift_result (DecryptString (env_cipher env) (env_key env) (cred_blob credential))) (\<lambda>cookieBundleJSON.
     andThen (lift_result (prepareCredentialReencryption env (dr_nonce dr 0) credential cookieBundleJSON)) (\<lambda>prepared.
     andThen (ListByAccountKey_profile accountKey) (\<lambda>existing.
     case env_refresh env of
       None \<Rightarrow> raise (UpstreamError ErrorUnavailable)
     | Some refresher \<Rightarrow> after_refresh env dr accountKey (cred_blob credential) cookieBundleJSON prepared existing
         (refresher cookieBundleJSON (cred_region prepared))))))"

section \<open>Invariants\<close>

lemmas status_defs = getCredential_def GetCredentialStatus_def saveAndInvalidateArtifacts_def
  saveAttentionAndInvalidateArtifacts_def revalidate_def ValidateCredential_def store_refreshed_def
  after_refresh_def RefreshCredential_def

lemma status_keeps [keeps_rules, simp]:
  "keeps store_ok (GetCredentialStatus a)" "keeps store_ok (saveAndInvalidateArtifacts env ch c)"
  "keeps store_ok (saveAttentionAndInvalidateArtifacts env ch c x y)"
  "keeps store_ok (ValidateCredential env dr a)" "keeps store_ok (RefreshCredential env dr a)"
  by (auto simp: status_defs Let_def intro!: keeps_rules)

lemma status_frames [keeps_rules, simp]:
  "frames safeguards (GetCredentialStatus a)" "frames safeguards (saveAndInvalidateArtifacts env ch c)"
  "frames safeguards (saveAttentionAndInvalidateArtifacts env ch c x y)"
  "frames safeguards (ValidateCredential env dr a)" "frames safeguards (RefreshCredential env dr a)"
  by (auto simp: status_defs Let_def intro!: keeps_rules)

lemma getCredential_custody: "obeys (custody l) (getCredential a)"
  by (auto simp: getCredential_def intro!: authkey_custody_rules)

lemma profile_custody:
  "obeys (custody l) (Save_profile p)" "obeys (custody l) (DeleteByAccountKey_profile a)"
  "obeys (custody l) (ListByAccountKey_profile a)" "obeys (custody l) (save_profiles lib now b a pi ps)"
  by (auto simp: profile_repo_defs save_profiles_def Let_def insert_profile_def
      intro!: custody.rules custody_statements)

lemma status_custody:
  "obeys (custody (env_lifecycle env)) (saveAndInvalidateArtifacts env ch c)"
  "obeys (custody (env_lifecycle env)) (saveAttentionAndInvalidateArtifacts env ch c x y)"
  by (auto simp: saveAndInvalidateArtifacts_def saveAttentionAndInvalidateArtifacts_def
      intro!: authkey_custody_rules transaction_custody)

lemma validate_custody: "obeys (custody (env_lifecycle env)) (ValidateCredential env dr a)"
  unfolding ValidateCredential_def revalidate_def Let_def
  by (intro authkey_custody_rules getCredential_custody status_custody)

lemma refresh_custody: "obeys (custody (env_lifecycle env)) (RefreshCredential env dr a)"
  unfolding RefreshCredential_def after_refresh_def store_refreshed_def Let_def
  by (intro authkey_custody_rules getCredential_custody status_custody profile_custody)

section \<open>What a refresh leaves\<close>

lemma invalidate_frames_credentials [keeps_rules, simp]: "frames credentials (InvalidateBinding l ch b)"
  by (auto simp: InvalidateBinding_def stageArtifact_def RevokeIssuedArtifact_def revokeIssuedArtifact_def
      revoke_and_forget_def artifact_repo_defs Let_def artifact_writes
      intro!: keeps_rules revoke_all_frames change_on_frames PutRevocationIntentImmediately_frames)

lemma frames_comp: "frames f m \<Longrightarrow> frames (\<lambda>d. g (f d)) m"
proof (rule framesI)
  fix w assume m: "frames f m"
  show "g (f (db (snd (m w)))) = g (f (db w))" by (simp add: framesD [OF m])
  show "map_option (\<lambda>d. g (f d)) (base (snd (m w))) = map_option (\<lambda>d. g (f d)) (base w)"
    using arg_cong [OF framesD_base [OF m, of w], of "map_option g"] by (simp add: option.map_comp comp_def)
qed

lemma kept_tables_credentials: "frames kept_tables m \<Longrightarrow> frames credentials m"
  using frames_comp [of kept_tables m fst] by (simp add: kept_tables_def)

text \<open>A transaction that succeeds, started here or joined.\<close>

lemma transaction_success:
  assumes "transaction mk m w = (Inr x, w')"
  obtains w0 v where "m w0 = (Inr x, v)" "db w0 = db w" "db w' = db v"
proof (cases "base w")
  case None
  with assms obtain v where "m (w\<lparr>base := Some (db w)\<rparr>) = (Inr x, v)" "db w' = db v"
    by (auto simp: transaction_def split: prod.splits sum.splits if_splits)
  then show thesis using that [of "w\<lparr>base := Some (db w)\<rparr>" v] by simp
next
  case (Some b)
  with assms show thesis by (intro that [of w w']) (auto simp: transaction_joined)
qed

lemma profile_frames_credentials [keeps_rules, simp]:
  "frames credentials (DeleteByAccountKey_profile a)" "frames credentials (save_profiles lib now b a pi ps)"
  "frames credentials (ListByAccountKey_profile a)"
  by (simp_all add: kept_tables_credentials)

lemma credential_of_frames: "frames credentials m \<Longrightarrow> m w = (r, w') \<Longrightarrow> credential_of b (db w') = credential_of b (db w)"
  using frames_InrD [of credentials m w r w'] by (simp add: credential_of_def)

lemma saveAndInvalidate_InrE:
  assumes "saveAndInvalidateArtifacts env ch c w = (Inr u, w')"
  shows "credential_of b (db w') = (if b = cred_binding_ref c
     then Some (case credential_of b (db w) of None \<Rightarrow> c | Some old \<Rightarrow> c\<lparr>cred_generation := cred_generation old\<rparr>)
     else credential_of b (db w))"
proof -
  let ?rest = "\<lambda>_ :: unit. andThen (attempt (InvalidateBinding (env_lifecycle env) ch (cred_binding_ref c))) (\<lambda>r. case r of
        Inr _ \<Rightarrow> return () | Inl err \<Rightarrow> if is_error err ErrArtifactRevocationPending then return () else raise err)"
  obtain w0 v where m: "andThen (Save_credential c) ?rest w0 = (Inr u, v)" "db w0 = db w" "db w' = db v"
    using assms unfolding saveAndInvalidateArtifacts_def by (rule transaction_success)
  from m(1) obtain x w1 where s: "Save_credential c w0 = (Inr x, w1)" "?rest x w1 = (Inr u, v)"
    by (rule andThen_InrE)
  have "frames credentials (?rest x)" by (intro keeps_rules invalidate_frames_credentials)
  from credential_of_frames [OF this s(2)] Save_credential_lookup [OF s(1)] m(2,3) show ?thesis by simp
qed

lemma saveAttention_InrE:
  assumes "saveAttentionAndInvalidateArtifacts env ch c x y w = (Inr u, w')"
  obtains current where "credential_of (cred_binding_ref c) (db w) = Some current"
    "cred_generation current = cred_generation c"
    "cred_blob current \<noteq> x \<longrightarrow> DecryptString (env_cipher env) (env_key env) (cred_blob current) = Inr y"
    "credential_of (cred_binding_ref c) (db w') = Some (current\<lparr>
       cred_blob := (if cred_blob current = x then cred_blob c else cred_blob current),
       cred_version := (if cred_blob current = x then cred_version c else cred_version current),
       cred_status := cred_status c, cred_last_validated_at := cred_last_validated_at c,
       cred_snapshot_complete := cred_snapshot_complete c\<rparr>)"
proof -
  let ?m = "andThen (GetByBindingRefForUpdate (cred_binding_ref c)) (\<lambda>found. case found of
        None \<Rightarrow> raise ErrCredentialNotFound
      | Some current \<Rightarrow>
          andThen (lift_result (attention_credential env c x y current)) (\<lambda>updated.
          andThen (Save_credential updated) (\<lambda>_.
          andThen (attempt (InvalidateBinding (env_lifecycle env) ch (cred_binding_ref updated))) (\<lambda>r.
          return (case r of Inl err \<Rightarrow> Some err | Inr _ \<Rightarrow> None)))))"
  from assms obtain e w1 where tx: "transaction Db ?m w = (Inr e, w1)"
    "(case e of None \<Rightarrow> return () | Some err \<Rightarrow> raise err) w1 = (Inr u, w')"
    unfolding saveAttentionAndInvalidateArtifacts_def by (rule andThen_InrE)
  from tx(2) have w1: "w' = w1" by (auto simp: effect_simps split: option.splits)
  from tx(1) obtain w0 v where m: "?m w0 = (Inr e, v)" "db w0 = db w" "db w1 = db v" by (rule transaction_success)
  from m(1) obtain current w2 updated w3 q w4 where
    get: "GetByBindingRefForUpdate (cred_binding_ref c) w0 = (Inr (Some current), w2)"
    and upd: "attention_credential env c x y current = Inr updated"
    and save: "Save_credential updated w2 = (Inr (), w3)"
    and inv: "InvalidateBinding (env_lifecycle env) ch (cred_binding_ref updated) w3 = (q, w4)" "v = w4"
    by (auto elim!: andThen_InrE lift_result_InrE raise_InrE attempt_InrE return_InrE split: option.splits)
  from get have cur: "credential_of (cred_binding_ref c) (db w) = Some current" "db w2 = db w"
    using m(2) by (auto simp: GetByBindingRefForUpdate_def getByBindingRef_credential_def credential_of_def
        option.map_ident elim!: success_elims)
  have b: "cred_binding_ref current = cred_binding_ref c" using cur(1) by (rule credential_of_binding)
  from upd have fields: "cred_generation current = cred_generation c"
    "cred_blob current \<noteq> x \<longrightarrow> DecryptString (env_cipher env) (env_key env) (cred_blob current) = Inr y"
    "updated = current\<lparr>cred_blob := (if cred_blob current = x then cred_blob c else cred_blob current),
       cred_version := (if cred_blob current = x then cred_version c else cred_version current),
       cred_status := cred_status c, cred_last_validated_at := cred_last_validated_at c,
       cred_snapshot_complete := cred_snapshot_complete c\<rparr>"
    by (auto simp: attention_credential_def Let_def split: if_splits sum.splits)
  have "credential_of (cred_binding_ref c) (db w') = credential_of (cred_binding_ref c) (db w3)"
    using credential_of_frames [OF invalidate_frames_credentials inv(1)] inv(2) w1 m(3) by simp
  also have "\<dots> = Some (updated\<lparr>cred_generation := cred_generation current\<rparr>)"
    using Save_credential_lookup [OF save, of "cred_binding_ref c"] cur b fields(3) by simp
  also have "updated\<lparr>cred_generation := cred_generation current\<rparr> = updated"
    by (simp add: fields(3))
  finally show thesis using that [OF cur(1) fields(1,2)] fields(3) by simp
qed

lemma classify_not_active: "credentialStatusFromStorage (classifyCredentialStatus e) \<noteq> CredentialStatusActive"
  by (simp add: credentialStatusFromStorage_def classifyCredentialStatus_def)

lemma store_refreshed_InrE:
  assumes "store_refreshed env dr now a credential existing result discovered w = (Inr out, w')"
  obtains blob where
    "EncryptString (env_cipher env) (env_key env) (dr_nonce dr 1) (rr_credential_bundle result) = Inr blob"
    "credential_of (cred_binding_ref credential) (db w') = Some (case credential_of (cred_binding_ref credential) (db w) of
       None \<Rightarrow> refreshed_credential now result blob credential
     | Some old \<Rightarrow> (refreshed_credential now result blob credential)\<lparr>cred_generation := cred_generation old\<rparr>)"
    "ro_status out = CredentialStatusActive"
proof -
  let ?pi = "refreshedPrimaryIndex discovered (primaryProfileIdentity existing)"
  from assms obtain blob w1 u2 w2 ps w3 u4 w4 where s:
    "EncryptString (env_cipher env) (env_key env) (dr_nonce dr 1) (rr_credential_bundle result) = Inr blob" "w1 = w"
    "DeleteByAccountKey_profile a w1 = (Inr u2, w2)"
    "save_profiles (env_cipher env) now (cred_binding_ref credential) a ?pi discovered w2 = (Inr ps, w3)"
    "saveAndInvalidateArtifacts env (dr_chance dr 1) (refreshed_credential now result blob credential) w3 = (Inr u4, w4)"
    and out: "w' = w4" "ro_status out = CredentialStatusActive"
    unfolding store_refreshed_def Let_def by (elim andThen_InrE lift_result_InrE return_InrE) auto
  have "credential_of b (db w3) = credential_of b (db w)" for b
    using s(2) credential_of_frames [OF profile_frames_credentials(1) s(3)]
      credential_of_frames [OF profile_frames_credentials(2) s(4)] by simp
  with saveAndInvalidate_InrE [OF s(5), of "cred_binding_ref credential"] that [OF s(1)] out show thesis
    by (simp add: refreshed_credential_def Let_def)
qed

lemma prepared_opens:
  assumes "prepareCredentialReencryption env nonce c p = Inr c'"
    and "DecryptString (env_cipher env) (env_key env) (cred_blob c) = Inr p"
    and keys: "env_key env = Some (file_keyring f)" "opens_what_it_seals (env_cipher env)"
      "\<And>n. nonce = Some n \<Longrightarrow> length n = nonce_size"
  shows "DecryptString (env_cipher env) (env_key env) (cred_blob c') = Inr p \<and>
    c' = c\<lparr>cred_blob := cred_blob c', cred_version := cred_version c'\<rparr>"
proof -
  from assms(1) consider "c' = c" | blob where "EncryptString (env_cipher env) (env_key env) nonce p = Inr blob"
      "c' = c\<lparr>cred_blob := blob, cred_version := ''v2''\<rparr>"
    by (auto simp: prepareCredentialReencryption_def split: sum.splits if_splits)
  then show ?thesis
  proof cases
    case (2 blob)
    then obtain n where n: "nonce = Some n"
      using keys(1) by (auto simp: EncryptString_def split: option.splits sum.splits if_splits)
    from file_source.decrypt_sealed [OF 2(1) [unfolded keys(1) n] keys(3) [OF n] keys(2)] 2(2) keys(1)
    show ?thesis by simp
  qed (use assms(2) in simp)
qed

text \<open>The two ends of a refresh of credential \<open>c\<close>, whose envelope may have moved to the active key.\<close>

lemma refresh_rejected:
  assumes "after_refresh env dr a (cred_blob c) cookie (c\<lparr>cred_blob := blob, cred_version := v\<rparr>) existing (Inl e) w
      = (Inr out, w')"
    and "credential_of (cred_binding_ref c) (db w) = Some c"
  shows "isCredentialAttentionError (Some e) \<and> ro_status out \<noteq> CredentialStatusActive \<and>
    (\<exists>c'. credential_of (cred_binding_ref c) (db w') = Some c' \<and> cred_account_key c' = cred_account_key c \<and>
      cred_generation c' = cred_generation c \<and> cred_status c' = classifyCredentialStatus e \<and>
      \<not> cred_snapshot_complete c' \<and> cred_blob c' = blob)"
proof -
  let ?rej = "c\<lparr>cred_blob := blob, cred_version := v, cred_last_validated_at := Some (dr_now dr 0),
    cred_status := classifyCredentialStatus e, cred_snapshot_complete := False\<rparr>"
  from assms(1) obtain u where att: "isCredentialAttentionError (Some e)"
    and save: "saveAttentionAndInvalidateArtifacts env (dr_chance dr 0) ?rej (cred_blob c) cookie w = (Inr u, w')"
    and out: "ro_status out = credentialStatusFromStorage (classifyCredentialStatus e)"
    by (auto simp: after_refresh_def Let_def elim!: andThen_InrE raise_InrE return_InrE split: if_splits)
  from save obtain current where cur: "credential_of (cred_binding_ref ?rej) (db w) = Some current"
    and row: "credential_of (cred_binding_ref ?rej) (db w') = Some (current\<lparr>
       cred_blob := (if cred_blob current = cred_blob c then cred_blob ?rej else cred_blob current),
       cred_version := (if cred_blob current = cred_blob c then cred_version ?rej else cred_version current),
       cred_status := cred_status ?rej, cred_last_validated_at := cred_last_validated_at ?rej,
       cred_snapshot_complete := cred_snapshot_complete ?rej\<rparr>)"
    by (rule saveAttention_InrE)
  from cur assms(2) have "current = c" by simp
  with row att out classify_not_active [of e] show ?thesis by simp
qed

lemma refresh_stored:
  assumes "after_refresh env dr a (cred_blob c) cookie (c\<lparr>cred_blob := blob, cred_version := v\<rparr>) existing (Inr result) w
      = (Inr out, w')"
    and "credential_of (cred_binding_ref c) (db w) = Some c"
  shows "ro_status out = CredentialStatusActive \<and> dr_now dr 0 < rr_expires_at result \<and>
    (\<exists>c' nb. EncryptString (env_cipher env) (env_key env) (dr_nonce dr 1) (rr_credential_bundle result) = Inr nb \<and>
      credential_of (cred_binding_ref c) (db w') = Some c' \<and> cred_account_key c' = cred_account_key c \<and>
      cred_generation c' = cred_generation c \<and> cred_status c' = ''active'' \<and> cred_blob c' = nb \<and>
      cred_expires_at c' = Some (rr_expires_at result) \<and>
      (cred_account_id c \<noteq> '''' \<longrightarrow> cred_account_id c' = cred_account_id c) \<and>
      cred_profile_revision c' = nextProfileRevision (cred_profile_revision c) (cred_observed_revision c))"
proof -
  let ?c1 = "c\<lparr>cred_blob := blob, cred_version := v, cred_last_validated_at := Some (dr_now dr 0)\<rparr>"
  from assms(1) obtain discovered where valid: "ValidateRefreshResult result (dr_now dr 0) = None"
    and id: "cred_account_id c \<noteq> '''' \<longrightarrow> cred_account_id c = rr_account_id result"
    and store: "store_refreshed env dr (dr_now dr 0) a ?c1 existing result discovered w = (Inr out, w')"
    by (auto simp: after_refresh_def Let_def elim!: raise_InrE split: option.splits if_splits)
  from store obtain nb where
    enc: "EncryptString (env_cipher env) (env_key env) (dr_nonce dr 1) (rr_credential_bundle result) = Inr nb"
    and row: "credential_of (cred_binding_ref ?c1) (db w') = Some (case credential_of (cred_binding_ref ?c1) (db w) of
        None \<Rightarrow> refreshed_credential (dr_now dr 0) result nb ?c1
      | Some old \<Rightarrow> (refreshed_credential (dr_now dr 0) result nb ?c1)\<lparr>cred_generation := cred_generation old\<rparr>)"
    and out: "ro_status out = CredentialStatusActive"
    by (rule store_refreshed_InrE)
  have "dr_now dr 0 < rr_expires_at result"
    using valid by (auto simp: ValidateRefreshResult_def split: option.splits if_splits)
  with enc row out id assms(2) show ?thesis by (simp add: refreshed_credential_def Let_def)
qed

lemma sealed_string_opens:
  assumes "EncryptString lib key nonce p = Inr blob" "key = Some (file_keyring f)" "opens_what_it_seals lib"
    and "\<And>n. nonce = Some n \<Longrightarrow> length n = nonce_size"
  shows "DecryptString lib key blob = Inr p"
proof -
  obtain n where n: "nonce = Some n"
    using assms(1,2) by (auto simp: EncryptString_def split: option.splits sum.splits if_splits)
  from file_source.decrypt_sealed [OF assms(1) [unfolded assms(2) n] assms(4) [OF n] assms(3)]
  show ?thesis by (simp add: assms(2))
qed

text \<open>How a refresh begins.\<close>

lemma RefreshCredential_InrE:
  assumes run: "RefreshCredential env dr a w = (Inr out, w')" and ok: "store_ok (db w)"
  obtains c cookie prepared existing w2 refresher where
    "credential_of (cred_binding_ref c) (db w) = Some c" "credential_of (cred_binding_ref c) (db w2) = Some c"
    "cred_account_key c = a" "DecryptString (env_cipher env) (env_key env) (cred_blob c) = Inr cookie"
    "prepareCredentialReencryption env (dr_nonce dr 0) c cookie = Inr prepared" "env_refresh env = Some refresher"
    "after_refresh env dr a (cred_blob c) cookie prepared existing (refresher cookie (cred_region prepared)) w2 = (Inr out, w')"
proof -
  from run obtain c w1 cookie prepared existing w2 refresher where
    get: "getCredential a w = (Inr c, w1)"
    and s: "DecryptString (env_cipher env) (env_key env) (cred_blob c) = Inr cookie"
      "prepareCredentialReencryption env (dr_nonce dr 0) c cookie = Inr prepared"
    and list: "ListByAccountKey_profile a w1 = (Inr existing, w2)"
    and t: "env_refresh env = Some refresher"
      "after_refresh env dr a (cred_blob c) cookie prepared existing (refresher cookie (cred_region prepared)) w2 = (Inr out, w')"
    unfolding RefreshCredential_def
    by (auto elim!: andThen_InrE lift_result_InrE raise_InrE split: option.splits)
  from get have c: "c \<in> set (credentials (db w))" "cred_account_key c = a" "db w1 = db w"
    by (auto simp: getCredential_def credential_repo_defs option.map_ident elim!: success_elims
        dest!: find_SomeD split: option.splits)
  have cof: "credential_of (cred_binding_ref c) (db w) = Some c"
    using ok c(1) unfolding credential_of_def store_ok_iff by (intro find_unique [of cred_binding_ref]) auto
  have "credential_of (cred_binding_ref c) (db w2) = Some c"
    using credential_of_frames [OF profile_frames_credentials(3) list] c(3) cof by simp
  then show thesis by (rule that [OF cof _ c(2) s t])
qed

section \<open>Properties of the status\<close>

text \<open>C28: A refresh that returns has settled the credential it started from, and never another
  account or generation.  When it reports an active credential, the stored one is active, expires in
  the future, belongs to the account it belonged to, opens to the bundle the platform rotated to, and
  has a new profile revision.  Otherwise the platform rejected it: the stored status says so, its
  profile snapshot is no longer complete and its bundle is the same as before.\<close>

theorem RefreshCredential_outcome:
  assumes run: "RefreshCredential env dr accountKey w = (Inr out, w')" and ok: "store_ok (db w)"
    and keys: "env_key env = Some (file_keyring f)" "opens_what_it_seals (env_cipher env)"
      "\<And>i n. dr_nonce dr i = Some n \<Longrightarrow> length n = nonce_size"
  shows "\<exists>c c' refresher cookie. credential_of (cred_binding_ref c) (db w) = Some c \<and> cred_account_key c = accountKey \<and>
    credential_of (cred_binding_ref c) (db w') = Some c' \<and> cred_account_key c' = accountKey \<and>
    cred_generation c' = cred_generation c \<and> env_refresh env = Some refresher \<and>
    DecryptString (env_cipher env) (env_key env) (cred_blob c) = Inr cookie \<and>
    (if ro_status out = CredentialStatusActive
     then \<exists>result. refresher cookie (cred_region c) = Inr result \<and> cred_status c' = ''active'' \<and>
       (\<exists>t. cred_expires_at c' = Some t \<and> dr_now dr 0 < t) \<and>
       (cred_account_id c \<noteq> '''' \<longrightarrow> cred_account_id c' = cred_account_id c) \<and>
       DecryptString (env_cipher env) (env_key env) (cred_blob c') = Inr (rr_credential_bundle result) \<and>
       cred_profile_revision c' = nextProfileRevision (cred_profile_revision c) (cred_observed_revision c)
     else \<exists>e. refresher cookie (cred_region c) = Inl e \<and> isCredentialAttentionError (Some e) \<and>
       cred_status c' = classifyCredentialStatus e \<and> \<not> cred_snapshot_complete c' \<and>
       DecryptString (env_cipher env) (env_key env) (cred_blob c') = Inr cookie)"
proof -
  obtain c cookie prepared existing w2 refresher where
    c: "credential_of (cred_binding_ref c) (db w) = Some c" "credential_of (cred_binding_ref c) (db w2) = Some c"
      "cred_account_key c = accountKey" and dec: "DecryptString (env_cipher env) (env_key env) (cred_blob c) = Inr cookie"
    and prep: "prepareCredentialReencryption env (dr_nonce dr 0) c cookie = Inr prepared"
    and refr: "env_refresh env = Some refresher"
    and after: "after_refresh env dr accountKey (cred_blob c) cookie prepared existing
        (refresher cookie (cred_region prepared)) w2 = (Inr out, w')"
    by (rule RefreshCredential_InrE [OF run ok])
  note p = prepared_opens [OF prep dec keys(1,2) keys(3)]
  obtain blob v where prepared: "prepared = c\<lparr>cred_blob := blob, cred_version := v\<rparr>"
    using conjunct2 [OF p] by (rule that)
  have blob: "DecryptString (env_cipher env) (env_key env) blob = Inr cookie" "cred_region prepared = cred_region c"
    using p by (simp_all add: prepared)
  show ?thesis
  proof (cases "refresher cookie (cred_region c)")
    case (Inl e)
    from refresh_rejected [OF after [unfolded blob(2) Inl, unfolded prepared] c(2)] obtain c' where
      "isCredentialAttentionError (Some e)" "ro_status out \<noteq> CredentialStatusActive"
      "credential_of (cred_binding_ref c) (db w') = Some c'" "cred_account_key c' = cred_account_key c"
      "cred_generation c' = cred_generation c" "cred_status c' = classifyCredentialStatus e"
      "\<not> cred_snapshot_complete c'" "cred_blob c' = blob" by blast
    with c dec refr Inl blob(1) show ?thesis
      by (intro exI [of _ c] exI [of _ c'] exI [of _ refresher] exI [of _ cookie]) simp
  next
    case (Inr result)
    from refresh_stored [OF after [unfolded blob(2) Inr, unfolded prepared] c(2)] obtain c' nb where
      s: "ro_status out = CredentialStatusActive" "dr_now dr 0 < rr_expires_at result"
      "EncryptString (env_cipher env) (env_key env) (dr_nonce dr 1) (rr_credential_bundle result) = Inr nb"
      "credential_of (cred_binding_ref c) (db w') = Some c'" "cred_account_key c' = cred_account_key c"
      "cred_generation c' = cred_generation c" "cred_status c' = ''active''" "cred_blob c' = nb"
      "cred_expires_at c' = Some (rr_expires_at result)"
      "cred_account_id c \<noteq> '''' \<longrightarrow> cred_account_id c' = cred_account_id c"
      "cred_profile_revision c' = nextProfileRevision (cred_profile_revision c) (cred_observed_revision c)" by blast
    with sealed_string_opens [OF s(3) keys(1,2) keys(3)] c dec refr Inr show ?thesis
      by (intro exI [of _ c] exI [of _ c'] exI [of _ refresher] exI [of _ cookie]) simp
  qed
qed

text \<open>A binding without artifacts has nothing to invalidate.\<close>

lemma InvalidateBinding_nothing:
  assumes "faults w = []" "base w = Some d" "db w = d'" "store_ok d" "store_ok d'" "artifacts d = []" "artifacts d' = []"
    and "al_configured l" "al_redis l = None"
  shows "InvalidateBinding l ch b w = (Inr (), w)"
proof -
  have same: "mark_pending b x = x" "delete_artifacts p x = x" if "artifacts x = []" for x p
    using that by (cases x; simp add: mark_pending_def delete_artifacts_def)+
  have "change_on True (mark_pending b) w = (Inr (), w)" "change_on True (delete_artifacts p) w = (Inr (), w)" for p
    using assms by (simp_all add: change_on_def on_db_def checked_write_def effect_simps same store_ok_def)
  with assms show ?thesis
    by (simp add: InvalidateBinding_def ListByBindingRef_artifact_def MarkRevocationPendingImmediately_def
        DeleteByBindingRefImmediately_def deleteByBindingRef_artifact_def recordsForBindingCacheDeletion_def
        deleteCacheKeys_def record_keys_def effect_simps)
qed

definition rejecting_env :: mihomo_env where
  "rejecting_env = sample_env\<lparr>env_refresh := Some (\<lambda>_ _. Inl (UpstreamError ErrorExpiredCredential))\<rparr>"

lemma rejecting_env_simps [simp]:
  "env_cipher rejecting_env = sample_cipher" "env_key rejecting_env = Some (file_keyring sample_key_file)"
  "env_lifecycle rejecting_env = sample_lifecycle"
  "env_refresh rejecting_env = Some (\<lambda>_ _. Inl (UpstreamError ErrorExpiredCredential))"
  by (simp_all add: rejecting_env_def)

definition expired_credential :: credential where
  "expired_credential = sealed_credential\<lparr>cred_status := ''expired'', cred_last_validated_at := Some 0,
     cred_snapshot_complete := False\<rparr>"

definition expired_db :: mihomo_db where
  "expired_db = sealed_db\<lparr>credentials := [expired_credential]\<rparr>"

lemma expired_db_facts: "store_ok expired_db" "artifacts expired_db = []" "profiles sealed_db = []"
  "expired_db = sealed_db\<lparr>credentials := [expired_credential]\<rparr>"
  by (simp_all add: store_ok_iff expired_db_def sealed_db_def sample_db_def empty_mihomo_db_def unique_on_def
      unique_where_def credential_row_ok_def bigint_ok_def expired_credential_def sealed_credential_def)

lemma sample_refresh:
  "\<exists>out. RefreshCredential rejecting_env sample_draws ''acct_1'' (initial_world sealed_db) =
     (Inr out, initial_world expired_db)"
proof -
  let ?c = "sealed_credential\<lparr>cred_last_validated_at := Some 0, cred_status := ''expired'', cred_snapshot_complete := False\<rparr>"
  let ?w = "(initial_world sealed_db)\<lparr>base := Some sealed_db\<rparr>"
  have c: "?c = expired_credential" "cred_binding_ref expired_credential = ''bind_1''"
    by (simp_all add: expired_credential_def)
  have kind: "isCredentialAttentionError (Some (UpstreamError ErrorExpiredCredential))"
    "classifyCredentialStatus (UpstreamError ErrorExpiredCredential) = ''expired''"
    by (simp_all add: isCredentialAttentionError_def IsErrorKind_def classifyCredentialStatus_def)
  have att: "attention_credential rejecting_env ?c sample_blob ''stoken'' sealed_credential = Inr expired_credential"
    by (simp add: attention_credential_def Let_def expired_credential_def)
  have "upsert cred_binding_ref save_columns expired_credential [sealed_credential] = [expired_credential]"
    by (simp add: upsert_def save_columns_def expired_credential_def)
  then have save: "Save_credential expired_credential ?w = (Inr (), ?w\<lparr>db := expired_db\<rparr>)"
    using expired_db_facts by (simp add: Save_credential_def effect_simps initial_world_def store_ok_def)
  have inv: "InvalidateBinding sample_lifecycle sample_chance b (?w\<lparr>db := expired_db\<rparr>) = (Inr (), ?w\<lparr>db := expired_db\<rparr>)" for b
    using expired_db_facts sealed_db_ok by (intro InvalidateBinding_nothing [of _ sealed_db expired_db]) auto
  have "saveAttentionAndInvalidateArtifacts rejecting_env sample_chance ?c sample_blob ''stoken'' (initial_world sealed_db) =
     (Inr (), initial_world expired_db)"
    using att save inv c
    by (simp add: saveAttentionAndInvalidateArtifacts_def transaction_def effect_simps GetByBindingRefForUpdate_def
        getByBindingRef_credential_def initial_world_def)
  then show ?thesis
    using sample_blob_opens kind expired_db_facts(3)
    by (simp add: RefreshCredential_def getCredential_def GetByAccountKey_credential_def effect_simps
        prepareCredentialReencryption_def ListByAccountKey_profile_def after_refresh_def Let_def)
qed

lemma RefreshCredential_outcome_witness:
  "\<exists>c'. credential_of ''bind_1'' expired_db = Some c' \<and> cred_account_key c' = ''acct_1'' \<and>
     DecryptString sample_cipher (Some (file_keyring sample_key_file)) (cred_blob c') = Inr ''stoken''"
proof -
  from sample_refresh obtain out where run: "RefreshCredential rejecting_env sample_draws ''acct_1''
      (initial_world sealed_db) = (Inr out, initial_world expired_db)" by blast
  from RefreshCredential_outcome [OF run, of sample_key_file] sample_blob_opens
  show ?thesis by (auto simp: sealed_db_ok credential_of_def expired_db_def split: if_splits)
qed

end
