(* ===== verification/Mihomo_Views.thy ===== *)
theory Mihomo_Views
  imports Mihomo_Ledger Mihomo_Status
begin

text \<open>
  The messages of the services and their translation from and to the domain types:
  \<open>internal/service/platform_v2_view.go\<close>, \<open>platform_service_view.go\<close> and the helpers of
  \<open>platform_control_service.go\<close>.  JSON and the name of an enum number without a name are the
  libraries' and a record of functions here.  \<open>updated_at\<close> of an operation is not modelled.
\<close>

section \<open>Enums of the contract\<close>

datatype operation_kind =
    OPERATION_KIND_UNSPECIFIED
  | OPERATION_KIND_BIND_CREDENTIAL
  | OPERATION_KIND_REPLACE_CREDENTIAL
  | OPERATION_KIND_REFRESH_CREDENTIAL
  | OPERATION_KIND_DELETE_CREDENTIAL
  | OPERATION_KIND_APPLY_AUTHORIZATION_FENCE
  | OPERATION_KIND_SET_PRIMARY_PROFILE
  | Unnamed_Kind int

datatype operation_state =
    OPERATION_STATE_UNSPECIFIED
  | OPERATION_STATE_PENDING
  | OPERATION_STATE_SUCCEEDED
  | OPERATION_STATE_FAILED
  | OPERATION_STATE_NOT_RECEIVED
  | OPERATION_STATE_FAILED_INPUT_REQUIRED

datatype proto_credential_status =
    CREDENTIAL_STATUS_UNSPECIFIED
  | CREDENTIAL_STATUS_ACTIVE
  | CREDENTIAL_STATUS_EXPIRED
  | CREDENTIAL_STATUS_INVALID
  | CREDENTIAL_STATUS_CHALLENGE_REQUIRED

section \<open>Messages\<close>

record operation_message =
  om_operation_id :: string
  om_kind :: operation_kind
  om_binding_ref :: string
  om_pre_generation :: u64
  om_target_generation :: u64
  om_request_fingerprint :: string

record proto_profile =
  pp_profile_ref :: string
  pp_account_key :: string
  pp_game_biz :: string
  pp_region :: string
  pp_player_id :: string
  pp_nickname :: string
  pp_level :: int
  pp_is_default :: bool

record profile_snapshot =
  ps_profiles :: "proto_profile list"
  ps_complete :: bool
  ps_revision :: u64
  ps_observed_revision :: u64

record stored_snapshot = profile_snapshot +
  ss_last_validated_at :: "instant option"
  ss_last_refreshed_at :: "instant option"

record result_message =
  rm_operation :: operation_message
  rm_state :: operation_state
  rm_reason_code :: string
  rm_account_key :: string
  rm_credential_status :: proto_credential_status
  rm_snapshot :: profile_snapshot
  rm_last_validated_at :: "instant option"
  rm_last_refreshed_at :: "instant option"

record binding_state =
  bs_exists :: bool
  bs_binding_ref :: string
  bs_account_key :: string
  bs_generation :: u64
  bs_status :: proto_credential_status
  bs_snapshot :: "profile_snapshot option"
  bs_last_validated_at :: "instant option"
  bs_last_refreshed_at :: "instant option"

record device_summary =
  ds_device_ref :: string
  ds_device_name :: string
  ds_is_valid :: bool
  ds_last_seen_at :: "instant option"

record credential_payload =
  cp_cookie_bundle :: string
  cp_device_id :: string
  cp_device_fp :: string
  cp_device_name :: string
  cp_region_hint :: string

text \<open>The libraries: the name of an unnamed enum number, \<open>json.Marshal\<close> of a snapshot, and
  \<open>json.Unmarshal\<close>, which may have set some fields when it fails.\<close>

record wire_codec =
  wc_unnamed_kind :: "int \<Rightarrow> string"
  wc_write_snapshot :: "stored_snapshot \<Rightarrow> string option"
  wc_read_snapshot :: "string \<Rightarrow> stored_snapshot \<times> bool"
  wc_read_payload :: "string \<Rightarrow> credential_payload option"

section \<open>Views\<close>

definition named_kinds :: "(string \<times> operation_kind) list" where
  "named_kinds = [
     (''OPERATION_KIND_UNSPECIFIED'', OPERATION_KIND_UNSPECIFIED),
     (''OPERATION_KIND_BIND_CREDENTIAL'', OPERATION_KIND_BIND_CREDENTIAL),
     (''OPERATION_KIND_REPLACE_CREDENTIAL'', OPERATION_KIND_REPLACE_CREDENTIAL),
     (''OPERATION_KIND_REFRESH_CREDENTIAL'', OPERATION_KIND_REFRESH_CREDENTIAL),
     (''OPERATION_KIND_DELETE_CREDENTIAL'', OPERATION_KIND_DELETE_CREDENTIAL),
     (''OPERATION_KIND_APPLY_AUTHORIZATION_FENCE'', OPERATION_KIND_APPLY_AUTHORIZATION_FENCE),
     (''OPERATION_KIND_SET_PRIMARY_PROFILE'', OPERATION_KIND_SET_PRIMARY_PROFILE)]"

text \<open>\<open>OperationKind.String\<close> and, back, the lookup in \<open>OperationKind_value\<close>.\<close>

fun kind_string :: "wire_codec \<Rightarrow> operation_kind \<Rightarrow> string" where
  "kind_string codec (Unnamed_Kind n) = wc_unnamed_kind codec n"
| "kind_string codec kind = (case find (\<lambda>e. snd e = kind) named_kinds of Some e \<Rightarrow> fst e | None \<Rightarrow> '''')"

definition operationKind :: "string \<Rightarrow> operation_kind" where
  "operationKind value = (case map_of named_kinds value of
     Some kind \<Rightarrow> kind | None \<Rightarrow> OPERATION_KIND_UNSPECIFIED)"

definition operationState :: "string \<Rightarrow> operation_state" where
  "operationState value =
     (if value = ''pending'' then OPERATION_STATE_PENDING
      else if value = ''succeeded'' then OPERATION_STATE_SUCCEEDED
      else if value = ''failed'' then OPERATION_STATE_FAILED
      else if value = ''not_received'' then OPERATION_STATE_NOT_RECEIVED
      else if value = ''failed_input_required'' then OPERATION_STATE_FAILED_INPUT_REQUIRED
      else OPERATION_STATE_UNSPECIFIED)"

definition toCredentialStatus :: "credential_status \<Rightarrow> proto_credential_status" where
  "toCredentialStatus status = (case status of
       CredentialStatusActive \<Rightarrow> CREDENTIAL_STATUS_ACTIVE
     | CredentialStatusExpired \<Rightarrow> CREDENTIAL_STATUS_EXPIRED
     | CredentialStatusInvalid \<Rightarrow> CREDENTIAL_STATUS_INVALID
     | CredentialStatusChallengeRequired \<Rightarrow> CREDENTIAL_STATUS_CHALLENGE_REQUIRED
     | CredentialStatusUnspecified \<Rightarrow> CREDENTIAL_STATUS_UNSPECIFIED)"

definition credential_status_string :: "credential_status \<Rightarrow> string" where
  "credential_status_string status = (case status of
       CredentialStatusActive \<Rightarrow> ''active''
     | CredentialStatusExpired \<Rightarrow> ''expired''
     | CredentialStatusInvalid \<Rightarrow> ''invalid''
     | CredentialStatusChallengeRequired \<Rightarrow> ''challenge_required''
     | CredentialStatusUnspecified \<Rightarrow> ''unspecified'')"

definition view_profile :: "profile_summary \<Rightarrow> proto_profile" where
  "view_profile p = \<lparr>pp_profile_ref = sum_profile_ref p, pp_account_key = sum_account_key p,
     pp_game_biz = sum_game_biz p, pp_region = sum_region p, pp_player_id = sum_player_id p,
     pp_nickname = sum_nickname p, pp_level = sum_level p, pp_is_default = sum_is_default p\<rparr>"

definition profileSummaries :: "profile_summary list \<Rightarrow> proto_profile list" where
  "profileSummaries ps = map view_profile ps"

definition toProfileSnapshot :: "profile_summary list \<Rightarrow> bool \<Rightarrow> u64 \<Rightarrow> u64 \<Rightarrow> profile_snapshot" where
  "toProfileSnapshot ps complete revision observedRevision = \<lparr>ps_profiles = profileSummaries ps,
     ps_complete = complete, ps_revision = revision, ps_observed_revision = observedRevision\<rparr>"

definition storedSnapshotFromSummary :: "credential_summary \<Rightarrow> stored_snapshot" where
  "storedSnapshotFromSummary summary = \<lparr>ps_profiles = profileSummaries (cs_profiles summary),
     ps_complete = cs_snapshot_complete summary, ps_revision = cs_profile_revision summary,
     ps_observed_revision = cs_observed_revision summary,
     ss_last_validated_at = cs_last_validated_at summary, ss_last_refreshed_at = cs_last_refreshed_at summary\<rparr>"

definition empty_snapshot :: profile_snapshot where
  "empty_snapshot = \<lparr>ps_profiles = [], ps_complete = False, ps_revision = 0, ps_observed_revision = 0\<rparr>"

definition toOperationResult :: "wire_codec \<Rightarrow> operation_result option \<Rightarrow> result_message option" where
  "toOperationResult codec result = map_option (\<lambda>r.
     let (stored, ok) = wc_read_snapshot codec (res_snapshot_json r);
         operation = res_operation r in
     \<lparr>rm_operation = \<lparr>om_operation_id = op_operation_id operation, om_kind = operationKind (op_kind operation),
        om_binding_ref = op_binding_ref operation, om_pre_generation = op_pre_generation operation,
        om_target_generation = op_target_generation operation,
        om_request_fingerprint = op_request_fingerprint operation\<rparr>,
      rm_state = operationState (res_state r), rm_reason_code = res_reason_code r,
      rm_account_key = res_account_key r,
      rm_credential_status = toCredentialStatus (credentialStatusFromStorage (res_status r)),
      rm_snapshot = (if ok then profile_snapshot.truncate stored else empty_snapshot),
      rm_last_validated_at = ss_last_validated_at stored,
      rm_last_refreshed_at = ss_last_refreshed_at stored\<rparr>) result"

definition toBindingState :: "string \<Rightarrow> credential_summary \<Rightarrow> binding_state" where
  "toBindingState bindingRef summary = \<lparr>bs_exists = True, bs_binding_ref = bindingRef,
     bs_account_key = cs_account_key summary, bs_generation = cs_generation summary,
     bs_status = toCredentialStatus (cs_status summary),
     bs_snapshot = Some (toProfileSnapshot (cs_profiles summary) (cs_snapshot_complete summary)
       (cs_profile_revision summary) (cs_observed_revision summary)),
     bs_last_validated_at = cs_last_validated_at summary, bs_last_refreshed_at = cs_last_refreshed_at summary\<rparr>"

definition derefString :: "string option \<Rightarrow> string" where
  "derefString value = (case value of None \<Rightarrow> '''' | Some s \<Rightarrow> s)"

definition toDeviceSummary :: "device \<Rightarrow> device_summary" where
  "toDeviceSummary device = \<lparr>ds_device_ref = dev_device_ref device,
     ds_device_name = derefString (dev_device_name device), ds_is_valid = dev_is_valid device,
     ds_last_seen_at = dev_last_seen_at device\<rparr>"

section \<open>Requests\<close>

definition operationFromProto :: "wire_codec \<Rightarrow> operation_message \<Rightarrow> merror + operation_ref" where
  "operationFromProto codec operation =
     (if om_operation_id operation = '''' \<or> om_binding_ref operation = ''''
         \<or> om_request_fingerprint operation = '''' \<or> om_kind operation = OPERATION_KIND_UNSPECIFIED
      then Inl (StatusError InvalidArgument)
      else Inr \<lparr>op_operation_id = om_operation_id operation, op_kind = kind_string codec (om_kind operation),
        op_binding_ref = om_binding_ref operation, op_pre_generation = om_pre_generation operation,
        op_target_generation = om_target_generation operation,
        op_request_fingerprint = om_request_fingerprint operation\<rparr>)"

definition operationFingerprint :: "wire_codec \<Rightarrow> (string \<Rightarrow> string) \<Rightarrow> operation_message option \<Rightarrow> string" where
  "operationFingerprint codec sha256 operation = (case operation of
       None \<Rightarrow> ''''
     | Some m \<Rightarrow> Fingerprint sha256 (kind_string codec (om_kind m)) (om_binding_ref m)
         (om_pre_generation m) (om_target_generation m))"

definition decodeCredentialPayload :: "wire_codec \<Rightarrow> string \<Rightarrow> merror + credential_payload" where
  "decodeCredentialPayload codec raw = (case wc_read_payload codec raw of
       None \<Rightarrow> Inl (StatusError InvalidArgument)
     | Some payload \<Rightarrow>
         if cp_cookie_bundle payload = '''' \<or> cp_device_id payload = '''' \<or> cp_device_fp payload = ''''
         then Inl (StatusError InvalidArgument) else Inr payload)"

definition credentialBindInput :: "string \<Rightarrow> u64 \<Rightarrow> credential_payload \<Rightarrow> bind_input" where
  "credentialBindInput bindingRef generation payload = \<lparr>bin_binding_ref = bindingRef,
     bin_generation = generation, bin_cookie_bundle = cp_cookie_bundle payload,
     bin_device_id = cp_device_id payload, bin_device_fp = cp_device_fp payload,
     bin_device_name = cp_device_name payload, bin_region_hint = cp_region_hint payload\<rparr>"

definition no_operation :: operation_ref where
  "no_operation = \<lparr>op_operation_id = '''', op_kind = '''', op_binding_ref = '''', op_pre_generation = 0,
     op_target_generation = 0, op_request_fingerprint = ''''\<rparr>"

definition succeeded_result :: "string \<Rightarrow> string \<Rightarrow> string \<Rightarrow> operation_result" where
  "succeeded_result accountKey status snapshotJSON = \<lparr>res_operation = no_operation,
     res_state = ''succeeded'', res_reason_code = '''', res_account_key = accountKey, res_status = status,
     res_snapshot_json = snapshotJSON, res_execution_token = '''', res_lease_expires_at = 0\<rparr>"

definition successfulDeleteOperationResult :: "string \<Rightarrow> operation_result" where
  "successfulDeleteOperationResult accountKey = succeeded_result accountKey '''' ''{}''"

definition successfulOperationResult :: "wire_codec \<Rightarrow> credential_summary \<Rightarrow> merror + operation_result" where
  "successfulOperationResult codec summary =
     (case wc_write_snapshot codec (storedSnapshotFromSummary summary) of
        None \<Rightarrow> Inl (OtherError ''json'')
      | Some snapshot \<Rightarrow> Inr (succeeded_result (cs_account_key summary)
          (credential_status_string (cs_status summary)) snapshot))"

section \<open>Round trips\<close>

lemma operationKind_string: "operationKind (kind_string codec kind) = kind \<or> (\<exists>n. kind = Unnamed_Kind n)"
  by (cases kind) (simp_all add: operationKind_def named_kinds_def)

lemma kind_string_injective:
  "kind_string codec k = kind_string codec k' \<Longrightarrow> (\<And>n. k \<noteq> Unnamed_Kind n) \<Longrightarrow>
   (\<And>n. k' \<noteq> Unnamed_Kind n) \<Longrightarrow> k = k'"
  using operationKind_string [of codec k] operationKind_string [of codec k'] by metis

lemma status_roundtrip: "credentialStatusFromStorage (credential_status_string s) = s"
  by (cases s) (simp_all add: credential_status_string_def credentialStatusFromStorage_def)

end
