(* ===== verification/Mihomo_Control.thy ===== *)
theory Mihomo_Control
  imports Mihomo_Views
begin

text \<open>
  The control service: \<open>internal/service/platform_control_service.go\<close>.  Every mutation is authorized
  against the ticket and the digest of its own request, then runs as one operation of the ledger.
  Rejected requests do not reach the ledger; what a mutation writes commits together with the
  operation's result.
\<close>

section \<open>Service and requests\<close>

record control_service =
  ct_env :: mihomo_env
  ct_codec :: wire_codec
  ct_fences_configured :: bool

text \<open>What one call draws: the clock and the random tokens of the ledger, the chances of the
  invalidation, the instant written with a grant invalidation, and the draws of the use cases.\<close>

record operation_draws =
  od_now :: instant
  od_token :: string
  od_new_token :: string
  od_chance :: chance
  od_invalidated_at :: instant
  od_draws :: draws

record fence_request =
  fr_consumer_principal :: string
  fr_minimum_grant_version :: u64
  fr_minimum_owner_epoch :: u64
  fr_minimum_consumer_epoch :: u64
  fr_minimum_entry_epoch :: u64

record primary_request =
  pr_account_key :: string
  pr_profile_ref :: string
  pr_expected_revision :: u64

definition authorizationFenceFingerprint ::
    "wire_codec \<Rightarrow> (string \<Rightarrow> string) \<Rightarrow> operation_message option \<Rightarrow> fence_request \<Rightarrow> string" where
  "authorizationFenceFingerprint codec sha256 operation request = (case operation of
       None \<Rightarrow> ''''
     | Some m \<Rightarrow> AuthorizationFenceFingerprint sha256 (kind_string codec (om_kind m)) (om_binding_ref m)
         (fr_consumer_principal request) (om_pre_generation m) (fr_minimum_grant_version request)
         (fr_minimum_owner_epoch request) (fr_minimum_consumer_epoch request) (fr_minimum_entry_epoch request))"

definition primaryProfileFingerprint ::
    "wire_codec \<Rightarrow> (string \<Rightarrow> string) \<Rightarrow> operation_message option \<Rightarrow> primary_request \<Rightarrow> string" where
  "primaryProfileFingerprint codec sha256 operation request = (case operation of
       None \<Rightarrow> ''''
     | Some m \<Rightarrow> PrimaryProfileFingerprint sha256 (kind_string codec (om_kind m)) (om_binding_ref m)
         (pr_profile_ref request) (om_pre_generation m) (pr_expected_revision request))"

section \<open>Authorization\<close>

definition matches_ticket :: "service_ticket_claims \<Rightarrow> operation_ref \<Rightarrow> string \<Rightarrow> bool" where
  "matches_ticket claims operation accountKey \<longleftrightarrow>
     tc_binding_ref claims = op_binding_ref operation \<and>
     tc_operation_id claims \<noteq> '''' \<and> tc_operation_id claims = op_operation_id operation \<and>
     tc_credential_generation claims = op_pre_generation operation \<and>
     (accountKey \<noteq> '''' \<longrightarrow> tc_account_key claims = accountKey)"

definition authorizeOperation ::
    "wire_codec \<Rightarrow> 'k request_context \<Rightarrow> operation_message option \<Rightarrow> operation_kind \<Rightarrow> string \<Rightarrow> string \<Rightarrow> string
      \<Rightarrow> (operation_ref \<times> service_ticket_claims) meff" where
  "authorizeOperation codec ctx request expectedKind action accountKey expectedFingerprint =
     (case request of
        None \<Rightarrow> raise (StatusError InvalidArgument)
      | Some m \<Rightarrow>
          if om_kind m \<noteq> expectedKind then raise (StatusError InvalidArgument)
          else andThen (lift_result (operationFromProto codec m)) (\<lambda>operation.
            if expectedFingerprint = '''' \<or> om_request_fingerprint m \<noteq> expectedFingerprint
            then raise (StatusError InvalidArgument)
            else andThen (authorizeTicketActionForScope ctx action True
                   (expectedKind \<noteq> OPERATION_KIND_SET_PRIMARY_PROFILE)) (\<lambda>claims.
              if \<not> matches_ticket claims operation accountKey then raise (StatusError PermissionDenied)
              else return (operation, claims))))"

section \<open>Mutations\<close>

definition tolerate_pending :: "unit meff \<Rightarrow> unit meff" where
  "tolerate_pending m = andThen (attempt m) (\<lambda>r. case r of
     Inr _ \<Rightarrow> return ()
   | Inl err \<Rightarrow> if is_error err ErrArtifactRevocationPending then return () else raise err)"

definition conflict_aborts :: "merror \<Rightarrow> merror" where
  "conflict_aborts err =
     (if is_error err ErrCredentialGenerationConflict then StatusError Aborted else err)"

definition advanceGeneration :: "mihomo_env \<Rightarrow> chance \<Rightarrow> operation_ref \<Rightarrow> string \<Rightarrow> credential option meff" where
  "advanceGeneration env ch operation accountKey =
     andThen (GetByBindingRef_credential (op_binding_ref operation)) (\<lambda>found.
     case found of
       None \<Rightarrow> raise (StatusError NotFound)
     | Some credential \<Rightarrow>
         let account = (if accountKey = '''' then cred_account_key credential else accountKey) in
         if cred_account_key credential \<noteq> account then raise (StatusError PermissionDenied)
         else andThen (map_error conflict_aborts (AdvanceGeneration (op_binding_ref operation) account
                (op_pre_generation operation) (op_target_generation operation))) (\<lambda>updated.
           andThen (tolerate_pending (InvalidateBinding (env_lifecycle env) ch (op_binding_ref operation))) (\<lambda>_.
           return updated)))"

text \<open>\<open>return successfulOperationResult(summary)\<close>.\<close>

definition succeed_with :: "wire_codec \<Rightarrow> credential_summary \<Rightarrow> operation_result option meff" where
  "succeed_with codec summary =
     andThen (lift_result (successfulOperationResult codec summary)) (\<lambda>result. return (Some result))"

definition bind_mutation ::
    "control_service \<Rightarrow> operation_draws \<Rightarrow> operation_ref \<Rightarrow> service_ticket_claims \<Rightarrow> credential_payload
      \<Rightarrow> operation_result option meff" where
  "bind_mutation s od operation claims payload =
     (if op_pre_generation operation \<noteq> 0 \<or> op_target_generation operation \<noteq> 1
      then raise (StatusError InvalidArgument)
      else andThen (map_error mapUsecaseError (BindCredentialIfAbsent (ct_env s) (od_draws od)
             (credentialBindInput (tc_binding_ref claims) (op_target_generation operation) payload))) (\<lambda>bound.
        andThen (map_error mapUsecaseError (GetCredentialSummary (bout_account_key bound))) (\<lambda>summary.
        succeed_with (ct_codec s) summary)))"

definition replace_mutation ::
    "control_service \<Rightarrow> operation_draws \<Rightarrow> operation_ref \<Rightarrow> service_ticket_claims \<Rightarrow> string \<Rightarrow> credential_payload
      \<Rightarrow> operation_result option meff" where
  "replace_mutation s od operation claims accountKey payload =
     andThen (advanceGeneration (ct_env s) (od_chance od) operation accountKey) (\<lambda>_.
     andThen (map_error mapUsecaseError (UpdateCredentialWithScope (ct_env s) (od_draws od) (toScopeGuardMust claims)
       accountKey (credentialBindInput (tc_binding_ref claims) (op_target_generation operation) payload)))
     (\<lambda>summary. succeed_with (ct_codec s) summary))"

definition refresh_mutation ::
    "control_service \<Rightarrow> operation_draws \<Rightarrow> operation_ref \<Rightarrow> string \<Rightarrow> operation_result option meff" where
  "refresh_mutation s od operation accountKey =
     andThen (advanceGeneration (ct_env s) (od_chance od) operation accountKey) (\<lambda>_.
     andThen (map_error mapUsecaseError (RefreshCredential (ct_env s) (od_draws od) accountKey)) (\<lambda>_.
     andThen (GetCredentialSummary accountKey) (\<lambda>summary. succeed_with (ct_codec s) summary)))"

definition delete_mutation ::
    "control_service \<Rightarrow> operation_draws \<Rightarrow> operation_ref \<Rightarrow> service_ticket_claims \<Rightarrow> string
      \<Rightarrow> operation_result option meff" where
  "delete_mutation s od operation claims accountKey =
     andThen (attempt (advanceGeneration (ct_env s) (od_chance od) operation accountKey)) (\<lambda>r.
     case r of
       Inl err \<Rightarrow> if status_code err = NotFound
                  then return (Some (successfulDeleteOperationResult accountKey)) else raise err
     | Inr _ \<Rightarrow>
         andThen (map_error mapUsecaseError (DeleteCredentialWithScope (ct_env s) (toScopeGuardMust claims) accountKey)) (\<lambda>_.
         return (Some (successfulDeleteOperationResult accountKey))))"

definition requested_fence :: "operation_ref \<Rightarrow> fence_request \<Rightarrow> authorization_fence" where
  "requested_fence operation request = \<lparr>fence_binding_ref = op_binding_ref operation,
     fence_consumer_principal = fr_consumer_principal request,
     fence_minimum_grant_version = fr_minimum_grant_version request,
     fence_minimum_owner_epoch = fr_minimum_owner_epoch request,
     fence_minimum_consumer_epoch = fr_minimum_consumer_epoch request,
     fence_minimum_entry_epoch = fr_minimum_entry_epoch request\<rparr>"

definition raise_minima ::
    "control_service \<Rightarrow> operation_draws \<Rightarrow> operation_ref \<Rightarrow> fence_request \<Rightarrow> credential
      \<Rightarrow> operation_result option meff" where
  "raise_minima s od operation request credential =
     andThen (Upsert_fence (requested_fence operation request)) (\<lambda>_.
     andThen (Upsert_invalidation (od_invalidated_at od) (op_binding_ref operation)
       (fr_consumer_principal request) (fr_minimum_grant_version request)) (\<lambda>_.
     andThen (tolerate_pending (InvalidateBinding (env_lifecycle (ct_env s)) (od_chance od)
       (op_binding_ref operation))) (\<lambda>_.
     andThen (GetCredentialSummary (cred_account_key credential)) (\<lambda>summary.
     succeed_with (ct_codec s) summary))))"

definition fence_mutation ::
    "control_service \<Rightarrow> operation_draws \<Rightarrow> operation_ref \<Rightarrow> fence_request \<Rightarrow> operation_result option meff" where
  "fence_mutation s od operation request =
     (if \<not> ct_fences_configured s then raise (StatusError FailedPrecondition)
      else andThen (GetByBindingRefForUpdate (op_binding_ref operation)) (\<lambda>found.
        case found of
          None \<Rightarrow> raise (StatusError Aborted)
        | Some credential \<Rightarrow>
            if cred_generation credential \<noteq> op_pre_generation operation then raise (StatusError Aborted)
            else raise_minima s od operation request credential))"

definition primary_mutation ::
    "control_service \<Rightarrow> operation_ref \<Rightarrow> service_ticket_claims \<Rightarrow> primary_request
      \<Rightarrow> operation_result option meff" where
  "primary_mutation s operation claims request =
     andThen (map_error conflict_aborts (AdvanceProfileRevision (op_binding_ref operation)
       (pr_account_key request) (op_pre_generation operation) (pr_expected_revision request))) (\<lambda>_.
     andThen (map_error mapUsecaseError (SetPrimaryProfileByRef (toScopeGuardMust claims)
       (pr_account_key request) (pr_profile_ref request))) (\<lambda>_.
     andThen (map_error mapUsecaseError (GetCredentialSummary (pr_account_key request))) (\<lambda>summary.
     succeed_with (ct_codec s) summary)))"

section \<open>Handlers\<close>

definition mapOperationError :: "merror \<Rightarrow> merror" where
  "mapOperationError err =
     (if status_code err \<noteq> Code_Unknown then err
      else if is_error err ErrOperationConflict then StatusError AlreadyExists
      else if is_error err ErrOperationState \<or> is_error err ErrOperationRequired
      then StatusError FailedPrecondition
      else mapUsecaseError err)"

text \<open>The end of every mutating handler: execute, map the error, answer with the result.\<close>

definition execute_mutation ::
    "control_service \<Rightarrow> operation_draws \<Rightarrow> operation_ref \<Rightarrow> operation_result option meff
      \<Rightarrow> result_message option meff" where
  "execute_mutation s od operation mutation =
     andThen (map_error mapOperationError
       (Execute (od_now od) (od_token od) (od_new_token od) operation mutation)) (\<lambda>result.
     return (toOperationResult (ct_codec s) result))"

abbreviation service_sha256 :: "control_service \<Rightarrow> string \<Rightarrow> string" where
  "service_sha256 s \<equiv> cl_sha256 (env_cipher (ct_env s))"

definition BindCredential_rpc ::
    "control_service \<Rightarrow> 'k request_context \<Rightarrow> operation_draws \<Rightarrow> operation_message option \<Rightarrow> string
      \<Rightarrow> result_message option meff" where
  "BindCredential_rpc s ctx od operation payloadJSON =
     andThen (authorizeOperation (ct_codec s) ctx operation OPERATION_KIND_BIND_CREDENTIAL MihomoCredentialBind ''''
       (operationFingerprint (ct_codec s) (service_sha256 s) operation)) (\<lambda>(ref, claims).
     andThen (lift_result (decodeCredentialPayload (ct_codec s) payloadJSON)) (\<lambda>payload.
     execute_mutation s od ref (bind_mutation s od ref claims payload)))"

definition ReplaceCredential_rpc ::
    "control_service \<Rightarrow> 'k request_context \<Rightarrow> operation_draws \<Rightarrow> operation_message option \<Rightarrow> string \<Rightarrow> string
      \<Rightarrow> result_message option meff" where
  "ReplaceCredential_rpc s ctx od operation accountKey payloadJSON =
     andThen (authorizeOperation (ct_codec s) ctx operation OPERATION_KIND_REPLACE_CREDENTIAL MihomoCredentialUpdate
       accountKey (operationFingerprint (ct_codec s) (service_sha256 s) operation)) (\<lambda>(ref, claims).
     andThen (lift_result (decodeCredentialPayload (ct_codec s) payloadJSON)) (\<lambda>payload.
     execute_mutation s od ref (replace_mutation s od ref claims accountKey payload)))"

definition RefreshCredential_rpc ::
    "control_service \<Rightarrow> 'k request_context \<Rightarrow> operation_draws \<Rightarrow> operation_message option \<Rightarrow> string
      \<Rightarrow> result_message option meff" where
  "RefreshCredential_rpc s ctx od operation accountKey =
     andThen (authorizeOperation (ct_codec s) ctx operation OPERATION_KIND_REFRESH_CREDENTIAL MihomoCredentialRefresh
       accountKey (operationFingerprint (ct_codec s) (service_sha256 s) operation)) (\<lambda>(ref, claims).
     execute_mutation s od ref (refresh_mutation s od ref accountKey))"

definition DeleteCredential_rpc ::
    "control_service \<Rightarrow> 'k request_context \<Rightarrow> operation_draws \<Rightarrow> operation_message option \<Rightarrow> string
      \<Rightarrow> result_message option meff" where
  "DeleteCredential_rpc s ctx od operation accountKey =
     andThen (authorizeOperation (ct_codec s) ctx operation OPERATION_KIND_DELETE_CREDENTIAL MihomoCredentialDelete
       accountKey (operationFingerprint (ct_codec s) (service_sha256 s) operation)) (\<lambda>(ref, claims).
     execute_mutation s od ref (delete_mutation s od ref claims accountKey))"

definition ApplyAuthorizationFence_rpc ::
    "control_service \<Rightarrow> 'k request_context \<Rightarrow> operation_draws \<Rightarrow> operation_message option \<Rightarrow> fence_request
      \<Rightarrow> result_message option meff" where
  "ApplyAuthorizationFence_rpc s ctx od operation request =
     andThen (authorizeOperation (ct_codec s) ctx operation OPERATION_KIND_APPLY_AUTHORIZATION_FENCE
       MihomoAuthorizationFenceApply ''''
       (authorizationFenceFingerprint (ct_codec s) (service_sha256 s) operation request)) (\<lambda>(ref, claims).
     if fr_consumer_principal request = '''' \<or> fr_minimum_grant_version request = 0
     then raise (StatusError InvalidArgument)
     else execute_mutation s od ref (fence_mutation s od ref request))"

definition SetPrimaryProfile_rpc ::
    "control_service \<Rightarrow> 'k request_context \<Rightarrow> operation_draws \<Rightarrow> operation_message option \<Rightarrow> primary_request
      \<Rightarrow> result_message option meff" where
  "SetPrimaryProfile_rpc s ctx od operation request =
     andThen (authorizeOperation (ct_codec s) ctx operation OPERATION_KIND_SET_PRIMARY_PROFILE MihomoProfileWrite
       (pr_account_key request)
       (primaryProfileFingerprint (ct_codec s) (service_sha256 s) operation request)) (\<lambda>(ref, claims).
     if pr_profile_ref request = '''' then raise (StatusError InvalidArgument)
     else execute_mutation s od ref (primary_mutation s ref claims request))"

definition GetOperation_rpc ::
    "control_service \<Rightarrow> 'k request_context \<Rightarrow> string \<Rightarrow> result_message option meff" where
  "GetOperation_rpc s ctx operationID =
     (if operationID = '''' then raise (StatusError InvalidArgument)
      else andThen (authorizeTicketAction ctx MihomoOperationRead True) (\<lambda>claims.
        andThen (map_error mapOperationError (Get_operation_uc operationID)) (\<lambda>result.
        case result of
          None \<Rightarrow> raise (StatusError NotFound)
        | Some r \<Rightarrow>
            if tc_operation_id claims = '''' \<or> tc_operation_id claims \<noteq> operationID
               \<or> op_binding_ref (res_operation r) \<noteq> tc_binding_ref claims
            then raise (StatusError PermissionDenied)
            else return (toOperationResult (ct_codec s) (Some r)))))"

definition ResolveOperation_rpc ::
    "control_service \<Rightarrow> 'k request_context \<Rightarrow> operation_draws \<Rightarrow> operation_message option
      \<Rightarrow> result_message option meff" where
  "ResolveOperation_rpc s ctx od operation =
     andThen (authorizeOperation (ct_codec s) ctx operation
       (case operation of None \<Rightarrow> OPERATION_KIND_UNSPECIFIED | Some m \<Rightarrow> om_kind m) MihomoOperationResolve ''''
       (case operation of None \<Rightarrow> '''' | Some m \<Rightarrow> om_request_fingerprint m)) (\<lambda>(ref, claims).
     andThen (map_error mapOperationError (Resolve (od_now od) (od_token od) (od_new_token od) ref)) (\<lambda>result.
     return (toOperationResult (ct_codec s) result)))"

definition absent_binding :: "string \<Rightarrow> binding_state" where
  "absent_binding bindingRef = \<lparr>bs_exists = False, bs_binding_ref = bindingRef, bs_account_key = '''',
     bs_generation = 0, bs_status = CREDENTIAL_STATUS_UNSPECIFIED, bs_snapshot = None,
     bs_last_validated_at = None, bs_last_refreshed_at = None\<rparr>"

definition GetBindingState_rpc :: "'k request_context \<Rightarrow> string \<Rightarrow> binding_state meff" where
  "GetBindingState_rpc ctx bindingRef =
     (if bindingRef = '''' then raise (StatusError InvalidArgument)
      else andThen (authorizeTicketAction ctx MihomoBindingRead True) (\<lambda>claims.
        if tc_binding_ref claims \<noteq> bindingRef then raise (StatusError PermissionDenied)
        else andThen (map_error mapUsecaseError (GetByBindingRef_credential bindingRef)) (\<lambda>found.
          case found of
            None \<Rightarrow> return (absent_binding bindingRef)
          | Some credential \<Rightarrow>
              if tc_account_key claims \<noteq> '''' \<and> tc_account_key claims \<noteq> cred_account_key credential
              then raise (StatusError PermissionDenied)
              else andThen (map_error mapUsecaseError (GetCredentialSummary (cred_account_key credential)))
                     (\<lambda>summary. return (toBindingState bindingRef summary)))))"

section \<open>The mutations as one interface\<close>

datatype control_mutation =
    Bind_Credential string
  | Replace_Credential string string
  | Refresh_Credential string
  | Delete_Credential string
  | Apply_Fence fence_request
  | Set_Primary primary_request

definition serve ::
    "control_service \<Rightarrow> 'k request_context \<Rightarrow> operation_draws \<Rightarrow> operation_message option \<Rightarrow> control_mutation
      \<Rightarrow> result_message option meff" where
  "serve s ctx od operation request = (case request of
       Bind_Credential payload \<Rightarrow> BindCredential_rpc s ctx od operation payload
     | Replace_Credential accountKey payload \<Rightarrow> ReplaceCredential_rpc s ctx od operation accountKey payload
     | Refresh_Credential accountKey \<Rightarrow> RefreshCredential_rpc s ctx od operation accountKey
     | Delete_Credential accountKey \<Rightarrow> DeleteCredential_rpc s ctx od operation accountKey
     | Apply_Fence fence \<Rightarrow> ApplyAuthorizationFence_rpc s ctx od operation fence
     | Set_Primary primary \<Rightarrow> SetPrimaryProfile_rpc s ctx od operation primary)"

fun mutation_kind :: "control_mutation \<Rightarrow> operation_kind" where
  "mutation_kind (Bind_Credential _) = OPERATION_KIND_BIND_CREDENTIAL"
| "mutation_kind (Replace_Credential _ _) = OPERATION_KIND_REPLACE_CREDENTIAL"
| "mutation_kind (Refresh_Credential _) = OPERATION_KIND_REFRESH_CREDENTIAL"
| "mutation_kind (Delete_Credential _) = OPERATION_KIND_DELETE_CREDENTIAL"
| "mutation_kind (Apply_Fence _) = OPERATION_KIND_APPLY_AUTHORIZATION_FENCE"
| "mutation_kind (Set_Primary _) = OPERATION_KIND_SET_PRIMARY_PROFILE"

fun mutation_action :: "control_mutation \<Rightarrow> string" where
  "mutation_action (Bind_Credential _) = MihomoCredentialBind"
| "mutation_action (Replace_Credential _ _) = MihomoCredentialUpdate"
| "mutation_action (Refresh_Credential _) = MihomoCredentialRefresh"
| "mutation_action (Delete_Credential _) = MihomoCredentialDelete"
| "mutation_action (Apply_Fence _) = MihomoAuthorizationFenceApply"
| "mutation_action (Set_Primary _) = MihomoProfileWrite"

fun mutation_account :: "control_mutation \<Rightarrow> string" where
  "mutation_account (Replace_Credential accountKey _) = accountKey"
| "mutation_account (Refresh_Credential accountKey) = accountKey"
| "mutation_account (Delete_Credential accountKey) = accountKey"
| "mutation_account (Set_Primary primary) = pr_account_key primary"
| "mutation_account _ = ''''"

fun mutation_fingerprint :: "control_service \<Rightarrow> operation_message option \<Rightarrow> control_mutation \<Rightarrow> string" where
  "mutation_fingerprint s operation (Apply_Fence fence) =
     authorizationFenceFingerprint (ct_codec s) (service_sha256 s) operation fence"
| "mutation_fingerprint s operation (Set_Primary primary) =
     primaryProfileFingerprint (ct_codec s) (service_sha256 s) operation primary"
| "mutation_fingerprint s operation _ = operationFingerprint (ct_codec s) (service_sha256 s) operation"

lemmas rpc_defs = BindCredential_rpc_def ReplaceCredential_rpc_def RefreshCredential_rpc_def
  DeleteCredential_rpc_def ApplyAuthorizationFence_rpc_def SetPrimaryProfile_rpc_def
lemmas mutation_defs = bind_mutation_def replace_mutation_def refresh_mutation_def delete_mutation_def
  primary_mutation_def fence_mutation_def raise_minima_def
lemmas control_defs = advanceGeneration_def tolerate_pending_def succeed_with_def

section \<open>What mutations leave alone\<close>

lemma frames_safeguards: "frames safeguards m \<Longrightarrow> frames operations m"
  using frames_comp [of safeguards m fst] by (simp add: safeguards_def)

lemma mutations_frame [keeps_rules, simp]:
  "frames safeguards (bind_mutation s od ref claims payload)"
  "frames safeguards (replace_mutation s od ref claims a payload)"
  "frames safeguards (refresh_mutation s od ref a)"
  "frames safeguards (delete_mutation s od ref claims a)"
  "frames safeguards (primary_mutation s ref claims request)"
  by (auto simp: mutation_defs control_defs BindCredentialIfAbsent_def Let_def intro!: keeps_rules)

lemma fence_mutation_frame: "frames operations (fence_mutation s od ref request)"
proof -
  have "frames operations (InvalidateBinding l ch b)" "frames operations (GetCredentialSummary a)" for l ch b a
    by (rule frames_safeguards, simp)+
  then show ?thesis by (auto simp: fence_mutation_def raise_minima_def control_defs intro!: keeps_rules)
qed

lemma mutations_leave_ledger:
  "leaves_ledger (bind_mutation s od ref claims payload)"
  "leaves_ledger (replace_mutation s od ref claims a payload)"
  "leaves_ledger (refresh_mutation s od ref a)"
  "leaves_ledger (delete_mutation s od ref claims a)"
  "leaves_ledger (primary_mutation s ref claims request)"
  "leaves_ledger (fence_mutation s od ref fence)"
  unfolding leaves_ledger_def by (auto intro!: frames_safeguards fence_mutation_frame)

section \<open>An authorized call is one run of the ledger\<close>

lemma authorize_operation_rules [keeps_rules, simp]:
  "keeps I (authorizeOperation codec ctx m k action a f)"
  "frames g (authorizeOperation codec ctx m k action a f)"
  by (auto simp: authorizeOperation_def intro!: keeps_rules split: option.splits)

lemma authorizeOperation_InrE:
  assumes "authorizeOperation codec ctx request kind action a f w = (Inr (ref, claims), w')"
  obtains m where "request = Some m" "om_kind m = kind" "operationFromProto codec m = Inr ref"
    "f \<noteq> ''''" "om_request_fingerprint m = f" "matches_ticket claims ref a"
    "authorizeTicketActionForScope ctx action True (kind \<noteq> OPERATION_KIND_SET_PRIMARY_PROFILE) w = (Inr claims, w')"
  using assms unfolding authorizeOperation_def
  by (auto elim!: success_elims split: option.splits if_splits)

lemma operationFromProto_Inr:
  assumes "operationFromProto codec m = Inr ref"
  shows "op_operation_id ref = om_operation_id m" "op_binding_ref ref = om_binding_ref m"
    "op_pre_generation ref = om_pre_generation m" "op_kind ref = kind_string codec (om_kind m)"
    "op_target_generation ref = om_target_generation m" "op_request_fingerprint ref = om_request_fingerprint m"
    "om_operation_id m \<noteq> ''''" "om_binding_ref m \<noteq> ''''"
  using assms by (auto simp: operationFromProto_def split: if_splits)

text \<open>A successful call has passed the authorization of its own request, and then ran as one operation
  whose mutation leaves the ledger to it.\<close>

lemma serve_InrE:
  assumes "serve s ctx od operation request w = (Inr out, w')"
  obtains ref claims mutation w1 where
    "authorizeOperation (ct_codec s) ctx operation (mutation_kind request) (mutation_action request)
       (mutation_account request) (mutation_fingerprint s operation request) w = (Inr (ref, claims), w1)"
    "execute_mutation s od ref mutation w1 = (Inr out, w')" "leaves_ledger mutation"
    "\<And>fence. request = Apply_Fence fence \<Longrightarrow> mutation = fence_mutation s od ref fence \<and> fr_consumer_principal fence \<noteq> ''''"
proof (cases request)
  case (Apply_Fence fence)
  with assms that [where mutation = "fence_mutation s od _ fence"] show thesis
    by (auto simp: serve_def rpc_defs mutations_leave_ledger elim!: andThen_InrE raise_InrE split: if_splits)
next
  case (Set_Primary primary)
  with assms that show thesis
    by (auto simp: serve_def rpc_defs mutations_leave_ledger elim!: andThen_InrE raise_InrE split: if_splits)
qed (use assms that in \<open>auto simp: serve_def rpc_defs mutations_leave_ledger
       elim!: andThen_InrE lift_result_InrE\<close>)

lemma execute_mutation_InrE:
  assumes "execute_mutation s od ref mutation w = (Inr out, w')"
  obtains result where "Execute (od_now od) (od_token od) (od_new_token od) ref mutation w = (Inr result, w')"
    "out = toOperationResult (ct_codec s) result"
  using assms by (auto simp: execute_mutation_def elim!: success_elims)

lemma execute_mutation_db:
  "db (snd (execute_mutation s od ref mutation w)) =
   db (snd (Execute (od_now od) (od_token od) (od_new_token od) ref mutation w))"
  by (auto simp: execute_mutation_def effect_simps split: prod.splits sum.splits)

lemma authorization_world:
  assumes "authorizeOperation codec ctx m k action a f w = (r, w')" and "base w = None"
  shows "db w' = db w" "base w' = None"
proof -
  have "frames (\<lambda>d. d) (authorizeOperation codec ctx m k action a f)" by simp
  from framesD [OF this, of w] framesD_base [OF this, of w] assms
  show "db w' = db w" "base w' = None" by simp_all
qed

lemma runs_mutation:
  "leaves_ledger m \<Longrightarrow> \<exists>mutation. leaves_ledger mutation \<and>
     execute_mutation s od ref m w = execute_mutation s od ref mutation w"
  by blast

text \<open>Whatever a call does, it reaches the tables only through one run of the ledger.\<close>

lemma serve_cases:
  assumes w: "base w = None"
  obtains (refused) e w1 where "serve s ctx od operation request w = (Inl e, w1)" "db w1 = db w"
  | (ran) ref claims m mutation w1 where "operation = Some m"
      "operationFromProto (ct_codec s) m = Inr ref" "leaves_ledger mutation"
      "authorizeOperation (ct_codec s) ctx operation (mutation_kind request) (mutation_action request)
         (mutation_account request) (mutation_fingerprint s operation request) w = (Inr (ref, claims), w1)"
      "serve s ctx od operation request w = execute_mutation s od ref mutation w1"
proof -
  let ?auth = "authorizeOperation (ct_codec s) ctx operation (mutation_kind request) (mutation_action request)
         (mutation_account request) (mutation_fingerprint s operation request)"
  obtain r w1 where auth: "?auth w = (r, w1)" by (metis surj_pair)
  note w1 = authorization_world [OF auth w]
  show thesis
  proof (cases r)
    case (Inl e)
    with auth have "serve s ctx od operation request w = (Inl e, w1)"
      by (cases request) (simp_all add: serve_def rpc_defs andThen_def)
    with w1 show thesis by (intro refused)
  next
    case (Inr p)
    obtain ref claims where p: "p = (ref, claims)" by (cases p)
    from auth Inr p obtain m where m: "operation = Some m" "operationFromProto (ct_codec s) m = Inr ref"
      by (auto elim: authorizeOperation_InrE)
    note auth = auth [unfolded Inr p]
    have "(\<exists>e. serve s ctx od operation request w = (Inl e, w1)) \<or>
      (\<exists>mutation. leaves_ledger mutation \<and> serve s ctx od operation request w = execute_mutation s od ref mutation w1)"
      using auth
      by (cases request)
         (simp_all add: serve_def rpc_defs andThen_def lift_result_def raise_def runs_mutation
            mutations_leave_ledger split: sum.splits)
    then show thesis
    proof (elim disjE exE conjE)
      fix e assume "serve s ctx od operation request w = (Inl e, w1)"
      then show thesis using w1(1) by (rule refused)
    next
      fix mutation assume "leaves_ledger mutation"
        "serve s ctx od operation request w = execute_mutation s od ref mutation w1"
      then show thesis by (intro ran [OF m _ auth])
    qed
  qed
qed

section \<open>Control calls as ledger runs\<close>


text \<open>Verification reads; when no statement fails, it leaves the world as it is.\<close>

definition reads_only :: "'a meff \<Rightarrow> bool" where
  "reads_only m \<longleftrightarrow> (\<forall>w. faults w = [] \<longrightarrow> snd (m w) = w)"

lemma reads_only_andThen: "reads_only m \<Longrightarrow> (\<And>x. reads_only (f x)) \<Longrightarrow> reads_only (andThen m f)"
  by (auto simp: reads_only_def effect_simps split: prod.splits sum.splits)

lemma reads_only_rules:
  "reads_only (return x)" "reads_only (raise e)" "reads_only (require c err)" "reads_only (lift_result r)"
  "reads_only (fail_with err')" "reads_only (MinimumVersion b c')" "reads_only (LookupAuthorizationState b c')"
  "c \<Longrightarrow> reads_only m \<Longrightarrow> reads_only (if c then m else m')"
  "\<not> c \<Longrightarrow> reads_only m' \<Longrightarrow> reads_only (if c then m else m')"
  by (auto simp: reads_only_def effect_simps split: option.splits)

lemma reads_only_if: "reads_only m \<Longrightarrow> reads_only m' \<Longrightarrow> reads_only (if c then m else m')"
  by simp

lemma reads_only_case_prod: "(\<And>a b. reads_only (f a b)) \<Longrightarrow> reads_only (case x of (a, b) \<Rightarrow> f a b)"
  by (cases x) simp

lemma VerifyContext_world:
  assumes "VerifyContext lib v now raw aud w = (r, w')" and "faults w = []"
  shows "w' = w"
proof -
  have "reads_only (VerifyContext lib v now raw aud)"
    unfolding VerifyContext_def check_minimum_def check_state_def
    by (intro reads_only_andThen reads_only_case_prod reads_only_if reads_only_rules(1-7))
  with assms show ?thesis by (metis reads_only_def snd_conv)
qed

lemma authorize_world:
  assumes "authorizeOperation codec ctx m k action a f w = (Inr (ref, claims), w')" and w: "faults w = []"
  shows "w' = w"
proof -
  from assms(1) have "serviceTicketClaims ctx w = (Inr claims, w')"
    by (auto elim!: authorizeOperation_InrE authorize_InrE)
  then show ?thesis
    using w by (auto simp: serviceTicketClaims_def elim!: return_InrE verifyIncoming_InrE
        dest: VerifyContext_world split: option.splits)
qed

lemma toOperationResult_Some:
  assumes "toOperationResult codec result = Some msg"
  obtains res where "result = Some res" "rm_state msg = operationState (res_state res)"
proof (cases result)
  case (Some res)
  with assms that show thesis
    by (cases "wc_read_snapshot codec (res_snapshot_json res)") (auto simp: toOperationResult_def Let_def)
qed (use assms in \<open>simp add: toOperationResult_def\<close>)


section \<open>Sample calls\<close>

text \<open>The deletion of a binding that has no credential any more.\<close>

definition sample_codec :: wire_codec where
  "sample_codec = \<lparr>wc_unnamed_kind = (\<lambda>_. ''?''), wc_write_snapshot = (\<lambda>_. Some ''{}''),
     wc_read_snapshot = (\<lambda>_. (\<lparr>ps_profiles = [], ps_complete = False, ps_revision = 0, ps_observed_revision = 0,
       ss_last_validated_at = None, ss_last_refreshed_at = None\<rparr>, True)),
     wc_read_payload = (\<lambda>_. None)\<rparr>"

definition sample_control :: control_service where
  "sample_control = \<lparr>ct_env = sample_env, ct_codec = sample_codec, ct_fences_configured = True\<rparr>"

definition delete_fingerprint :: string where
  "delete_fingerprint = Fingerprint (\<lambda>m. m) ''OPERATION_KIND_DELETE_CREDENTIAL'' ''bind_1'' 1 2"

definition delete_message :: operation_message where
  "delete_message = \<lparr>om_operation_id = ''op-2'', om_kind = OPERATION_KIND_DELETE_CREDENTIAL,
     om_binding_ref = ''bind_1'', om_pre_generation = 1, om_target_generation = 2,
     om_request_fingerprint = delete_fingerprint\<rparr>"

definition delete_ref :: operation_ref where
  "delete_ref = \<lparr>op_operation_id = ''op-2'', op_kind = ''OPERATION_KIND_DELETE_CREDENTIAL'',
     op_binding_ref = ''bind_1'', op_pre_generation = 1, op_target_generation = 2,
     op_request_fingerprint = delete_fingerprint\<rparr>"

definition control_jwt :: jwt_claims where
  "control_jwt = sample_claims\<lparr>jc_actor_type := ''user'', jc_subject := ''user:u1'',
     jc_operation_id := ''op-2'', jc_scopes := [MihomoCredentialDelete]\<rparr>"

definition control_claims :: service_ticket_claims where
  "control_claims = verified_claims TypeControl ''platform-mihomo-service'' control_jwt"

definition incoming_context :: "string request_context" where
  "incoming_context = sample_context\<lparr>rc_library := sample_library\<lparr>jwt_decode := (\<lambda>raw. if raw = ''t''
       then Some (sample_token\<lparr>tok_typ := Some TypeControl, tok_claims := control_jwt\<rparr>) else None)\<rparr>\<rparr>"

definition control_context :: "string request_context" where
  "control_context = incoming_context\<lparr>rc_verified_claims := Some control_claims\<rparr>"

definition sample_op_draws :: operation_draws where
  "sample_op_draws = \<lparr>od_now = 0, od_token = ''t'', od_new_token = ''n'', od_chance = sample_chance,
     od_invalidated_at = 0, od_draws = sample_draws\<rparr>"

lemma sample_control_simps [simp]:
  "ct_env sample_control = sample_env" "ct_codec sample_control = sample_codec"
  "cl_sha256 sample_cipher = (\<lambda>m. m)" "od_now sample_op_draws = 0" "od_token sample_op_draws = ''t''"
  "od_new_token sample_op_draws = ''n''"
  by (simp_all add: sample_control_def sample_cipher_def sample_op_draws_def)

lemma delete_fingerprint_nonempty [simp]: "delete_fingerprint \<noteq> ''''"
  by (simp add: delete_fingerprint_def Fingerprint_def fingerprint_input_def hex_encode_def writeString_def)

lemma sample_authorize:
  "authorizeOperation sample_codec control_context (Some delete_message) OPERATION_KIND_DELETE_CREDENTIAL
     MihomoCredentialDelete ''acct_1'' delete_fingerprint w = (Inr (delete_ref, control_claims), w)"
  by (simp add: authorizeOperation_def operationFromProto_def delete_message_def delete_ref_def named_kinds_def
      authorizeTicketActionForScope_def serviceTicketClaims_def control_context_def effect_simps
      requireControlTicket_def scopedGuard_def toScopeGuard_def RequireAction_def RequireBindingWide_def
      matches_ticket_def control_claims_def verified_claims_def control_jwt_def sample_claims_def)

lemma sample_delete_mutation:
  assumes "faults w = []" "credentials (db w) = []"
  shows "delete_mutation s od delete_ref claims ''acct_1'' w =
    (Inr (Some (successfulDeleteOperationResult ''acct_1'')), w)"
  using assms
  by (simp add: delete_mutation_def advanceGeneration_def GetByBindingRef_credential_def
      getByBindingRef_credential_def effect_simps status_code_def)

definition delete_row :: platform_operation where
  "delete_row = (new_operation_row delete_ref ''t'' operationExecutionLease ''succeeded'')
     \<lparr>row_account_key := ''acct_1''\<rparr>"

definition deleted_db :: mihomo_db where
  "deleted_db = empty_mihomo_db\<lparr>operations := [delete_row]\<rparr>"

lemma sample_delete_execute:
  "Execute 0 ''t'' ''n'' delete_ref (delete_mutation s od delete_ref claims ''acct_1'') (initial_world empty_mihomo_db) =
   (Inr (Some (operationFromRecord delete_row)), initial_world deleted_db)"
proof -
  let ?pending = "new_operation_row delete_ref ''t'' operationExecutionLease ''pending''"
  let ?w1 = "initial_world (empty_mihomo_db\<lparr>operations := [?pending]\<rparr>)"
  have valid: "validateOperationRef delete_ref = None" by (simp add: validateOperationRef_def delete_ref_def)
  have admit: "Admit 0 ''t'' delete_ref (initial_world empty_mihomo_db) = (Inr (Some (operationFromRecord ?pending), True), ?w1)"
    by (simp add: bigint_ok_def Admit_def Let_def transaction_def effect_simps insert_operation_def
        operation_row_ok_new fixed_generation_kinds_def delete_ref_def empty_mihomo_db_def initial_world_def
        operation_states)
  have mut: "delete_mutation s od delete_ref claims ''acct_1'' (?w1\<lparr>base := Some (db ?w1)\<rparr>) =
      (Inr (Some (successfulDeleteOperationResult ''acct_1'')), ?w1\<lparr>base := Some (db ?w1)\<rparr>)"
    by (rule sample_delete_mutation) (simp_all add: empty_mihomo_db_def)
  have "run_admitted delete_ref ''t'' (delete_mutation s od delete_ref claims ''acct_1'') ?w1 =
    (Inr (Some (operationFromRecord delete_row)), initial_world deleted_db)"
    using mut
    by (simp add: bigint_ok_def run_admitted_def transaction_def effect_simps LockPending_def Complete_def
        update_operations_def find_operation_def operation_row_ok_def fixed_generation_kinds_def delete_ref_def
        successfulDeleteOperationResult_def succeeded_result_def delete_row_def deleted_db_def empty_mihomo_db_def
        initial_world_def operation_states is_pending_def new_operation_row_def count_where_def get_operation_def)
  with valid admit show ?thesis by (simp add: Execute_def effect_simps)
qed

lemma sample_serve:
  "serve sample_control control_context sample_op_draws (Some delete_message) (Delete_Credential ''acct_1'')
     (initial_world empty_mihomo_db) =
   (Inr (toOperationResult sample_codec (Some (operationFromRecord delete_row))), initial_world deleted_db)"
proof -
  have "operationFingerprint sample_codec (\<lambda>m. m) (Some delete_message) = delete_fingerprint"
    by (simp add: operationFingerprint_def delete_message_def delete_fingerprint_def named_kinds_def)
  then show ?thesis
    by (simp add: serve_def DeleteCredential_rpc_def andThen_def sample_authorize execute_mutation_def map_error_def
        sample_delete_execute return_def)
qed

lemma sample_answer:
  obtains msg where "toOperationResult sample_codec (Some (operationFromRecord delete_row)) = Some msg"
    "rm_state msg = OPERATION_STATE_SUCCEEDED" "rm_account_key msg = ''acct_1''"
  by (simp add: toOperationResult_def sample_codec_def operationFromRecord_def delete_row_def new_operation_row_def
      operationState_def)



section \<open>Authorized by their own ticket\<close>

lemma middleware_InrE:
  assumes "ServiceTicketMiddleware names (Some op) ctx next w = (Inr x, w')"
    and "isProtectedPlatformOperation names op"
  obtains claims w1 where "verifyIncomingServiceTicket ctx w = (Inr claims, w1)"
    "next (ctx\<lparr>rc_verified_claims := Some claims\<rparr>) w1 = (Inr x, w')"
  using assms by (auto simp: ServiceTicketMiddleware_def elim!: andThen_InrE)

text \<open>C26: A control call that gets through the middleware and its handler was authorized for exactly
  this request: its ticket, verified on the way in, is a control ticket that grants the one action
  of the call and names the operation, the binding, the generation and the account of the request;
  the request carries the digest of its own content; and only setting the primary profile accepts a
  ticket narrowed to a profile.\<close>

theorem control_call_is_authorized:
  assumes run: "ServiceTicketMiddleware names (Some op) ctx (\<lambda>ctx. serve s ctx od operation request) w = (Inr out, w')"
    and op: "isProtectedPlatformOperation names op"
  shows "\<exists>raw claims m. presented_ticket ctx = Some raw \<and> operation = Some m \<and>
    fst (VerifyContext (rc_library ctx) (rc_verifier ctx) (rc_now ctx) raw serviceTicketAudience w) = Inr claims \<and>
    tc_ticket_type claims = TypeControl \<and> tc_scopes claims = [mutation_action request] \<and>
    tc_operation_id claims = om_operation_id m \<and> tc_binding_ref claims = om_binding_ref m \<and>
    tc_credential_generation claims = om_pre_generation m \<and>
    (mutation_account request \<noteq> '''' \<longrightarrow> tc_account_key claims = mutation_account request) \<and>
    om_kind m = mutation_kind request \<and>
    om_request_fingerprint m = mutation_fingerprint s operation request \<and>
    (tc_profile_ref claims \<noteq> '''' \<longrightarrow> (\<exists>primary. request = Set_Primary primary))"
proof -
  from run op obtain claims w1 where
    v: "verifyIncomingServiceTicket ctx w = (Inr claims, w1)"
    and h: "serve s (ctx\<lparr>rc_verified_claims := Some claims\<rparr>) od operation request w1 = (Inr out, w')"
    by (rule middleware_InrE)
  from h obtain ref claims' u where
    auth: "authorizeOperation (ct_codec s) (ctx\<lparr>rc_verified_claims := Some claims\<rparr>) operation (mutation_kind request)
      (mutation_action request) (mutation_account request) (mutation_fingerprint s operation request) w1
      = (Inr (ref, claims'), u)"
    by (rule serve_InrE)
  then obtain m where m: "operation = Some m" "om_kind m = mutation_kind request"
    "operationFromProto (ct_codec s) m = Inr ref"
    "om_request_fingerprint m = mutation_fingerprint s operation request"
    "matches_ticket claims' ref (mutation_account request)"
    and ticket: "authorizeTicketActionForScope (ctx\<lparr>rc_verified_claims := Some claims\<rparr>) (mutation_action request) True
      (mutation_kind request \<noteq> OPERATION_KIND_SET_PRIMARY_PROFILE) w1 = (Inr claims', u)"
    by (rule authorizeOperation_InrE)
  from ticket have c: "claims' = claims" "tc_ticket_type claims = TypeControl"
    "mutation_action request \<in> set (tc_scopes claims)"
    "mutation_kind request \<noteq> OPERATION_KIND_SET_PRIMARY_PROFILE \<longrightarrow> tc_profile_ref claims = ''''"
    by (auto elim!: authorize_InrE simp: serviceTicketClaims_def effect_simps)
  from v obtain raw where raw: "VerifyContext (rc_library ctx) (rc_verifier ctx) (rc_now ctx) raw serviceTicketAudience w
      = (Inr claims, w1)" and one: "length (tc_scopes claims) = 1" and shown: "presented_ticket ctx = Some raw"
    by (rule verifyIncoming_InrE)
  from one c(3) have "tc_scopes claims = [mutation_action request]"
    by (cases "tc_scopes claims") auto
  moreover have "\<exists>primary. request = Set_Primary primary" if "tc_profile_ref claims \<noteq> ''''"
    using that c(4) by (cases request) auto
  ultimately show ?thesis
    using m c(1,2) raw shown operationFromProto_Inr(1-3) [OF m(3)]
    by (intro exI [of _ raw] exI [of _ claims] exI [of _ m]) (simp add: matches_ticket_def)
qed

definition sample_names :: service_names where
  "sample_names = \<lparr>control_prefix = ''/control/'', runtime_prefix = ''/runtime/'',
     describe_platform = ''/runtime/DescribePlatform''\<rparr>"

lemma control_parse:
  "parse_ticket (rc_library incoming_context) sample_verifier 0 ''t'' ''platform-mihomo-service'' = Inr (control_jwt, TypeControl)"
  by (simp add: parse_ticket_def incoming_context_def sample_context_def sample_library_def sample_token_def
      ticket_key_def sample_verifier_def Static_Resolve_def NewStaticPublicKeyResolver_def control_jwt_def
      sample_claims_def duration_defs ticket_types)

lemma control_verify:
  "VerifyContext (rc_library incoming_context) sample_verifier 0 ''t'' ''platform-mihomo-service'' w = (Inr control_claims, w)"
proof -
  have "check_common ''platform-mihomo-service'' control_jwt = None" "check_control TypeControl control_jwt = None"
    "jc_actor_type control_jwt = ''user''"
    by (simp_all add: check_common_def check_control_def control_jwt_def sample_claims_def duration_defs
        maximumServiceTicketTTL_def)
  then show ?thesis
    by (simp add: VerifyContext_def effect_simps control_parse control_claims_def)
qed

lemma control_incoming:
  "verifyIncomingServiceTicket incoming_context w = (Inr control_claims, w)"
proof -
  have "string_fields ''bearer t'' = [''bearer'', ''t'']" "equal_fold ''bearer'' ''Bearer''"
    by (simp_all add: string_fields_def is_space_def equal_fold_def fold_case_def less_eq_char_def
        char_of_def bit_iff_odd)
  moreover have "rc_authorization incoming_context = Some [''bearer t'']" "rc_verifier incoming_context = sample_verifier"
    "rc_now incoming_context = 0"
    by (simp_all add: incoming_context_def sample_context_def)
  moreover have "length (tc_scopes control_claims) = 1"
    by (simp add: control_claims_def verified_claims_def control_jwt_def sample_claims_def)
  ultimately show ?thesis
    by (simp add: verifyIncomingServiceTicket_def effect_simps serviceTicketAudience_def control_verify)
qed

lemma control_call_is_authorized_witness:
  "\<exists>claims :: service_ticket_claims. tc_scopes claims = [MihomoCredentialDelete] \<and> tc_operation_id claims = ''op-2'' \<and>
     tc_binding_ref claims = ''bind_1''"
proof -
  let ?next = "\<lambda>ctx. serve sample_control ctx sample_op_draws (Some delete_message) (Delete_Credential ''acct_1'')"
  have op: "isProtectedPlatformOperation sample_names ''/control/DeleteCredential''"
    by (simp add: isProtectedPlatformOperation_def sample_names_def has_prefix_def)
  have "ServiceTicketMiddleware sample_names (Some ''/control/DeleteCredential'') incoming_context ?next
      (initial_world empty_mihomo_db) = (Inr (toOperationResult sample_codec (Some (operationFromRecord delete_row))), initial_world deleted_db)"
    using op sample_serve by (simp add: ServiceTicketMiddleware_def andThen_def control_incoming control_context_def)
  from control_call_is_authorized [OF this op]
  obtain claims :: service_ticket_claims where "tc_scopes claims = [MihomoCredentialDelete]"
    "tc_operation_id claims = om_operation_id delete_message" "tc_binding_ref claims = om_binding_ref delete_message"
    by auto
  then show ?thesis by (intro exI [of _ claims]) (simp add: delete_message_def)
qed

end
