(* ===== verification/Mihomo_Runtime.thy ===== *)
theory Mihomo_Runtime
  imports Mihomo_Control
begin

text \<open>
  The runtime service: \<open>internal/service/mihomo_runtime_service.go\<close>.  Consumers present delegation
  tickets; every call checks the ticket against the resource it names, and an auth key is handed out
  only after the ticket, the credential and the pending revocations have been checked once more, in
  one transaction, after the key was issued.
\<close>

section \<open>Messages\<close>

record binding_resource =
  br_binding_ref :: string
  br_account_key :: string

record platform_description =
  pd_platform_key :: string
  pd_display_name :: string
  pd_service_audience :: string
  pd_supported_actions :: "string list"
  pd_credential_properties :: "(string \<times> string) list"
  pd_credential_required :: "string list"
  pd_contract_version :: string

section \<open>Handlers\<close>

definition DescribePlatform :: platform_description where
  "DescribePlatform = \<lparr>pd_platform_key = ''mihomo'', pd_display_name = ''Mihomo'',
     pd_service_audience = serviceTicketAudience,
     pd_supported_actions = mihomoDelegationActions @ mihomoControlActions,
     pd_credential_properties = map (\<lambda>n. (n, ''string'')) [''cookie_bundle'', ''device_id'', ''device_fp'', ''device_name''],
     pd_credential_required = [''cookie_bundle'', ''device_id'', ''device_fp''],
     pd_contract_version = ''v2''\<rparr>"

definition authorizeResource ::
    "'k request_context \<Rightarrow> binding_resource option \<Rightarrow> string \<Rightarrow> bool \<Rightarrow> (binding_resource \<times> scope_guard) meff" where
  "authorizeResource ctx resource action bindingWide =
     (case resource of
        None \<Rightarrow> raise (StatusError InvalidArgument)
      | Some r \<Rightarrow>
          if br_binding_ref r = '''' \<or> br_account_key r = '''' then raise (StatusError InvalidArgument)
          else andThen (authorizeTicketAction ctx action False) (\<lambda>claims.
            if tc_binding_ref claims \<noteq> br_binding_ref r \<or> tc_account_key claims \<noteq> br_account_key r
            then raise (StatusError PermissionDenied)
            else let guard = toScopeGuardMust claims in
              andThen (if bindingWide then map_error mapUsecaseError (allow (RequireBindingWide guard)) else return ())
              (\<lambda>_. return (r, guard))))"

definition GetStatus_rpc ::
    "'k request_context \<Rightarrow> binding_resource option \<Rightarrow> (proto_credential_status \<times> instant option) meff" where
  "GetStatus_rpc ctx resource =
     andThen (authorizeResource ctx resource MihomoStatusRead True) (\<lambda>(r, guard).
     andThen (map_error mapUsecaseError (GetCredentialStatus (br_account_key r))) (\<lambda>(status, validated).
     return (toCredentialStatus status, validated)))"

definition ValidateCredential_rpc ::
    "mihomo_env \<Rightarrow> draws \<Rightarrow> 'k request_context \<Rightarrow> binding_resource option
      \<Rightarrow> (proto_credential_status \<times> string) meff" where
  "ValidateCredential_rpc env dr ctx resource =
     andThen (authorizeResource ctx resource MihomoCredentialValidate True) (\<lambda>(r, guard).
     andThen (map_error mapUsecaseError (ValidateCredential env dr (br_account_key r))) (\<lambda>output.
     return (toCredentialStatus (vo_status output), vo_error_code output)))"

definition ListProfiles_rpc ::
    "'k request_context \<Rightarrow> binding_resource option \<Rightarrow> profile_snapshot meff" where
  "ListProfiles_rpc ctx resource =
     andThen (authorizeResource ctx resource MihomoProfileRead False) (\<lambda>(r, guard).
     andThen (map_error mapUsecaseError (ListProfilesWithScope guard (br_account_key r))) (\<lambda>ps.
     andThen (map_error mapUsecaseError (GetCredentialSummary (br_account_key r))) (\<lambda>summary.
     return (toProfileSnapshot ps (cs_snapshot_complete summary) (cs_profile_revision summary)
       (cs_observed_revision summary)))))"

definition GetPrimaryProfile_rpc ::
    "'k request_context \<Rightarrow> binding_resource option \<Rightarrow> proto_profile option meff" where
  "GetPrimaryProfile_rpc ctx resource =
     andThen (authorizeResource ctx resource MihomoProfileRead False) (\<lambda>(r, guard).
     andThen (map_error mapUsecaseError (GetPrimaryProfileWithScope guard (br_account_key r))) (\<lambda>primary.
     return (map_option view_profile primary)))"

definition GetDevice_rpc ::
    "'k request_context \<Rightarrow> binding_resource option \<Rightarrow> string \<Rightarrow> device_summary meff" where
  "GetDevice_rpc ctx resource deviceRef =
     andThen (authorizeResource ctx resource MihomoDeviceRead True) (\<lambda>(r, guard).
     if deviceRef = '''' then raise (StatusError InvalidArgument)
     else andThen (map_error mapUsecaseError (GetByDeviceRef (br_binding_ref r) deviceRef)) (\<lambda>found.
       case found of
         None \<Rightarrow> raise (StatusError NotFound)
       | Some device \<Rightarrow>
           if dev_account_key device \<noteq> br_account_key r then raise (StatusError NotFound)
           else return (toDeviceSummary device)))"

text \<open>The check inside the transaction that confirms the delivery; the clock is read again.\<close>

definition authorizeDelivery :: "'k request_context \<Rightarrow> binding_resource \<Rightarrow> string \<Rightarrow> unit meff" where
  "authorizeDelivery ctx r profileRef =
     andThen (verifyIncomingServiceTicket ctx) (\<lambda>claims.
     andThen (fail_with (requireDelegationTicket claims)) (\<lambda>_.
     andThen (map_error mapUsecaseError (lift_result (scopedGuard claims [MihomoAuthKeyIssue]))) (\<lambda>guard.
     if tc_binding_ref claims \<noteq> br_binding_ref r \<or> tc_account_key claims \<noteq> br_account_key r
     then raise (StatusError PermissionDenied)
     else map_error mapUsecaseError (allow (RequireProfile guard (br_binding_ref r) profileRef)))))"

text \<open>\<open>now\<close> is the clock when the delivery is confirmed, \<open>ch\<close> the chances of the invalidation after a
  failed confirmation.\<close>

definition GetAuthKey_rpc ::
    "mihomo_env \<Rightarrow> draws \<Rightarrow> instant \<Rightarrow> instant \<Rightarrow> chance \<Rightarrow> 'k request_context \<Rightarrow> binding_resource option \<Rightarrow> string
      \<Rightarrow> auth_key_output meff" where
  "GetAuthKey_rpc env dr verified_at now ch ctx resource profileRef =
     andThen (authorizeResource ctx resource MihomoAuthKeyIssue False) (\<lambda>(r, guard).
     andThen (map_error mapUsecaseError (GetProfileByRef guard (br_account_key r) profileRef)) (\<lambda>profile.
     case profile of
       None \<Rightarrow> raise (OtherError ''nil pointer dereference'')
     | Some p \<Rightarrow>
         andThen (map_error mapUsecaseError (GetAuthKey env dr (br_account_key r) (prof_player_id p))) (\<lambda>output.
         andThen (attempt (ConfirmDeliverable now (br_binding_ref r)
           (Some (authorizeDelivery (ctx\<lparr>rc_now := verified_at\<rparr>) r profileRef)))) (\<lambda>confirmed.
         case confirmed of
           Inl err \<Rightarrow>
             andThen (attempt (InvalidateBinding (env_lifecycle env) ch (br_binding_ref r))) (\<lambda>invalidated.
             case invalidated of
               Inl invalidateErr \<Rightarrow>
                 if is_error invalidateErr ErrArtifactRevocationPending
                 then raise (if status_code err \<noteq> Code_Unknown then err else mapUsecaseError err)
                 else raise (mapUsecaseError invalidateErr)
             | Inr _ \<Rightarrow> raise (if status_code err \<noteq> Code_Unknown then err else mapUsecaseError err))
         | Inr _ \<Rightarrow> (case output of
             None \<Rightarrow> raise (OtherError ''nil pointer dereference'')
           | Some delivered \<Rightarrow> return delivered)))))"

section \<open>What the handlers leave alone\<close>



lemma issue_frames:
  "frames safeguards (reseal_credential env n p c)" "frames safeguards (stored_auth_key env dr c p)"
  "frames safeguards (reuse_auth_key env dr c a)" "frames safeguards (record_issued_key env dr c p k s)"
  "frames safeguards (IssueAuthKeyWithTTL f b p)"
  by (auto simp: authkey_defs Let_def intro!: keeps_rules split: bool.splits sum.splits)

lemma issue_auth_key_frames: "frames safeguards (issue_auth_key env dr c b p)"
  unfolding issue_auth_key_def by (intro keeps_rules issue_frames)

lemma or_fail_frames: "frames f m \<Longrightarrow> (\<And>x. frames f (k x)) \<Longrightarrow> frames f (or_fail c m k)"
  unfolding or_fail_def by (intro keeps_rules)

lemma locked_frames: "frames safeguards (getAuthKeyLocked env dr c p)"
  unfolding getAuthKeyLocked_def
  by (intro keeps_rules or_fail_frames issue_frames issue_auth_key_frames lifecycle_frames)

lemma conclude_frames: "frames safeguards (conclude_issue env dr captured err)"
  unfolding conclude_issue_def Let_def joined_with_def by (intro keeps_rules lifecycle_frames)

lemma GetAuthKey_frames: "frames safeguards (GetAuthKey env dr a p)"
  unfolding GetAuthKey_def get_auth_key_body_def record_attention_def
  by (intro keeps_rules locked_frames conclude_frames lifecycle_frames
      store_writes_frame artifact_repo_frames)

section \<open>What a delivered key was checked against\<close>

lemma pending_InrE:
  assumes "HasRevocationPending b w = (Inr False, w')" and "base w = Some d"
  shows "\<not> (\<exists>r\<in>set (artifacts (db w)). art_binding_ref r = b \<and> art_revocation_pending r) \<and>
    \<not> (\<exists>i\<in>set (intents d). int_binding_ref i = b) \<and> db w' = db w"
  using assms
  by (auto simp: HasRevocationPending_def on_db_def immediately_def statement_def count_where_def filter_empty_conv
      elim!: success_elims split: if_splits prod.splits option.splits) blast

lemma authorizeDelivery_InrE:
  assumes "authorizeDelivery ctx r profileRef w = (Inr u, w')"
  obtains claims where "verifyIncomingServiceTicket ctx w = (Inr claims, w')"
    "tc_ticket_type claims = TypeDelegation" "MihomoAuthKeyIssue \<in> set (tc_scopes claims)"
    "tc_binding_ref claims = br_binding_ref r" "tc_account_key claims = br_account_key r"
    "tc_profile_ref claims = '''' \<or> tc_profile_ref claims = profileRef"
proof -
  from assms obtain claims guard where
    c: "verifyIncomingServiceTicket ctx w = (Inr claims, w')" and
    d: "requireDelegationTicket claims = None" and
    g: "scopedGuard claims [MihomoAuthKeyIssue] = Inr guard" and
    b: "tc_binding_ref claims = br_binding_ref r" "tc_account_key claims = br_account_key r" and
    p: "RequireProfile guard (br_binding_ref r) profileRef = None"
    unfolding authorizeDelivery_def
    by (auto elim!: andThen_InrE fail_with_InrE map_error_InrE lift_result_InrE allow_InrE raise_InrE split: if_splits)
  from scopedGuard_action [OF g] d p show thesis
    by (intro that [OF c _ _ b]) (auto simp: requireDelegationTicket_def RequireProfile_def split: if_splits)
qed

lemma ConfirmDeliverable_InrE:
  assumes "ConfirmDeliverable now b (Some check) w = (Inr u, w')" and "base w = None"
    and reads: "frames (\<lambda>d. d) check"
  obtains c w1 w2 where "credential_of b (db w) = Some c" "is_usable now c" "check w1 = (Inr (), w2)"
    "db w1 = db w" "db w' = db w"
    "\<not> (\<exists>r\<in>set (artifacts (db w)). art_binding_ref r = b \<and> art_revocation_pending r)"
    "\<not> (\<exists>i\<in>set (intents (db w)). int_binding_ref i = b)"
proof -
  from assms(1) obtain c w0 w1 w2 v fs where
    get: "GetByBindingRefForUpdate b (w\<lparr>base := Some (db w)\<rparr>) = (Inr (Some c), w1)"
    and check: "check w1 = (Inr (), w2)" and usable: "is_usable now c"
    and pending: "HasRevocationPending b w2 = (Inr False, v)" and w': "w' = v\<lparr>base := None, faults := fs\<rparr>"
    unfolding ConfirmDeliverable_def
    by (elim transaction_InrE [OF _ assms(2)] andThen_InrE)
       (auto elim!: andThen_InrE raise_InrE return_InrE split: option.splits if_splits)
  from get have w1: "credential_of b (db w) = Some c" "db w1 = db w" "base w1 = Some (db w)"
    by (auto simp: GetByBindingRefForUpdate_def getByBindingRef_credential_def credential_of_def
        option.map_ident elim!: success_elims)
  have w2: "db w2 = db w" "base w2 = Some (db w)"
    using framesD [OF reads, of w1] framesD_base [OF reads, of w1] check w1 by simp_all
  from pending_InrE [OF pending w2(2)] w2 w1 w' show thesis
    by (intro that [OF w1(1) usable check]) auto
qed

lemma authorizeResource_frames [keeps_rules, simp]: "frames f (authorizeResource ctx r action wide)"
  by (auto simp: authorizeResource_def Let_def intro!: keeps_rules)

lemma authorizeDelivery_frames [keeps_rules, simp]: "frames f (authorizeDelivery ctx r p)"
  by (auto simp: authorizeDelivery_def intro!: keeps_rules)

lemma frames_base_None: "frames f m \<Longrightarrow> m w = (r, w') \<Longrightarrow> base w = None \<Longrightarrow> base w' = None"
  using framesD_base [of f m w] by simp

lemma GetAuthKey_rpc_InrE:
  assumes "GetAuthKey_rpc env dr verified_at now ch ctx resource profileRef w = (Inr key, w')" and "base w = None"
  obtains r w1 where "resource = Some r" "base w1 = None"
    "ConfirmDeliverable now (br_binding_ref r)
       (Some (authorizeDelivery (ctx\<lparr>rc_now := verified_at\<rparr>) r profileRef)) w1 = (Inr (), w')"
proof -
  from assms(1) obtain r guard w2 p w3 out w4 where
    res: "authorizeResource ctx resource MihomoAuthKeyIssue False w = (Inr (r, guard), w2)" and
    prof: "GetProfileByRef guard (br_account_key r) profileRef w2 = (Inr (Some p), w3)" and
    key: "GetAuthKey env dr (br_account_key r) (prof_player_id p) w3 = (Inr out, w4)" and
    conf: "ConfirmDeliverable now (br_binding_ref r)
       (Some (authorizeDelivery (ctx\<lparr>rc_now := verified_at\<rparr>) r profileRef)) w4 = (Inr (), w')"
    unfolding GetAuthKey_rpc_def
    by (auto elim!: andThen_InrE map_error_InrE attempt_InrE raise_InrE return_InrE split: option.splits sum.splits if_splits)
  have "resource = Some r"
    using res by (auto simp: authorizeResource_def Let_def elim!: andThen_InrE return_InrE raise_InrE split: option.splits if_splits)
  moreover have "base w2 = None" by (rule frames_base_None [OF authorizeResource_frames res assms(2)])
  then have "base w3 = None"
    using frames_base_None [OF profile_usecase_frames(6) prof] by simp
  then have "base w4 = None" by (rule frames_base_None [OF GetAuthKey_frames key])
  ultimately show thesis using conf by (intro that)
qed

lemma delivered_key:
  assumes run: "GetAuthKey_rpc env dr verified_at now ch ctx resource profileRef w = (Inr key, w')"
    and w: "base w = None" and v: "tv_authorization_state (rc_verifier ctx)"
  shows "\<exists>r raw claims c. resource = Some r \<and> presented_ticket ctx = Some raw \<and>
    parse_ticket (rc_library ctx) (rc_verifier ctx) verified_at raw serviceTicketAudience = Inr (claims, TypeDelegation) \<and>
    jc_binding_ref claims = br_binding_ref r \<and> jc_account_key claims = br_account_key r \<and>
    MihomoAuthKeyIssue \<in> set (jc_scopes claims) \<union> set (jc_allowed_actions claims) \<and>
    (jc_profile_ref claims = '''' \<or> jc_profile_ref claims = profileRef) \<and>
    fence_minimum (br_binding_ref r) (jc_consumer claims) (db w') \<le> claims_epochs claims \<and>
    credential_of (br_binding_ref r) (db w') = Some c \<and> is_usable now c \<and>
    cred_generation c = jc_credential_generation claims \<and>
    \<not> (\<exists>a\<in>set (artifacts (db w')). art_binding_ref a = br_binding_ref r \<and> art_revocation_pending a) \<and>
    \<not> (\<exists>i\<in>set (intents (db w')). int_binding_ref i = br_binding_ref r)"
proof -
  from run w obtain r w1 where r: "resource = Some r" "base w1 = None" and
    conf: "ConfirmDeliverable now (br_binding_ref r)
       (Some (authorizeDelivery (ctx\<lparr>rc_now := verified_at\<rparr>) r profileRef)) w1 = (Inr (), w')"
    by (rule GetAuthKey_rpc_InrE)
  from conf r(2) obtain c u1 u2 where c: "credential_of (br_binding_ref r) (db w1) = Some c" "is_usable now c"
    and chk: "authorizeDelivery (ctx\<lparr>rc_now := verified_at\<rparr>) r profileRef u1 = (Inr (), u2)"
    and same: "db u1 = db w1" "db w' = db w1"
    and clear: "\<not> (\<exists>a\<in>set (artifacts (db w1)). art_binding_ref a = br_binding_ref r \<and> art_revocation_pending a)"
      "\<not> (\<exists>i\<in>set (intents (db w1)). int_binding_ref i = br_binding_ref r)"
    by (rule ConfirmDeliverable_InrE) simp_all
  from chk obtain tc where ver: "verifyIncomingServiceTicket (ctx\<lparr>rc_now := verified_at\<rparr>) u1 = (Inr tc, u2)"
    and t: "tc_ticket_type tc = TypeDelegation" "MihomoAuthKeyIssue \<in> set (tc_scopes tc)"
    "tc_binding_ref tc = br_binding_ref r" "tc_account_key tc = br_account_key r"
    "tc_profile_ref tc = '''' \<or> tc_profile_ref tc = profileRef" by (rule authorizeDelivery_InrE)
  from ver obtain raw where vc: "VerifyContext (rc_library ctx) (rc_verifier ctx) verified_at raw serviceTicketAudience u1 = (Inr tc, u2)"
    and shown: "presented_ticket ctx = Some raw"
    by (auto elim!: verifyIncoming_InrE simp: presented_ticket_def)
  from vc obtain claims kind where claims:
    "parse_ticket (rc_library ctx) (rc_verifier ctx) verified_at raw serviceTicketAudience = Inr (claims, kind)"
    "tc = verified_claims kind serviceTicketAudience claims"
    "jc_actor_type claims \<noteq> ''consumer'' \<Longrightarrow> check_control kind claims = None"
    "jc_actor_type claims = ''consumer'' \<Longrightarrow> tv_authorization_state (rc_verifier ctx) \<Longrightarrow>
       \<exists>cr. credential_of (jc_binding_ref claims) (db u1) = Some cr \<and>
            cred_generation cr = jc_credential_generation claims \<and>
            fence_minimum (jc_binding_ref claims) (jc_consumer claims) (db u1) \<le> claims_epochs claims"
    by (rule VerifyContext_InrE) (rule that)
  from claims(2) t have k: "kind = TypeDelegation" "jc_binding_ref claims = br_binding_ref r"
    "jc_account_key claims = br_account_key r" "jc_profile_ref claims = '''' \<or> jc_profile_ref claims = profileRef"
    "MihomoAuthKeyIssue \<in> set (jc_scopes claims) \<union> set (jc_allowed_actions claims)"
    by (auto simp: verified_claims_def split: if_splits)
  with claims(3) have "jc_actor_type claims = ''consumer''"
    by (auto simp: check_control_def ticket_types)
  from claims(4) [OF this v] c(1) same(1) k(2) have
    "cred_generation c = jc_credential_generation claims"
    "fence_minimum (br_binding_ref r) (jc_consumer claims) (db w1) \<le> claims_epochs claims" by auto
  with r(1) claims(1) k c clear same(2) shown show ?thesis by auto
qed

text \<open>C24: A consumer gets an auth key only after the key was issued and its ticket was verified again,
  against the very tables the call leaves: the ticket is a delegation ticket for this binding and
  account, for this profile or the whole binding, that allows issuing keys; its grant version and
  epochs are not below any fence stored for its consumer; the binding's credential is active, not
  expired, and of the ticket's generation; and nothing issued for the binding waits for revocation.\<close>

theorem delivered_key_is_authorized:
  assumes run: "GetAuthKey_rpc env dr verified_at now ch ctx resource profileRef w = (Inr key, w')"
    and w: "base w = None" and v: "tv_authorization_state (rc_verifier ctx)"
  shows "\<exists>r raw claims c. resource = Some r \<and> presented_ticket ctx = Some raw \<and>
    parse_ticket (rc_library ctx) (rc_verifier ctx) verified_at raw serviceTicketAudience = Inr (claims, TypeDelegation) \<and>
    jc_binding_ref claims = br_binding_ref r \<and> jc_account_key claims = br_account_key r \<and>
    MihomoAuthKeyIssue \<in> set (jc_scopes claims) \<union> set (jc_allowed_actions claims) \<and>
    (jc_profile_ref claims = '''' \<or> jc_profile_ref claims = profileRef) \<and>
    fence_minimum (br_binding_ref r) (jc_consumer claims) (db w') \<le> claims_epochs claims \<and>
    credential_of (br_binding_ref r) (db w') = Some c \<and> is_usable now c \<and>
    cred_generation c = jc_credential_generation claims \<and>
    \<not> (\<exists>a\<in>set (artifacts (db w')). art_binding_ref a = br_binding_ref r \<and> art_revocation_pending a) \<and>
    \<not> (\<exists>i\<in>set (intents (db w')). int_binding_ref i = br_binding_ref r)"
  using assms by (rule delivered_key)

section \<open>A sample delivery\<close>

definition stored_key :: runtime_artifact where
  "stored_key = \<lparr>art_binding_ref = ''bind_1'', art_account_key = ''acct_1'', art_type = authKeyArtifactType,
     art_value = ''v2.k1.'' @ base64url_encode (sample_nonce @
       aad_input [''v2'', ''k1'', ''bind_1'', ''acct_1'', ''authkey'', ''100''] @ ''KEY''),
     art_scope_key = ''100'', art_expires_at = minute, art_revocation_pending = False\<rparr>"

definition serving_db :: mihomo_db where
  "serving_db = sealed_db\<lparr>profiles := [sample_profile], artifacts := [stored_key]\<rparr>"

definition consumer_jwt :: jwt_claims where
  "consumer_jwt = sample_claims\<lparr>jc_scopes := [MihomoAuthKeyIssue]\<rparr>"

definition consumer_context :: "string request_context" where
  "consumer_context = sample_context\<lparr>rc_library := sample_library\<lparr>jwt_decode := (\<lambda>raw. if raw = ''t''
       then Some (sample_token\<lparr>tok_claims := consumer_jwt\<rparr>) else None)\<rparr>\<rparr>"

definition sample_resource :: binding_resource where
  "sample_resource = \<lparr>br_binding_ref = ''bind_1'', br_account_key = ''acct_1''\<rparr>"

lemma stored_key_opens:
  "DecryptArtifact sample_cipher (Some (file_keyring sample_key_file)) (art_value stored_key)
     ''bind_1'' ''acct_1'' ''authkey'' ''100'' = Inr ''KEY''"
  "EnvelopeNeedsReencryption (Some (file_keyring sample_key_file)) (art_value stored_key) = Inr False"
proof -
  have s: "EncryptArtifact sample_cipher (Some (file_keyring sample_key_file)) (Some sample_nonce) ''KEY''
      ''bind_1'' ''acct_1'' ''authkey'' ''100'' = Inr (art_value stored_key)"
    by (simp add: EncryptArtifact_def file_keyring_def sample_keyrings valid_aes_key_def sample_key_def
        artifactCipherVersion_def sample_cipher_def artifact_key_for_def artifactAAD_def Let_def stored_key_def)
  show "EnvelopeNeedsReencryption (Some (file_keyring sample_key_file)) (art_value stored_key) = Inr False"
    by (simp add: EnvelopeNeedsReencryption_def stored_key_def cut_dot_append [of "''v2''", simplified]
        cut_dot_append [of "''k1''", simplified] file_keyring_def sample_keyrings)
  show "DecryptArtifact sample_cipher (Some (file_keyring sample_key_file)) (art_value stored_key)
     ''bind_1'' ''acct_1'' ''authkey'' ''100'' = Inr ''KEY''"
    using s sample_cipher_opens by (rule file_source.sealed_artifact_opens) simp
qed

lemma serving_db_simps [simp]:
  "credentials serving_db = [sealed_credential]" "artifacts serving_db = [stored_key]" "intents serving_db = []"
  "profiles serving_db = [sample_profile]"
  by (simp_all add: serving_db_def)

lemma stored_key_simps [simp]:
  "art_binding_ref stored_key = ''bind_1''" "art_type stored_key = ''authkey''" "art_scope_key stored_key = ''100''"
  "\<not> art_revocation_pending stored_key" "art_expires_at stored_key = minute" "art_account_key stored_key = ''acct_1''"
  by (simp_all add: stored_key_def authKeyArtifactType_def)

lemma sample_found:
  assumes "faults w = []" "db w = serving_db"
  shows "GetByBindingRef_artifact None 0 0 0 ''bind_1'' ''authkey'' ''100'' w = (Inr (Some (artifactFromRecord stored_key)), w)"
  using assms by (simp add: GetByBindingRef_artifact_def get_artifact_def effect_simps artifactFromRecord_def
      duration_defs)

lemma sample_reuse:
  assumes "faults w = []" "db w = serving_db" "base w = Some serving_db"
  shows "getAuthKeyLocked sample_env sample_draws sealed_credential ''100'' w =
    (Inr \<lparr>lk_credential = sealed_credential, lk_output = Some \<lparr>gk_auth_key = ''KEY'', gk_expires_at = minute\<rparr>,
      lk_intent = None, lk_error = None\<rparr>, w)"
proof -
  have same: "w\<lparr>base := Some serving_db, db := serving_db\<rparr> = w" using assms by (cases w) simp
  have "stored_auth_key sample_env sample_draws sealed_credential ''100'' w = (Inr (Some (artifactFromRecord stored_key)), w)"
    using assms sample_found [OF assms(1,2)]
    by (simp add: stored_auth_key_def HasRevocationPending_def effect_simps count_where_def on_db_def
        authKeyArtifactType_def same) (simp add: artifactFromRecord_def duration_defs minimumAuthKeyReturnTTL_def effect_simps)
  moreover have "reuse_auth_key sample_env sample_draws sealed_credential (artifactFromRecord stored_key) w =
      (Inr \<lparr>gk_auth_key = ''KEY'', gk_expires_at = minute\<rparr>, w)"
    using stored_key_opens
    by (simp add: reuse_auth_key_def open_artifact_def effect_simps artifactFromRecord_def)
  ultimately show ?thesis
    using sample_blob_opens by (simp add: getAuthKeyLocked_def or_fail_def effect_simps reseal_credential_def)
qed

lemma sample_GetAuthKey_reuse:
  "GetAuthKey sample_env sample_draws ''acct_1'' ''100'' (initial_world serving_db) =
    (Inr (Some \<lparr>gk_auth_key = ''KEY'', gk_expires_at = minute\<rparr>), initial_world serving_db)"
proof -
  let ?w = "(initial_world serving_db)\<lparr>base := Some serving_db\<rparr>"
  have "get_auth_key_body sample_env sample_draws ''bind_1'' ''acct_1'' ''100'' ?w =
    (Inr (\<lparr>lk_credential = sealed_credential, lk_output = Some \<lparr>gk_auth_key = ''KEY'', gk_expires_at = minute\<rparr>,
      lk_intent = None, lk_error = None\<rparr>, None), ?w)"
    by (simp add: get_auth_key_body_def credential_repo_defs effect_simps sample_reuse)
  then show ?thesis
    using sample_found [of "initial_world serving_db"]
    by (simp add: GetAuthKey_def credential_repo_defs effect_simps transaction_capturing_def committed_def
        conclude_issue_def initial_world_def authKeyArtifactType_def)
qed

definition consumer_claims :: service_ticket_claims where
  "consumer_claims = verified_claims TypeDelegation ''platform-mihomo-service'' consumer_jwt"

lemma consumer_verify:
  assumes "faults w = []" "db w = serving_db"
  shows "verifyIncomingServiceTicket (consumer_context\<lparr>rc_now := 0\<rparr>) w = (Inr consumer_claims, w)"
proof -
  have p: "parse_ticket (rc_library consumer_context) sample_verifier 0 ''t'' ''platform-mihomo-service''
      = Inr (consumer_jwt, TypeDelegation)"
    by (simp add: parse_ticket_def consumer_context_def sample_context_def sample_library_def sample_token_def
        ticket_key_def sample_verifier_def Static_Resolve_def NewStaticPublicKeyResolver_def consumer_jwt_def
        sample_claims_def duration_defs ticket_types)
  have checks: "check_common ''platform-mihomo-service'' consumer_jwt = None" "check_consumer TypeDelegation consumer_jwt = None"
    by (simp_all add: check_common_def check_consumer_def consumer_jwt_def sample_claims_def duration_defs
        maximumServiceTicketTTL_def)
  have min: "check_minimum sample_verifier consumer_jwt w = (Inr (), w)"
    using assms by (simp add: check_minimum_def effect_simps invalidation_minimum_def serving_db_def sealed_db_def
        sample_db_def empty_mihomo_db_def)
  have st: "check_state sample_verifier consumer_jwt w = (Inr (), w)"
    using assms by (simp add: check_state_def effect_simps outdated_def Let_def credential_of_def consumer_jwt_def
        fence_minimum_def serving_db_def sealed_db_def sample_db_def empty_mihomo_db_def no_epochs_def
        sealed_credential_def)
  have "VerifyContext (rc_library consumer_context) sample_verifier 0 ''t'' ''platform-mihomo-service'' w = (Inr consumer_claims, w)"
    using p checks min st by (simp add: VerifyContext_def effect_simps consumer_claims_def consumer_jwt_def)
  moreover have "string_fields ''bearer t'' = [''bearer'', ''t'']" "equal_fold ''bearer'' ''Bearer''"
    by (simp_all add: string_fields_def is_space_def equal_fold_def fold_case_def less_eq_char_def
        char_of_def bit_iff_odd)
  moreover have "rc_authorization consumer_context = Some [''bearer t'']" "rc_verifier consumer_context = sample_verifier"
    by (simp_all add: consumer_context_def sample_context_def)
  moreover have "length (tc_scopes consumer_claims) = 1"
    by (simp add: consumer_claims_def verified_claims_def consumer_jwt_def sample_claims_def)
  ultimately show ?thesis
    by (simp add: verifyIncomingServiceTicket_def effect_simps serviceTicketAudience_def)
qed

lemma consumer_claims_simps [simp]:
  "tc_ticket_type consumer_claims = TypeDelegation" "tc_scopes consumer_claims = [MihomoAuthKeyIssue]"
  "tc_binding_ref consumer_claims = ''bind_1''" "tc_account_key consumer_claims = ''acct_1''"
  "tc_platform consumer_claims = ''mihomo''" "tc_profile_ref consumer_claims = ''''"
  by (simp_all add: consumer_claims_def verified_claims_def consumer_jwt_def sample_claims_def)

lemma consumer_context_now [simp]: "rc_now consumer_context = 0" "consumer_context\<lparr>rc_now := 0\<rparr> = consumer_context"
  "rc_verified_claims consumer_context = None"
  by (simp_all add: consumer_context_def sample_context_def)

lemma sample_resource_simps [simp]: "br_binding_ref sample_resource = ''bind_1''" "br_account_key sample_resource = ''acct_1''"
  by (simp_all add: sample_resource_def)

definition consumer_guard :: scope_guard where
  "consumer_guard = \<lparr>sg_allowed_actions = [MihomoAuthKeyIssue], sg_binding_ref = ''bind_1'',
     sg_account_key = ''acct_1'', sg_profile_ref = ''''\<rparr>"

lemma consumer_guard:
  "scopedGuard consumer_claims [MihomoAuthKeyIssue] = Inr consumer_guard" "toScopeGuardMust consumer_claims = consumer_guard"
  by (simp_all add: scopedGuard_def toScopeGuardMust_def toScopeGuard_def RequireAction_def consumer_guard_def)

lemma sample_resource_authorized:
  assumes "faults w = []" "db w = serving_db"
  shows "authorizeResource consumer_context (Some sample_resource) MihomoAuthKeyIssue False w = (Inr (sample_resource, consumer_guard), w)"
    "authorizeDelivery consumer_context sample_resource ''p1'' w = (Inr (), w)"
  using consumer_verify [OF assms]
  by (simp_all add: authorizeResource_def authorizeTicketAction_def authorizeTicketActionForScope_def
      serviceTicketClaims_def effect_simps requireDelegationTicket_def consumer_guard authorizeDelivery_def)
     (simp_all add: consumer_guard(2) [unfolded consumer_guard_def] consumer_guard_def RequireBindingWide_def
        RequireProfile_def effect_simps)

lemma sample_confirm:
  "ConfirmDeliverable 0 ''bind_1'' (Some (authorizeDelivery consumer_context sample_resource ''p1'')) (initial_world serving_db) =
   (Inr (), initial_world serving_db)"
proof -
  let ?w = "(initial_world serving_db)\<lparr>base := Some serving_db\<rparr>"
  have "HasRevocationPending ''bind_1'' ?w = (Inr False, ?w)"
    by (simp add: HasRevocationPending_def effect_simps count_where_def on_db_def initial_world_def)
  then show ?thesis
    using sample_resource_authorized(2) [of ?w]
    by (simp add: ConfirmDeliverable_def transaction_def effect_simps credential_repo_defs initial_world_def)
qed

lemma sample_delivery:
  "GetAuthKey_rpc sample_env sample_draws 0 0 sample_chance consumer_context (Some sample_resource) ''p1'' (initial_world serving_db) =
   (Inr \<lparr>gk_auth_key = ''KEY'', gk_expires_at = minute\<rparr>, initial_world serving_db)"
proof -
  have "GetProfileByRef consumer_guard ''acct_1'' ''p1'' (initial_world serving_db) = (Inr (Some sample_profile), initial_world serving_db)"
    by (simp add: GetProfileByRef_def GetByProfileRef_def effect_simps consumer_guard_def RequireAccountKey_def
        RequireProfile_def sample_profile_def)
  then show ?thesis
    using sample_resource_authorized(1) [of "initial_world serving_db"] sample_GetAuthKey_reuse sample_confirm
    by (simp add: GetAuthKey_rpc_def andThen_def map_error_def attempt_def return_def sample_profile_def)
qed

lemma delivered_key_is_authorized_witness:
  "\<exists>c. credential_of ''bind_1'' serving_db = Some c \<and> is_usable 0 c \<and> cred_generation c = 1"
proof -
  have "tv_authorization_state (rc_verifier consumer_context)"
    by (simp add: consumer_context_def sample_context_def sample_verifier_def)
  from delivered_key_is_authorized [OF sample_delivery _ this]
  show ?thesis by (auto simp: credential_of_def sealed_credential_def)
qed

end
