(* ===== verification/Mihomo_Service.thy ===== *)
theory Mihomo_Service
  imports Mihomo_Runtime
begin

text \<open>
  The Mihomo service as a whole: the calls it serves and its periodic jobs, as one step relation on
  its tables, and the minima of authorization under every step.
\<close>

section \<open>Fences under every effect\<close>

definition at_least :: "epochs \<Rightarrow> string \<Rightarrow> string \<Rightarrow> mihomo_db \<Rightarrow> bool" where
  "at_least e b c d \<longleftrightarrow> e \<le> fence_minimum b c d"

lemma frames_fences: "frames safeguards m \<Longrightarrow> frames fences m"
  using frames_comp [of safeguards m "\<lambda>x. fst (snd x)"] by (simp add: safeguards_def)

lemma frames_at_least:
  assumes f: "frames fences m"
  shows "keeps (at_least e b c) m"
proof (rule frames_keeps)
  have "at_least e b c = (\<lambda>d. e \<le> (case map_option fence_epochs (find (\<lambda>f. fence_key f = (b, c)) (fences d)) of
      None \<Rightarrow> no_epochs | Some x \<Rightarrow> x))"
    by (rule ext) (simp add: at_least_def fence_minimum_def)
  with frames_comp [OF f] show "frames (at_least e b c) m" by simp
qed

lemma safe_at_least: "frames safeguards m \<Longrightarrow> keeps (at_least e b c) m"
  by (intro frames_at_least frames_fences)

lemma Upsert_fence_at_least: "keeps (at_least e b c) (Upsert_fence f)"
  unfolding Upsert_fence_def
  by (rule sql_change_keeps_inv) (auto simp: at_least_def fence_minimum_put intro: le_supI1)

lemma Upsert_invalidation_fences: "frames fences (Upsert_invalidation now b c v)"
  unfolding Upsert_invalidation_def by (rule sql_change_frames) (simp add: put_invalidation_def)

lemma ledger_fences:
  "frames fences (insert_operation r)" "frames fences (update_operations p f)"
  unfolding insert_operation_def update_operations_def
  by (rule frames_statement; auto split: if_splits)+

lemma ledger_parts_fences:
  "frames fences (Admit now t operation)" "frames fences (FailPending nt i t reason)"
  "frames fences (Resolve_repo now t nt operation)" "frames fences (LockPending i t)"
  "frames fences (Complete result)" "frames fences (get_operation i)"
  unfolding Admit_def FailPending_def Resolve_repo_def LockPending_def Complete_def get_operation_def Let_def
  by (intro keeps_rules ledger_fences)+

lemma Execute_at_least:
  assumes "keeps (at_least e b c) mutation"
  shows "keeps (at_least e b c) (Execute now t nt operation mutation)"
  unfolding Execute_def run_admitted_def
  by (intro keeps_rules assms ledger_parts_fences [THEN frames_at_least])

lemma fence_mutation_at_least: "keeps (at_least e b c) (fence_mutation s od ref fence)"
  unfolding fence_mutation_def raise_minima_def tolerate_pending_def succeed_with_def
  by (intro keeps_rules Upsert_fence_at_least Upsert_invalidation_fences [THEN frames_at_least]
      lifecycle_frames [THEN safe_at_least] management_frames [THEN safe_at_least])

lemma execute_mutation_at_least:
  "keeps (at_least e b c) mutation \<Longrightarrow> keeps (at_least e b c) (execute_mutation s od ref mutation)"
  unfolding execute_mutation_def by (intro keeps_rules Execute_at_least)

lemma serve_at_least: "keeps (at_least e b c) (serve s ctx od operation request)"
  by (cases request)
     (auto simp: serve_def rpc_defs intro!: keeps_rules execute_mutation_at_least fence_mutation_at_least
       mutations_frame [THEN safe_at_least])

section \<open>The steps of the service\<close>

text \<open>Calls of any client at any time, with any random choices and any failing statements, and the
  periodic jobs.  Contexts name public keys as strings.\<close>

inductive mihomo_call :: "mihomo_db \<Rightarrow> mihomo_db \<Rightarrow> bool" where
  call_control: "base w = None \<Longrightarrow>
    mihomo_call (db w) (db (snd (serve s (ctx :: string request_context) od operation request w)))"
| call_resolve: "base w = None \<Longrightarrow>
    mihomo_call (db w) (db (snd (ResolveOperation_rpc s (ctx :: string request_context) od operation w)))"
| call_key: "base w = None \<Longrightarrow>
    mihomo_call (db w) (db (snd (GetAuthKey_rpc env dr t now ch (ctx :: string request_context) resource p w)))"
| call_validate: "base w = None \<Longrightarrow>
    mihomo_call (db w) (db (snd (ValidateCredential_rpc env dr (ctx :: string request_context) resource w)))"
| job_retry: "base w = None \<Longrightarrow> mihomo_call (db w) (db (snd (RetryPending l ch locked now token w)))"
| job_expire: "base w = None \<Longrightarrow> mihomo_call (db w) (db (snd (lifecycle_DeleteExpired l t w)))"

lemma ConfirmDeliverable_frames:
  "frames safeguards check \<Longrightarrow> frames safeguards (ConfirmDeliverable now b (Some check))"
  unfolding ConfirmDeliverable_def by (auto intro!: keeps_rules)

lemma GetAuthKey_rpc_frames: "frames safeguards (GetAuthKey_rpc env dr t now ch ctx resource p)"
  unfolding GetAuthKey_rpc_def
  by (intro keeps_rules GetAuthKey_frames authorizeResource_frames authorizeDelivery_frames
      ConfirmDeliverable_frames profile_usecase_frames lifecycle_frames)

lemma other_calls_at_least:
  "keeps (at_least e b c) (ResolveOperation_rpc s ctx od operation)"
  "keeps (at_least e b c) (ValidateCredential_rpc env dr ctx resource)"
  unfolding ResolveOperation_rpc_def ValidateCredential_rpc_def Resolve_def
  by (intro keeps_rules ledger_parts_fences [THEN frames_at_least] status_frames [THEN safe_at_least]
      authorizeResource_frames [THEN frames_at_least])+

lemma keeps_call: "keeps I m \<Longrightarrow> base w = None \<Longrightarrow> I (db w) \<Longrightarrow> I (db (snd (m w)))"
  using keepsD [of I m w] by (simp add: holds_def)

lemma mihomo_call_at_least: "mihomo_call d d' \<Longrightarrow> at_least e b c d \<Longrightarrow> at_least e b c d'"
  by (induction rule: mihomo_call.induct)
     (auto intro!: keeps_call serve_at_least other_calls_at_least GetAuthKey_rpc_frames [THEN safe_at_least]
       lifecycle_frames [THEN safe_at_least])

lemma mihomo_calls_at_least: "mihomo_call\<^sup>*\<^sup>* d d' \<Longrightarrow> at_least e b c d \<Longrightarrow> at_least e b c d'"
  by (induction rule: rtranclp_induct) (auto intro: mihomo_call_at_least)

section \<open>An applied fence is in the tables\<close>

lemma fence_mutation_InrE:
  assumes run: "fence_mutation s od ref fence w = (Inr out, w')"
  shows "at_least (fence_epochs (requested_fence ref fence)) (op_binding_ref ref) (fr_consumer_principal fence) (db w')"
proof -
  from run obtain credential w1 where "raise_minima s od ref fence credential w1 = (Inr out, w')"
    unfolding fence_mutation_def by (auto elim!: andThen_InrE raise_InrE split: if_splits option.splits)
  then obtain x w2 where up: "Upsert_fence (requested_fence ref fence) w1 = (Inr x, w2)"
    and rest: "andThen (Upsert_invalidation (od_invalidated_at od) (op_binding_ref ref)
        (fr_consumer_principal fence) (fr_minimum_grant_version fence)) (\<lambda>_.
      andThen (tolerate_pending (InvalidateBinding (env_lifecycle (ct_env s)) (od_chance od) (op_binding_ref ref))) (\<lambda>_.
      andThen (GetCredentialSummary (cred_account_key credential)) (\<lambda>summary.
      succeed_with (ct_codec s) summary))) w2 = (Inr out, w')" (is "?rest w2 = _")
    unfolding raise_minima_def by (rule andThen_InrE)
  have frame: "frames fences ?rest"
    unfolding tolerate_pending_def succeed_with_def
    by (intro keeps_rules Upsert_invalidation_fences lifecycle_frames [THEN frames_fences]
        management_frames [THEN frames_fences])
  from framesD [OF frame, of w2] rest have "fences (db w') = fences (db w2)" by simp
  moreover from up have "fences (db w2) = fences (put_fence (requested_fence ref fence) (db w1))"
    by (auto simp: Upsert_fence_def sql_change_def sql_write_def elim!: success_elims dest!: checked_write_InrD)
  ultimately have "fences (db w') = fences (put_fence (requested_fence ref fence) (db w1))" by simp
  then have "fence_minimum b c (db w') = fence_minimum b c (put_fence (requested_fence ref fence) (db w1))" for b c
    by (simp add: fence_minimum_def)
  then show ?thesis
    by (simp add: at_least_def fence_minimum_put fence_key_def requested_fence_def)
qed

text \<open>The first \<open>Execute\<close> of an operation that answers with success ran its mutation, and what the mutation
  left outside the ledger is what \<open>Execute\<close> leaves.\<close>

lemma Execute_InrE:
  assumes "Execute now t nt operation mutation w = (Inr (Some res), w')"
  obtains (answered) w1 where "Admit now t operation w = (Inr (Some res, False), w1)" "w' = w1"
  | (ran) e w1 where "Admit now t operation w = (Inr (Some e, True), w1)"
      "run_admitted operation (res_execution_token e) mutation w1 = (Inr (Some res), w')"
proof -
  from assms have "validateOperationRef operation = None"
    by (simp add: Execute_def raise_def split: option.splits)
  with assms obtain p w1 where a: "Admit now t operation w = (Inr p, w1)" and
    rest: "(case p of (x, admitted) \<Rightarrow> if \<not> admitted then return x else case x of None \<Rightarrow> raise ErrOperationState | Some e \<Rightarrow>
        if res_execution_token e = '''' then raise ErrOperationState
        else andThen (attempt (run_admitted operation (res_execution_token e) mutation)) (\<lambda>outcome.
          case outcome of Inr out \<Rightarrow> return out
          | Inl err \<Rightarrow> andThen (attempt (FailPending nt (op_operation_id operation) (res_execution_token e)
              (operationFailureReason err))) (\<lambda>_. raise err))) w1 = (Inr (Some res), w')"
    unfolding Execute_def by (auto elim: andThen_InrE)
  obtain x admitted where p: "p = (x, admitted)" by (cases p)
  show thesis
  proof (cases admitted)
    case False
    with rest p a answered show thesis by (auto simp: return_def)
  next
    case True
    with rest p obtain e where e: "x = Some e" and r: "andThen (attempt (run_admitted operation (res_execution_token e) mutation)) (\<lambda>outcome.
          case outcome of Inr out \<Rightarrow> return out
          | Inl err \<Rightarrow> andThen (attempt (FailPending nt (op_operation_id operation) (res_execution_token e)
              (operationFailureReason err))) (\<lambda>_. raise err)) w1 = (Inr (Some res), w')"
      by (cases x) (auto simp: raise_def split: if_splits)
    from r obtain outcome w2 where o: "run_admitted operation (res_execution_token e) mutation w1 = (outcome, w2)"
      and k: "(case outcome of Inr out \<Rightarrow> return out
          | Inl err \<Rightarrow> andThen (attempt (FailPending nt (op_operation_id operation) (res_execution_token e)
              (operationFailureReason err))) (\<lambda>_. raise err)) w2 = (Inr (Some res), w')"
      by (elim andThen_InrE attempt_InrE)
    from k have "outcome = Inr (Some res) \<and> w2 = w'"
      by (cases outcome) (auto simp: return_def elim!: andThen_InrE raise_InrE)
    with a p e True o ran show thesis by simp
  qed
qed

lemma Admit_new:
  assumes "Admit now t operation w = (Inr (x, admitted), w')" "base w = None"
    and "find_operation (op_operation_id operation) (db w) = None"
  shows "admitted"
proof -
  let ?rec = "new_operation_row operation t (now + operationExecutionLease) operationStatePending"
  from assms(1,2) obtain w1 rows v where
    ins: "insert_operation ?rec (w\<lparr>base := Some (db w)\<rparr>) = (Inr rows, v)" and
    k: "(if rows = 1 then return (Some (operationFromRecord ?rec), True)
         else andThen (get_operation (op_operation_id operation)) (\<lambda>existing.
           case existing of
             None \<Rightarrow> raise ErrOperationConflict
           | Some e \<Rightarrow>
               if res_operation e \<noteq> operation then raise ErrOperationConflict
               else return (Some e, False))) v = (Inr (x, admitted), w1)"
    unfolding Admit_def Let_def by (elim transaction_InrE andThen_InrE)
  from ins assms(3) have "rows = 1"
    by (auto simp: insert_operation_def find_operation_def find_None_list_ex new_operation_row_def
        elim!: statement_InrE split: if_splits)
  with k show ?thesis by (simp add: return_def)
qed

lemma run_admitted_mutation:
  assumes "run_admitted operation tok mutation w = (Inr out, w')" "base w = None"
  obtains u u' r where "mutation u = (Inr (Some r), u')" "fences (db w') = fences (db u')"
proof -
  let ?done = "\<lambda>r. andThen (Complete (r\<lparr>res_operation := operation, res_execution_token := tok\<rparr>)) (\<lambda>_.
      get_operation (op_operation_id operation))"
  from assms obtain u x u' v fs where mut: "mutation u = (Inr x, u')" and
    k: "(case x of None \<Rightarrow> raise ErrOperationState | Some res \<Rightarrow> ?done res) u' = (Inr out, v)" and
    w': "w' = v\<lparr>base := None, faults := fs\<rparr>"
    unfolding run_admitted_def by (elim transaction_InrE andThen_InrE)
  from k obtain r where r: "x = Some r" "?done r u' = (Inr out, v)" by (cases x) (auto simp: raise_def)
  have "frames fences (?done r)" by (intro keeps_rules ledger_parts_fences)
  from framesD [OF this, of u'] r(2) w' have "fences (db w') = fences (db u')" by simp
  with mut r(1) show thesis by (intro that [of u r u']) simp_all
qed

lemma Execute_first_InrE:
  assumes run: "Execute now t nt operation mutation w = (Inr (Some res), w')"
    and w: "base w = None" and new: "find_operation (op_operation_id operation) (db w) = None"
  obtains u u' r where "mutation u = (Inr (Some r), u')" "fences (db w') = fences (db u')"
  using run
proof (cases rule: Execute_InrE)
  case (answered w1)
  with Admit_new [OF answered(1) w new] show thesis by simp
next
  case (ran e w1)
  have "base w1 = None" using Admit_base [OF w, of now t operation] ran(1) by simp
  with ran(2) show thesis by (rule run_admitted_mutation) (rule that)
qed

section \<open>A sample fence\<close>

definition sample_fence_request :: fence_request where
  "sample_fence_request = \<lparr>fr_consumer_principal = ''bot-a'', fr_minimum_grant_version = 3,
     fr_minimum_owner_epoch = 0, fr_minimum_consumer_epoch = 0, fr_minimum_entry_epoch = 0\<rparr>"

definition fence_fingerprint :: string where
  "fence_fingerprint = AuthorizationFenceFingerprint (\<lambda>m. m) ''OPERATION_KIND_APPLY_AUTHORIZATION_FENCE'' ''bind_1''
     ''bot-a'' 1 3 0 0 0"

definition fence_operation_id :: string where
  "fence_operation_id = DeterministicID (\<lambda>m. m) fence_fingerprint"

lemma fence_operation_id_nonempty [simp]: "fence_operation_id \<noteq> ''''"
  by (simp add: fence_operation_id_def DeterministicID_def Let_def)

definition fence_message :: operation_message where
  "fence_message = \<lparr>om_operation_id = fence_operation_id, om_kind = OPERATION_KIND_APPLY_AUTHORIZATION_FENCE,
     om_binding_ref = ''bind_1'', om_pre_generation = 1, om_target_generation = 1,
     om_request_fingerprint = fence_fingerprint\<rparr>"

definition fence_ref :: operation_ref where
  "fence_ref = \<lparr>op_operation_id = fence_operation_id, op_kind = ''OPERATION_KIND_APPLY_AUTHORIZATION_FENCE'',
     op_binding_ref = ''bind_1'', op_pre_generation = 1, op_target_generation = 1,
     op_request_fingerprint = fence_fingerprint\<rparr>"

definition sample_fence_claims :: service_ticket_claims where
  "sample_fence_claims = control_claims\<lparr>tc_operation_id := fence_operation_id, tc_scopes := [MihomoAuthorizationFenceApply]\<rparr>"

definition fence_context :: "string request_context" where
  "fence_context = incoming_context\<lparr>rc_verified_claims := Some sample_fence_claims\<rparr>"

definition fence_summary :: credential_summary where
  "fence_summary = summarize sealed_credential [] []"

definition fence_result :: operation_result where
  "fence_result = succeeded_result ''acct_1'' ''active'' ''{}''"

definition fence_row :: platform_operation where
  "fence_row = (new_operation_row fence_ref ''t'' operationExecutionLease ''succeeded'')
     \<lparr>row_account_key := ''acct_1'', row_credential_status := ''active''\<rparr>"

definition fenced_tables :: "mihomo_db \<Rightarrow> mihomo_db" where
  "fenced_tables d = put_invalidation 0 ''bind_1'' ''bot-a'' 3 (put_fence (requested_fence fence_ref sample_fence_request) d)"

definition fenced_db :: mihomo_db where
  "fenced_db = (fenced_tables sealed_db)\<lparr>operations := [fence_row]\<rparr>"

lemma fence_fingerprint_nonempty [simp]: "fence_fingerprint \<noteq> ''''"
  by (simp add: fence_fingerprint_def AuthorizationFenceFingerprint_def fence_fingerprint_input_def hex_encode_def
      writeString_def)

lemma sample_fence_authorize:
  "authorizeOperation sample_codec fence_context (Some fence_message) OPERATION_KIND_APPLY_AUTHORIZATION_FENCE
     MihomoAuthorizationFenceApply '''' fence_fingerprint w = (Inr (fence_ref, sample_fence_claims), w)"
  by (simp add: authorizeOperation_def operationFromProto_def fence_message_def fence_ref_def named_kinds_def
      authorizeTicketActionForScope_def serviceTicketClaims_def fence_context_def effect_simps
      requireControlTicket_def scopedGuard_def toScopeGuard_def RequireAction_def RequireBindingWide_def
      matches_ticket_def sample_fence_claims_def control_claims_def verified_claims_def control_jwt_def sample_claims_def)

lemma fenced_tables_simps [simp]:
  "credentials (fenced_tables d) = credentials d" "artifacts (fenced_tables d) = artifacts d"
  "devices (fenced_tables d) = devices d" "profiles (fenced_tables d) = profiles d"
  "operations (fenced_tables d) = operations d" "intents (fenced_tables d) = intents d"
  by (simp_all add: fenced_tables_def put_invalidation_def put_fence_def)

lemma fenced_ok:
  "store_ok (put_fence (requested_fence fence_ref sample_fence_request) (sealed_db\<lparr>operations := os\<rparr>))"
  "store_ok (fenced_tables (sealed_db\<lparr>operations := os\<rparr>))" "store_ok (sealed_db\<lparr>operations := os\<rparr>)"
  by (simp_all add: store_ok_iff fenced_tables_def put_invalidation_def put_fence_def sealed_db_def sample_db_def
      empty_mihomo_db_def unique_on_def unique_where_def credential_row_ok_def bigint_ok_def sealed_credential_def
      requested_fence_def fence_ref_def sample_fence_request_def fence_row_ok_def invalidation_row_ok_def
      credential_exists_def fence_key_def invalidation_key_def upsert_def)

lemma sample_fence_mutation:
  assumes w: "faults w = []" "db w = sealed_db\<lparr>operations := os\<rparr>" "base w = Some (sealed_db\<lparr>operations := os\<rparr>)"
  shows "fence_mutation sample_control sample_op_draws fence_ref sample_fence_request w =
    (Inr (Some fence_result), w\<lparr>db := fenced_tables (db w)\<rparr>)"
proof -
  let ?w1 = "w\<lparr>db := put_fence (requested_fence fence_ref sample_fence_request) (db w)\<rparr>"
  let ?w2 = "w\<lparr>db := fenced_tables (db w)\<rparr>"
  have 1: "Upsert_fence (requested_fence fence_ref sample_fence_request) w = (Inr (), ?w1)"
    using w fenced_ok(1) [of os]
    by (simp add: Upsert_fence_def sql_change_def sql_write_def checked_write_def effect_simps store_ok_def)
  have 2: "Upsert_invalidation 0 ''bind_1'' ''bot-a'' 3 ?w1 = (Inr (), ?w2)"
    using w fenced_ok(2) [of os]
    by (simp add: Upsert_invalidation_def sql_change_def sql_write_def checked_write_def effect_simps store_ok_def
        fenced_tables_def)
  have 3: "InvalidateBinding sample_lifecycle ch ''bind_1'' ?w2 = (Inr (), ?w2)" for ch
    using w fenced_ok(2,3) [of os]
    by (intro InvalidateBinding_nothing [where d = "sealed_db\<lparr>operations := os\<rparr>"
          and d' = "fenced_tables (sealed_db\<lparr>operations := os\<rparr>)"]) simp_all
  have 4: "GetCredentialSummary ''acct_1'' ?w2 = (Inr fence_summary, ?w2)"
    using w by (simp add: GetCredentialSummary_def credential_repo_defs device_repo_defs profile_repo_defs
        ListProfiles_def effect_simps fence_summary_def sealed_db_def sample_db_def empty_mihomo_db_def)
  have 5: "succeed_with sample_codec fence_summary ?w2 = (Inr (Some fence_result), ?w2)"
    by (simp add: succeed_with_def successfulOperationResult_def sample_codec_def effect_simps fence_summary_def
        summarize_def fence_result_def)
       (simp add: sealed_credential_def credential_status_string_def credentialStatusFromStorage_def)
  show ?thesis
    using w 1 2 3 4 5
    by (simp add: fence_mutation_def raise_minima_def credential_repo_defs effect_simps tolerate_pending_def
        sample_control_def fence_ref_def sample_fence_request_def sample_op_draws_def sealed_credential_def)
qed

lemma sample_fence_execute:
  "Execute 0 ''t'' ''n'' fence_ref (fence_mutation sample_control sample_op_draws fence_ref sample_fence_request)
     (initial_world sealed_db) = (Inr (Some (operationFromRecord fence_row)), initial_world fenced_db)"
proof -
  let ?pending = "new_operation_row fence_ref ''t'' operationExecutionLease ''pending''"
  let ?d = "sealed_db\<lparr>operations := [?pending]\<rparr>"
  have none: "operations sealed_db = []" by (simp add: sealed_db_def sample_db_def empty_mihomo_db_def)
  have valid: "validateOperationRef fence_ref = None" by (simp add: validateOperationRef_def fence_ref_def)
  have admit: "Admit 0 ''t'' fence_ref (initial_world sealed_db) = (Inr (Some (operationFromRecord ?pending), True), initial_world ?d)"
    using none
    by (simp add: bigint_ok_def Admit_def Let_def transaction_def effect_simps insert_operation_def
        operation_row_ok_new fixed_generation_kinds_def fence_ref_def initial_world_def operation_states)
  have mut: "fence_mutation sample_control sample_op_draws fence_ref sample_fence_request ((initial_world ?d)\<lparr>base := Some ?d\<rparr>) =
      (Inr (Some fence_result), (initial_world (fenced_tables ?d))\<lparr>base := Some ?d\<rparr>)"
    using sample_fence_mutation [of "(initial_world ?d)\<lparr>base := Some ?d\<rparr>" "[?pending]"]
    by (simp add: initial_world_def)

  have "run_admitted fence_ref ''t'' (fence_mutation sample_control sample_op_draws fence_ref sample_fence_request)
      (initial_world ?d) = (Inr (Some (operationFromRecord fence_row)), initial_world fenced_db)"
    using mut
    by (simp add: bigint_ok_def run_admitted_def transaction_def effect_simps LockPending_def Complete_def
        update_operations_def find_operation_def operation_row_ok_def fixed_generation_kinds_def
        operation_states is_pending_def new_operation_row_def count_where_def get_operation_def
        fence_result_def succeeded_result_def)
       (simp add: fence_ref_def fence_row_def new_operation_row_def initial_world_def fenced_db_def
         fenced_tables_def put_fence_def put_invalidation_def count_where_def effect_simps)
  with valid admit show ?thesis by (simp add: Execute_def effect_simps)
qed

lemma sample_fence_serve:
  obtains msg where "serve sample_control fence_context sample_op_draws (Some fence_message) (Apply_Fence sample_fence_request)
     (initial_world sealed_db) = (Inr (Some msg), initial_world fenced_db)" "rm_state msg = OPERATION_STATE_SUCCEEDED"
    "rm_operation msg = fence_message"
proof -
  have fp: "authorizationFenceFingerprint sample_codec (\<lambda>m. m) (Some fence_message) sample_fence_request = fence_fingerprint"
    by (simp add: authorizationFenceFingerprint_def fence_message_def fence_fingerprint_def named_kinds_def
        sample_fence_request_def)
  have "fr_consumer_principal sample_fence_request \<noteq> ''''" "fr_minimum_grant_version sample_fence_request \<noteq> 0"
    by (simp_all add: sample_fence_request_def)
  then have "serve sample_control fence_context sample_op_draws (Some fence_message) (Apply_Fence sample_fence_request)
     (initial_world sealed_db) = (Inr (toOperationResult sample_codec (Some (operationFromRecord fence_row))), initial_world fenced_db)"
    using sample_fence_execute
    by (simp add: serve_def ApplyAuthorizationFence_rpc_def andThen_def fp sample_fence_authorize execute_mutation_def
        map_error_def return_def)
  moreover obtain msg where "toOperationResult sample_codec (Some (operationFromRecord fence_row)) = Some msg"
    "rm_state msg = OPERATION_STATE_SUCCEEDED" "rm_operation msg = fence_message"
    by (simp add: toOperationResult_def sample_codec_def operationFromRecord_def fence_row_def new_operation_row_def
        operationState_def fence_ref_def fence_message_def operationKind_def named_kinds_def)
  ultimately show thesis using that by simp
qed

lemma consumer_ticket:
  "presented_ticket consumer_context = Some ''t''"
  "parse_ticket (rc_library consumer_context) (rc_verifier consumer_context) 0 ''t'' serviceTicketAudience = Inr (consumer_jwt, TypeDelegation)"
  "jc_binding_ref consumer_jwt = ''bind_1''" "jc_consumer consumer_jwt = ''bot-a''"
  "claims_epochs consumer_jwt = Epochs 2 1 1 1" "tv_authorization_state (rc_verifier consumer_context)"
proof -
  have "string_fields ''bearer t'' = [''bearer'', ''t'']" by (simp add: string_fields_def is_space_def)
  then show "presented_ticket consumer_context = Some ''t''"
    by (simp add: presented_ticket_def consumer_context_def sample_context_def)
  show "parse_ticket (rc_library consumer_context) (rc_verifier consumer_context) 0 ''t'' serviceTicketAudience = Inr (consumer_jwt, TypeDelegation)"
    by (simp add: parse_ticket_def consumer_context_def sample_context_def sample_library_def sample_token_def
        ticket_key_def sample_verifier_def Static_Resolve_def NewStaticPublicKeyResolver_def consumer_jwt_def
        sample_claims_def duration_defs ticket_types serviceTicketAudience_def)
qed (simp_all add: consumer_jwt_def sample_claims_def claims_epochs_def consumer_context_def sample_context_def
       sample_verifier_def)

section \<open>The ledger under every step\<close>

lemma frames_operations: "frames safeguards m \<Longrightarrow> frames operations m"
  using frames_comp [of safeguards m fst] by (simp add: safeguards_def)

lemma frames_evolves:
  assumes "frames operations m"
  shows "keeps (ledger_evolves d0) m"
proof -
  have "ledger_evolves d0 = (\<lambda>d. (unique_on row_operation_id (operations d0) \<longrightarrow> unique_on row_operation_id (operations d)) \<and>
      (\<forall>i. row_evolves (find_operation i d0) (find (\<lambda>r. row_operation_id r = i) (operations d))))"
    by (rule ext) (simp add: ledger_evolves_def find_operation_def)
  with frames_keeps [OF assms, of "\<lambda>ops. (unique_on row_operation_id (operations d0) \<longrightarrow> unique_on row_operation_id ops) \<and>
      (\<forall>i. row_evolves (find_operation i d0) (find (\<lambda>r. row_operation_id r = i) ops))"] show ?thesis by simp
qed

lemma Execute_evolves: "leaves_ledger mutation \<Longrightarrow> keeps (ledger_evolves d0) (Execute now t nt operation mutation)"
  unfolding Execute_def by (intro keeps_rules Admit_evolves run_admitted_evolves FailPending_evolves)

lemma serve_evolves:
  assumes "base w = None"
  shows "ledger_evolves (db w) (db (snd (serve s ctx od operation request w)))"
  using assms
proof (cases rule: serve_cases [where s = s and ctx = ctx and od = od and operation = operation and request = request])
  case (refused e w1)
  then show ?thesis by simp
next
  case (ran ref claims m mutation w1)
  note w1 = authorization_world [OF ran(4) assms]
  have "keeps (ledger_evolves (db w1)) (execute_mutation s od ref mutation)"
    unfolding execute_mutation_def by (intro keeps_rules Execute_evolves ran(3))
  from keeps_call [OF this w1(2)] w1(1) ran(5) show ?thesis by simp
qed

lemma safe_call_evolves:
  assumes "frames safeguards m" "base w = None"
  shows "ledger_evolves (db w) (db (snd (m w)))"
proof -
  have "keeps (ledger_evolves (db w)) m" by (rule frames_evolves [OF frames_operations [OF assms(1)]])
  from keeps_call [OF this assms(2)] show ?thesis by simp
qed

lemma ValidateCredential_rpc_frames: "frames safeguards (ValidateCredential_rpc env dr ctx resource)"
  unfolding ValidateCredential_rpc_def by (intro keeps_rules authorizeResource_frames status_frames)

lemma ResolveOperation_rpc_evolves: "keeps (ledger_evolves d) (ResolveOperation_rpc s ctx od operation)"
  unfolding ResolveOperation_rpc_def Resolve_def by (intro keeps_rules Resolve_evolves)

lemma mihomo_call_evolves: "mihomo_call d d' \<Longrightarrow> ledger_evolves d d'"
proof (induction rule: mihomo_call.induct)
  case (call_control w s ctx od operation request)
  then show ?case by (rule serve_evolves)
next
  case (call_resolve w s ctx od operation)
  from keeps_call [OF ResolveOperation_rpc_evolves [of "db w"] call_resolve] show ?case by simp
next
  case (call_key w env dr t now ch ctx resource p)
  then show ?case by (rule safe_call_evolves [OF GetAuthKey_rpc_frames])
next
  case (call_validate w env dr ctx resource)
  then show ?case by (rule safe_call_evolves [OF ValidateCredential_rpc_frames])
next
  case (job_retry w l ch locked now token)
  then show ?case by (rule safe_call_evolves [OF lifecycle_frames(11)])
next
  case (job_expire w l t)
  then show ?case by (rule safe_call_evolves [OF lifecycle_frames(8)])
qed

lemma mihomo_calls_evolve: "mihomo_call\<^sup>*\<^sup>* d d' \<Longrightarrow> ledger_evolves d d'"
  by (induction rule: rtranclp_induct) (auto intro: mihomo_call_evolves ledger_evolves_trans)

text \<open>An operation that was recorded as failed is answered with that record for ever.\<close>

lemma failed_operation_answer:
  assumes row: "find_operation (om_operation_id m) d = Some row" "row_state row = ''failed''"
    and ids: "operation_ids_unique d" and on: "mihomo_call\<^sup>*\<^sup>* d (db y)" and y: "base y = None"
    and served: "serve s ctx od (Some m) request y = (Inr (Some msg), y1)"
  shows "rm_state msg = OPERATION_STATE_FAILED"
proof -
  from served obtain ref claims mutation w1 where
    auth: "authorizeOperation (ct_codec s) ctx (Some m) (mutation_kind request) (mutation_action request)
       (mutation_account request) (mutation_fingerprint s (Some m) request) y = (Inr (ref, claims), w1)"
    and ex: "execute_mutation s od ref mutation w1 = (Inr (Some msg), y1)" and ll: "leaves_ledger mutation"
    by (rule serve_InrE) blast
  note w1 = authorization_world [OF auth y]
  from auth have ref: "op_operation_id ref = om_operation_id m" by (auto elim!: authorizeOperation_InrE dest: operationFromProto_Inr(1))
  have "ledger_evolves d (db y1)"
    using mihomo_calls_evolve [OF on] serve_evolves [OF y, of s ctx od "Some m" request] served
    by (auto intro: ledger_evolves_trans)
  moreover have "ledger_evolves d (db w1)" using mihomo_calls_evolve [OF on] w1 by simp
  ultimately have kept: "find_operation (om_operation_id m) (db y1) = Some row" and u: "operation_ids_unique (db w1)"
    using row ids by (auto simp: ledger_evolves_def row_evolves_def operation_states split: option.splits
      dest!: spec [of _ "om_operation_id m"])
  from ex obtain result where run: "Execute (od_now od) (od_token od) (od_new_token od) ref mutation w1 = (Inr result, y1)"
    and out: "Some msg = toOperationResult (ct_codec s) result" by (rule execute_mutation_InrE)
  from out [symmetric] obtain res where res: "result = Some res" "rm_state msg = operationState (res_state res)"
    by (rule toOperationResult_Some)
  from Execute_stored(1) [OF run w1(2) ll u] res(1) kept ref have "res = operationFromRecord row"
    by (auto simp: stored_answer_def)
  with res row(2) show ?thesis by (simp add: operationFromRecord_def operationState_def)
qed

text \<open>The same call against a ledger in which the operation has failed.\<close>

definition failed_fence_row :: platform_operation where
  "failed_fence_row = new_operation_row fence_ref ''t'' operationExecutionLease ''failed''"

definition failed_fence_db :: mihomo_db where
  "failed_fence_db = sealed_db\<lparr>operations := [failed_fence_row]\<rparr>"

lemma failed_fence_ledger:
  "find_operation (om_operation_id fence_message) failed_fence_db = Some failed_fence_row"
  "row_state failed_fence_row = ''failed''" "operation_ids_unique failed_fence_db"
  by (simp_all add: find_operation_def failed_fence_db_def failed_fence_row_def new_operation_row_def fence_ref_def
      fence_message_def unique_on_def)

lemma failed_fence_execute:
  "Execute 0 ''t'' ''n'' fence_ref (fence_mutation sample_control sample_op_draws fence_ref sample_fence_request)
     (initial_world failed_fence_db) = (Inr (Some (operationFromRecord failed_fence_row)), initial_world failed_fence_db)"
proof -
  have valid: "validateOperationRef fence_ref = None" by (simp add: validateOperationRef_def fence_ref_def)
  have "Admit 0 ''t'' fence_ref (initial_world failed_fence_db) =
      (Inr (Some (operationFromRecord failed_fence_row), False), initial_world failed_fence_db)"
    by (simp add: bigint_ok_def Admit_def Let_def transaction_def effect_simps insert_operation_def get_operation_def
        operation_row_ok_new fixed_generation_kinds_def fence_ref_def initial_world_def operation_states
        find_operation_def failed_fence_db_def failed_fence_row_def new_operation_row_def operationFromRecord_def
        operation_row_ok_def)
  with valid show ?thesis by (simp add: Execute_def effect_simps)
qed

lemma failed_fence_serve:
  obtains msg where "serve sample_control fence_context sample_op_draws (Some fence_message) (Apply_Fence sample_fence_request)
     (initial_world failed_fence_db) = (Inr (Some msg), initial_world failed_fence_db)" "rm_operation msg = fence_message"
proof -
  have fp: "authorizationFenceFingerprint sample_codec (\<lambda>m. m) (Some fence_message) sample_fence_request = fence_fingerprint"
    by (simp add: authorizationFenceFingerprint_def fence_message_def fence_fingerprint_def named_kinds_def
        sample_fence_request_def)
  have "fr_consumer_principal sample_fence_request \<noteq> ''''" "fr_minimum_grant_version sample_fence_request \<noteq> 0"
    by (simp_all add: sample_fence_request_def)
  then have "serve sample_control fence_context sample_op_draws (Some fence_message) (Apply_Fence sample_fence_request)
     (initial_world failed_fence_db) = (Inr (toOperationResult sample_codec (Some (operationFromRecord failed_fence_row))),
       initial_world failed_fence_db)"
    using failed_fence_execute
    by (simp add: serve_def ApplyAuthorizationFence_rpc_def andThen_def fp sample_fence_authorize execute_mutation_def
        map_error_def return_def)
  moreover obtain msg where "toOperationResult sample_codec (Some (operationFromRecord failed_fence_row)) = Some msg"
    "rm_operation msg = fence_message"
    by (simp add: toOperationResult_def sample_codec_def operationFromRecord_def failed_fence_row_def new_operation_row_def
        fence_ref_def fence_message_def operationKind_def named_kinds_def)
  ultimately show thesis using that by simp
qed

end
