(* ===== verification/Account_Platform.thy ===== *)
theory Account_Platform
  imports Account_Grants Mihomo_Service
begin

text \<open>
  The platform side of Account Center: \<open>service/platform/platform_service.go\<close> and
  \<open>generic_summary_proxy.go\<close>.  The service looks up the registered platform, signs control tickets for
  a binding, tells the platform the minima of a consumer, and reads the state of a binding.  The
  signer, the connections to the platform and SHA-256 are arguments; the messages are those of the
  Mihomo service.  A ticket's \<open>client_id\<close>, which no verifier reads, is left out.
\<close>

section \<open>The environment\<close>

text \<open>\<open>serviceticket.Signer\<close>: ticket type, subject, audience and claims to a signed ticket and its expiry.\<close>

type_synonym ticket_signer = "string \<Rightarrow> string \<Rightarrow> string \<Rightarrow> jwt_claims \<Rightarrow> acerror + (string \<times> instant)"

text \<open>A connection to the control service of a platform: every call carries a ticket.\<close>

record platform_connection =
  pc_mutate :: "string \<Rightarrow> operation_message \<Rightarrow> control_mutation \<Rightarrow> acerror + result_message option"
  pc_resolve :: "string \<Rightarrow> operation_message \<Rightarrow> acerror + result_message option"
  pc_binding_state :: "string \<Rightarrow> string \<Rightarrow> acerror + binding_state option"

type_synonym dialer = "string \<Rightarrow> acerror + platform_connection"

text \<open>\<open>pe_text\<close> is \<open>err.Error()\<close>.\<close>

record platform_environment =
  pe_signer :: "ticket_signer option"
  pe_dial :: "dialer option"
  pe_sha256 :: "string \<Rightarrow> string"
  pe_text :: "acerror \<Rightarrow> string"

text \<open>The calls to a platform, as the log records them: endpoint and ticket first.\<close>

datatype platform_call =
    Dialed string
  | Mutation_Sent string string operation_message control_mutation
  | Resolution_Asked string string operation_message
  | State_Read string string string

text \<open>The signer of the contracts with the signature of the library; \<open>sign\<close> is it.\<close>

definition file_signer ::
    "'k issuer_config \<Rightarrow> (jwt_token \<Rightarrow> string option) \<Rightarrow> instant \<Rightarrow> string option \<Rightarrow> ticket_signer" where
  "file_signer issuer sign now random ticketType subject audience claims =
     (case Issue issuer now random ticketType subject audience claims of
        None \<Rightarrow> Inl (PlainError ''issue service ticket'')
      | Some (token, expiresAt) \<Rightarrow>
          (case sign token of None \<Rightarrow> Inl (PlainError ''sign service ticket'') | Some raw \<Rightarrow> Inr (raw, expiresAt)))"

section \<open>Claims\<close>

definition no_claims :: jwt_claims where
  "no_claims = \<lparr>jc_actor_type = '''', jc_actor_id = '''', jc_owner_user_ref = '''', jc_entry_identity_ref = '''',
     jc_binding_ref = '''', jc_platform = '''', jc_account_key = '''', jc_consumer = '''', jc_consumer_principal = '''',
     jc_grant_version = 0, jc_owner_epoch = 0, jc_consumer_epoch = 0, jc_entry_epoch = 0, jc_credential_generation = 0,
     jc_operation_id = '''', jc_profile_ref = '''', jc_scopes = [], jc_allowed_actions = [], jc_bot_id = '''',
     jc_platform_service_key = '''', jc_issuer = '''', jc_subject = '''', jc_audience = [], jc_expires_at = None,
     jc_not_before = None, jc_issued_at = None, jc_id = ''''\<rparr>"

definition buildPlatformServiceTicketClaims ::
    "string \<Rightarrow> string \<Rightarrow> string \<Rightarrow> string \<Rightarrow> string \<Rightarrow> string list \<Rightarrow> jwt_claims" where
  "buildPlatformServiceTicketClaims actorType actorID bindingRef platform accountKey scopes =
     no_claims\<lparr>jc_actor_type := actorType, jc_actor_id := actorID, jc_platform := platform,
       jc_binding_ref := bindingRef, jc_account_key := accountKey, jc_scopes := scopes\<rparr>"

definition buildBindingScopedTicketClaims ::
    "string \<Rightarrow> string \<Rightarrow> string \<Rightarrow> string \<Rightarrow> string \<Rightarrow> string \<Rightarrow> string list \<Rightarrow> jwt_claims" where
  "buildBindingScopedTicketClaims actorType actorID bindingRef platform platformServiceKey accountKey scopes =
     (buildPlatformServiceTicketClaims actorType actorID bindingRef platform accountKey scopes)
       \<lparr>jc_platform_service_key := platformServiceKey\<rparr>"

definition isSupportedInternalActorType :: "string \<Rightarrow> bool" where
  "isSupportedInternalActorType actorType \<longleftrightarrow> actorType \<in> {''user'', ''admin'', ''consumer'', ''system''}"

definition ticketTypeForActor :: "string \<Rightarrow> string" where
  "ticketTypeForActor actorType = (if actorType = ''consumer'' then TypeDelegation else TypeControl)"

definition ticketSubject :: "string \<Rightarrow> string \<Rightarrow> string \<Rightarrow> string" where
  "ticketSubject actorType actorID ownerUserRef =
     (if actorType = ''consumer'' then ''consumer:'' @ actorID
      else if actorType = ''system'' then ''system:account-center''
      else ''user:'' @ ownerUserRef)"

definition nullableBindingExternalAccountKey :: "string option \<Rightarrow> string" where
  "nullableBindingExternalAccountKey value = (case value of None \<Rightarrow> '''' | Some v \<Rightarrow> v)"

section \<open>The registry\<close>

definition ListEnabledPlatforms :: "('l, platform_service list) aeff" where
  "ListEnabledPlatforms = aquery (\<lambda>d. sort_key svc_platform_key (filter svc_enabled (ac_services d)))"

definition GetEnabledPlatform :: "string \<Rightarrow> ('l, platform_service) aeff" where
  "GetEnabledPlatform platformKey = take_row GormRecordNotFound
     (\<lambda>d. find (\<lambda>p. svc_platform_key p = platformKey \<and> svc_enabled p) (ac_services d))"

definition getEnabledPlatformService :: "string \<Rightarrow> string \<Rightarrow> ('l, platform_service) aeff" where
  "getEnabledPlatformService platformKey serviceKey = take_row GormRecordNotFound
     (\<lambda>d. find (\<lambda>p. svc_platform_key p = platformKey \<and> svc_service_key p = serviceKey \<and> svc_enabled p) (ac_services d))"

text \<open>A missing platform is reported as unavailable.\<close>

definition absent_unavailable :: "acerror \<Rightarrow> acerror" where
  "absent_unavailable err = (if errors_is err GormRecordNotFound then ErrPlatformServiceUnavailable else err)"

section \<open>Tickets for a binding\<close>

definition ticketable :: "string \<Rightarrow> string \<Rightarrow> account_binding \<Rightarrow> string list \<Rightarrow> bool" where
  "ticketable actorType actorID binding scopes \<longleftrightarrow>
     pb_binding_ref binding \<noteq> '''' \<and> pb_platform_service_key binding \<noteq> '''' \<and> pb_owner_user_id binding \<noteq> 0 \<and>
     length scopes = 1 \<and> hd scopes \<noteq> '''' \<and> actorType \<noteq> '''' \<and> actorID \<noteq> '''' \<and> isSupportedInternalActorType actorType"

definition binding_claims ::
    "string \<Rightarrow> string \<Rightarrow> account_binding \<Rightarrow> user_row \<Rightarrow> string \<Rightarrow> string \<Rightarrow> string list \<Rightarrow> jwt_claims" where
  "binding_claims actorType actorID binding owner profileRef operationID scopes =
     (buildBindingScopedTicketClaims actorType actorID (pb_binding_ref binding) (pb_platform binding)
        (pb_platform_service_key binding) (nullableBindingExternalAccountKey (pb_external_account_key binding)) scopes)
     \<lparr>jc_owner_user_ref := usr_user_ref owner, jc_owner_epoch := usr_owner_epoch owner,
      jc_credential_generation := pb_generation binding, jc_operation_id := operationID,
      jc_profile_ref := profileRef, jc_allowed_actions := scopes\<rparr>"

definition issueBindingScopedTicket ::
    "platform_environment \<Rightarrow> string \<Rightarrow> string \<Rightarrow> account_binding \<Rightarrow> string \<Rightarrow> string \<Rightarrow> string list \<Rightarrow>
     ('l, string \<times> instant) aeff" where
  "issueBindingScopedTicket env actorType actorID binding profileRef operationID scopes =
     (case pe_signer env of
        None \<Rightarrow> raise ErrInvalidTicketConfig
      | Some issue \<Rightarrow>
          if \<not> ticketable actorType actorID binding scopes then raise ErrInvalidTicketConfig
          else andThen (map_error absent_unavailable (GetEnabledPlatform (pb_platform binding))) (\<lambda>platformRow.
               andThen (take_row GormRecordNotFound (live_user (pb_owner_user_id binding))) (\<lambda>owner.
               lift_result (issue (ticketTypeForActor actorType)
                 (ticketSubject actorType actorID (usr_user_ref owner)) (svc_service_audience platformRow)
                 (binding_claims actorType actorID binding owner profileRef operationID scopes)))))"

definition IssueBindingScopedTicket ::
    "platform_environment \<Rightarrow> string \<Rightarrow> string \<Rightarrow> account_binding \<Rightarrow> string list \<Rightarrow> ('l, string \<times> instant) aeff" where
  "IssueBindingScopedTicket env actorType actorID binding scopes =
     issueBindingScopedTicket env actorType actorID binding '''' '''' scopes"

definition IssueBindingScopedOperationTicket ::
    "platform_environment \<Rightarrow> string \<Rightarrow> string \<Rightarrow> account_binding \<Rightarrow> string \<Rightarrow> string list \<Rightarrow> ('l, string \<times> instant) aeff" where
  "IssueBindingScopedOperationTicket env actorType actorID binding operationID scopes =
     (if operationID = '''' then raise ErrInvalidTicketConfig
      else issueBindingScopedTicket env actorType actorID binding '''' operationID scopes)"

definition IssueProfileScopedOperationTicket ::
    "platform_environment \<Rightarrow> string \<Rightarrow> string \<Rightarrow> account_binding \<Rightarrow> string \<Rightarrow> string \<Rightarrow> string list \<Rightarrow>
     ('l, string \<times> instant) aeff" where
  "IssueProfileScopedOperationTicket env actorType actorID binding profileRef operationID scopes =
     (if profileRef = '''' \<or> operationID = '''' then raise ErrInvalidTicketConfig
      else issueBindingScopedTicket env actorType actorID binding profileRef operationID scopes)"

section \<open>Telling the platform\<close>

definition isPlatformUnavailableRPCError :: "acerror \<Rightarrow> bool" where
  "isPlatformUnavailableRPCError err \<longleftrightarrow>
     errors_is err ContextDeadlineExceeded \<or> status_from_error err \<in> {Some Unavailable, Some DeadlineExceeded}"

definition fence_kind :: string where
  "fence_kind = ''OPERATION_KIND_APPLY_AUTHORIZATION_FENCE''"

definition fence_operation :: "platform_environment \<Rightarrow> GrantInvalidationInput \<Rightarrow> operation_message" where
  "fence_operation env input =
     (let fingerprint = AuthorizationFenceFingerprint (pe_sha256 env) fence_kind (gi_binding_ref input) (gi_consumer input)
            (gi_generation input) (gi_minimum_grant_version input) 0 0 (gi_minimum_entry_epoch input)
      in \<lparr>om_operation_id = DeterministicID (pe_sha256 env) fingerprint,
          om_kind = OPERATION_KIND_APPLY_AUTHORIZATION_FENCE, om_binding_ref = gi_binding_ref input,
          om_pre_generation = gi_generation input, om_target_generation = gi_generation input,
          om_request_fingerprint = fingerprint\<rparr>)"

definition input_fence :: "GrantInvalidationInput \<Rightarrow> fence_request" where
  "input_fence input = \<lparr>fr_consumer_principal = gi_consumer input,
     fr_minimum_grant_version = gi_minimum_grant_version input, fr_minimum_owner_epoch = 0,
     fr_minimum_consumer_epoch = 0, fr_minimum_entry_epoch = gi_minimum_entry_epoch input\<rparr>"

text \<open>The actor a fence is told in the name of.\<close>

definition fence_actor :: "GrantInvalidationInput \<Rightarrow> string \<times> string" where
  "fence_actor input =
     (if gi_actor_type input = '''' \<or> gi_actor_id input = '''' \<or> gi_actor_type input = ''consumer''
      then (''user'', ''system:grant-revoke'') else (gi_actor_type input, gi_actor_id input))"

definition fence_claims :: "platform_environment \<Rightarrow> GrantInvalidationInput \<Rightarrow> user_row \<Rightarrow> jwt_claims" where
  "fence_claims env input owner =
     (buildBindingScopedTicketClaims (fst (fence_actor input)) (snd (fence_actor input)) (gi_binding_ref input)
        (gi_platform input) (gi_platform_service_key input) '''' [MihomoAuthorizationFenceApply])
     \<lparr>jc_owner_user_ref := usr_user_ref owner, jc_owner_epoch := usr_owner_epoch owner,
      jc_credential_generation := gi_generation input, jc_operation_id := om_operation_id (fence_operation env input),
      jc_allowed_actions := [MihomoAuthorizationFenceApply]\<rparr>"

definition fence_accepted :: "operation_message \<Rightarrow> result_message option \<Rightarrow> bool" where
  "fence_accepted operation resp = (case resp of
       None \<Rightarrow> False
     | Some r \<Rightarrow> rm_state r = OPERATION_STATE_SUCCEEDED \<and> rm_operation r = operation)"

definition unavailable_as :: "platform_environment \<Rightarrow> acerror \<Rightarrow> acerror" where
  "unavailable_as env err = WrappedErr ErrPlatformServiceUnavailable (pe_text env err)"

definition send_fence ::
    "platform_environment \<Rightarrow> string \<Rightarrow> string \<Rightarrow> operation_message \<Rightarrow> fence_request \<Rightarrow> (platform_call, unit) aeff" where
  "send_fence env endpoint token operation fence =
     (case pe_dial env of
        None \<Rightarrow> raise ErrControlTransportNotConfigured
      | Some dial \<Rightarrow>
          andThen (map_error (unavailable_as env) (external (Dialed endpoint) (dial endpoint))) (\<lambda>conn.
          andThen (map_error (\<lambda>err. if isPlatformUnavailableRPCError err then unavailable_as env err else err)
            (external (Mutation_Sent endpoint token operation (Apply_Fence fence))
              (pc_mutate conn token operation (Apply_Fence fence)))) (\<lambda>resp.
          if fence_accepted operation resp then return () else raise ErrConsumerGrantInvalidationRejected)))"

definition fenceable :: "GrantInvalidationInput \<Rightarrow> bool" where
  "fenceable input \<longleftrightarrow> gi_binding_ref input \<noteq> '''' \<and> gi_platform input \<noteq> '''' \<and>
     gi_platform_service_key input \<noteq> '''' \<and> gi_consumer input \<noteq> '''' \<and> gi_minimum_grant_version input \<noteq> 0"

definition InvalidateConsumerGrant :: "platform_environment \<Rightarrow> GrantInvalidationInput \<Rightarrow> (platform_call, unit) aeff" where
  "InvalidateConsumerGrant env input =
     (case pe_signer env of
        None \<Rightarrow> raise ErrInvalidTicketConfig
      | Some issue \<Rightarrow>
          if \<not> fenceable input then raise ErrInvalidTicketConfig
          else andThen (map_error absent_unavailable
                 (getEnabledPlatformService (gi_platform input) (gi_platform_service_key input))) (\<lambda>platformRow.
               if fst (fence_actor input) \<noteq> ''user'' \<and> fst (fence_actor input) \<noteq> ''admin''
               then raise ErrInvalidTicketConfig
               else andThen (take_row GormRecordNotFound (live_user (gi_owner_user_id input))) (\<lambda>owner.
               andThen (lift_result (issue TypeControl
                   (ticketSubject (fst (fence_actor input)) (snd (fence_actor input)) (usr_user_ref owner))
                   (svc_service_audience platformRow) (fence_claims env input owner))) (\<lambda>(token, _).
               send_fence env (svc_control_endpoint platformRow) token (fence_operation env input)
                 (input_fence input)))))"

section \<open>Reading a binding\<close>

record summary_view =
  sv_platform_account_id :: string
  sv_generation :: u64
  sv_status :: string
  sv_last_validated_at :: "instant option"
  sv_last_refreshed_at :: "instant option"
  sv_profiles :: "proto_profile list"
  sv_profile_snapshot_complete :: bool
  sv_profile_revision :: u64
  sv_profile_observed_revision :: u64

definition mapGenericCredentialStatus :: "proto_credential_status \<Rightarrow> string" where
  "mapGenericCredentialStatus status = (case status of
       CREDENTIAL_STATUS_ACTIVE \<Rightarrow> ''active''
     | CREDENTIAL_STATUS_EXPIRED \<Rightarrow> ''expired''
     | CREDENTIAL_STATUS_INVALID \<Rightarrow> ''invalid''
     | CREDENTIAL_STATUS_CHALLENGE_REQUIRED \<Rightarrow> ''challenge_required''
     | _ \<Rightarrow> ''unspecified'')"

definition snapshot_or_empty :: "profile_snapshot option \<Rightarrow> profile_snapshot" where
  "snapshot_or_empty s = (case s of
       None \<Rightarrow> \<lparr>ps_profiles = [], ps_complete = False, ps_revision = 0, ps_observed_revision = 0\<rparr>
     | Some x \<Rightarrow> x)"

text \<open>\<open>time.RFC3339\<close> drops the fraction of the second.\<close>

definition formatProtoTime :: "instant option \<Rightarrow> instant option" where
  "formatProtoTime value = map_option (\<lambda>t. t - t mod second) value"

definition summary_of_state :: "binding_state \<Rightarrow> summary_view" where
  "summary_of_state state =
     (let snapshot = snapshot_or_empty (bs_snapshot state) in
      \<lparr>sv_platform_account_id = bs_account_key state, sv_generation = bs_generation state,
       sv_status = mapGenericCredentialStatus (bs_status state),
       sv_last_validated_at = formatProtoTime (bs_last_validated_at state),
       sv_last_refreshed_at = formatProtoTime (bs_last_refreshed_at state),
       sv_profiles = ps_profiles snapshot, sv_profile_snapshot_complete = ps_complete snapshot,
       sv_profile_revision = ps_revision snapshot, sv_profile_observed_revision = ps_observed_revision snapshot\<rparr>)"

definition GenericSummary_GetCredentialSummary ::
    "dialer \<Rightarrow> string \<Rightarrow> string \<Rightarrow> string \<Rightarrow> string \<Rightarrow> (platform_call, summary_view) aeff" where
  "GenericSummary_GetCredentialSummary dial endpoint ticket bindingRef accountKey =
     andThen (external (Dialed endpoint) (dial endpoint)) (\<lambda>conn.
     andThen (external (State_Read endpoint ticket bindingRef) (pc_binding_state conn ticket bindingRef)) (\<lambda>resp.
     case resp of
       None \<Rightarrow> raise ErrPlatformServiceUnavailable
     | Some state \<Rightarrow>
         if \<not> bs_exists state \<or> bs_binding_ref state \<noteq> bindingRef \<or> bs_account_key state \<noteq> accountKey
         then raise ErrPlatformServiceUnavailable else return (summary_of_state state)))"

definition GetBindingRuntimeSummary_platform ::
    "platform_environment \<Rightarrow> string \<Rightarrow> string \<Rightarrow> account_binding \<Rightarrow> string list \<Rightarrow> (platform_call, summary_view) aeff" where
  "GetBindingRuntimeSummary_platform env actorType actorID binding scopes =
     (if pb_external_account_key binding = None then raise GormRecordNotFound
      else case pe_dial env of
        None \<Rightarrow> raise ErrPlatformSummaryProxyUnavailable
      | Some dial \<Rightarrow>
          andThen (map_error absent_unavailable (GetEnabledPlatform (pb_platform binding))) (\<lambda>platformRow.
          andThen (IssueBindingScopedTicket env actorType actorID binding scopes) (\<lambda>(ticket, _).
          GenericSummary_GetCredentialSummary dial (svc_control_endpoint platformRow) ticket (pb_binding_ref binding)
            (nullableBindingExternalAccountKey (pb_external_account_key binding)))))"

section \<open>What a confirmed fence says\<close>

lemma platform_frames [keeps_rules]:
  "frames f (GetEnabledPlatform k)" "frames f (getEnabledPlatformService k s)"
  "frames f (issueBindingScopedTicket env at ai b p oid scopes)"
  unfolding GetEnabledPlatform_def getEnabledPlatformService_def issueBindingScopedTicket_def
  by (intro keeps_rules select_one_rules)+

lemma InvalidateConsumerGrant_frames: "frames f (InvalidateConsumerGrant env input)"
  unfolding InvalidateConsumerGrant_def send_fence_def by (intro keeps_rules select_one_rules)

lemma InvalidateConsumerGrant_reads: "invalidator_reads (Some (InvalidateConsumerGrant env))"
  by (simp add: invalidator_reads_def InvalidateConsumerGrant_frames)

lemma send_fence_InrE:
  assumes "send_fence env endpoint token operation fence w = (Inr u, w')"
  obtains dial conn r where "pe_dial env = Some dial" "dial endpoint = Inr conn"
    "pc_mutate conn token operation (Apply_Fence fence) = Inr (Some r)" "rm_state r = OPERATION_STATE_SUCCEEDED"
    "rm_operation r = operation"
  using assms unfolding send_fence_def
  by (auto elim!: andThen_InrE map_error_InrE external_InrE raise_InrE simp: fence_accepted_def
      split: option.splits if_splits)

text \<open>The ticket a fence is sent with.\<close>

definition fence_ticket :: "platform_environment \<Rightarrow> account_db \<Rightarrow> GrantInvalidationInput \<Rightarrow> string \<Rightarrow> bool" where
  "fence_ticket env d input token \<longleftrightarrow> (\<exists>issue owner row expires.
     pe_signer env = Some issue \<and> live_user (gi_owner_user_id input) d = Some owner \<and>
     row \<in> set (ac_services d) \<and> svc_enabled row \<and> svc_platform_key row = gi_platform input \<and>
     issue TypeControl (ticketSubject (fst (fence_actor input)) (snd (fence_actor input)) (usr_user_ref owner))
       (svc_service_audience row) (fence_claims env input owner) = Inr (token, expires))"

lemma InvalidateConsumerGrant_InrE:
  assumes "InvalidateConsumerGrant env input w = (Inr u, w')"
  obtains dial endpoint conn token r where "fenceable input" "fence_ticket env (db w) input token"
    "pe_dial env = Some dial" "dial endpoint = Inr conn"
    "pc_mutate conn token (fence_operation env input) (Apply_Fence (input_fence input)) = Inr (Some r)"
    "rm_state r = OPERATION_STATE_SUCCEEDED" "rm_operation r = fence_operation env input"
proof -
  from assms obtain issue where issue: "pe_signer env = Some issue" and ok: "fenceable input"
    and run: "andThen (map_error absent_unavailable
        (getEnabledPlatformService (gi_platform input) (gi_platform_service_key input))) (\<lambda>platformRow.
      if fst (fence_actor input) \<noteq> ''user'' \<and> fst (fence_actor input) \<noteq> ''admin'' then raise ErrInvalidTicketConfig
      else andThen (take_row GormRecordNotFound (live_user (gi_owner_user_id input))) (\<lambda>owner.
      andThen (lift_result (issue TypeControl
          (ticketSubject (fst (fence_actor input)) (snd (fence_actor input)) (usr_user_ref owner))
          (svc_service_audience platformRow) (fence_claims env input owner))) (\<lambda>(token, _).
      send_fence env (svc_control_endpoint platformRow) token (fence_operation env input) (input_fence input)))) w = (Inr u, w')"
    unfolding InvalidateConsumerGrant_def by (auto simp: raise_def split: option.splits if_splits)
  from run obtain row w1 where row: "getEnabledPlatformService (gi_platform input) (gi_platform_service_key input) w = (Inr row, w1)"
    and rest: "(if fst (fence_actor input) \<noteq> ''user'' \<and> fst (fence_actor input) \<noteq> ''admin'' then raise ErrInvalidTicketConfig
      else andThen (take_row GormRecordNotFound (live_user (gi_owner_user_id input))) (\<lambda>owner.
      andThen (lift_result (issue TypeControl
          (ticketSubject (fst (fence_actor input)) (snd (fence_actor input)) (usr_user_ref owner))
          (svc_service_audience row) (fence_claims env input owner))) (\<lambda>(token, _).
      send_fence env (svc_control_endpoint row) token (fence_operation env input) (input_fence input)))) w1 = (Inr u, w')"
    by (elim andThen_InrE map_error_InrE)
  from row have r: "db w1 = db w" "row \<in> set (ac_services (db w))" "svc_enabled row" "svc_platform_key row = gi_platform input"
    unfolding getEnabledPlatformService_def by (auto elim!: select_one_InrE dest!: find_SomeD)
  from rest obtain owner token expires w2 where owner: "live_user (gi_owner_user_id input) (db w) = Some owner"
    and issued: "issue TypeControl (ticketSubject (fst (fence_actor input)) (snd (fence_actor input)) (usr_user_ref owner))
          (svc_service_audience row) (fence_claims env input owner) = Inr (token, expires)"
    and sent: "send_fence env (svc_control_endpoint row) token (fence_operation env input) (input_fence input) w2 = (Inr u, w')"
    using r(1) by (auto elim!: andThen_InrE select_one_InrE lift_result_InrE raise_InrE split: if_splits)
  have "fence_ticket env (db w) input token" using issue owner issued r unfolding fence_ticket_def by blast
  with sent ok that show thesis by (elim send_fence_InrE) blast
qed

end
