(* ===== verification/Account_Gateway.thy ===== *)
theory Account_Gateway
  imports Account_Platform
begin

text \<open>
  The calls Account Center makes to the control service of a platform:
  \<open>service/platformbinding/credential_gateway.go\<close> and \<open>credential_operation_gateway.go\<close>, with the
  runtime summaries of \<open>runtime_summary_service.go\<close>.  Every call names its operation, and its
  answer counts only when it names the same one.  The map a gateway builds is \<open>summary_view\<close>.
\<close>

section \<open>Operations on the wire\<close>

text \<open>\<open>kind.String()\<close> of the kinds the gateway uses.\<close>

definition kind_name :: "operation_kind \<Rightarrow> string" where
  "kind_name kind = (case find (\<lambda>e. snd e = kind) named_kinds of Some e \<Rightarrow> fst e | None \<Rightarrow> '''')"

definition newOperationRef ::
    "(string \<Rightarrow> string) \<Rightarrow> account_binding \<Rightarrow> operation_kind \<Rightarrow> string \<Rightarrow> operation_message" where
  "newOperationRef sha256 binding kind operationID =
     \<lparr>om_operation_id = operationID, om_kind = kind, om_binding_ref = pb_binding_ref binding,
      om_pre_generation = pb_generation binding, om_target_generation = pb_generation binding + 1,
      om_request_fingerprint = Fingerprint sha256 (kind_name kind) (pb_binding_ref binding)
        (pb_generation binding) (pb_generation binding + 1)\<rparr>"

definition newPrimaryProfileOperationRef ::
    "(string \<Rightarrow> string) \<Rightarrow> account_binding \<Rightarrow> string \<Rightarrow> string \<Rightarrow> operation_message" where
  "newPrimaryProfileOperationRef sha256 binding operationID profileRef =
     \<lparr>om_operation_id = operationID, om_kind = OPERATION_KIND_SET_PRIMARY_PROFILE,
      om_binding_ref = pb_binding_ref binding,
      om_pre_generation = pb_generation binding, om_target_generation = pb_generation binding,
      om_request_fingerprint = PrimaryProfileFingerprint sha256 (kind_name OPERATION_KIND_SET_PRIMARY_PROFILE)
        (pb_binding_ref binding) profileRef (pb_generation binding) (pb_profile_revision binding)\<rparr>"

definition bindingExternalAccountKey :: "account_binding \<Rightarrow> string" where
  "bindingExternalAccountKey binding = (case pb_external_account_key binding of None \<Rightarrow> '''' | Some k \<Rightarrow> k)"

section \<open>Answers\<close>

definition requireSucceededOperationResult ::
    "result_message option \<Rightarrow> operation_message option \<Rightarrow> acerror + unit" where
  "requireSucceededOperationResult result expected = (case result of
       None \<Rightarrow> Inl ErrGenericCredentialSummaryRequired
     | Some r \<Rightarrow>
         if rm_state r \<noteq> OPERATION_STATE_SUCCEEDED then Inl ErrGenericCredentialOperationFailed
         else (case expected of
             None \<Rightarrow> Inr ()
           | Some operation \<Rightarrow>
               if rm_operation r \<noteq> operation then Inl ErrGenericCredentialOperationMismatch else Inr ()))"

definition genericCredentialStatus :: "proto_credential_status \<Rightarrow> string" where
  "genericCredentialStatus status = mapGenericCredentialStatus status"

definition result_view :: "result_message \<Rightarrow> summary_view" where
  "result_view r =
     \<lparr>sv_platform_account_id = rm_account_key r, sv_generation = om_target_generation (rm_operation r),
      sv_status = genericCredentialStatus (rm_credential_status r),
      sv_last_validated_at = formatProtoTime (rm_last_validated_at r),
      sv_last_refreshed_at = formatProtoTime (rm_last_refreshed_at r),
      sv_profiles = ps_profiles (rm_snapshot r), sv_profile_snapshot_complete = ps_complete (rm_snapshot r),
      sv_profile_revision = ps_revision (rm_snapshot r),
      sv_profile_observed_revision = ps_observed_revision (rm_snapshot r)\<rparr>"

definition genericOperationResultMapForOperation ::
    "result_message option \<Rightarrow> operation_message option \<Rightarrow> acerror + summary_view" where
  "genericOperationResultMapForOperation result expected =
     (case requireSucceededOperationResult result expected of
        Inl e \<Rightarrow> Inl e | Inr _ \<Rightarrow> Inr (result_view (the result)))"

text \<open>\<open>decodeRuntimeSummary\<close> takes the map through JSON: a level comes back as a number, an id and a
  source time are never there.\<close>

definition decoded_profile :: "proto_profile \<Rightarrow> raw_profile" where
  "decoded_profile p =
     \<lparr>rp_profile_ref = Mihomo_Views.proto_profile.pp_profile_ref p, rp_id = 0, rp_player_id = pp_player_id p,
      rp_game_biz = Mihomo_Views.proto_profile.pp_game_biz p, rp_region = Mihomo_Views.proto_profile.pp_region p,
      rp_nickname = Mihomo_Views.proto_profile.pp_nickname p,
      rp_level = Some (Mihomo_Views.proto_profile.pp_level p), rp_is_default = pp_is_default p,
      rp_source_updated_at = None\<rparr>"

definition decodeRuntimeSummary :: "summary_view \<Rightarrow> acerror + RuntimeSummary" where
  "decodeRuntimeSummary raw = Inr
     \<lparr>rs_platform_account_id = sv_platform_account_id raw, rs_generation = sv_generation raw,
      rs_status = sv_status raw, rs_last_validated_at = sv_last_validated_at raw,
      rs_last_refreshed_at = sv_last_refreshed_at raw, rs_profiles = map decoded_profile (sv_profiles raw),
      rs_profile_snapshot_complete = sv_profile_snapshot_complete raw,
      rs_profile_revision = sv_profile_revision raw,
      rs_profile_observed_revision = sv_profile_observed_revision raw\<rparr>"

section \<open>The gateway\<close>

definition dial_platform :: "platform_environment \<Rightarrow> string \<Rightarrow> (platform_call, platform_connection) aeff" where
  "dial_platform env endpoint = (case pe_dial env of
       None \<Rightarrow> raise ErrControlTransportNotConfigured
     | Some dial \<Rightarrow> external (Dialed endpoint) (dial endpoint))"

definition control_call ::
    "platform_environment \<Rightarrow> string \<Rightarrow> string \<Rightarrow> operation_message \<Rightarrow> control_mutation \<Rightarrow>
     (platform_call, result_message option) aeff" where
  "control_call env endpoint ticket operation request =
     andThen (dial_platform env endpoint) (\<lambda>conn.
     external (Mutation_Sent endpoint ticket operation request) (pc_mutate conn ticket operation request))"

definition summary_call ::
    "platform_environment \<Rightarrow> string \<Rightarrow> string \<Rightarrow> operation_message \<Rightarrow> control_mutation \<Rightarrow>
     (platform_call, summary_view) aeff" where
  "summary_call env endpoint ticket operation request =
     andThen (control_call env endpoint ticket operation request) (\<lambda>resp.
     lift_result (genericOperationResultMapForOperation resp (Some operation)))"

definition gateway_BindCredential ::
    "platform_environment \<Rightarrow> string \<Rightarrow> string \<Rightarrow> string \<Rightarrow> account_binding \<Rightarrow> string \<Rightarrow>
     (platform_call, summary_view) aeff" where
  "gateway_BindCredential env endpoint ticket operationID binding payload =
     summary_call env endpoint ticket
       (newOperationRef (pe_sha256 env) binding OPERATION_KIND_BIND_CREDENTIAL operationID)
       (Bind_Credential payload)"

definition gateway_ReplaceCredential ::
    "platform_environment \<Rightarrow> string \<Rightarrow> string \<Rightarrow> string \<Rightarrow> account_binding \<Rightarrow> string \<Rightarrow>
     (platform_call, summary_view) aeff" where
  "gateway_ReplaceCredential env endpoint ticket operationID binding payload =
     summary_call env endpoint ticket
       (newOperationRef (pe_sha256 env) binding OPERATION_KIND_REPLACE_CREDENTIAL operationID)
       (Replace_Credential (bindingExternalAccountKey binding) payload)"

definition gateway_RefreshCredential ::
    "platform_environment \<Rightarrow> string \<Rightarrow> string \<Rightarrow> string \<Rightarrow> account_binding \<Rightarrow>
     (platform_call, RuntimeSummary) aeff" where
  "gateway_RefreshCredential env endpoint ticket operationID binding =
     andThen (summary_call env endpoint ticket
       (newOperationRef (pe_sha256 env) binding OPERATION_KIND_REFRESH_CREDENTIAL operationID)
       (Refresh_Credential (bindingExternalAccountKey binding)))
     (\<lambda>summary. lift_result (decodeRuntimeSummary summary))"

definition gateway_DeleteCredential ::
    "platform_environment \<Rightarrow> string \<Rightarrow> string \<Rightarrow> string \<Rightarrow> account_binding \<Rightarrow> (platform_call, unit) aeff" where
  "gateway_DeleteCredential env endpoint ticket operationID binding =
     (let operation = newOperationRef (pe_sha256 env) binding OPERATION_KIND_DELETE_CREDENTIAL operationID in
      andThen (control_call env endpoint ticket operation
        (Delete_Credential (bindingExternalAccountKey binding))) (\<lambda>resp.
      lift_result (requireSucceededOperationResult resp (Some operation))))"

definition gateway_SetPrimaryProfile ::
    "platform_environment \<Rightarrow> string \<Rightarrow> string \<Rightarrow> string \<Rightarrow> account_binding \<Rightarrow> string \<Rightarrow>
     (platform_call, RuntimeSummary) aeff" where
  "gateway_SetPrimaryProfile env endpoint ticket operationID binding profileRef =
     andThen (summary_call env endpoint ticket
       (newPrimaryProfileOperationRef (pe_sha256 env) binding operationID profileRef)
       (Set_Primary \<lparr>pr_account_key = bindingExternalAccountKey binding, pr_profile_ref = profileRef,
          pr_expected_revision = pb_profile_revision binding\<rparr>))
     (\<lambda>summary. lift_result (decodeRuntimeSummary summary))"

section \<open>Asking for an outcome\<close>

datatype remote_state =
    CredentialRemoteOperationPending
  | CredentialRemoteOperationSucceeded
  | CredentialRemoteOperationFailed
  | CredentialRemoteOperationNotReceived
  | CredentialRemoteOperationFailedInputRequired

record CredentialOperationResolution =
  cr_state :: remote_state
  cr_reason_code :: string
  cr_summary :: "RuntimeSummary option"

record CredentialBindingState =
  cs_exists :: bool
  cs_summary :: "RuntimeSummary option"

definition credentialOperationReferenceProto :: "CredentialOperationReference \<Rightarrow> acerror + operation_message" where
  "credentialOperationReferenceProto reference = (case map_of named_kinds (or_kind reference) of
       None \<Rightarrow> Inl ErrInvalidBindingMutation
     | Some kind \<Rightarrow>
         if or_operation_id reference = '''' \<or> or_binding_ref reference = '''' \<or> or_request_fingerprint reference = '''' \<or>
            or_target_generation reference \<noteq> or_pre_generation reference + 1
         then Inl ErrInvalidBindingMutation
         else Inr \<lparr>om_operation_id = or_operation_id reference, om_kind = kind,
                om_binding_ref = or_binding_ref reference, om_pre_generation = or_pre_generation reference,
                om_target_generation = or_target_generation reference,
                om_request_fingerprint = or_request_fingerprint reference\<rparr>)"

definition resolution_of :: "operation_message \<Rightarrow> result_message \<Rightarrow> acerror + CredentialOperationResolution" where
  "resolution_of operation result =
     (let resolved = \<lambda>st. Inr \<lparr>cr_state = st, cr_reason_code = rm_reason_code result, cr_summary = None\<rparr> in
      case rm_state result of
        OPERATION_STATE_PENDING \<Rightarrow> resolved CredentialRemoteOperationPending
      | OPERATION_STATE_SUCCEEDED \<Rightarrow>
          (case genericOperationResultMapForOperation (Some result) (Some operation) of
             Inl e \<Rightarrow> Inl e
           | Inr view \<Rightarrow> (case decodeRuntimeSummary view of
               Inl e \<Rightarrow> Inl e
             | Inr summary \<Rightarrow> Inr \<lparr>cr_state = CredentialRemoteOperationSucceeded,
                 cr_reason_code = rm_reason_code result, cr_summary = Some summary\<rparr>))
      | OPERATION_STATE_FAILED \<Rightarrow> resolved CredentialRemoteOperationFailed
      | OPERATION_STATE_NOT_RECEIVED \<Rightarrow> resolved CredentialRemoteOperationNotReceived
      | OPERATION_STATE_FAILED_INPUT_REQUIRED \<Rightarrow> resolved CredentialRemoteOperationFailedInputRequired
      | _ \<Rightarrow> Inl ErrGenericCredentialOperationFailed)"

definition ResolveCredentialOperation ::
    "platform_environment \<Rightarrow> string \<Rightarrow> string \<Rightarrow> CredentialOperationReference \<Rightarrow>
     (platform_call, CredentialOperationResolution) aeff" where
  "ResolveCredentialOperation env endpoint ticket reference =
     andThen (lift_result (credentialOperationReferenceProto reference)) (\<lambda>operation.
     andThen (dial_platform env endpoint) (\<lambda>conn.
     andThen (external (Resolution_Asked endpoint ticket operation) (pc_resolve conn ticket operation)) (\<lambda>resp.
     case resp of
       None \<Rightarrow> raise ErrGenericCredentialSummaryRequired
     | Some result \<Rightarrow>
         if rm_operation result \<noteq> operation then raise ErrGenericCredentialOperationMismatch
         else lift_result (resolution_of operation result))))"

definition runtimeSummaryFromBindingState :: "binding_state \<Rightarrow> RuntimeSummary" where
  "runtimeSummaryFromBindingState state =
     (let snapshot = snapshot_or_empty (bs_snapshot state) in
      \<lparr>rs_platform_account_id = bs_account_key state, rs_generation = bs_generation state,
       rs_status = genericCredentialStatus (bs_status state),
       rs_last_validated_at = formatProtoTime (bs_last_validated_at state),
       rs_last_refreshed_at = formatProtoTime (bs_last_refreshed_at state),
       rs_profiles = map decoded_profile (ps_profiles snapshot),
       rs_profile_snapshot_complete = ps_complete snapshot, rs_profile_revision = ps_revision snapshot,
       rs_profile_observed_revision = ps_observed_revision snapshot\<rparr>)"

definition GetCredentialBindingState ::
    "platform_environment \<Rightarrow> string \<Rightarrow> string \<Rightarrow> string \<Rightarrow> (platform_call, CredentialBindingState) aeff" where
  "GetCredentialBindingState env endpoint ticket bindingRef =
     (if bindingRef = '''' then raise ErrInvalidBindingMutation
      else andThen (dial_platform env endpoint) (\<lambda>conn.
        andThen (external (State_Read endpoint ticket bindingRef) (pc_binding_state conn ticket bindingRef)) (\<lambda>resp.
        case resp of
          None \<Rightarrow> raise ErrGenericCredentialOperationMismatch
        | Some state \<Rightarrow>
            if bs_binding_ref state \<noteq> bindingRef then raise ErrGenericCredentialOperationMismatch
            else if \<not> bs_exists state then return \<lparr>cs_exists = False, cs_summary = None\<rparr>
            else return \<lparr>cs_exists = True, cs_summary = Some (runtimeSummaryFromBindingState state)\<rparr>)))"
end
