(* ===== verification/Account_Orchestration.thy ===== *)
theory Account_Orchestration
  imports Account_Gateway
begin

text \<open>
  The operations of Account Center that a platform carries out:
  \<open>service/platformbinding/orchestration_service.go\<close>, \<open>credential_operation_coordination.go\<close>,
  \<open>credential_operation_reconcile.go\<close>, \<open>primary_profile_orchestration.go\<close>,
  \<open>authoritative_summary_projection.go\<close> and \<open>runtime_summary_service.go\<close>, wired as \<open>NewServiceGroup\<close>
  does: the intent store, the profile projection, the audit and a gateway are always there.  Each
  operation admits an intent, calls the platform, projects the answer and closes the intent; what a
  crash or a failure in between leaves is picked up by \<open>ReconcileCredentialOperation\<close>.
\<close>

section \<open>The environment\<close>

text \<open>The platform, the clock reading of the call, the random bytes of \<open>NewID\<close>, and the references
  drawn for a new binding and for new profiles.\<close>

record orchestration =
  oc_platform :: platform_environment
  oc_now :: instant
  oc_random :: "string option"
  oc_binding_ref :: string
  oc_profile_refs :: "nat \<Rightarrow> string"

definition oc_retry_at :: "orchestration \<Rightarrow> instant" where
  "oc_retry_at oc = oc_now oc + credentialOperationRetryDelay"

definition new_operation_id :: "orchestration \<Rightarrow> (platform_call, string) aeff" where
  "new_operation_id oc = (case NewID (oc_random oc) of
       None \<Rightarrow> raise (PlainError ''generate operation id'') | Some i \<Rightarrow> return i)"

definition binding_platform :: "account_binding \<Rightarrow> (platform_call, platform_service) aeff" where
  "binding_platform binding = map_error absent_unavailable (GetEnabledPlatform (pb_platform binding))"

section \<open>Errors and audit\<close>

definition IsCredentialOperationOutcomeUnknown :: "acerror \<Rightarrow> bool" where
  "IsCredentialOperationOutcomeUnknown err \<longleftrightarrow>
     errors_is err ContextCanceled \<or> errors_is err ContextDeadlineExceeded \<or>
     status_from_error err \<in> Some ` {Canceled, Code_Unknown, DeadlineExceeded, Unavailable} \<or>
     IsExecutionPlaneUnavailableError err"

definition isCredentialOwnershipConflict :: "acerror \<Rightarrow> bool" where
  "isCredentialOwnershipConflict err \<longleftrightarrow> grpc_status_code err = AlreadyExists"

definition reasonCode :: "acerror \<Rightarrow> string" where
  "reasonCode err =
     (if errors_is err ErrCredentialValidationFailed then ''credential_validation_failed''
      else if operation_pending_in err \<noteq> None then ''operation_pending''
      else if errors_is err ErrGrantPropagationPending then ''authorization_propagation_pending''
      else if errors_is err ErrCredentialGatewayUnavailable then ''credential_gateway_unavailable''
      else if errors_is err ErrPlatformServiceUnavailable then ''platform_service_unavailable''
      else if errors_is err ErrBindingNotFound then ''binding_not_found''
      else ''operation_failed'')"

definition auditResult :: "acerror \<Rightarrow> string" where
  "auditResult err = (if operation_pending_in err \<noteq> None then ''pending'' else ''failure'')"

definition uint64Ptr :: "nat \<Rightarrow> nat option" where
  "uint64Ptr value = (if value = 0 then None else Some value)"

definition recordBindingAudit ::
    "account_binding option \<Rightarrow> string \<Rightarrow> string \<Rightarrow> string \<Rightarrow> nat option \<Rightarrow> string \<Rightarrow> string \<Rightarrow> ('l, unit) aeff" where
  "recordBindingAudit binding action result reason ownerUserID actorType actorID =
     (let owner = (case binding of
            Some b \<Rightarrow> if ownerUserID = None \<and> pb_owner_user_id b \<noteq> 0 then uint64Ptr (pb_owner_user_id b) else ownerUserID
          | None \<Rightarrow> ownerUserID) in
      ignoring (RecordTx
        \<lparr>ae_category = ''platform_binding'', ae_actor_type = actorType,
         ae_actor_user_id = actorUserIDFromAuditContext actorType actorID owner,
         ae_action = action, ae_target_type = ''binding'',
         ae_target_id = (case binding of None \<Rightarrow> '''' | Some b \<Rightarrow> decimal (pb_id b)),
         ae_binding_id = map_option pb_id binding, ae_result = result, ae_reason_code = reason\<rparr>))"

section \<open>Intents\<close>

definition credentialOperationIntentInput ::
    "nat \<Rightarrow> string \<Rightarrow> string \<Rightarrow> CredentialOperationReference \<Rightarrow> CredentialOperationIntentInput" where
  "credentialOperationIntentInput bindingID actorType actorID reference =
     \<lparr>ii_operation_id = or_operation_id reference, ii_binding_id = bindingID,
      ii_binding_ref = or_binding_ref reference, ii_kind = or_kind reference,
      ii_pre_generation = or_pre_generation reference, ii_target_generation = or_target_generation reference,
      ii_request_fingerprint = or_request_fingerprint reference, ii_profile_ref = '''', ii_profile_revision = 0,
      ii_actor_type = actorType, ii_actor_id = actorID\<rparr>"

definition admitNonSensitiveCredentialOperation ::
    "orchestration \<Rightarrow> account_binding \<Rightarrow> string \<Rightarrow> string \<Rightarrow> CredentialOperationReference \<Rightarrow> ('l, unit) aeff" where
  "admitNonSensitiveCredentialOperation oc binding actorType actorID reference =
     andThen (Admit_intent (credentialOperationIntentInput (pb_id binding) actorType actorID reference) (oc_now oc))
       (\<lambda>_. return ())"

text \<open>Closing steps: a lost race is reported as the state the intent has.\<close>

definition pending_as_stored :: "string \<Rightarrow> acerror \<Rightarrow> ('l, 'a) aeff" where
  "pending_as_stored operationID err =
     or_else (Get_intent operationID) (\<lambda>_. raise err)
       (\<lambda>intent. raise (CredentialOperationPending operationID (oi_binding_id intent) (oi_state intent)))"

definition markCredentialProjectionPending :: "orchestration \<Rightarrow> string \<Rightarrow> ('l, unit) aeff" where
  "markCredentialProjectionPending oc operationID =
     or_else (MarkProjectionPending operationID ''projection_pending'' (oc_now oc))
       (pending_as_stored operationID) return"

definition completeCredentialOperation :: "orchestration \<Rightarrow> string \<Rightarrow> ('l, unit) aeff" where
  "completeCredentialOperation oc operationID =
     or_else (MarkSucceeded operationID (oc_now oc)) (pending_as_stored operationID) return"

definition failCredentialOperation :: "orchestration \<Rightarrow> string \<Rightarrow> string \<Rightarrow> ('l, unit) aeff" where
  "failCredentialOperation oc operationID reason = ignoring (MarkFailed operationID reason (oc_now oc))"

definition markCredentialInvariantViolation :: "orchestration \<Rightarrow> string \<Rightarrow> string \<Rightarrow> ('l, unit) aeff" where
  "markCredentialInvariantViolation oc operationID reason =
     ignoring (MarkInvariantViolation operationID reason (oc_now oc))"

definition reschedule_pending :: "orchestration \<Rightarrow> string \<Rightarrow> account_binding \<Rightarrow> ('l, 'a) aeff" where
  "reschedule_pending oc operationID binding =
     andThen (ignoring (Reschedule operationID ''ticket_issue_failed'' (oc_retry_at oc))) (\<lambda>_.
     raise (CredentialOperationPending operationID (pb_id binding) PendingDelivery))"

section \<open>Failed deliveries\<close>

text \<open>An unknown outcome keeps the intent; a refusal closes it as failed.\<close>

definition delivery_outcome_unknown :: "orchestration \<Rightarrow> string \<Rightarrow> account_binding \<Rightarrow> ('l, 'a) aeff" where
  "delivery_outcome_unknown oc operationID binding =
     andThen (ignoring (MarkUncertain operationID ''delivery_outcome_unknown'' (oc_now oc))) (\<lambda>_.
     andThen (ignoring (Reschedule operationID ''delivery_outcome_unknown'' (oc_retry_at oc))) (\<lambda>_.
     raise (CredentialOperationPending operationID (pb_id binding) Uncertain)))"

definition delivery_refused :: "orchestration \<Rightarrow> string \<Rightarrow> acerror \<Rightarrow> ('l, 'a) aeff" where
  "delivery_refused oc operationID err =
     andThen (failCredentialOperation oc operationID (reasonCode err)) (\<lambda>_. raise err)"

definition handleNonSensitiveCredentialDeliveryError ::
    "orchestration \<Rightarrow> account_binding \<Rightarrow> CredentialOperationReference \<Rightarrow> acerror \<Rightarrow> ('l, 'a) aeff" where
  "handleNonSensitiveCredentialDeliveryError oc binding reference deliveryErr =
     (let i = or_operation_id reference in
      if IsCredentialOperationOutcomeUnknown deliveryErr then delivery_outcome_unknown oc i binding
      else if or_kind reference = ''OPERATION_KIND_DELETE_CREDENTIAL'' then
        or_else (UpdateBindingFailure (pb_id binding) DeleteFailed (reasonCode deliveryErr)
            (pe_text (oc_platform oc) deliveryErr))
          (\<lambda>err. andThen (ignoring (MarkProjectionPending i ''delete_failure_projection_pending'' (oc_now oc))) (\<lambda>_.
             andThen (ignoring (Reschedule i ''delete_failure_projection_pending'' (oc_retry_at oc))) (\<lambda>_.
             raise (JoinedErr deliveryErr err))))
          (\<lambda>_. delivery_refused oc i deliveryErr)
      else delivery_refused oc i deliveryErr)"

definition handlePutCredentialError :: "orchestration \<Rightarrow> account_binding \<Rightarrow> acerror \<Rightarrow> ('l, acerror) aeff" where
  "handlePutCredentialError oc binding err =
     (if \<not> IsCredentialValidationError err then return err
      else andThen (ignoring (UpdateBindingFailure (pb_id binding) CredentialInvalid ''credential_validation_failed''
             (pe_text (oc_platform oc) err))) (\<lambda>_.
           return (WrappedErr ErrCredentialValidationFailed (pe_text (oc_platform oc) err))))"

text \<open>A refused secret: a new binding that the platform refused is removed.\<close>

definition refused_bind ::
    "orchestration \<Rightarrow> account_binding \<Rightarrow> CredentialOperationReference \<Rightarrow> acerror \<Rightarrow> acerror \<Rightarrow> ('l, unit) aeff" where
  "refused_bind oc binding reference deliveryErr mapped =
     (if or_kind reference = ''OPERATION_KIND_BIND_CREDENTIAL'' \<and>
         (IsCredentialValidationError deliveryErr \<or> isCredentialOwnershipConflict deliveryErr)
      then or_else (DeleteBinding (pb_id binding) (oc_now oc))
        (\<lambda>err. andThen (markCredentialInvariantViolation oc (or_operation_id reference)
             ''failed_bind_projection_delete_failed'') (\<lambda>_. raise (JoinedErr mapped err)))
        (\<lambda>_. return ())
      else return ())"

definition refused_replace ::
    "orchestration \<Rightarrow> account_binding \<Rightarrow> CredentialOperationReference \<Rightarrow> acerror \<Rightarrow> acerror \<Rightarrow> ('l, unit) aeff" where
  "refused_replace oc binding reference deliveryErr mapped =
     (if or_kind reference = ''OPERATION_KIND_REPLACE_CREDENTIAL'' \<and> IsCredentialValidationError deliveryErr
      then or_else (UpdateBindingFailure (pb_id binding) CredentialInvalid ''credential_validation_failed''
          (pe_text (oc_platform oc) deliveryErr))
        (\<lambda>err. andThen (ignoring (MarkProjectionPending (or_operation_id reference)
             ''replace_failure_projection_pending'' (oc_now oc))) (\<lambda>_. raise (JoinedErr mapped err)))
        (\<lambda>_. return ())
      else return ())"

definition handleCredentialDeliveryError ::
    "orchestration \<Rightarrow> account_binding \<Rightarrow> CredentialOperationReference \<Rightarrow> acerror \<Rightarrow> ('l, 'a) aeff" where
  "handleCredentialDeliveryError oc binding reference deliveryErr =
     (let i = or_operation_id reference in
      if \<not> IsCredentialOperationOutcomeUnknown deliveryErr then
        andThen (handlePutCredentialError oc binding deliveryErr) (\<lambda>mapped.
        andThen (refused_bind oc binding reference deliveryErr mapped) (\<lambda>_.
        andThen (refused_replace oc binding reference deliveryErr mapped) (\<lambda>_.
        andThen (failCredentialOperation oc i (reasonCode deliveryErr)) (\<lambda>_.
        raise (if isCredentialOwnershipConflict deliveryErr then ErrBindingAlreadyOwned else mapped)))))
      else or_else (MarkUncertain i ''delivery_outcome_unknown'' (oc_now oc))
        (\<lambda>_. raise (CredentialOperationPending i (pb_id binding) PendingDelivery))
        (\<lambda>_. raise (CredentialOperationPending i (pb_id binding) Uncertain)))"

section \<open>Profiles of a summary\<close>

definition derivePlatformProfileKey :: "string \<Rightarrow> raw_profile \<Rightarrow> string \<Rightarrow> string" where
  "derivePlatformProfileKey platform raw playerUID =
     (if rp_profile_ref raw \<noteq> '''' then rp_profile_ref raw
      else if rp_id raw \<noteq> 0 then platform @ '':'' @ decimal (unat (rp_id raw))
      else if playerUID \<noteq> '''' then platform @ '':'' @ playerUID
      else '''')"

definition projectable :: "string \<Rightarrow> raw_profile \<Rightarrow> bool" where
  "projectable platform raw \<longleftrightarrow> derivePlatformProfileKey platform raw (rp_player_id raw) \<noteq> '''' \<and>
     rp_player_id raw \<noteq> '''' \<and> rp_game_biz raw \<noteq> '''' \<and> rp_region raw \<noteq> '''' \<and> rp_nickname raw \<noteq> ''''"

definition profile_input :: "string \<Rightarrow> raw_profile \<Rightarrow> ProfileProjectionInput" where
  "profile_input platform raw =
     \<lparr>pp_platform_profile_key = derivePlatformProfileKey platform raw (rp_player_id raw),
      pp_profile_ref = rp_profile_ref raw, pp_game_biz = rp_game_biz raw, pp_region = rp_region raw,
      pp_player_uid = rp_player_id raw, pp_nickname = rp_nickname raw, pp_level = rp_level raw,
      pp_is_primary = rp_is_default raw, pp_source_updated_at = rp_source_updated_at raw\<rparr>"

definition buildProfileProjectionInputs :: "string \<Rightarrow> raw_profile list \<Rightarrow> ProfileProjectionInput list" where
  "buildProfileProjectionInputs platform rawProfiles =
     map (profile_input platform) (filter (projectable platform) rawProfiles)"

definition snapshot_current :: "RuntimeSummary \<Rightarrow> bool" where
  "snapshot_current summary \<longleftrightarrow> rs_profile_snapshot_complete summary \<and>
     rs_profile_revision summary \<le> rs_profile_observed_revision summary"

definition sync_input :: "orchestration \<Rightarrow> account_binding \<Rightarrow> nat \<Rightarrow> RuntimeSummary \<Rightarrow> SyncProfilesInput" where
  "sync_input oc binding bindingID summary =
     \<lparr>sp_binding_id = bindingID,
      sp_profiles = map (\<lambda>p. p\<lparr>pp_source_updated_at := (case pp_source_updated_at p of
          None \<Rightarrow> Some (oc_now oc) | Some t \<Rightarrow> Some t)\<rparr>)
        (buildProfileProjectionInputs (pb_platform binding) (rs_profiles summary)),
      sp_synced_at = oc_now oc, sp_revision = rs_profile_revision summary,
      sp_observed_revision = rs_profile_observed_revision summary\<rparr>"

definition syncProfiles ::
    "orchestration \<Rightarrow> account_binding \<Rightarrow> account_binding \<Rightarrow> RuntimeSummary \<Rightarrow> ('l, unit) aeff" where
  "syncProfiles oc binding updatedBinding summary =
     (if \<not> snapshot_current summary then return ()
      else andThen (SyncProfiles (sync_input oc binding (pb_id updatedBinding) summary) (oc_now oc) (oc_profile_refs oc))
        (\<lambda>_. return ()))"

section \<open>Authoritative summaries\<close>

definition summaryHasExactPrimary :: "RuntimeSummary \<Rightarrow> string \<Rightarrow> bool" where
  "summaryHasExactPrimary summary expectedProfileRef \<longleftrightarrow> expectedProfileRef \<noteq> '''' \<and>
     (let primaries = filter rp_is_default (rs_profiles summary) in
      list_all (\<lambda>p. rp_profile_ref p = expectedProfileRef) primaries \<and> length primaries = 1)"

definition validOperationSummary ::
    "string \<Rightarrow> u64 \<Rightarrow> u64 \<Rightarrow> string \<Rightarrow> RuntimeSummary option \<Rightarrow> bool" where
  "validOperationSummary kind expectedGeneration expectedProfileRevision expectedProfileRef summary =
     (case summary of
        None \<Rightarrow> False
      | Some s \<Rightarrow>
          if rs_generation s \<noteq> expectedGeneration then False
          else if rs_profile_snapshot_complete s then
            (if rs_profile_observed_revision s < rs_profile_revision s then False
             else kind \<noteq> ''OPERATION_KIND_SET_PRIMARY_PROFILE'' \<or>
               (rs_profile_revision s = expectedProfileRevision + 1 \<and> summaryHasExactPrimary s expectedProfileRef))
          else kind = ''OPERATION_KIND_REFRESH_CREDENTIAL'')"

definition applyAuthoritativeSummary ::
    "orchestration \<Rightarrow> string \<Rightarrow> string \<Rightarrow> account_binding \<Rightarrow> u64 \<Rightarrow> u64 \<Rightarrow> string \<Rightarrow> RuntimeSummary \<Rightarrow>
     ('l, account_binding) aeff" where
  "applyAuthoritativeSummary oc operationID kind binding expectedGeneration expectedRevision expectedRef summary =
     (if \<not> validOperationSummary kind expectedGeneration expectedRevision expectedRef (Some summary)
      then andThen (markCredentialInvariantViolation oc operationID ''terminal_summary_mismatch'')
             (\<lambda>_. raise ErrBindingGenerationConflict)
      else andThen (markCredentialProjectionPending oc operationID) (\<lambda>_.
           andThen (PersistRuntimeSummary (pb_id binding) summary) (\<lambda>updated.
           andThen (syncProfiles oc binding updated summary) (\<lambda>_.
           andThen (GetBindingByID (pb_id binding)) (\<lambda>current.
           andThen (completeCredentialOperation oc operationID) (\<lambda>_. return current))))))"

section \<open>Compensation\<close>

definition compensationDeleteOperationID :: "(string \<Rightarrow> string) \<Rightarrow> string \<Rightarrow> string" where
  "compensationDeleteOperationID sha256 sourceOperationID =
     DeterministicID sha256 (''compensate-delete:'' @ sourceOperationID)"

definition resolved_binding :: "account_binding \<Rightarrow> string \<Rightarrow> u64 \<Rightarrow> account_binding" where
  "resolved_binding binding resolvedAccountKey resolvedGeneration =
     (if resolvedAccountKey = '''' then binding
      else binding\<lparr>pb_external_account_key := Some resolvedAccountKey, pb_generation := resolvedGeneration\<rparr>)"

definition compensateDeleteCredential ::
    "orchestration \<Rightarrow> string \<Rightarrow> account_binding \<Rightarrow> string \<Rightarrow> u64 \<Rightarrow> string \<Rightarrow> string \<Rightarrow> string \<Rightarrow>
     (platform_call, unit) aeff" where
  "compensateDeleteCredential oc sourceOperationID binding accountKey generation actorType actorID endpoint =
     (if sourceOperationID = '''' then raise ErrInvalidBindingMutation
      else let resolved = resolved_binding binding accountKey generation;
               operationID = compensationDeleteOperationID (pe_sha256 (oc_platform oc)) sourceOperationID in
        andThen (IssueBindingScopedOperationTicket (oc_platform oc) actorType actorID resolved operationID
          [MihomoCredentialDelete]) (\<lambda>(ticket, _).
        gateway_DeleteCredential (oc_platform oc) endpoint ticket operationID resolved))"

definition missingTerminalCompensationProjectionReason :: string where
  "missingTerminalCompensationProjectionReason = ''missing_terminal_compensation_projection_pending''"

definition duplicateOwnerCompensationProjectionReason :: string where
  "duplicateOwnerCompensationProjectionReason = ''duplicate_owner_compensation_projection_pending''"

section \<open>Binding and replacing a secret\<close>

record PutCredentialInput =
  pci_owner_user_id :: nat
  pci_binding_id :: nat
  pci_actor_type :: string
  pci_actor_id :: string
  pci_payload :: string

text \<open>What \<open>putCredential\<close> returns: a summary and a binding may come with an error.\<close>

type_synonym put_outcome = "RuntimeSummary option \<times> account_binding option \<times> acerror option"

definition put_failed :: "acerror \<Rightarrow> ('l, put_outcome) aeff" where
  "put_failed err = return (None, None, Some err)"

definition deliver_secret ::
    "orchestration \<Rightarrow> string \<Rightarrow> string \<Rightarrow> string \<Rightarrow> account_binding \<Rightarrow> bool \<Rightarrow> string \<Rightarrow>
     (platform_call, summary_view) aeff" where
  "deliver_secret oc endpoint ticket operationID binding resolved payload =
     (if resolved then gateway_ReplaceCredential (oc_platform oc) endpoint ticket operationID binding payload
      else gateway_BindCredential (oc_platform oc) endpoint ticket operationID binding payload)"

text \<open>No ticket: a new binding goes, the intent fails.\<close>

definition put_without_ticket ::
    "orchestration \<Rightarrow> account_binding \<Rightarrow> CredentialOperationReference \<Rightarrow> acerror \<Rightarrow> ('l, put_outcome) aeff" where
  "put_without_ticket oc binding reference err =
     (let i = or_operation_id reference;
          fail = andThen (failCredentialOperation oc i ''ticket_issue_failed'') (\<lambda>_. put_failed err) in
      if or_kind reference = ''OPERATION_KIND_BIND_CREDENTIAL'' then
        or_else (DeleteBinding (pb_id binding) (oc_now oc))
          (\<lambda>deleteErr. andThen (markCredentialInvariantViolation oc i ''ticket_failure_projection_delete_failed'')
             (\<lambda>_. put_failed (JoinedErr err deleteErr)))
          (\<lambda>_. fail)
      else fail)"

text \<open>Somebody else owns the account: the platform's copy is deleted again, then the binding.\<close>

definition put_for_owned_account ::
    "orchestration \<Rightarrow> account_binding \<Rightarrow> PutCredentialInput \<Rightarrow> CredentialOperationReference \<Rightarrow> string \<Rightarrow>
     RuntimeSummary \<Rightarrow> acerror \<Rightarrow> (platform_call, put_outcome) aeff" where
  "put_for_owned_account oc binding input reference endpoint summary err =
     (let i = or_operation_id reference in
      or_else (compensateDeleteCredential oc i binding (rs_platform_account_id summary) (rs_generation summary)
          (pci_actor_type input) (pci_actor_id input) endpoint)
        (\<lambda>cleanupErr. andThen (markCredentialInvariantViolation oc i ''compensation_delete_failed'') (\<lambda>_.
           andThen (ignoring (UpdateBindingFailure (pb_id binding) DeleteFailed ''compensation_delete_failed''
             (pe_text (oc_platform oc) cleanupErr))) (\<lambda>_.
           put_failed (WrappedErr ErrBindingAlreadyOwned (pe_text (oc_platform oc) cleanupErr)))))
        (\<lambda>_. or_else (MarkProjectionPending i duplicateOwnerCompensationProjectionReason (oc_now oc))
          (\<lambda>markerErr. put_failed (JoinedErr err markerErr))
          (\<lambda>_. or_else (DeleteBinding (pb_id binding) (oc_now oc))
            (\<lambda>deleteErr. andThen (ignoring (Reschedule i duplicateOwnerCompensationProjectionReason (oc_retry_at oc)))
               (\<lambda>_. put_failed (JoinedErr err deleteErr)))
            (\<lambda>_. or_else (MarkFailed i ''duplicate_owner'' (oc_now oc))
              (\<lambda>failErr. put_failed (JoinedErr err failErr)) (\<lambda>_. put_failed err)))))"

definition put_unprojected ::
    "orchestration \<Rightarrow> account_binding \<Rightarrow> PutCredentialInput \<Rightarrow> CredentialOperationReference \<Rightarrow> string \<Rightarrow>
     RuntimeSummary \<Rightarrow> acerror \<Rightarrow> (platform_call, put_outcome) aeff" where
  "put_unprojected oc binding input reference endpoint summary err =
     (if errors_is err ErrBindingAlreadyOwned
      then put_for_owned_account oc binding input reference endpoint summary err
      else andThen (ignoring (Reschedule (or_operation_id reference) ''projection_persist_failed'' (oc_retry_at oc)))
             (\<lambda>_. put_failed err))"

text \<open>The projection of the answer; the binding it leaves is returned with a later error.\<close>

definition project_put ::
    "orchestration \<Rightarrow> account_binding \<Rightarrow> PutCredentialInput \<Rightarrow> CredentialOperationReference \<Rightarrow> string \<Rightarrow>
     RuntimeSummary \<Rightarrow> (platform_call, put_outcome) aeff" where
  "project_put oc binding input reference endpoint summary =
     or_else (PersistRuntimeSummary (pb_id binding) summary)
       (put_unprojected oc binding input reference endpoint summary)
       (\<lambda>updated. or_else (syncProfiles oc binding updated summary)
         (\<lambda>err. return (Some summary, Some updated, Some err))
         (\<lambda>_. or_else (completeCredentialOperation oc (or_operation_id reference))
           (\<lambda>err. return (Some summary, Some updated, Some err))
           (\<lambda>_. return (Some summary, Some updated, None))))"

definition has_resolved_account :: "account_binding \<Rightarrow> bool" where
  "has_resolved_account binding \<longleftrightarrow> bindingExternalAccountKey binding \<noteq> ''''"

definition put_admitted ::
    "orchestration \<Rightarrow> account_binding \<Rightarrow> PutCredentialInput \<Rightarrow> CredentialOperationReference \<Rightarrow> string \<Rightarrow>
     (platform_call, put_outcome) aeff" where
  "put_admitted oc binding input reference endpoint =
     (let i = or_operation_id reference; resolved = has_resolved_account binding in
      or_else (IssueBindingScopedOperationTicket (oc_platform oc) (pci_actor_type input) (pci_actor_id input) binding i
          [if resolved then MihomoCredentialUpdate else MihomoCredentialBind])
        (put_without_ticket oc binding reference)
        (\<lambda>(ticket, _). or_else (deliver_secret oc endpoint ticket i binding resolved (pci_payload input))
          (\<lambda>err. or_else (handleCredentialDeliveryError oc binding reference err) put_failed return)
          (\<lambda>view. or_else (markCredentialProjectionPending oc i) put_failed
            (\<lambda>_. case decodeRuntimeSummary view of
               Inl err \<Rightarrow> andThen (markCredentialInvariantViolation oc i ''invalid_operation_summary'') (\<lambda>_. put_failed err)
             | Inr summary \<Rightarrow> project_put oc binding input reference endpoint summary))))"

definition putCredentialWithOperation ::
    "orchestration \<Rightarrow> account_binding \<Rightarrow> PutCredentialInput \<Rightarrow> string \<Rightarrow> bool \<Rightarrow> (platform_call, put_outcome) aeff" where
  "putCredentialWithOperation oc binding input operationID alreadyAdmitted =
     or_else (binding_platform binding) put_failed (\<lambda>platformRow.
     or_else (if operationID = '''' then new_operation_id oc else return operationID) put_failed (\<lambda>i.
     let reference = newCredentialOperationReference (pe_sha256 (oc_platform oc)) binding i (has_resolved_account binding) in
     or_else (if alreadyAdmitted then return ()
         else admitNonSensitiveCredentialOperation oc binding (pci_actor_type input) (pci_actor_id input) reference)
       put_failed (\<lambda>_. put_admitted oc binding input reference (svc_control_endpoint platformRow))))"

definition putCredential ::
    "orchestration \<Rightarrow> account_binding \<Rightarrow> PutCredentialInput \<Rightarrow> (platform_call, put_outcome) aeff" where
  "putCredential oc binding input = putCredentialWithOperation oc binding input '''' False"

text \<open>The end of both public operations: what was audited, and the summary or the error.\<close>

definition audited_put ::
    "account_binding \<Rightarrow> PutCredentialInput \<Rightarrow> put_outcome \<Rightarrow> ('l, RuntimeSummary option) aeff" where
  "audited_put binding input outcome =
     (let owner = uint64Ptr (pb_owner_user_id binding);
          audit = (\<lambda>action result reason. recordBindingAudit (Some binding) action result reason owner
            (pci_actor_type input) (pci_actor_id input)) in
      case outcome of
        (summary, _, None) \<Rightarrow> andThen (audit ''credential_update'' ''success'' '''') (\<lambda>_. return summary)
      | (summary, _, Some err) \<Rightarrow>
          andThen (audit ''credential_update'' (auditResult err) (reasonCode err)) (\<lambda>_.
          andThen (if errors_is err ErrCredentialValidationFailed
            then audit ''platform_validation_failure'' ''failure'' (reasonCode err) else return ()) (\<lambda>_. raise err)))"

definition PutCredentialForOwner ::
    "orchestration \<Rightarrow> PutCredentialInput \<Rightarrow> (platform_call, RuntimeSummary option) aeff" where
  "PutCredentialForOwner oc input =
     andThen (GetBindingForOwner (pci_owner_user_id input) (pci_binding_id input)) (\<lambda>binding.
     andThen (putCredential oc binding input) (audited_put binding input))"

definition PutCredentialAsAdmin ::
    "orchestration \<Rightarrow> PutCredentialInput \<Rightarrow> (platform_call, RuntimeSummary option) aeff" where
  "PutCredentialAsAdmin oc input =
     andThen (GetBindingByID (pci_binding_id input)) (\<lambda>binding.
     andThen (putCredential oc binding input) (audited_put binding input))"


section \<open>Creating a binding\<close>

record CreateAndBindInput =
  ci_owner_user_id :: nat
  ci_platform :: string
  ci_display_name :: string
  ci_actor_type :: string
  ci_actor_id :: string
  ci_payload :: string

definition creation_audit ::
    "CreateAndBindInput \<Rightarrow> account_binding option \<Rightarrow> string \<Rightarrow> string \<Rightarrow> ('l, unit) aeff" where
  "creation_audit input binding result reason = recordBindingAudit binding ''binding_create'' result reason
     (Some (ci_owner_user_id input)) (ci_actor_type input) (ci_actor_id input)"

text \<open>When the platform's account was bound before, the older binding is kept.\<close>

definition keep_updated ::
    "orchestration \<Rightarrow> account_binding \<Rightarrow> account_binding \<Rightarrow> ('l, account_binding) aeff" where
  "keep_updated oc binding updated =
     (if pb_id updated \<noteq> pb_id binding
      then andThen (DeleteBinding (pb_id binding) (oc_now oc)) (\<lambda>_. return updated) else return updated)"

definition after_creation ::
    "orchestration \<Rightarrow> CreateAndBindInput \<Rightarrow> account_binding \<Rightarrow> put_outcome \<Rightarrow> ('l, account_binding) aeff" where
  "after_creation oc input binding outcome = (case outcome of
       (_, updated, Some err) \<Rightarrow>
         andThen (creation_audit input (Some binding) (auditResult err) (reasonCode err)) (\<lambda>_.
         case updated of None \<Rightarrow> raise err | Some u \<Rightarrow> keep_updated oc binding u)
     | (_, Some u, None) \<Rightarrow>
         andThen (creation_audit input (Some u) ''success'' '''') (\<lambda>_. keep_updated oc binding u)
     | (_, None, None) \<Rightarrow>
         andThen (GetBindingForOwner (ci_owner_user_id input) (pb_id binding)) (\<lambda>resolved.
         andThen (creation_audit input (Some resolved) ''success'' '''') (\<lambda>_. return resolved)))"

definition admit_creation ::
    "orchestration \<Rightarrow> CreateAndBindInput \<Rightarrow> platform_service \<Rightarrow> (platform_call, string \<times> account_binding) aeff" where
  "admit_creation oc input platformRow =
     andThen (new_operation_id oc) (\<lambda>i.
     andThen (CreateBindingAndAdmit (pe_sha256 (oc_platform oc))
       \<lparr>cb_owner_user_id = ci_owner_user_id input, cb_platform = ci_platform input, cb_external_account_key = None,
        cb_platform_service_key = svc_service_key platformRow, cb_display_name = ci_display_name input\<rparr>
       (ci_actor_type input) (ci_actor_id input) i (oc_binding_ref oc) (oc_now oc)) (\<lambda>(binding, _).
     return (i, binding)))"

definition orchestrated_CreateBindingForOwner ::
    "orchestration \<Rightarrow> CreateAndBindInput \<Rightarrow> (platform_call, account_binding) aeff" where
  "orchestrated_CreateBindingForOwner oc input =
     andThen (map_error absent_unavailable (GetEnabledPlatform (ci_platform input))) (\<lambda>platformRow.
     andThen (FindPendingBindForOwner (ci_owner_user_id input) (ci_platform input)) (\<lambda>pending.
     case pending of
       Some p \<Rightarrow> raise (CredentialOperationPending (oi_operation_id p) (oi_binding_id p) (oi_state p))
     | None \<Rightarrow>
         or_else (admit_creation oc input platformRow)
           (\<lambda>err. andThen (creation_audit input None ''failure'' (reasonCode err)) (\<lambda>_. raise err))
           (\<lambda>(i, binding). andThen (putCredentialWithOperation oc binding
              \<lparr>pci_owner_user_id = ci_owner_user_id input, pci_binding_id = pb_id binding,
               pci_actor_type = ci_actor_type input, pci_actor_id = ci_actor_id input,
               pci_payload = ci_payload input\<rparr> i True)
            (after_creation oc input binding))))"

section \<open>Refreshing\<close>

text \<open>The operations that carry no secret: admit, get a ticket, call, project.\<close>

definition refreshBinding ::
    "orchestration \<Rightarrow> account_binding \<Rightarrow> string \<Rightarrow> string \<Rightarrow> (platform_call, account_binding) aeff" where
  "refreshBinding oc binding actorType actorID =
     andThen (binding_platform binding) (\<lambda>platformRow.
     andThen (new_operation_id oc) (\<lambda>i.
     let reference = newCredentialOperationReferenceForKind (pe_sha256 (oc_platform oc)) binding i
           ''OPERATION_KIND_REFRESH_CREDENTIAL'' in
     andThen (admitNonSensitiveCredentialOperation oc binding actorType actorID reference) (\<lambda>_.
     or_else (IssueBindingScopedOperationTicket (oc_platform oc) actorType actorID binding i [MihomoCredentialRefresh])
       (\<lambda>_. reschedule_pending oc i binding)
       (\<lambda>(ticket, _). or_else
          (gateway_RefreshCredential (oc_platform oc) (svc_control_endpoint platformRow) ticket i binding)
          (handleNonSensitiveCredentialDeliveryError oc binding reference)
          (applyAuthoritativeSummary oc i (or_kind reference) binding (or_target_generation reference) 0 '''')))))"

definition audited_refresh ::
    "account_binding \<Rightarrow> string \<Rightarrow> string \<Rightarrow> (platform_call, account_binding) aeff \<Rightarrow>
     (platform_call, account_binding) aeff" where
  "audited_refresh binding actorType actorID m =
     (let owner = uint64Ptr (pb_owner_user_id binding) in
      or_else m
        (\<lambda>err. andThen (recordBindingAudit (Some binding) ''binding_refresh'' (auditResult err) (reasonCode err)
           owner actorType actorID) (\<lambda>_. raise err))
        (\<lambda>updated. andThen (recordBindingAudit (Some updated) ''binding_refresh'' ''success'' '''' owner actorType actorID)
           (\<lambda>_. return updated)))"

definition orchestrated_RefreshBindingForOwner ::
    "orchestration \<Rightarrow> nat \<Rightarrow> nat \<Rightarrow> (platform_call, account_binding) aeff" where
  "orchestrated_RefreshBindingForOwner oc ownerUserID bindingID =
     andThen (GetBindingForOwner ownerUserID bindingID) (\<lambda>binding.
     audited_refresh binding ''user'' ''binding-refresh'' (refreshBinding oc binding ''user'' ''binding-refresh''))"

definition RefreshBindingAsAdmin :: "orchestration \<Rightarrow> nat \<Rightarrow> nat \<Rightarrow> (platform_call, account_binding) aeff" where
  "RefreshBindingAsAdmin oc bindingID adminUserID =
     andThen (GetBindingByID bindingID) (\<lambda>binding. let actorID = ''admin:'' @ decimal adminUserID in
     audited_refresh binding ''admin'' actorID (refreshBinding oc binding ''admin'' actorID))"

section \<open>Deleting\<close>

definition markDeleteFailed :: "orchestration \<Rightarrow> nat \<Rightarrow> acerror \<Rightarrow> string \<Rightarrow> ('l, 'a) aeff" where
  "markDeleteFailed oc bindingID err reason =
     andThen (ignoring (UpdateBindingFailure bindingID DeleteFailed reason (pe_text (oc_platform oc) err)))
       (\<lambda>_. raise err)"

definition delete_projection :: "orchestration \<Rightarrow> nat \<Rightarrow> ('l, unit) aeff" where
  "delete_projection oc bindingID = or_else (DeleteBinding bindingID (oc_now oc))
     (\<lambda>err. markDeleteFailed oc bindingID err ''control_plane_cleanup_failed'') (\<lambda>_. return ())"

definition wasCleanupFailed :: "account_binding \<Rightarrow> bool" where
  "wasCleanupFailed binding \<longleftrightarrow>
     pb_status binding = DeleteFailed \<and> pb_status_reason_code binding = ''control_plane_cleanup_failed''"

text \<open>The remote part of a deletion, once its intent is admitted.\<close>

definition delete_remotely ::
    "orchestration \<Rightarrow> account_binding \<Rightarrow> string \<Rightarrow> string \<Rightarrow> CredentialOperationReference \<Rightarrow> string \<Rightarrow>
     (platform_call, unit) aeff" where
  "delete_remotely oc binding actorType actorID reference endpoint =
     (let i = or_operation_id reference in
      or_else (IssueBindingScopedOperationTicket (oc_platform oc) actorType actorID binding i [MihomoCredentialDelete])
        (\<lambda>_. reschedule_pending oc i binding)
        (\<lambda>(ticket, _). or_else (gateway_DeleteCredential (oc_platform oc) endpoint ticket i binding)
          (handleNonSensitiveCredentialDeliveryError oc binding reference)
          (\<lambda>_. andThen (markCredentialProjectionPending oc i) (\<lambda>_.
               andThen (delete_projection oc (pb_id binding)) (\<lambda>_.
               completeCredentialOperation oc i)))))"

definition deleteBinding ::
    "orchestration \<Rightarrow> account_binding \<Rightarrow> string \<Rightarrow> string \<Rightarrow> (platform_call, unit) aeff" where
  "deleteBinding oc binding actorType actorID =
     andThen (UpdateBindingStatus (pb_id binding) Deleting) (\<lambda>_.
     if wasCleanupFailed binding \<or> \<not> has_resolved_account binding then delete_projection oc (pb_id binding)
     else or_else (binding_platform binding)
       (\<lambda>err. markDeleteFailed oc (pb_id binding) err ''credential_delete_failed'')
       (\<lambda>platformRow. or_else (new_operation_id oc)
         (\<lambda>err. markDeleteFailed oc (pb_id binding) err ''credential_delete_failed'')
         (\<lambda>i. let reference = newCredentialOperationReferenceForKind (pe_sha256 (oc_platform oc)) binding i
                 ''OPERATION_KIND_DELETE_CREDENTIAL'' in
           andThen (admitNonSensitiveCredentialOperation oc binding actorType actorID reference) (\<lambda>_.
           delete_remotely oc binding actorType actorID reference (svc_control_endpoint platformRow)))))"

definition audited_delete ::
    "orchestration \<Rightarrow> account_binding \<Rightarrow> string \<Rightarrow> string \<Rightarrow> (platform_call, unit) aeff" where
  "audited_delete oc binding actorType actorID =
     (let audit = (\<lambda>result reason. recordBindingAudit (Some binding) ''binding_delete'' result reason
            (uint64Ptr (pb_owner_user_id binding)) actorType actorID) in
      or_else (deleteBinding oc binding actorType actorID)
        (\<lambda>err. andThen (audit (auditResult err) (reasonCode err)) (\<lambda>_. raise err))
        (\<lambda>_. audit ''success'' ''''))"

definition orchestrated_DeleteBindingForOwner :: "orchestration \<Rightarrow> nat \<Rightarrow> nat \<Rightarrow> (platform_call, unit) aeff" where
  "orchestrated_DeleteBindingForOwner oc ownerUserID bindingID =
     andThen (GetBindingForOwner ownerUserID bindingID) (\<lambda>binding. audited_delete oc binding ''user'' ''binding-delete'')"

definition DeleteBindingAsAdmin :: "orchestration \<Rightarrow> nat \<Rightarrow> nat \<Rightarrow> (platform_call, unit) aeff" where
  "DeleteBindingAsAdmin oc bindingID adminUserID =
     andThen (GetBindingByID bindingID) (\<lambda>binding. audited_delete oc binding ''admin'' (''admin:'' @ decimal adminUserID))"

definition RepairDeleteFailedBinding :: "orchestration \<Rightarrow> nat \<Rightarrow> (platform_call, unit) aeff" where
  "RepairDeleteFailedBinding oc bindingID =
     andThen (GetBindingByID bindingID) (\<lambda>binding.
     if pb_status binding \<noteq> DeleteFailed then return ()
     else deleteBinding oc binding ''consumer'' ''platform-binding-delete-repair'')"

section \<open>The primary profile\<close>

definition normalizePrimaryProfileOperationError :: "acerror \<Rightarrow> acerror" where
  "normalizePrimaryProfileOperationError err = (case grpc_status_code err of
       Aborted \<Rightarrow> ErrBindingGenerationConflict
     | NotFound \<Rightarrow> ErrPrimaryProfileNotOwned
     | PermissionDenied \<Rightarrow> ErrPrimaryProfileNotOwned
     | Unavailable \<Rightarrow> ErrCredentialGatewayUnavailable
     | DeadlineExceeded \<Rightarrow> ErrCredentialGatewayUnavailable
     | Canceled \<Rightarrow> ErrCredentialGatewayUnavailable
     | _ \<Rightarrow> err)"

definition primary_reference ::
    "(string \<Rightarrow> string) \<Rightarrow> account_binding \<Rightarrow> account_profile \<Rightarrow> string \<Rightarrow> CredentialOperationReference" where
  "primary_reference sha256 binding profile operationID =
     \<lparr>or_operation_id = operationID, or_kind = ''OPERATION_KIND_SET_PRIMARY_PROFILE'',
      or_binding_ref = pb_binding_ref binding,
      or_pre_generation = pb_generation binding, or_target_generation = pb_generation binding,
      or_request_fingerprint = PrimaryProfileFingerprint sha256 ''OPERATION_KIND_SET_PRIMARY_PROFILE''
        (pb_binding_ref binding) (ap_profile_ref profile) (pb_generation binding) (pb_profile_revision binding)\<rparr>"

definition primary_audit :: "account_binding \<Rightarrow> string \<Rightarrow> string \<Rightarrow> string \<Rightarrow> ('l, unit) aeff" where
  "primary_audit binding actorID result reason = recordBindingAudit (Some binding) ''primary_profile_change'' result reason
     (uint64Ptr (pb_owner_user_id binding)) ''user'' actorID"

text \<open>A failed call: a pending operation is reported as it is, any other error is translated.\<close>

definition primary_delivery_failed ::
    "orchestration \<Rightarrow> account_binding \<Rightarrow> CredentialOperationReference \<Rightarrow> string \<Rightarrow> acerror \<Rightarrow> ('l, 'a) aeff" where
  "primary_delivery_failed oc binding reference actorID err =
     or_else (handleNonSensitiveCredentialDeliveryError oc binding reference err)
       (\<lambda>deliveryErr. case operation_pending_in deliveryErr of
          Some (i, b, st) \<Rightarrow> raise (CredentialOperationPending i b st)
        | None \<Rightarrow>
            let mapped = normalizePrimaryProfileOperationError err in
            andThen (primary_audit binding actorID ''failure'' (reasonCode mapped)) (\<lambda>_. raise mapped))
       return"

definition deliver_primary ::
    "orchestration \<Rightarrow> account_binding \<Rightarrow> account_profile \<Rightarrow> CredentialOperationReference \<Rightarrow> string \<Rightarrow> string \<Rightarrow>
     (platform_call, account_binding) aeff" where
  "deliver_primary oc binding profile reference actorID endpoint =
     (let i = or_operation_id reference in
      or_else (IssueProfileScopedOperationTicket (oc_platform oc) ''user'' actorID binding (ap_profile_ref profile) i
          [MihomoProfileWrite])
        (\<lambda>_. reschedule_pending oc i binding)
        (\<lambda>(ticket, _). or_else
           (gateway_SetPrimaryProfile (oc_platform oc) endpoint ticket i binding (ap_profile_ref profile))
           (primary_delivery_failed oc binding reference actorID)
           (\<lambda>summary. andThen (applyAuthoritativeSummary oc i (or_kind reference) binding (pb_generation binding)
              (pb_profile_revision binding) (ap_profile_ref profile) summary) (\<lambda>updated.
            andThen (primary_audit binding actorID ''success'' '''') (\<lambda>_. return updated)))))"

definition orchestrated_SetPrimaryProfileForOwner ::
    "orchestration \<Rightarrow> nat \<Rightarrow> nat \<Rightarrow> nat \<Rightarrow> string \<Rightarrow> (platform_call, account_binding) aeff" where
  "orchestrated_SetPrimaryProfileForOwner oc ownerUserID bindingID profileID actorID =
     andThen (GetBindingForOwner ownerUserID bindingID) (\<lambda>binding.
     if \<not> has_resolved_account binding then raise ErrBindingRuntimeSummaryNotReady
     else andThen (GetProfile (pb_id binding) profileID) (\<lambda>profile.
       if ap_profile_ref profile = '''' then raise ErrPrimaryProfileNotOwned
       else andThen (binding_platform binding) (\<lambda>platformRow.
         andThen (new_operation_id oc) (\<lambda>i.
         let reference = primary_reference (pe_sha256 (oc_platform oc)) binding profile i in
         andThen (Admit_intent ((credentialOperationIntentInput (pb_id binding) ''user'' actorID reference)
             \<lparr>ii_profile_ref := ap_profile_ref profile, ii_profile_revision := pb_profile_revision binding\<rparr>) (oc_now oc)) (\<lambda>_.
         deliver_primary oc binding profile reference actorID (svc_control_endpoint platformRow))))))"


section \<open>Reconciling an operation\<close>

definition nonemptyReason :: "string \<Rightarrow> string \<Rightarrow> string" where
  "nonemptyReason value fallback = (if value \<noteq> '''' then value else fallback)"

definition bindingAtGeneration :: "account_binding \<Rightarrow> u64 \<Rightarrow> account_binding" where
  "bindingAtGeneration binding generation = binding\<lparr>pb_generation := generation\<rparr>"

definition bindingAtProfileRevision :: "account_binding \<Rightarrow> u64 \<Rightarrow> account_binding" where
  "bindingAtProfileRevision binding revision = binding\<lparr>pb_profile_revision := revision\<rparr>"

definition isNonSensitiveCredentialOperation :: "string \<Rightarrow> bool" where
  "isNonSensitiveCredentialOperation kind \<longleftrightarrow> kind \<in> {''OPERATION_KIND_REFRESH_CREDENTIAL'',
     ''OPERATION_KIND_DELETE_CREDENTIAL'', ''OPERATION_KIND_SET_PRIMARY_PROFILE''}"

definition rescheduleCredentialOperation ::
    "orchestration \<Rightarrow> string \<Rightarrow> string \<Rightarrow> acerror \<Rightarrow> ('l, 'a) aeff" where
  "rescheduleCredentialOperation oc operationID reason cause =
     andThen (Reschedule operationID reason (oc_retry_at oc)) (\<lambda>_. raise cause)"

definition credentialOperationReferenceFromIntent :: "operation_intent \<Rightarrow> CredentialOperationReference" where
  "credentialOperationReferenceFromIntent intent =
     \<lparr>or_operation_id = oi_operation_id intent, or_kind = oi_kind intent, or_binding_ref = oi_binding_ref intent,
      or_pre_generation = oi_pre_generation intent, or_target_generation = oi_target_generation intent,
      or_request_fingerprint = oi_request_fingerprint intent\<rparr>"

definition credentialStateAllowsResubmission :: "operation_intent \<Rightarrow> CredentialBindingState \<Rightarrow> bool" where
  "credentialStateAllowsResubmission intent state =
     (if oi_kind intent = ''OPERATION_KIND_BIND_CREDENTIAL'' then \<not> cs_exists state
      else if oi_kind intent = ''OPERATION_KIND_REPLACE_CREDENTIAL''
      then cs_exists state \<and> (case cs_summary state of None \<Rightarrow> False
        | Some s \<Rightarrow> rs_generation s = oi_pre_generation intent)
      else False)"

definition credentialStateAllowsNonSensitiveRetry :: "operation_intent \<Rightarrow> CredentialBindingState \<Rightarrow> bool" where
  "credentialStateAllowsNonSensitiveRetry intent state \<longleftrightarrow> cs_exists state \<and>
     (case cs_summary state of None \<Rightarrow> False | Some s \<Rightarrow> rs_generation s = oi_pre_generation intent)"

text \<open>What a failure on the platform means for the binding.\<close>

definition persistTerminalOperationFailure ::
    "orchestration \<Rightarrow> operation_intent \<Rightarrow> account_binding \<Rightarrow> string \<Rightarrow> ('l, unit) aeff" where
  "persistTerminalOperationFailure oc intent binding reason =
     (let kind = oi_kind intent;
          fail = (\<lambda>status text. andThen (UpdateBindingFailure (pb_id binding) status reason text) (\<lambda>_. return ())) in
      if kind = ''OPERATION_KIND_BIND_CREDENTIAL''
      then or_else (DeleteBinding (pb_id binding) (oc_now oc))
        (\<lambda>err. if errors_is err ErrBindingNotFound then return () else raise err) (\<lambda>_. return ())
      else if kind = ''OPERATION_KIND_REPLACE_CREDENTIAL''
      then fail CredentialInvalid ''platform credential operation failed''
      else if kind = ''OPERATION_KIND_REFRESH_CREDENTIAL''
      then fail RefreshRequired ''platform credential refresh failed''
      else if kind = ''OPERATION_KIND_DELETE_CREDENTIAL''
      then fail DeleteFailed ''platform credential delete failed''
      else if kind = ''OPERATION_KIND_SET_PRIMARY_PROFILE'' then return ()
      else raise ErrInvalidBindingMutation)"

definition finalizeNonSensitiveCredentialOperation ::
    "orchestration \<Rightarrow> operation_intent \<Rightarrow> account_binding \<Rightarrow> ('l, unit) aeff" where
  "finalizeNonSensitiveCredentialOperation oc intent binding =
     andThen (MarkProjectionPending (oi_operation_id intent) ''projection_pending'' (oc_now oc)) (\<lambda>_.
     if oi_kind intent = ''OPERATION_KIND_DELETE_CREDENTIAL''
     then andThen (DeleteBinding (pb_id binding) (oc_now oc)) (\<lambda>_. MarkSucceeded (oi_operation_id intent) (oc_now oc))
     else raise ErrInvalidBindingMutation)"

section \<open>Delivering an admitted operation again\<close>

definition delivery_scope :: "string \<Rightarrow> string option" where
  "delivery_scope kind =
     (if kind = ''OPERATION_KIND_REFRESH_CREDENTIAL'' then Some MihomoCredentialRefresh
      else if kind = ''OPERATION_KIND_DELETE_CREDENTIAL'' then Some MihomoCredentialDelete
      else if kind = ''OPERATION_KIND_SET_PRIMARY_PROFILE'' then Some MihomoProfileWrite
      else None)"

definition delivery_ticket ::
    "orchestration \<Rightarrow> operation_intent \<Rightarrow> account_binding \<Rightarrow> string \<Rightarrow> (platform_call, string \<times> instant) aeff" where
  "delivery_ticket oc intent binding scope =
     (if oi_kind intent = ''OPERATION_KIND_SET_PRIMARY_PROFILE''
      then IssueProfileScopedOperationTicket (oc_platform oc) (oi_actor_type intent) (oi_actor_id intent) binding
        (oi_profile_ref intent) (oi_operation_id intent) [scope]
      else IssueBindingScopedOperationTicket (oc_platform oc) (oi_actor_type intent) (oi_actor_id intent) binding
        (oi_operation_id intent) [scope])"

definition apply_delivered ::
    "orchestration \<Rightarrow> operation_intent \<Rightarrow> account_binding \<Rightarrow> u64 \<Rightarrow> string \<Rightarrow> RuntimeSummary \<Rightarrow>
     (platform_call, unit) aeff" where
  "apply_delivered oc intent binding revision profileRef summary =
     andThen (applyAuthoritativeSummary oc (oi_operation_id intent) (oi_kind intent) binding
       (oi_target_generation intent) revision profileRef summary) (\<lambda>_. return ())"

definition deliver_intent ::
    "orchestration \<Rightarrow> operation_intent \<Rightarrow> account_binding \<Rightarrow> string \<Rightarrow> string \<Rightarrow> (platform_call, unit) aeff" where
  "deliver_intent oc intent binding endpoint ticket =
     (let env = oc_platform oc; i = oi_operation_id intent; kind = oi_kind intent;
          failed = handleNonSensitiveCredentialDeliveryError oc binding (credentialOperationReferenceFromIntent intent) in
      if kind = ''OPERATION_KIND_REFRESH_CREDENTIAL''
      then or_else (gateway_RefreshCredential env endpoint ticket i binding) failed
        (apply_delivered oc intent binding 0 '''')
      else if kind = ''OPERATION_KIND_SET_PRIMARY_PROFILE''
      then or_else (gateway_SetPrimaryProfile env endpoint ticket i
          (bindingAtProfileRevision binding (oi_profile_revision intent)) (oi_profile_ref intent)) failed
        (apply_delivered oc intent binding (oi_profile_revision intent) (oi_profile_ref intent))
      else or_else (gateway_DeleteCredential env endpoint ticket i binding) failed
        (\<lambda>_. finalizeNonSensitiveCredentialOperation oc intent binding))"

definition deliverNonSensitiveCredentialOperation ::
    "orchestration \<Rightarrow> operation_intent \<Rightarrow> account_binding \<Rightarrow> string \<Rightarrow> (platform_call, unit) aeff" where
  "deliverNonSensitiveCredentialOperation oc intent binding endpoint = (case delivery_scope (oi_kind intent) of
       None \<Rightarrow> raise ErrInvalidBindingMutation
     | Some scope \<Rightarrow> or_else (delivery_ticket oc intent binding scope)
         (rescheduleCredentialOperation oc (oi_operation_id intent) ''ticket_issue_failed'')
         (\<lambda>(ticket, _). deliver_intent oc intent binding endpoint ticket))"

section \<open>Proof of the remote state\<close>

text \<open>The state of the binding on the platform, read with a ticket of its own.\<close>

definition read_remote_state ::
    "orchestration \<Rightarrow> operation_intent \<Rightarrow> account_binding \<Rightarrow> string \<Rightarrow>
     (CredentialBindingState \<Rightarrow> (platform_call, unit) aeff) \<Rightarrow> (platform_call, unit) aeff" where
  "read_remote_state oc intent operationBinding endpoint k =
     or_else (IssueBindingScopedTicket (oc_platform oc) (oi_actor_type intent) (oi_actor_id intent) operationBinding
         [MihomoBindingRead])
       (rescheduleCredentialOperation oc (oi_operation_id intent) ''binding_state_ticket_failed'')
       (\<lambda>(ticket, _). or_else (GetCredentialBindingState (oc_platform oc) endpoint ticket (oi_binding_ref intent))
         (rescheduleCredentialOperation oc (oi_operation_id intent) ''binding_state_unavailable'') k)"

definition retry_input :: "operation_intent \<Rightarrow> string \<Rightarrow> CredentialOperationIntentInput" where
  "retry_input intent newOperationID =
     (credentialOperationIntentInput (oi_binding_id intent) (oi_actor_type intent) (oi_actor_id intent)
        ((credentialOperationReferenceFromIntent intent)\<lparr>or_operation_id := newOperationID\<rparr>))
     \<lparr>ii_profile_ref := oi_profile_ref intent, ii_profile_revision := oi_profile_revision intent\<rparr>"

definition retry_with_state ::
    "orchestration \<Rightarrow> operation_intent \<Rightarrow> CredentialBindingState \<Rightarrow> (platform_call, unit) aeff" where
  "retry_with_state oc intent state =
     (let i = oi_operation_id intent in
      if credentialStateAllowsNonSensitiveRetry intent state
      then andThen (new_operation_id oc) (\<lambda>newID.
           andThen (RetryNonSensitive i (retry_input intent newID) (oc_now oc)) (\<lambda>_. return ()))
      else if oi_kind intent = ''OPERATION_KIND_DELETE_CREDENTIAL'' \<and> \<not> cs_exists state
      then or_else (or_else (DeleteBinding (oi_binding_id intent) (oc_now oc))
             (\<lambda>err. if errors_is err ErrBindingNotFound then return () else raise err) (\<lambda>_. return ()))
           (rescheduleCredentialOperation oc i ''delete_projection_pending'')
           (\<lambda>_. andThen (MarkProjectionPending i ''delete_already_absent'' (oc_now oc)) (\<lambda>_. MarkSucceeded i (oc_now oc)))
      else andThen (ignoring (MarkInvariantViolation i ''operation_terminal_state_inconsistent'' (oc_now oc)))
             (\<lambda>_. raise ErrBindingGenerationConflict))"

definition retryNonSensitiveCredentialOperationAfterProof ::
    "orchestration \<Rightarrow> string \<Rightarrow> operation_intent \<Rightarrow> account_binding \<Rightarrow> (platform_call, unit) aeff" where
  "retryNonSensitiveCredentialOperationAfterProof oc endpoint intent operationBinding =
     read_remote_state oc intent operationBinding endpoint (retry_with_state oc intent)"

section \<open>Compensating a lost result\<close>

definition finalizeMissingTerminalCompensation ::
    "orchestration \<Rightarrow> operation_intent \<Rightarrow> account_binding \<Rightarrow> ('l, unit) aeff" where
  "finalizeMissingTerminalCompensation oc intent binding =
     (let i = oi_operation_id intent in
      andThen (MarkProjectionPending i missingTerminalCompensationProjectionReason (oc_now oc)) (\<lambda>_.
      or_else (or_else (DeleteBinding (pb_id binding) (oc_now oc))
          (\<lambda>err. if errors_is err ErrBindingNotFound then return () else raise err) (\<lambda>_. return ()))
        (rescheduleCredentialOperation oc i ''compensation_projection_pending'')
        (\<lambda>_. MarkFailed i ''terminal_result_missing_compensated'' (oc_now oc))))"

definition missingTerminalCompensationReference ::
    "(string \<Rightarrow> string) \<Rightarrow> operation_intent \<Rightarrow> CredentialOperationReference" where
  "missingTerminalCompensationReference sha256 intent =
     (let preGeneration = oi_target_generation intent in
      \<lparr>or_operation_id = compensationDeleteOperationID sha256 (oi_operation_id intent),
       or_kind = ''OPERATION_KIND_DELETE_CREDENTIAL'', or_binding_ref = oi_binding_ref intent,
       or_pre_generation = preGeneration, or_target_generation = preGeneration + 1,
       or_request_fingerprint = Fingerprint sha256 ''OPERATION_KIND_DELETE_CREDENTIAL'' (oi_binding_ref intent)
         preGeneration (preGeneration + 1)\<rparr>)"

definition confirmMissingTerminalCompensation ::
    "orchestration \<Rightarrow> string \<Rightarrow> operation_intent \<Rightarrow> account_binding \<Rightarrow> (platform_call, unit) aeff" where
  "confirmMissingTerminalCompensation oc endpoint intent binding =
     (let i = oi_operation_id intent;
          reference = missingTerminalCompensationReference (pe_sha256 (oc_platform oc)) intent in
      or_else (IssueBindingScopedOperationTicket (oc_platform oc) (oi_actor_type intent) (oi_actor_id intent)
          (bindingAtGeneration binding (or_pre_generation reference)) (or_operation_id reference) [MihomoOperationResolve])
        (rescheduleCredentialOperation oc i ''compensation_resolve_ticket_failed'')
        (\<lambda>(ticket, _). or_else (ResolveCredentialOperation (oc_platform oc) endpoint ticket reference)
          (rescheduleCredentialOperation oc i ''compensation_resolve_failed'')
          (\<lambda>resolution. case cr_state resolution of
             CredentialRemoteOperationPending \<Rightarrow> Reschedule i ''compensation_remote_pending'' (oc_retry_at oc)
           | CredentialRemoteOperationSucceeded \<Rightarrow> finalizeMissingTerminalCompensation oc intent binding
           | _ \<Rightarrow> andThen (ignoring (MarkInvariantViolation i ''compensation_terminal_state_inconsistent'' (oc_now oc)))
                    (\<lambda>_. raise ErrBindingGenerationConflict))))"

text \<open>The platform is at the target generation but has lost the result: its copy is deleted.\<close>

definition compensate_lost_result ::
    "orchestration \<Rightarrow> string \<Rightarrow> operation_intent \<Rightarrow> account_binding \<Rightarrow> RuntimeSummary \<Rightarrow> (platform_call, unit) aeff" where
  "compensate_lost_result oc endpoint intent localBinding summary =
     (let i = oi_operation_id intent in
      andThen (MarkInvariantViolation i ''terminal_result_missing_at_target_generation'' (oc_now oc)) (\<lambda>_.
      if \<not> validOperationSummary (oi_kind intent) (oi_target_generation intent) (oi_profile_revision intent)
             (oi_profile_ref intent) (Some summary)
      then andThen (ignoring (MarkInvariantViolation i ''terminal_summary_mismatch'' (oc_now oc)))
             (\<lambda>_. raise ErrBindingGenerationConflict)
      else or_else (compensateDeleteCredential oc i localBinding (rs_platform_account_id summary) (rs_generation summary)
             (oi_actor_type intent) (oi_actor_id intent) endpoint)
           (\<lambda>err. andThen (ignoring (MarkInvariantViolation i ''missing_terminal_compensation_failed'' (oc_now oc)))
             (\<lambda>_. raise err))
           (\<lambda>_. finalizeMissingTerminalCompensation oc intent localBinding)))"

definition input_required_projection ::
    "orchestration \<Rightarrow> operation_intent \<Rightarrow> account_binding \<Rightarrow> ('l, unit) aeff" where
  "input_required_projection oc intent localBinding =
     or_else (UpdateBindingFailure (pb_id localBinding) CredentialInvalid ''credential_input_required''
         ''credential must be submitted again'')
       (rescheduleCredentialOperation oc (oi_operation_id intent) ''input_projection_pending'')
       (\<lambda>_. MarkInputRequired (oi_operation_id intent) ''credential_resubmission_required'' (oc_now oc))"

definition inconsistent_terminal_state ::
    "orchestration \<Rightarrow> operation_intent \<Rightarrow> account_binding \<Rightarrow> ('l, unit) aeff" where
  "inconsistent_terminal_state oc intent localBinding =
     or_else (UpdateBindingFailure (pb_id localBinding) CredentialInvalid ''operation_invariant_violation''
         ''platform operation state requires manual reconciliation'')
       (rescheduleCredentialOperation oc (oi_operation_id intent) ''invariant_projection_pending'')
       (\<lambda>_. andThen (ignoring (MarkInvariantViolation (oi_operation_id intent)
            ''operation_terminal_state_inconsistent'' (oc_now oc))) (\<lambda>_. raise ErrBindingGenerationConflict))"

definition confirm_with_state ::
    "orchestration \<Rightarrow> string \<Rightarrow> operation_intent \<Rightarrow> account_binding \<Rightarrow> CredentialBindingState \<Rightarrow>
     (platform_call, unit) aeff" where
  "confirm_with_state oc endpoint intent localBinding state =
     (if \<not> cs_exists state \<and> oi_state intent = ProjectionPending \<and>
         oi_reason_code intent = missingTerminalCompensationProjectionReason
      then finalizeMissingTerminalCompensation oc intent localBinding
      else if \<not> cs_exists state \<and> oi_state intent = InvariantViolation \<and>
         oi_reason_code intent = ''missing_terminal_compensation_failed''
      then confirmMissingTerminalCompensation oc endpoint intent localBinding
      else if credentialStateAllowsResubmission intent state then input_required_projection oc intent localBinding
      else case (if cs_exists state then cs_summary state else None) of
        Some summary \<Rightarrow>
          if rs_generation summary = oi_target_generation intent
          then compensate_lost_result oc endpoint intent localBinding summary
          else inconsistent_terminal_state oc intent localBinding
      | None \<Rightarrow> inconsistent_terminal_state oc intent localBinding)"

definition confirmCredentialInputRequired ::
    "orchestration \<Rightarrow> string \<Rightarrow> operation_intent \<Rightarrow> account_binding \<Rightarrow> account_binding \<Rightarrow> (platform_call, unit) aeff" where
  "confirmCredentialInputRequired oc endpoint intent operationBinding localBinding =
     read_remote_state oc intent operationBinding endpoint (confirm_with_state oc endpoint intent localBinding)"

section \<open>Applying a resolved operation\<close>

text \<open>Somebody else owns the account the platform bound.\<close>

definition resolved_for_owned_account ::
    "orchestration \<Rightarrow> operation_intent \<Rightarrow> account_binding \<Rightarrow> RuntimeSummary \<Rightarrow> string \<Rightarrow> acerror \<Rightarrow>
     (platform_call, unit) aeff" where
  "resolved_for_owned_account oc intent binding summary endpoint err =
     (let i = oi_operation_id intent in
      or_else (compensateDeleteCredential oc i binding (rs_platform_account_id summary) (rs_generation summary)
          (oi_actor_type intent) (oi_actor_id intent) endpoint)
        (\<lambda>cleanupErr. andThen (ignoring (MarkInvariantViolation i ''compensation_delete_failed'' (oc_now oc)))
           (\<lambda>_. raise cleanupErr))
        (\<lambda>_. andThen (MarkProjectionPending i duplicateOwnerCompensationProjectionReason (oc_now oc)) (\<lambda>_.
             or_else (DeleteBinding (pb_id binding) (oc_now oc))
               (\<lambda>deleteErr. andThen (ignoring (Reschedule i duplicateOwnerCompensationProjectionReason (oc_retry_at oc)))
                  (\<lambda>_. raise deleteErr))
               (\<lambda>_. andThen (MarkFailed i ''duplicate_owner'' (oc_now oc)) (\<lambda>_. raise err)))))"

definition applyResolvedCredentialOperation ::
    "orchestration \<Rightarrow> operation_intent \<Rightarrow> account_binding \<Rightarrow> RuntimeSummary option \<Rightarrow> string \<Rightarrow>
     (platform_call, unit) aeff" where
  "applyResolvedCredentialOperation oc intent binding resolved endpoint =
     (let i = oi_operation_id intent in
      if \<not> validOperationSummary (oi_kind intent) (oi_target_generation intent) (oi_profile_revision intent)
             (oi_profile_ref intent) resolved
      then andThen (ignoring (MarkInvariantViolation i ''terminal_generation_mismatch'' (oc_now oc)))
             (\<lambda>_. raise ErrBindingGenerationConflict)
      else let summary = the resolved in
        andThen (MarkProjectionPending i ''projection_pending'' (oc_now oc)) (\<lambda>_.
        or_else (PersistRuntimeSummary (pb_id binding) summary)
          (\<lambda>err. if errors_is err ErrBindingAlreadyOwned
             then resolved_for_owned_account oc intent binding summary endpoint err else raise err)
          (\<lambda>updated. andThen (syncProfiles oc binding updated summary) (\<lambda>_. MarkSucceeded i (oc_now oc)))))"

section \<open>The reconciler\<close>

definition input_still_required :: "orchestration \<Rightarrow> operation_intent \<Rightarrow> ('l, unit) aeff" where
  "input_still_required oc intent = (case oi_input_expires_at intent of
       None \<Rightarrow> MarkInputRequired (oi_operation_id intent) ''credential_resubmission_required'' (oc_now oc)
     | Some t \<Rightarrow>
         if \<not> oc_now oc < t then ExpireInputRequired (oi_operation_id intent) (oc_now oc)
         else Reschedule (oi_operation_id intent) ''credential_input_required'' t)"

definition remote_failed ::
    "orchestration \<Rightarrow> operation_intent \<Rightarrow> account_binding \<Rightarrow> string \<Rightarrow> ('l, unit) aeff" where
  "remote_failed oc intent binding reason =
     or_else (persistTerminalOperationFailure oc intent binding reason)
       (rescheduleCredentialOperation oc (oi_operation_id intent) ''failure_projection_pending'')
       (\<lambda>_. MarkFailed (oi_operation_id intent) reason (oc_now oc))"

definition settle_resolution ::
    "orchestration \<Rightarrow> operation_intent \<Rightarrow> account_binding \<Rightarrow> string \<Rightarrow> CredentialOperationResolution \<Rightarrow>
     (platform_call, unit) aeff" where
  "settle_resolution oc intent binding endpoint resolution =
     (let i = oi_operation_id intent; operationBinding = bindingAtGeneration binding (oi_pre_generation intent);
          unproved = (if isNonSensitiveCredentialOperation (oi_kind intent)
            then retryNonSensitiveCredentialOperationAfterProof oc endpoint intent operationBinding
            else confirmCredentialInputRequired oc endpoint intent operationBinding binding) in
      case cr_state resolution of
        CredentialRemoteOperationPending \<Rightarrow>
          andThen (ignoring (MarkUncertain i ''remote_operation_pending'' (oc_now oc))) (\<lambda>_.
          Reschedule i ''remote_operation_pending'' (oc_retry_at oc))
      | CredentialRemoteOperationSucceeded \<Rightarrow>
          if oi_kind intent = ''OPERATION_KIND_DELETE_CREDENTIAL''
          then finalizeNonSensitiveCredentialOperation oc intent binding
          else applyResolvedCredentialOperation oc intent binding (cr_summary resolution) endpoint
      | CredentialRemoteOperationFailed \<Rightarrow>
          remote_failed oc intent binding (nonemptyReason (cr_reason_code resolution) ''remote_operation_failed'')
      | CredentialRemoteOperationNotReceived \<Rightarrow> unproved
      | CredentialRemoteOperationFailedInputRequired \<Rightarrow> unproved)"

definition resolution_failed :: "orchestration \<Rightarrow> operation_intent \<Rightarrow> acerror \<Rightarrow> ('l, unit) aeff" where
  "resolution_failed oc intent err =
     (let i = oi_operation_id intent in
      if IsCredentialOperationOutcomeUnknown err
      then andThen (ignoring (MarkUncertain i ''resolve_outcome_unknown'' (oc_now oc))) (\<lambda>_.
           rescheduleCredentialOperation oc i ''resolve_outcome_unknown'' err)
      else andThen (ignoring (MarkInvariantViolation i ''resolve_rejected'' (oc_now oc))) (\<lambda>_. raise err))"

definition resolve_intent ::
    "orchestration \<Rightarrow> operation_intent \<Rightarrow> account_binding \<Rightarrow> string \<Rightarrow> (platform_call, unit) aeff" where
  "resolve_intent oc intent binding endpoint =
     or_else (IssueBindingScopedOperationTicket (oc_platform oc) (oi_actor_type intent) (oi_actor_id intent)
         (bindingAtGeneration binding (oi_pre_generation intent)) (oi_operation_id intent) [MihomoOperationResolve])
       (rescheduleCredentialOperation oc (oi_operation_id intent) ''ticket_issue_failed'')
       (\<lambda>(ticket, _). or_else
          (ResolveCredentialOperation (oc_platform oc) endpoint ticket (credentialOperationReferenceFromIntent intent))
          (resolution_failed oc intent) (settle_resolution oc intent binding endpoint))"

definition reconcile_with_platform ::
    "orchestration \<Rightarrow> operation_intent \<Rightarrow> account_binding \<Rightarrow> (platform_call, unit) aeff" where
  "reconcile_with_platform oc intent binding =
     or_else (GetEnabledPlatform (pb_platform binding))
       (rescheduleCredentialOperation oc (oi_operation_id intent) ''platform_service_unavailable'')
       (\<lambda>platformRow.
          if oi_state intent = PendingDelivery \<and> isNonSensitiveCredentialOperation (oi_kind intent)
          then deliverNonSensitiveCredentialOperation oc intent (bindingAtGeneration binding (oi_pre_generation intent))
            (svc_control_endpoint platformRow)
          else resolve_intent oc intent binding (svc_control_endpoint platformRow))"

definition is_deleted :: "account_binding \<Rightarrow> bool" where
  "is_deleted binding \<longleftrightarrow> pb_deleted_at binding \<noteq> None"

definition reconcile_binding ::
    "orchestration \<Rightarrow> operation_intent \<Rightarrow> account_binding \<Rightarrow> (platform_call, unit) aeff" where
  "reconcile_binding oc intent binding =
     (let i = oi_operation_id intent in
      if is_deleted binding \<and> oi_kind intent = ''OPERATION_KIND_DELETE_CREDENTIAL''
      then andThen (MarkProjectionPending i ''projection_already_deleted'' (oc_now oc))
             (\<lambda>_. MarkSucceeded i (oc_now oc))
      else if is_deleted binding \<and> oi_state intent = ProjectionPending \<and>
         oi_reason_code intent = duplicateOwnerCompensationProjectionReason
      then MarkFailed i ''duplicate_owner'' (oc_now oc)
      else reconcile_with_platform oc intent binding)"

definition ReconcileCredentialOperation :: "orchestration \<Rightarrow> string \<Rightarrow> (platform_call, unit) aeff" where
  "ReconcileCredentialOperation oc operationID =
     andThen (Get_intent operationID) (\<lambda>intent.
     if oi_state intent = InputRequired then input_still_required oc intent
     else if \<not> reserving intent then return ()
     else andThen (or_else (GetBindingByID (oi_binding_id intent))
            (\<lambda>_. GetBindingByIDUnscoped (oi_binding_id intent)) return)
          (reconcile_binding oc intent))"

section \<open>Runtime summaries\<close>

definition normalizeRuntimeSummaryError :: "acerror \<Rightarrow> acerror" where
  "normalizeRuntimeSummaryError err =
     (if \<not> IsExecutionPlaneUnavailableError err then err
      else if errors_is err ErrPlatformServiceUnavailable then err else ErrPlatformSummaryProxyUnavailable)"

definition read_runtime_summary ::
    "orchestration \<Rightarrow> string \<Rightarrow> string \<Rightarrow> account_binding \<Rightarrow> (platform_call, RuntimeSummary) aeff" where
  "read_runtime_summary oc actorType actorID binding =
     andThen (map_error normalizeRuntimeSummaryError
       (GetBindingRuntimeSummary_platform (oc_platform oc) actorType actorID binding [MihomoBindingRead])) (\<lambda>summary.
     lift_result (decodeRuntimeSummary summary))"

definition GetRuntimeSummary :: "orchestration \<Rightarrow> nat \<Rightarrow> nat \<Rightarrow> (platform_call, RuntimeSummary) aeff" where
  "GetRuntimeSummary oc ownerUserID bindingID =
     andThen (GetBindingForOwner ownerUserID bindingID) (\<lambda>binding.
     if pb_external_account_key binding = None then raise ErrBindingRuntimeSummaryNotReady
     else read_runtime_summary oc ''user'' ''binding-runtime-summary'' binding)"

definition GetRuntimeSummaryAsAdmin :: "orchestration \<Rightarrow> nat \<Rightarrow> (platform_call, RuntimeSummary) aeff" where
  "GetRuntimeSummaryAsAdmin oc bindingID =
     andThen (GetBindingByID bindingID) (\<lambda>binding.
     if pb_external_account_key binding = None then raise ErrBindingRuntimeSummaryNotReady
     else read_runtime_summary oc ''admin'' ''binding-runtime-summary-admin'' binding)"

definition repair_sync_input :: "orchestration \<Rightarrow> account_binding \<Rightarrow> RuntimeSummary \<Rightarrow> SyncProfilesInput" where
  "repair_sync_input oc binding summary =
     \<lparr>sp_binding_id = pb_id binding,
      sp_profiles = buildProfileProjectionInputs (pb_platform binding) (rs_profiles summary),
      sp_synced_at = oc_now oc, sp_revision = rs_profile_revision summary,
      sp_observed_revision = rs_profile_observed_revision summary\<rparr>"

definition RepairProjection :: "orchestration \<Rightarrow> nat \<Rightarrow> (platform_call, account_binding) aeff" where
  "RepairProjection oc bindingID =
     andThen (GetBindingByID bindingID) (\<lambda>binding.
     if \<not> has_resolved_account binding then raise ErrBindingRuntimeSummaryNotReady
     else andThen (read_runtime_summary oc ''system'' ''platform-binding-reconcile'' binding) (\<lambda>summary.
       andThen (PersistRuntimeSummary (pb_id binding) summary) (\<lambda>updated.
       if \<not> snapshot_current summary then return updated
       else andThen (SyncProfiles (repair_sync_input oc binding summary) (oc_now oc) (oc_profile_refs oc))
              (\<lambda>_. return updated))))"

end
