(* ===== verification/Account_Reconcile.thy ===== *)
theory Account_Reconcile
  imports Account_Orchestration
begin

text \<open>
  What the orchestration of platform operations keeps and what it promises.  Its operations follow
  the life cycle of the intents whatever fails and whatever a platform answers; an intent is closed
  as succeeded only on the platform's word; and an uncertain change of the primary profile is
  never resolved.
\<close>

section \<open>Operations beside the intents\<close>

definition intent_tables :: "account_db \<Rightarrow> operation_intent list \<times> operation_outbox list" where
  "intent_tables d = (ac_intents d, ac_outbox d)"

definition beside :: "('l, 'a) aeff \<Rightarrow> bool" where
  "beside m \<longleftrightarrow> frames intent_tables m \<and> keeps account_ok m"

lemma beside_runs: "beside m \<Longrightarrow> runs intent_protocol m"
  unfolding runs_def
proof (intro allI impI)
  fix w :: "'a aworld"
  assume m: "beside m" and w: "base w = None"
  obtain r w' where run: "m w = (r, w')" by (metis surj_pair)
  from m have f: "frames intent_tables m" and k: "keeps account_ok m" by (simp_all add: beside_def)
  from runsD [OF frames_still [OF f] run w]
  have w': "base w' = None" "intent_tables (db w') = intent_tables (db w)" by simp_all
  have "account_ok (db w) \<Longrightarrow> account_ok (db w')"
    using keeps_call [OF k w] run by simp
  with w' run show "base (snd (m w)) = None \<and> intent_protocol (db w) (db (snd (m w)))"
    by (auto simp: intent_tables_def intro: unrelated_protocol)
qed

lemma beside_rules:
  "beside (return x)" "beside (raise e)" "beside (lift_result q)" "beside (external c q)" "beside (query mk g)"
  "beside (select_one mk missing h)"
  "beside m \<Longrightarrow> (\<And>x. beside (k x)) \<Longrightarrow> beside (andThen m k)"
  "beside m \<Longrightarrow> beside (attempt m)" "beside n \<Longrightarrow> beside (map_error ge n)"
  "(b \<Longrightarrow> beside m1) \<Longrightarrow> (\<not> b \<Longrightarrow> beside m2) \<Longrightarrow> beside (if b then m1 else m2)"
  "beside m3 \<Longrightarrow> (\<And>y. beside (k3 y)) \<Longrightarrow> beside (case o3 of None \<Rightarrow> m3 | Some y \<Rightarrow> k3 y)"
  "(\<And>e. beside (f4 e)) \<Longrightarrow> (\<And>y. beside (k4 y)) \<Longrightarrow> beside (case s4 of Inl e \<Rightarrow> f4 e | Inr y \<Rightarrow> k4 y)"
  "(\<And>a b. beside (k5 a b)) \<Longrightarrow> beside (case p5 of (a, b) \<Rightarrow> k5 a b)"
  "(\<And>x. beside (k6 x)) \<Longrightarrow> beside (for_each xs k6)"
  "beside m7 \<Longrightarrow> beside (db_transaction m7)"
  unfolding beside_def by (auto intro!: keeps_rules)

lemma beside_change:
  "(\<And>d. intent_tables (f d) = intent_tables d) \<Longrightarrow> beside (account_change f)"
  "(\<And>d. intent_tables (snd (g d)) = intent_tables d) \<Longrightarrow> beside (account_write g)"
  unfolding beside_def by (auto intro: account_change_frames account_write_frames)

lemma tables_untouched:
  "intent_tables (save_row b d) = intent_tables d" "intent_tables (update_live i f d) = intent_tables d"
  "intent_tables (clear_primary i d) = intent_tables d" "intent_tables (drop_profiles i d) = intent_tables d"
  "intent_tables (drop_grants p d) = intent_tables d" "intent_tables (demote_profiles i d) = intent_tables d"
  "intent_tables (set_primary_id i o1 d) = intent_tables d" "intent_tables (save_profile q d) = intent_tables d"
  "intent_tables (drop_other_profiles i ks d) = intent_tables d"
  by (simp_all add: intent_tables_def save_row_def update_live_def clear_primary_def drop_profiles_def drop_grants_def
      demote_profiles_def set_primary_id_def save_profile_def drop_other_profiles_def Let_def)

lemma binding_operations_beside:
  "beside (GetBindingByID i)" "beside (GetBindingByIDUnscoped i)" "beside (GetBindingForOwner u i)" "beside (GetProfile i p)"
  "beside (UpdateBindingFailure i st c t)" "beside (UpdateBindingStatus i st)" "beside (DeleteBinding i now)"
  "beside (SyncProfiles input now drawn)" "beside (RecordTx input')"
proof -
  show "beside (GetBindingByID i)" "beside (GetBindingByIDUnscoped i)" "beside (GetBindingForOwner u i)" "beside (GetProfile i p)"
    "beside (UpdateBindingFailure i st c t)" "beside (UpdateBindingStatus i st)" "beside (DeleteBinding i now)"
    unfolding GetBindingByID_def GetBindingByIDUnscoped_def GetBindingForOwner_def GetProfile_def UpdateBindingFailure_def
      UpdateBindingStatus_def DeleteBinding_def delete_binding_body_def Let_def
    by (intro beside_rules beside_change; simp add: tables_untouched)+
  have item: "beside (sync_profile i t item ref)" for i t item ref
    unfolding sync_profile_def Account_Bindings.insert_profile_def Let_def
    by (intro beside_rules beside_change; simp add: tables_untouched) (simp_all add: intent_tables_def)
  show "beside (SyncProfiles input now drawn)"
    unfolding SyncProfiles_def sync_profiles_body_def Let_def
    by (intro beside_rules beside_change item; simp add: tables_untouched)
  show "beside (RecordTx input')"
    unfolding beside_def by (simp add: RecordTx_frames intent_tables_def)
qed

lemma PersistRuntimeSummary_beside: "beside (PersistRuntimeSummary i summary)"
proof -
  have apply1: "beside (apply_runtime_summary b summary)" for b
    unfolding apply_runtime_summary_def by (intro beside_rules beside_change tables_untouched)
  have handle: "beside (handlePersistRuntimeSummaryError e loaded summary)" for e loaded
    unfolding handlePersistRuntimeSummaryError_def by (intro beside_rules)
  have "beside (persist_summary_body i summary)"
    unfolding persist_summary_body_def by (intro beside_rules apply1)
  then have "beside (transaction_capturing AcDb (persist_summary_body i summary))"
    unfolding beside_def by (auto intro!: keeps_rules)
  then show ?thesis
    unfolding PersistRuntimeSummary_def
    by (intro beside_rules handle binding_operations_beside)
qed

section \<open>Every operation follows the life cycle of the intents\<close>

lemma control_runs:
  "runs intent_protocol m \<Longrightarrow> runs intent_protocol (ignoring m)"
  "runs intent_protocol m2 \<Longrightarrow> (\<And>e. runs intent_protocol (failed e)) \<Longrightarrow> (\<And>x. runs intent_protocol (k x)) \<Longrightarrow>
   runs intent_protocol (or_else m2 failed k)"
  unfolding ignoring_def or_else_def by (intro intents.rules; assumption)+

lemmas follow = control_runs intents.rules intent_store_runs binding_operations_beside [THEN beside_runs]
  PersistRuntimeSummary_beside [THEN beside_runs]

lemma reading_follows:
  "runs intent_protocol (Get_intent i)" "runs intent_protocol (FindPendingBindForOwner u p)"
  "runs intent_protocol (GetEnabledPlatform k)" "runs intent_protocol (binding_platform b)"
  "runs intent_protocol (issueBindingScopedTicket env at ai b p i scopes)"
  "runs intent_protocol (IssueBindingScopedTicket env at ai b scopes)"
  "runs intent_protocol (IssueBindingScopedOperationTicket env at ai b i scopes)"
  "runs intent_protocol (IssueProfileScopedOperationTicket env at ai b p i scopes)"
  "runs intent_protocol (new_operation_id oc)" "runs intent_protocol (recordBindingAudit ob action result reason ou at ai)"
  unfolding Get_intent_def FindPendingBindForOwner_def binding_platform_def GetEnabledPlatform_def
    issueBindingScopedTicket_def IssueBindingScopedTicket_def IssueBindingScopedOperationTicket_def
    IssueProfileScopedOperationTicket_def new_operation_id_def recordBindingAudit_def Let_def
  by (intro follow)+

lemma gateway_follows:
  "runs intent_protocol (control_call env e t om req)" "runs intent_protocol (summary_call env e t om req)"
  "runs intent_protocol (gateway_BindCredential env e t i b pl)"
  "runs intent_protocol (gateway_ReplaceCredential env e t i b pl)"
  "runs intent_protocol (gateway_RefreshCredential env e t i b)"
  "runs intent_protocol (gateway_DeleteCredential env e t i b)"
  "runs intent_protocol (gateway_SetPrimaryProfile env e t i b pr)"
  "runs intent_protocol (ResolveCredentialOperation env e t ref)"
  "runs intent_protocol (GetCredentialBindingState env e t r)"
proof -
  show call: "runs intent_protocol (control_call env e t om req)" for e t om req
    unfolding control_call_def dial_platform_def by (intro follow)
  show summary: "runs intent_protocol (summary_call env e t om req)" for e t om req
    unfolding summary_call_def by (intro follow call)
  show "runs intent_protocol (gateway_BindCredential env e t i b pl)"
    "runs intent_protocol (gateway_ReplaceCredential env e t i b pl)"
    "runs intent_protocol (gateway_RefreshCredential env e t i b)"
    "runs intent_protocol (gateway_DeleteCredential env e t i b)"
    "runs intent_protocol (gateway_SetPrimaryProfile env e t i b pr)"
    unfolding gateway_BindCredential_def gateway_ReplaceCredential_def gateway_RefreshCredential_def
      gateway_DeleteCredential_def gateway_SetPrimaryProfile_def Let_def
    by (intro follow call summary)+
  show "runs intent_protocol (ResolveCredentialOperation env e t ref)"
    "runs intent_protocol (GetCredentialBindingState env e t r)"
    unfolding ResolveCredentialOperation_def GetCredentialBindingState_def dial_platform_def
    by (intro follow)+
qed

lemma closing_follows:
  "runs intent_protocol (admitNonSensitiveCredentialOperation oc b at ai ref)"
  "runs intent_protocol (pending_as_stored i err)"
  "runs intent_protocol (markCredentialProjectionPending oc i)" "runs intent_protocol (completeCredentialOperation oc i)"
  "runs intent_protocol (failCredentialOperation oc i reason)"
  "runs intent_protocol (markCredentialInvariantViolation oc i reason)"
  "runs intent_protocol (reschedule_pending oc i b)" "runs intent_protocol (rescheduleCredentialOperation oc i reason err)"
  "runs intent_protocol (syncProfiles oc b b' summary)"
  unfolding admitNonSensitiveCredentialOperation_def pending_as_stored_def markCredentialProjectionPending_def
    completeCredentialOperation_def failCredentialOperation_def markCredentialInvariantViolation_def
    reschedule_pending_def rescheduleCredentialOperation_def syncProfiles_def
  by (intro follow reading_follows)+

lemma failure_follows:
  "runs intent_protocol (handleNonSensitiveCredentialDeliveryError oc b ref err)"
  "runs intent_protocol (handleCredentialDeliveryError oc b ref err)"
  unfolding handleNonSensitiveCredentialDeliveryError_def delivery_outcome_unknown_def delivery_refused_def Let_def
    handleCredentialDeliveryError_def handlePutCredentialError_def refused_bind_def refused_replace_def
  by (intro follow closing_follows)+

lemma projection_follows:
  "runs intent_protocol (applyAuthoritativeSummary oc i kind b g r p summary)"
  "runs intent_protocol (compensateDeleteCredential oc i b k g at ai e)"
  unfolding applyAuthoritativeSummary_def compensateDeleteCredential_def Let_def
  by (intro follow closing_follows reading_follows gateway_follows)+


lemma put_follows:
  "runs intent_protocol (put_without_ticket oc b ref err)"
  "runs intent_protocol (put_unprojected oc b input ref e summary err)"
  "runs intent_protocol (project_put oc b input ref e summary)"
  "runs intent_protocol (putCredentialWithOperation oc b input i admitted)"
  "runs intent_protocol (audited_put b input outcome)"
proof -
  show 1: "runs intent_protocol (put_without_ticket oc b ref err)" for b ref err
    unfolding put_without_ticket_def put_failed_def Let_def by (intro follow closing_follows)
  show 2: "runs intent_protocol (put_unprojected oc b input ref e summary err)" for b input ref e summary err
    unfolding put_unprojected_def put_for_owned_account_def put_failed_def Let_def
    by (intro follow closing_follows projection_follows)
  show 3: "runs intent_protocol (project_put oc b input ref e summary)" for b input ref e summary
    unfolding project_put_def by (intro follow closing_follows 2)
  have 4: "runs intent_protocol (deliver_secret oc e t i b resolved pl)" for e t i b resolved pl
    unfolding deliver_secret_def by (intro follow gateway_follows)
  have "runs intent_protocol (put_admitted oc b input ref e)" for b input ref e
    unfolding put_admitted_def put_failed_def Let_def
    by (intro follow closing_follows reading_follows failure_follows 1 3 4)
  then show "runs intent_protocol (putCredentialWithOperation oc b input i admitted)"
    unfolding putCredentialWithOperation_def put_failed_def Let_def
    by (intro follow closing_follows reading_follows)
  show "runs intent_protocol (audited_put b input outcome)"
    unfolding audited_put_def Let_def by (intro follow reading_follows)
qed

lemma operation_follows:
  "runs intent_protocol (orchestrated_CreateBindingForOwner oc ci)"
  "runs intent_protocol (PutCredentialForOwner oc input)" "runs intent_protocol (PutCredentialAsAdmin oc input)"
  "runs intent_protocol (refreshBinding oc b at ai)" "runs intent_protocol (deleteBinding oc b at ai)"
  "runs intent_protocol (orchestrated_SetPrimaryProfileForOwner oc u i p ai)"
proof -
  have 1: "runs intent_protocol (admit_creation oc ci row)" for row
    unfolding admit_creation_def by (intro follow reading_follows)
  have 2: "runs intent_protocol (after_creation oc ci b outcome)" for b outcome
    unfolding after_creation_def creation_audit_def keep_updated_def by (intro follow reading_follows)
  show "runs intent_protocol (orchestrated_CreateBindingForOwner oc ci)"
    unfolding orchestrated_CreateBindingForOwner_def creation_audit_def by (intro follow reading_follows put_follows 1 2)
  show "runs intent_protocol (PutCredentialForOwner oc input)" "runs intent_protocol (PutCredentialAsAdmin oc input)"
    unfolding PutCredentialForOwner_def PutCredentialAsAdmin_def putCredential_def by (intro follow put_follows)+
  show "runs intent_protocol (refreshBinding oc b at ai)"
    unfolding refreshBinding_def Let_def
    by (intro follow reading_follows closing_follows gateway_follows failure_follows projection_follows)
  have 3: "runs intent_protocol (markDeleteFailed oc i err reason)" for i err reason
    unfolding markDeleteFailed_def by (intro follow)
  show "runs intent_protocol (deleteBinding oc b at ai)"
    unfolding deleteBinding_def delete_projection_def delete_remotely_def Let_def
    by (intro follow reading_follows closing_follows gateway_follows failure_follows 3)
  have "runs intent_protocol (primary_delivery_failed oc b ref ai err)" for b ref err
    unfolding primary_delivery_failed_def primary_audit_def Let_def by (intro follow reading_follows failure_follows)
  then show "runs intent_protocol (orchestrated_SetPrimaryProfileForOwner oc u i p ai)"
    unfolding orchestrated_SetPrimaryProfileForOwner_def deliver_primary_def primary_audit_def Let_def
    by (intro follow reading_follows closing_follows gateway_follows projection_follows)
qed


lemma delivery_follows:
  "runs intent_protocol (finalizeNonSensitiveCredentialOperation oc intent b)"
  "runs intent_protocol (deliverNonSensitiveCredentialOperation oc intent b e)"
proof -
  show 1: "runs intent_protocol (finalizeNonSensitiveCredentialOperation oc intent b)" for intent b
    unfolding finalizeNonSensitiveCredentialOperation_def by (intro follow)
  have "runs intent_protocol (deliver_intent oc intent b e t)" for t
    unfolding deliver_intent_def apply_delivered_def Let_def
    by (intro follow gateway_follows failure_follows projection_follows 1)
  then show "runs intent_protocol (deliverNonSensitiveCredentialOperation oc intent b e)"
    unfolding deliverNonSensitiveCredentialOperation_def delivery_ticket_def
    by (intro follow reading_follows closing_follows)
qed

lemma proof_follows:
  "(\<And>s. runs intent_protocol (k s)) \<Longrightarrow> runs intent_protocol (read_remote_state oc intent ob e k)"
  "runs intent_protocol (retry_with_state oc intent s)"
  "runs intent_protocol (finalizeMissingTerminalCompensation oc intent b)"
  "runs intent_protocol (confirmMissingTerminalCompensation oc e intent b)"
  "runs intent_protocol (confirm_with_state oc e intent b s)"
proof -
  show "runs intent_protocol (read_remote_state oc intent ob e k)" if "\<And>s. runs intent_protocol (k s)"
    unfolding read_remote_state_def by (intro follow reading_follows closing_follows gateway_follows that)
  show "runs intent_protocol (retry_with_state oc intent s)"
    unfolding retry_with_state_def Let_def by (intro follow reading_follows closing_follows)
  show 1: "runs intent_protocol (finalizeMissingTerminalCompensation oc intent b)" for intent b
    unfolding finalizeMissingTerminalCompensation_def Let_def by (intro follow closing_follows)
  show 2: "runs intent_protocol (confirmMissingTerminalCompensation oc e intent b)" for e intent b
    unfolding confirmMissingTerminalCompensation_def Let_def
    by (intro follow reading_follows closing_follows gateway_follows)
       (auto split: remote_state.split intro!: follow 1)
  have 3: "runs intent_protocol (compensate_lost_result oc e intent b summary)" for summary
    unfolding compensate_lost_result_def Let_def by (intro follow projection_follows 1)
  show "runs intent_protocol (confirm_with_state oc e intent b s)"
    unfolding confirm_with_state_def input_required_projection_def inconsistent_terminal_state_def
    by (intro follow closing_follows 1 2 3)
qed

lemma applying_follows:
  "runs intent_protocol (applyResolvedCredentialOperation oc intent b resolved e)"
  "runs intent_protocol (remote_failed oc intent b reason)"
  "runs intent_protocol (resolution_failed oc intent err)"
  unfolding applyResolvedCredentialOperation_def resolved_for_owned_account_def remote_failed_def
    persistTerminalOperationFailure_def resolution_failed_def Let_def
  by (intro follow projection_follows closing_follows)+

lemma settle_follows: "runs intent_protocol (settle_resolution oc intent b e resolution)"
proof -
  have unproved: "runs intent_protocol (retryNonSensitiveCredentialOperationAfterProof oc e intent ob)"
    "runs intent_protocol (confirmCredentialInputRequired oc e intent ob b)" for ob
    unfolding retryNonSensitiveCredentialOperationAfterProof_def confirmCredentialInputRequired_def
    by (intro proof_follows)+
  show ?thesis
    unfolding settle_resolution_def Let_def
    by (cases "cr_state resolution") (auto intro!: follow unproved applying_follows delivery_follows)
qed

lemma ReconcileCredentialOperation_follows: "runs intent_protocol (ReconcileCredentialOperation oc i)"
proof -
  have 1: "runs intent_protocol (reconcile_with_platform oc intent b)" for intent b
    unfolding reconcile_with_platform_def resolve_intent_def
    by (intro follow reading_follows closing_follows gateway_follows delivery_follows applying_follows settle_follows)
  have 2: "runs intent_protocol (reconcile_binding oc intent b)" for intent b
    unfolding reconcile_binding_def Let_def by (intro follow 1)
  have 3: "runs intent_protocol (input_still_required oc intent)" for intent
    unfolding input_still_required_def by (intro follow)
  show ?thesis
    unfolding ReconcileCredentialOperation_def by (intro follow reading_follows 2 3)
qed



section \<open>An uncertain change of the primary profile\<close>

definition fails :: "('l, 'a) aeff \<Rightarrow> bool" where
  "fails m \<longleftrightarrow> (\<forall>w. \<exists>e. fst (m w) = Inl e)"

lemma fails_rules:
  "fails (raise e)"
  "(\<And>x. fails (k1 x)) \<Longrightarrow> fails (andThen m1 k1)"
  "(\<And>e. fails (f2 e)) \<Longrightarrow> (\<And>x. fails (k2 x)) \<Longrightarrow> fails (or_else m2 f2 k2)"
  "(b \<Longrightarrow> fails m3) \<Longrightarrow> (\<not> b \<Longrightarrow> fails m4) \<Longrightarrow> fails (if b then m3 else m4)"
  "(\<And>a b. fails (k5 a b)) \<Longrightarrow> fails (case p5 of (a, b) \<Rightarrow> k5 a b)"
  by (auto simp: fails_def effect_simps or_else_def split: prod.splits sum.splits)

lemma reschedule_fails: "fails (rescheduleCredentialOperation oc i reason err)"
  unfolding rescheduleCredentialOperation_def by (intro fails_rules)

lemma or_else_raise: "or_else (raise e) failed k = failed e"
  by (rule ext) (simp add: or_else_def effect_simps)

lemma lift_result_Inl: "andThen (lift_result (Inl e)) k = raise e"
  by (rule ext) (simp add: effect_simps)

lemma primary_unresolvable:
  assumes "oi_kind intent = ''OPERATION_KIND_SET_PRIMARY_PROFILE''"
    "oi_target_generation intent = oi_pre_generation intent"
  shows "ResolveCredentialOperation env endpoint ticket (credentialOperationReferenceFromIntent intent) =
    raise ErrInvalidBindingMutation"
  using assms by (simp add: ResolveCredentialOperation_def credentialOperationReferenceProto_def
      credentialOperationReferenceFromIntent_def named_kinds_def lift_result_Inl)

lemma rejected_reference:
  "resolution_failed oc intent ErrInvalidBindingMutation =
     andThen (ignoring (MarkInvariantViolation (oi_operation_id intent) ''resolve_rejected'' (oc_now oc)))
       (\<lambda>_. raise ErrInvalidBindingMutation)"
  by (simp add: resolution_failed_def IsCredentialOperationOutcomeUnknown_def IsExecutionPlaneUnavailableError_def
      errors_is_def status_from_error_def to_lower_def List.map_filter_simps Let_def)

text \<open>The open intent of an operation.\<close>

definition stays_open :: "string \<Rightarrow> account_db \<Rightarrow> bool" where
  "stays_open i d \<longleftrightarrow> (\<exists>r. find_intent i d = Some r \<and> reserving r)"

lemma stays_open_beside: "intent_tables d' = intent_tables d \<Longrightarrow> stays_open i d' = stays_open i d"
  by (simp add: stays_open_def find_intent_def intent_tables_def)

lemma stays_open_set:
  assumes "\<And>r. reserving r \<Longrightarrow> reserving (f r)" "\<And>r. oi_operation_id (f r) = oi_operation_id r"
    and "stays_open i d"
  shows "stays_open i (set_intents p f d)"
proof -
  from assms(3) obtain r where r: "find_intent i d = Some r" "reserving r" by (auto simp: stays_open_def)
  have "find_intent i (set_intents p f d) = Some (if p r then f r else r)"
    using r(1) assms(2) by (simp add: find_intent_set)
  with r(2) assms(1) show ?thesis by (auto simp: stays_open_def)
qed

lemma stays_open_outbox: "stays_open i (set_outbox p f d) = stays_open i d"
  by (simp add: stays_open_def find_intent_def set_outbox_def)


lemma write_stays_open:
  assumes "\<And>d. stays_open i d \<Longrightarrow> stays_open i (snd (g d))"
  shows "keeps (stays_open i) (account_write g)"
  unfolding account_write_def by (rule keeps_statement) (use assms in \<open>auto split: option.splits\<close>, metis snd_conv)

lemma transition_stays_open:
  assumes "ReservesBinding st"
  shows "keeps (stays_open i) (transition j st reason False states now)"
proof -
  have "keeps (stays_open i) (move_intents j states (\<lambda>r. r\<lparr>oi_state := st, oi_reason_code := reason,
      oi_resolved_at := (if False then Some now else oi_resolved_at r)\<rparr>))"
    unfolding move_intents_def Let_def by (rule write_stays_open) (use assms in \<open>simp add: stays_open_set reserving_def\<close>)
  moreover have "keeps (stays_open i) (reopen_outbox j reason t)" for t
    unfolding reopen_outbox_def account_change_def by (rule write_stays_open) (simp add: stays_open_outbox)
  ultimately show ?thesis
    unfolding transition_def transition_body_def by (intro keeps_rules) simp_all
qed

lemma open_steps:
  "keeps (stays_open i) (MarkInvariantViolation j reason now)" "keeps (stays_open i) (MarkUncertain j reason now)"
  "keeps (stays_open i) (Reschedule j reason t)"
  unfolding MarkInvariantViolation_def MarkUncertain_def Reschedule_def account_change_def
  by (intro transition_stays_open write_stays_open; simp add: ReservesBinding_def stays_open_outbox)+

lemma tickets_keep:
  "keeps I (GetEnabledPlatform k)" "keeps I (binding_platform b)" "keeps I (IssueBindingScopedOperationTicket env at ai b i scopes)"
  unfolding binding_platform_def GetEnabledPlatform_def IssueBindingScopedOperationTicket_def issueBindingScopedTicket_def
  by (intro keeps_rules select_one_rules)+

lemma reading_keeps:
  "keeps I (Get_intent i)" "keeps I (GetBindingByID b)" "keeps I (GetBindingByIDUnscoped b)"
  unfolding Get_intent_def GetBindingByID_def GetBindingByIDUnscoped_def by (intro select_one_rules)+

definition open_primary_change :: "operation_intent \<Rightarrow> bool" where
  "open_primary_change r \<longleftrightarrow> oi_kind r = ''OPERATION_KIND_SET_PRIMARY_PROFILE'' \<and>
     oi_state r \<in> {Uncertain, ProjectionPending, InvariantViolation}"

lemma resolve_primary:
  assumes "oi_kind intent = ''OPERATION_KIND_SET_PRIMARY_PROFILE''"
    "oi_target_generation intent = oi_pre_generation intent"
  shows "fails (resolve_intent oc intent b endpoint)" "keeps (stays_open i) (resolve_intent oc intent b endpoint)"
proof -
  have step: "resolve_intent oc intent b endpoint =
      or_else (IssueBindingScopedOperationTicket (oc_platform oc) (oi_actor_type intent) (oi_actor_id intent)
         (bindingAtGeneration b (oi_pre_generation intent)) (oi_operation_id intent) [MihomoOperationResolve])
       (rescheduleCredentialOperation oc (oi_operation_id intent) ''ticket_issue_failed'')
       (\<lambda>(ticket, _). andThen (ignoring (MarkInvariantViolation (oi_operation_id intent) ''resolve_rejected'' (oc_now oc)))
         (\<lambda>_. raise ErrInvalidBindingMutation))"
    by (simp add: resolve_intent_def primary_unresolvable [OF assms] or_else_raise rejected_reference)
  show "fails (resolve_intent oc intent b endpoint)"
    unfolding step by (intro fails_rules reschedule_fails)
  show "keeps (stays_open i) (resolve_intent oc intent b endpoint)"
    unfolding step or_else_def ignoring_def rescheduleCredentialOperation_def
    by (intro keeps_rules open_steps tickets_keep)
qed

lemma reconcile_primary:
  assumes "open_primary_change intent" "oi_target_generation intent = oi_pre_generation intent"
    and "pb_deleted_at b = None"
  shows "fails (reconcile_binding oc intent b)" "keeps (stays_open i) (reconcile_binding oc intent b)"
proof -
  from assms(1) have kind: "oi_kind intent = ''OPERATION_KIND_SET_PRIMARY_PROFILE''" "oi_state intent \<noteq> PendingDelivery"
    by (auto simp: open_primary_change_def)
  have step: "reconcile_binding oc intent b = or_else (GetEnabledPlatform (pb_platform b))
       (rescheduleCredentialOperation oc (oi_operation_id intent) ''platform_service_unavailable'')
       (\<lambda>platformRow. resolve_intent oc intent b (svc_control_endpoint platformRow))"
    using assms(3) kind by (simp add: reconcile_binding_def is_deleted_def reconcile_with_platform_def)
  show "fails (reconcile_binding oc intent b)"
    unfolding step by (intro fails_rules reschedule_fails resolve_primary(1) kind assms(2))
  show "keeps (stays_open i) (reconcile_binding oc intent b)"
    unfolding step or_else_def rescheduleCredentialOperation_def
    by (intro keeps_rules open_steps tickets_keep resolve_primary(2) kind assms(2))
qed

lemma failsD: "fails m \<Longrightarrow> \<exists>e. fst (m w) = Inl e"
  by (simp add: fails_def)

text \<open>The binding the reconciler works on, whichever of its two reads found it.\<close>

lemma reading_frames:
  "frames f (Get_intent i)" "frames f (GetBindingByID b)" "frames f (GetBindingByIDUnscoped b)"
  unfolding Get_intent_def GetBindingByID_def GetBindingByIDUnscoped_def by (intro select_one_rules)+

definition reconciled_binding :: "nat \<Rightarrow> ('l, account_binding) aeff" where
  "reconciled_binding i = or_else (GetBindingByID i) (\<lambda>_. GetBindingByIDUnscoped i) return"

lemma reconciled_binding_frames: "frames f (reconciled_binding i)"
  unfolding reconciled_binding_def or_else_def by (intro keeps_rules reading_frames)

lemma reconciled_binding_keeps: "keeps I (reconciled_binding i)"
  unfolding reconciled_binding_def or_else_def by (intro keeps_rules reading_keeps)

lemma reconciled_binding_open:
  assumes run: "reconciled_binding i w = (Inr b, w')"
    and b0: "find_binding i (db w) = Some b0" "pb_deleted_at b0 = None"
  shows "pb_deleted_at b = None"
proof -
  from run obtain r w1 where read: "GetBindingByID i w = (r, w1)"
    and rest: "(case r of Inl e \<Rightarrow> GetBindingByIDUnscoped i | Inr x \<Rightarrow> return x) w1 = (Inr b, w')"
    unfolding reconciled_binding_def or_else_def by (elim andThen_InrE attempt_InrE) blast
  show ?thesis
  proof (cases r)
    case (Inl e)
    have "db w1 = db w" using frames_InrD [OF reading_frames(2) [of "\<lambda>d. d"] read] by simp
    with rest Inl b0 show ?thesis by (auto simp: GetBindingByIDUnscoped_def elim!: select_one_InrE)
  next
    case (Inr x)
    with read have "live_binding i (db w) = Some x" by (auto simp: GetBindingByID_def elim!: select_one_InrE)
    then have "pb_deleted_at x = None" unfolding live_binding_def by (auto dest!: find_SomeD)
    with rest Inr show ?thesis by (simp add: return_apply)
  qed
qed

lemma Reconcile_open:
  assumes "oi_state intent \<noteq> InputRequired" "reserving intent"
  shows "(if oi_state intent = InputRequired then input_still_required oc intent
     else if \<not> reserving intent then return ()
     else andThen (or_else (GetBindingByID (oi_binding_id intent))
            (\<lambda>_. GetBindingByIDUnscoped (oi_binding_id intent)) return) (reconcile_binding oc intent)) =
     andThen (reconciled_binding (oi_binding_id intent)) (reconcile_binding oc intent)"
  using assms by (simp add: reconciled_binding_def)

text \<open>C11: An uncertain change of the primary profile is never resolved.  Its operation keeps the
  generation of the credential, and the reference sent to resolve an operation must raise it by one;
  so whatever the platform holds and whatever fails, each reconciliation ends with an error and the
  intent stays open, which keeps every other operation off the binding.\<close>

theorem primary_change_never_resolves:
  fixes w :: "platform_call aworld"
  assumes start: "base w = None" "account_ok (db w)"
    and intent: "find_intent i (db w) = Some intent" "open_primary_change intent"
    and binding: "find_binding (oi_binding_id intent) (db w) = Some b" "pb_deleted_at b = None"
    and run: "ReconcileCredentialOperation oc i w = (r, w')"
  shows "\<exists>e intent'. r = Inl e \<and> find_intent i (db w') = Some intent' \<and> reserving intent'"
proof -
  from intent(2) have open1: "reserving intent" "oi_state intent \<noteq> InputRequired"
    by (auto simp: open_primary_change_def reserving_def ReservesBinding_def)
  have "intent \<in> set (ac_intents (db w))" using find_intent_id [OF intent(1)] by simp
  with account_okD(13) [OF start(2)] intent(2) have gen: "oi_target_generation intent = oi_pre_generation intent"
    by (auto simp: list_all_iff intent_row_valid_def open_primary_change_def)
  have start_open: "stays_open i (db w)" using intent(1) open1(1) by (auto simp: stays_open_def)
  obtain r1 w1 where get: "Get_intent i w = (r1, w1)" by (metis surj_pair)
  have w1: "db w1 = db w" "base w1 = None"
    using frames_InrD [OF reading_frames(1) [of "\<lambda>d. d"] get] frames_base_None [OF reading_frames(1) get start(1)] by simp_all
  show ?thesis
  proof (cases r1)
    case (Inl e)
    with run get have "r = Inl e" "w' = w1" by (simp_all add: ReconcileCredentialOperation_def effect_simps)
    with w1 intent(1) open1 show ?thesis by auto
  next
    case (Inr x)
    with get intent(1) have x: "x = intent" by (auto simp: Get_intent_def elim!: select_one_InrE)
    obtain r2 w2 where found: "reconciled_binding (oi_binding_id intent) w1 = (r2, w2)" by (metis surj_pair)
    have w2: "db w2 = db w" "base w2 = None"
      using frames_InrD [OF reconciled_binding_frames [of "\<lambda>d. d"] found]
        frames_base_None [OF reconciled_binding_frames found w1(2)] w1(1) by simp_all
    from run get found have rest: "(case r2 of Inl e \<Rightarrow> (Inl e, w2) | Inr b' \<Rightarrow> reconcile_binding oc intent b' w2) = (r, w')"
      by (auto simp: ReconcileCredentialOperation_def Inr x Reconcile_open [OF open1(2,1)] effect_simps
          split: sum.splits)
    show ?thesis
    proof (cases r2)
      case (Inl e)
      with rest w2 intent(1) open1 show ?thesis by auto
    next
      case (Inr b')
      with found have "pb_deleted_at b' = None" using binding w1(1) by (auto intro: reconciled_binding_open)
      note settled = reconcile_primary [OF intent(2) gen this]
      from rest Inr have last: "reconcile_binding oc intent b' w2 = (r, w')" by simp
      have "stays_open i (db w')"
        using keeps_call [OF settled(2) w2(2)] w2(1) start_open last by (metis snd_conv)
      moreover obtain e where "r = Inl e" using failsD [OF settled(1)] last by (metis fst_conv)
      ultimately show ?thesis by (auto simp: stays_open_def)
    qed
  qed
qed

section \<open>Success is the platform's word\<close>

text \<open>The platform's answer that an operation succeeded, to a call or to a question about it.\<close>

definition platform_confirmed :: "platform_environment \<Rightarrow> operation_intent \<Rightarrow> bool" where
  "platform_confirmed env intent \<longleftrightarrow> (\<exists>dial endpoint conn ticket m r.
     pe_dial env = Some dial \<and> dial endpoint = Inr conn \<and>
     (pc_resolve conn ticket m = Inr (Some r) \<or> (\<exists>request. pc_mutate conn ticket m request = Inr (Some r))) \<and>
     rm_state r = OPERATION_STATE_SUCCEEDED \<and> rm_operation r = m \<and>
     om_operation_id m = oi_operation_id intent \<and> om_target_generation m = oi_target_generation intent)"

lemma dial_platform_InrE:
  assumes "dial_platform env endpoint w = (Inr conn, w')"
  obtains dial where "pe_dial env = Some dial" "dial endpoint = Inr conn"
  using assms unfolding dial_platform_def
  by (auto elim!: external_InrE simp: effect_simps split: option.splits)

lemma control_call_InrE:
  assumes "control_call env endpoint ticket operation request w = (Inr resp, w')"
  obtains dial conn where "pe_dial env = Some dial" "dial endpoint = Inr conn"
    "pc_mutate conn ticket operation request = Inr resp"
  using assms unfolding control_call_def by (auto elim!: andThen_InrE external_InrE dial_platform_InrE)

lemma succeeded_result:
  assumes "requireSucceededOperationResult resp (Some operation) = Inr u"
  obtains r where "resp = Some r" "rm_state r = OPERATION_STATE_SUCCEEDED" "rm_operation r = operation"
  using assms by (auto simp: requireSucceededOperationResult_def split: option.splits if_splits)

lemma summary_call_InrE:
  assumes "summary_call env endpoint ticket operation request w = (Inr view, w')"
  obtains dial conn r where "pe_dial env = Some dial" "dial endpoint = Inr conn"
    "pc_mutate conn ticket operation request = Inr (Some r)" "rm_state r = OPERATION_STATE_SUCCEEDED"
    "rm_operation r = operation" "view = result_view r"
  using assms unfolding summary_call_def genericOperationResultMapForOperation_def
  by (auto elim!: andThen_InrE lift_result_InrE control_call_InrE succeeded_result split: sum.splits)

lemma ResolveCredentialOperation_succeeded:
  assumes "ResolveCredentialOperation env endpoint ticket reference w = (Inr resolution, w')"
    and "cr_state resolution = CredentialRemoteOperationSucceeded"
  obtains dial conn m r where "pe_dial env = Some dial" "dial endpoint = Inr conn"
    "pc_resolve conn ticket m = Inr (Some r)" "rm_state r = OPERATION_STATE_SUCCEEDED" "rm_operation r = m"
    "om_operation_id m = or_operation_id reference" "om_target_generation m = or_target_generation reference"
proof -
  from assms(1) obtain m conn resp w1 w2 where m: "credentialOperationReferenceProto reference = Inr m"
    and conn: "dial_platform env endpoint w1 = (Inr conn, w2)" and resp: "pc_resolve conn ticket m = Inr (Some resp)"
    and op: "rm_operation resp = m" and res: "resolution_of m resp = Inr resolution"
    unfolding ResolveCredentialOperation_def
    by (auto elim!: andThen_InrE lift_result_InrE external_InrE raise_InrE split: option.splits if_splits)
  have "rm_state resp = OPERATION_STATE_SUCCEEDED"
    using res assms(2) unfolding resolution_of_def Let_def by (cases "rm_state resp") auto
  moreover have "om_operation_id m = or_operation_id reference" "om_target_generation m = or_target_generation reference"
    using m by (auto simp: credentialOperationReferenceProto_def split: option.splits if_splits)
  ultimately show thesis using conn resp op that by (auto elim!: dial_platform_InrE)
qed

text \<open>An intent that is not closed as succeeded.\<close>

definition unsucceeded :: "string \<Rightarrow> account_db \<Rightarrow> bool" where
  "unsucceeded i d \<longleftrightarrow> (\<exists>r. find_intent i d = Some r \<and> oi_state r \<noteq> Succeeded)"

lemma beside_unsucceeded: "beside m \<Longrightarrow> keeps (unsucceeded i) m"
proof -
  assume "beside m"
  then have f: "frames intent_tables m" by (simp add: beside_def)
  have "unsucceeded i = (\<lambda>d. \<exists>r. find (\<lambda>r. oi_operation_id r = i) (fst (intent_tables d)) = Some r \<and> oi_state r \<noteq> Succeeded)"
    by (rule ext) (simp add: unsucceeded_def find_intent_def intent_tables_def)
  with frames_keeps [OF f, of "\<lambda>t. \<exists>r. find (\<lambda>r. oi_operation_id r = i) (fst t) = Some r \<and> oi_state r \<noteq> Succeeded"]
  show ?thesis by simp
qed

lemma unsucceeded_set:
  assumes "\<And>r. oi_state (f r) \<noteq> Succeeded" "\<And>r. oi_operation_id (f r) = oi_operation_id r" "unsucceeded i d"
  shows "unsucceeded i (set_intents p f d)"
proof -
  from assms(3) obtain r where r: "find_intent i d = Some r" "oi_state r \<noteq> Succeeded" by (auto simp: unsucceeded_def)
  have "find_intent i (set_intents p f d) = Some (if p r then f r else r)"
    using r(1) assms(2) by (simp add: find_intent_set)
  with r(2) assms(1) show ?thesis by (auto simp: unsucceeded_def)
qed

lemma unsucceeded_tables:
  "unsucceeded i (set_outbox p f d) = unsucceeded i d"
  "unsucceeded i d \<Longrightarrow> unsucceeded i (d\<lparr>ac_intents := ac_intents d @ [row]\<rparr>)"
  "unsucceeded i (d\<lparr>ac_outbox := os, ac_next_outbox_id := n\<rparr>) = unsucceeded i d"
  by (auto simp: unsucceeded_def find_intent_def set_outbox_def find_Some_iff nth_append intro: trans_less_add1)

lemma write_unsucceeded:
  assumes "\<And>d. unsucceeded i d \<Longrightarrow> unsucceeded i (snd (g d))"
  shows "keeps (unsucceeded i) (account_write g)"
  unfolding account_write_def by (rule keeps_statement) (use assms in \<open>auto split: option.splits\<close>, metis snd_conv)

lemma change_unsucceeded: "(\<And>d. unsucceeded i d \<Longrightarrow> unsucceeded i (f d)) \<Longrightarrow> keeps (unsucceeded i) (account_change f)"
  unfolding account_change_def by (rule write_unsucceeded) simp

lemma outbox_unsucceeded:
  "keeps (unsucceeded i) (complete_outbox j reason)" "keeps (unsucceeded i) (reopen_outbox j reason t)"
  "keeps (unsucceeded i) (Reschedule j reason t)" "keeps (unsucceeded i) (insert_outbox j t)"
  "keeps (unsucceeded i) (insert_intent row)"
  unfolding complete_outbox_def reopen_outbox_def Reschedule_def insert_outbox_def insert_intent_def
  by (intro change_unsucceeded; simp add: unsucceeded_tables)+

lemma transition_unsucceeded:
  assumes "st \<noteq> Succeeded"
  shows "keeps (unsucceeded i) (transition j st reason c states now)"
proof -
  have "keeps (unsucceeded i) (move_intents j states (\<lambda>r. r\<lparr>oi_state := st, oi_reason_code := reason,
      oi_resolved_at := (if c then Some now else oi_resolved_at r)\<rparr>))"
    unfolding move_intents_def Let_def by (rule write_unsucceeded) (use assms in \<open>simp add: unsucceeded_set\<close>)
  then show ?thesis
    unfolding transition_def transition_body_def by (intro keeps_rules outbox_unsucceeded select_one_rules)
qed

lemma marks_unsucceeded:
  "keeps (unsucceeded i) (MarkInvariantViolation j reason now)" "keeps (unsucceeded i) (MarkUncertain j reason now)"
  "keeps (unsucceeded i) (MarkProjectionPending j reason now)" "keeps (unsucceeded i) (MarkFailed j reason now)"
  unfolding MarkInvariantViolation_def MarkUncertain_def MarkProjectionPending_def MarkFailed_def
  by (rule transition_unsucceeded; simp)+

lemma input_unsucceeded:
  "keeps (unsucceeded i) (MarkInputRequired j reason now)" "keeps (unsucceeded i) (ExpireInputRequired j now)"
proof -
  show "keeps (unsucceeded i) (MarkInputRequired j reason now)"
    unfolding MarkInputRequired_def transitionWithExpiry_def transition_expiry_body_def move_intents_def Let_def
    by (intro keeps_rules write_unsucceeded change_unsucceeded; simp add: unsucceeded_set unsucceeded_tables)
  show "keeps (unsucceeded i) (ExpireInputRequired j now)"
    unfolding ExpireInputRequired_def expire_body_def Let_def
    by (intro keeps_rules write_unsucceeded outbox_unsucceeded; simp add: unsucceeded_set)
qed

lemma retry_unsucceeded: "keeps (unsucceeded i) (RetryNonSensitive j input now)"
proof -
  have "keeps (unsucceeded i) (writeOperationAdmissionAudit row)" for row
    unfolding writeOperationAdmissionAudit_def by (intro beside_unsucceeded binding_operations_beside)
  then have "keeps (unsucceeded i) (store_intent row t)" for row t
    unfolding store_intent_def by (intro keeps_rules outbox_unsucceeded)
  then show ?thesis
    unfolding RetryNonSensitive_def retry_body_def
    by (intro keeps_rules outbox_unsucceeded change_unsucceeded select_one_rules) (simp_all add: unsucceeded_set)
qed

lemmas unsucceeded_rules = keeps_rules marks_unsucceeded input_unsucceeded retry_unsucceeded
  outbox_unsucceeded(3) binding_operations_beside [THEN beside_unsucceeded]
  PersistRuntimeSummary_beside [THEN beside_unsucceeded] tickets_keep reading_keeps

lemmas calm = keeps_or_else_any keeps_ignoring unsucceeded_rules

lemma more_tickets_keep: "keeps I (IssueBindingScopedTicket env at ai b scopes)"
  "keeps I (IssueProfileScopedOperationTicket env at ai b p i scopes)" "keeps I (new_operation_id oc)"
  unfolding IssueBindingScopedTicket_def IssueProfileScopedOperationTicket_def issueBindingScopedTicket_def
    GetEnabledPlatform_def new_operation_id_def
  by (intro keeps_rules select_one_rules)+

lemma gateway_keeps:
  "keeps I (control_call env e t om req)" "keeps I (summary_call env e t om req)"
  "keeps I (gateway_RefreshCredential env e t i b)" "keeps I (gateway_DeleteCredential env e t i b)"
  "keeps I (gateway_SetPrimaryProfile env e t i b pr)" "keeps I (ResolveCredentialOperation env e t ref)"
  "keeps I (GetCredentialBindingState env e t r)"
  unfolding gateway_RefreshCredential_def gateway_DeleteCredential_def gateway_SetPrimaryProfile_def
    summary_call_def control_call_def dial_platform_def ResolveCredentialOperation_def GetCredentialBindingState_def Let_def
  by (intro keeps_rules)+

lemma failure_unsucceeded:
  "keeps (unsucceeded i) (handleNonSensitiveCredentialDeliveryError oc b ref err)"
  "keeps (unsucceeded i) (rescheduleCredentialOperation oc j reason err)"
  "keeps (unsucceeded i) (markCredentialInvariantViolation oc j reason)"
  "keeps (unsucceeded i) (compensateDeleteCredential oc j b k g at ai e)"
  "keeps (unsucceeded i) (resolution_failed oc intent err)" "keeps (unsucceeded i) (remote_failed oc intent b reason)"
  "keeps (unsucceeded i) (finalizeMissingTerminalCompensation oc intent b)"
  "keeps (unsucceeded i) (input_still_required oc intent)"
  unfolding handleNonSensitiveCredentialDeliveryError_def delivery_outcome_unknown_def delivery_refused_def
    failCredentialOperation_def rescheduleCredentialOperation_def markCredentialInvariantViolation_def
    compensateDeleteCredential_def resolution_failed_def remote_failed_def persistTerminalOperationFailure_def
    finalizeMissingTerminalCompensation_def input_still_required_def Let_def
  by (intro calm gateway_keeps)+

lemma proof_unsucceeded:
  "(\<And>s. keeps (unsucceeded i) (k s)) \<Longrightarrow> keeps (unsucceeded i) (read_remote_state oc intent ob e k)"
  "oi_kind intent \<noteq> ''OPERATION_KIND_DELETE_CREDENTIAL'' \<Longrightarrow> keeps (unsucceeded i) (retry_with_state oc intent s)"
  "keeps (unsucceeded i) (confirm_with_state oc e intent b s)"
proof -
  show "keeps (unsucceeded i) (read_remote_state oc intent ob e k)" if "\<And>s. keeps (unsucceeded i) (k s)"
    unfolding read_remote_state_def by (intro calm more_tickets_keep gateway_keeps failure_unsucceeded that)
  show "keeps (unsucceeded i) (retry_with_state oc intent s)" if "oi_kind intent \<noteq> ''OPERATION_KIND_DELETE_CREDENTIAL''"
    using that by (auto simp: retry_with_state_def Let_def intro!: calm more_tickets_keep)
  have 1: "keeps (unsucceeded i) (confirmMissingTerminalCompensation oc e intent b)"
    unfolding confirmMissingTerminalCompensation_def Let_def
    by (intro calm gateway_keeps failure_unsucceeded) (auto split: remote_state.split intro!: calm failure_unsucceeded)
  have 2: "keeps (unsucceeded i) (compensate_lost_result oc e intent b summary)" for summary
    unfolding compensate_lost_result_def Let_def by (intro calm failure_unsucceeded)
  show "keeps (unsucceeded i) (confirm_with_state oc e intent b s)"
    unfolding confirm_with_state_def input_required_projection_def inconsistent_terminal_state_def
    by (intro calm failure_unsucceeded 1 2)
qed


text \<open>A delivery or a question that comes back a success carries the platform's word.\<close>

lemma refresh_confirms:
  assumes run: "gateway_RefreshCredential env endpoint ticket (oi_operation_id intent)
      (bindingAtGeneration b (oi_pre_generation intent)) w = (Inr s, w')"
    and gen: "oi_target_generation intent = oi_pre_generation intent + 1"
  shows "platform_confirmed env intent"
proof -
  from run obtain view w1 where "summary_call env endpoint ticket
      (newOperationRef (pe_sha256 env) (bindingAtGeneration b (oi_pre_generation intent)) OPERATION_KIND_REFRESH_CREDENTIAL
        (oi_operation_id intent))
      (Refresh_Credential (bindingExternalAccountKey (bindingAtGeneration b (oi_pre_generation intent)))) w = (Inr view, w1)"
    unfolding gateway_RefreshCredential_def by (auto elim!: andThen_InrE)
  then show ?thesis
    by (rule summary_call_InrE)
      (use gen in \<open>unfold platform_confirmed_def newOperationRef_def bindingAtGeneration_def; fastforce\<close>)
qed

lemma primary_confirms:
  assumes run: "gateway_SetPrimaryProfile env endpoint ticket (oi_operation_id intent)
      (bindingAtProfileRevision (bindingAtGeneration b (oi_pre_generation intent)) v) pr w = (Inr s, w')"
    and gen: "oi_target_generation intent = oi_pre_generation intent"
  shows "platform_confirmed env intent"
proof -
  let ?b = "bindingAtProfileRevision (bindingAtGeneration b (oi_pre_generation intent)) v"
  from run obtain view req w1 where "summary_call env endpoint ticket
      (newPrimaryProfileOperationRef (pe_sha256 env) ?b (oi_operation_id intent) pr) req w = (Inr view, w1)"
    unfolding gateway_SetPrimaryProfile_def by (auto elim!: andThen_InrE)
  then show ?thesis
    by (rule summary_call_InrE)
      (use gen in \<open>unfold platform_confirmed_def newPrimaryProfileOperationRef_def bindingAtGeneration_def
         bindingAtProfileRevision_def; fastforce\<close>)
qed

lemma resolution_confirms:
  assumes "ResolveCredentialOperation env endpoint ticket (credentialOperationReferenceFromIntent intent) w =
      (Inr resolution, w')" and "cr_state resolution = CredentialRemoteOperationSucceeded"
  shows "platform_confirmed env intent"
  by (rule ResolveCredentialOperation_succeeded [OF assms])
    (unfold platform_confirmed_def credentialOperationReferenceFromIntent_def, fastforce)

text \<open>Without that word no step of the reconciler closes the intent as succeeded.\<close>

definition silent_on :: "platform_environment \<Rightarrow> operation_intent \<Rightarrow> bool" where
  "silent_on env intent \<longleftrightarrow> oi_kind intent \<noteq> ''OPERATION_KIND_DELETE_CREDENTIAL'' \<and>
     intent_row_valid intent \<and> \<not> platform_confirmed env intent"

lemma valid_target:
  assumes "intent_row_valid intent"
  shows "oi_target_generation intent = (if oi_kind intent = ''OPERATION_KIND_SET_PRIMARY_PROFILE''
    then oi_pre_generation intent else oi_pre_generation intent + 1)"
proof (cases "oi_kind intent = ''OPERATION_KIND_SET_PRIMARY_PROFILE''")
  case False
  with assms have "unat (oi_target_generation intent) = unat (oi_pre_generation intent) + 1"
    by (simp add: intent_row_valid_def)
  then have "(of_nat (unat (oi_target_generation intent)) :: u64) = of_nat (unat (oi_pre_generation intent) + 1)" by simp
  then have "oi_target_generation intent = oi_pre_generation intent + 1" by simp
  with False show ?thesis by simp
qed (use assms in \<open>simp add: intent_row_valid_def\<close>)

lemma deliver_silent:
  assumes "silent_on (oc_platform oc) intent"
  shows "keeps (unsucceeded i) (deliver_intent oc intent
    (bindingAtGeneration b (oi_pre_generation intent)) endpoint ticket)"
proof -
  have no: "oi_kind intent \<noteq> ''OPERATION_KIND_DELETE_CREDENTIAL''" "\<not> platform_confirmed (oc_platform oc) intent"
    and gen: "oi_target_generation intent = (if oi_kind intent = ''OPERATION_KIND_SET_PRIMARY_PROFILE''
      then oi_pre_generation intent else oi_pre_generation intent + 1)"
    using assms valid_target by (auto simp: silent_on_def)
  have refresh: "keeps (unsucceeded i) (or_else (gateway_RefreshCredential (oc_platform oc) endpoint ticket
      (oi_operation_id intent) (bindingAtGeneration b (oi_pre_generation intent))) failed k)"
    if "oi_kind intent \<noteq> ''OPERATION_KIND_SET_PRIMARY_PROFILE''" "\<And>e. keeps (unsucceeded i) (failed e)" for failed and k
  proof (rule keeps_or_else [OF gateway_keeps(3) that(2)])
    fix x and w w' :: "platform_call aworld"
    assume "gateway_RefreshCredential (oc_platform oc) endpoint ticket (oi_operation_id intent)
      (bindingAtGeneration b (oi_pre_generation intent)) w = (Inr x, w')"
    from refresh_confirms [OF this] gen that(1) no(2) show "keeps (unsucceeded i) (k x)" by simp
  qed
  have primary: "keeps (unsucceeded i) (or_else (gateway_SetPrimaryProfile (oc_platform oc) endpoint ticket
      (oi_operation_id intent) (bindingAtProfileRevision (bindingAtGeneration b (oi_pre_generation intent)) v) pr) failed k)"
    if "oi_kind intent = ''OPERATION_KIND_SET_PRIMARY_PROFILE''" "\<And>e. keeps (unsucceeded i) (failed e)" for failed k v pr
  proof (rule keeps_or_else [OF gateway_keeps(5) that(2)])
    fix x and w w' :: "platform_call aworld"
    assume "gateway_SetPrimaryProfile (oc_platform oc) endpoint ticket (oi_operation_id intent)
      (bindingAtProfileRevision (bindingAtGeneration b (oi_pre_generation intent)) v) pr w = (Inr x, w')"
    from primary_confirms [OF this] gen that(1) no(2) show "keeps (unsucceeded i) (k x)" by simp
  qed
  have delete: "keeps (unsucceeded i) (finalizeNonSensitiveCredentialOperation oc intent x)" for x
    using no(1) unfolding finalizeNonSensitiveCredentialOperation_def by (auto intro!: calm)
  show ?thesis
    unfolding deliver_intent_def Let_def
    by (intro keeps_rules refresh primary keeps_or_else_any gateway_keeps failure_unsucceeded delete) simp_all
qed

lemma resolve_silent:
  assumes "silent_on (oc_platform oc) intent"
  shows "keeps (unsucceeded i) (resolve_intent oc intent b endpoint)"
proof -
  have kind: "oi_kind intent \<noteq> ''OPERATION_KIND_DELETE_CREDENTIAL''" and no: "\<not> platform_confirmed (oc_platform oc) intent"
    using assms by (auto simp: silent_on_def)
  have unproved: "keeps (unsucceeded i) (retryNonSensitiveCredentialOperationAfterProof oc endpoint intent x)"
    "keeps (unsucceeded i) (confirmCredentialInputRequired oc endpoint intent x y)" for x y
    unfolding retryNonSensitiveCredentialOperationAfterProof_def confirmCredentialInputRequired_def
    by (intro proof_unsucceeded kind)+
  have settle: "keeps (unsucceeded i) (settle_resolution oc intent b endpoint resolution)"
    if "cr_state resolution \<noteq> CredentialRemoteOperationSucceeded" for resolution
    using that unfolding settle_resolution_def Let_def
    by (auto split: remote_state.split intro!: calm failure_unsucceeded unproved)
  have "keeps (unsucceeded i) (or_else
      (ResolveCredentialOperation (oc_platform oc) endpoint ticket (credentialOperationReferenceFromIntent intent))
      (resolution_failed oc intent) (settle_resolution oc intent b endpoint))" for ticket
    using resolution_confirms no by (intro keeps_or_else gateway_keeps failure_unsucceeded settle) blast
  then show "keeps (unsucceeded i) (resolve_intent oc intent b endpoint)"
    unfolding resolve_intent_def
    by (intro keeps_or_else_any [OF tickets_keep(3) failure_unsucceeded(2)]) (simp split: prod.split)
qed

lemma reconcile_silent:
  assumes "silent_on (oc_platform oc) intent"
  shows "keeps (unsucceeded i) (reconcile_binding oc intent b)"
proof -
  have kind: "oi_kind intent \<noteq> ''OPERATION_KIND_DELETE_CREDENTIAL''" using assms by (simp add: silent_on_def)
  have ticket: "keeps (unsucceeded i) (delivery_ticket oc intent x scope)" for x scope
    unfolding delivery_ticket_def by (intro keeps_rules tickets_keep more_tickets_keep)
  have deliver: "keeps (unsucceeded i) (deliverNonSensitiveCredentialOperation oc intent
      (bindingAtGeneration b (oi_pre_generation intent)) endpoint)" for endpoint
    unfolding deliverNonSensitiveCredentialOperation_def
    by (intro keeps_rules keeps_or_else_any ticket failure_unsucceeded deliver_silent assms)
  have "keeps (unsucceeded i) (reconcile_with_platform oc intent b)"
    unfolding reconcile_with_platform_def
    by (intro keeps_rules keeps_or_else_any more_tickets_keep tickets_keep failure_unsucceeded deliver
        resolve_silent assms)
  with kind show ?thesis unfolding reconcile_binding_def Let_def by (auto intro: marks_unsucceeded)
qed


text \<open>C9: The reconciler closes an open operation as succeeded only on the platform's word: for every
  kind but a deletion, a run that leaves the intent succeeded has a platform whose answer, to the
  delivery or to the question, names that very operation and generation and says it succeeded.\<close>

theorem reconciled_success_is_confirmed:
  fixes w :: "platform_call aworld"
  assumes start: "base w = None" "account_ok (db w)"
    and intent: "find_intent i (db w) = Some intent" "reserving intent"
      "oi_kind intent \<noteq> ''OPERATION_KIND_DELETE_CREDENTIAL''"
    and run: "ReconcileCredentialOperation oc i w = (r, w')"
    and closed: "find_intent i (db w') = Some intent'" "oi_state intent' = Succeeded"
  shows "platform_confirmed (oc_platform oc) intent"
proof (rule ccontr)
  assume no: "\<not> platform_confirmed (oc_platform oc) intent"
  have "intent \<in> set (ac_intents (db w))" using find_intent_id [OF intent(1)] by simp
  with account_okD(13) [OF start(2)] no intent(3) have silent: "silent_on (oc_platform oc) intent"
    by (auto simp: list_all_iff silent_on_def)
  have open1: "unsucceeded i (db w)"
    using intent(1,2) by (auto simp: unsucceeded_def reserving_def ReservesBinding_def)
  obtain r1 w1 where get: "Get_intent i w = (r1, w1)" by (metis surj_pair)
  have w1: "db w1 = db w" "base w1 = None"
    using frames_InrD [OF reading_frames(1) [of "\<lambda>d. d"] get] frames_base_None [OF reading_frames(1) get start(1)]
    by simp_all
  have "unsucceeded i (db w')"
  proof (cases r1)
    case (Inl e)
    with run get w1 open1 show ?thesis by (auto simp: ReconcileCredentialOperation_def effect_simps)
  next
    case (Inr x)
    with get intent(1) have x: "x = intent" by (auto simp: Get_intent_def elim!: select_one_InrE)
    let ?rest = "if oi_state intent = InputRequired then input_still_required oc intent
      else if \<not> reserving intent then return ()
      else andThen (or_else (GetBindingByID (oi_binding_id intent))
        (\<lambda>_. GetBindingByIDUnscoped (oi_binding_id intent)) return) (reconcile_binding oc intent)"
    have "keeps (unsucceeded i) ?rest"
      by (intro keeps_rules keeps_or_else_any reading_keeps failure_unsucceeded reconcile_silent silent)
    moreover from run get have "?rest w1 = (r, w')"
      by (simp add: ReconcileCredentialOperation_def Inr x effect_simps)
    ultimately show ?thesis using keeps_call [of "unsucceeded i" ?rest w1] w1 open1 by (metis snd_conv)
  qed
  with closed show False by (auto simp: unsucceeded_def)
qed

section \<open>Examples\<close>

definition acct_service :: platform_service where
  "acct_service = \<lparr>svc_id = 1, svc_platform_key = ''mihomo'', svc_service_key = ''svc'', svc_service_audience = ''mihomo'',
     svc_control_endpoint = ''control'', svc_runtime_endpoint = ''runtime'',
     svc_runtime_server_name = ''mihomo'', svc_supported_actions = Some [], svc_enabled = True\<rparr>"

text \<open>A platform that knows every operation it is asked about, and has carried it out.\<close>

definition acct_answer :: "operation_message \<Rightarrow> result_message" where
  "acct_answer m = \<lparr>rm_operation = m, rm_state = OPERATION_STATE_SUCCEEDED, rm_reason_code = '''', rm_account_key = ''acct'',
     rm_credential_status = CREDENTIAL_STATUS_ACTIVE,
     rm_snapshot = \<lparr>ps_profiles = [], ps_complete = False, ps_revision = 0, ps_observed_revision = 0\<rparr>,
     rm_last_validated_at = None, rm_last_refreshed_at = None\<rparr>"

definition acct_connection :: platform_connection where
  "acct_connection = \<lparr>pc_mutate = (\<lambda>_ m _. Inr (Some (acct_answer m))), pc_resolve = (\<lambda>_ m. Inr (Some (acct_answer m))),
     pc_binding_state = (\<lambda>_ _. Inr None)\<rparr>"

definition acct_oc :: orchestration where
  "acct_oc = \<lparr>oc_platform = \<lparr>pe_signer = Some (\<lambda>_ _ _ _. Inr (''ticket'', 99)), pe_dial = Some (\<lambda>_. Inr acct_connection),
       pe_sha256 = (\<lambda>_. ''fp''), pe_text = (\<lambda>_. '''')\<rparr>,
     oc_now = 20, oc_random = None, oc_binding_ref = ''bind_9'', oc_profile_refs = (\<lambda>_. ''prof'')\<rparr>"

definition acct_uncertain :: operation_intent where
  "acct_uncertain = acct_intent\<lparr>oi_state := Uncertain\<rparr>"

definition acct_primary_change :: operation_intent where
  "acct_primary_change = acct_uncertain\<lparr>oi_kind := ''OPERATION_KIND_SET_PRIMARY_PROFILE'', oi_target_generation := 3,
     oi_profile_ref := ''p1'', oi_profile_revision := 2\<rparr>"

definition acct_waiting_db :: "operation_intent \<Rightarrow> account_db" where
  "acct_waiting_db intent = acct_busy_db\<lparr>ac_intents := [intent], ac_services := [acct_service]\<rparr>"

lemmas acct_waiting_samples = acct_service_def acct_answer_def acct_connection_def acct_oc_def acct_uncertain_def
  acct_primary_change_def acct_waiting_db_def account_samples acct_intent_samples

lemma acct_waiting_ok: "account_ok (acct_waiting_db acct_uncertain)" "account_ok (acct_waiting_db acct_primary_change)"
  by (simp_all add: account_ok_def account_checks acct_waiting_samples intent_row_valid_def intent_kinds_def
      reserving_def reserving_bind_def ReservesBinding_def)

lemma acct_waiting_finds:
  "oi_operation_id intent = ''op1'' \<Longrightarrow> find_intent ''op1'' (acct_waiting_db intent) = Some intent"
  "find_binding 1 (acct_waiting_db intent) = Some acct_binding" "pb_deleted_at acct_binding = None"
  by (simp_all add: find_intent_def find_binding_def acct_waiting_samples)

lemma acct_waiting_ids: "oi_operation_id acct_uncertain = ''op1''" "oi_operation_id acct_primary_change = ''op1''"
  "oi_binding_id acct_primary_change = 1"
  by (simp_all add: acct_waiting_samples)

theorem primary_change_never_resolves_witness:
  "\<exists>e w' intent'. ReconcileCredentialOperation acct_oc ''op1'' (account_world (acct_waiting_db acct_primary_change)) =
     (Inl e, w') \<and> find_intent ''op1'' (db w') = Some intent' \<and> reserving intent'"
proof -
  let ?w = "account_world (acct_waiting_db acct_primary_change) :: platform_call aworld"
  obtain r w' where run: "ReconcileCredentialOperation acct_oc ''op1'' ?w = (r, w')" by (metis surj_pair)
  have "open_primary_change acct_primary_change" by (simp add: open_primary_change_def acct_waiting_samples)
  then show ?thesis
    using primary_change_never_resolves [of ?w "''op1''" acct_primary_change acct_binding acct_oc r w'] run
    by (auto simp: acct_waiting_ok acct_waiting_finds acct_waiting_ids simp del: One_nat_def)
qed

definition acct_summary :: RuntimeSummary where
  "acct_summary = \<lparr>rs_platform_account_id = ''acct'', rs_generation = 4, rs_status = ''active'',
     rs_last_validated_at = None, rs_last_refreshed_at = None, rs_profiles = [], rs_profile_snapshot_complete = False,
     rs_profile_revision = 0, rs_profile_observed_revision = 0\<rparr>"

lemma acct_oc_simps:
  "pe_signer (oc_platform acct_oc) = Some (\<lambda>_ _ _ _. Inr (''ticket'', 99))" "oc_now acct_oc = 20"
  "pe_dial (oc_platform acct_oc) = Some (\<lambda>_. Inr acct_connection)"
  "pc_resolve acct_connection t m = Inr (Some (acct_answer m))"
  by (simp_all add: acct_oc_def acct_connection_def)

text \<open>The reconciler's reads on the example.\<close>

lemma acct_uncertain_reads:
  fixes w :: "platform_call aworld"
  assumes "w = account_world (acct_waiting_db acct_uncertain)"
  shows "Get_intent ''op1'' w = (Inr acct_uncertain, w)" "GetBindingByID 1 w = (Inr acct_binding, w)"
    "GetEnabledPlatform ''mihomo'' w = (Inr acct_service, w)"
  using assms
  by (simp_all add: Get_intent_def GetBindingByID_def GetEnabledPlatform_def live_binding_def find_intent_def
        is_live_def acct_waiting_samples account_world_def effect_simps)

lemma acct_uncertain_asks:
  fixes w :: "platform_call aworld"
  assumes "w = account_world (acct_waiting_db acct_uncertain)"
  shows "ReconcileCredentialOperation acct_oc ''op1'' w = resolve_intent acct_oc acct_uncertain acct_binding ''control'' w"
  using acct_uncertain_reads [OF assms]
  by (simp add: ReconcileCredentialOperation_def reconcile_binding_def is_deleted_def reserving_def
        reconcile_with_platform_def or_else_def effect_simps ReservesBinding_def acct_uncertain_def acct_intent_samples
        acct_binding_def new_binding_def acct_service_def)

lemma acct_uncertain_ticket:
  fixes w :: "platform_call aworld"
  assumes "w = account_world (acct_waiting_db acct_uncertain)"
  shows "IssueBindingScopedOperationTicket (oc_platform acct_oc) ''user'' ''binding-refresh''
    (bindingAtGeneration acct_binding g) ''op1'' [MihomoOperationResolve] w = (Inr (''ticket'', 99), w)"
  using assms by (simp add: IssueBindingScopedOperationTicket_def issueBindingScopedTicket_def ticketable_def
        isSupportedInternalActorType_def GetEnabledPlatform_def live_user_def acct_oc_simps bindingAtGeneration_def
        MihomoOperationResolve_def effect_simps account_world_def acct_waiting_db_def acct_service_def account_samples
        acct_intent_samples)

lemma acct_uncertain_answer:
  "\<exists>w1. ResolveCredentialOperation (oc_platform acct_oc) ''control'' ''ticket''
      (credentialOperationReferenceFromIntent acct_uncertain) w =
      (Inr \<lparr>cr_state = CredentialRemoteOperationSucceeded, cr_reason_code = '''', cr_summary = Some acct_summary\<rparr>, w1) \<and>
      db w1 = db w \<and> base w1 = base w \<and> faults w1 = faults w"
  by (simp add: ResolveCredentialOperation_def credentialOperationReferenceProto_def named_kinds_def dial_platform_def
        credentialOperationReferenceFromIntent_def acct_oc_simps effect_simps resolution_of_def result_view_def
        genericOperationResultMapForOperation_def requireSucceededOperationResult_def decodeRuntimeSummary_def
        acct_answer_def acct_uncertain_def acct_intent_samples acct_summary_def genericCredentialStatus_def formatProtoTime_def
        mapGenericCredentialStatus_def)

text \<open>Applying the answer, step by step: the projection is pending, the summary stored, the intent closed.\<close>

definition acct_applied_db :: "intent_state \<Rightarrow> account_binding \<Rightarrow> operation_outbox \<Rightarrow> account_db" where
  "acct_applied_db st b o1 = acct_db\<lparr>ac_intents := [acct_intent\<lparr>oi_state := st, oi_reason_code := ''projection_pending''\<rparr>],
     ac_outbox := [o1], ac_next_outbox_id := 2, ac_bindings := [b], ac_services := [acct_service]\<rparr>"

definition acct_reopened :: operation_outbox where
  "acct_reopened = acct_outbox\<lparr>ob_available_at := 20 + credentialOperationRetryDelay, ob_last_reason_code := ''projection_pending''\<rparr>"

lemmas acct_steps = transition_def transition_body_def move_intents_def reopen_outbox_def complete_outbox_def
  of_operation_def acct_applied_db_def acct_reopened_def acct_waiting_db_def acct_uncertain_def acct_service_def
  account_samples acct_intent_samples effect_simps transaction_def reserving_def ReservesBinding_def Let_def
  account_checks account_violation_def account_constraints_def intent_row_valid_def intent_kinds_def
  reserving_bind_def set_intents_def set_outbox_def count_where_def

lemma acct_marks_pending:
  "MarkProjectionPending ''op1'' ''projection_pending'' 20
     \<lparr>db = acct_waiting_db acct_uncertain, base = None, faults = [], calls = cs\<rparr> =
   (Inr (), \<lparr>db = acct_applied_db ProjectionPending acct_binding acct_reopened, base = None, faults = [], calls = cs\<rparr>)"
  by (simp add: MarkProjectionPending_def acct_steps)

lemma acct_persists:
  "\<exists>b. PersistRuntimeSummary 1 acct_summary
     \<lparr>db = acct_applied_db ProjectionPending acct_binding acct_reopened, base = None, faults = [], calls = cs\<rparr> =
   (Inr b, \<lparr>db = acct_applied_db ProjectionPending b acct_reopened, base = None, faults = [], calls = cs\<rparr>) \<and>
   b = acct_binding\<lparr>pb_generation := 4\<rparr>"
  by (simp add: PersistRuntimeSummary_def persist_summary_body_def apply_runtime_summary_def update_live_def summarised_def
      transaction_capturing_def live_binding_def is_live_def GetBindingByID_def acct_summary_def acct_steps
      bindingStatusFromRuntimeSummary_def statusReasonCodeFromRuntimeSummary_def)

lemma acct_marks_succeeded:
  "\<exists>w' intent'. MarkSucceeded ''op1'' 20 \<lparr>db = acct_applied_db ProjectionPending (acct_binding\<lparr>pb_generation := 4\<rparr>) acct_reopened,
      base = None, faults = [], calls = cs\<rparr> = (Inr (), w') \<and>
   find_intent ''op1'' (db w') = Some intent' \<and> oi_state intent' = Succeeded"
  by (simp add: MarkSucceeded_def find_intent_def acct_steps)

lemma acct_uncertain_applies:
  assumes "db w = acct_waiting_db acct_uncertain" "base w = None" "faults w = []"
  shows "\<exists>w' intent'. applyResolvedCredentialOperation acct_oc acct_uncertain acct_binding (Some acct_summary) ''control'' w =
     (Inr (), w') \<and> find_intent ''op1'' (db w') = Some intent' \<and> oi_state intent' = Succeeded"
proof -
  obtain cs where w: "w = \<lparr>db = acct_waiting_db acct_uncertain, base = None, faults = [], calls = cs\<rparr>"
    using assms by (cases w) auto
  have "validOperationSummary (oi_kind acct_uncertain) (oi_target_generation acct_uncertain)
      (oi_profile_revision acct_uncertain) (oi_profile_ref acct_uncertain) (Some acct_summary)"
    by (simp add: validOperationSummary_def acct_uncertain_def acct_intent_samples acct_summary_def)
  moreover have "pb_id acct_binding = 1" "\<not> snapshot_current acct_summary"
    by (simp_all add: acct_binding_def snapshot_current_def acct_summary_def)
  ultimately show ?thesis
    using acct_persists [of cs] acct_marks_succeeded [of cs]
    by (simp add: applyResolvedCredentialOperation_def acct_waiting_ids acct_oc_simps acct_marks_pending w effect_simps
        or_else_def syncProfiles_def Let_def)
qed

theorem reconciled_success_is_confirmed_witness:
  "platform_confirmed (oc_platform acct_oc) acct_uncertain"
proof -
  let ?w = "account_world (acct_waiting_db acct_uncertain) :: platform_call aworld"
  have kind: "reserving acct_uncertain" "oi_kind acct_uncertain = ''OPERATION_KIND_REFRESH_CREDENTIAL''"
    "oi_actor_type acct_uncertain = ''user''" "oi_actor_id acct_uncertain = ''binding-refresh''"
    by (simp_all add: acct_uncertain_def acct_intent_samples reserving_def ReservesBinding_def)
  obtain w1 where answer: "ResolveCredentialOperation (oc_platform acct_oc) ''control'' ''ticket''
      (credentialOperationReferenceFromIntent acct_uncertain) ?w =
      (Inr \<lparr>cr_state = CredentialRemoteOperationSucceeded, cr_reason_code = '''', cr_summary = Some acct_summary\<rparr>, w1)"
    and w1: "db w1 = acct_waiting_db acct_uncertain" "base w1 = None" "faults w1 = []"
    using acct_uncertain_answer [of ?w] by auto
  have "ReconcileCredentialOperation acct_oc ''op1'' ?w =
      applyResolvedCredentialOperation acct_oc acct_uncertain acct_binding (Some acct_summary) ''control'' w1"
    using acct_uncertain_asks [OF refl] acct_uncertain_ticket [OF refl] answer kind
    by (simp add: resolve_intent_def or_else_def effect_simps settle_resolution_def acct_waiting_ids)
  with acct_uncertain_applies [OF w1] obtain w' intent' where
    "ReconcileCredentialOperation acct_oc ''op1'' ?w = (Inr (), w')" "find_intent ''op1'' (db w') = Some intent'"
    "oi_state intent' = Succeeded" by auto
  then show ?thesis
    using reconciled_success_is_confirmed [of ?w "''op1''" acct_uncertain acct_oc "Inr ()" w' intent'] kind
    by (simp add: acct_waiting_ok acct_waiting_finds acct_waiting_ids)
qed

end
