(* ===== verification/Account_Text.thy ===== *)
theory Account_Text
  imports Contracts
begin

text \<open>
  What the bot packages of Account Center use of Go's text libraries: runes of a UTF-8 string
  (\<open>unicode/utf8\<close> and the conversion to \<open>[]rune\<close>), \<open>strings.Fields\<close>, \<open>strings.Cut\<close> and the part
  of \<open>net/url.Parse\<close> that decides whether an identifier is absolute and free of query and fragment.
  A Go string is its bytes.
\<close>

section \<open>Runes\<close>

definition byte_in :: "nat \<Rightarrow> nat \<Rightarrow> nat \<Rightarrow> bool" where
  "byte_in lo hi b \<longleftrightarrow> lo \<le> b \<and> b \<le> hi"

abbreviation continuation :: "nat \<Rightarrow> bool" where
  "continuation \<equiv> byte_in 0x80 0xBF"

text \<open>The bytes \<open>utf8.DecodeRune\<close> takes for the first rune; an invalid byte is a rune of its own.\<close>

definition three_byte_rune :: "nat \<Rightarrow> nat \<Rightarrow> bool" where
  "three_byte_rune a b \<longleftrightarrow> (a = 0xE0 \<and> byte_in 0xA0 0xBF b) \<or> (a = 0xED \<and> byte_in 0x80 0x9F b) \<or>
     ((byte_in 0xE1 0xEC a \<or> byte_in 0xEE 0xEF a) \<and> continuation b)"

definition four_byte_rune :: "nat \<Rightarrow> nat \<Rightarrow> bool" where
  "four_byte_rune a b \<longleftrightarrow> (a = 0xF0 \<and> byte_in 0x90 0xBF b) \<or> (a = 0xF4 \<and> byte_in 0x80 0x8F b) \<or>
     (byte_in 0xF1 0xF3 a \<and> continuation b)"

fun rune_size :: "nat list \<Rightarrow> nat" where
  "rune_size (a # b # rest) =
     (if byte_in 0xC2 0xDF a \<and> continuation b then 2
      else case rest of
        c # rest' \<Rightarrow>
          if three_byte_rune a b \<and> continuation c then 3
          else (case rest' of d # _ \<Rightarrow> if four_byte_rune a b \<and> continuation c \<and> continuation d then 4 else 1 | [] \<Rightarrow> 1)
      | [] \<Rightarrow> 1)"
| "rune_size _ = 1"

lemma rune_size_pos [simp]: "0 < rune_size bs"
  by (cases bs rule: rune_size.cases) (auto split: list.splits)

function runes :: "string \<Rightarrow> string list" where
  "runes s = (if s = '''' then []
     else let n = rune_size (map of_char s) in take n s # runes (drop n s))"
  by pat_completeness auto

termination
  by (relation "measure length") auto

declare runes.simps [simp del]

lemma concat_runes: "concat (runes s) = s"
proof (induction s rule: runes.induct)
  case (1 s)
  then show ?case by (subst runes.simps) (auto simp: Let_def)
qed

lemma runes_nonempty: "[] \<notin> set (runes s)"
proof (induction s rule: runes.induct)
  case (1 s)
  then show ?case by (subst runes.simps) (auto simp: Let_def dest: sym)
qed

definition RuneCountInString :: "string \<Rightarrow> nat" where
  "RuneCountInString s = length (runes s)"

text \<open>\<open>string(runes)\<close>: an invalid byte comes back as U+FFFD.\<close>

definition rune_text :: "string \<Rightarrow> string" where
  "rune_text r = (case r of
       [c] \<Rightarrow> if (of_char c :: nat) < 0x80 then [c] else [CHR 0xEF, CHR 0xBF, CHR 0xBD]
     | _ \<Rightarrow> r)"

section \<open>Splitting\<close>

text \<open>\<open>strings.Fields\<close>.\<close>

function strings_Fields :: "string \<Rightarrow> string list" where
  "strings_Fields s = (let t = dropWhile is_space s in if t = '''' then []
     else takeWhile (\<lambda>c. \<not> is_space c) t # strings_Fields (dropWhile (\<lambda>c. \<not> is_space c) t))"
  by pat_completeness auto

termination
proof (relation "measure length")
  show "wf (measure length)" by simp
next
  fix s t :: string
  assume t: "t = dropWhile is_space s" and "t \<noteq> ''''"
  then have "\<not> is_space (hd t)" by (metis hd_dropWhile)
  with \<open>t \<noteq> ''''\<close> have "length (dropWhile (\<lambda>c. \<not> is_space c) t) < length t"
    by (cases t) (auto simp: le_imp_less_Suc length_dropWhile_le)
  also have "\<dots> \<le> length s" unfolding t by (rule length_dropWhile_le)
  finally show "(dropWhile (\<lambda>c. \<not> is_space c) t, s) \<in> measure length" by simp
qed

declare strings_Fields.simps [simp del]

text \<open>\<open>strings.Cut\<close> at a one-byte separator.\<close>

definition cut :: "char \<Rightarrow> string \<Rightarrow> string \<times> string" where
  "cut c s = (takeWhile (\<lambda>x. x \<noteq> c) s, drop 1 (dropWhile (\<lambda>x. x \<noteq> c) s))"

text \<open>\<open>strings.Join\<close>.\<close>

fun strings_Join :: "string \<Rightarrow> string list \<Rightarrow> string" where
  "strings_Join sep [] = ''''"
| "strings_Join sep [x] = x"
| "strings_Join sep (x # y # rest) = x @ sep @ strings_Join sep (y # rest)"

text \<open>A word has no white space and is not empty; joined words split again.\<close>

definition is_word :: "string \<Rightarrow> bool" where
  "is_word s \<longleftrightarrow> s \<noteq> '''' \<and> list_all (\<lambda>c. \<not> is_space c) s"

lemma fields_append_word:
  assumes "is_word x"
  shows "strings_Fields (x @ CHR '' '' # s) = x # strings_Fields (CHR '' '' # s)"
proof -
  have x: "x \<noteq> ''''" "\<forall>c \<in> set x. \<not> is_space c" using assms by (auto simp: is_word_def list_all_iff)
  then have "dropWhile is_space (x @ CHR '' '' # s) = x @ CHR '' '' # s" by (cases x) auto
  moreover have "takeWhile (\<lambda>c. \<not> is_space c) (x @ CHR '' '' # s) = x"
    "dropWhile (\<lambda>c. \<not> is_space c) (x @ CHR '' '' # s) = CHR '' '' # s"
    using x(2) by (simp_all add: is_space_def takeWhile_append2 dropWhile_append2)
  ultimately show ?thesis using x(1) by (subst strings_Fields.simps) (simp add: Let_def)
qed

lemma fields_space: "strings_Fields (CHR '' '' # s) = strings_Fields s"
  by (subst (1 2) strings_Fields.simps) (simp add: is_space_def)

lemma fields_Nil [simp]: "strings_Fields [] = []"
  by (simp add: strings_Fields.simps)

lemma fields_word:
  assumes "is_word x"
  shows "strings_Fields x = [x]"
proof -
  have x: "x \<noteq> []" "\<forall>c \<in> set x. \<not> is_space c" using assms by (auto simp: is_word_def list_all_iff)
  then have "dropWhile is_space x = x" by (cases x) auto
  moreover have "takeWhile (\<lambda>c. \<not> is_space c) x = x" "dropWhile (\<lambda>c. \<not> is_space c) x = []"
    using x(2) by simp_all
  ultimately show ?thesis using x(1) by (subst strings_Fields.simps) (simp add: Let_def del: dropWhile_eq_Nil_conv)
qed

lemma fields_Join: "list_all is_word xs \<Longrightarrow> strings_Fields (strings_Join '' '' xs) = xs"
proof (induction "'' ''" xs rule: strings_Join.induct)
  case 1
  show ?case by (simp add: strings_Fields.simps)
next
  case (2 x)
  then show ?case by (simp add: fields_word)
next
  case (3 x y rest)
  then show ?case by (simp add: fields_append_word fields_space)
qed

section \<open>Absolute identifiers\<close>

definition is_letter :: "char \<Rightarrow> bool" where
  "is_letter c \<longleftrightarrow> (CHR ''a'' \<le> c \<and> c \<le> CHR ''z'') \<or> (CHR ''A'' \<le> c \<and> c \<le> CHR ''Z'')"

definition scheme_char :: "char \<Rightarrow> bool" where
  "scheme_char c \<longleftrightarrow> is_letter c \<or> (CHR ''0'' \<le> c \<and> c \<le> CHR ''9'') \<or> c \<in> {CHR ''+'', CHR ''-'', CHR ''.''}"

text \<open>The scheme and the rest, when the text has a scheme.\<close>

definition getScheme :: "string \<Rightarrow> (string \<times> string) option" where
  "getScheme s = (let scheme = takeWhile scheme_char s; rest = dropWhile scheme_char s in
     if scheme \<noteq> '''' \<and> is_letter (hd scheme) \<and> rest \<noteq> '''' \<and> hd rest = CHR '':''
     then Some (scheme, tl rest) else None)"

definition is_control :: "char \<Rightarrow> bool" where
  "is_control c \<longleftrightarrow> (of_char c :: nat) < 0x20 \<or> c = CHR 0x7F"

definition is_hex_digit :: "char \<Rightarrow> bool" where
  "is_hex_digit c \<longleftrightarrow> (CHR ''0'' \<le> c \<and> c \<le> CHR ''9'') \<or> (CHR ''a'' \<le> c \<and> c \<le> CHR ''f'') \<or> (CHR ''A'' \<le> c \<and> c \<le> CHR ''F'')"

text \<open>Every \<open>%\<close> of a path starts an escape.\<close>

fun escapes_ok :: "string \<Rightarrow> bool" where
  "escapes_ok [] = True"
| "escapes_ok (c # s) =
     ((if c = CHR ''%'' then (case s of a # b # _ \<Rightarrow> is_hex_digit a \<and> is_hex_digit b | _ \<Rightarrow> False) else True) \<and> escapes_ok s)"

text \<open>\<open>url.Parse\<close> accepts the text, and the result is absolute, without query and fragment.  The check
  of an authority (\<open>user@host:port\<close>) is an argument.\<close>

definition hierarchy_ok :: "(string \<Rightarrow> bool) \<Rightarrow> string \<Rightarrow> bool" where
  "hierarchy_ok authority_ok rest =
     (if take 2 rest = ''//'' then
        (let after = drop 2 rest in authority_ok (takeWhile (\<lambda>c. c \<noteq> CHR ''/'') after) \<and>
           escapes_ok (dropWhile (\<lambda>c. c \<noteq> CHR ''/'') after))
      else escapes_ok rest)"

definition absolute_identifier :: "(string \<Rightarrow> bool) \<Rightarrow> string \<Rightarrow> bool" where
  "absolute_identifier authority_ok s =
     (let (u, fragment) = cut (CHR ''#'') s in
      fragment = '''' \<and> \<not> list_ex is_control u \<and>
      (case getScheme u of
         None \<Rightarrow> False
       | Some (_, rest) \<Rightarrow>
           let (path, query) = cut (CHR ''?'') rest in
           query = '''' \<and> (if path \<noteq> '''' \<and> hd path = CHR ''/'' then hierarchy_ok authority_ok path else True)))"

lemma sample_identifiers:
  "absolute_identifier (\<lambda>_. True) ''urn:paigram:entry:telegram''"
  "\<not> absolute_identifier (\<lambda>_. True) ''telegram''"
  "\<not> absolute_identifier (\<lambda>_. True) ''https://example.org/?x''"
  "absolute_identifier (\<lambda>_. True) ''https://example.org/%41''"
  by code_simp+

end
