(* ===== verification/Account_Credentials.thy ===== *)
theory Account_Credentials
  imports Account_Bindings Account_Text Mihomo_Crypto
begin

text \<open>
  Service credentials of Account Center (\<open>service/credentials\<close>): the registry of OAuth clients, the
  access tokens they get for their secret, and the interceptor of the gRPC server that checks them
  (\<open>grpc/interceptor/auth.go\<close>).  bcrypt and the JWT library are arguments; random bytes are drawn
  by the caller.  The first section states the constraints of the tables around bots.
\<close>

section \<open>Constraints of the tables around bots\<close>

text \<open>They involve no table of \<open>account_constraints\<close> but the users and the grants, and are checked by
  the statements that write these tables.\<close>

definition has_bot :: "account_db \<Rightarrow> string \<Rightarrow> bool" where
  "has_bot d i = list_ex (\<lambda>b. lb_id b = i) (ac_bots d)"

definition has_credential :: "account_db \<Rightarrow> string \<Rightarrow> bool" where
  "has_credential d i = list_ex (\<lambda>c. sc_client_id c = i) (ac_credentials d)"

definition live_identity :: "bot_identity \<Rightarrow> bool" where
  "live_identity i \<longleftrightarrow> bid_deleted_at i = None"

definition epoch_ok :: "u64 \<Rightarrow> bool" where
  "epoch_ok e \<longleftrightarrow> bigint_ok e \<and> 1 \<le> e"

definition bot_constraints :: "(db_error \<times> (account_db \<Rightarrow> bool)) list" where
  "bot_constraints = [
     (Unique_Violation ''bots_pkey'', \<lambda>d. unique_on lb_id (ac_bots d)),
     (Unique_Violation ''uk_bots_entry_issuer'', \<lambda>d. unique_on lb_entry_issuer (ac_bots d)),
     (Foreign_Key_Violation ''fk_bots_owner'', \<lambda>d. list_all (\<lambda>b. has_user d (lb_owner_user_id b)) (ac_bots d)),
     (Unique_Violation ''service_credentials_pkey'', \<lambda>d. unique_on sc_client_id (ac_credentials d)),
     (Check_Violation ''service_credentials'', \<lambda>d. list_all (\<lambda>c. epoch_ok (sc_consumer_epoch c)) (ac_credentials d)),
     (Foreign_Key_Violation ''fk_service_credentials_owner'', \<lambda>d.
        list_all (\<lambda>c. has_user d (sc_owner_user_id c)) (ac_credentials d)),
     (Foreign_Key_Violation ''fk_service_credentials_bot'', \<lambda>d.
        list_all (\<lambda>c. has_bot d (sc_bot_id c)) (ac_credentials d)),
     (Unique_Violation ''bot_identities_pkey'', \<lambda>d. unique_on bid_id (ac_identities d)),
     (Unique_Violation ''uk_bot_identities_ref'', \<lambda>d. unique_on bid_entry_identity_ref (ac_identities d)),
     (Check_Violation ''bot_identities'', \<lambda>d. list_all (\<lambda>i. epoch_ok (bid_entry_epoch i)) (ac_identities d)),
     (Unique_Violation ''uk_bot_identities_issuer_subject_active'', \<lambda>d.
        unique_where live_identity (\<lambda>i. (bid_issuer i, bid_external_user_id i)) (ac_identities d)),
     (Unique_Violation ''uk_bot_identities_user_issuer_active'', \<lambda>d.
        unique_where live_identity (\<lambda>i. (bid_user_id i, bid_issuer i)) (ac_identities d)),
     (Foreign_Key_Violation ''fk_bot_identities_user'', \<lambda>d. list_all (\<lambda>i. has_user d (bid_user_id i)) (ac_identities d)),
     (Foreign_Key_Violation ''fk_bot_identities_bot'', \<lambda>d. list_all (\<lambda>i. has_bot d (bid_bot_id i)) (ac_identities d)),
     (Unique_Violation ''entry_identity_link_challenges_pkey'', \<lambda>d. unique_on lc_challenge_hash (ac_challenges d)),
     (Foreign_Key_Violation ''fk_entry_identity_link_challenges_consumer'', \<lambda>d.
        list_all (\<lambda>c. has_credential d (lc_consumer c)) (ac_challenges d)),
     (Foreign_Key_Violation ''fk_entry_identity_link_challenges_bot'', \<lambda>d.
        list_all (\<lambda>c. has_bot d (lc_bot_id c)) (ac_challenges d)),
     (Foreign_Key_Violation ''fk_entry_identity_link_challenges_user'', \<lambda>d.
        list_all (\<lambda>c. case lc_approved_user_id c of None \<Rightarrow> True | Some u \<Rightarrow> has_user d u) (ac_challenges d)),
     (Unique_Violation ''entry_identity_unlink_operations_pkey'', \<lambda>d. unique_on uo_operation_id (ac_unlinks d)),
     (Check_Violation ''entry_identity_unlink_operations'', \<lambda>d.
        list_all (\<lambda>o1. epoch_ok (uo_minimum_entry_epoch o1)) (ac_unlinks d)),
     (Foreign_Key_Violation ''fk_entry_identity_unlink_operations_identity'', \<lambda>d.
        list_all (\<lambda>o1. has_user d (uo_user_id o1) \<and> has_bot d (uo_bot_id o1) \<and>
          list_ex (\<lambda>i. bid_entry_identity_ref i = uo_entry_identity_ref o1) (ac_identities d)) (ac_unlinks d)),
     (Unique_Violation ''entry_identity_unlink_targets_pkey'', \<lambda>d.
        unique_on (\<lambda>t. (ut_operation_id t, ut_grant_id t)) (ac_unlink_targets d)),
     (Foreign_Key_Violation ''fk_entry_identity_unlink_targets'', \<lambda>d.
        list_all (\<lambda>t. list_ex (\<lambda>o1. uo_operation_id o1 = ut_operation_id t) (ac_unlinks d) \<and>
          list_ex (\<lambda>g. cg_id g = ut_grant_id t) (ac_grants d)) (ac_unlink_targets d)),
     (Foreign_Key_Violation ''fk_audit_log_user'', \<lambda>d. list_all (\<lambda>a. has_user d (al_user_id a)) (ac_audit_log d))]"

definition bot_violation :: "account_db \<Rightarrow> db_error option" where
  "bot_violation d = map_option fst (find (\<lambda>c. \<not> snd c d) bot_constraints)"

definition bots_ok :: "account_db \<Rightarrow> bool" where
  "bots_ok d \<longleftrightarrow> bot_violation d = None"

definition bot_write :: "(account_db \<Rightarrow> 'a \<times> account_db) \<Rightarrow> ('l, 'a) aeff" where
  "bot_write f = asql (\<lambda>d. case bot_violation (snd (f d)) of Some e \<Rightarrow> Inl e | None \<Rightarrow> Inr (f d))"

definition bot_change :: "(account_db \<Rightarrow> account_db) \<Rightarrow> ('l, unit) aeff" where
  "bot_change f = bot_write (\<lambda>d. ((), f d))"

lemma bot_write_InrE:
  assumes "bot_write f w = (Inr x, w')"
  obtains fs d where "f (db w) = (x, d)" "bots_ok d" "w' = w\<lparr>faults := fs, db := d\<rparr>"
  using assms unfolding bot_write_def
  by (elim statement_InrE) (auto split: option.splits simp: bots_ok_def)

lemma bot_change_InrE:
  assumes "bot_change f w = (Inr x, w')"
  obtains fs where "bots_ok (f (db w))" "w' = w\<lparr>faults := fs, db := f (db w)\<rparr>"
  using assms unfolding bot_change_def by (auto elim!: bot_write_InrE)

lemma bot_write_no_fault [effect_simps]:
  "faults w = [] \<Longrightarrow> bot_write f w = (case bot_violation (snd (f (db w))) of
     Some e \<Rightarrow> (Inl (AcDb e), w) | None \<Rightarrow> (Inr (fst (f (db w))), w\<lparr>db := snd (f (db w))\<rparr>))"
  by (simp add: bot_write_def effect_simps split: option.splits prod.splits)

lemma bot_change_no_fault [effect_simps]:
  "faults w = [] \<Longrightarrow> bot_change f w = (case bot_violation (f (db w)) of
     Some e \<Rightarrow> (Inl (AcDb e), w) | None \<Rightarrow> (Inr (), w\<lparr>db := f (db w)\<rparr>))"
  by (simp add: bot_change_def bot_write_no_fault split: option.splits)

lemma bot_write_rules [keeps_rules, simp]:
  "pins_committed (bot_write f)" "keeps bots_ok (bot_write f)"
  "pins_committed (bot_change g)" "keeps bots_ok (bot_change g)"
  unfolding bot_change_def bot_write_def
  by (auto intro!: keeps_statement simp: bots_ok_def split: option.splits)

lemma bot_write_keeps:
  "(\<And>d. I d \<Longrightarrow> bots_ok (snd (f d)) \<Longrightarrow> I (snd (f d))) \<Longrightarrow> keeps I (bot_write f)"
  unfolding bot_write_def by (rule keeps_statement) (auto simp: bots_ok_def split: option.splits, metis snd_conv)

lemma bot_change_keeps:
  "(\<And>d. I d \<Longrightarrow> bots_ok (f d) \<Longrightarrow> I (f d)) \<Longrightarrow> keeps I (bot_change f)"
  unfolding bot_change_def by (rule bot_write_keeps) simp

lemma bot_write_frames: "(\<And>d. g (snd (f d)) = g d) \<Longrightarrow> frames g (bot_write f)"
  unfolding bot_write_def by (rule frames_statement) (auto split: option.splits, metis snd_conv)

lemma bot_change_frames: "(\<And>d. g (f d) = g d) \<Longrightarrow> frames g (bot_change f)"
  unfolding bot_change_def by (rule bot_write_frames) simp

lemma bots_ok_all: "bots_ok d \<longleftrightarrow> list_all (\<lambda>c. snd c d) bot_constraints"
  unfolding bots_ok_def bot_violation_def option.map_disc_iff find_None_iff list_all_iff by blast

lemma bots_okD:
  assumes "bots_ok d"
  shows "unique_on lb_id (ac_bots d)" "unique_on sc_client_id (ac_credentials d)"
    "unique_on bid_id (ac_identities d)" "unique_on bid_entry_identity_ref (ac_identities d)"
    "list_all (\<lambda>i. epoch_ok (bid_entry_epoch i)) (ac_identities d)"
    "unique_where live_identity (\<lambda>i. (bid_issuer i, bid_external_user_id i)) (ac_identities d)"
    "unique_where live_identity (\<lambda>i. (bid_user_id i, bid_issuer i)) (ac_identities d)"
    "unique_on lc_challenge_hash (ac_challenges d)" "unique_on uo_operation_id (ac_unlinks d)"
    "list_all (\<lambda>o1. epoch_ok (uo_minimum_entry_epoch o1)) (ac_unlinks d)"
    "unique_on (\<lambda>t. (ut_operation_id t, ut_grant_id t)) (ac_unlink_targets d)"
  using assms by (simp_all add: bots_ok_all bot_constraints_def)

lemma bot_tables_refs:
  "primary_assigned (d\<lparr>ac_bots := x1\<rparr>) = primary_assigned d" "primary_assigned (d\<lparr>ac_credentials := x2\<rparr>) = primary_assigned d"
  "primary_assigned (d\<lparr>ac_identities := x3\<rparr>) = primary_assigned d" "primary_assigned (d\<lparr>ac_next_identity_id := x4\<rparr>) = primary_assigned d"
  "primary_assigned (d\<lparr>ac_challenges := x5\<rparr>) = primary_assigned d" "primary_assigned (d\<lparr>ac_audit_log := x6\<rparr>) = primary_assigned d"
  "primary_assigned (d\<lparr>ac_unlinks := x7\<rparr>) = primary_assigned d" "primary_assigned (d\<lparr>ac_unlink_targets := x8\<rparr>) = primary_assigned d"
  by (simp_all add: primary_assigned_def [abs_def] fun_eq_iff split: option.splits)

lemma bot_tables_account_ok [simp]:
  "account_ok (d\<lparr>ac_bots := x1\<rparr>) = account_ok d" "account_ok (d\<lparr>ac_credentials := x2\<rparr>) = account_ok d"
  "account_ok (d\<lparr>ac_identities := x3\<rparr>) = account_ok d" "account_ok (d\<lparr>ac_next_identity_id := x4\<rparr>) = account_ok d"
  "account_ok (d\<lparr>ac_challenges := x5\<rparr>) = account_ok d" "account_ok (d\<lparr>ac_audit_log := x6\<rparr>) = account_ok d"
  "account_ok (d\<lparr>ac_unlinks := x7\<rparr>) = account_ok d" "account_ok (d\<lparr>ac_unlink_targets := x8\<rparr>) = account_ok d"
  by (simp_all add: account_ok_unfold has_binding_def has_user_def bot_tables_refs cong: option.case_cong)

section \<open>Secrets\<close>

definition clientSecretBytes :: nat where "clientSecretBytes = 48"

text \<open>\<open>GenerateClientSecret\<close>: the random bytes are the argument, or the failure to read them.\<close>

definition GenerateClientSecret :: "string option \<Rightarrow> acerror + string" where
  "GenerateClientSecret random = (case random of
       None \<Rightarrow> Inl (PlainError ''crypto/rand'')
     | Some raw \<Rightarrow> Inr (base64url_encode raw))"

text \<open>bcrypt: hashing salts with random bytes of its own, so a hash is an outcome; comparing is a
  function of the hash and the secret.\<close>

record bcrypt_library =
  bc_generate :: "string \<Rightarrow> string option"
  bc_compare :: "string \<Rightarrow> string \<Rightarrow> bool"

definition HashClientSecret :: "bcrypt_library \<Rightarrow> string \<Rightarrow> acerror + string" where
  "HashClientSecret lib secret = (case bc_generate lib secret of
       None \<Rightarrow> Inl (PlainError ''bcrypt'') | Some hashed \<Rightarrow> Inr hashed)"

definition VerifyClientSecret :: "bcrypt_library \<Rightarrow> string \<Rightarrow> string \<Rightarrow> bool" where
  "VerifyClientSecret lib hash secret = bc_compare lib hash secret"

definition dummyClientSecretHash :: string where
  "dummyClientSecretHash = ''$2a$12$r4yE1DZhgNY0y5sB0Pk5XOweX7vHLqOtTPUz3mfmpWnTxUw30EX2a''"

section \<open>The registry\<close>

definition live_credential :: "string \<Rightarrow> account_db \<Rightarrow> service_credential option" where
  "live_credential i d = find (\<lambda>c. sc_client_id c = i \<and> sc_deleted_at c = None) (ac_credentials d)"

definition live_bot :: "string \<Rightarrow> account_db \<Rightarrow> logical_bot option" where
  "live_bot i d = find (\<lambda>b. lb_id b = i \<and> lb_deleted_at b = None) (ac_bots d)"

definition DefaultEntryIssuer :: "string \<Rightarrow> string" where
  "DefaultEntryIssuer botID = ''urn:paigram:entry:'' @ trim_space botID"

definition validEntryIssuer :: "(string \<Rightarrow> bool) \<Rightarrow> string \<Rightarrow> bool" where
  "validEntryIssuer authority_ok value \<longleftrightarrow>
     value \<noteq> '''' \<and> RuneCountInString value \<le> 191 \<and> absolute_identifier authority_ok value"

definition DecodeStringList :: "string list option \<Rightarrow> acerror + string list" where
  "DecodeStringList raw = (case raw of None \<Rightarrow> Inl (PlainError ''json'') | Some values \<Rightarrow> Inr values)"

record credential_input =
  ci_client_id :: string
  ci_bot_id :: string
  ci_entry_issuer :: string
  ci_display_name :: string
  ci_owner_user_id :: nat
  ci_description :: string
  ci_audiences :: "string list"
  ci_scopes :: "string list"

record credential_view =
  cv_client_id :: string
  cv_bot_id :: string
  cv_entry_issuer :: string
  cv_display_name :: string
  cv_status :: string
  cv_owner_user_id :: nat
  cv_description :: string
  cv_audiences :: "string list"
  cv_scopes :: "string list"

text \<open>The \<open>Bot\<close> association of the row is the second argument: \<open>None\<close> when it was not loaded.\<close>

definition newCredentialView :: "service_credential \<Rightarrow> logical_bot option \<Rightarrow> acerror + credential_view" where
  "newCredentialView row lbot =
     (case DecodeStringList (sc_audiences row) of
        Inl e \<Rightarrow> Inl e
      | Inr audiences \<Rightarrow> (case DecodeStringList (sc_scopes row) of
          Inl e \<Rightarrow> Inl e
        | Inr scopes \<Rightarrow> Inr \<lparr>cv_client_id = sc_client_id row, cv_bot_id = sc_bot_id row,
            cv_entry_issuer = (case lbot of None \<Rightarrow> '''' | Some b \<Rightarrow> lb_entry_issuer b),
            cv_display_name = sc_display_name row, cv_status = sc_status row,
            cv_owner_user_id = sc_owner_user_id row, cv_description = sc_description row,
            cv_audiences = audiences, cv_scopes = scopes\<rparr>))"

text \<open>The rows of a new credential: its bot, unless it is known, and the credential.  The epoch is the
  default of the column.\<close>

definition service_bot :: "string \<Rightarrow> string \<Rightarrow> nat \<Rightarrow> logical_bot" where
  "service_bot botID entryIssuer owner = \<lparr>lb_id = botID, lb_entry_issuer = entryIssuer, lb_display_name = botID,
     lb_description = ''Logical service principal registered with its first OAuth credential'',
     lb_type = ''SERVICE'', lb_status = ''ACTIVE'', lb_owner_user_id = owner, lb_deleted_at = None\<rparr>"

definition new_credential :: "credential_input \<Rightarrow> string \<Rightarrow> string \<Rightarrow> string \<Rightarrow> service_credential" where
  "new_credential input clientID botID hash = \<lparr>sc_client_id = clientID, sc_consumer_epoch = 1, sc_bot_id = botID,
     sc_display_name = ci_display_name input, sc_secret_hash = hash, sc_audiences = Some (ci_audiences input),
     sc_scopes = Some (ci_scopes input), sc_status = ''active'', sc_owner_user_id = ci_owner_user_id input,
     sc_description = ci_description input, sc_last_used_at = None, sc_deleted_at = None\<rparr>"

text \<open>\<open>ON CONFLICT DO NOTHING\<close>: a bot with the id or the issuer stays as it is.\<close>

definition ensure_bot :: "logical_bot \<Rightarrow> account_db \<Rightarrow> account_db" where
  "ensure_bot b d =
     (if list_ex (\<lambda>r. lb_id r = lb_id b \<or> lb_entry_issuer r = lb_entry_issuer b) (ac_bots d) then d
      else d\<lparr>ac_bots := ac_bots d @ [b]\<rparr>)"

definition insert_credential :: "service_credential \<Rightarrow> account_db \<Rightarrow> account_db" where
  "insert_credential c d = d\<lparr>ac_credentials := ac_credentials d @ [c]\<rparr>"

definition register_credential ::
    "logical_bot \<Rightarrow> string \<Rightarrow> service_credential \<Rightarrow> ('l, logical_bot) aeff" where
  "register_credential lbot requestedIssuer row =
     andThen (bot_change (ensure_bot lbot)) (\<lambda>_.
     andThen (take_row (CredentialErr ErrBotIssuerConflict) (live_bot (lb_id lbot))) (\<lambda>registered.
     andThen (require (requestedIssuer = '''' \<or> lb_entry_issuer registered = requestedIssuer)
       (CredentialErr ErrBotIssuerConflict)) (\<lambda>_.
     andThen (bot_change (insert_credential row)) (\<lambda>_. return registered))))"

definition credential_conflict :: "acerror \<Rightarrow> acerror" where
  "credential_conflict err =
     (if errors_is err (CredentialErr ErrBotIssuerConflict) then err
      else if IsUniqueViolation err then CredentialErr ErrCredentialConflict else err)"

text \<open>The result: the row, its view and the secret.\<close>

definition Credentials_Create ::
    "(string \<Rightarrow> bool) \<Rightarrow> bcrypt_library \<Rightarrow> string option \<Rightarrow> credential_input
      \<Rightarrow> ('l, service_credential \<times> credential_view \<times> string) aeff" where
  "Credentials_Create authority_ok lib random input =
     (let clientID = trim_space (ci_client_id input);
          botID = (if trim_space (ci_bot_id input) = '''' then clientID else trim_space (ci_bot_id input));
          requestedIssuer = trim_space (ci_entry_issuer input);
          entryIssuer = (if requestedIssuer = '''' then DefaultEntryIssuer botID else requestedIssuer) in
      andThen (require (clientID \<noteq> '''') (CredentialErr ErrEmptyClientID)) (\<lambda>_.
      andThen (require (validEntryIssuer authority_ok entryIssuer) (CredentialErr ErrInvalidEntryIssuer)) (\<lambda>_.
      andThen (lift_result (GenerateClientSecret random)) (\<lambda>plaintext.
      andThen (lift_result (HashClientSecret lib plaintext)) (\<lambda>hash.
      let row = new_credential input clientID botID hash in
      andThen (map_error credential_conflict (db_transaction
        (register_credential (service_bot botID entryIssuer (ci_owner_user_id input)) requestedIssuer row))) (\<lambda>registered.
      andThen (lift_result (newCredentialView row (Some registered))) (\<lambda>view.
      return (row, view, plaintext))))))))"

text \<open>\<open>List\<close>, in the order of the client ids.\<close>

definition bot_of :: "account_db \<Rightarrow> service_credential \<Rightarrow> logical_bot option" where
  "bot_of d c = live_bot (sc_bot_id c) d"

definition Credentials_List :: "('l, credential_view list) aeff" where
  "Credentials_List =
     andThen (aquery (\<lambda>d. sort_key sc_client_id (filter (\<lambda>c. sc_deleted_at c = None) (ac_credentials d)))) (\<lambda>rows.
     andThen (if rows = [] then return (\<lambda>_. None) else aquery bot_of) (\<lambda>bots.
     for_each rows (\<lambda>row. lift_result (newCredentialView row (bots row)))))"

definition GetByClientID :: "string \<Rightarrow> ('l, service_credential) aeff" where
  "GetByClientID clientID =
     andThen (require (clientID \<noteq> '''') (CredentialErr ErrCredentialNotFound)) (\<lambda>_.
     andThen (take_row (CredentialErr ErrCredentialNotFound) (live_credential clientID)) (\<lambda>row.
     andThen (require (sc_status row = ''active'') (CredentialErr ErrCredentialDisabled)) (\<lambda>_.
     return row)))"

text \<open>\<open>VerifySecret\<close>: some hash is compared on every branch, so that the time taken tells nothing.\<close>

definition VerifySecret :: "bcrypt_library \<Rightarrow> string \<Rightarrow> string \<Rightarrow> ('l, service_credential) aeff" where
  "VerifySecret lib clientID clientSecret =
     andThen (attempt (GetByClientID clientID)) (\<lambda>lookup.
     let hashToCompare = (case lookup of Inr row \<Rightarrow> sc_secret_hash row | Inl _ \<Rightarrow> dummyClientSecretHash);
         matches = VerifyClientSecret lib hashToCompare clientSecret in
     case lookup of
       Inl e \<Rightarrow> raise e
     | Inr row \<Rightarrow> if \<not> matches then raise (CredentialErr ErrInvalidClientSecret) else return row)"

definition update_credential ::
    "string \<Rightarrow> (service_credential \<Rightarrow> service_credential) \<Rightarrow> account_db \<Rightarrow> account_db" where
  "update_credential i f d = d\<lparr>ac_credentials :=
     update_where (\<lambda>c. sc_client_id c = i \<and> sc_deleted_at c = None) f (ac_credentials d)\<rparr>"

definition RotateSecret ::
    "bcrypt_library \<Rightarrow> string option \<Rightarrow> string \<Rightarrow> ('l, service_credential \<times> credential_view \<times> string) aeff" where
  "RotateSecret lib random clientID =
     andThen (require (clientID \<noteq> '''') (CredentialErr ErrEmptyClientID)) (\<lambda>_.
     andThen (lift_result (GenerateClientSecret random)) (\<lambda>plaintext.
     andThen (lift_result (HashClientSecret lib plaintext)) (\<lambda>hash.
     andThen (db_transaction (
       andThen (take_row (CredentialErr ErrCredentialNotFound) (live_credential clientID)) (\<lambda>row.
       andThen (bot_change (update_credential clientID (sc_secret_hash_update (\<lambda>_. hash)))) (\<lambda>_.
       return (row\<lparr>sc_secret_hash := hash\<rparr>))))) (\<lambda>row.
     andThen (take_row GormRecordNotFound (live_bot (sc_bot_id row))) (\<lambda>lbot.
     andThen (lift_result (newCredentialView row (Some lbot))) (\<lambda>view.
     return (row, view, plaintext)))))))"

definition SetStatus :: "string \<Rightarrow> string \<Rightarrow> ('l, service_credential) aeff" where
  "SetStatus clientID status =
     andThen (require (status = ''active'' \<or> status = ''disabled'') (CredentialErr ErrInvalidStatus)) (\<lambda>_.
     db_transaction (
       andThen (bot_write (\<lambda>d. (live_credential clientID d \<noteq> None,
         update_credential clientID (sc_status_update (\<lambda>_. status)) d))) (\<lambda>affected.
       andThen (require affected (CredentialErr ErrCredentialNotFound)) (\<lambda>_.
       take_row (CredentialErr ErrCredentialNotFound) (live_credential clientID)))))"

definition MarkUsed :: "string \<Rightarrow> instant \<Rightarrow> ('l, unit) aeff" where
  "MarkUsed clientID at = bot_change (update_credential clientID (sc_last_used_at_update (\<lambda>_. Some at)))"

section \<open>Access tokens\<close>

text \<open>The claims of an access token; \<open>None\<close> for an absent registered time.\<close>

record access_claims =
  at_client_id :: string
  at_bot_id :: string
  at_scope :: string
  at_issuer :: string
  at_subject :: string
  at_audience :: "string list"
  at_issued_at :: "instant option"
  at_expires_at :: "instant option"
  at_id :: string

text \<open>The JWT library for HS256: signing claims under a key, decoding a token without verification
  to its algorithm and claims, the signature check, and the check of the registered claims for
  the instant, the issuer and the audience (expiry required).\<close>

record access_library =
  hs_sign :: "string \<Rightarrow> access_claims \<Rightarrow> string option"
  hs_decode :: "string \<Rightarrow> (string \<times> access_claims) option"
  hs_signature_ok :: "string \<Rightarrow> string \<Rightarrow> bool"
  hs_claims_ok :: "instant \<Rightarrow> string \<Rightarrow> string \<Rightarrow> access_claims \<Rightarrow> bool"

record token_service =
  ts_issuer :: string
  ts_ttl_seconds :: int
  ts_signing_key :: string

definition NewTokenService :: "token_service \<Rightarrow> token_service option" where
  "NewTokenService cfg =
     (if length (ts_signing_key cfg) < 32 then None
      else Some (cfg\<lparr>ts_issuer := (if ts_issuer cfg = '''' then ''account-center'' else ts_issuer cfg),
        ts_ttl_seconds := (if ts_ttl_seconds cfg \<le> 0 then 3600 else ts_ttl_seconds cfg)\<rparr>))"

definition splitScope :: "string \<Rightarrow> string list" where
  "splitScope raw = (if raw = '''' then [] else strings_Fields raw)"

definition HasScope :: "access_claims option \<Rightarrow> string list \<Rightarrow> bool" where
  "HasScope claims requiredScopes = (case claims of
       None \<Rightarrow> False
     | Some c \<Rightarrow> if requiredScopes = [] then True
         else let have = splitScope (at_scope c) in
           ''admin.all'' \<in> set have \<or> list_all (\<lambda>required. required \<in> set have) requiredScopes)"

definition resolveRequestedScopes :: "string list \<Rightarrow> string list \<Rightarrow> acerror + string list" where
  "resolveRequestedScopes granted requested =
     (if requested = [] then Inr granted
      else if list_all (\<lambda>scope. scope \<in> set granted) requested then Inr requested
      else Inl (CredentialErr ErrInsufficientScope))"

record token_request =
  tr_client_id :: string
  tr_client_secret :: string
  tr_audience :: string
  tr_scopes :: "string list"

record issued_token =
  it_access_token :: string
  it_token_type :: string
  it_expires_in :: int
  it_scope :: string

text \<open>Numeric dates are whole seconds.\<close>

definition numeric_date :: "instant \<Rightarrow> instant" where
  "numeric_date t = t - t mod second"

definition access_claims_for ::
    "token_service \<Rightarrow> instant \<Rightarrow> string \<Rightarrow> string \<Rightarrow> string \<Rightarrow> service_credential \<Rightarrow> access_claims" where
  "access_claims_for ts now uuid audience scope credential =
     \<lparr>at_client_id = sc_client_id credential, at_bot_id = sc_bot_id credential, at_scope = scope,
       at_issuer = ts_issuer ts, at_subject = sc_client_id credential, at_audience = [audience],
       at_issued_at = Some (numeric_date now), at_expires_at = Some (numeric_date (now + ts_ttl_seconds ts * second)),
       at_id = uuid\<rparr>"

text \<open>What may be issued to a credential: the audience is one of its audiences, the scopes are granted.\<close>

definition allowed_scopes :: "token_request \<Rightarrow> service_credential \<Rightarrow> acerror + string list" where
  "allowed_scopes input credential =
     (case DecodeStringList (sc_audiences credential) of
        Inl e \<Rightarrow> Inl e
      | Inr audiences \<Rightarrow>
          if tr_audience input \<notin> set audiences then Inl (CredentialErr ErrInvalidAudience)
          else (case DecodeStringList (sc_scopes credential) of
              Inl e \<Rightarrow> Inl e
            | Inr grantedScopes \<Rightarrow> resolveRequestedScopes grantedScopes (tr_scopes input)))"

definition IssueClientCredentials ::
    "bcrypt_library \<Rightarrow> access_library \<Rightarrow> token_service \<Rightarrow> instant \<Rightarrow> string \<Rightarrow> token_request
      \<Rightarrow> ('l, issued_token) aeff" where
  "IssueClientCredentials bc lib ts now uuid input =
     andThen (require (tr_client_id input \<noteq> '''') (CredentialErr ErrEmptyClientID)) (\<lambda>_.
     andThen (VerifySecret bc (tr_client_id input) (tr_client_secret input)) (\<lambda>credential.
     andThen (lift_result (allowed_scopes input credential)) (\<lambda>resolvedScopes.
     let scopeStr = strings_Join '' '' resolvedScopes in
     case hs_sign lib (ts_signing_key ts) (access_claims_for ts now uuid (tr_audience input) scopeStr credential) of
       None \<Rightarrow> raise (PlainError ''jwt'')
     | Some raw \<Rightarrow>
         andThen (ignoring (MarkUsed (sc_client_id credential) now)) (\<lambda>_.
         return \<lparr>it_access_token = raw, it_token_type = ''Bearer'', it_expires_in = ts_ttl_seconds ts,
           it_scope = scopeStr\<rparr>))))"

text \<open>\<open>jwt.ParseWithClaims\<close> with the options of \<open>ValidateAccessToken\<close>.\<close>

definition parse_access :: "access_library \<Rightarrow> token_service \<Rightarrow> instant \<Rightarrow> string \<Rightarrow> string \<Rightarrow> acerror + access_claims" where
  "parse_access lib ts now expectedAudience raw =
     (case hs_decode lib raw of
        None \<Rightarrow> Inl (PlainError ''token is malformed'')
      | Some (alg, claims) \<Rightarrow>
          if alg \<noteq> ''HS256'' then Inl (PlainError ''token signature is invalid'')
          else if \<not> hs_signature_ok lib raw (ts_signing_key ts) then Inl (PlainError ''token signature is invalid'')
          else if \<not> hs_claims_ok lib now (ts_issuer ts) expectedAudience claims
          then Inl (PlainError ''token has invalid claims'')
          else Inr claims)"

definition ValidateAccessToken ::
    "access_library \<Rightarrow> token_service \<Rightarrow> instant \<Rightarrow> string \<Rightarrow> string \<Rightarrow> ('l, access_claims) aeff" where
  "ValidateAccessToken lib ts now raw expectedAudience =
     andThen (lift_result (parse_access lib ts now
       (if expectedAudience = '''' then ''account-center'' else expectedAudience) raw)) (\<lambda>claims.
     andThen (GetByClientID (at_client_id claims)) (\<lambda>credential.
     andThen (require (sc_client_id credential = at_subject claims \<and> sc_bot_id credential = at_bot_id claims)
       (PlainError ''token has invalid claims'')) (\<lambda>_.
     return claims)))"

text \<open>The answer of the token endpoint to an error: status and code of RFC 6749.\<close>

definition writeTokenError :: "acerror \<Rightarrow> nat \<times> string" where
  "writeTokenError err =
     (if list_ex (\<lambda>e. errors_is err (CredentialErr e))
           [ErrCredentialNotFound, ErrCredentialDisabled, ErrInvalidClientSecret, ErrEmptyClientID]
      then (401, ''invalid_client'')
      else if errors_is err (CredentialErr ErrInvalidAudience) then (400, ''invalid_request'')
      else if errors_is err (CredentialErr ErrInsufficientScope) then (400, ''invalid_scope'')
      else (500, ''server_error''))"

text \<open>The form of the token endpoint, decoded: what \<open>Token\<close> checks before it asks the token service.\<close>

record token_form =
  tf_grant_type :: string
  tf_client_id :: string
  tf_client_secret :: string
  tf_audience :: string
  tf_scope :: string

definition token_form_request :: "token_form \<Rightarrow> (nat \<times> string) + token_request" where
  "token_form_request form =
     (if tf_grant_type form \<noteq> ''client_credentials'' then Inl (400, ''unsupported_grant_type'')
      else if tf_client_id form = '''' \<or> tf_client_secret form = '''' then Inl (400, ''invalid_request'')
      else if tf_audience form = '''' then Inl (400, ''invalid_request'')
      else Inr \<lparr>tr_client_id = tf_client_id form, tr_client_secret = tf_client_secret form,
        tr_audience = tf_audience form, tr_scopes = splitScope (tf_scope form)\<rparr>)"

section \<open>The interceptor\<close>

text \<open>The metadata of a call: \<open>None\<close> without any, else the values of \<open>authorization\<close>.\<close>

definition extractBearerToken :: "string list option \<Rightarrow> acerror + string" where
  "extractBearerToken md = (case md of
       None \<Rightarrow> Inl (StatusErr Unauthenticated ''missing metadata'')
     | Some [] \<Rightarrow> Inl (StatusErr Unauthenticated ''missing authorization header'')
     | Some (value # _) \<Rightarrow>
         let (scheme, token) = cut (CHR '' '') value in
         if CHR '' '' \<notin> set value \<or> to_lower scheme \<noteq> ''bearer''
         then Inl (StatusErr Unauthenticated ''invalid authorization header format'')
         else Inr token)"

definition inactive_credential :: "acerror \<Rightarrow> acerror" where
  "inactive_credential err =
     (if errors_is err (CredentialErr ErrCredentialNotFound) \<or> errors_is err (CredentialErr ErrCredentialDisabled)
      then StatusErr Unauthenticated ''credential is not active''
      else StatusErr Unauthenticated ''invalid access token'')"

definition authenticate ::
    "access_library \<Rightarrow> token_service \<Rightarrow> instant \<Rightarrow> string list option \<Rightarrow> ('l, access_claims) aeff" where
  "authenticate lib ts now md =
     andThen (lift_result (extractBearerToken md)) (\<lambda>token.
     map_error inactive_credential (ValidateAccessToken lib ts now token ''account-center''))"

definition publicMethods :: "string list" where
  "publicMethods = [''/grpc.health.v1.Health/Check'', ''/grpc.health.v1.Health/List'', ''/grpc.health.v1.Health/Watch'']"

text \<open>\<open>Unary\<close> and \<open>Stream\<close>: the handler gets the claims of the context, \<open>None\<close> for a public method.\<close>

definition intercept ::
    "access_library \<Rightarrow> token_service \<Rightarrow> instant \<Rightarrow> string list option \<Rightarrow> string
      \<Rightarrow> (access_claims option \<Rightarrow> ('l, 'a) aeff) \<Rightarrow> ('l, 'a) aeff" where
  "intercept lib ts now md fullMethod handler =
     (if fullMethod \<in> set publicMethods then handler None
      else andThen (authenticate lib ts now md) (\<lambda>claims. handler (Some claims)))"

definition CheckScope :: "access_claims option \<Rightarrow> string \<Rightarrow> bool" where
  "CheckScope claims requiredScope = (case claims of None \<Rightarrow> False | Some c \<Rightarrow> HasScope (Some c) [requiredScope])"

section \<open>What the registry guarantees\<close>

lemma GetByClientID_InrE:
  assumes "GetByClientID i w = (Inr row, w')"
  obtains fs where "live_credential i (db w) = Some row" "sc_status row = ''active''" "i \<noteq> ''''" "w' = w\<lparr>faults := fs\<rparr>"
  using assms unfolding GetByClientID_def by (auto elim!: account_success)

lemma VerifySecret_InrE:
  assumes "VerifySecret lib i secret w = (Inr row, w')"
  obtains fs where "live_credential i (db w) = Some row" "sc_status row = ''active''" "i \<noteq> ''''"
    "bc_compare lib (sc_secret_hash row) secret" "w' = w\<lparr>faults := fs\<rparr>"
proof -
  obtain r v where run: "GetByClientID i w = (r, v)" by (metis surj_pair)
  with assms have "r = Inr row" "v = w'" "bc_compare lib (sc_secret_hash row) secret"
    by (auto simp: VerifySecret_def effect_simps Let_def VerifyClientSecret_def split: sum.splits if_splits)
  with run that show ?thesis by (auto elim!: GetByClientID_InrE)
qed

lemma parse_access_InrE:
  assumes "parse_access lib ts now aud raw = Inr claims"
  obtains "hs_decode lib raw = Some (''HS256'', claims)" "hs_signature_ok lib raw (ts_signing_key ts)"
    "hs_claims_ok lib now (ts_issuer ts) aud claims"
  using assms unfolding parse_access_def by (auto split: option.splits if_splits)

lemma ValidateAccessToken_InrE:
  assumes "ValidateAccessToken lib ts now raw aud w = (Inr claims, w')"
  obtains row fs where "parse_access lib ts now (if aud = '''' then ''account-center'' else aud) raw = Inr claims"
    "live_credential (at_client_id claims) (db w) = Some row" "sc_status row = ''active''"
    "sc_client_id row = at_subject claims" "sc_bot_id row = at_bot_id claims" "w' = w\<lparr>faults := fs\<rparr>"
  using assms unfolding ValidateAccessToken_def
  by (auto elim!: account_success GetByClientID_InrE)

lemma authenticate_InrE:
  assumes "authenticate lib ts now md w = (Inr claims, w')"
  obtains raw row fs where "extractBearerToken md = Inr raw" "parse_access lib ts now ''account-center'' raw = Inr claims"
    "live_credential (at_client_id claims) (db w) = Some row" "sc_status row = ''active''"
    "sc_client_id row = at_subject claims" "sc_bot_id row = at_bot_id claims" "w' = w\<lparr>faults := fs\<rparr>"
  using assms unfolding authenticate_def
  by (auto elim!: account_success ValidateAccessToken_InrE simp: map_error_apply split: sum.splits)

lemma live_credentialD: "live_credential i d = Some c \<Longrightarrow> c \<in> set (ac_credentials d) \<and> sc_client_id c = i \<and> sc_deleted_at c = None"
  unfolding live_credential_def by (auto dest: find_SomeD)

subsection \<open>A disabled credential stays disabled\<close>

definition disabled_credential :: "string \<Rightarrow> account_db \<Rightarrow> bool" where
  "disabled_credential i d \<longleftrightarrow> (\<exists>row. live_credential i d = Some row \<and> sc_status row = ''disabled'')"

lemma live_credential_update:
  assumes "\<And>c. sc_client_id (f c) = sc_client_id c" "\<And>c. sc_deleted_at (f c) = sc_deleted_at c"
  shows "live_credential i (update_credential j f d) = (if i = j then map_option f (live_credential i d) else live_credential i d)"
proof -
  have "live_credential i (update_credential j f d) =
      map_option (\<lambda>r. if sc_client_id r = j \<and> sc_deleted_at r = None then f r else r) (live_credential i d)"
    unfolding live_credential_def update_credential_def by (simp add: find_update_where assms)
  then show ?thesis by (cases "live_credential i d") (auto dest: live_credentialD)
qed

lemma live_credential_insert:
  "live_credential i d = Some c \<Longrightarrow> live_credential i (insert_credential row d) = Some c"
  by (simp add: live_credential_def insert_credential_def find_snoc)

lemma live_credential_bot [simp]: "live_credential i (ensure_bot b d) = live_credential i d"
  by (simp add: live_credential_def ensure_bot_def)

lemma disabled_simps [simp]:
  "disabled_credential i (ensure_bot b d) = disabled_credential i d"
  "disabled_credential i d \<Longrightarrow> disabled_credential i (insert_credential row d)"
  "disabled_credential i (update_credential j (sc_secret_hash_update g) d) = disabled_credential i d"
  "disabled_credential i (update_credential j (sc_last_used_at_update g') d) = disabled_credential i d"
  "disabled_credential i d \<Longrightarrow> i \<noteq> j \<or> s = ''disabled'' \<Longrightarrow>
     disabled_credential i (update_credential j (sc_status_update (\<lambda>_. s)) d)"
  by (auto simp: disabled_credential_def live_credential_update live_credential_insert)

lemma Create_disabled: "keeps (disabled_credential i) (Credentials_Create authority_ok lib random input)"
  unfolding Credentials_Create_def register_credential_def Let_def by (intro keeps_rules bot_change_keeps) simp_all

lemma RotateSecret_disabled: "keeps (disabled_credential i) (RotateSecret lib random j)"
  unfolding RotateSecret_def by (intro keeps_rules bot_change_keeps) simp_all

lemma MarkUsed_disabled: "keeps (disabled_credential i) (MarkUsed j at)"
  unfolding MarkUsed_def by (intro keeps_rules bot_change_keeps) simp_all

lemma SetStatus_disabled:
  assumes "i \<noteq> j \<or> s \<noteq> ''active''"
  shows "keeps (disabled_credential i) (SetStatus j s)"
proof (cases "s = ''active'' \<or> s = ''disabled''")
  case True
  with assms show ?thesis unfolding SetStatus_def by (intro keeps_rules bot_write_keeps) auto
next
  case False
  then show ?thesis by (simp add: SetStatus_def require_def)
qed

lemma reads_disabled: "keeps I (GetByClientID j)" "keeps I (VerifySecret lib j secret)"
  unfolding VerifySecret_def GetByClientID_def Let_def by (intro keeps_rules)+

lemma Issue_disabled: "keeps (disabled_credential i) (IssueClientCredentials bc lib ts now uuid input)"
  unfolding IssueClientCredentials_def Let_def
  by (intro keeps_rules reads_disabled keeps_ignoring MarkUsed_disabled)

text \<open>What clients and administrators do with the registry, other than enabling the credential \<open>i\<close>.\<close>

inductive registry_step :: "string \<Rightarrow> account_db \<Rightarrow> account_db \<Rightarrow> bool" for i where
  "base (w :: unit aworld) = None \<Longrightarrow> registry_step i (db w) (db (snd (Credentials_Create authority_ok lib random input w)))"
| "base (w :: unit aworld) = None \<Longrightarrow> registry_step i (db w) (db (snd (RotateSecret lib random j w)))"
| "base (w :: unit aworld) = None \<Longrightarrow> i \<noteq> j \<or> s \<noteq> ''active'' \<Longrightarrow> registry_step i (db w) (db (snd (SetStatus j s w)))"
| "base (w :: unit aworld) = None \<Longrightarrow> registry_step i (db w) (db (snd (IssueClientCredentials bc jwt ts now uuid req w)))"

lemma keeps_db: "keeps I m \<Longrightarrow> base w = None \<Longrightarrow> I (db w) \<Longrightarrow> I (db (snd (m w)))"
  using keepsD [of I m w] by (simp add: holds_def)

lemma registry_step_disabled:
  assumes "registry_step i d d'" "disabled_credential i d"
  shows "disabled_credential i d'"
  using assms
proof cases
  case (1 w)
  with assms(2) show ?thesis by (simp add: keeps_db [OF Create_disabled])
next
  case (2 w)
  with assms(2) show ?thesis by (simp add: keeps_db [OF RotateSecret_disabled])
next
  case (3 w)
  with assms(2) show ?thesis by (simp add: keeps_db [OF SetStatus_disabled])
next
  case (4 w)
  with assms(2) show ?thesis by (simp add: keeps_db [OF Issue_disabled])
qed

lemma registry_steps_disabled:
  "(registry_step i)\<^sup>*\<^sup>* d d' \<Longrightarrow> disabled_credential i d \<Longrightarrow> disabled_credential i d'"
  by (induction rule: rtranclp_induct) (auto intro: registry_step_disabled)

lemma SetStatus_InrE:
  assumes "SetStatus i s w = (Inr row, w')" "base w = None"
  obtains "live_credential i (db w') = Some row" "sc_status row = s"
  using assms unfolding SetStatus_def
  by (auto elim!: account_success transaction_InrE bot_write_InrE simp: live_credential_update)

text \<open>C17: Disabling a credential is immediate and lasts until somebody enables it: whatever else is done
  with the registry, no call is admitted under a token of the client, however long it would still be
  valid, and the client gets no new token.\<close>

theorem disabled_client_stays_out:
  assumes disabled: "SetStatus i ''disabled'' w = (Inr row, w1)" "base w = None"
    and later: "(registry_step i)\<^sup>*\<^sup>* (db w1) (db v)"
    and call: "extractBearerToken md = Inr raw" "parse_access lib ts now ''account-center'' raw = Inr claims"
      "at_client_id claims = i" "fullMethod \<notin> set publicMethods" "tr_client_id req = i"
  shows "(\<exists>e. fst (intercept lib ts now md fullMethod handler v) = Inl e) \<and>
    (\<exists>e. fst (IssueClientCredentials bc lib' ts' now' uuid req v) = Inl e)"
proof -
  have "disabled_credential i (db w1)"
    using disabled by (auto elim!: SetStatus_InrE simp: disabled_credential_def)
  with later have out: "disabled_credential i (db v)" by (rule registry_steps_disabled)
  have no_call: "fst (authenticate lib ts now md v) \<noteq> Inr c" for c
  proof
    assume "fst (authenticate lib ts now md v) = Inr c"
    then have "authenticate lib ts now md v = (Inr c, snd (authenticate lib ts now md v))" by (simp add: prod_eq_iff)
    then show False using out call(1,2,3) by (auto simp: disabled_credential_def elim!: authenticate_InrE)
  qed
  have no_secret: "fst (VerifySecret bc i secret v) \<noteq> Inr c" for secret c
  proof
    assume "fst (VerifySecret bc i secret v) = Inr c"
    then have "VerifySecret bc i secret v = (Inr c, snd (VerifySecret bc i secret v))" by (simp add: prod_eq_iff)
    then show False using out by (auto simp: disabled_credential_def elim!: VerifySecret_InrE)
  qed
  obtain e v1 where "authenticate lib ts now md v = (Inl e, v1)"
    using no_call by (metis sum.exhaust surjective_pairing)
  moreover obtain e' v2 where "VerifySecret bc i (tr_client_secret req) v = (Inl e', v2)"
    using no_secret by (metis sum.exhaust surjective_pairing)
  ultimately show ?thesis
    using call(4,5) by (auto simp: intercept_def IssueClientCredentials_def effect_simps)
qed

subsection \<open>What a token carries\<close>

lemma MarkUsed_live:
  assumes "live_credential i (db w) = Some row"
  shows "\<exists>row'. live_credential i (db (snd (ignoring (MarkUsed j at) w))) = Some row' \<and>
    sc_status row' = sc_status row \<and> sc_bot_id row' = sc_bot_id row \<and> sc_client_id row' = sc_client_id row"
proof -
  obtain r v where run: "MarkUsed j at w = (r, v)" by (metis surj_pair)
  have "v = w \<or> (\<exists>fs. v = w\<lparr>faults := fs\<rparr>) \<or> (\<exists>fs. v = w\<lparr>faults := fs, db := update_credential j (sc_last_used_at_update (\<lambda>_. Some at)) (db w)\<rparr>)"
    using run by (auto simp: MarkUsed_def bot_change_def bot_write_def statement_def split: prod.splits if_splits option.splits)
  then show ?thesis
    using run assms by (auto simp: ignoring_def effect_simps live_credential_update)
qed

text \<open>The documented behaviour of the JWT library the round trip relies on: a token signed with HS256
  under a key decodes to its claims, its signature verifies under that key, and claims of the expected
  issuer and audience are accepted until they expire.\<close>

definition access_library_law :: "access_library \<Rightarrow> bool" where
  "access_library_law lib \<longleftrightarrow>
     (\<forall>key c raw. hs_sign lib key c = Some raw \<longrightarrow> hs_decode lib raw = Some (''HS256'', c) \<and> hs_signature_ok lib raw key) \<and>
     (\<forall>now iss aud c e. at_issuer c = iss \<and> aud \<in> set (at_audience c) \<and> at_expires_at c = Some e \<and> now < e \<longrightarrow>
        hs_claims_ok lib now iss aud c)"

lemma access_library_lawD:
  assumes "access_library_law lib"
  shows "hs_sign lib key c = Some raw \<Longrightarrow> hs_decode lib raw = Some (''HS256'', c) \<and> hs_signature_ok lib raw key"
    "at_issuer c = iss \<Longrightarrow> aud \<in> set (at_audience c) \<Longrightarrow> at_expires_at c = Some e \<Longrightarrow> t < e \<Longrightarrow> hs_claims_ok lib t iss aud c"
  using assms unfolding access_library_law_def by blast+

lemma resolveRequestedScopes_subset:
  "resolveRequestedScopes granted requested = Inr scopes \<Longrightarrow> set scopes \<subseteq> set granted"
  by (auto simp: resolveRequestedScopes_def list_all_iff split: if_splits)

lemma IssueClientCredentials_InrE:
  assumes "IssueClientCredentials bc lib ts now uuid req w = (Inr tok, w')"
  obtains row fs scopes where "live_credential (tr_client_id req) (db w) = Some row" "sc_status row = ''active''"
    "tr_client_id req \<noteq> ''''" "bc_compare bc (sc_secret_hash row) (tr_client_secret req)"
    "allowed_scopes req row = Inr scopes"
    "hs_sign lib (ts_signing_key ts) (access_claims_for ts now uuid (tr_audience req) (strings_Join '' '' scopes) row)
       = Some (it_access_token tok)"
    "it_scope tok = strings_Join '' '' scopes"
    "w' = snd (ignoring (MarkUsed (sc_client_id row) now) (w\<lparr>faults := fs\<rparr>))"
proof -
  from assms show ?thesis unfolding IssueClientCredentials_def
    by (elim andThen_InrE VerifySecret_InrE lift_result_InrE require_InrE)
      (auto simp: Let_def effect_simps ignoring_def split: option.splits intro: that)
qed

lemma extractBearerToken_bearer [simp]: "extractBearerToken (Some [''Bearer '' @ raw]) = Inr raw"
  by (simp add: extractBearerToken_def cut_def to_lower_def) code_simp

lemma allowed_scopes_InrD:
  "allowed_scopes req row = Inr scopes \<Longrightarrow> sc_scopes row = Some granted \<Longrightarrow> set scopes \<subseteq> set granted"
  by (auto simp: allowed_scopes_def DecodeStringList_def dest: resolveRequestedScopes_subset split: option.splits sum.splits if_splits)

lemma admitted_again:
  assumes "live_credential i (db w) = Some row" "sc_status row = ''active''" "i \<noteq> ''''" "faults w = []"
    and "extractBearerToken md = Inr raw" "parse_access lib ts now ''account-center'' raw = Inr claims"
    and "at_client_id claims = i" "at_subject claims = sc_client_id row" "at_bot_id claims = sc_bot_id row"
  shows "authenticate lib ts now md w = (Inr claims, w)"
  using assms by (simp add: authenticate_def ValidateAccessToken_def GetByClientID_def effect_simps)


section \<open>A registry for the examples\<close>

definition sample_client :: service_credential where
  "sample_client = \<lparr>sc_client_id = ''bot-a'', sc_consumer_epoch = 1, sc_bot_id = ''bot'', sc_display_name = ''Bot A'',
     sc_secret_hash = ''h'', sc_audiences = Some [''account-center''], sc_scopes = Some [''bot.access.read''],
     sc_status = ''active'', sc_owner_user_id = 7, sc_description = '''', sc_last_used_at = None, sc_deleted_at = None\<rparr>"

definition sample_registry :: account_db where
  "sample_registry = empty_account_db\<lparr>
     ac_users := [\<lparr>usr_id = 7, usr_user_ref = ''u7'', usr_owner_epoch = 1, usr_deleted_at = None\<rparr>],
     ac_bots := [service_bot ''bot'' ''urn:paigram:entry:bot'' 7], ac_credentials := [sample_client]\<rparr>"

definition sample_bcrypt :: bcrypt_library where
  "sample_bcrypt = \<lparr>bc_generate = Some, bc_compare = (\<lambda>hash secret. hash = secret)\<rparr>"

definition sample_tokens :: token_service where
  "sample_tokens = \<lparr>ts_issuer = ''account-center'', ts_ttl_seconds = 3600, ts_signing_key = replicate 32 CHR ''k''\<rparr>"

definition sample_request :: token_request where
  "sample_request = \<lparr>tr_client_id = ''bot-a'', tr_client_secret = ''h'', tr_audience = ''account-center'', tr_scopes = []\<rparr>"

definition sample_access :: access_claims where
  "sample_access = access_claims_for sample_tokens 0 ''u1'' ''account-center'' ''bot.access.read'' sample_client"

definition sample_jwt :: access_library where
  "sample_jwt = \<lparr>hs_sign = (\<lambda>key c. if key = ts_signing_key sample_tokens \<and> c = sample_access then Some ''t'' else None),
     hs_decode = (\<lambda>raw. if raw = ''t'' then Some (''HS256'', sample_access) else None),
     hs_signature_ok = (\<lambda>raw key. key = ts_signing_key sample_tokens),
     hs_claims_ok = (\<lambda>now iss aud c. at_issuer c = iss \<and> aud \<in> set (at_audience c) \<and>
       (case at_expires_at c of None \<Rightarrow> False | Some e \<Rightarrow> now < e))\<rparr>"

lemmas sample_registry_defs = sample_registry_def sample_client_def empty_account_db_def service_bot_def

definition disabled_registry :: account_db where
  "disabled_registry = update_credential ''bot-a'' (sc_status_update (\<lambda>_. ''disabled'')) sample_registry"

definition used_registry :: account_db where
  "used_registry = update_credential ''bot-a'' (sc_last_used_at_update (\<lambda>_. Some 0)) sample_registry"

lemmas registry_ok_defs = bot_violation_def bot_constraints_def disabled_registry_def used_registry_def
  update_credential_def sample_registry_defs unique_on_def unique_where_def has_user_def has_bot_def epoch_ok_def
  bigint_ok_def

lemma sample_registry_ok: "bot_violation sample_registry = None"
  "bot_violation disabled_registry = None" "bot_violation used_registry = None"
  by (simp_all add: registry_ok_defs)

lemma sample_live: "live_credential ''bot-a'' sample_registry = Some sample_client"
  by code_simp

lemma disabled_live: "live_credential ''bot-a'' disabled_registry = Some (sample_client\<lparr>sc_status := ''disabled''\<rparr>)"
  by (simp add: disabled_registry_def live_credential_update sample_live)

lemma used_live: "live_credential ''bot-a'' used_registry = Some (sample_client\<lparr>sc_last_used_at := Some 0\<rparr>)"
  by (simp add: used_registry_def live_credential_update sample_live)

lemma sample_disabled: "SetStatus ''bot-a'' ''disabled'' (account_world sample_registry) =
    (Inr (sample_client\<lparr>sc_status := ''disabled''\<rparr>),
     account_world disabled_registry)"
  by (simp add: SetStatus_def effect_simps transaction_def account_world_def sample_registry_ok sample_live
      disabled_live flip: disabled_registry_def)

lemma sample_access_parse: "now < 3600 * second \<Longrightarrow> parse_access sample_jwt sample_tokens now ''account-center'' ''t'' = Inr sample_access"
  by (simp add: parse_access_def sample_jwt_def)
    (simp add: sample_access_def access_claims_for_def sample_tokens_def numeric_date_def)

lemma disabled_client_stays_out_witness:
  "(\<exists>e. fst (intercept sample_jwt sample_tokens 5 (Some [''Bearer '' @ ''t'']) ''/v1.Bots/Get'' (\<lambda>_. return ())
       (account_world disabled_registry :: unit aworld)) = Inl e) \<and>
   (\<exists>e. fst (IssueClientCredentials sample_bcrypt sample_jwt sample_tokens 5 ''u2'' sample_request
       (account_world disabled_registry :: unit aworld)) = Inl e)"
  by (rule disabled_client_stays_out [OF sample_disabled _ _ extractBearerToken_bearer sample_access_parse])
    (simp_all add: account_world_def duration_defs sample_access_def access_claims_for_def sample_client_def
      publicMethods_def sample_request_def)

lemma sample_jwt_law: "access_library_law sample_jwt"
  by (auto simp: access_library_law_def sample_jwt_def split: if_splits)

lemma sample_issue: "IssueClientCredentials sample_bcrypt sample_jwt sample_tokens 0 ''u1'' sample_request (account_world sample_registry) =
  (Inr \<lparr>it_access_token = ''t'', it_token_type = ''Bearer'', it_expires_in = 3600, it_scope = ''bot.access.read''\<rparr>,
   account_world used_registry)"
proof -
  have v: "VerifySecret sample_bcrypt ''bot-a'' ''h'' (account_world sample_registry) = (Inr sample_client, account_world sample_registry)"
    by (simp add: VerifySecret_def GetByClientID_def effect_simps account_world_def sample_live Let_def VerifyClientSecret_def
        sample_bcrypt_def) (simp add: sample_client_def)
  have a: "allowed_scopes sample_request sample_client = Inr [''bot.access.read'']"
    by (simp add: allowed_scopes_def sample_request_def sample_client_def DecodeStringList_def resolveRequestedScopes_def)
  have s: "hs_sign sample_jwt (ts_signing_key sample_tokens)
      (access_claims_for sample_tokens 0 ''u1'' ''account-center'' ''bot.access.read'' sample_client) = Some ''t''"
    by (simp add: sample_jwt_def sample_access_def)
  have m: "ignoring (MarkUsed ''bot-a'' 0) (account_world sample_registry) =
      (Inr (), account_world used_registry)"
    by (simp add: ignoring_def MarkUsed_def effect_simps account_world_def sample_registry_ok flip: used_registry_def)
  have "tr_client_id sample_request = ''bot-a''" "tr_client_secret sample_request = ''h''"
    "tr_audience sample_request = ''account-center''" "sc_client_id sample_client = ''bot-a''" "ts_ttl_seconds sample_tokens = 3600"
    by (simp_all add: sample_request_def sample_client_def sample_tokens_def)
  then show ?thesis by (simp add: IssueClientCredentials_def effect_simps v a s m Let_def)
qed


end
