(* ===== verification/Account_Identity.thy ===== *)
theory Account_Identity
  imports Account_Grants Account_Credentials
begin

text \<open>
  Entry identities: which account of a chat platform belongs to which user.
  \<open>service/botlink/service.go\<close> links and unlinks them, \<open>service/entryidentity/service.go\<close> runs the
  challenges by which a user approves a link, \<open>service/entryidentity/unlink.go\<close> the unlink operations,
  which raise the user's entry epoch and withdraw the bot's rights.  The random bytes of a
  challenge, the UUIDs, SHA-256 and the resolution of URLs are arguments.  The IP address, the user
  agent and the external name of an audit record are left out.
\<close>

section \<open>Links\<close>

record link_input =
  li_bot_id :: string
  li_issuer :: string
  li_user_id :: nat
  li_external_user_id :: string
  li_external_username :: "string option"

definition active_bot :: "string \<Rightarrow> account_db \<Rightarrow> logical_bot option" where
  "active_bot i d = find (\<lambda>b. lb_id b = i \<and> lb_status b = ''ACTIVE'' \<and> lb_deleted_at b = None) (ac_bots d)"

definition wrapped :: "string \<Rightarrow> ('l, 'a) aeff \<Rightarrow> ('l, 'a) aeff" where
  "wrapped text m = map_error (\<lambda>e. WrappedErr e text) m"

definition resolveRegisteredIssuer :: "string \<Rightarrow> string \<Rightarrow> ('l, string) aeff" where
  "resolveRegisteredIssuer botID presentedIssuer =
     andThen (wrapped ''botlink: load registered entry issuer'' (take_row GormRecordNotFound (active_bot botID))) (\<lambda>b.
     let issuer = trim_space (lb_entry_issuer b); presented = trim_space presentedIssuer in
     andThen (require (issuer \<noteq> '''') (PlainError ''botlink: registered entry issuer is empty'')) (\<lambda>_.
     andThen (require (presented = '''' \<or> presented = issuer) (LinkErr ErrEntryIssuerMismatch)) (\<lambda>_.
     return issuer)))"

definition identity_of_subject :: "string \<Rightarrow> string \<Rightarrow> account_db \<Rightarrow> bot_identity option" where
  "identity_of_subject issuer subject d =
     find (\<lambda>i. live_identity i \<and> bid_issuer i = issuer \<and> bid_external_user_id i = subject) (ac_identities d)"

definition identity_of_user :: "nat \<Rightarrow> string \<Rightarrow> account_db \<Rightarrow> bot_identity option" where
  "identity_of_user user issuer d =
     find (\<lambda>i. live_identity i \<and> bid_user_id i = user \<and> bid_issuer i = issuer) (ac_identities d)"

text \<open>Unlink operations of the user and bot with a grant whose platform has not confirmed yet.\<close>

definition pending_unlinks :: "nat \<Rightarrow> string \<Rightarrow> account_db \<Rightarrow> nat" where
  "pending_unlinks user botID d = count_where (\<lambda>o1. uo_user_id o1 = user \<and> uo_bot_id o1 = botID \<and>
     uo_state o1 = UnlinkPending \<and>
     list_ex (\<lambda>t. ut_operation_id t = uo_operation_id o1 \<and> ut_confirmed_at t = None) (ac_unlink_targets d)) (ac_unlinks d)"

text \<open>\<open>COALESCE(MAX(entry_epoch), 1)\<close> over the user's identities, deleted ones included.\<close>

definition max_entry_epoch :: "nat \<Rightarrow> account_db \<Rightarrow> u64" where
  "max_entry_epoch user d = (let mine = filter (\<lambda>i. bid_user_id i = user) (ac_identities d) in
     if mine = [] then 1 else Max (set (map bid_entry_epoch mine)))"

definition set_identities ::
    "(bot_identity \<Rightarrow> bool) \<Rightarrow> (bot_identity \<Rightarrow> bot_identity) \<Rightarrow> account_db \<Rightarrow> account_db" where
  "set_identities p f d = d\<lparr>ac_identities := update_where p f (ac_identities d)\<rparr>"

text \<open>\<open>ON CONFLICT DO NOTHING\<close>: whether a row was inserted, and which.\<close>

definition identity_conflict :: "bot_identity \<Rightarrow> account_db \<Rightarrow> bool" where
  "identity_conflict row d \<longleftrightarrow> list_ex (\<lambda>i. bid_entry_identity_ref i = bid_entry_identity_ref row \<or>
     (live_identity i \<and> bid_issuer i = bid_issuer row \<and>
        (bid_external_user_id i = bid_external_user_id row \<or> bid_user_id i = bid_user_id row))) (ac_identities d)"

definition insert_identity :: "bot_identity \<Rightarrow> account_db \<Rightarrow> bot_identity option \<times> account_db" where
  "insert_identity row d =
     (if identity_conflict row d then (None, d)
      else let stored = row\<lparr>bid_id := ac_next_identity_id d\<rparr> in
        (Some stored, d\<lparr>ac_identities := ac_identities d @ [stored], ac_next_identity_id := ac_next_identity_id d + 1\<rparr>))"

definition writeAudit :: "nat \<Rightarrow> string \<Rightarrow> string \<Rightarrow> string \<Rightarrow> string \<Rightarrow> ('l, unit) aeff" where
  "writeAudit user action botID issuer subject = wrapped ''botlink: insert audit''
     (bot_change (\<lambda>d. d\<lparr>ac_audit_log := ac_audit_log d @ [\<lparr>al_user_id = user, al_action = action,
        al_bot_id = botID, al_issuer = trim_space issuer, al_external_user_id = subject\<rparr>]\<rparr>))"

text \<open>The subject is linked already: to this user, whose name for it may have changed, or to another.\<close>

definition link_existing :: "link_input \<Rightarrow> bot_identity \<Rightarrow> ('l, bot_identity) aeff" where
  "link_existing input existing =
     (if bid_user_id existing \<noteq> li_user_id input then raise (LinkErr ErrTelegramAlreadyLinkedToOther)
      else case li_external_username input of
        None \<Rightarrow> return existing
      | Some name \<Rightarrow>
          if bid_external_username existing = Some name then return existing
          else andThen (wrapped ''botlink: refresh username'' (bot_change (set_identities
            (\<lambda>i. live_identity i \<and> bid_id i = bid_id existing) (bid_external_username_update (\<lambda>_. Some name))))) (\<lambda>_.
          return (existing\<lparr>bid_external_username := Some name\<rparr>)))"

definition fresh_identity :: "link_input \<Rightarrow> string \<Rightarrow> string \<Rightarrow> u64 \<Rightarrow> instant \<Rightarrow> bot_identity" where
  "fresh_identity input issuer ref epoch now = \<lparr>bid_id = 0, bid_entry_identity_ref = ''entry_'' @ ref,
     bid_entry_epoch = (if epoch = 0 then 1 else epoch), bid_user_id = li_user_id input, bid_bot_id = li_bot_id input,
     bid_issuer = issuer, bid_external_user_id = li_external_user_id input,
     bid_external_username = li_external_username input, bid_linked_at = now, bid_deleted_at = None\<rparr>"

text \<open>Another transaction was faster.\<close>

definition link_winner :: "link_input \<Rightarrow> string \<Rightarrow> ('l, bot_identity) aeff" where
  "link_winner input issuer =
     or_else (take_row GormRecordNotFound (identity_of_subject issuer (li_external_user_id input)))
       (\<lambda>_. or_else (take_row GormRecordNotFound (identity_of_user (li_user_id input) issuer))
          (\<lambda>_. raise (PlainError ''botlink: conflict winner could not be resolved''))
          (\<lambda>_. raise (LinkErr ErrAlreadyLinked)))
       (\<lambda>winner. if bid_user_id winner = li_user_id input then return winner
          else raise (LinkErr ErrTelegramAlreadyLinkedToOther))"

definition link_fresh :: "link_input \<Rightarrow> string \<Rightarrow> string \<Rightarrow> instant \<Rightarrow> ('l, bot_identity) aeff" where
  "link_fresh input issuer ref now =
     andThen (wrapped ''botlink: lookup by user+bot'' (aquery (identity_of_user (li_user_id input) issuer))) (\<lambda>conflict.
     andThen (require (conflict = None) (LinkErr ErrAlreadyLinked)) (\<lambda>_.
     andThen (wrapped ''botlink: derive entry epoch'' (aquery (max_entry_epoch (li_user_id input)))) (\<lambda>epoch.
     andThen (wrapped ''botlink: insert'' (bot_write (insert_identity (fresh_identity input issuer ref epoch now)))) (\<lambda>inserted.
     case inserted of
       None \<Rightarrow> link_winner input issuer
     | Some row \<Rightarrow>
         andThen (writeAudit (li_user_id input) ''telegram_link_created'' (li_bot_id input) issuer (li_external_user_id input))
           (\<lambda>_. return row)))))"

definition UpsertLinkTx :: "string \<Rightarrow> instant \<Rightarrow> link_input \<Rightarrow> ('l, bot_identity) aeff" where
  "UpsertLinkTx ref now input =
     andThen (require (li_bot_id input \<noteq> '''' \<and> li_user_id input \<noteq> 0 \<and> li_external_user_id input \<noteq> '''')
       (PlainError ''botlink: BotID, UserID, ExternalUserID required'')) (\<lambda>_.
     andThen (wrapped ''botlink: lock user'' (take_row GormRecordNotFound (live_user (li_user_id input)))) (\<lambda>_.
     andThen (resolveRegisteredIssuer (li_bot_id input) (li_issuer input)) (\<lambda>issuer.
     andThen (wrapped ''botlink: check pending unlink'' (aquery (pending_unlinks (li_user_id input) (li_bot_id input)))) (\<lambda>pending.
     andThen (require (pending = 0) (LinkErr Botlink_ErrUnlinkPending)) (\<lambda>_.
     andThen (wrapped ''botlink: lookup by bot+ext'' (aquery (identity_of_subject issuer (li_external_user_id input)))) (\<lambda>found.
     case found of
       Some existing \<Rightarrow> link_existing input existing
     | None \<Rightarrow> link_fresh input issuer ref now))))))"

definition UpsertLink :: "string \<Rightarrow> instant \<Rightarrow> link_input \<Rightarrow> ('l, bot_identity) aeff" where
  "UpsertLink ref now input = db_transaction (UpsertLinkTx ref now input)"

definition ListForUser :: "nat \<Rightarrow> ('l, bot_identity list) aeff" where
  "ListForUser user = wrapped ''botlink: list'' (aquery (\<lambda>d.
     sort_key (\<lambda>i. - bid_linked_at i) (filter (\<lambda>i. live_identity i \<and> bid_user_id i = user) (ac_identities d))))"

definition identity_of_bot :: "nat \<Rightarrow> string \<Rightarrow> account_db \<Rightarrow> bot_identity option" where
  "identity_of_bot user botID d =
     find (\<lambda>i. live_identity i \<and> bid_user_id i = user \<and> bid_bot_id i = botID) (ac_identities d)"

definition delete_identity :: "bot_identity \<Rightarrow> instant \<Rightarrow> account_db \<Rightarrow> account_db" where
  "delete_identity row now = set_identities (\<lambda>i. live_identity i \<and> bid_id i = bid_id row) (bid_deleted_at_update (\<lambda>_. Some now))"

definition UnlinkTx :: "instant \<Rightarrow> nat \<Rightarrow> string \<Rightarrow> ('l, unit) aeff" where
  "UnlinkTx now user botID =
     andThen (wrapped ''botlink: lookup for delete'' (aquery (identity_of_bot user botID))) (\<lambda>found. case found of
       None \<Rightarrow> raise (LinkErr Botlink_ErrBotIdentityNotFound)
     | Some row \<Rightarrow>
         andThen (wrapped ''botlink: delete'' (bot_change (delete_identity row now))) (\<lambda>_.
         writeAudit user ''telegram_link_revoked'' botID (bid_issuer row) (bid_external_user_id row)))"

definition Botlink_Unlink :: "instant \<Rightarrow> nat \<Rightarrow> string \<Rightarrow> ('l, unit) aeff" where
  "Botlink_Unlink now user botID = db_transaction (UnlinkTx now user botID)"

section \<open>Challenges\<close>

definition maxPendingChallenges :: nat where "maxPendingChallenges = 100"
definition defaultChallengeTTL :: duration where "defaultChallengeTTL = 5 * minute"
definition challengeEntropyBytes :: nat where "challengeEntropyBytes = 32"

text \<open>The configured service; \<open>en_resolve base fragment\<close> is the URL of the approval page under the base
  URL of the web client with the fragment, \<open>None\<close> when the base is no absolute URL of http or https
  with a host; \<open>en_sha256\<close> and \<open>en_parse_uuid\<close> (the canonical text of a UUID) are library functions.\<close>

record entry_service =
  en_base_url :: string
  en_ttl :: duration
  en_resolve :: "string \<Rightarrow> string \<Rightarrow> string option"
  en_sha256 :: "string \<Rightarrow> string"
  en_parse_uuid :: "string \<Rightarrow> string option"

definition NewEntryService :: "entry_service \<Rightarrow> entry_service" where
  "NewEntryService cfg = cfg\<lparr>en_base_url := trim_space (en_base_url cfg),
     en_ttl := (if en_ttl cfg \<le> 0 then defaultChallengeTTL else en_ttl cfg)\<rparr>"

record start_input =
  si_consumer :: string
  si_bot_id :: string
  si_external_subject :: string
  si_external_username :: string

record challenge_view =
  vw_issuer :: string
  vw_masked_subject :: string
  vw_bot_id :: string
  vw_bot_display_name :: string
  vw_expires_at :: instant

definition maskSubject :: "string \<Rightarrow> string" where
  "maskSubject subject = (let rs = map rune_text (runes subject); n = length rs in
     if n = 0 then '''' else if n = 1 then ''*'' else if n = 2 then hd rs @ ''*''
     else let visible = (if 5 \<le> n then 2 else 1) in
       concat (take visible rs) @ replicate (n - visible * 2) CHR ''*'' @ concat (drop (n - visible) rs))"

definition hashChallengeBytes :: "entry_service \<Rightarrow> string \<Rightarrow> string" where
  "hashChallengeBytes s raw = hex_encode (en_sha256 s raw)"

definition challengeHash :: "entry_service \<Rightarrow> string \<Rightarrow> string option" where
  "challengeHash s token = (case base64url_decode token of
       None \<Rightarrow> None
     | Some raw \<Rightarrow> if length raw \<noteq> challengeEntropyBytes then None else Some (hashChallengeBytes s raw))"

definition buildApprovalURL :: "entry_service \<Rightarrow> string \<Rightarrow> acerror + string" where
  "buildApprovalURL s token = (case en_resolve s (en_base_url s) (''challenge='' @ token) of
       None \<Rightarrow> Inl (EntryErr ErrInvalidInput) | Some u \<Rightarrow> Inr u)"

definition principal_credential :: "string \<Rightarrow> string \<Rightarrow> account_db \<Rightarrow> service_credential option" where
  "principal_credential consumer botID d = find (\<lambda>c. sc_client_id c = consumer \<and> sc_bot_id c = botID \<and>
     sc_status c = ''active'' \<and> sc_deleted_at c = None) (ac_credentials d)"

definition find_challenge :: "string \<Rightarrow> account_db \<Rightarrow> link_challenge option" where
  "find_challenge h d = find (\<lambda>c. lc_challenge_hash c = h) (ac_challenges d)"

definition set_challenges ::
    "(link_challenge \<Rightarrow> bool) \<Rightarrow> (link_challenge \<Rightarrow> link_challenge) \<Rightarrow> account_db \<Rightarrow> account_db" where
  "set_challenges p f d = d\<lparr>ac_challenges := update_where p f (ac_challenges d)\<rparr>"

definition open_challenges :: "string \<Rightarrow> instant \<Rightarrow> account_db \<Rightarrow> nat" where
  "open_challenges consumer now d = count_where (\<lambda>c. lc_consumer c = consumer \<and> lc_status c = ChallengePending \<and>
     now < lc_expires_at c) (ac_challenges d)"

definition new_challenge :: "entry_service \<Rightarrow> string \<Rightarrow> instant \<Rightarrow> start_input \<Rightarrow> string \<Rightarrow> link_challenge" where
  "new_challenge s bytes now input issuer = \<lparr>lc_challenge_hash = hashChallengeBytes s bytes,
     lc_consumer = si_consumer input, lc_bot_id = si_bot_id input, lc_issuer = issuer,
     lc_external_subject = si_external_subject input,
     lc_external_username = (if si_external_username input = '''' then None else Some (si_external_username input)),
     lc_status = ChallengePending, lc_expires_at = now + en_ttl s, lc_approved_user_id = None, lc_consumed_at = None\<rparr>"

definition start_valid :: "start_input \<Rightarrow> bool" where
  "start_valid input \<longleftrightarrow> trim_space (si_consumer input) \<noteq> '''' \<and> trim_space (si_bot_id input) \<noteq> '''' \<and>
     trim_space (si_external_subject input) \<noteq> '''' \<and> RuneCountInString (si_external_subject input) \<le> 191 \<and>
     RuneCountInString (si_external_username input) \<le> 255"

definition insert_challenge :: "link_challenge \<Rightarrow> account_db \<Rightarrow> account_db" where
  "insert_challenge c d = d\<lparr>ac_challenges := ac_challenges d @ [c]\<rparr>"

definition start_body ::
    "entry_service \<Rightarrow> string \<Rightarrow> instant \<Rightarrow> start_input \<Rightarrow> ('l, logical_bot \<times> link_challenge) aeff" where
  "start_body s bytes now input =
     andThen (map_error (\<lambda>_. EntryErr ErrPrincipalMismatch) (take_row GormRecordNotFound
       (principal_credential (si_consumer input) (si_bot_id input)))) (\<lambda>_.
     andThen (take_row (EntryErr ErrNamespaceUnavailable) (active_bot (si_bot_id input))) (\<lambda>b.
     andThen (require (trim_space (lb_entry_issuer b) \<noteq> '''') (EntryErr ErrNamespaceUnavailable)) (\<lambda>_.
     andThen (aquery (open_challenges (si_consumer input) now)) (\<lambda>pending.
     andThen (require (pending < maxPendingChallenges) (EntryErr ErrChallengeCapacity)) (\<lambda>_.
     let challenge = new_challenge s bytes now input (lb_entry_issuer b) in
     andThen (bot_change (insert_challenge challenge)) (\<lambda>_.
     return (b, challenge)))))))"

definition view_of :: "link_challenge \<Rightarrow> logical_bot \<Rightarrow> challenge_view" where
  "view_of c b = \<lparr>vw_issuer = lc_issuer c, vw_masked_subject = maskSubject (lc_external_subject c),
     vw_bot_id = lc_bot_id c, vw_bot_display_name = lb_display_name b, vw_expires_at = lc_expires_at c\<rparr>"

text \<open>\<open>Start\<close>: a challenge whose approval page cannot be named is taken back.\<close>

definition StartLink ::
    "entry_service \<Rightarrow> string option \<Rightarrow> instant \<Rightarrow> start_input \<Rightarrow> ('l, challenge_view \<times> string) aeff" where
  "StartLink s random now input =
     andThen (require (start_valid input) (EntryErr ErrInvalidInput)) (\<lambda>_. case random of
       None \<Rightarrow> raise (PlainError ''crypto/rand'')
     | Some bytes \<Rightarrow>
         andThen (db_transaction (start_body s bytes now input)) (\<lambda>(b, challenge).
         case buildApprovalURL s (base64url_encode bytes) of
           Inl e \<Rightarrow> andThen (ignoring (bot_change (\<lambda>d. d\<lparr>ac_challenges :=
             delete_where (\<lambda>c. lc_challenge_hash c = lc_challenge_hash challenge) (ac_challenges d)\<rparr>))) (\<lambda>_. raise e)
         | Inr approval \<Rightarrow> return (view_of challenge b, approval)))"

definition expire_challenge :: "string \<Rightarrow> instant \<Rightarrow> account_db \<Rightarrow> account_db" where
  "expire_challenge h now = set_challenges (\<lambda>c. lc_challenge_hash c = h)
     (\<lambda>c. c\<lparr>lc_status := ChallengeExpired, lc_consumed_at := Some now\<rparr>)"

definition loadPending :: "entry_service \<Rightarrow> instant \<Rightarrow> string \<Rightarrow> ('l, link_challenge \<times> logical_bot) aeff" where
  "loadPending s now token =
     (case challengeHash s token of
        None \<Rightarrow> raise (EntryErr ErrChallengeNotFound)
      | Some h \<Rightarrow>
          andThen (take_row (EntryErr ErrChallengeNotFound) (find_challenge h)) (\<lambda>challenge.
          andThen (require (lc_status challenge = ChallengePending) (EntryErr ErrChallengeConsumed)) (\<lambda>_.
          if lc_expires_at challenge \<le> now then
            andThen (bot_change (expire_challenge h now)) (\<lambda>_. raise (EntryErr ErrChallengeExpired))
          else
            andThen (take_row (EntryErr ErrPrincipalMismatch)
              (principal_credential (lc_consumer challenge) (lc_bot_id challenge))) (\<lambda>_.
            andThen (take_row (EntryErr ErrNamespaceUnavailable) (active_bot (lc_bot_id challenge))) (\<lambda>b.
            andThen (require (trim_space (lb_entry_issuer b) \<noteq> '''' \<and> lb_entry_issuer b = lc_issuer challenge)
              (EntryErr ErrNamespaceUnavailable)) (\<lambda>_.
            return (challenge, b)))))))"

definition PreviewLink :: "entry_service \<Rightarrow> instant \<Rightarrow> string \<Rightarrow> ('l, challenge_view) aeff" where
  "PreviewLink s now token = andThen (loadPending s now token) (\<lambda>(challenge, b). return (view_of challenge b))"

definition consumeChallenge :: "string \<Rightarrow> challenge_status \<Rightarrow> nat \<Rightarrow> instant \<Rightarrow> ('l, unit) aeff" where
  "consumeChallenge h status user now =
     (let p = \<lambda>c. lc_challenge_hash c = h \<and> lc_status c = ChallengePending in
      andThen (bot_write (\<lambda>d. (count_where p (ac_challenges d), set_challenges p
        (\<lambda>c. c\<lparr>lc_status := status, lc_approved_user_id := Some user, lc_consumed_at := Some now\<rparr>) d))) (\<lambda>affected.
      require (affected = 1) (EntryErr ErrChallengeConsumed)))"

definition alignEntryEpoch :: "bot_identity \<Rightarrow> ('l, bot_identity) aeff" where
  "alignEntryEpoch identity =
     andThen (aquery (max_entry_epoch (bid_user_id identity))) (\<lambda>maximum.
     if maximum \<le> bid_entry_epoch identity then return identity
     else andThen (bot_change (set_identities (\<lambda>i. bid_id i = bid_id identity) (bid_entry_epoch_update (\<lambda>_. maximum)))) (\<lambda>_.
       return (identity\<lparr>bid_entry_epoch := maximum\<rparr>)))"

text \<open>What the transaction of \<open>Approve\<close> leaves to the caller: the identity, or an outcome reported after
  the commit.\<close>

definition settle_link ::
    "instant \<Rightarrow> nat \<Rightarrow> link_challenge \<Rightarrow> acerror + bot_identity \<Rightarrow> ('l, acerror + bot_identity) aeff" where
  "settle_link now user challenge linked = (case linked of
       Inl e \<Rightarrow>
         if errors_is e (LinkErr ErrTelegramAlreadyLinkedToOther) \<or> errors_is e (LinkErr ErrAlreadyLinked) then
           andThen (consumeChallenge (lc_challenge_hash challenge) ChallengeConflict user now) (\<lambda>_.
           return (Inl (EntryErr ErrIdentityConflict)))
         else if errors_is e (LinkErr Botlink_ErrUnlinkPending) then return (Inl (EntryErr ErrUnlinkPending))
         else raise e
     | Inr identity \<Rightarrow>
         andThen (alignEntryEpoch identity) (\<lambda>aligned.
         andThen (consumeChallenge (lc_challenge_hash challenge) ChallengeApproved user now) (\<lambda>_.
         return (Inr aligned))))"

definition challenge_link :: "nat \<Rightarrow> link_challenge \<Rightarrow> link_input" where
  "challenge_link user c = \<lparr>li_bot_id = lc_bot_id c, li_issuer = lc_issuer c, li_user_id = user,
     li_external_user_id = lc_external_subject c, li_external_username = lc_external_username c\<rparr>"

definition approve_body ::
    "entry_service \<Rightarrow> string \<Rightarrow> instant \<Rightarrow> nat \<Rightarrow> string \<Rightarrow> ('l, acerror + bot_identity) aeff" where
  "approve_body s ref now user token =
     andThen (loadPending s now token) (\<lambda>(challenge, _).
     andThen (take_row GormRecordNotFound (live_user user)) (\<lambda>_.
     andThen (attempt (UpsertLinkTx ref now (challenge_link user challenge))) (\<lambda>linked.
     settle_link now user challenge linked)))"

definition ApproveLink :: "entry_service \<Rightarrow> string \<Rightarrow> instant \<Rightarrow> nat \<Rightarrow> string \<Rightarrow> ('l, bot_identity) aeff" where
  "ApproveLink s ref now user token =
     andThen (require (user \<noteq> 0) (EntryErr ErrInvalidInput)) (\<lambda>_.
     andThen (db_transaction (approve_body s ref now user token)) (\<lambda>outcome. lift_result outcome))"

definition CancelLink :: "entry_service \<Rightarrow> instant \<Rightarrow> nat \<Rightarrow> string \<Rightarrow> ('l, unit) aeff" where
  "CancelLink s now user token =
     andThen (require (user \<noteq> 0) (EntryErr ErrInvalidInput)) (\<lambda>_.
     db_transaction (andThen (loadPending s now token) (\<lambda>(challenge, _).
       consumeChallenge (lc_challenge_hash challenge) ChallengeCancelled user now)))"

section \<open>Unlinking\<close>

record unlink_result =
  ur_operation_id :: string
  ur_minimum_entry_epoch :: u64
  ur_propagation_pending :: bool
  ur_state :: unlink_state

definition unlinkResult :: "unlink_operation \<Rightarrow> unlink_result" where
  "unlinkResult o1 = \<lparr>ur_operation_id = uo_operation_id o1, ur_minimum_entry_epoch = uo_minimum_entry_epoch o1,
     ur_propagation_pending = (uo_state o1 \<noteq> UnlinkComplete), ur_state = uo_state o1\<rparr>"

definition validOperationID :: "entry_service \<Rightarrow> string \<Rightarrow> bool" where
  "validOperationID s i = (case en_parse_uuid s i of
       None \<Rightarrow> False
     | Some canonical \<Rightarrow> canonical \<noteq> ''00000000-0000-0000-0000-000000000000'' \<and> canonical = i)"

definition find_unlink :: "string \<Rightarrow> account_db \<Rightarrow> unlink_operation option" where
  "find_unlink i d = find (\<lambda>o1. uo_operation_id o1 = i) (ac_unlinks d)"

definition loadUnlinkTargetIDs :: "string \<Rightarrow> account_db \<Rightarrow> nat list" where
  "loadUnlinkTargetIDs i d = map ut_grant_id (filter (\<lambda>t. ut_operation_id t = i \<and> ut_confirmed_at t = None) (ac_unlink_targets d))"

text \<open>The user's grants to the consumers of the bot, deleted credentials included.\<close>

definition bot_consumers :: "string \<Rightarrow> account_db \<Rightarrow> string list" where
  "bot_consumers botID d = map sc_client_id (filter (\<lambda>c. sc_bot_id c = botID) (ac_credentials d))"

definition grants_of_user :: "nat \<Rightarrow> string list \<Rightarrow> account_db \<Rightarrow> nat list" where
  "grants_of_user user consumers d = map cg_id (filter (\<lambda>g. cg_consumer g \<in> set consumers \<and>
     list_ex (\<lambda>b. pb_id b = cg_binding_id g \<and> pb_owner_user_id b = user) (ac_bindings d)) (ac_grants d))"

definition collectIdentityGrantIDs :: "nat \<Rightarrow> string \<Rightarrow> ('l, nat list) aeff" where
  "collectIdentityGrantIDs user botID =
     andThen (aquery (bot_consumers botID)) (\<lambda>consumers.
     if consumers = [] then return [] else aquery (grants_of_user user consumers))"

definition mark_pending_epoch :: "nat list \<Rightarrow> u64 \<Rightarrow> account_db \<Rightarrow> account_db" where
  "mark_pending_epoch ids minimum d = d\<lparr>ac_grants := update_where (\<lambda>g. cg_id g \<in> set ids)
     (\<lambda>g. g\<lparr>cg_pending_entry_epoch := (if minimum < cg_pending_entry_epoch g then cg_pending_entry_epoch g else minimum),
        cg_last_invalidated_at := None\<rparr>) (ac_grants d)\<rparr>"

definition unlink_row ::
    "string \<Rightarrow> nat \<Rightarrow> string \<Rightarrow> bot_identity \<Rightarrow> u64 \<Rightarrow> nat list \<Rightarrow> instant \<Rightarrow> unlink_operation" where
  "unlink_row i user botID identity minimum ids now = \<lparr>uo_operation_id = i, uo_user_id = user, uo_bot_id = botID,
     uo_entry_identity_ref = bid_entry_identity_ref identity, uo_minimum_entry_epoch = minimum,
     uo_state = (if ids = [] then UnlinkComplete else UnlinkPending),
     uo_completed_at = (if ids = [] then Some now else None)\<rparr>"

definition insert_target :: "string \<Rightarrow> nat \<Rightarrow> account_db \<Rightarrow> account_db" where
  "insert_target i g d = d\<lparr>ac_unlink_targets := ac_unlink_targets d @
     [\<lparr>ut_operation_id = i, ut_grant_id = g, ut_confirmed_at = None\<rparr>]\<rparr>"

definition raise_epochs :: "nat \<Rightarrow> u64 \<Rightarrow> account_db \<Rightarrow> account_db" where
  "raise_epochs user minimum = set_identities (\<lambda>i. live_identity i \<and> bid_user_id i = user) (bid_entry_epoch_update (\<lambda>_. minimum))"

definition admitUnlink :: "instant \<Rightarrow> nat \<Rightarrow> string \<Rightarrow> string \<Rightarrow> ('l, unlink_operation \<times> nat list) aeff" where
  "admitUnlink now user botID i =
     andThen (take_row (LinkErr Botlink_ErrBotIdentityNotFound) (identity_of_bot user botID)) (\<lambda>identity.
     andThen (aquery (max_entry_epoch user)) (\<lambda>maximum.
     let minimum = maximum + 1 in
     andThen (bot_change (raise_epochs user minimum)) (\<lambda>_.
     andThen (collectIdentityGrantIDs user (bid_bot_id identity)) (\<lambda>ids.
     let operation = unlink_row i user botID identity minimum ids now in
     andThen (bot_change (\<lambda>d. d\<lparr>ac_unlinks := ac_unlinks d @ [operation]\<rparr>)) (\<lambda>_.
     andThen (for_each ids (\<lambda>g. bot_change (insert_target i g))) (\<lambda>_.
     andThen (if ids = [] then return () else account_change (mark_pending_epoch ids minimum)) (\<lambda>_.
     andThen (UnlinkTx now user botID) (\<lambda>_.
     return (operation, ids)))))))))"

definition refreshUnlinkState :: "instant \<Rightarrow> nat \<Rightarrow> string \<Rightarrow> string \<Rightarrow> ('l, unlink_result) aeff" where
  "refreshUnlinkState now user botID i = andThen (db_transaction (
     andThen (take_row (LinkErr Botlink_ErrBotIdentityNotFound) (find_unlink i)) (\<lambda>operation.
     andThen (require (uo_user_id operation = user \<and> uo_bot_id operation = botID) (LinkErr Botlink_ErrBotIdentityNotFound)) (\<lambda>_.
     if uo_state operation = UnlinkComplete then return operation
     else andThen (aquery (\<lambda>d. length (loadUnlinkTargetIDs i d))) (\<lambda>pending.
       if 0 < pending then return operation
       else andThen (bot_change (\<lambda>d. d\<lparr>ac_unlinks := update_where (\<lambda>o1. uo_operation_id o1 = i)
           (\<lambda>o1. o1\<lparr>uo_state := UnlinkComplete, uo_completed_at := Some now\<rparr>) (ac_unlinks d)\<rparr>)) (\<lambda>_.
         return (operation\<lparr>uo_state := UnlinkComplete, uo_completed_at := Some now\<rparr>)))))))
     (\<lambda>operation. return (unlinkResult operation))"

text \<open>The first transaction of \<open>Unlink\<close>: an operation known by its id is taken up again.\<close>

definition admit_or_resume :: "instant \<Rightarrow> nat \<Rightarrow> string \<Rightarrow> string \<Rightarrow> ('l, unlink_operation \<times> nat list) aeff" where
  "admit_or_resume now user botID i =
     andThen (take_row GormRecordNotFound (live_user user)) (\<lambda>_.
     andThen (aquery (find_unlink i)) (\<lambda>found. case found of
       None \<Rightarrow> admitUnlink now user botID i
     | Some operation \<Rightarrow>
         andThen (require (uo_user_id operation = user \<and> uo_bot_id operation = botID)
           (LinkErr Botlink_ErrBotIdentityNotFound)) (\<lambda>_.
         andThen (aquery (loadUnlinkTargetIDs i)) (\<lambda>ids. return (operation, ids)))))"

definition UnlinkIdentity ::
    "'l grant_invalidator \<Rightarrow> entry_service \<Rightarrow> instant \<Rightarrow> nat \<Rightarrow> string \<Rightarrow> string \<Rightarrow> ('l, unlink_result) aeff" where
  "UnlinkIdentity invalidator s now user botID operationID =
     (let i = trim_space operationID in
      andThen (require (user \<noteq> 0 \<and> trim_space botID \<noteq> '''' \<and> validOperationID s i) (EntryErr ErrInvalidInput)) (\<lambda>_.
      andThen (db_transaction (admit_or_resume now user botID i)) (\<lambda>(operation, ids).
      if uo_state operation = UnlinkComplete then return (unlinkResult operation)
      else andThen (for_each ids (\<lambda>g. ignoring (ReconcileGrantInvalidation invalidator g now))) (\<lambda>_.
        refreshUnlinkState now user botID i))))"

definition UnlinkStatus :: "entry_service \<Rightarrow> instant \<Rightarrow> nat \<Rightarrow> string \<Rightarrow> string \<Rightarrow> ('l, unlink_result) aeff" where
  "UnlinkStatus s now user botID operationID =
     (let i = trim_space operationID in
      andThen (require (user \<noteq> 0 \<and> trim_space botID \<noteq> '''' \<and> validOperationID s i) (EntryErr ErrInvalidInput)) (\<lambda>_.
      refreshUnlinkState now user botID i))"

section \<open>The protocol of identities and challenges\<close>

text \<open>An identity keeps its owner, bot, issuer and subject for ever, its epoch never falls, and once it
  is deleted it never changes.  A new identity starts at least at the highest epoch of its user.  A
  challenge that is no longer pending never changes.\<close>

definition identity_follows :: "bot_identity \<Rightarrow> bot_identity \<Rightarrow> bool" where
  "identity_follows i i' \<longleftrightarrow> bid_id i' = bid_id i \<and> bid_entry_identity_ref i' = bid_entry_identity_ref i \<and>
     bid_user_id i' = bid_user_id i \<and> bid_bot_id i' = bid_bot_id i \<and> bid_issuer i' = bid_issuer i \<and>
     bid_external_user_id i' = bid_external_user_id i \<and> bid_entry_epoch i \<le> bid_entry_epoch i' \<and>
     (\<not> live_identity i \<longrightarrow> i' = i)"

definition identities_ok :: "account_db \<Rightarrow> bool" where
  "identities_ok d \<longleftrightarrow> list_all (\<lambda>i. epoch_ok (bid_entry_epoch i)) (ac_identities d) \<and>
     unique_on bid_id (ac_identities d) \<and>
     unique_where live_identity (\<lambda>i. (bid_issuer i, bid_external_user_id i)) (ac_identities d)"

definition identity_protocol :: "account_db \<Rightarrow> account_db \<Rightarrow> bool" where
  "identity_protocol d d' \<longleftrightarrow> (identities_ok d \<longrightarrow> identities_ok d' \<and>
     (\<forall>i\<in>set (ac_identities d). \<exists>i'\<in>set (ac_identities d'). identity_follows i i') \<and>
     (\<forall>i'\<in>set (ac_identities d'). (\<exists>i\<in>set (ac_identities d). identity_follows i i') \<or>
        max_entry_epoch (bid_user_id i') d \<le> bid_entry_epoch i') \<and>
     (\<forall>h c. find_challenge h d = Some c \<and> lc_status c \<noteq> ChallengePending \<longrightarrow> find_challenge h d' = Some c))"

lemma identity_follows_refl [simp]: "identity_follows i i"
  by (simp add: identity_follows_def)

lemma still_there: "i \<in> set rows \<Longrightarrow> \<exists>i'\<in>set rows. identity_follows i i'"
  using identity_follows_refl by blast

lemma still_from: "i' \<in> set rows \<Longrightarrow> \<exists>i\<in>set rows. identity_follows i i'"
  using identity_follows_refl by blast

lemma identity_follows_trans: "identity_follows i j \<Longrightarrow> identity_follows j k \<Longrightarrow> identity_follows i k"
  unfolding identity_follows_def live_identity_def by auto

lemma Max_ge_epoch: "i \<in> set (ac_identities d) \<Longrightarrow> bid_entry_epoch i \<le> max_entry_epoch (bid_user_id i) d"
  by (force simp: max_entry_epoch_def Let_def filter_empty_conv intro: Max_ge)

lemma max_entry_epoch_least:
  assumes "1 \<le> m" "\<And>i. i \<in> set (ac_identities d) \<Longrightarrow> bid_user_id i = user \<Longrightarrow> bid_entry_epoch i \<le> m"
  shows "max_entry_epoch user d \<le> m"
  using assms by (auto simp: max_entry_epoch_def Let_def filter_empty_conv intro!: Max.boundedI)

lemma max_entry_epoch_ok:
  assumes "identities_ok d"
  shows "epoch_ok (max_entry_epoch user d)"
proof (cases "filter (\<lambda>i. bid_user_id i = user) (ac_identities d) = []")
  case True
  then show ?thesis by (simp add: max_entry_epoch_def epoch_ok_def bigint_ok_def)
next
  case False
  let ?mine = "filter (\<lambda>i. bid_user_id i = user) (ac_identities d)"
  have "Max (set (map bid_entry_epoch ?mine)) \<in> set (map bid_entry_epoch ?mine)"
    using False by (intro Max_in) (auto simp: filter_empty_conv)
  with False assms show ?thesis by (auto simp: max_entry_epoch_def Let_def identities_ok_def list_all_iff)
qed

lemma max_entry_epoch_mono:
  assumes "identities_ok d'" "\<forall>i\<in>set (ac_identities d). \<exists>i'\<in>set (ac_identities d'). identity_follows i i'"
  shows "max_entry_epoch user d \<le> max_entry_epoch user d'"
proof (rule max_entry_epoch_least)
  show "1 \<le> max_entry_epoch user d'" using max_entry_epoch_ok [OF assms(1)] by (simp add: epoch_ok_def)
  show "bid_entry_epoch i \<le> max_entry_epoch user d'" if "i \<in> set (ac_identities d)" "bid_user_id i = user" for i
  proof -
    from bspec [OF assms(2) that(1)] obtain i' where i': "i' \<in> set (ac_identities d')" "identity_follows i i'" ..
    then have "bid_entry_epoch i \<le> bid_entry_epoch i'" "bid_user_id i' = user"
      using that(2) by (simp_all add: identity_follows_def)
    with Max_ge_epoch [OF i'(1)] show ?thesis by simp
  qed
qed

lemma identity_protocolD:
  assumes "identity_protocol d d'" "identities_ok d"
  shows "identities_ok d'"
    "i \<in> set (ac_identities d) \<Longrightarrow> \<exists>i'\<in>set (ac_identities d'). identity_follows i i'"
    "i' \<in> set (ac_identities d') \<Longrightarrow> (\<exists>i\<in>set (ac_identities d). identity_follows i i') \<or>
       max_entry_epoch (bid_user_id i') d \<le> bid_entry_epoch i'"
    "find_challenge h d = Some c \<Longrightarrow> lc_status c \<noteq> ChallengePending \<Longrightarrow> find_challenge h d' = Some c"
proof -
  note all = assms(1) [unfolded identity_protocol_def, THEN mp, OF assms(2)]
  show "identities_ok d'" by (rule all [THEN conjunct1])
  show "\<exists>i'\<in>set (ac_identities d'). identity_follows i i'" if "i \<in> set (ac_identities d)"
    by (rule bspec [OF all [THEN conjunct2, THEN conjunct1] that])
  show "(\<exists>i\<in>set (ac_identities d). identity_follows i i') \<or> max_entry_epoch (bid_user_id i') d \<le> bid_entry_epoch i'"
    if "i' \<in> set (ac_identities d')"
    by (rule bspec [OF all [THEN conjunct2, THEN conjunct2, THEN conjunct1] that])
  show "find_challenge h d' = Some c" if "find_challenge h d = Some c" "lc_status c \<noteq> ChallengePending"
    using all [THEN conjunct2, THEN conjunct2, THEN conjunct2] that by simp
qed

lemma identity_protocolI:
  assumes "identities_ok d \<Longrightarrow> identities_ok d'"
    "\<And>i. identities_ok d \<Longrightarrow> i \<in> set (ac_identities d) \<Longrightarrow> \<exists>i'\<in>set (ac_identities d'). identity_follows i i'"
    "\<And>i'. identities_ok d \<Longrightarrow> i' \<in> set (ac_identities d') \<Longrightarrow> (\<exists>i\<in>set (ac_identities d). identity_follows i i') \<or>
       max_entry_epoch (bid_user_id i') d \<le> bid_entry_epoch i'"
    "\<And>h c. identities_ok d \<Longrightarrow> find_challenge h d = Some c \<Longrightarrow> lc_status c \<noteq> ChallengePending \<Longrightarrow> find_challenge h d' = Some c"
  shows "identity_protocol d d'"
  unfolding identity_protocol_def using assms by (intro impI conjI ballI allI) simp_all

lemma identity_protocol_trans:
  assumes p1: "identity_protocol d1 d2" and p2: "identity_protocol d2 d3"
  shows "identity_protocol d1 d3"
proof (rule identity_protocolI)
  assume ok1: "identities_ok d1"
  note D1 = identity_protocolD [OF p1 ok1]
  note D2 = identity_protocolD [OF p2 D1(1)]
  show "identities_ok d3" by (rule D2(1))
  show "\<exists>k\<in>set (ac_identities d3). identity_follows i k" if "i \<in> set (ac_identities d1)" for i
    using D1(2) [OF that] D2(2) identity_follows_trans by meson
  show "find_challenge h d3 = Some c" if "find_challenge h d1 = Some c" "lc_status c \<noteq> ChallengePending" for h c
    using D2(4) [OF D1(4) [OF that] that(2)] .
  show "(\<exists>i\<in>set (ac_identities d1). identity_follows i k) \<or> max_entry_epoch (bid_user_id k) d1 \<le> bid_entry_epoch k"
    if k: "k \<in> set (ac_identities d3)" for k
    using D2(3) [OF k]
  proof
    assume "\<exists>j\<in>set (ac_identities d2). identity_follows j k"
    then obtain j where j: "j \<in> set (ac_identities d2)" "identity_follows j k" by blast
    then have "bid_user_id k = bid_user_id j" "bid_entry_epoch j \<le> bid_entry_epoch k"
      by (simp_all add: identity_follows_def)
    with D1(3) [OF j(1)] j(2) show ?thesis by (auto intro: identity_follows_trans)
  next
    assume "max_entry_epoch (bid_user_id k) d2 \<le> bid_entry_epoch k"
    moreover have "max_entry_epoch (bid_user_id k) d1 \<le> max_entry_epoch (bid_user_id k) d2"
      by (rule max_entry_epoch_mono [OF D1(1)]) (use D1(2) in blast)
    ultimately show ?thesis by (blast intro: order_trans)
  qed
qed

interpretation identities: protocol identity_protocol
proof
  show "identity_protocol d d" for d
    by (auto simp: identity_protocol_def intro: still_there still_from)
  show "identity_protocol d1 d3" if "identity_protocol d1 d2" "identity_protocol d2 d3" for d1 d2 d3
    using that by (rule identity_protocol_trans)
qed

text \<open>A relation between the tables at the start and now, as an invariant: it covers the statements
  inside a transaction and outside one alike.\<close>

lemma bots_identities_ok: "bots_ok d \<Longrightarrow> identities_ok d"
  using bots_okD [of d] by (simp add: identities_ok_def)

lemma protocol_change:
  assumes "\<And>d. identities_ok d \<Longrightarrow> bots_ok (f d) \<Longrightarrow> identity_protocol d (f d)"
  shows "keeps (identity_protocol d0) (bot_change f)"
proof (rule bot_change_keeps)
  show "identity_protocol d0 (f d)" if "identity_protocol d0 d" "bots_ok (f d)" for d
    using that assms [of d] by (meson identities.R_trans identity_protocol_def)
qed

lemma protocol_write:
  assumes "\<And>d. identities_ok d \<Longrightarrow> bots_ok (snd (f d)) \<Longrightarrow> identity_protocol d (snd (f d))"
  shows "keeps (identity_protocol d0) (bot_write f)"
proof (rule bot_write_keeps)
  show "identity_protocol d0 (snd (f d))" if "identity_protocol d0 d" "bots_ok (snd (f d))" for d
    using that assms [of d] by (meson identities.R_trans identity_protocol_def)
qed

lemma beside_identities:
  "ac_identities d' = ac_identities d \<Longrightarrow> ac_challenges d' = ac_challenges d \<Longrightarrow> identity_protocol d d'"
  by (auto simp: identity_protocol_def identities_ok_def find_challenge_def intro: still_there still_from)

lemma set_identities_protocol:
  assumes "bots_ok (set_identities p f d)" "\<And>i. i \<in> set (ac_identities d) \<Longrightarrow> p i \<Longrightarrow> identity_follows i (f i)"
  shows "identity_protocol d (set_identities p f d)"
proof -
  have "\<exists>i'\<in>set (update_where p f (ac_identities d)). identity_follows i i'" if "i \<in> set (ac_identities d)" for i
  proof (cases "p i")
    case True
    have "f i \<in> set (update_where p f (ac_identities d))" using that True by (auto simp: update_where_def image_iff)
    with assms(2) [OF that True] show ?thesis by blast
  next
    case False
    have "i \<in> set (update_where p f (ac_identities d))" using that False by (auto simp: update_where_def image_iff)
    then show ?thesis by (rule still_there)
  qed
  moreover have "\<exists>i\<in>set (ac_identities d). identity_follows i i'" if "i' \<in> set (update_where p f (ac_identities d))" for i'
  proof -
    from that obtain i where i: "i \<in> set (ac_identities d)" "i' = (if p i then f i else i)" by (auto simp: update_where_def)
    with assms(2) [OF i(1)] show ?thesis by (auto intro!: bexI [OF _ i(1)])
  qed
  ultimately show ?thesis
    using bots_identities_ok [OF assms(1)] by (auto simp: identity_protocol_def set_identities_def find_challenge_def)
qed

lemma insert_identity_protocol:
  "max_entry_epoch (bid_user_id row) d \<le> bid_entry_epoch row \<Longrightarrow> bots_ok (snd (insert_identity row d)) \<Longrightarrow>
   identity_protocol d (snd (insert_identity row d))"
  using bots_identities_ok [of "snd (insert_identity row d)"]
  by (auto simp: identity_protocol_def insert_identity_def Let_def find_challenge_def intro: still_there still_from
      identity_follows_refl split: if_splits)

lemma set_challenges_protocol:
  assumes "bots_ok (set_challenges p f d)" "\<And>c. p c \<Longrightarrow> lc_challenge_hash (f c) = lc_challenge_hash c"
    "\<And>h c. find_challenge h d = Some c \<Longrightarrow> p c \<Longrightarrow> lc_status c = ChallengePending"
  shows "identity_protocol d (set_challenges p f d)"
proof -
  have "find_challenge h (set_challenges p f d) = map_option (\<lambda>c. if p c then f c else c) (find_challenge h d)" for h
    unfolding find_challenge_def set_challenges_def by (simp add: find_update_where assms(2))
  then show ?thesis using assms(3) bots_identities_ok [OF assms(1)]
    by (auto simp: identity_protocol_def set_challenges_def intro: still_there still_from)
qed

subsection \<open>Every operation follows the protocol\<close>

lemma keeps_andThen_post:
  fixes m :: "('d, 'l, 'e, 'a) eff"
  assumes m: "keeps I m" and f: "\<And>x w w'. m w = (Inr x, w') \<Longrightarrow> holds I w' \<Longrightarrow> holds I (snd (f x w'))"
  shows "keeps I (andThen m f)"
proof (rule keepsI)
  fix w :: "('d, 'l) world"
  assume w: "holds I w"
  obtain r w1 where run: "m w = (r, w1)" by (metis surj_pair)
  have "holds I w1" using keepsD [OF m w] run by simp
  then show "holds I (snd (andThen m f w))" using f run by (cases r) (simp_all add: effect_simps)
qed

lemma wrapped_keeps [keeps_rules]: "keeps I m \<Longrightarrow> keeps I (wrapped text m)"
  unfolding wrapped_def by (rule keeps_map_error)

lemma wrapped_InrE: "wrapped text m w = (Inr x, w') \<Longrightarrow> (m w = (Inr x, w') \<Longrightarrow> P) \<Longrightarrow> P"
  unfolding wrapped_def by (erule map_error_InrE)

lemma writeAudit_protocol [keeps_rules]: "keeps (identity_protocol d0) (writeAudit user action botID issuer subject)"
  unfolding writeAudit_def by (intro keeps_rules protocol_change beside_identities) simp_all

lemma link_existing_protocol: "keeps (identity_protocol d0) (link_existing input existing)"
  unfolding link_existing_def
  by (intro keeps_rules protocol_change set_identities_protocol) (auto simp: identity_follows_def live_identity_def)

lemma bot_write_holds:
  assumes "holds I w" "bot_write f w = (r, w')" "\<And>d. d = db w \<Longrightarrow> bots_ok (snd (f d)) \<Longrightarrow> I (snd (f d))"
  shows "holds I w'"
proof -
  have "(db w' = db w \<or> bots_ok (snd (f (db w))) \<and> db w' = snd (f (db w))) \<and> base w' = base w"
    using assms(2) by (auto simp: bot_write_def statement_def bots_ok_def split: prod.splits if_splits option.splits)
  with assms(1) assms(3) [OF refl] show ?thesis by (auto simp: holds_def)
qed

lemma fresh_insert_protocol:
  assumes "max_entry_epoch (li_user_id input) d \<le> epoch"
    and "bots_ok (snd (insert_identity (fresh_identity input issuer ref epoch now) d))"
  shows "identity_protocol d (snd (insert_identity (fresh_identity input issuer ref epoch now) d))"
proof (rule insert_identity_protocol [OF _ assms(2)])
  show "max_entry_epoch (bid_user_id (fresh_identity input issuer ref epoch now)) d
      \<le> bid_entry_epoch (fresh_identity input issuer ref epoch now)"
    using assms(1) by (auto simp: fresh_identity_def intro: order_trans)
qed

lemma protocol_from:
  "identity_protocol d0 d \<Longrightarrow> (identities_ok d \<Longrightarrow> identity_protocol d d') \<Longrightarrow> identity_protocol d0 d'"
  by (meson identities.R_trans identity_protocol_def)

lemma link_fresh_protocol: "keeps (identity_protocol d0) (link_fresh input issuer ref now :: ('l, bot_identity) aeff)"
  unfolding link_fresh_def
proof (rule keeps_andThen [OF wrapped_keeps [OF keeps_query]], rule keeps_andThen [OF keeps_require],
    rule keeps_andThen_post [OF wrapped_keeps [OF keeps_query]])
  fix epoch :: u64 and w w' :: "'l aworld"
  let ?rest = "\<lambda>inserted. case inserted of None \<Rightarrow> link_winner input issuer
     | Some row \<Rightarrow> andThen (writeAudit (li_user_id input) ''telegram_link_created'' (li_bot_id input) issuer (li_external_user_id input))
           (\<lambda>_. return row)"
  let ?insert = "insert_identity (fresh_identity input issuer ref epoch now)"
  assume "wrapped ''botlink: derive entry epoch'' (aquery (max_entry_epoch (li_user_id input))) w = (Inr epoch, w')"
    and w': "holds (identity_protocol d0) w'"
  then have epoch: "epoch = max_entry_epoch (li_user_id input) (db w')" by (auto elim!: wrapped_InrE query_InrE)
  obtain r v where run: "bot_write ?insert w' = (r, v)" by (metis surj_pair)
  have "keeps (identity_protocol d0) (?rest inserted :: ('l, bot_identity) aeff)" for inserted
    unfolding link_winner_def by (intro keeps_rules keeps_or_else_any)
  moreover have "holds (identity_protocol d0) v"
    by (rule bot_write_holds [OF w' run])
      (use w' in \<open>auto simp: holds_def epoch intro: protocol_from fresh_insert_protocol\<close>)
  ultimately show "holds (identity_protocol d0) (snd (andThen (wrapped ''botlink: insert'' (bot_write ?insert)) ?rest w'))"
    using run by (auto simp: andThen_apply wrapped_def map_error_apply split: sum.splits intro: keepsD)
qed

lemma resolve_keeps [keeps_rules]: "keeps I (resolveRegisteredIssuer botID issuer)"
  unfolding resolveRegisteredIssuer_def Let_def by (intro keeps_rules)

lemma UpsertLinkTx_protocol: "keeps (identity_protocol d0) (UpsertLinkTx ref now input)"
  unfolding UpsertLinkTx_def by (intro keeps_rules link_existing_protocol link_fresh_protocol)

lemma UnlinkTx_protocol: "keeps (identity_protocol d0) (UnlinkTx now user botID)"
  unfolding UnlinkTx_def delete_identity_def
  by (intro keeps_rules protocol_change set_identities_protocol) (auto simp: identity_follows_def live_identity_def)

text \<open>The identity a link yields is a live row of its user.\<close>

definition stored_identity :: "bot_identity \<Rightarrow> account_db \<Rightarrow> bool" where
  "stored_identity i d \<longleftrightarrow> (\<exists>r\<in>set (ac_identities d). bid_id r = bid_id i \<and> bid_user_id r = bid_user_id i \<and>
     bid_entry_epoch r = bid_entry_epoch i \<and> live_identity r)"

lemma identity_of_subject_stored:
  "identity_of_subject issuer subject d = Some i \<Longrightarrow> stored_identity i d \<and> live_identity i"
  unfolding identity_of_subject_def stored_identity_def by (drule find_SomeD) auto

lemma link_existing_InrD:
  assumes "link_existing input existing w = (Inr i, w')" "stored_identity existing (db w)" "live_identity existing"
  shows "stored_identity i (db w') \<and> bid_user_id i = li_user_id input"
proof (cases "db w' = db w")
  case True
  with assms show ?thesis unfolding link_existing_def
    by (auto simp: stored_identity_def elim!: account_success bot_change_InrE wrapped_InrE split: if_splits option.splits)
next
  case False
  with assms(1) obtain name where w': "db w' = set_identities (\<lambda>i. live_identity i \<and> bid_id i = bid_id existing)
      (bid_external_username_update (\<lambda>_. Some name)) (db w)" and
    i: "i = existing\<lparr>bid_external_username := Some name\<rparr>" "bid_user_id existing = li_user_id input"
    unfolding link_existing_def
    by (auto elim!: account_success bot_change_InrE wrapped_InrE split: if_splits option.splits)
  from assms(2) obtain r where r: "r \<in> set (ac_identities (db w))" "bid_id r = bid_id existing"
      "bid_user_id r = bid_user_id existing" "bid_entry_epoch r = bid_entry_epoch existing" "live_identity r"
    by (auto simp: stored_identity_def)
  then have "r\<lparr>bid_external_username := Some name\<rparr> \<in> set (ac_identities (db w'))"
    unfolding w' set_identities_def update_where_def by (auto simp: image_iff intro!: bexI [of _ r])
  with r i show ?thesis unfolding stored_identity_def by (intro conjI bexI [of _ "r\<lparr>bid_external_username := Some name\<rparr>"])
    (auto simp: live_identity_def)
qed

lemma or_else_InrE:
  assumes "or_else m failed k w = (Inr y, w')"
  obtains e w1 where "m w = (Inl e, w1)" "failed e w1 = (Inr y, w')" | x w1 where "m w = (Inr x, w1)" "k x w1 = (Inr y, w')"
  using assms unfolding or_else_def by (cases "m w") (auto simp: effect_simps split: sum.splits)

lemma link_winner_InrD:
  assumes "link_winner input issuer w = (Inr i, w')"
  shows "stored_identity i (db w') \<and> bid_user_id i = li_user_id input"
  using assms unfolding link_winner_def
proof (elim or_else_InrE)
  fix x w1
  assume found: "take_row GormRecordNotFound (identity_of_subject issuer (li_external_user_id input)) w = (Inr x, w1)"
    and "(if bid_user_id x = li_user_id input then return x else raise (LinkErr ErrTelegramAlreadyLinkedToOther)) w1 = (Inr i, w')"
  then have "x = i" "w1 = w'" "bid_user_id x = li_user_id input" by (auto simp: effect_simps split: if_splits)
  with found show ?thesis by (auto elim!: select_one_InrE dest: identity_of_subject_stored)
qed (auto simp: effect_simps)

lemma insert_identity_stored:
  assumes "insert_identity (fresh_identity input issuer ref epoch now) d0 = (Some row, d)"
  shows "stored_identity row d \<and> bid_user_id row = li_user_id input"
  using assms by (auto simp: insert_identity_def stored_identity_def Let_def live_identity_def fresh_identity_def split: if_splits)

lemma writeAudit_stored: "writeAudit user action botID issuer subject w = (Inr x, w') \<Longrightarrow>
    stored_identity i (db w') = stored_identity i (db w)"
  unfolding writeAudit_def by (auto elim!: wrapped_InrE bot_change_InrE simp: stored_identity_def)

lemma link_fresh_InrD:
  assumes "link_fresh input issuer ref now w = (Inr i, w')"
  shows "stored_identity i (db w') \<and> bid_user_id i = li_user_id input"
  using assms unfolding link_fresh_def
proof (elim andThen_InrE, goal_cases)
  case (1 conflict w1 u w2 epoch w3 inserted w4)
  from 1(4) obtain fs d where ins: "insert_identity (fresh_identity input issuer ref epoch now) (db w3) = (inserted, d)"
      "w4 = w3\<lparr>faults := fs, db := d\<rparr>"
    by (auto elim!: wrapped_InrE bot_write_InrE)
  show ?case
  proof (cases inserted)
    case None
    with 1(5) show ?thesis by (simp add: link_winner_InrD)
  next
    case (Some row)
    from 1(5) have "andThen (writeAudit (li_user_id input) ''telegram_link_created'' (li_bot_id input) issuer
        (li_external_user_id input)) (\<lambda>_. return row) w4 = (Inr i, w')"
      by (simp only: Some option.case)
    then obtain x w5 where audit: "writeAudit (li_user_id input) ''telegram_link_created'' (li_bot_id input) issuer
        (li_external_user_id input) w4 = (Inr x, w5)" and "return row w5 = (Inr i :: acerror + bot_identity, w')"
      by (rule andThen_InrE) (rule that)
    then have "i = row" "w' = w5" by (simp_all add: return_apply)
    moreover have "stored_identity row (db w4) \<and> bid_user_id row = li_user_id input"
      using ins insert_identity_stored [of input issuer ref epoch now "db w3" row d] Some by simp
    ultimately show ?thesis by (simp add: writeAudit_stored [OF audit])
  qed
qed

lemma UpsertLinkTx_InrD:
  assumes "UpsertLinkTx ref now input w = (Inr i, w')"
  shows "stored_identity i (db w') \<and> bid_user_id i = li_user_id input"
  using assms unfolding UpsertLinkTx_def
proof (elim andThen_InrE, goal_cases)
  case (1 u w1 u2 w2 issuer w3 pending w4 u3 w5 found w6)
  show ?case
  proof (cases found)
    case None
    with 1(7) show ?thesis by (simp add: link_fresh_InrD)
  next
    case (Some existing)
    from 1(6) have "identity_of_subject issuer (li_external_user_id input) (db w6) = Some existing"
      unfolding Some by (auto elim!: wrapped_InrE query_InrE)
    from link_existing_InrD [of input existing w6 i w'] identity_of_subject_stored [OF this] 1(7) Some show ?thesis by simp
  qed
qed

text \<open>Aligning raises the epoch of that row only.\<close>

lemma align_protocol:
  assumes "identities_ok d" "stored_identity identity d"
    and "bots_ok (set_identities (\<lambda>i. bid_id i = bid_id identity)
      (bid_entry_epoch_update (\<lambda>_. max_entry_epoch (bid_user_id identity) d)) d)"
  shows "identity_protocol d (set_identities (\<lambda>i. bid_id i = bid_id identity)
      (bid_entry_epoch_update (\<lambda>_. max_entry_epoch (bid_user_id identity) d)) d)"
proof (rule set_identities_protocol [OF assms(3)])
  fix i
  assume i: "i \<in> set (ac_identities d)" "bid_id i = bid_id identity"
  from assms(2) obtain r where r: "r \<in> set (ac_identities d)" "bid_id r = bid_id identity"
      "bid_user_id r = bid_user_id identity" "live_identity r"
    by (auto simp: stored_identity_def)
  have "i = r" using assms(1) i r by (auto simp: identities_ok_def dest: unique_onD)
  with r Max_ge_epoch [OF i(1)]
  show "identity_follows i (i\<lparr>bid_entry_epoch := max_entry_epoch (bid_user_id identity) d\<rparr>)"
    by (simp add: identity_follows_def live_identity_def)
qed

lemma bot_change_holds:
  assumes "holds I w" "bot_change f w = (r, w')" "\<And>d. d = db w \<Longrightarrow> bots_ok (f d) \<Longrightarrow> I (f d)"
  shows "holds I w'"
  using assms by (auto simp: bot_change_def bot_write_def statement_def holds_def bots_ok_def split: prod.splits if_splits option.splits)

lemma align_holds:
  assumes "holds (identity_protocol d0) w" "stored_identity identity (db w)"
  shows "holds (identity_protocol d0) (snd (alignEntryEpoch identity w))"
proof -
  let ?I = "identity_protocol d0"
  obtain r w1 where q: "aquery (max_entry_epoch (bid_user_id identity)) w = (r, w1)" by (metis surj_pair)
  then have w1: "holds ?I w1" "db w1 = db w" using keepsD [OF keeps_query assms(1), of AcDb "max_entry_epoch (bid_user_id identity)"]
    by (auto simp: query_def statement_def split: prod.splits if_splits)
  show ?thesis
  proof (cases r)
    case (Inl e)
    with q w1 show ?thesis by (simp add: alignEntryEpoch_def effect_simps)
  next
    case (Inr maximum)
    with q have maximum: "maximum = max_entry_epoch (bid_user_id identity) (db w1)"
      by (auto simp: query_def statement_def split: prod.splits if_splits)
    let ?f = "set_identities (\<lambda>i. bid_id i = bid_id identity) (bid_entry_epoch_update (\<lambda>_. maximum))"
    obtain r2 w2 where c: "bot_change ?f w1 = (r2, w2)" by (metis surj_pair)
    have "holds ?I w2"
    proof (rule bot_change_holds [OF w1(1) c])
      show "?I (?f d)" if "d = db w1" "bots_ok (?f d)" for d
        using w1 assms(2) that by (auto simp: holds_def maximum intro: protocol_from align_protocol)
    qed
    with q c Inr w1(1) show ?thesis by (auto simp: alignEntryEpoch_def effect_simps split: sum.splits)
  qed
qed

lemma consumeChallenge_protocol: "keeps (identity_protocol d0) (consumeChallenge h status user now)"
  unfolding consumeChallenge_def Let_def
  by (intro keeps_rules protocol_write) (auto intro!: set_challenges_protocol)

lemma expire_challenge_protocol:
  assumes "find_challenge h d = Some c" "lc_status c = ChallengePending" "bots_ok (expire_challenge h now d)"
  shows "identity_protocol d (expire_challenge h now d)"
  using assms(3) unfolding expire_challenge_def
proof (rule set_challenges_protocol)
  show "lc_status c' = ChallengePending" if "find_challenge h' d = Some c'" "lc_challenge_hash c' = h" for h' c'
  proof -
    have "h' = h" using that by (auto simp: find_challenge_def dest: find_SomeD)
    with that(1) assms(1,2) show ?thesis by simp
  qed
qed simp

lemma loadPending_protocol: "keeps (identity_protocol d0) (loadPending s now token)"
proof (cases "challengeHash s token")
  case None
  then show ?thesis by (simp add: loadPending_def)
next
  case (Some h)
  show ?thesis unfolding loadPending_def Some option.case
  proof (rule keeps_andThen_post)
    show "keeps (identity_protocol d0) (take_row (EntryErr ErrChallengeNotFound) (find_challenge h))" by simp
  next
    fix c :: link_challenge and w w' :: "'a aworld"
    let ?rest = "if lc_expires_at c \<le> now then andThen (bot_change (expire_challenge h now)) (\<lambda>_. raise (EntryErr ErrChallengeExpired))
       else andThen (take_row (EntryErr ErrPrincipalMismatch) (principal_credential (lc_consumer c) (lc_bot_id c))) (\<lambda>_.
         andThen (take_row (EntryErr ErrNamespaceUnavailable) (active_bot (lc_bot_id c))) (\<lambda>b.
         andThen (require (trim_space (lb_entry_issuer b) \<noteq> '''' \<and> lb_entry_issuer b = lc_issuer c)
           (EntryErr ErrNamespaceUnavailable)) (\<lambda>_. return (c, b))))"
    assume "take_row (EntryErr ErrChallengeNotFound) (find_challenge h) w = (Inr c, w')" and w': "holds (identity_protocol d0) w'"
    then have c: "find_challenge h (db w') = Some c" by (auto elim!: select_one_InrE)
    show "holds (identity_protocol d0) (snd (andThen (require (lc_status c = ChallengePending) (EntryErr ErrChallengeConsumed)) (\<lambda>_. ?rest) w'))"
    proof (cases "lc_status c = ChallengePending \<and> lc_expires_at c \<le> now")
      case True
      obtain r v where run: "bot_change (expire_challenge h now) w' = (r, v)" by (metis surj_pair)
      have "holds (identity_protocol d0) v"
        by (rule bot_change_holds [OF w' run])
          (use w' c True in \<open>auto simp: holds_def intro: protocol_from expire_challenge_protocol\<close>)
      with run True show ?thesis by (auto simp: effect_simps split: sum.splits)
    next
      case False
      then have "keeps (identity_protocol d0) (andThen (require (lc_status c = ChallengePending) (EntryErr ErrChallengeConsumed)) (\<lambda>_. ?rest))"
        by (cases "lc_status c = ChallengePending") (auto simp: require_def intro!: keeps_rules)
      then show ?thesis using w' by (rule keepsD)
    qed
  qed
qed

lemma settle_link_holds:
  fixes w :: "'l aworld"
  assumes "holds (identity_protocol d0) w" "\<And>i. linked = Inr i \<Longrightarrow> stored_identity i (db w)"
  shows "holds (identity_protocol d0) (snd (settle_link now user challenge linked w))"
proof (cases linked)
  case (Inl e)
  have "keeps (identity_protocol d0) (settle_link now user challenge (Inl e) :: ('l, acerror + bot_identity) aeff)"
    unfolding settle_link_def sum.case by (intro keeps_rules consumeChallenge_protocol)
  with assms(1) Inl show ?thesis by (simp add: keepsD)
next
  case (Inr i)
  obtain r v where run: "alignEntryEpoch i w = (r, v)" by (metis surj_pair)
  have v: "holds (identity_protocol d0) v" using align_holds [OF assms(1) assms(2) [OF Inr]] run by simp
  have "keeps (identity_protocol d0) (andThen (consumeChallenge (lc_challenge_hash challenge) ChallengeApproved user now)
      (\<lambda>_. return (Inr aligned)) :: ('l, acerror + bot_identity) aeff)" for aligned
    by (intro keeps_rules consumeChallenge_protocol)
  from keepsD [OF this v] v run Inr show ?thesis
    by (auto simp: settle_link_def andThen_apply split: sum.splits)
qed

lemma approve_body_protocol: "keeps (identity_protocol d0) (approve_body s ref now user token :: ('l, acerror + bot_identity) aeff)"
  unfolding approve_body_def
proof (rule keeps_andThen [OF loadPending_protocol], rule keeps_case_prod, rule keeps_andThen [OF select_one_rules(3)])
  fix challenge :: link_challenge
  show "keeps (identity_protocol d0) (andThen (attempt (UpsertLinkTx ref now (challenge_link user challenge)))
      (settle_link now user challenge) :: ('l, acerror + bot_identity) aeff)"
  proof (rule keeps_andThen_post)
    show "keeps (identity_protocol d0) (attempt (UpsertLinkTx ref now (challenge_link user challenge)))"
      by (rule keeps_attempt [OF UpsertLinkTx_protocol])
    show "holds (identity_protocol d0) (snd (settle_link now user challenge linked w'))"
      if "attempt (UpsertLinkTx ref now (challenge_link user challenge)) w = (Inr linked, w')"
        "holds (identity_protocol d0) w'" for linked and w w' :: "'l aworld"
    proof (rule settle_link_holds [OF that(2)])
      show "stored_identity i (db w')" if "linked = Inr i" for i
      proof -
        have "UpsertLinkTx ref now (challenge_link user challenge) w = (Inr i, w')"
          using \<open>attempt _ w = _\<close> that by (auto simp: attempt_apply prod_eq_iff)
        then show ?thesis by (simp add: UpsertLinkTx_InrD)
      qed
    qed
  qed
qed

lemma raise_epochs_protocol:
  assumes "identities_ok d" "bots_ok (raise_epochs user (max_entry_epoch user d + 1) d)"
  shows "identity_protocol d (raise_epochs user (max_entry_epoch user d + 1) d)"
  using assms(2) unfolding raise_epochs_def
proof (rule set_identities_protocol)
  fix i
  assume i: "i \<in> set (ac_identities d)" "live_identity i \<and> bid_user_id i = user"
  have "bid_entry_epoch i \<le> max_entry_epoch user d" using Max_ge_epoch [OF i(1)] i(2) by simp
  moreover have "max_entry_epoch user d < max_entry_epoch user d + 1"
  proof -
    have "epoch_ok (max_entry_epoch user d)" by (rule max_entry_epoch_ok [OF assms(1)])
    then show ?thesis by (simp add: epoch_ok_def bigint_ok_def word_less_nat_alt unat_word_ariths)
  qed
  ultimately show "identity_follows i (i\<lparr>bid_entry_epoch := max_entry_epoch user d + 1\<rparr>)"
    using i(2) by (simp add: identity_follows_def live_identity_def)
qed

lemma collect_keeps [keeps_rules]: "keeps I (collectIdentityGrantIDs user botID)"
  unfolding collectIdentityGrantIDs_def by (intro keeps_rules)

lemma account_change_keeps: "(\<And>d. I d \<Longrightarrow> account_ok (f d) \<Longrightarrow> I (f d)) \<Longrightarrow> keeps I (account_change f)"
  unfolding account_change_def account_write_def
  by (rule keeps_statement) (auto simp: account_ok_def split: option.splits)

lemma mark_pending_protocol: "keeps (identity_protocol d0) (account_change (mark_pending_epoch ids minimum))"
  by (rule account_change_keeps) (erule identities.R_trans, rule beside_identities, simp_all add: mark_pending_epoch_def)

text \<open>The rest of the admission, once the epochs are raised.\<close>

lemma admit_rest_protocol:
  "keeps (identity_protocol d0) (andThen (collectIdentityGrantIDs user b) (\<lambda>ids.
     let operation = unlink_row i user botID identity minimum ids now in
     andThen (bot_change (\<lambda>d. d\<lparr>ac_unlinks := ac_unlinks d @ [operation]\<rparr>)) (\<lambda>_.
     andThen (for_each ids (\<lambda>g. bot_change (insert_target i g))) (\<lambda>_.
     andThen (if ids = [] then return () else account_change (mark_pending_epoch ids minimum)) (\<lambda>_.
     andThen (UnlinkTx now user botID) (\<lambda>_.
     return (operation, ids)))))))"
  unfolding Let_def insert_target_def
  by (intro keeps_rules mark_pending_protocol UnlinkTx_protocol protocol_change beside_identities) simp_all

lemma admitUnlink_protocol: "keeps (identity_protocol d0) (admitUnlink now user botID i :: ('l, unlink_operation \<times> nat list) aeff)"
  unfolding admitUnlink_def
proof (rule keeps_andThen [OF select_one_rules(3)], rule keeps_andThen_post [OF keeps_query])
  fix identity :: bot_identity and maximum :: u64 and w w' :: "'l aworld"
  assume "aquery (max_entry_epoch user) w = (Inr maximum, w')" and w': "holds (identity_protocol d0) w'"
  then have maximum: "maximum = max_entry_epoch user (db w')" by (auto elim!: query_InrE)
  obtain r v where run: "bot_change (raise_epochs user (maximum + 1)) w' = (r, v)" by (metis surj_pair)
  have v: "holds (identity_protocol d0) v"
    by (rule bot_change_holds [OF w' run])
      (use w' in \<open>auto simp: holds_def maximum intro: protocol_from raise_epochs_protocol\<close>)
  show "holds (identity_protocol d0) (snd ((let minimum = maximum + 1 in
     andThen (bot_change (raise_epochs user minimum)) (\<lambda>_.
     andThen (collectIdentityGrantIDs user (bid_bot_id identity)) (\<lambda>ids.
     let operation = unlink_row i user botID identity minimum ids now in
     andThen (bot_change (\<lambda>d. d\<lparr>ac_unlinks := ac_unlinks d @ [operation]\<rparr>)) (\<lambda>_.
     andThen (for_each ids (\<lambda>g. bot_change (insert_target i g))) (\<lambda>_.
     andThen (if ids = [] then return () else account_change (mark_pending_epoch ids minimum)) (\<lambda>_.
     andThen (UnlinkTx now user botID) (\<lambda>_.
     return (operation, ids)))))))) w'))"
  proof (cases r)
    case (Inl e)
    with run v show ?thesis by (simp add: andThen_apply Let_def)
  next
    case (Inr u)
    show ?thesis
      using keepsD [OF admit_rest_protocol v, of user "bid_bot_id identity" i botID identity "maximum + 1" now]
      by (simp add: andThen_apply [of "bot_change _"] run Inr Let_def)
  qed
qed

lemma refresh_protocol: "keeps (identity_protocol d0) (refreshUnlinkState now user botID i)"
  unfolding refreshUnlinkState_def
  by (intro keeps_rules protocol_change beside_identities) simp_all

lemma admit_or_resume_protocol: "keeps (identity_protocol d0) (admit_or_resume now user botID i)"
  unfolding admit_or_resume_def by (intro keeps_rules admitUnlink_protocol)

lemma frames_id_keeps:
  fixes m :: "('d, 'l, 'e, 'a) eff"
  assumes "frames (\<lambda>d. d) m"
  shows "keeps I m"
proof (rule keepsI)
  fix w :: "('d, 'l) world"
  assume w: "holds I w"
  have "db (snd (m w)) = db w" "map_option (\<lambda>d. d) (base (snd (m w))) = map_option (\<lambda>d. d) (base w)"
    using assms by (simp_all add: frames_def)
  then have "db (snd (m w)) = db w" "base (snd (m w)) = base w" by (simp_all add: option.map_ident)
  with w show "holds I (snd (m w))" by (simp add: holds_def)
qed

lemma account_write_keeps: "(\<And>d. I d \<Longrightarrow> account_ok (snd (f d)) \<Longrightarrow> I (snd (f d))) \<Longrightarrow> keeps I (account_write f)"
  unfolding account_write_def by (rule keeps_statement) (auto simp: account_ok_def split: option.splits, metis snd_conv)

lemma protocol_beside:
  assumes "\<And>d. ac_identities (f d) = ac_identities d" "\<And>d. ac_challenges (f d) = ac_challenges d"
  shows "keeps (identity_protocol d0) (account_change f)"
  by (rule account_change_keeps) (erule protocol_from, rule beside_identities [OF assms])

lemma Reconcile_protocol:
  fixes invalidator :: "'l grant_invalidator"
  assumes "invalidator_reads invalidator"
  shows "keeps (identity_protocol d0) (ReconcileGrantInvalidation invalidator g now)"
proof -
  have c: "keeps (identity_protocol d0) (account_write (\<lambda>d. (n d, d\<lparr>ac_grants := h d\<rparr>)) :: ('l, nat) aeff)"
    for n :: "account_db \<Rightarrow> nat" and h
    by (rule account_write_keeps) (erule protocol_from, simp add: beside_identities)
  have inv: "keeps (identity_protocol d0) (f x)" if "invalidator = Some f" for f x
    using assms that by (auto simp: invalidator_reads_def intro: frames_id_keeps)
  show ?thesis
    unfolding ReconcileGrantInvalidation_def propagate_def invalidateGrant_def completeGrantInvalidation_def getBinding_def
      complete_invalidation_body_def settle_invalidation_def confirm_unlinks_def completeConfirmedUnlinkOperations_def Let_def
    by (intro keeps_rules c inv protocol_beside | simp)+
qed

lemma insert_challenge_protocol:
  "bots_ok (insert_challenge c d) \<Longrightarrow> identity_protocol d (insert_challenge c d)"
  using bots_identities_ok [of "insert_challenge c d"]
  by (intro identity_protocolI) (simp_all add: insert_challenge_def still_there still_from find_challenge_def find_snoc)

lemma start_body_protocol: "keeps (identity_protocol d0) (start_body s bytes now input)"
  unfolding start_body_def Let_def by (intro keeps_rules protocol_change insert_challenge_protocol)

lemma start_body_InrD:
  assumes "start_body s bytes now input w = (Inr (b, c), w')"
  shows "find_challenge (lc_challenge_hash c) (db w') = Some c \<and> lc_status c = ChallengePending"
proof -
  from assms obtain d where d: "db w' = insert_challenge c d" "bots_ok (db w')" "lc_status c = ChallengePending"
    unfolding start_body_def Let_def
    by (elim andThen_InrE bot_change_InrE) (auto simp: return_apply new_challenge_def elim!: account_success)
  from bots_okD(8) [OF d(2)] have "find (\<lambda>r. lc_challenge_hash r = lc_challenge_hash c) (ac_challenges (db w')) = Some c"
    by (rule find_unique) (simp_all add: d(1) insert_challenge_def)
  with d show ?thesis by (simp add: find_challenge_def)
qed

lemma delete_pending_protocol:
  assumes "find_challenge h d = Some c" "lc_status c = ChallengePending"
  shows "identity_protocol d (d\<lparr>ac_challenges := delete_where (\<lambda>c. lc_challenge_hash c = h) (ac_challenges d)\<rparr>)"
proof (rule identity_protocolI)
  fix h' c'
  assume c': "find_challenge h' d = Some c'" "lc_status c' \<noteq> ChallengePending"
  then have "h' \<noteq> h" using assms by auto
  with c' show "find_challenge h' (d\<lparr>ac_challenges := delete_where (\<lambda>c. lc_challenge_hash c = h) (ac_challenges d)\<rparr>) = Some c'"
    by (simp add: find_challenge_def find_delete_where)
qed (simp_all add: identities_ok_def still_there still_from)

lemma transaction_InrD:
  "transaction mk m w = (Inr x, w') \<Longrightarrow> \<exists>w0 w1. m w0 = (Inr x, w1) \<and> db w' = db w1"
  unfolding transaction_def by (fastforce split: option.splits prod.splits sum.splits if_splits)

lemma StartLink_protocol: "keeps (identity_protocol d0) (StartLink s random now input :: ('l, challenge_view \<times> string) aeff)"
  unfolding StartLink_def
proof (rule keeps_andThen [OF keeps_require], rule keeps_case_option [OF _ keeps_andThen_post])
  fix bytes and x :: "logical_bot \<times> link_challenge" and w w' :: "'l aworld"
  show "keeps (identity_protocol d0) (db_transaction (start_body s bytes now input))"
    by (intro keeps_rules start_body_protocol)
  assume tx: "db_transaction (start_body s bytes now input) w = (Inr x, w')" and w': "holds (identity_protocol d0) w'"
  obtain b c where x: "x = (b, c)" by (metis surj_pair)
  obtain w0 w1 :: "'l aworld" where body: "start_body s bytes now input w0 = (Inr (b, c), w1)" "db w' = db w1"
    using transaction_InrD [OF tx] unfolding x by (elim exE conjE)
  have c: "find_challenge (lc_challenge_hash c) (db w') = Some c" "lc_status c = ChallengePending"
    using start_body_InrD [OF body(1)] body(2) by simp_all
  let ?delete = "\<lambda>d. d\<lparr>ac_challenges := delete_where (\<lambda>r. lc_challenge_hash r = lc_challenge_hash c) (ac_challenges d)\<rparr>"
  obtain r v where run: "bot_change ?delete w' = (r, v)" by (rule prod.exhaust)
  have "holds (identity_protocol d0) v"
    by (rule bot_change_holds [OF w' run])
      (use w' c in \<open>auto simp: holds_def intro: protocol_from delete_pending_protocol\<close>)
  with run w' show "holds (identity_protocol d0) (snd ((case x of (b, challenge) \<Rightarrow>
      case buildApprovalURL s (base64url_encode bytes) of
           Inl e \<Rightarrow> andThen (ignoring (bot_change (\<lambda>d. d\<lparr>ac_challenges :=
             delete_where (\<lambda>c. lc_challenge_hash c = lc_challenge_hash challenge) (ac_challenges d)\<rparr>))) (\<lambda>_. raise e)
         | Inr approval \<Rightarrow> return (view_of challenge b, approval)) w'))"
    by (simp add: x ignoring_def andThen_apply attempt_apply return_apply raise_apply split: sum.splits)
qed simp


section \<open>A challenge is used once\<close>

lemma consumeChallenge_InrD:
  assumes "consumeChallenge h status user now w = (Inr u, w')"
  shows "bots_ok (db w') \<and> (\<exists>c. find_challenge h (db w') = Some c \<and> lc_status c = status)"
proof -
  let ?p = "\<lambda>c. lc_challenge_hash c = h \<and> lc_status c = ChallengePending"
  let ?f = "\<lambda>c. c\<lparr>lc_status := status, lc_approved_user_id := Some user, lc_consumed_at := Some now\<rparr>"
  from assms have d: "count_where ?p (ac_challenges (db w)) = 1" "db w' = set_challenges ?p ?f (db w)" "bots_ok (db w')"
    unfolding consumeChallenge_def Let_def by (auto elim!: account_success bot_write_InrE)
  from d(1) have "filter ?p (ac_challenges (db w)) \<noteq> []" by (auto simp: count_where_def)
  then obtain c where c: "c \<in> set (ac_challenges (db w))" "?p c" by (auto simp: filter_empty_conv)
  then have "?f c \<in> set (ac_challenges (db w'))"
    unfolding d(2) set_challenges_def update_where_def by (auto simp: image_iff intro!: bexI [of _ c])
  from find_unique [OF bots_okD(8) [OF d(3)] this, of "\<lambda>r. lc_challenge_hash r = h"] c(2)
  have "find_challenge h (db w') = Some (?f c)" by (simp add: find_challenge_def)
  with d(3) show ?thesis by auto
qed

lemma loadPending_InrD:
  assumes "loadPending s now token w = (Inr (c, b), w')"
  shows "challengeHash s token = Some (lc_challenge_hash c) \<and> find_challenge (lc_challenge_hash c) (db w) = Some c \<and>
    lc_status c = ChallengePending \<and> now < lc_expires_at c \<and> db w' = db w"
proof -
  have hash: "lc_challenge_hash r = h" if "find_challenge h d = Some r" for h d r
    using that by (auto simp: find_challenge_def dest: find_SomeD)
  obtain h where h: "challengeHash s token = Some h" "find_challenge h (db w) = Some c" "lc_status c = ChallengePending"
    "now < lc_expires_at c" "db w' = db w"
    using assms unfolding loadPending_def by (auto elim!: account_success split: option.splits if_splits)
  with hash [OF h(2)] show ?thesis by simp
qed

lemma approve_body_InrD:
  assumes "approve_body s ref now user token w = (Inr (Inr i), w')"
  shows "bots_ok (db w') \<and> (\<exists>h c. challengeHash s token = Some h \<and> find_challenge h (db w') = Some c \<and>
    lc_status c = ChallengeApproved)"
  using assms unfolding approve_body_def
proof (elim andThen_InrE, goal_cases)
  case (1 x w1)
  obtain c b where x: "x = (c, b)" by (rule prod.exhaust)
  from loadPending_InrD [OF 1(1) [unfolded x]] have h: "challengeHash s token = Some (lc_challenge_hash c)" by simp
  from 1(2) [unfolded x prod.case] show ?case
  proof (elim andThen_InrE, goal_cases)
    case (1 u w2 linked w3)
    from 1(3) have "\<exists>v u. consumeChallenge (lc_challenge_hash c) ChallengeApproved user now v = (Inr u, w')"
      by (auto simp: settle_link_def return_apply raise_apply elim!: andThen_InrE split: sum.splits if_splits)
    with h show ?thesis using consumeChallenge_InrD by blast
  qed
qed

lemma ApproveLink_InrD:
  assumes "ApproveLink s ref now user token w = (Inr i, w')"
  shows "bots_ok (db w') \<and> (\<exists>h c. challengeHash s token = Some h \<and> find_challenge h (db w') = Some c \<and>
    lc_status c = ChallengeApproved)"
  using assms unfolding ApproveLink_def
proof (elim andThen_InrE, goal_cases)
  case (1 u w1 outcome w2)
  from 1(3) have "outcome = Inr i" "w2 = w'" by (simp_all add: lift_result_apply)
  from transaction_InrD [OF 1(2)] this show ?case using approve_body_InrD by metis
qed

lemma spent_challenge_fails:
  assumes "challengeHash s token = Some h" "find_challenge h (db v) = Some c" "lc_status c \<noteq> ChallengePending"
  shows "\<exists>e. fst (loadPending s now token v) = Inl e"
proof (rule ccontr)
  assume "\<not> ?thesis"
  then obtain x where "fst (loadPending s now token v) = Inr x" by (metis sum.exhaust)
  then have "loadPending s now token v = (Inr (fst x, snd x), snd (loadPending s now token v))" by (simp add: prod_eq_iff)
  from loadPending_InrD [OF this] assms show False by simp
qed


section \<open>The floor of an unlink operation\<close>

text \<open>\<open>m\<close> is a floor of the user's entry epochs: no live identity is below it, and the next one will not be.\<close>

definition below_floor :: "nat \<Rightarrow> u64 \<Rightarrow> account_db \<Rightarrow> bot_identity list" where
  "below_floor user m d = filter (\<lambda>i. live_identity i \<and> bid_user_id i = user \<and> bid_entry_epoch i < m) (ac_identities d)"

definition entry_floor :: "nat \<Rightarrow> u64 \<Rightarrow> account_db \<Rightarrow> bool" where
  "entry_floor user m d \<longleftrightarrow> identities_ok d \<and> m \<le> max_entry_epoch user d \<and> below_floor user m d = []"

lemma entry_floor_later:
  assumes "entry_floor user m d" "identity_protocol d d'"
  shows "entry_floor user m d'"
proof -
  have ok: "identities_ok d" and top: "m \<le> max_entry_epoch user d" and none: "below_floor user m d = []"
    using assms(1) by (simp_all add: entry_floor_def)
  note D = identity_protocolD [OF assms(2) ok]
  have "max_entry_epoch user d \<le> max_entry_epoch user d'"
    by (rule max_entry_epoch_mono [OF D(1)]) (use D(2) in blast)
  with top have "m \<le> max_entry_epoch user d'" by simp
  moreover have "m \<le> bid_entry_epoch i'" if i': "i' \<in> set (ac_identities d')" "live_identity i'" "bid_user_id i' = user" for i'
    using D(3) [OF i'(1)]
  proof
    assume "\<exists>i\<in>set (ac_identities d). identity_follows i i'"
    then obtain i where i: "i \<in> set (ac_identities d)" "identity_follows i i'" by blast
    then have "live_identity i" "bid_user_id i = user" "bid_entry_epoch i \<le> bid_entry_epoch i'"
      using i'(2,3) by (auto simp: identity_follows_def)
    with none i(1) show ?thesis by (force simp: below_floor_def filter_empty_conv)
  next
    assume "max_entry_epoch (bid_user_id i') d \<le> bid_entry_epoch i'"
    with top i'(3) show ?thesis by simp
  qed
  ultimately show ?thesis using D(1) by (auto simp: entry_floor_def below_floor_def filter_empty_conv not_less)
qed

lemma raise_epochs_floor:
  assumes "bots_ok (raise_epochs user m d)" "identity_of_bot user botID d = Some i"
  shows "entry_floor user m (raise_epochs user m d)"
proof -
  let ?d = "raise_epochs user m d"
  from assms(2) have i: "i \<in> set (ac_identities d)" "live_identity i" "bid_user_id i = user"
    by (auto simp: identity_of_bot_def dest: find_SomeD)
  then have "i\<lparr>bid_entry_epoch := m\<rparr> \<in> set (ac_identities ?d)"
    by (auto simp: raise_epochs_def set_identities_def update_where_def image_iff intro!: bexI [of _ i])
  from Max_ge_epoch [OF this] i(3) have "m \<le> max_entry_epoch user ?d" by simp
  moreover have "\<not> (live_identity i' \<and> bid_user_id i' = user \<and> bid_entry_epoch i' < m)" if i': "i' \<in> set (ac_identities ?d)" for i'
  proof -
    have "i' \<in> (\<lambda>i. if live_identity i \<and> bid_user_id i = user then i\<lparr>bid_entry_epoch := m\<rparr> else i) ` set (ac_identities d)"
    proof -
      have "ac_identities ?d = map (\<lambda>i. if live_identity i \<and> bid_user_id i = user then i\<lparr>bid_entry_epoch := m\<rparr> else i) (ac_identities d)"
        by (simp add: raise_epochs_def set_identities_def update_where_def)
      with i' show ?thesis by (simp only: set_map)
    qed
    then obtain i where "i' = (if live_identity i \<and> bid_user_id i = user then i\<lparr>bid_entry_epoch := m\<rparr> else i)" by (elim imageE)
    then show ?thesis by (cases "live_identity i \<and> bid_user_id i = user") auto
  qed
  then have "below_floor user m ?d = []" unfolding below_floor_def filter_empty_conv by blast
  ultimately show ?thesis using bots_identities_ok [OF assms(1)] by (simp add: entry_floor_def)
qed

lemma writeAudit_InrD: "writeAudit user action botID issuer subject w = (Inr u, w') \<Longrightarrow>
    ac_identities (db w') = ac_identities (db w) \<and> ac_challenges (db w') = ac_challenges (db w) \<and>
    ac_unlinks (db w') = ac_unlinks (db w)"
  unfolding writeAudit_def by (auto elim!: wrapped_InrE bot_change_InrE)

lemma UnlinkTx_InrD:
  assumes "UnlinkTx now user botID w = (Inr u, w')"
  shows "identity_protocol (db w) (db w') \<and> ac_unlinks (db w') = ac_unlinks (db w)"
  using assms unfolding UnlinkTx_def
proof (elim andThen_InrE, goal_cases)
  case (1 found w1)
  from 1(1) have w1: "db w1 = db w" by (auto elim!: wrapped_InrE query_InrE)
  show ?case
  proof (cases found)
    case None
    with 1(2) show ?thesis by (simp add: raise_apply)
  next
    case (Some row)
    from 1(2) show ?thesis unfolding Some option.case
    proof (elim andThen_InrE, goal_cases)
      case (1 u2 w2)
      from 1(1) have d: "db w2 = delete_identity row now (db w)" "bots_ok (delete_identity row now (db w))"
        using w1 by (auto elim!: wrapped_InrE bot_change_InrE)
      have "identity_protocol (db w) (db w2)"
        unfolding d(1) delete_identity_def
        by (rule set_identities_protocol [OF d(2) [unfolded delete_identity_def]])
          (auto simp: identity_follows_def live_identity_def)
      moreover have "identity_protocol (db w2) (db w')"
        using writeAudit_InrD [OF 1(2)] by (simp add: beside_identities)
      ultimately have "identity_protocol (db w) (db w')" by (rule identities.R_trans)
      moreover have "ac_unlinks (db w') = ac_unlinks (db w)"
        using writeAudit_InrD [OF 1(2)] by (simp add: d(1) delete_identity_def set_identities_def)
      ultimately show ?thesis by blast
    qed
  qed
qed

lemma bot_change_frame: "(\<And>d. f (g d) = f d) \<Longrightarrow> frames f (bot_change g)"
  by (rule bot_change_frames)

lemma framesD_db: "frames f m \<Longrightarrow> m w = (r, w') \<Longrightarrow> f (db w') = f (db w)"
  unfolding frames_def by (metis snd_conv)

definition entry_tables :: "account_db \<Rightarrow> bot_identity list \<times> link_challenge list \<times> unlink_operation list" where
  "entry_tables d = (ac_identities d, ac_challenges d, ac_unlinks d)"

lemma admit_frames:
  "frames entry_tables (collectIdentityGrantIDs user b)"
  "frames entry_tables (for_each ids (\<lambda>g. bot_change (insert_target i g)))"
  "frames entry_tables (account_change (mark_pending_epoch ids minimum))"
  unfolding collectIdentityGrantIDs_def
  by (intro keeps_rules bot_change_frames account_change_frames | simp add: entry_tables_def insert_target_def mark_pending_epoch_def)+

text \<open>The minimum of a stored operation never changes.\<close>

definition unlink_minimum :: "string \<Rightarrow> u64 \<Rightarrow> account_db \<Rightarrow> bool" where
  "unlink_minimum i m d \<longleftrightarrow> list_all (\<lambda>o1. uo_operation_id o1 = i \<longrightarrow> uo_minimum_entry_epoch o1 = m) (ac_unlinks d)"

text \<open>What an admitted unlink operation leaves: the floor, the row, and a minimum above all epochs so far.\<close>

lemma admitUnlink_InrD:
  assumes "admitUnlink now user botID i w = (Inr (operation, ids), w')"
  shows "entry_floor user (uo_minimum_entry_epoch operation) (db w') \<and>
    uo_minimum_entry_epoch operation = max_entry_epoch user (db w) + 1 \<and> unlink_minimum i (uo_minimum_entry_epoch operation) (db w') \<and>
    uo_operation_id operation = i"
  using assms unfolding admitUnlink_def Let_def
proof (elim andThen_InrE, goal_cases)
  case (1 identity w1 maximum w2 u w3 ids' w4 u4 w5 u5 w6 u6 w7 u7 w8)
  let ?m = "maximum + 1" and ?row = "unlink_row i user botID identity (maximum + 1) ids' now"
  from 1(1) have w1: "identity_of_bot user botID (db w) = Some identity" "db w1 = db w" by (auto elim!: select_one_InrE)
  from 1(2) have m: "maximum = max_entry_epoch user (db w)" "db w2 = db w" using w1(2) by (auto elim!: query_InrE)
  from 1(3) have d3: "db w3 = raise_epochs user ?m (db w)" "bots_ok (db w3)" using m(2) by (auto elim!: bot_change_InrE)
  have floor3: "entry_floor user ?m (db w3)"
    using raise_epochs_floor [OF _ w1(1), of ?m] d3 by simp
  have t4: "entry_tables (db w4) = entry_tables (db w3)" by (rule framesD_db [OF admit_frames(1) 1(4)])
  from 1(5) have d5: "db w5 = (db w4)\<lparr>ac_unlinks := ac_unlinks (db w4) @ [?row]\<rparr>" by (auto elim!: bot_change_InrE)
  have t6: "entry_tables (db w6) = entry_tables (db w5)" by (rule framesD_db [OF admit_frames(2) 1(6)])
  have t7: "entry_tables (db w7) = entry_tables (db w6)"
    using 1(7) framesD_db [OF admit_frames(3)] by (auto simp: return_apply split: if_splits)
  have "identity_protocol (db w3) (db w7)"
    by (rule beside_identities) (use t4 d5 t6 t7 in \<open>simp_all add: entry_tables_def\<close>)
  then have "entry_floor user ?m (db w8)"
    using UnlinkTx_InrD [OF 1(8)] floor3 by (blast intro: entry_floor_later)
  moreover have "unlink_minimum i ?m (db w8)"
  proof -
    have "bots_ok (db w5)" using 1(5) by (auto elim!: bot_change_InrE)
    then have "unique_on uo_operation_id (ac_unlinks (db w5))" by (rule bots_okD)
    then have "unlink_minimum i ?m (db w5)"
      unfolding d5 by (auto simp: unique_on_snoc unlink_minimum_def list_all_iff list_ex_iff unlink_row_def)
    moreover have "ac_unlinks (db w8) = ac_unlinks (db w5)"
      using UnlinkTx_InrD [OF 1(8)] t7 t6 by (simp add: entry_tables_def)
    ultimately show ?thesis by (simp add: unlink_minimum_def)
  qed
  moreover from 1(9) have "operation = ?row \<and> w8 = w'" by (auto simp: return_apply)
  ultimately show ?case using m(1) by (simp add: unlink_row_def)
qed

lemma admit_or_resume_InrD:
  assumes "admit_or_resume now user botID i w = (Inr (operation, ids), w')" "find_unlink i (db w) = None"
  shows "entry_floor user (uo_minimum_entry_epoch operation) (db w') \<and>
    uo_minimum_entry_epoch operation = max_entry_epoch user (db w) + 1 \<and> unlink_minimum i (uo_minimum_entry_epoch operation) (db w') \<and>
    uo_operation_id operation = i"
  using assms(1) unfolding admit_or_resume_def
proof (elim andThen_InrE, goal_cases)
  case (1 u w1 found w2)
  from 1(1,2) have d: "db w1 = db w" "db w2 = db w" "found = find_unlink i (db w)"
    by (auto elim!: select_one_InrE query_InrE)
  with 1(3) assms(2) have "admitUnlink now user botID i w2 = (Inr (operation, ids), w')" by simp
  from admitUnlink_InrD [OF this] show ?case unfolding d(2) .
qed

lemma unlink_minimum_set:
  "(\<And>o1. uo_operation_id (f o1) = uo_operation_id o1 \<and> uo_minimum_entry_epoch (f o1) = uo_minimum_entry_epoch o1) \<Longrightarrow>
   unlink_minimum i m d \<Longrightarrow> unlink_minimum i m (d\<lparr>ac_unlinks := update_where p f (ac_unlinks d)\<rparr>)"
  by (auto simp: unlink_minimum_def update_where_def list_all_iff)

lemma Reconcile_minimum:
  fixes invalidator :: "'l grant_invalidator"
  assumes "invalidator_reads invalidator"
  shows "keeps (unlink_minimum i m) (ReconcileGrantInvalidation invalidator g now)"
proof -
  have c: "keeps (unlink_minimum i m) (account_write (\<lambda>d. (n d, d\<lparr>ac_grants := h d\<rparr>)) :: ('l, nat) aeff)"
    for n :: "account_db \<Rightarrow> nat" and h
    by (rule account_write_keeps) (simp add: unlink_minimum_def)
  have t: "keeps (unlink_minimum i m) (account_change (\<lambda>d. d\<lparr>ac_unlink_targets := h d\<rparr>) :: ('l, unit) aeff)" for h
    by (rule account_change_keeps) (simp add: unlink_minimum_def)
  have o1: "keeps (unlink_minimum i m) (account_change (\<lambda>d. d\<lparr>ac_unlinks := update_where (p d)
      (\<lambda>u. u\<lparr>uo_state := UnlinkComplete, uo_completed_at := Some now\<rparr>) (ac_unlinks d)\<rparr>) :: ('l, unit) aeff)" for p
    by (rule account_change_keeps) (simp add: unlink_minimum_set)
  have inv: "keeps (unlink_minimum i m) (f x)" if "invalidator = Some f" for f x
    using assms that by (auto simp: invalidator_reads_def intro: frames_id_keeps)
  show ?thesis
    unfolding ReconcileGrantInvalidation_def propagate_def invalidateGrant_def completeGrantInvalidation_def getBinding_def
      complete_invalidation_body_def settle_invalidation_def confirm_unlinks_def completeConfirmedUnlinkOperations_def Let_def
    by (intro keeps_rules c t o1 inv | simp)+
qed

lemma refresh_InrD:
  assumes "refreshUnlinkState now user botID i w = (Inr res, w')" "base w = None" "unlink_minimum i m (db w)"
  shows "ur_minimum_entry_epoch res = m"
proof -
  from assms(1) obtain operation where res: "res = unlinkResult operation" and
    op: "\<exists>o1. find_unlink i (db w) = Some o1 \<and> uo_minimum_entry_epoch operation = uo_minimum_entry_epoch o1"
    unfolding refreshUnlinkState_def using assms(2)
    by (auto elim!: account_success transaction_InrE bot_change_InrE split: if_splits)
  then obtain o1 where "o1 \<in> set (ac_unlinks (db w))" "uo_operation_id o1 = i" "uo_minimum_entry_epoch operation = uo_minimum_entry_epoch o1"
    by (auto simp: find_unlink_def dest: find_SomeD)
  with assms(3) res show ?thesis by (auto simp: unlink_minimum_def list_all_iff unlinkResult_def)
qed

lemma unlink_rest_holds:
  fixes invalidator :: "'l grant_invalidator"
  assumes "invalidator_reads invalidator"
  shows "keeps (identity_protocol d0) (for_each ids (\<lambda>g. ignoring (ReconcileGrantInvalidation invalidator g now)))"
    "keeps (unlink_minimum i m) (for_each ids (\<lambda>g. ignoring (ReconcileGrantInvalidation invalidator g now)))"
  by (intro keeps_rules keeps_ignoring Reconcile_protocol Reconcile_minimum assms)+

lemma Reconcile_base:
  fixes invalidator :: "'l grant_invalidator"
  assumes "invalidator_reads invalidator"
  shows "runs grant_protocol (for_each ids (\<lambda>g. ignoring (ReconcileGrantInvalidation invalidator g now)))"
  unfolding ignoring_def by (intro grants.rules ReconcileGrant_runs assms)

text \<open>C14: An unlink operation sets a floor under the user's entry epochs.  Its minimum is above every epoch
  the user had, on any bot; when it returns, and for ever after, no live identity of the user is
  below the minimum.  A ticket with an epoch from before is thus told apart from all that follow,
  also when the user links the same account again.\<close>

theorem unlink_sets_floor:
  fixes w :: "'l aworld"
  assumes unlink: "UnlinkIdentity invalidator s now user botID operationID w = (Inr res, w1)"
    and first: "find_unlink (trim_space operationID) (db w) = None" "base w = None" "identities_ok (db w)"
    and reads: "invalidator_reads invalidator" and later: "identity_protocol (db w1) d"
  shows "max_entry_epoch user (db w) < ur_minimum_entry_epoch res \<and> below_floor user (ur_minimum_entry_epoch res) d = []"
proof -
  let ?i = "trim_space operationID"
  from unlink obtain operation ids v where
    tx: "db_transaction (admit_or_resume now user botID ?i) w = (Inr (operation, ids), v)" and
    rest: "(if uo_state operation = UnlinkComplete then return (unlinkResult operation)
        else andThen (for_each ids (\<lambda>g. ignoring (ReconcileGrantInvalidation invalidator g now)))
          (\<lambda>_. refreshUnlinkState now user botID ?i)) v = (Inr res, w1)"
    unfolding UnlinkIdentity_def Let_def by (auto elim!: andThen_InrE require_InrE)
  let ?m = "uo_minimum_entry_epoch operation"
  obtain v' where body: "admit_or_resume now user botID ?i (w\<lparr>base := Some (db w)\<rparr>) = (Inr (operation, ids), v')"
    and v: "db v = db v'" "base v = None"
    using tx first(2) by (auto elim!: transaction_InrE)
  have "find_unlink ?i (db (w\<lparr>base := Some (db w)\<rparr>)) = None" using first(1) by simp
  note adm = admit_or_resume_InrD [OF body this]
  have start: "db (w\<lparr>base := Some (db w)\<rparr>) = db w" by simp
  have admitted: "entry_floor user ?m (db v)" "?m = max_entry_epoch user (db w) + 1" "unlink_minimum ?i ?m (db v)"
    using adm unfolding v(1) start by blast+
  have "ur_minimum_entry_epoch res = ?m \<and> identity_protocol (db v) (db w1)"
  proof (cases "uo_state operation = UnlinkComplete")
    case True
    with rest show ?thesis by (auto simp: return_apply unlinkResult_def identities.R_refl)
  next
    case False
    with rest obtain xs w2 where told: "for_each ids (\<lambda>g. ignoring (ReconcileGrantInvalidation invalidator g now)) v = (Inr xs, w2)"
      and refresh: "refreshUnlinkState now user botID ?i w2 = (Inr res, w1)"
      by (auto elim!: andThen_InrE)
    have base: "base w2 = None" by (rule runsD(1) [OF Reconcile_base [OF reads] told v(2)])
    have "holds (unlink_minimum ?i ?m) w2"
      using keepsD [OF unlink_rest_holds(2) [OF reads], of ?i ?m v ids now] told v(2) admitted(3) by (simp add: holds_def)
    then have "ur_minimum_entry_epoch res = ?m" using refresh_InrD [OF refresh base] by (simp add: holds_def)
    moreover have "holds (identity_protocol (db v)) w2"
      using keepsD [OF unlink_rest_holds(1) [OF reads], of "db v" v ids now] told v(2) by (simp add: holds_def identities.R_refl)
    then have "holds (identity_protocol (db v)) w1"
      using keepsD [OF refresh_protocol, of "db v" w2 now user botID ?i] refresh by simp
    ultimately show ?thesis by (simp add: holds_def)
  qed
  moreover have "max_entry_epoch user (db w) < max_entry_epoch user (db w) + 1"
    using max_entry_epoch_ok [OF first(3), of user]
    by (simp add: epoch_ok_def bigint_ok_def word_less_nat_alt unat_word_ariths)
  moreover have "entry_floor user ?m d" if "identity_protocol (db v) (db w1)"
    by (rule entry_floor_later [OF admitted(1) identities.R_trans [OF that later]])
  ultimately show ?thesis using admitted(2) by (auto simp: entry_floor_def)
qed

section \<open>A user with a challenge and an identity, for the examples\<close>

definition sample_entry :: entry_service where
  "sample_entry = \<lparr>en_base_url = ''https://example.org'', en_ttl = defaultChallengeTTL, en_resolve = (\<lambda>base fragment. Some (base @ CHR ''#'' # fragment)),
     en_sha256 = (\<lambda>_. ''h''), en_parse_uuid = Some\<rparr>"

definition sample_secret :: string where "sample_secret = replicate 32 CHR ''a''"

definition sample_challenge :: link_challenge where
  "sample_challenge = \<lparr>lc_challenge_hash = ''68'', lc_consumer = ''bot-a'', lc_bot_id = ''bot'', lc_issuer = ''urn:paigram:entry:bot'',
     lc_external_subject = ''42'', lc_external_username = None, lc_status = ChallengePending, lc_expires_at = 100,
     lc_approved_user_id = None, lc_consumed_at = None\<rparr>"

definition challenged_registry :: account_db where
  "challenged_registry = insert_challenge sample_challenge sample_registry"

definition sample_identity :: bot_identity where
  "sample_identity = (fresh_identity (challenge_link 7 sample_challenge) ''urn:paigram:entry:bot'' ''r'' 1 5)\<lparr>bid_id := 1\<rparr>"

definition linked_registry :: account_db where
  "linked_registry = challenged_registry\<lparr>ac_identities := [sample_identity], ac_next_identity_id := 2,
     ac_audit_log := [\<lparr>al_user_id = 7, al_action = ''telegram_link_created'', al_bot_id = ''bot'',
       al_issuer = ''urn:paigram:entry:bot'', al_external_user_id = ''42''\<rparr>]\<rparr>"

definition spent_challenge :: link_challenge where
  "spent_challenge = sample_challenge\<lparr>lc_status := ChallengeApproved, lc_approved_user_id := Some 7, lc_consumed_at := Some 5\<rparr>"

definition approved_registry :: account_db where
  "approved_registry = linked_registry\<lparr>ac_challenges := [spent_challenge]\<rparr>"

lemma sample_hash: "challengeHash sample_entry (base64url_encode sample_secret) = Some ''68''"
proof -
  have "hex_encode ''h'' = ''68''" by code_simp
  then show ?thesis
    by (simp add: challengeHash_def base64url_decode_encode sample_secret_def challengeEntropyBytes_def hashChallengeBytes_def
        sample_entry_def)
qed

lemmas identity_sample_defs = challenged_registry_def sample_challenge_def insert_challenge_def sample_identity_def
  fresh_identity_def challenge_link_def linked_registry_def spent_challenge_def approved_registry_def

lemma sample_bots: "bot_violation (linked_registry\<lparr>ac_audit_log := []\<rparr>) = None" "bot_violation linked_registry = None"
  "bot_violation approved_registry = None" "bot_violation challenged_registry = None"
  by (simp_all add: registry_ok_defs identity_sample_defs live_identity_def has_credential_def)

lemma sample_loads: "faults w = [] \<Longrightarrow> db w = challenged_registry \<Longrightarrow>
  loadPending sample_entry 5 (base64url_encode sample_secret) w =
    (Inr (sample_challenge, service_bot ''bot'' ''urn:paigram:entry:bot'' 7), w)"
proof -
  assume w: "faults w = []" "db w = challenged_registry"
  have "find_challenge ''68'' challenged_registry = Some sample_challenge"
    "principal_credential ''bot-a'' ''bot'' challenged_registry = Some sample_client"
    "active_bot ''bot'' challenged_registry = Some (service_bot ''bot'' ''urn:paigram:entry:bot'' 7)"
    by (simp_all add: find_challenge_def principal_credential_def active_bot_def identity_sample_defs sample_registry_defs)
  moreover have "trim_space ''urn:paigram:entry:bot'' = ''urn:paigram:entry:bot''" by code_simp
  ultimately show ?thesis
    using w by (simp add: loadPending_def sample_hash effect_simps)
      (simp add: sample_challenge_def service_bot_def effect_simps w)
qed

lemma sample_insert:
  "insert_identity (fresh_identity (challenge_link 7 sample_challenge) ''urn:paigram:entry:bot'' ''r'' 1 5) challenged_registry =
     (Some sample_identity, linked_registry\<lparr>ac_audit_log := []\<rparr>)"
  by (simp add: insert_identity_def identity_conflict_def identity_sample_defs sample_registry_defs Let_def)

lemma sample_lookups:
  "live_user 7 challenged_registry \<noteq> None" "pending_unlinks 7 ''bot'' challenged_registry = 0"
  "identity_of_subject ''urn:paigram:entry:bot'' ''42'' challenged_registry = None"
  "identity_of_user 7 ''urn:paigram:entry:bot'' challenged_registry = None" "max_entry_epoch 7 challenged_registry = 1"
  "active_bot ''bot'' challenged_registry = Some (service_bot ''bot'' ''urn:paigram:entry:bot'' 7)"
  "trim_space ''urn:paigram:entry:bot'' = ''urn:paigram:entry:bot''" "max_entry_epoch 7 linked_registry = 1"
  by (simp_all add: live_user_def pending_unlinks_def count_where_def identity_of_subject_def identity_of_user_def
      max_entry_epoch_def active_bot_def identity_sample_defs sample_registry_defs) code_simp

lemma sample_link:
  assumes "faults w = []" "db w = challenged_registry"
  shows "UpsertLinkTx ''r'' 5 (challenge_link 7 sample_challenge) w = (Inr sample_identity, w\<lparr>db := linked_registry\<rparr>)"
proof -
  have input: "li_bot_id (challenge_link 7 sample_challenge) = ''bot''" "li_user_id (challenge_link 7 sample_challenge) = 7"
    "li_external_user_id (challenge_link 7 sample_challenge) = ''42''"
    "li_issuer (challenge_link 7 sample_challenge) = ''urn:paigram:entry:bot''"
    by (simp_all add: challenge_link_def sample_challenge_def)
  obtain u where user: "live_user 7 challenged_registry = Some u" using sample_lookups(1) by auto
  have issuer: "resolveRegisteredIssuer ''bot'' ''urn:paigram:entry:bot'' w = (Inr ''urn:paigram:entry:bot'', w)"
    using assms sample_lookups(6,7) by (simp add: resolveRegisteredIssuer_def wrapped_def effect_simps Let_def service_bot_def)
  have audit: "writeAudit 7 ''telegram_link_created'' ''bot'' ''urn:paigram:entry:bot'' ''42'' (w\<lparr>db := linked_registry\<lparr>ac_audit_log := []\<rparr>\<rparr>)
      = (Inr (), w\<lparr>db := linked_registry\<rparr>)"
  proof -
    have "(linked_registry\<lparr>ac_audit_log := []\<rparr>)\<lparr>ac_audit_log := [\<lparr>al_user_id = 7, al_action = ''telegram_link_created'',
        al_bot_id = ''bot'', al_issuer = ''urn:paigram:entry:bot'', al_external_user_id = ''42''\<rparr>]\<rparr> = linked_registry"
      by (simp add: linked_registry_def)
    with assms(1) sample_lookups(7) sample_bots(2) show ?thesis
      by (simp add: writeAudit_def wrapped_def effect_simps)
  qed
  have fresh: "link_fresh (challenge_link 7 sample_challenge) ''urn:paigram:entry:bot'' ''r'' 5 w =
      (Inr sample_identity, w\<lparr>db := linked_registry\<rparr>)"
    using assms by (simp add: link_fresh_def wrapped_def effect_simps input sample_lookups sample_insert sample_bots audit)
  show ?thesis
    using assms by (simp add: UpsertLinkTx_def input wrapped_def effect_simps user issuer sample_lookups fresh)
qed

lemma sample_consume:
  assumes "faults w = []" "db w = linked_registry"
  shows "settle_link 5 7 sample_challenge (Inr sample_identity) w = (Inr (Inr sample_identity), w\<lparr>db := approved_registry\<rparr>)"
proof -
  have "bid_user_id sample_identity = 7" "bid_entry_epoch sample_identity = 1"
    by (simp_all add: identity_sample_defs)
  then have align: "alignEntryEpoch sample_identity w = (Inr sample_identity, w)"
    using assms by (simp add: alignEntryEpoch_def effect_simps sample_lookups)
  have one: "ac_challenges linked_registry = [sample_challenge]"
    by (simp add: linked_registry_def challenged_registry_def insert_challenge_def sample_registry_defs)
  have set: "set_challenges (\<lambda>c. lc_challenge_hash c = ''68'' \<and> lc_status c = ChallengePending)
      (\<lambda>c. c\<lparr>lc_status := ChallengeApproved, lc_approved_user_id := Some 7, lc_consumed_at := Some 5\<rparr>) linked_registry = approved_registry"
    by (simp add: set_challenges_def one approved_registry_def spent_challenge_def) (simp add: sample_challenge_def)
  have "consumeChallenge ''68'' ChallengeApproved 7 5 w = (Inr (), w\<lparr>db := approved_registry\<rparr>)"
    using assms by (simp add: consumeChallenge_def effect_simps set one sample_bots Let_def)
      (simp add: count_where_def sample_challenge_def effect_simps)
  with align show ?thesis by (simp add: settle_link_def effect_simps) (simp add: sample_challenge_def effect_simps)
qed

lemma sample_approve: "ApproveLink sample_entry ''r'' 5 7 (base64url_encode sample_secret) (account_world challenged_registry :: 'l aworld) =
  (Inr sample_identity, account_world approved_registry)"
proof -
  obtain u where user: "live_user 7 challenged_registry = Some u" using sample_lookups(1) by auto
  let ?w = "(account_world challenged_registry :: 'l aworld)\<lparr>base := Some challenged_registry\<rparr>"
  have w: "faults ?w = []" "db ?w = challenged_registry" by (simp_all add: account_world_def)
  have "approve_body sample_entry ''r'' 5 7 (base64url_encode sample_secret) ?w = (Inr (Inr sample_identity), ?w\<lparr>db := approved_registry\<rparr>)"
    using w sample_consume [of "?w\<lparr>db := linked_registry\<rparr>"]
    by (simp add: approve_body_def andThen_apply sample_loads select_one_no_fault user attempt_apply sample_link)
  then show ?thesis by (simp add: ApproveLink_def transaction_def effect_simps account_world_def)
qed



definition raised_identity :: bot_identity where
  "raised_identity = sample_identity\<lparr>bid_entry_epoch := 2\<rparr>"

definition sample_unlink :: unlink_operation where
  "sample_unlink = unlink_row ''op'' 7 ''bot'' sample_identity 2 [] 6"

definition raised_registry :: account_db where
  "raised_registry = linked_registry\<lparr>ac_identities := [raised_identity]\<rparr>"

definition admitted_registry :: account_db where
  "admitted_registry = raised_registry\<lparr>ac_unlinks := [sample_unlink]\<rparr>"

definition deleted_registry :: account_db where
  "deleted_registry = admitted_registry\<lparr>ac_identities := [raised_identity\<lparr>bid_deleted_at := Some 6\<rparr>]\<rparr>"

definition unlinked_registry :: account_db where
  "unlinked_registry = deleted_registry\<lparr>ac_audit_log := ac_audit_log linked_registry @ [\<lparr>al_user_id = 7,
     al_action = ''telegram_link_revoked'', al_bot_id = ''bot'', al_issuer = ''urn:paigram:entry:bot'', al_external_user_id = ''42''\<rparr>]\<rparr>"

lemmas unlink_sample_defs = raised_identity_def sample_unlink_def raised_registry_def admitted_registry_def deleted_registry_def
  unlinked_registry_def unlink_row_def identity_sample_defs sample_registry_defs

lemma unlink_bots: "bot_violation raised_registry = None" "bot_violation admitted_registry = None"
  "bot_violation deleted_registry = None" "bot_violation unlinked_registry = None"
  by (simp_all add: registry_ok_defs unlink_sample_defs live_identity_def has_credential_def)

lemma unlink_lookups:
  "identity_of_bot 7 ''bot'' linked_registry = Some sample_identity" "identity_of_bot 7 ''bot'' admitted_registry = Some raised_identity"
  "raise_epochs 7 2 linked_registry = raised_registry" "bot_consumers ''bot'' raised_registry = [''bot-a'']"
  "grants_of_user 7 [''bot-a''] raised_registry = []" "find_unlink ''op'' linked_registry = None"
  "delete_identity raised_identity 6 admitted_registry = deleted_registry"
  by (simp_all add: identity_of_bot_def raise_epochs_def set_identities_def bot_consumers_def grants_of_user_def find_unlink_def
      delete_identity_def unlink_sample_defs live_identity_def)

lemma sample_unlink_admit:
  assumes "faults w = []" "db w = linked_registry"
  shows "admitUnlink 6 7 ''bot'' ''op'' w = (Inr (sample_unlink, []), w\<lparr>db := unlinked_registry\<rparr>)"
proof -
  have unlinks: "ac_unlinks raised_registry = []" by (simp add: unlink_sample_defs)
  have bid: "bid_bot_id sample_identity = ''bot''" "bid_issuer raised_identity = ''urn:paigram:entry:bot''"
    "bid_external_user_id raised_identity = ''42''" by (simp_all add: unlink_sample_defs)
  have log: "ac_audit_log deleted_registry = ac_audit_log linked_registry"
    by (simp add: deleted_registry_def admitted_registry_def raised_registry_def)
  have audit: "writeAudit 7 ''telegram_link_revoked'' ''bot'' ''urn:paigram:entry:bot'' ''42'' (w\<lparr>db := deleted_registry\<rparr>)
      = (Inr (), w\<lparr>db := unlinked_registry\<rparr>)"
    using assms(1) sample_lookups(7) unlink_bots(4)
    by (simp add: writeAudit_def wrapped_def effect_simps log flip: unlinked_registry_def)
  have unlink: "UnlinkTx 6 7 ''bot'' (w\<lparr>db := admitted_registry\<rparr>) = (Inr (), w\<lparr>db := unlinked_registry\<rparr>)"
    using assms(1) by (simp add: UnlinkTx_def wrapped_def effect_simps unlink_lookups unlink_bots bid audit)
  have collect: "collectIdentityGrantIDs 7 ''bot'' (w\<lparr>db := raised_registry\<rparr>) = (Inr [], w\<lparr>db := raised_registry\<rparr>)"
    using assms(1) by (simp add: collectIdentityGrantIDs_def effect_simps unlink_lookups)
  show ?thesis
    using assms by (simp add: admitUnlink_def effect_simps unlink_lookups sample_lookups unlink_bots bid collect unlinks Let_def
        unlink flip: sample_unlink_def admitted_registry_def)
qed

lemma sample_unlink_run: "UnlinkIdentity (Some acct_tell) sample_entry 6 7 ''bot'' ''op'' (account_world linked_registry) =
  (Inr (unlinkResult sample_unlink), account_world unlinked_registry)"
proof -
  have user: "live_user 7 linked_registry \<noteq> None" by (simp add: live_user_def unlink_sample_defs)
  have trims: "trim_space ''op'' = ''op''" "trim_space ''bot'' \<noteq> ''''" by code_simp+
  have state: "uo_state sample_unlink = UnlinkComplete" by (simp add: sample_unlink_def unlink_row_def)
  let ?w = "(account_world linked_registry :: GrantInvalidationInput aworld)\<lparr>base := Some linked_registry\<rparr>"
  have "admit_or_resume 6 7 ''bot'' ''op'' ?w = (Inr (sample_unlink, []), ?w\<lparr>db := unlinked_registry\<rparr>)"
    using user sample_unlink_admit [of ?w] by (auto simp: admit_or_resume_def effect_simps account_world_def unlink_lookups)
  then show ?thesis
    by (simp add: UnlinkIdentity_def validOperationID_def sample_entry_def trims transaction_def effect_simps account_world_def
        state Let_def)
qed

lemma unlink_sets_floor_witness:
  "max_entry_epoch 7 linked_registry < ur_minimum_entry_epoch (unlinkResult sample_unlink) \<and>
   below_floor 7 (ur_minimum_entry_epoch (unlinkResult sample_unlink)) unlinked_registry = []"
proof -
  have trims: "trim_space ''op'' = ''op''" by code_simp
  have "identities_ok linked_registry"
    by (rule bots_identities_ok) (simp add: bots_ok_def sample_bots)
  from unlink_sets_floor [OF sample_unlink_run _ _ _ acct_tell_reads, of unlinked_registry] this unlink_lookups(6) trims
  show ?thesis by (simp add: account_world_def identities.R_refl)
qed

end
