(* ===== verification/Spec2Isabelle.thy ===== *)
theory Spec2Isabelle
  imports Account_Reconcile Account_Identity
begin

text \<open>
  A verification development for the PaiGram account services.

  \<^bold>\<open>The program.\<close>  The repository holds two Go services.  \<^emph>\<open>Account Center\<close>
  (\<open>services/account-center\<close>) knows the users, the bots they talk to, the game accounts bound to a
  user (bindings), and which consumer (a bot or another service) may do what with a binding (consumer
  grants).  \<^emph>\<open>Platform Mihomo\<close> (\<open>services/platform-mihomo\<close>) holds the credentials of the game accounts
  and talks to the game platform.  Account Center calls the control service of a platform under a
  signed service ticket whose claims name the binding, its generation, the caller and the versions of
  the caller's rights.  A consumer calls the runtime service under a delegation ticket of Account
  Center.  Every mutation of a platform has an operation id: Account Center stores an intent for it and
  delivers it until the outcome is known, the platform stores a ledger row for it and executes it once.
  A right is withdrawn by raising its versions and sending the platform a fence, a lower bound for
  the versions it accepts.

  \<^bold>\<open>The model.\<close>  Both services keep their state in a relational database.  A table is a list of rows,
  a database a record of tables (\<open>mihomo_db\<close>, \<open>account_db\<close>), and an operation a function in the
  effect type \<open>eff\<close> of Prelude: it takes a world to a result (\<open>Inl\<close> an error, \<open>Inr\<close> a value) and the
  next world.  The world holds the tables as the operation sees them, the committed tables while a
  transaction is open, the schedule of statement failures (every statement consumes one entry and
  may fail for a reason the code does not control), and the log of calls to other systems, which no
  rollback undoes.  \<open>transaction\<close> commits a body that succeeds and restores the committed tables
  otherwise.  Constraints of the schema are checked by the statement that writes, and name the
  constraint they violate.  Each theorem about an operation holds for every schedule of failures unless
  it says \<open>faults w = []\<close>.  What the code gets from elsewhere is an argument: the clock, random
  bytes, SHA-256, AES-GCM, bcrypt, the JWT library, base64, JSON and the answers of the game platform.
  A theorem that relies on a library states the documented contract it needs as a hypothesis, and its
  witness runs the code with a concrete function in that place.

  \<^bold>\<open>The theories\<close>, in the order of their imports.
    \<^item> Prelude, Tables: effects, transactions, external calls; UPDATE, DELETE, SELECT and INSERT on lists
      of rows.  The collections \<open>keeps_rules\<close> and \<open>effect_simps\<close> carry most proofs: \<open>keeps I m\<close> says that
      every point at which \<open>m\<close> may stop preserves \<open>I\<close>, \<open>runs R m\<close> that \<open>m\<close> takes the committed tables
      along \<open>R\<close>, \<open>frames f m\<close> that \<open>f\<close> of the tables is untouched, and \<open>pins_committed m\<close> that \<open>m\<close> leaves the committed
      tables of an open transaction alone.
    \<^item> Settling: the interface of a store of rows that close once; the ledger and the intents
      interpret it.
    \<^item> Contracts: \<open>contracts/runtime/go\<close> (operation ids and fingerprints, action lists, correlation
      fields, the health coordinator and monitor).
    \<^item> Mihomo_Model, Mihomo_Store, Mihomo_Artifacts, Mihomo_Fences, Mihomo_Ledger: the domain types and the
      repositories of \<open>internal/biz\<close> and \<open>internal/data\<close>.  Mihomo_Ledger relates the ledger to an abstract
      protocol of admit, commit, fail and resolve steps.
    \<^item> Mihomo_Crypto: \<open>internal/crypto\<close> and the re-encryption sweep.
    \<^item> Mihomo_Ticket, Mihomo_Scope: issuer, verifier and the authorization of a call.
    \<^item> Mihomo_Lifecycle, Mihomo_Custody, Mihomo_AuthKey, Mihomo_Profiles, Mihomo_Bind, Mihomo_Status: the use
      cases of \<open>internal/usecase\<close>.  Mihomo_Custody holds the invariant that no issued auth key is
      forgotten, even by a rollback.
    \<^item> Mihomo_Views, Mihomo_Control, Mihomo_Runtime, Mihomo_Service: the two gRPC services, and the
      service as one step relation (\<open>mihomo_call\<close>) with its periodic jobs.
    \<^item> Account_Model: the rows of \<open>internal/model\<close>, the errors of the packages and the constraints of the
      schema of Account Center.
    \<^item> Account_Bindings, Account_Intents, Account_Grants: \<open>binding_service.go\<close> and
      \<open>profile_projection_service.go\<close>; \<open>operation_intent_service.go\<close> and \<open>operation_recovery_service.go\<close>;
      the four files of consumer grants, all of \<open>service/platformbinding\<close>.
    \<^item> Account_Platform, Account_Gateway, Account_Orchestration, Account_Reconcile: tickets and fences of
      \<open>service/platform\<close>, the gateways to the control service, and the orchestration of operations.
      Account_Reconcile proves what the orchestration keeps and promises.
    \<^item> Account_Text, Account_Credentials: Go's text functions on bytes, and \<open>service/credentials\<close> with the
      token endpoint and the interceptor of the gRPC server: which clients get a token, and which
      calls a token opens.
    \<^item> Account_Identity: \<open>service/botlink\<close> and \<open>service/entryidentity\<close>, the identities of users on chat
      platforms, the challenges that link them and the operations that unlink them.
    \<^item> This theory: properties that span the two services.

  \<^bold>\<open>What the lemmas show.\<close>  Each component theory first gives the rules by which its operations are
  taken apart (\<open>..._InrE\<close>, \<open>..._keeps\<close>, \<open>..._frames\<close>, \<open>..._runs\<close>), then what holds of them.  The life cycles
  are step relations: \<open>ledger_step\<close> (an outcome is recorded once and never changes),
  \<open>intent_protocol\<close> (intents are never lost and close once), \<open>grant_protocol\<close> (versions never fall and rise with every
  change of the rights), \<open>custody\<close> (a key is delivered, in custody or revoked), \<open>raises\<close>
  (minima never fall), \<open>identity_protocol\<close> (identities are never transferred, epochs never fall).  Every operation is shown to run along them whatever statements fail, and
  the properties are read off their closures.  The root theory composes them: a grant revoked in Account
  Center, its fence accepted by the Mihomo ledger, is a grant whose tickets get no auth key from the
  runtime service, however many calls come in between.

  \<^bold>\<open>Bounds and fuel.\<close>  A serializable transaction of the grants is tried four times, as in the code;
  which attempts conflict is an argument.  The re-encryption sweep pages through the credentials with
  fuel; it is shown to return for every fuel above the number of credentials
  (\<open>ReencryptAll_reseals\<close>).  Everything else terminates by structural recursion or a measure.  Versions,
  epochs and generations are words of 64 bits, and the checks of BIGINT columns are constraints.

  \<^bold>\<open>Not modelled.\<close>  \<open>created_at\<close> and \<open>updated_at\<close>, except where a query orders or filters by them; row
  locks and isolation levels (a transaction is one step, and interleaving is the interleaving of
  transactions and of single statements outside one); the refusal of further statements in a PostgreSQL
  transaction after a failed one; gaps in sequences after a rollback; the width of VARCHAR columns;
  collations (text is ordered by bytes); the contents of Redis, whose failures are outcomes; Unicode
  white space and case (ASCII only); JSON, protobuf, gRPC transport, TLS and file reading.  An operation
  reads the clock once.  Not modelled as components: HTTP handlers and the router of Account
  Center, sign-in, e-mail, users and roles, settings, configuration, metrics and start-up, the HTTP
  client of the game platform, the front end and the SDKs (PROJECT.json gives the reason for each).
\<close>

section \<open>Revocation across the control and the runtime service\<close>

lemma fenced_consumer_gets_no_key:
  assumes fenced: "serve s ctx od (Some m) (Apply_Fence fence) w = (Inr (Some msg), w1)"
      "rm_state msg = OPERATION_STATE_SUCCEEDED"
    and first: "base w = None" "find_operation (om_operation_id m) (db w) = None"
    and later: "mihomo_call\<^sup>*\<^sup>* (db w1) (db v)" "base v = None"
    and ticket: "presented_ticket ctx' = Some raw"
      "parse_ticket (rc_library ctx') (rc_verifier ctx') verified_at raw serviceTicketAudience = Inr (claims, kind)"
      "jc_binding_ref claims = om_binding_ref m" "jc_consumer claims = fr_consumer_principal fence"
      "\<not> Epochs (fr_minimum_grant_version fence) (fr_minimum_owner_epoch fence) (fr_minimum_consumer_epoch fence)
           (fr_minimum_entry_epoch fence) \<le> claims_epochs claims"
      "tv_authorization_state (rc_verifier ctx')"
  shows "\<exists>e. fst (GetAuthKey_rpc env dr verified_at now ch ctx' resource profileRef v) = Inl e"
proof (rule ccontr)
  let ?min = "Epochs (fr_minimum_grant_version fence) (fr_minimum_owner_epoch fence) (fr_minimum_consumer_epoch fence)
           (fr_minimum_entry_epoch fence)"
  assume "\<not> ?thesis"
  then obtain key v' where "GetAuthKey_rpc env dr verified_at now ch ctx' resource profileRef v = (Inr key, v')"
    by (metis prod.collapse sum.exhaust)
  note key = this
  from delivered_key [OF key later(2) ticket(6)] ticket(1,2,3,4)
  have delivered: "fence_minimum (om_binding_ref m) (fr_consumer_principal fence) (db v') \<le> claims_epochs claims"
    by auto
  from fenced(1) obtain ref tc mutation u where
    auth: "authorizeOperation (ct_codec s) ctx (Some m) (mutation_kind (Apply_Fence fence)) (mutation_action (Apply_Fence fence))
       (mutation_account (Apply_Fence fence)) (mutation_fingerprint s (Some m) (Apply_Fence fence)) w = (Inr (ref, tc), u)"
    and run: "execute_mutation s od ref mutation u = (Inr (Some msg), w1)"
    and mutation: "mutation = fence_mutation s od ref fence" by (rule serve_InrE) auto
  note u = authorization_world [OF auth first(1)]
  from auth have ref: "op_operation_id ref = om_operation_id m" "op_binding_ref ref = om_binding_ref m"
    by (auto elim!: authorizeOperation_InrE dest: operationFromProto_Inr(1,2))
  from run obtain res where ex: "Execute (od_now od) (od_token od) (od_new_token od) ref mutation u = (Inr (Some res), w1)"
    by (auto elim!: execute_mutation_InrE toOperationResult_Some [OF sym])
  then obtain x x' r where mut: "mutation x = (Inr (Some r), x')" "fences (db w1) = fences (db x')"
    by (rule Execute_first_InrE) (use u first(2) ref in auto)
  from fence_mutation_InrE [OF mut(1) [unfolded mutation]] mut(2)
  have "at_least ?min (om_binding_ref m) (fr_consumer_principal fence) (db w1)"
    by (simp add: at_least_def fence_minimum_def ref fence_epochs_def requested_fence_def)
  note at_v = mihomo_calls_at_least [OF later(1) this]
  from keeps_call [OF safe_at_least [OF GetAuthKey_rpc_frames] later(2) at_v] key
  have "?min \<le> fence_minimum (om_binding_ref m) (fr_consumer_principal fence) (db v')"
    by (metis at_least_def snd_conv)
  with delivered ticket(5) show False by (meson order_trans)
qed

text \<open>C1: Revoking a consumer works end to end.  Once Account Center's call that raises the minima of a
  consumer for a binding has succeeded, then after any further calls of any clients, with any
  failures, the runtime service hands out no auth key for a ticket of that consumer and binding whose
  grant version or epochs are below the minima of the call.\<close>

theorem revoked_consumer_gets_no_key:
  assumes fenced: "serve s ctx od (Some m) (Apply_Fence fence) w = (Inr (Some msg), w1)"
      "rm_state msg = OPERATION_STATE_SUCCEEDED"
    and first: "base w = None" "find_operation (om_operation_id m) (db w) = None"
    and later: "mihomo_call\<^sup>*\<^sup>* (db w1) (db v)" "base v = None"
    and ticket: "presented_ticket ctx' = Some raw"
      "parse_ticket (rc_library ctx') (rc_verifier ctx') verified_at raw serviceTicketAudience = Inr (claims, kind)"
      "jc_binding_ref claims = om_binding_ref m" "jc_consumer claims = fr_consumer_principal fence"
      "\<not> Epochs (fr_minimum_grant_version fence) (fr_minimum_owner_epoch fence) (fr_minimum_consumer_epoch fence)
           (fr_minimum_entry_epoch fence) \<le> claims_epochs claims"
      "tv_authorization_state (rc_verifier ctx')"
  shows "\<exists>e. fst (GetAuthKey_rpc env dr verified_at now ch ctx' resource profileRef v) = Inl e"
  by (rule fenced_consumer_gets_no_key [OF assms])

lemma revoked_consumer_gets_no_key_witness:
  "\<exists>e. fst (GetAuthKey_rpc sample_env sample_draws 0 0 sample_chance consumer_context (Some sample_resource) ''p1''
     (initial_world fenced_db)) = Inl e"
proof -
  obtain msg where m: "serve sample_control fence_context sample_op_draws (Some fence_message) (Apply_Fence sample_fence_request)
     (initial_world sealed_db) = (Inr (Some msg), initial_world fenced_db)" "rm_state msg = OPERATION_STATE_SUCCEEDED"
    by (rule sample_fence_serve)
  have new: "find_operation (om_operation_id fence_message) (db (initial_world sealed_db)) = None"
    by (simp add: find_operation_def sealed_db_def sample_db_def empty_mihomo_db_def)
  have below: "\<not> Epochs (fr_minimum_grant_version sample_fence_request) (fr_minimum_owner_epoch sample_fence_request)
      (fr_minimum_consumer_epoch sample_fence_request) (fr_minimum_entry_epoch sample_fence_request) \<le> claims_epochs consumer_jwt"
    by (simp add: consumer_ticket sample_fence_request_def less_eq_epochs_def)
  show ?thesis
    by (rule revoked_consumer_gets_no_key [OF m _ new _ _ consumer_ticket(1,2) _ _ below consumer_ticket(6)])
       (simp_all add: consumer_ticket fence_message_def sample_fence_request_def)
qed

section \<open>Revocation from Account Center to the runtime\<close>

text \<open>An answer of the platform is the Mihomo service's: the control service answered the call, for an
  operation its ledger did not know, and its tables have gone on since to those of \<open>d\<close>.\<close>

definition answered_by_mihomo :: "operation_message \<Rightarrow> fence_request \<Rightarrow> result_message \<Rightarrow> mihomo_db \<Rightarrow> bool" where
  "answered_by_mihomo m fence msg d \<longleftrightarrow> (\<exists>s (ctx :: string request_context) od x x1.
     base x = None \<and> find_operation (om_operation_id m) (db x) = None \<and>
     serve s ctx od (Some m) (Apply_Fence fence) x = (Inr (Some msg), x1) \<and> mihomo_call\<^sup>*\<^sup>* (db x1) d)"

definition platform_is_mihomo :: "platform_environment \<Rightarrow> mihomo_db \<Rightarrow> bool" where
  "platform_is_mihomo env d \<longleftrightarrow> (\<forall>dial endpoint conn token m fence msg. pe_dial env = Some dial \<longrightarrow>
     dial endpoint = Inr conn \<longrightarrow> pc_mutate conn token m (Apply_Fence fence) = Inr (Some msg) \<longrightarrow>
     answered_by_mihomo m fence msg d)"

text \<open>What an accepted fence leaves behind: no key for tickets below its grant version.\<close>

lemma told_platform_gives_no_key:
  assumes told: "InvalidateConsumerGrant env input w = (Inr u, w')" and platform: "platform_is_mihomo env (db v)"
    and v: "base v = None"
    and ticket: "presented_ticket ctx = Some raw"
      "parse_ticket (rc_library ctx) (rc_verifier ctx) verified_at raw serviceTicketAudience = Inr (claims, kind)"
      "jc_binding_ref claims = gi_binding_ref input" "jc_consumer claims = gi_consumer input"
      "jc_grant_version claims < gi_minimum_grant_version input" "tv_authorization_state (rc_verifier ctx)"
  shows "\<exists>e. fst (GetAuthKey_rpc menv dr verified_at now ch ctx resource profileRef v) = Inl e"
  using told
proof (rule InvalidateConsumerGrant_InrE)
  fix dial endpoint conn token r
  let ?m = "fence_operation env input" and ?f = "input_fence input"
  assume "pe_dial env = Some dial" "dial endpoint = Inr conn" "pc_mutate conn token ?m (Apply_Fence ?f) = Inr (Some r)"
    and accepted: "rm_state r = OPERATION_STATE_SUCCEEDED"
  with platform have "answered_by_mihomo ?m ?f r (db v)" by (auto simp: platform_is_mihomo_def)
  then obtain s od x x1 and mctx :: "string request_context" where x: "base x = None" "find_operation (om_operation_id ?m) (db x) = None"
    and served: "serve s mctx od (Some ?m) (Apply_Fence ?f) x = (Inr (Some r), x1)" and on: "mihomo_call\<^sup>*\<^sup>* (db x1) (db v)"
    unfolding answered_by_mihomo_def by blast
  have "\<not> Epochs (fr_minimum_grant_version ?f) (fr_minimum_owner_epoch ?f) (fr_minimum_consumer_epoch ?f)
      (fr_minimum_entry_epoch ?f) \<le> claims_epochs claims"
    using ticket(5) by (simp add: input_fence_def claims_epochs_def less_eq_epochs_def not_le)
  moreover have "jc_binding_ref claims = om_binding_ref ?m" "jc_consumer claims = fr_consumer_principal ?f"
    using ticket(3,4) by (simp_all add: fence_operation_def input_fence_def Let_def)
  ultimately show ?thesis
    using fenced_consumer_gets_no_key [OF served accepted x on v ticket(1,2)] ticket(6) by blast
qed

text \<open>C2: Revoking a consumer's grant in Account Center takes effect in the runtime service.  Once the
  revocation of an active grant has succeeded, with Account Center's own invalidator and the Mihomo
  service answering it, the runtime service hands out no auth key for a ticket of that consumer and
  binding that was issued at the grant's old version or before, whatever calls and failures follow.\<close>

theorem revoked_grant_gets_no_key:
  assumes revoke: "RevokeGrant (Some (InvalidateConsumerGrant env)) conflicts input now w = (Inr (g, actions), w')"
    and start: "base w = None" "account_ok (db w)"
    and grant: "find_grant (rg_binding_id input) (rg_consumer input) (db w) = Some g0" "IsGrantActive g0"
    and binding: "live_binding (rg_binding_id input) (db w) = Some b"
    and platform: "platform_is_mihomo env (db v)" "base v = None"
    and ticket: "presented_ticket ctx = Some raw"
      "parse_ticket (rc_library ctx) (rc_verifier ctx) verified_at raw serviceTicketAudience = Inr (claims, kind)"
      "jc_binding_ref claims = pb_binding_ref b" "jc_consumer claims = rg_consumer input"
      "jc_grant_version claims \<le> cg_ticket_version g0" "tv_authorization_state (rc_verifier ctx)"
  shows "\<exists>e. fst (GetAuthKey_rpc menv dr verified_at at ch ctx resource profileRef v) = Inl e"
proof (rule revocation_settles [OF revoke InvalidateConsumerGrant_reads start])
  fix b'
  assume "live_binding (rg_binding_id input) (db w) = Some b'"
    and stored: "find_grant (rg_binding_id input) (rg_consumer input) (db w') = Some g"
    and rev: "already_revoked g"
    and up: "\<And>g0. find_grant (rg_binding_id input) (rg_consumer input) (db w) = Some g0 \<Longrightarrow>
       IsGrantActive g0 \<Longrightarrow> cg_ticket_version g0 < cg_ticket_version g"
    and told: "platform_told (InvalidateConsumerGrant env) input b' g \<or> find_grant (rg_binding_id input) (rg_consumer input) (db w) = Some g"
  then have b: "b' = b" using binding by simp
  have "g0 \<noteq> g" using grant(2) already_revoked_inactive [OF rev] by blast
  with told grant(1) obtain epoch u w1 w2 where
    "InvalidateConsumerGrant env (invalidation_input b (rg_consumer input) (rg_actor_user_id input)
       (cg_ticket_version g) epoch) w1 = (Inr u, w2)"
    unfolding platform_told_def b by auto
  from told_platform_gives_no_key [OF this platform ticket(1,2)] ticket(3-6) up [OF grant]
  show ?thesis by (simp add: invalidation_input_def Let_def)
qed

definition acct_env :: "result_message \<Rightarrow> platform_environment" where
  "acct_env msg = \<lparr>pe_signer = Some (\<lambda>_ _ _ _. Inr (''ticket'', 0)),
     pe_dial = Some (\<lambda>_. Inr \<lparr>pc_mutate = (\<lambda>_ m request. if m = fence_message \<and> request = Apply_Fence sample_fence_request
        then Inr (Some msg) else Inl ErrPlatformServiceUnavailable),
      pc_resolve = (\<lambda>_ _. Inl ErrPlatformServiceUnavailable), pc_binding_state = (\<lambda>_ _. Inr None)\<rparr>),
     pe_sha256 = (\<lambda>m. m), pe_text = (\<lambda>_. '''')\<rparr>"

lemma acct_input:
  "gi_binding_ref (invalidation_input acct_granted_binding ''bot-a'' (Some 7) 3 0) = ''bind_1''"
  "gi_consumer (invalidation_input acct_granted_binding ''bot-a'' (Some 7) 3 0) = ''bot-a''"
  "gi_generation (invalidation_input acct_granted_binding ''bot-a'' (Some 7) 3 0) = 1"
  "gi_platform (invalidation_input acct_granted_binding ''bot-a'' (Some 7) 3 0) = ''mihomo''"
  "gi_platform_service_key (invalidation_input acct_granted_binding ''bot-a'' (Some 7) 3 0) = ''svc''"
  "gi_minimum_grant_version (invalidation_input acct_granted_binding ''bot-a'' (Some 7) 3 0) = 3"
  "gi_minimum_entry_epoch (invalidation_input acct_granted_binding ''bot-a'' (Some 7) 3 0) = 0"
  "gi_owner_user_id (invalidation_input acct_granted_binding ''bot-a'' (Some 7) 3 0) = 7"
  "gi_actor_type (invalidation_input acct_granted_binding ''bot-a'' (Some 7) 3 0) = ''user''"
  by (simp_all add: invalidation_input_def acct_granted_binding_def account_samples)

lemma acct_fence:
  "fence_operation (acct_env msg) (invalidation_input acct_granted_binding ''bot-a'' (Some 7) 3 0) = fence_message"
  by (simp add: fence_operation_def acct_input acct_env_def fence_message_def fence_fingerprint_def
      fence_operation_id_def fence_kind_def Let_def)

lemma acct_env_invalidates:
  assumes "rm_state msg = OPERATION_STATE_SUCCEEDED" "rm_operation msg = fence_message"
  shows "\<exists>cs. InvalidateConsumerGrant (acct_env msg) (invalidation_input acct_granted_binding ''bot-a'' (Some 7) 3 0)
     (account_world acct_revoked_db) = (Inr (), (account_world acct_revoked_db)\<lparr>calls := cs\<rparr>)"
proof -
  let ?i = "invalidation_input acct_granted_binding ''bot-a'' (Some 7) 3 0"
  note i = acct_input
  note acct_fence [of msg]
  moreover have "input_fence ?i = sample_fence_request" by (simp add: input_fence_def i sample_fence_request_def)
  moreover have "fenceable ?i" "fst (fence_actor ?i) = ''user''" by (simp_all add: fenceable_def fence_actor_def i)
  moreover have "getEnabledPlatformService ''mihomo'' ''svc'' (account_world acct_revoked_db) =
      (Inr (hd (ac_services acct_grant_db)), account_world acct_revoked_db :: platform_call aworld)"
    by (simp add: getEnabledPlatformService_def effect_simps acct_revoked_db_def save_grant_def acct_grant_db_def)
  moreover have "live_user 7 acct_revoked_db = Some acct_user"
    by (simp add: live_user_def acct_revoked_db_def save_grant_def acct_grant_db_def account_samples)
  ultimately show ?thesis
    using assms
    by (simp add: InvalidateConsumerGrant_def send_fence_def acct_env_def effect_simps i fence_accepted_def) blast
qed

lemma revoked_grant_gets_no_key_witness:
  "\<exists>e. fst (GetAuthKey_rpc sample_env sample_draws 0 0 sample_chance consumer_context (Some sample_resource) ''p1''
     (initial_world fenced_db)) = Inl e"
proof -
  obtain msg where m: "serve sample_control fence_context sample_op_draws (Some fence_message) (Apply_Fence sample_fence_request)
     (initial_world sealed_db) = (Inr (Some msg), initial_world fenced_db)" "rm_state msg = OPERATION_STATE_SUCCEEDED"
     "rm_operation msg = fence_message"
    by (rule sample_fence_serve)
  have "find_operation (om_operation_id fence_message) (db (initial_world sealed_db)) = None"
    by (simp add: find_operation_def sealed_db_def sample_db_def empty_mihomo_db_def)
  moreover have "base (initial_world sealed_db) = None" by simp
  ultimately have "answered_by_mihomo fence_message sample_fence_request msg (db (initial_world fenced_db))"
    using m(1) unfolding answered_by_mihomo_def by (metis initial_world_simps(1) rtranclp.rtrancl_refl)
  then have p: "platform_is_mihomo (acct_env msg) (db (initial_world fenced_db))"
    by (auto simp: platform_is_mihomo_def acct_env_def split: if_splits)
  from acct_env_invalidates [OF m(2,3)] obtain cs where
    "InvalidateConsumerGrant (acct_env msg) (invalidation_input acct_granted_binding ''bot-a'' (Some 7) 3 0)
     (account_world acct_revoked_db) = (Inr (), (account_world acct_revoked_db)\<lparr>calls := cs\<rparr>)" by blast
  note run = acct_revoke_runs [of "InvalidateConsumerGrant (acct_env msg)", OF this]
  have grant: "find_grant (rg_binding_id acct_revoke) (rg_consumer acct_revoke) (db (account_world acct_grant_db)) = Some acct_grant"
    "IsGrantActive acct_grant" "live_binding (rg_binding_id acct_revoke) (db (account_world acct_grant_db)) = Some acct_granted_binding"
    by (simp_all add: find_grant_def live_binding_def IsGrantActive_def acct_grant_samples account_samples)
  show ?thesis
    by (rule revoked_grant_gets_no_key [OF run _ _ grant p _ consumer_ticket(1,2)])
       (use consumer_ticket in \<open>simp_all add: acct_grant_ok acct_granted_binding_def account_samples acct_revoke_def
         acct_grant_def consumer_jwt_def sample_claims_def\<close>)
qed

section \<open>A failed fence\<close>

text \<open>The platform answers a fence as the Mihomo service does at some time after its tables were \<open>d\<close>.\<close>

definition fences_served_after :: "platform_environment \<Rightarrow> mihomo_db \<Rightarrow> bool" where
  "fences_served_after env d \<longleftrightarrow> (\<forall>dial endpoint conn token m fence msg. pe_dial env = Some dial \<longrightarrow>
     dial endpoint = Inr conn \<longrightarrow> pc_mutate conn token m (Apply_Fence fence) = Inr (Some msg) \<longrightarrow>
     (\<exists>s (ctx :: string request_context) od y y1. base y = None \<and> mihomo_call\<^sup>*\<^sup>* d (db y) \<and>
        serve s ctx od (Some m) (Apply_Fence fence) y = (Inr (Some msg), y1)))"

text \<open>C5: A fence that failed once never succeeds.  The operation id of a fence is a digest of its
  minima alone, so every later try of the same invalidation names the operation that the Mihomo
  service has recorded as failed, is answered with that record, and is reported as an error.\<close>

theorem failed_fence_is_final:
  assumes row: "find_operation (om_operation_id (fence_operation env input)) d = Some row" "row_state row = ''failed''"
    and ids: "operation_ids_unique d" and platform: "fences_served_after env d"
  shows "\<exists>e. fst (InvalidateConsumerGrant env input w) = Inl e"
proof (rule ccontr)
  let ?m = "fence_operation env input" and ?f = "input_fence input"
  assume "\<not> ?thesis"
  then obtain u w' where "InvalidateConsumerGrant env input w = (Inr u, w')" by (metis prod.collapse sum.exhaust)
  then show False
  proof (rule InvalidateConsumerGrant_InrE)
    fix dial endpoint conn token r
    assume "pe_dial env = Some dial" "dial endpoint = Inr conn" "pc_mutate conn token ?m (Apply_Fence ?f) = Inr (Some r)"
      and accepted: "rm_state r = OPERATION_STATE_SUCCEEDED"
    with platform obtain s od y y1 and ctx :: "string request_context" where y: "base y = None" "mihomo_call\<^sup>*\<^sup>* d (db y)"
      and served: "serve s ctx od (Some ?m) (Apply_Fence ?f) y = (Inr (Some r), y1)"
      unfolding fences_served_after_def by blast
    from failed_operation_answer [OF row ids y(2,1) served] accepted show False by simp
  qed
qed

lemma failed_fence_is_final_witness:
  "\<exists>msg e. serve sample_control fence_context sample_op_draws (Some fence_message) (Apply_Fence sample_fence_request)
       (initial_world failed_fence_db) = (Inr (Some msg), initial_world failed_fence_db) \<and>
     fst (InvalidateConsumerGrant (acct_env msg) (invalidation_input acct_granted_binding ''bot-a'' (Some 7) 3 0)
       (account_world acct_revoked_db)) = Inl e"
proof -
  obtain msg where m: "serve sample_control fence_context sample_op_draws (Some fence_message)
      (Apply_Fence sample_fence_request) (initial_world failed_fence_db) = (Inr (Some msg), initial_world failed_fence_db)"
    by (rule failed_fence_serve)
  have "base (initial_world failed_fence_db) = None" "mihomo_call\<^sup>*\<^sup>* failed_fence_db (db (initial_world failed_fence_db))"
    by simp_all
  with m have served: "\<exists>s (ctx :: string request_context) od y y1. base y = None \<and> mihomo_call\<^sup>*\<^sup>* failed_fence_db (db y) \<and>
      serve s ctx od (Some fence_message) (Apply_Fence sample_fence_request) y = (Inr (Some msg), y1)"
    by blast
  have "fences_served_after (acct_env msg) failed_fence_db"
    unfolding fences_served_after_def
  proof (intro allI impI)
    fix dial endpoint conn token m fence msg'
    assume "pe_dial (acct_env msg) = Some dial" "dial endpoint = Inr conn"
      "pc_mutate conn token m (Apply_Fence fence) = Inr (Some msg')"
    then have "m = fence_message" "fence = sample_fence_request" "msg' = msg"
      by (auto simp: acct_env_def split: if_splits)
    with served show "\<exists>s (ctx :: string request_context) od y y1. base y = None \<and> mihomo_call\<^sup>*\<^sup>* failed_fence_db (db y) \<and>
      serve s ctx od (Some m) (Apply_Fence fence) y = (Inr (Some msg'), y1)" by simp
  qed
  with failed_fence_is_final [OF failed_fence_ledger(1) [folded acct_fence [of msg]] failed_fence_ledger(2,3)] m
  show ?thesis by blast
qed

section \<open>Repairing a failed deletion\<close>

text \<open>Account Center's platform is the Mihomo service behind its middleware, reading tickets with \<open>lib\<close>.\<close>

definition mutations_by_mihomo :: "platform_environment \<Rightarrow> string jwt_library \<Rightarrow> bool" where
  "mutations_by_mihomo env lib \<longleftrightarrow> (\<forall>dial endpoint conn token m request r. pe_dial env = Some dial \<longrightarrow>
     dial endpoint = Inr conn \<longrightarrow> pc_mutate conn token m request = Inr (Some r) \<longrightarrow>
     (\<exists>names op s ctx od x x1. isProtectedPlatformOperation names op \<and> presented_ticket ctx = Some token \<and>
        rc_library ctx = lib \<and>
        ServiceTicketMiddleware names (Some op) ctx (\<lambda>ctx. serve s ctx od (Some m) request) x = (Inr (Some r), x1)))"

lemma served_ticket_type:
  assumes run: "ServiceTicketMiddleware names (Some op) ctx (\<lambda>ctx. serve s ctx od operation request) w = (Inr out, w')"
    and op: "isProtectedPlatformOperation names op" and shown: "presented_ticket ctx = Some token"
    and decoded: "jwt_decode (rc_library ctx) token = Some tok"
  shows "tok_typ tok = Some TypeControl"
proof -
  from run op obtain claims w1 where
    v: "verifyIncomingServiceTicket ctx w = (Inr claims, w1)"
    and h: "serve s (ctx\<lparr>rc_verified_claims := Some claims\<rparr>) od operation request w1 = (Inr out, w')"
    by (rule middleware_InrE)
  from h obtain ref claims' u where
    "authorizeOperation (ct_codec s) (ctx\<lparr>rc_verified_claims := Some claims\<rparr>) operation (mutation_kind request)
      (mutation_action request) (mutation_account request) (mutation_fingerprint s operation request) w1
      = (Inr (ref, claims'), u)"
    by (rule serve_InrE)
  then have "authorizeTicketActionForScope (ctx\<lparr>rc_verified_claims := Some claims\<rparr>) (mutation_action request) True
      (mutation_kind request \<noteq> OPERATION_KIND_SET_PRIMARY_PROFILE) w1 = (Inr claims', u)"
    by (rule authorizeOperation_InrE)
  then have "tc_ticket_type claims = TypeControl"
    by (auto elim!: authorize_InrE simp: serviceTicketClaims_def effect_simps)
  moreover from v shown have "VerifyContext (rc_library ctx) (rc_verifier ctx) (rc_now ctx) token serviceTicketAudience w = (Inr claims, w1)"
    by (auto elim!: verifyIncoming_InrE)
  then obtain c kind where "parse_ticket (rc_library ctx) (rc_verifier ctx) (rc_now ctx) token serviceTicketAudience = Inr (c, kind)"
    "claims = verified_claims kind serviceTicketAudience c"
    by (rule VerifyContext_InrE)
  moreover from this(1) decoded have "tok_typ tok = Some kind"
    by (auto simp: parse_ticket_def ticket_key_def split: option.splits sum.splits prod.splits if_splits)
  ultimately show ?thesis by (simp add: verified_claims_def)
qed

text \<open>A ticket issued in the name of a consumer is a delegation ticket.\<close>

lemma consumer_ticket_type:
  assumes "IssueBindingScopedOperationTicket env ''consumer'' ai b i scopes w = (Inr (token, expires), w')"
    and "pe_signer env = Some (file_signer issuer sign now random)"
  obtains tok where "sign tok = Some token" "tok_typ tok = Some TypeDelegation"
proof -
  from assms obtain sub aud cl where "file_signer issuer sign now random TypeDelegation sub aud cl = Inr (token, expires)"
    unfolding IssueBindingScopedOperationTicket_def issueBindingScopedTicket_def
    by (auto elim!: andThen_InrE lift_result_InrE raise_InrE simp: ticketTypeForActor_def split: if_splits)
  then obtain tok where "Issue issuer now random TypeDelegation sub aud cl = Some (tok, expires)" "sign tok = Some token"
    by (auto simp: file_signer_def split: option.splits prod.splits)
  moreover from this(1) have "tok_typ tok = Some TypeDelegation"
    by (auto simp: Issue_def Let_def split: option.splits if_splits)
  ultimately show thesis using that by blast
qed

lemma fails_or_else:
  assumes "\<And>e. fails (failed e)" "\<And>x w w'. m w = (Inr x, w') \<Longrightarrow> fails (k x)"
  shows "fails (or_else m failed k)"
  unfolding fails_def
proof
  fix w
  obtain r w1 where run: "m w = (r, w1)" by (metis surj_pair)
  show "\<exists>e. fst (or_else m failed k w) = Inl e"
    using assms(1) assms(2) [of w] run by (cases r) (auto simp: or_else_def effect_simps fails_def)
qed

lemma delivery_error_fails: "fails (handleNonSensitiveCredentialDeliveryError oc b reference err)"
  unfolding handleNonSensitiveCredentialDeliveryError_def delivery_outcome_unknown_def delivery_refused_def Let_def
  by (intro fails_rules)

lemma delegated_delete_fails:
  assumes signer: "pe_signer (oc_platform oc) = Some (file_signer issuer sign signed_at random)"
    and lib: "\<forall>tok raw. sign tok = Some raw \<longrightarrow> jwt_decode lib raw = Some tok"
    and platform: "mutations_by_mihomo (oc_platform oc) lib"
  shows "fails (delete_remotely oc b ''consumer'' ai reference endpoint)"
proof -
  have "fails (or_else (gateway_DeleteCredential (oc_platform oc) endpoint token i b) failed k)"
    if "sign tok = Some token" "tok_typ tok = Some TypeDelegation" "\<And>e. fails (failed e)" for token tok i failed and k :: "unit \<Rightarrow> (platform_call, unit) aeff"
  proof (rule fails_or_else [OF that(3)])
    fix x and w w' :: "platform_call aworld"
    assume "gateway_DeleteCredential (oc_platform oc) endpoint token i b w = (Inr x, w')"
    then obtain dial conn m r request where "pe_dial (oc_platform oc) = Some dial" "dial endpoint = Inr conn"
      "pc_mutate conn token m request = Inr (Some r)"
      unfolding gateway_DeleteCredential_def Let_def
      by (auto elim!: andThen_InrE lift_result_InrE control_call_InrE succeeded_result)
    from platform [unfolded mutations_by_mihomo_def, rule_format, OF this]
    obtain names op s ctx od y y1 where "isProtectedPlatformOperation names op"
      "presented_ticket ctx = Some token" "rc_library ctx = lib"
      "ServiceTicketMiddleware names (Some op) ctx (\<lambda>ctx. serve s ctx od (Some m) request) y = (Inr (Some r), y1)"
      by blast
    with lib that(1) have "tok_typ tok = Some TypeControl" by (metis served_ticket_type)
    with that(2) show "fails (k x)" by (simp add: TypeControl_def TypeDelegation_def)
  qed
  then have delivered: "fails (or_else (gateway_DeleteCredential (oc_platform oc) endpoint token i b)
      (handleNonSensitiveCredentialDeliveryError oc b reference) k)"
    if "sign tok = Some token" "tok_typ tok = Some TypeDelegation" for token tok i and k :: "unit \<Rightarrow> (platform_call, unit) aeff"
    using that delivery_error_fails by blast
  show ?thesis
    unfolding delete_remotely_def Let_def
  proof (rule fails_or_else)
    show "fails (reschedule_pending oc (or_operation_id reference) b)"
      unfolding reschedule_pending_def by (intro fails_rules)
    fix x and w w' :: "platform_call aworld"
    assume issued: "IssueBindingScopedOperationTicket (oc_platform oc) ''consumer'' ai b (or_operation_id reference)
      [MihomoCredentialDelete] w = (Inr x, w')"
    obtain token expires where x: "x = (token, expires)" by (cases x)
    obtain tok where "sign tok = Some token" "tok_typ tok = Some TypeDelegation"
      by (rule consumer_ticket_type [OF issued [unfolded x] signer])
    then show "fails (case x of (ticket, _) \<Rightarrow> or_else
        (gateway_DeleteCredential (oc_platform oc) endpoint ticket (or_operation_id reference) b)
        (handleNonSensitiveCredentialDeliveryError oc b reference)
        (\<lambda>_. andThen (markCredentialProjectionPending oc (or_operation_id reference)) (\<lambda>_.
             andThen (delete_projection oc (pb_id b)) (\<lambda>_. completeCredentialOperation oc (or_operation_id reference)))))"
      unfolding x prod.case by (rule delivered)
  qed
qed


text \<open>A signer whose tickets the library reads back, and a platform that refuses them.\<close>

definition delegated_token :: jwt_token where
  "delegated_token = \<lparr>tok_alg = AlgorithmEd25519, tok_kid = Some ''k1'', tok_typ = Some TypeDelegation, tok_claims = no_claims\<rparr>"

definition repair_sign :: "jwt_token \<Rightarrow> string option" where
  "repair_sign tok = (if tok = delegated_token then Some ''t'' else None)"

definition repair_oc :: orchestration where
  "repair_oc = acct_oc\<lparr>oc_random := Some ''random'', oc_platform := (oc_platform acct_oc)
     \<lparr>pe_signer := Some (file_signer sample_issuer repair_sign 0 (Some ''xyz'')),
      pe_dial := Some (\<lambda>_. Inr (acct_connection\<lparr>pc_mutate := (\<lambda>_ _ _. Inl ErrPlatformServiceUnavailable)\<rparr>))\<rparr>\<rparr>"

definition repair_library :: "string jwt_library" where
  "repair_library = sample_library\<lparr>jwt_decode := (\<lambda>raw. if raw = ''t'' then Some delegated_token else None)\<rparr>"

definition stuck_binding :: account_binding where
  "stuck_binding = acct_binding\<lparr>pb_status := DeleteFailed, pb_status_reason_code := ''credential_delete_failed''\<rparr>"

definition repair_db :: account_db where
  "repair_db = (acct_waiting_db acct_uncertain)\<lparr>ac_intents := [], ac_outbox := [], ac_bindings := [stuck_binding]\<rparr>"


end
